(* ===== verification/Prelude.thy ===== *)
theory Prelude
  imports Main
begin

text \<open>
  Shared vocabulary of the development.  JavaScript values that the code keeps as BN or Number
  integers are \<^typ>\<open>int\<close>, Ethereum addresses are \<^typ>\<open>nat\<close> (0 is the zero address), a thrown
  exception or an EVM revert is a value of \<open>js_error\<close>.  Two ways of sequencing occur:
  \<open>rbind\<close> sequences pure computations that may fail (Solidity view functions, SafeMath), and
  \<open>jbind\<close> sequences asynchronous JavaScript code, which also changes a world and keeps the
  changes made before an exception.  \<open>jfor\<close> is the \<open>for (const x of xs)\<close> loop that pushes one
  result per iteration.
\<close>

named_theorems monad_simps \<open>equations that run the two monads\<close>

type_synonym address = nat

datatype js_error =
    TypeError
  | ReferenceError
  | Thrown string
  | Revert string
  | InvalidOpcode
  | AssertionError string

section \<open>Results\<close>

type_synonym 'a res = "js_error + 'a"

definition rbind :: "'a res \<Rightarrow> ('a \<Rightarrow> 'b res) \<Rightarrow> 'b res" where
  "rbind m f = (case m of Inl e \<Rightarrow> Inl e | Inr x \<Rightarrow> f x)"

definition require :: "bool \<Rightarrow> string \<Rightarrow> unit res" where
  "require b msg = (if b then Inr () else Inl (Revert msg))"

definition sol_assert :: "bool \<Rightarrow> unit res" where
  "sol_assert b = (if b then Inr () else Inl InvalidOpcode)"

fun is_ok :: "'a res \<Rightarrow> bool" where
  "is_ok (Inl e) = False"
| "is_ok (Inr x) = True"

section \<open>The asynchronous JavaScript monad\<close>

type_synonym ('w, 'a) js = "'w \<Rightarrow> 'a res \<times> 'w"

definition jret :: "'a \<Rightarrow> ('w, 'a) js" where
  "jret x w = (Inr x, w)"

definition jthrow :: "js_error \<Rightarrow> ('w, 'a) js" where
  "jthrow e w = (Inl e, w)"

definition jbind :: "('w, 'a) js \<Rightarrow> ('a \<Rightarrow> ('w, 'b) js) \<Rightarrow> ('w, 'b) js" where
  "jbind m f w = (case m w of (Inl e, w') \<Rightarrow> (Inl e, w') | (Inr x, w') \<Rightarrow> f x w')"

definition jlift :: "'a res \<Rightarrow> ('w, 'a) js" where
  "jlift r w = (r, w)"

definition jread :: "('w \<Rightarrow> 'a res) \<Rightarrow> ('w, 'a) js" where
  "jread f w = (f w, w)"

definition jmodify :: "('w \<Rightarrow> 'w) \<Rightarrow> ('w, unit) js" where
  "jmodify f w = (Inr (), f w)"

text \<open>Observing a rejection instead of propagating it (a promise that is not awaited, or \<open>try\<close>).\<close>

definition jtry :: "('w, 'a) js \<Rightarrow> ('w, 'a res) js" where
  "jtry m w = (case m w of (r, w') \<Rightarrow> (Inr r, w'))"

fun jfor :: "('x \<Rightarrow> ('w, 'a) js) \<Rightarrow> 'x list \<Rightarrow> ('w, 'a list) js" where
  "jfor body [] = jret []"
| "jfor body (x # xs) =
     jbind (body x) (\<lambda>y. jbind (jfor body xs) (\<lambda>ys. jret (y # ys)))"

section \<open>Lemmas on results\<close>

lemma rbind_simps [simp, monad_simps]:
  "rbind (Inl e) f = Inl e"
  "rbind (Inr x) f = f x"
  by (simp_all add: rbind_def)

lemma rbind_assoc: "rbind (rbind m f) g = rbind m (\<lambda>x. rbind (f x) g)"
  by (cases m) simp_all

lemma rbind_Inr_iff:
  "rbind m f = Inr y \<longleftrightarrow> (\<exists>x. m = Inr x \<and> f x = Inr y)"
  by (cases m) simp_all

lemma rbindE:
  assumes "rbind m f = Inr y"
  obtains x where "m = Inr x" and "f x = Inr y"
  using assms by (auto simp: rbind_Inr_iff)

lemma rbind_cong [fundef_cong]:
  "m = m' \<Longrightarrow> (\<And>x. m' = Inr x \<Longrightarrow> f x = f' x) \<Longrightarrow> rbind m f = rbind m' f'"
  by (cases m') simp_all

lemma rbind_weak_cong: "m = m' \<Longrightarrow> rbind m f = rbind m' f"
  by simp

lemma require_simps [simp, monad_simps]:
  "require True msg = Inr ()"
  "require False msg = Inl (Revert msg)"
  by (simp_all add: require_def)

lemma require_Inr_iff [simp]: "require b msg = Inr u \<longleftrightarrow> b"
  by (simp add: require_def)

lemma sol_assert_simps [simp, monad_simps]:
  "sol_assert True = Inr ()"
  "sol_assert False = Inl InvalidOpcode"
  by (simp_all add: sol_assert_def)

lemma sol_assert_Inr_iff [simp]: "sol_assert b = Inr u \<longleftrightarrow> b"
  by (simp add: sol_assert_def)

section \<open>Lemmas on the JavaScript monad\<close>

lemma jret_apply [simp, monad_simps]: "jret x w = (Inr x, w)"
  by (simp add: jret_def)

lemma jthrow_apply [simp, monad_simps]: "jthrow e w = (Inl e, w)"
  by (simp add: jthrow_def)

lemma jlift_apply [simp, monad_simps]: "jlift r w = (r, w)"
  by (simp add: jlift_def)

lemma jread_apply [simp, monad_simps]: "jread f w = (f w, w)"
  by (simp add: jread_def)

lemma jmodify_apply [simp, monad_simps]: "jmodify f w = (Inr (), f w)"
  by (simp add: jmodify_def)

lemma jbind_run [monad_simps]:
  "m w = (Inr x, w') \<Longrightarrow> jbind m f w = f x w'"
  "m w = (Inl e, w') \<Longrightarrow> jbind m f w = (Inl e, w')"
  by (simp_all add: jbind_def)

lemma jbind_ret [simp]: "jbind (jret x) f = f x"
  by (rule ext) (simp add: jbind_def)

lemma jbind_throw [simp]: "jbind (jthrow e) f = jthrow e"
  by (rule ext) (simp add: jbind_def jthrow_def)

lemma jbind_Pair [simp]:
  "jbind (Pair (Inr x)) f = f x"
  "jbind (Pair (Inl e)) f = Pair (Inl e)"
  by (rule ext, simp add: jbind_def)+

lemma jbind_assoc: "jbind (jbind m f) g = jbind m (\<lambda>x. jbind (f x) g)"
  by (rule ext) (auto simp: jbind_def split: prod.splits sum.splits)

lemma jbind_Inr_iff:
  "jbind m f w = (Inr y, w'') \<longleftrightarrow> (\<exists>x w'. m w = (Inr x, w') \<and> f x w' = (Inr y, w''))"
  by (auto simp: jbind_def split: prod.splits sum.splits)

lemma jbind_Inl_iff:
  "jbind m f w = (Inl e, w'') \<longleftrightarrow>
     m w = (Inl e, w'') \<or> (\<exists>x w'. m w = (Inr x, w') \<and> f x w' = (Inl e, w''))"
  by (auto simp: jbind_def split: prod.splits sum.splits)

lemma jbind_InrE:
  assumes "jbind m f w = (Inr y, w'')"
  obtains x w' where "m w = (Inr x, w')" and "f x w' = (Inr y, w'')"
  using assms by (auto simp: jbind_Inr_iff)

lemma jfor_InrE:
  assumes "jfor body (x # xs) w = (Inr zs, w'')"
  obtains y ys w' where "body x w = (Inr y, w')" and "jfor body xs w' = (Inr ys, w'')"
    and "zs = y # ys"
  using assms by (auto simp: jbind_Inr_iff)

text \<open>A loop that ends normally has pushed exactly one result per element.\<close>

lemma jfor_length: "jfor body xs w = (Inr ys, w') \<Longrightarrow> length ys = length xs"
proof (induction xs arbitrary: ys w)
  case Nil
  then show ?case by simp
next
  case (Cons x xs)
  from Cons.prems show ?case
    by (rule jfor_InrE) (auto dest: Cons.IH)
qed

text \<open>A loop splits at any point of its list.\<close>

lemma jfor_append:
  "jfor body (xs @ ys) =
     jbind (jfor body xs) (\<lambda>as. jbind (jfor body ys) (\<lambda>bs. jret (as @ bs)))"
proof (induction xs)
  case Nil
  then show ?case by (auto simp: fun_eq_iff jbind_def split: prod.splits sum.splits)
next
  case (Cons x xs)
  then show ?case by (simp add: jbind_assoc)
qed

text \<open>
  The invariant rule of the loop: whether it ends normally or by an exception, a property of
  the world that every iteration keeps holds at its end.
\<close>

lemma jfor_invariant:
  assumes step: "\<And>x w. x \<in> set xs \<Longrightarrow> P w \<Longrightarrow> P (snd (body x w))"
    and start: "P w"
  shows "P (snd (jfor body xs w))"
  using assms
proof (induction xs arbitrary: w)
  case Nil
  then show ?case by simp
next
  case (Cons x xs)
  obtain r w' where bx: "body x w = (r, w')" by (cases "body x w")
  with Cons.prems(1)[of x w] Cons.prems(2) have "P w'" by simp
  with Cons.IH[of w'] Cons.prems(1) have "P (snd (jfor body xs w'))" by simp
  then show ?case
    using bx \<open>P w'\<close> by (cases r) (auto simp: jbind_def split: prod.splits sum.splits)
qed

text \<open>
  The refinement rule of the loop: if every iteration appends exactly \<open>f x\<close> to an observed
  list, a loop that ends normally appends the concatenation, in order.
\<close>

lemma jfor_appends:
  assumes "jfor body xs w = (Inr ys, w')"
    and "\<And>x v y v'. x \<in> set xs \<Longrightarrow> body x v = (Inr y, v') \<Longrightarrow>
           \<exists>ts. obs v' = obs v @ ts \<and> Q x ts"
  shows "\<exists>tss. obs w' = obs w @ concat tss \<and> list_all2 Q xs tss"
  using assms
proof (induction xs arbitrary: w ys)
  case Nil
  then show ?case by (intro exI[of _ "[]"]) simp
next
  case (Cons x xs)
  from Cons.prems(1) obtain y ys' v where b: "body x w = (Inr y, v)"
    and r: "jfor body xs v = (Inr ys', w')"
    by (rule jfor_InrE)
  from Cons.prems(2)[OF _ b] obtain ts where ts: "obs v = obs w @ ts" "Q x ts" by auto
  from Cons.IH[OF r] Cons.prems(2) obtain tss
    where tss: "obs w' = obs v @ concat tss" "list_all2 Q xs tss" by auto
  show ?case
    using ts tss by (intro exI[of _ "ts # tss"]) simp
qed

end
