(* ===== verification/Helper_Events.thy ===== *)
theory Helper_Events
  imports Js_String
begin

text \<open>
  Reading transaction logs (\<open>testHelpers.js\<close>): a log has an event name and an \<open>args\<close> object, whose
  keys are the decimal positions and the parameter names, in insertion order; a missing property is
  undefined (\<open>None\<close>).  Every search is a left-to-right scan that throws a string when nothing
  matches.
\<close>

record 'v log =
  event :: string
  args :: "(string \<times> 'v) list"

record 'v tx =
  gas_used :: int
  tx_status :: bool
  block_number :: nat
  logs :: "'v log list"

definition arg_at :: "'v log \<Rightarrow> nat \<Rightarrow> 'v option" where
  "arg_at l i = map_of (args l) (show_nat i)"

section \<open>Operations\<close>

fun scan_redemption :: "'v log list \<Rightarrow> ('v option \<times> 'v option \<times> 'v option \<times> 'v option) res" where
  "scan_redemption [] = Inl (Thrown ''The transaction logs do not contain a redemption event'')"
| "scan_redemption (l # ls) =
     (if event l = ''Redemption'' then Inr (arg_at l 0, arg_at l 1, arg_at l 2, arg_at l 3)
      else scan_redemption ls)"

definition getEmittedRedemptionValues ::
  "'v tx \<Rightarrow> ('v option \<times> 'v option \<times> 'v option \<times> 'v option) res" where
  "getEmittedRedemptionValues redemptionTx = scan_redemption (logs redemptionTx)"

fun scan_liquidation :: "'v log list \<Rightarrow> ('v option \<times> 'v option \<times> 'v option \<times> 'v option) res" where
  "scan_liquidation [] = Inl (Thrown ''The transaction logs do not contain a liquidation event'')"
| "scan_liquidation (l # ls) =
     (if event l = ''Liquidation'' then Inr (arg_at l 0, arg_at l 1, arg_at l 2, arg_at l 3)
      else scan_liquidation ls)"

definition getEmittedLiquidationValues ::
  "'v tx \<Rightarrow> ('v option \<times> 'v option \<times> 'v option \<times> 'v option) res" where
  "getEmittedLiquidationValues liquidationTx = scan_liquidation (logs liquidationTx)"

fun scan_arg :: "string \<Rightarrow> string \<Rightarrow> nat \<Rightarrow> 'v log list \<Rightarrow> 'v option res" where
  "scan_arg msg name i [] = Inl (Thrown msg)"
| "scan_arg msg name i (l # ls) =
     (if event l = name then Inr (arg_at l i) else scan_arg msg name i ls)"

definition getLiquidationEventArg :: "'v tx \<Rightarrow> nat \<Rightarrow> 'v option res" where
  "getLiquidationEventArg liquidationTx i =
     scan_arg ''The transaction logs do not contain a liquidation event'' ''Liquidation'' i
       (logs liquidationTx)"

definition getEmittedLiquidatedDebt :: "'v tx \<Rightarrow> 'v option res" where
  "getEmittedLiquidatedDebt liquidationTx = getLiquidationEventArg liquidationTx 0"

definition getEmittedLiquidatedColl :: "'v tx \<Rightarrow> 'v option res" where
  "getEmittedLiquidatedColl liquidationTx = getLiquidationEventArg liquidationTx 1"

definition getEmittedGasComp :: "'v tx \<Rightarrow> 'v option res" where
  "getEmittedGasComp liquidationTx = getLiquidationEventArg liquidationTx 2"

text \<open>\<open>args[1].toString()\<close> throws a TypeError when the property is undefined.\<close>

definition getUSDDFeeFromUSDDBorrowingEvent :: "('v \<Rightarrow> string) \<Rightarrow> 'v tx \<Rightarrow> string res" where
  "getUSDDFeeFromUSDDBorrowingEvent toString t =
     rbind (scan_arg ''The transaction logs do not contain an USDDBorrowingFeePaid event''
              ''USDDBorrowingFeePaid'' 1 (logs t))
       (\<lambda>v. case v of None \<Rightarrow> Inl TypeError | Some x \<Rightarrow> Inr (toString x))"

definition getEventArgByIndex :: "'v tx \<Rightarrow> string \<Rightarrow> nat \<Rightarrow> 'v option res" where
  "getEventArgByIndex t eventName argIndex =
     scan_arg (''The transaction logs do not contain event '' @ eventName) eventName argIndex (logs t)"

fun find_key :: "string \<Rightarrow> (string \<times> 'v) list \<Rightarrow> 'v option" where
  "find_key k [] = None"
| "find_key k ((k', v) # kvs) = (if k' = k then Some v else find_key k kvs)"

fun scan_named :: "string \<Rightarrow> string \<Rightarrow> string \<Rightarrow> 'v log list \<Rightarrow> 'v res" where
  "scan_named msg name argName [] = Inl (Thrown msg)"
| "scan_named msg name argName (l # ls) =
     (if event l = name
      then (case find_key argName (args l) of Some v \<Rightarrow> Inr v | None \<Rightarrow> scan_named msg name argName ls)
      else scan_named msg name argName ls)"

definition getEventArgByName :: "'v tx \<Rightarrow> string \<Rightarrow> string \<Rightarrow> 'v res" where
  "getEventArgByName t eventName argName =
     scan_named (''The transaction logs do not contain event '' @ eventName @ '' and arg '' @ argName)
       eventName argName (logs t)"

fun collect_events :: "string \<Rightarrow> 'v log list \<Rightarrow> 'v log list \<Rightarrow> 'v log list" where
  "collect_events name events [] = events"
| "collect_events name events (l # ls) =
     collect_events name (if event l = name then events @ [l] else events) ls"

definition getAllEventsByName :: "'v tx \<Rightarrow> string \<Rightarrow> 'v log list" where
  "getAllEventsByName t eventName = collect_events eventName [] (logs t)"

definition getDebtAndCollFromTroveUpdatedEvents ::
  "'v log list \<Rightarrow> 'v \<Rightarrow> ('v option \<times> 'v option) res" where
  "getDebtAndCollFromTroveUpdatedEvents troveUpdatedEvents addr =
     (case filter (\<lambda>e. arg_at e 0 = Some addr) troveUpdatedEvents of
        [] \<Rightarrow> Inl TypeError
      | e # _ \<Rightarrow> Inr (arg_at e 1, arg_at e 2))"

section \<open>Facts\<close>

lemma collect_events_eq: "collect_events name events ls = events @ filter (\<lambda>l. event l = name) ls"
  by (induction ls arbitrary: events) simp_all

lemma getAllEventsByName_eq: "getAllEventsByName t name = filter (\<lambda>l. event l = name) (logs t)"
  by (simp add: getAllEventsByName_def collect_events_eq)

lemma scan_arg_eq:
  "scan_arg msg name i ls =
     (case filter (\<lambda>l. event l = name) ls of [] \<Rightarrow> Inl (Thrown msg) | l # _ \<Rightarrow> Inr (arg_at l i))"
  by (induction ls) simp_all

lemma scan_liquidation_eq:
  "scan_liquidation ls =
     (case filter (\<lambda>l. event l = ''Liquidation'') ls of
        [] \<Rightarrow> Inl (Thrown ''The transaction logs do not contain a liquidation event'')
      | l # _ \<Rightarrow> Inr (arg_at l 0, arg_at l 1, arg_at l 2, arg_at l 3))"
  by (induction ls) simp_all

lemma find_key_map_of: "find_key k kvs = map_of kvs k"
  by (induction kvs) auto

lemma scan_named_eq:
  "scan_named msg name k ls =
     (case filter (\<lambda>l. map_of (args l) k \<noteq> None) (filter (\<lambda>l. event l = name) ls) of
        [] \<Rightarrow> Inl (Thrown msg)
      | l # _ \<Rightarrow> Inr (the (map_of (args l) k)))"
  by (induction ls) (auto simp: find_key_map_of split: option.splits)

section \<open>Properties\<close>

text \<open>
  The liquidation accessors agree with each other and with the log: all of them read the first
  log called Liquidation, component by component, in the order debt, collateral, collateral
  compensation; and they throw exactly when \<open>getAllEventsByName\<close> finds no such log.
\<close>

theorem liquidation_accessors_agree:
  "(case getAllEventsByName t ''Liquidation'' of
      [] \<Rightarrow> \<not> is_ok (getEmittedLiquidationValues t) \<and> \<not> is_ok (getEmittedLiquidatedDebt t) \<and>
           \<not> is_ok (getEmittedLiquidatedColl t) \<and> \<not> is_ok (getEmittedGasComp t)
    | l # _ \<Rightarrow>
        getEmittedLiquidationValues t = Inr (arg_at l 0, arg_at l 1, arg_at l 2, arg_at l 3) \<and>
        getEmittedLiquidatedDebt t = Inr (arg_at l 0) \<and> getEmittedLiquidatedColl t = Inr (arg_at l 1) \<and>
        getEmittedGasComp t = Inr (arg_at l 2))"
  by (auto simp: getAllEventsByName_eq getEmittedLiquidationValues_def scan_liquidation_eq
      getEmittedLiquidatedDebt_def getEmittedLiquidatedColl_def getEmittedGasComp_def
      getLiquidationEventArg_def scan_arg_eq split: list.splits)

text \<open>
  \<open>getEventArgByName\<close> returns the named argument of the first matching log that has it: earlier
  logs of the same event without the argument are skipped, and it throws exactly when no log of
  that event carries the argument.
\<close>

theorem getEventArgByName_first_match:
  "getEventArgByName t name k =
     (case filter (\<lambda>l. map_of (args l) k \<noteq> None) (getAllEventsByName t name) of
        [] \<Rightarrow> Inl (Thrown (''The transaction logs do not contain event '' @ name @ '' and arg '' @ k))
      | l # _ \<Rightarrow> Inr (the (map_of (args l) k)))"
  by (simp only: getEventArgByName_def scan_named_eq getAllEventsByName_eq)

end
