(* ===== verification/BN_Converter.thy ===== *)
theory BN_Converter
  imports Js_String
begin

text \<open>
  \<open>packages/contracts/utils/BNConverter.js\<close>: converting decimal strings to integers scaled by a
  power of ten, and back.  The packages decimal.js and bn.js are not part of the repository: their
  constructors are arguments of the definitions (\<open>decimal_ok\<close>: does \<open>new Decimal(s)\<close> accept
  the string; \<open>bn_new\<close>: \<open>new BN(s, 10)\<close>; \<open>mk_decimal\<close>: the object \<open>new Decimal(s)\<close>).
  The theorems assume of them only that \<open>bn_new\<close> reads a string of decimal digits and that
  \<open>decimal_ok\<close> accepts unsigned decimal numerals.
\<close>

section \<open>Operations\<close>

definition checkOnlyNumericChars :: "(string \<Rightarrow> bool) \<Rightarrow> string \<Rightarrow> unit res" where
  "checkOnlyNumericChars decimal_ok input =
     (if decimal_ok input then Inr ()
      else Inl (Thrown ''MakeBN: input must be number or string-ified number, no non-numeric characters''))"

definition makeBN ::
  "(string \<Rightarrow> bool) \<Rightarrow> (string \<Rightarrow> int) \<Rightarrow> string \<Rightarrow> nat \<Rightarrow> int res" where
  "makeBN decimal_ok bn_new strNum precision =
     rbind (checkOnlyNumericChars decimal_ok strNum) (\<lambda>_.
       let intPart = js_split (CHR ''.'') strNum ! 0;
           fractionPart = (if js_includes strNum ''.'' then js_split (CHR ''.'') strNum ! 1 else '''')
       in if length fractionPart > precision
          then Inl (Thrown (''MakeBN: argument must have <= '' @ show_nat precision @ '' decimal places''))
          else let trailingZeros = js_repeat ''0'' (precision - length fractionPart);
                   bigNumArg = intPart @ fractionPart @ trailingZeros
               in Inr (bn_new bigNumArg))"

definition makeBN18 :: "(string \<Rightarrow> bool) \<Rightarrow> (string \<Rightarrow> int) \<Rightarrow> string \<Rightarrow> int res" where
  "makeBN18 decimal_ok bn_new strNum = makeBN decimal_ok bn_new strNum 18"

definition makeDecimal :: "(string \<Rightarrow> 'd) \<Rightarrow> int \<Rightarrow> nat \<Rightarrow> 'd" where
  "makeDecimal mk_decimal num digits =
     (let strBN = show_int num
      in if length strBN \<le> digits
         then let fractPart = js_repeat ''0'' (digits - length strBN) @ strBN
              in mk_decimal (''0.'' @ fractPart)
         else let fractPart = js_slice_from strBN (- int digits);
                  intPart = js_slice strBN 0 (int (length strBN) - int digits)
              in mk_decimal (intPart @ ''.'' @ fractPart))"

definition makeDecimal18 :: "(string \<Rightarrow> 'd) \<Rightarrow> int \<Rightarrow> 'd" where
  "makeDecimal18 mk_decimal num = makeDecimal mk_decimal num 18"

section \<open>Numerals\<close>

definition digits_only :: "string \<Rightarrow> bool" where
  "digits_only s \<longleftrightarrow> s \<noteq> [] \<and> list_all is_digit s"

text \<open>An unsigned decimal numeral with a fraction part.\<close>

definition decimal_numeral :: "string \<Rightarrow> string \<Rightarrow> string" where
  "decimal_numeral i f = i @ ''.'' @ f"

text \<open>What the code relies on of bn.js and decimal.js.\<close>

definition reads_digits :: "(string \<Rightarrow> int) \<Rightarrow> bool" where
  "reads_digits bn_new \<longleftrightarrow> (\<forall>s. digits_only s \<longrightarrow> bn_new s = int (read_nat s))"

definition accepts_numerals :: "(string \<Rightarrow> bool) \<Rightarrow> bool" where
  "accepts_numerals decimal_ok \<longleftrightarrow>
     (\<forall>i f. digits_only i \<and> digits_only f \<longrightarrow> decimal_ok (decimal_numeral i f))"

lemma digits_only_not_dot: "digits_only s \<Longrightarrow> CHR ''.'' \<notin> set s"
  by (auto simp: digits_only_def list_all_iff)

lemma digits_only_append:
  "digits_only s \<Longrightarrow> list_all is_digit t \<Longrightarrow> digits_only (s @ t)"
  by (simp add: digits_only_def)

lemma zeros_digits: "list_all is_digit (replicate n (CHR ''0''))"
  by (induction n) simp_all

lemma show_nat_digits_only: "digits_only (show_nat n)"
  using show_nat_digits by (simp add: digits_only_def list_all_iff)

text \<open>The digits a numeral contributes once its point is removed and zeros are appended.\<close>

lemma read_scaled:
  "length f \<le> p \<Longrightarrow>
   read_nat (i @ f @ replicate (p - length f) (CHR ''0'')) =
     read_nat i * 10 ^ p + read_nat f * 10 ^ (p - length f)"
  by (simp add: read_nat_append algebra_simps power_add[symmetric])

lemma makeBN_numeral:
  assumes lib: "reads_digits bn_new" "accepts_numerals decimal_ok"
    and i: "digits_only i" and f: "digits_only f" and fits: "length f \<le> p"
  shows "makeBN decimal_ok bn_new (decimal_numeral i f) p =
           Inr (int (read_nat i * 10 ^ p + read_nat f * 10 ^ (p - length f)))"
proof -
  have ok: "decimal_ok (decimal_numeral i f)"
    using lib(2) i f by (simp add: accepts_numerals_def)
  have sp: "js_split (CHR ''.'') (decimal_numeral i f) = [i, f]"
    using i f by (simp add: decimal_numeral_def js_split_one digits_only_not_dot)
  have inc: "js_includes (decimal_numeral i f) ''.''"
    by (simp add: js_includes_char decimal_numeral_def)
  have "digits_only (i @ f @ replicate (p - length f) (CHR ''0''))"
    using i f zeros_digits by (simp add: digits_only_def)
  with lib(1) have "bn_new (i @ f @ replicate (p - length f) (CHR ''0'')) =
      int (read_nat i * 10 ^ p + read_nat f * 10 ^ (p - length f))"
    unfolding reads_digits_def read_scaled[OF fits, symmetric] by blast
  with ok sp inc fits show ?thesis
    by (simp add: makeBN_def checkOnlyNumericChars_def)
qed

lemma makeBN_too_long:
  assumes "accepts_numerals decimal_ok" "digits_only i" "digits_only f" "p < length f"
  shows "makeBN decimal_ok bn_new (decimal_numeral i f) p =
           Inl (Thrown (''MakeBN: argument must have <= '' @ show_nat p @ '' decimal places''))"
proof -
  have sp: "js_split (CHR ''.'') (decimal_numeral i f) = [i, f]"
    using assms by (simp add: decimal_numeral_def js_split_one digits_only_not_dot)
  have inc: "js_includes (decimal_numeral i f) ''.''"
    by (simp add: js_includes_char decimal_numeral_def)
  from assms sp inc show ?thesis
    by (simp add: makeBN_def checkOnlyNumericChars_def accepts_numerals_def)
qed

lemma makeDecimal_numeral:
  assumes "0 < d"
  obtains i f where "makeDecimal mk (int n) d = mk (decimal_numeral i f)"
    and "digits_only i" and "digits_only f" and "length f = d"
    and "read_nat i * 10 ^ d + read_nat f = n"
proof (cases "length (show_nat n) \<le> d")
  case True
  let ?f = "replicate (d - length (show_nat n)) (CHR ''0'') @ show_nat n"
  have dig: "digits_only ?f"
    using show_nat_digits_only[of n] zeros_digits by (simp add: digits_only_def)
  have "read_nat ?f = n" by (simp add: read_nat_append)
  moreover have "makeDecimal mk (int n) d = mk (decimal_numeral ''0'' ?f)"
    using True by (simp add: makeDecimal_def show_int_def decimal_numeral_def Let_def)
  moreover have "digits_only ''0''" by (simp add: digits_only_def)
  moreover have "read_nat ''0'' = 0" by (simp add: digit_val_def)
  ultimately show ?thesis using that[of "''0''" ?f] dig True by simp
next
  case False
  let ?k = "length (show_nat n) - d"
  let ?i = "take ?k (show_nat n)" and ?f = "drop ?k (show_nat n)"
  have k: "0 < ?k" "?k < length (show_nat n)" using False assms by auto
  have sd: "list_all is_digit (show_nat n)"
    using show_nat_digits_only[of n] by (simp add: digits_only_def)
  then have dig: "digits_only ?i" "digits_only ?f"
    using k by (auto simp: digits_only_def list_all_iff dest: in_set_takeD in_set_dropD)
  have "makeDecimal mk (int n) d = mk (decimal_numeral ?i ?f)"
    using False assms
    by (auto simp: makeDecimal_def show_int_def decimal_numeral_def js_slice_def
          js_slice_from_def rel_index_def Let_def nat_diff_distrib')
  moreover have "length ?f = d" using False by simp
  moreover have "read_nat ?i * 10 ^ d + read_nat ?f = n"
    using read_nat_append[of ?i ?f] False by simp
  ultimately show ?thesis using that dig by blast
qed

section \<open>Properties\<close>

text \<open>
  C25. \<open>makeBN\<close> scales exactly: a decimal numeral with integer part \<open>i\<close> and at most \<open>p\<close>
  fraction digits \<open>f\<close> becomes \<open>i * 10^p + f * 10^(p - |f|)\<close>, and one with more fraction
  digits is rejected with the documented error; nothing is ever rounded.
\<close>

theorem makeBN_scales_exactly:
  assumes "reads_digits bn_new" and "accepts_numerals decimal_ok"
    and "digits_only i" and "digits_only f"
  shows "makeBN decimal_ok bn_new (decimal_numeral i f) p =
           (if length f \<le> p
            then Inr (int (read_nat i * 10 ^ p + read_nat f * 10 ^ (p - length f)))
            else Inl (Thrown (''MakeBN: argument must have <= '' @ show_nat p @ '' decimal places'')))"
  using makeBN_numeral[OF assms] makeBN_too_long[OF assms(2-4)] by simp

theorem makeBN_scales_exactly_witness:
  "makeBN (\<lambda>s. True) (\<lambda>s. int (read_nat s)) (decimal_numeral ''999'' ''123'') 18 =
     Inr 999123000000000000000"
  using makeBN_scales_exactly[of "\<lambda>s. int (read_nat s)" "\<lambda>s. True" "''999''" "''123''" 18]
  by (simp add: reads_digits_def accepts_numerals_def digits_only_def is_digit_def
      read_nat_Cons digit_val_def)

text \<open>
  Round trip: for every non-negative integer \<open>n\<close> and every positive number of digits, the
  numeral that \<open>makeDecimal\<close> hands to the Decimal constructor is read back by \<open>makeBN\<close> as \<open>n\<close>.
\<close>

theorem makeDecimal_makeBN_roundtrip:
  assumes "reads_digits bn_new" and "accepts_numerals decimal_ok" and "0 < d"
  shows "makeBN decimal_ok bn_new (makeDecimal (\<lambda>s. s) (int n) d) d = Inr (int n)"
proof -
  obtain i f where
    mk: "makeDecimal (\<lambda>s. s) (int n) d = decimal_numeral i f"
    and "digits_only i" "digits_only f" "length f = d"
    and "read_nat i * 10 ^ d + read_nat f = n"
    using makeDecimal_numeral[OF assms(3), of "\<lambda>s. s" n] .
  then show ?thesis
    using makeBN_numeral[OF assms(1,2), of i f d] by simp
qed

theorem makeDecimal_makeBN_roundtrip_witness:
  "makeBN (\<lambda>s. True) (\<lambda>s. int (read_nat s)) (makeDecimal (\<lambda>s. s) (int 1234567) 4) 4 = Inr (int 1234567)"
  using makeDecimal_makeBN_roundtrip[of "\<lambda>s. int (read_nat s)" "\<lambda>s. True" 4 1234567]
  by (simp add: reads_digits_def accepts_numerals_def)

end
