(* ===== verification/Test_Helper.thy ===== *)
theory Test_Helper
  imports BN_Converter Complex_Main "HOL-Library.Char_ord" "HOL-Library.List_Lexorder"
begin

text \<open>
  The pure helpers of \<open>packages/contracts/utils/testHelpers.js\<close>: constants, decimal scaling,
  differences, gas statistics, collateral ratios, number formatting and the ABI encoding of call
  parameters.  BN values are \<^typ>\<open>int\<close>; BN division truncates towards zero and is an assertion failure of
  bn.js for a zero divisor (\<open>bn_div\<close>).  A Number that comes from a BN is rounded to a double
  (\<open>to_number\<close>); the gas figures are Numbers below \<open>2^53\<close>, where doubles are exact.
\<close>

section \<open>Constants\<close>

record money_values =
  mv_zeroBN :: int
  mv_1e18BN :: int
  mv_10e18BN :: int
  mv_100e18BN :: int
  mv_100BN :: int
  mv_110BN :: int
  mv_150BN :: int
  mv_MCR :: int
  mv_ICR100 :: int
  mv_CCR :: int

definition MoneyValues :: money_values where
  "MoneyValues =
     \<lparr>mv_zeroBN = 0, mv_1e18BN = 1000000000000000000, mv_10e18BN = 10000000000000000000,
      mv_100e18BN = 100000000000000000000, mv_100BN = 100, mv_110BN = 110, mv_150BN = 150,
      mv_MCR = 1100000000000000000, mv_ICR100 = 1000000000000000000, mv_CCR = 1500000000000000000\<rparr>"

record time_values =
  tv_SECONDS_IN_ONE_MINUTE :: int
  tv_SECONDS_IN_ONE_HOUR :: int
  tv_SECONDS_IN_ONE_DAY :: int
  tv_SECONDS_IN_ONE_WEEK :: int
  tv_SECONDS_IN_SIX_WEEKS :: int
  tv_SECONDS_IN_ONE_MONTH :: int
  tv_SECONDS_IN_ONE_YEAR :: int
  tv_MINUTES_IN_ONE_WEEK :: int
  tv_MINUTES_IN_ONE_MONTH :: int
  tv_MINUTES_IN_ONE_YEAR :: int

definition TimeValues :: time_values where
  "TimeValues =
     \<lparr>tv_SECONDS_IN_ONE_MINUTE = 60, tv_SECONDS_IN_ONE_HOUR = 60 * 60,
      tv_SECONDS_IN_ONE_DAY = 60 * 60 * 24, tv_SECONDS_IN_ONE_WEEK = 60 * 60 * 24 * 7,
      tv_SECONDS_IN_SIX_WEEKS = 60 * 60 * 24 * 7 * 6, tv_SECONDS_IN_ONE_MONTH = 60 * 60 * 24 * 30,
      tv_SECONDS_IN_ONE_YEAR = 60 * 60 * 24 * 365, tv_MINUTES_IN_ONE_WEEK = 60 * 24 * 30,
      tv_MINUTES_IN_ONE_MONTH = 60 * 24 * 30, tv_MINUTES_IN_ONE_YEAR = 60 * 24 * 365\<rparr>"

definition ZERO_ADDRESS :: string where
  "ZERO_ADDRESS = ''0x'' @ js_repeat ''0'' 40"

definition maxBytes32 :: string where
  "maxBytes32 = ''0x'' @ js_repeat ''f'' 64"

definition pct100 :: int where
  "pct100 = 1000000000000000000"

section \<open>Scaling and comparing amounts\<close>

text \<open>The scale argument of \<open>dec\<close>: one of two unit names, or a number of zeros.\<close>

datatype scale = Ether | Finney | Zeros nat

definition dec :: "string \<Rightarrow> scale \<Rightarrow> string" where
  "dec strVal scl =
     (let zerosCount = (case scl of Ether \<Rightarrow> 18 | Finney \<Rightarrow> 15 | Zeros n \<Rightarrow> n)
      in strVal @ js_repeat ''0'' zerosCount)"

definition squeezeAddr :: "string \<Rightarrow> string" where
  "squeezeAddr addr =
     (let len = int (length addr)
      in js_slice addr 0 6 @ ''...'' @ js_slice addr (len - 4) len)"

definition getEndOfAccount :: "string \<Rightarrow> string" where
  "getEndOfAccount account =
     js_slice account (int (length account) - 4) (int (length account))"

text \<open>
  \<open>Number(bn)\<close>: the nearest double, ties to even.  Below \<open>2^53\<close> every integer is a double; above,
  the low \<open>e\<close> bits beyond the 53-bit significand are rounded away.
\<close>

fun excess_bits :: "nat \<Rightarrow> nat" where
  "excess_bits n = (if n < 2 ^ 53 then 0 else Suc (excess_bits (n div 2)))"

declare excess_bits.simps [simp del]

definition to_number :: "nat \<Rightarrow> nat" where
  "to_number n =
     (let e = excess_bits n; q = n div 2 ^ e; r = n mod 2 ^ e
      in if 2 * r < 2 ^ e \<or> (2 * r = 2 ^ e \<and> even q) then q * 2 ^ e else (q + 1) * 2 ^ e)"

definition getDifference :: "int \<Rightarrow> int \<Rightarrow> nat" where
  "getDifference x y = to_number (nat \<bar>x - y\<bar>)"

definition assertIsApproximatelyEqual :: "int \<Rightarrow> int \<Rightarrow> nat \<Rightarrow> unit res" where
  "assertIsApproximatelyEqual x y error =
     (if getDifference x y \<le> error then Inr () else Inl (AssertionError ''isAtMost''))"

fun zip_from :: "(string \<Rightarrow> 'v option option) \<Rightarrow> nat \<Rightarrow> string list \<Rightarrow> 'v list \<Rightarrow> (string \<Rightarrow> 'v option option)" where
  "zip_from obj idx [] ys = obj"
| "zip_from obj idx (x # xs) ys =
     zip_from (obj(x := Some (if idx < length ys then Some (ys ! idx) else None))) (Suc idx) xs ys"

text \<open>An object property is absent (\<open>None\<close>), present but undefined (\<open>Some None\<close>) or has a value.\<close>

definition zipToObject :: "string list \<Rightarrow> 'v list \<Rightarrow> (string \<Rightarrow> 'v option option)" where
  "zipToObject array1 array2 = zip_from (\<lambda>_. None) 0 array1 array2"

section \<open>Gas statistics\<close>

record gas_metrics =
  gasCostList :: "int list"
  minGas :: "int option"
  maxGas :: "int option"
  meanGas :: "rat option"
  medianGas :: "int option"

text \<open>\<open>Array.prototype.sort\<close> without a comparator compares the elements' strings.\<close>

definition js_sort :: "int list \<Rightarrow> int list" where
  "js_sort xs = sort_key show_int xs"

definition getGasMetrics :: "int list \<Rightarrow> gas_metrics" where
  "getGasMetrics gs =
     (let sum = sum_list gs
      in if sum = 0
         then \<lparr>gasCostList = gs, minGas = None, maxGas = None, meanGas = None, medianGas = None\<rparr>
         else let mean = of_int sum / of_nat (length gs);
                  sorted = js_sort gs;
                  median = sorted ! (length sorted div 2)
              in \<lparr>gasCostList = gs, minGas = Some (Min (set gs)), maxGas = Some (Max (set gs)),
                  meanGas = Some mean, medianGas = Some median\<rparr>)"

definition getGasMinMaxAvg :: "int list \<Rightarrow> int option \<times> int option \<times> rat option \<times> int option" where
  "getGasMinMaxAvg gs =
     (let metrics = getGasMetrics gs
      in (minGas metrics, maxGas metrics, meanGas metrics, medianGas metrics))"

definition appendData :: "(string \<times> string) list \<Rightarrow> string \<Rightarrow> string list \<Rightarrow> string list" where
  "appendData results message data =
     data @ (message @ [CHR 0x0A]) # map (\<lambda>(key, v). key @ '','' @ v @ [CHR 0x0A]) results"

section \<open>Ratios, fees and formatting\<close>

text \<open>Division of BN values, as \<open>a.div(b)\<close> computes it.\<close>

definition bn_quot :: "int \<Rightarrow> int \<Rightarrow> int" where
  "bn_quot a b = sgn a * sgn b * (\<bar>a\<bar> div \<bar>b\<bar>)"

definition bn_div :: "int \<Rightarrow> int \<Rightarrow> int res" where
  "bn_div a b = (if b = 0 then Inl (AssertionError ''bn.js division by zero'') else Inr (bn_quot a b))"

definition computeICR :: "int \<Rightarrow> int \<Rightarrow> int \<Rightarrow> int" where
  "computeICR collBN debtBN priceBN =
     (if debtBN = 0
      then 0xffffffffffffffffffffffffffffffffffffffffffffffffffffffffffffffff
      else bn_quot (collBN * priceBN) debtBN)"

definition applyLiquidationFee :: "int \<Rightarrow> int" where
  "applyLiquidationFee ethAmount =
     bn_quot (ethAmount * int (read_nat (dec ''995'' (Zeros 15)))) (mv_1e18BN MoneyValues)"

text \<open>The number part of the line that \<open>logBN\<close> prints.\<close>

definition logBN :: "int \<Rightarrow> string" where
  "logBN x =
     (let s = js_padStart (show_int x) 18 (CHR ''0'')
      in js_slice s 0 (int (length s) - 18) @ ''.'' @ js_slice_from s (- 18))"

definition secondsToDays :: "rat \<Rightarrow> rat" where
  "secondsToDays seconds = seconds / (60 * 60 * 24)"

definition daysToSeconds :: "rat \<Rightarrow> rat" where
  "daysToSeconds days = days * (60 * 60 * 24)"

section \<open>ABI encoding of parameters\<close>

text \<open>The JavaScript values that occur as contract-call parameters, by their \<open>typeof\<close>.\<close>

datatype param = PNumber int | PObject int | PString string | PBoolean bool

definition hexToParam :: "string \<Rightarrow> string" where
  "hexToParam hexValue = js_slice_from (js_repeat ''0'' 64 @ js_slice_from hexValue 2) (- 64)"

text \<open>
  \<open>new RegExp("[0-9]*").test(s)\<close>: is there a (possibly empty) run of digits somewhere in \<open>s\<close>?
  The pattern is not anchored and a run of length zero matches.
\<close>

definition regexp_digits_star_test :: "string \<Rightarrow> bool" where
  "regexp_digits_star_test s \<longleftrightarrow> (\<exists>i \<in> set [0..<Suc (length s)]. \<exists>n \<in> set [0..<Suc (length s - i)].
     list_all is_digit (take n (drop i s)))"

definition formatParam :: "(param \<Rightarrow> string) \<Rightarrow> (string \<Rightarrow> string) \<Rightarrow> param \<Rightarrow> string" where
  "formatParam toHex asciiToHex p =
     hexToParam
       (case p of
          PNumber n \<Rightarrow> toHex p
        | PObject n \<Rightarrow> toHex p
        | PString s \<Rightarrow>
            (if regexp_digits_star_test s then toHex p
             else if js_slice s 0 2 \<noteq> ''0x'' then asciiToHex s else s)
        | PBoolean b \<Rightarrow> (if b then ''0x01'' else ''0x00''))"

definition getTransactionData ::
  "(string \<Rightarrow> string) \<Rightarrow> (param \<Rightarrow> string) \<Rightarrow> (string \<Rightarrow> string) \<Rightarrow> string \<Rightarrow> param list \<Rightarrow> string" where
  "getTransactionData sha3 toHex asciiToHex signatureString params =
     js_slice (sha3 signatureString) 0 10 @ foldl (\<lambda>acc p. acc @ formatParam toHex asciiToHex p) '''' params"

section \<open>Facts on number conversion\<close>

lemma bn_quot_nonneg [simp]: "0 \<le> a \<Longrightarrow> 0 \<le> b \<Longrightarrow> bn_quot a b = a div b"
  by (auto simp: bn_quot_def sgn_if)

lemma bn_div_pos [simp]: "0 \<le> a \<Longrightarrow> 0 < b \<Longrightarrow> bn_div a b = Inr (a div b)"
  by (simp add: bn_div_def)

lemma excess_bits_small [simp]: "n < 2 ^ 53 \<Longrightarrow> excess_bits n = 0"
  by (simp add: excess_bits.simps)

lemma excess_bits_large:
  "2 ^ 53 \<le> n \<Longrightarrow> 0 < excess_bits n \<and> 2 ^ 52 \<le> n div 2 ^ excess_bits n"
proof (induction n rule: excess_bits.induct)
  case (1 n)
  have e: "excess_bits n = Suc (excess_bits (n div 2))"
    using "1.prems" by (simp add: excess_bits.simps[of n])
  have q: "n div 2 ^ excess_bits n = n div 2 div 2 ^ excess_bits (n div 2)"
    by (simp add: e div_mult2_eq)
  show ?case
  proof (cases "2 ^ 53 \<le> n div 2")
    case True
    then show ?thesis using "1.IH" "1.prems" e q by simp
  next
    case False
    then have "excess_bits (n div 2) = 0" by simp
    moreover have "2 ^ 52 \<le> n div 2" using "1.prems" by simp
    ultimately show ?thesis using e q by simp
  qed
qed

lemma to_number_exact: "n < 2 ^ 53 \<Longrightarrow> to_number n = n"
  by (simp add: to_number_def)

lemma to_number_large:
  assumes "2 ^ 53 \<le> n"
  shows "2 ^ 53 \<le> to_number n"
proof -
  let ?e = "excess_bits n" and ?q = "n div 2 ^ excess_bits n"
  from excess_bits_large[OF assms] have e: "1 \<le> ?e" and q: "2 ^ 52 \<le> ?q" by auto
  have "(2::nat) ^ 53 = 2 ^ 52 * 2 ^ 1" by simp
  also have "\<dots> \<le> ?q * 2 ^ ?e" using q e by (intro mult_le_mono power_increasing) auto
  finally have "2 ^ 53 \<le> ?q * 2 ^ ?e" .
  then show ?thesis by (auto simp: to_number_def Let_def)
qed

section \<open>Facts on gas statistics\<close>

lemma insort_key_mono_on:
  assumes "\<And>x y. x \<in> insert a (set xs) \<Longrightarrow> y \<in> insert a (set xs) \<Longrightarrow> f x \<le> f y \<longleftrightarrow> x \<le> y"
  shows "insort_key f a xs = insort a xs"
  using assms by (induction xs) auto

lemma sort_key_mono_on:
  assumes "\<And>x y. x \<in> set xs \<Longrightarrow> y \<in> set xs \<Longrightarrow> f x \<le> f y \<longleftrightarrow> x \<le> y"
  shows "sort_key f xs = sort xs"
  using assms
proof (induction xs)
  case Nil
  then show ?case by simp
next
  case (Cons a xs)
  then have "sort_key f xs = sort xs" by simp
  with insort_key_mono_on[of a "sort xs" f] Cons.prems show ?case by simp
qed

lemma digit_less_iff: "is_digit c \<Longrightarrow> is_digit d \<Longrightarrow> c < d \<longleftrightarrow> digit_val c < digit_val d"
  unfolding is_digit_def digit_val_def less_char_def by (auto simp: less_diff_iff)

lemma digit_eq_iff: "is_digit c \<Longrightarrow> is_digit d \<Longrightarrow> c = d \<longleftrightarrow> digit_val c = digit_val d"
  using digit_less_iff by (metis neq_iff)

text \<open>On digit strings of one length the string order is the numeric order.\<close>

lemma lex_le_iff_numeric:
  "length s = length t \<Longrightarrow> list_all is_digit s \<Longrightarrow> list_all is_digit t \<Longrightarrow>
   s \<le> t \<longleftrightarrow> read_nat s \<le> read_nat t"
proof (induction s t rule: list_induct2)
  case Nil
  then show ?case by simp
next
  case (Cons c s d t)
  have len: "length s = length t" by (rule Cons.hyps)
  have bs: "read_nat s < 10 ^ length t" "read_nat t < 10 ^ length t"
    using Cons.prems len read_nat_bound[of s] read_nat_bound[of t] by (auto simp: list_all_iff)
  have less: "a * 10 ^ length t + x < b * 10 ^ length t + y"
    if "a < b" "x < 10 ^ length t" for a b x y :: nat
  proof -
    have "a * 10 ^ length t + x < Suc a * 10 ^ length t" using that by simp
    also have "\<dots> \<le> b * 10 ^ length t" using that by (intro mult_right_mono) auto
    finally show ?thesis by simp
  qed
  consider "digit_val c < digit_val d" | "digit_val c = digit_val d" | "digit_val d < digit_val c"
    by linarith
  then show ?case
  proof cases
    case 1
    then have "c < d" using digit_less_iff Cons.prems by simp
    then show ?thesis using less[OF 1 bs(1)] len by (simp add: read_nat_Cons less_imp_le)
  next
    case 2
    then have "c = d" using digit_eq_iff Cons.prems by simp
    then show ?thesis using Cons len by (simp add: read_nat_Cons)
  next
    case 3
    then have "d < c" using digit_less_iff Cons.prems by simp
    then show ?thesis using less[OF 3 bs(2), of "read_nat s"] len by (auto simp: read_nat_Cons)
  qed
qed

lemma js_sort_same_width:
  assumes "\<forall>g \<in> set gs. 0 \<le> g \<and> length (show_nat (nat g)) = w"
  shows "js_sort gs = sort gs"
  unfolding js_sort_def
proof (rule sort_key_mono_on)
  fix x y assume xy: "x \<in> set gs" "y \<in> set gs"
  then have nn: "0 \<le> x" "0 \<le> y"
    and len: "length (show_nat (nat x)) = length (show_nat (nat y))" using assms by auto
  from lex_le_iff_numeric[OF len] show "show_int x \<le> show_int y \<longleftrightarrow> x \<le> y"
    using nn show_nat_digits by (simp add: show_int_def list_all_iff nat_le_eq_zle)
qed

lemma js_sort_mem: "set (js_sort gs) = set gs" "length (js_sort gs) = length gs"
  by (simp_all add: js_sort_def)

lemma mean_bounds:
  fixes gs :: "int list"
  assumes "gs \<noteq> []"
  shows "of_int (Min (set gs)) \<le> (of_int (sum_list gs) / of_nat (length gs) :: rat)"
    and "(of_int (sum_list gs) / of_nat (length gs) :: rat) \<le> of_int (Max (set gs))"
proof -
  have up: "sum_list gs \<le> int (length gs) * Max (set gs)"
  proof -
    have "sum_list (map (\<lambda>x. x) gs) \<le> sum_list (map (\<lambda>_. Max (set gs)) gs)"
      by (rule sum_list_mono) simp
    then show ?thesis by (simp add: sum_list_triv)
  qed
  have lo: "int (length gs) * Min (set gs) \<le> sum_list gs"
  proof -
    have "sum_list (map (\<lambda>_. Min (set gs)) gs) \<le> sum_list (map (\<lambda>x. x) gs)"
      by (rule sum_list_mono) simp
    then show ?thesis by (simp add: sum_list_triv)
  qed
  have pos: "(0::rat) < of_nat (length gs)" using assms by simp
  have "(of_int (int (length gs) * Min (set gs)) :: rat) \<le> of_int (sum_list gs)"
    using lo by (simp only: of_int_le_iff)
  then show "of_int (Min (set gs)) \<le> (of_int (sum_list gs) / of_nat (length gs) :: rat)"
    using pos by (simp add: field_simps)
  have "(of_int (sum_list gs) :: rat) \<le> of_int (int (length gs) * Max (set gs))"
    using up by (simp only: of_int_le_iff)
  then show "(of_int (sum_list gs) / of_nat (length gs) :: rat) \<le> of_int (Max (set gs))"
    using pos by (simp add: field_simps)
qed

section \<open>Facts on encoding\<close>

lemma hexToParam_length: "length (hexToParam h) = 64"
  by (simp add: hexToParam_def js_slice_from_def rel_index_def)

lemma hexToParam_pads:
  assumes "length h \<le> 64"
  shows "hexToParam (''0x'' @ h) = replicate (64 - length h) (CHR ''0'') @ h"
  using assms by (simp add: hexToParam_def js_slice_from_def rel_index_def)

text \<open>The unanchored pattern matches the empty run at position 0 of every string.\<close>

lemma regexp_always_matches: "regexp_digits_star_test s"
  unfolding regexp_digits_star_test_def by (intro bexI[of _ 0]) simp_all

lemma formatParam_string: "formatParam toHex asciiToHex (PString s) = hexToParam (toHex (PString s))"
  by (simp add: formatParam_def regexp_always_matches)

lemma formatParam_length: "length (formatParam toHex asciiToHex p) = 64"
  by (simp add: formatParam_def hexToParam_length)

lemma getTransactionData_eq:
  "getTransactionData sha3 toHex asciiToHex sig ps =
     js_slice (sha3 sig) 0 10 @ concat (map (formatParam toHex asciiToHex) ps)"
proof -
  have "foldl (\<lambda>acc p. acc @ formatParam toHex asciiToHex p) a ps =
      a @ concat (map (formatParam toHex asciiToHex) ps)" for a
    by (induction ps arbitrary: a) simp_all
  then show ?thesis by (simp add: getTransactionData_def)
qed

section \<open>Properties\<close>

text \<open>
  \<open>assertIsApproximatelyEqual\<close> is exact although it compares doubles: for every tolerance
  below \<open>2^53\<close> it passes exactly when the two big numbers differ by at most the tolerance; the
  rounding of \<open>Number\<close> never turns a failure into a success or the reverse.
\<close>

theorem assertIsApproximatelyEqual_exact:
  assumes "error < 2 ^ 53"
  shows "is_ok (assertIsApproximatelyEqual x y error) \<longleftrightarrow> \<bar>x - y\<bar> \<le> int error"
proof (cases "nat \<bar>x - y\<bar> < 2 ^ 53")
  case True
  then show ?thesis
    by (auto simp: assertIsApproximatelyEqual_def getDifference_def to_number_exact)
next
  case False
  then have "2 ^ 53 \<le> to_number (nat \<bar>x - y\<bar>)" by (intro to_number_large) simp
  with False assms show ?thesis
    by (auto simp: assertIsApproximatelyEqual_def getDifference_def)
qed

theorem assertIsApproximatelyEqual_exact_witness:
  "is_ok (assertIsApproximatelyEqual 5000000000000000000000 5000000000000000000999 1000)"
  using assertIsApproximatelyEqual_exact[of 1000 5000000000000000000000 5000000000000000000999]
  by simp

text \<open>
  Gas statistics: for a list with a non-zero total, the minimum, the maximum and the median are
  entries of the list, the mean lies between the minimum and the maximum, and, when all entries
  have the same number of digits, the median is the middle entry of the numerically sorted list.
\<close>

theorem getGasMetrics_correct:
  assumes "sum_list gs \<noteq> 0"
  shows "\<exists>mn mx mean md. getGasMetrics gs = \<lparr>gasCostList = gs, minGas = Some mn, maxGas = Some mx,
             meanGas = Some mean, medianGas = Some md\<rparr> \<and>
           mn \<in> set gs \<and> mx \<in> set gs \<and> md \<in> set gs \<and> (\<forall>g \<in> set gs. mn \<le> g \<and> g \<le> mx) \<and>
           of_int mn \<le> mean \<and> mean \<le> of_int mx \<and>
           ((\<exists>w. \<forall>g \<in> set gs. 0 \<le> g \<and> length (show_nat (nat g)) = w) \<longrightarrow> md = sort gs ! (length gs div 2))"
proof -
  have ne: "gs \<noteq> []" using assms by auto
  let ?md = "js_sort gs ! (length gs div 2)"
  have "?md \<in> set (js_sort gs)" using ne by (intro nth_mem) (simp add: js_sort_mem)
  then have "?md \<in> set gs" by (simp add: js_sort_mem)
  moreover have "getGasMetrics gs = \<lparr>gasCostList = gs, minGas = Some (Min (set gs)),
      maxGas = Some (Max (set gs)), meanGas = Some (of_int (sum_list gs) / of_nat (length gs)),
      medianGas = Some ?md\<rparr>"
    using assms by (simp add: getGasMetrics_def Let_def js_sort_mem)
  moreover have "(\<exists>w. \<forall>g \<in> set gs. 0 \<le> g \<and> length (show_nat (nat g)) = w) \<longrightarrow>
      ?md = sort gs ! (length gs div 2)"
    using js_sort_same_width by metis
  ultimately show ?thesis using mean_bounds[OF ne] ne by fastforce
qed

theorem getGasMetrics_correct_witness:
  "\<exists>mn mx mean md. getGasMetrics [30, 10, 20] = \<lparr>gasCostList = [30, 10, 20], minGas = Some mn,
     maxGas = Some mx, meanGas = Some mean, medianGas = Some md\<rparr> \<and> md \<in> {30, 10, 20}"
  using getGasMetrics_correct[of "[30, 10, 20]"] by auto

text \<open>
  The comment above the median calls it the middle element of the list, but the entries are
  sorted as strings: for the gas costs 9, 10 and 11 the reported median is 11 and not 10.
\<close>

theorem getGasMetrics_median_not_middle:
  "medianGas (getGasMetrics [9, 10, 11]) = Some 11 \<and> sort [9, 10, 11 :: int] ! 1 = 10"
proof -
  have s: "show_int 9 = ''9''" "show_int 10 = ''10''" "show_int 11 = ''11''"
    by code_simp+
  have "js_sort [9, 10, 11] = [10, 11, 9]"
    by (simp add: js_sort_def s)
  then show ?thesis by (simp add: getGasMetrics_def)
qed

text \<open>
  Call data has the ABI shape: the 4-byte selector (10 characters with the 0x prefix) followed
  by one 64-digit word per parameter, in order; a hex value of at most 64 digits is left-padded
  without loss; and every string parameter goes through \<open>toHex\<close>, so that the \<open>asciiToHex\<close>
  branch of \<open>formatParam\<close> is never taken, whatever the string.
\<close>

theorem getTransactionData_shape:
  assumes "10 \<le> length (sha3 sig)"
  shows "length (getTransactionData sha3 toHex asciiToHex sig ps) = 10 + 64 * length ps \<and>
         getTransactionData sha3 toHex asciiToHex sig ps =
           take 10 (sha3 sig) @ concat (map (formatParam toHex asciiToHex) ps) \<and>
         (\<forall>h. length h \<le> 64 \<longrightarrow> hexToParam (''0x'' @ h) = replicate (64 - length h) (CHR ''0'') @ h) \<and>
         (\<forall>s. formatParam toHex asciiToHex (PString s) = hexToParam (toHex (PString s)))"
proof -
  have "length (concat (map (formatParam toHex asciiToHex) ps)) = 64 * length ps"
    by (induction ps) (simp_all add: formatParam_length)
  then show ?thesis
    using assms
    by (simp add: getTransactionData_eq formatParam_string hexToParam_pads[simplified]
        js_slice_def rel_index_def)
qed

theorem getTransactionData_shape_witness:
  "length (getTransactionData (\<lambda>s. ''0x12345678abcdef'') (\<lambda>p. ''0x05'') (\<lambda>s. s) ''closeTrove()'' [PNumber 5]) = 74"
  using getTransactionData_shape[of "\<lambda>s. ''0x12345678abcdef''" "''closeTrove()''" "\<lambda>p. ''0x05''" "\<lambda>s. s" "[PNumber 5]"]
  by (simp add: formatParam_length)

end
