(* ===== verification/Contracts_Api.thy ===== *)
theory Contracts_Api
  imports Helper_Events Test_Helper
begin

text \<open>
  The \<open>contracts\<close> object that every asynchronous helper takes as its argument: the view functions
  it calls, typed, and one operation that submits a transaction.  A transaction is described by the
  contract, the method (a plain name, or a full signature for \<open>contract.methods[...]\<close>), the
  arguments as written and the trailing options object.  The helpers run in a world that holds the
  chain state, the static field \<open>TestHelper.latestRandomSeed\<close>, the transactions submitted so far, and
  the results of \<open>Math.random\<close>-based draws, which are an input of the model.
\<close>

section \<open>Calls\<close>

datatype arg = AUint int | AAddr address | ABool bool

record txopts =
  opt_from :: "address option"
  opt_value :: "int option"
  opt_gasPrice :: "int option"

datatype txcall =
  TxCall (tc_contract: string) (tc_method: string) (tc_args: "arg list") (tc_opts: txopts)

definition from_only :: "address \<Rightarrow> txopts" where
  "from_only a = \<lparr>opt_from = Some a, opt_value = None, opt_gasPrice = None\<rparr>"

definition from_value :: "address \<Rightarrow> int \<Rightarrow> txopts" where
  "from_value a v = \<lparr>opt_from = Some a, opt_value = Some v, opt_gasPrice = None\<rparr>"

section \<open>The contracts object\<close>

record 's contracts =
  tm_getBorrowingFee :: "'s \<Rightarrow> int \<Rightarrow> int res"
  tm_getBorrowingRateWithDecay :: "'s \<Rightarrow> int res"
  tm_getRedemptionRate :: "'s \<Rightarrow> int res"
  tm_getActualDebtFromComposite :: "'s \<Rightarrow> int \<Rightarrow> int res"
  tm_getEntireDebtAndColl :: "'s \<Rightarrow> address \<Rightarrow> (int \<times> int \<times> int \<times> int) res"
  tm_Troves :: "'s \<Rightarrow> address \<Rightarrow> (int \<times> int) res"
  tm_getTroveStake :: "'s \<Rightarrow> address \<Rightarrow> int res"
  tm_getPendingCollReward :: "'s \<Rightarrow> address \<Rightarrow> int res"
  tm_getPendingUSDDDebtReward :: "'s \<Rightarrow> address \<Rightarrow> int res"
  tm_getCurrentICR :: "'s \<Rightarrow> address \<Rightarrow> int \<Rightarrow> int res"
  tm_checkRecoveryMode :: "'s \<Rightarrow> int \<Rightarrow> bool res"
  tm_getTCR :: "'s \<Rightarrow> int \<Rightarrow> int res"
  tm_proxies :: bool
  bo_address :: address
  bo_proxies :: "(address \<Rightarrow> address option) option"
  bo_getCompositeDebt :: "'s \<Rightarrow> int \<Rightarrow> int res"
  bo_MIN_NET_DEBT :: "'s \<Rightarrow> int res"
  pf_getPrice :: "'s \<Rightarrow> int res"
  st_getSize :: "'s \<Rightarrow> int res"
  st_getFirst :: "'s \<Rightarrow> address res"
  st_getLast :: "'s \<Rightarrow> address res"
  st_getPrev :: "'s \<Rightarrow> address \<Rightarrow> address res"
  st_findInsertPosition :: "'s \<Rightarrow> int \<Rightarrow> address \<Rightarrow> address \<Rightarrow> (address \<times> address) res"
  hh_computeNominalCR :: "'s \<Rightarrow> int \<Rightarrow> int \<Rightarrow> int res"
  hh_getApproxHint :: "'s \<Rightarrow> int \<Rightarrow> int \<Rightarrow> int \<Rightarrow> (address \<times> int) res"
  hh_getRedemptionHints :: "'s \<Rightarrow> int \<Rightarrow> int \<Rightarrow> int \<Rightarrow> (address \<times> int \<times> int) res"
  sp_getDepositorETHGain :: "'s \<Rightarrow> address \<Rightarrow> int res"
  weth_allowance :: "'s \<Rightarrow> address \<Rightarrow> address \<Rightarrow> int res"
  deft_getDeploymentStartTime :: "'s \<Rightarrow> int res"
  chain_getBlockNumber :: "'s \<Rightarrow> nat"
  chain_getBlockTimestamp :: "'s \<Rightarrow> nat \<Rightarrow> int res"
  send :: "txcall \<Rightarrow> 's \<Rightarrow> int tx res \<times> 's"

record 's world =
  chain :: 's
  latestRandomSeed :: int
  sent :: "txcall list"
  rand :: "nat \<Rightarrow> int \<Rightarrow> int \<Rightarrow> int"
  draws :: nat

definition view :: "('s \<Rightarrow> 'a res) \<Rightarrow> ('s world, 'a) js" where
  "view f w = (f (chain w), w)"

definition submit :: "'s contracts \<Rightarrow> txcall \<Rightarrow> ('s world, int tx) js" where
  "submit C c w =
     (case send C c (chain w) of (r, s') \<Rightarrow> (r, w\<lparr>chain := s', sent := sent w @ [c]\<rparr>))"

text \<open>One draw of \<open>randAmountInWei(min, max)\<close>: the next value of the input stream.\<close>

definition randAmountInWei :: "int \<Rightarrow> int \<Rightarrow> ('s world, int) js" where
  "randAmountInWei mn mx w = (Inr (rand w (draws w) mn mx), w\<lparr>draws := Suc (draws w)\<rparr>)"

text \<open>
  A small concrete instance, used to show that hypotheses on contracts can hold: fixed view results,
  a one-entry allowance, every transaction succeeds with 21000 gas and counts one block.
\<close>

definition demo_tx :: "int tx" where
  "demo_tx = \<lparr>gas_used = 21000, tx_status = True, block_number = 1, logs = []\<rparr>"

definition demo_views :: "('s \<Rightarrow> 's) \<Rightarrow> ('s \<Rightarrow> nat) \<Rightarrow> 's contracts" where
  "demo_views step blk =
     \<lparr>tm_getBorrowingFee = (\<lambda>s a. Inr (a div 200)),
      tm_getBorrowingRateWithDecay = (\<lambda>s. Inr 5000000000000000),
      tm_getRedemptionRate = (\<lambda>s. Inr 5000000000000000),
      tm_getActualDebtFromComposite = (\<lambda>s d. Inr (d - 200000000000000000000)),
      tm_getEntireDebtAndColl = (\<lambda>s a. Inr (2000000000000000000000, 100000000000000000000, 0, 0)),
      tm_Troves = (\<lambda>s a. Inr (int a * 10, int a)),
      tm_getTroveStake = (\<lambda>s a. Inr (int a)),
      tm_getPendingCollReward = (\<lambda>s a. Inr 0),
      tm_getPendingUSDDDebtReward = (\<lambda>s a. Inr 0),
      tm_getCurrentICR = (\<lambda>s a p. Inr p),
      tm_checkRecoveryMode = (\<lambda>s p. Inr False),
      tm_getTCR = (\<lambda>s p. Inr p),
      tm_proxies = False,
      bo_address = 77,
      bo_proxies = None,
      bo_getCompositeDebt = (\<lambda>s d. Inr (d + 200000000000000000000)),
      bo_MIN_NET_DEBT = (\<lambda>s. Inr 1800000000000000000000),
      pf_getPrice = (\<lambda>s. Inr 200000000000000000000),
      st_getSize = (\<lambda>s. Inr 3),
      st_getFirst = (\<lambda>s. Inr 3),
      st_getLast = (\<lambda>s. Inr 1),
      st_getPrev = (\<lambda>s a. Inr (Suc a)),
      st_findInsertPosition = (\<lambda>s n u l. Inr (u, l)),
      hh_computeNominalCR = (\<lambda>s c d. Inr (if d = 0 then 0 else c * 100000000000000000000 div d)),
      hh_getApproxHint = (\<lambda>s cr n seed. Inr (5, seed + 1)),
      hh_getRedemptionHints = (\<lambda>s a p n. Inr (5, p, a)),
      sp_getDepositorETHGain = (\<lambda>s a. Inr 0),
      weth_allowance = (\<lambda>s o' sp. Inr 0),
      deft_getDeploymentStartTime = (\<lambda>s. Inr 0),
      chain_getBlockNumber = blk,
      chain_getBlockTimestamp = (\<lambda>s b. Inr (int b)),
      send = (\<lambda>c s. (Inr demo_tx, step s))\<rparr>"

definition demo_contracts :: "nat contracts" where
  "demo_contracts = demo_views Suc id"

definition demo_world :: "nat world" where
  "demo_world = \<lparr>chain = 0, latestRandomSeed = 31337, sent = [], rand = (\<lambda>n mn mx. mn), draws = 0\<rparr>"

lemma view_apply [simp]: "view f w = (f (chain w), w)"
  by (simp add: view_def)

lemma submit_Inr:
  "submit C c w = (Inr t, w') \<Longrightarrow> sent w' = sent w @ [c]"
  by (auto simp: submit_def split: prod.splits)

lemma randAmountInWei_apply [simp]:
  "randAmountInWei mn mx w = (Inr (rand w (draws w) mn mx), w\<lparr>draws := Suc (draws w)\<rparr>)"
  by (simp add: randAmountInWei_def)

end
