(* ===== verification/Helper_Chain.thy ===== *)
theory Helper_Chain
  imports Contracts_Api
begin

text \<open>
  The asynchronous helpers of \<open>testHelpers.js\<close> that read contract state and drive single
  operations: debts and fees, list hints, \<open>openTrove\<close>, \<open>addColl\<close>, \<open>adjustTrove\<close>,
  \<open>withdrawUSDD\<close>, redemptions, time and revert assertions.  An optional field of a JavaScript
  options object is an \<open>option\<close>; a missing one is \<open>None\<close>.
\<close>

section \<open>Reading balances, debts and fees\<close>

definition ICRbetween100and110 :: "'s contracts \<Rightarrow> address \<Rightarrow> int \<Rightarrow> ('s world, bool) js" where
  "ICRbetween100and110 C account price =
     jbind (view (\<lambda>s. tm_getCurrentICR C s account price)) (\<lambda>ICR.
     jret (ICR > mv_ICR100 MoneyValues \<and> ICR < mv_MCR MoneyValues))"

definition isUndercollateralized :: "'s contracts \<Rightarrow> address \<Rightarrow> int \<Rightarrow> ('s world, bool) js" where
  "isUndercollateralized C account price =
     jbind (view (\<lambda>s. tm_getCurrentICR C s account price)) (\<lambda>ICR. jret (ICR < mv_MCR MoneyValues))"

definition checkRecoveryMode :: "'s contracts \<Rightarrow> ('s world, bool) js" where
  "checkRecoveryMode C =
     jbind (view (pf_getPrice C)) (\<lambda>price. view (\<lambda>s. tm_checkRecoveryMode C s price))"

definition getTCR :: "'s contracts \<Rightarrow> ('s world, int) js" where
  "getTCR C = jbind (view (pf_getPrice C)) (\<lambda>price. view (\<lambda>s. tm_getTCR C s price))"

definition getActualDebtFromComposite :: "int \<Rightarrow> 's contracts \<Rightarrow> ('s world, int) js" where
  "getActualDebtFromComposite compositeDebt C =
     view (\<lambda>s. tm_getActualDebtFromComposite C s compositeDebt)"

definition getCompositeDebt :: "'s contracts \<Rightarrow> int \<Rightarrow> ('s world, int) js" where
  "getCompositeDebt C d = view (\<lambda>s. bo_getCompositeDebt C s d)"

definition getTroveEntireColl :: "'s contracts \<Rightarrow> address \<Rightarrow> ('s world, int) js" where
  "getTroveEntireColl C trove =
     jbind (view (\<lambda>s. tm_getEntireDebtAndColl C s trove)) (\<lambda>(d, c, pd, pc). jret c)"

definition getTroveEntireDebt :: "'s contracts \<Rightarrow> address \<Rightarrow> ('s world, int) js" where
  "getTroveEntireDebt C trove =
     jbind (view (\<lambda>s. tm_getEntireDebtAndColl C s trove)) (\<lambda>(d, c, pd, pc). jret d)"

definition getTroveStake :: "'s contracts \<Rightarrow> address \<Rightarrow> ('s world, int) js" where
  "getTroveStake C trove = view (\<lambda>s. tm_getTroveStake C s trove)"

definition getOpenTroveTotalDebt :: "'s contracts \<Rightarrow> int \<Rightarrow> ('s world, int) js" where
  "getOpenTroveTotalDebt C usddAmount =
     jbind (view (\<lambda>s. tm_getBorrowingFee C s usddAmount)) (\<lambda>fee.
     jbind (getCompositeDebt C usddAmount) (\<lambda>compositeDebt. jret (compositeDebt + fee)))"

definition getNetBorrowingAmount :: "'s contracts \<Rightarrow> int \<Rightarrow> ('s world, int) js" where
  "getNetBorrowingAmount C debtWithFee =
     jbind (view (tm_getBorrowingRateWithDecay C)) (\<lambda>borrowingRate.
     jlift (bn_div (debtWithFee * mv_1e18BN MoneyValues) (mv_1e18BN MoneyValues + borrowingRate)))"

definition getOpenTroveUSDDAmount :: "'s contracts \<Rightarrow> int \<Rightarrow> ('s world, int) js" where
  "getOpenTroveUSDDAmount C totalDebt =
     jbind (getActualDebtFromComposite totalDebt C) (\<lambda>actualDebt. getNetBorrowingAmount C actualDebt)"

definition getAmountWithBorrowingFee :: "'s contracts \<Rightarrow> int \<Rightarrow> ('s world, int) js" where
  "getAmountWithBorrowingFee C usddAmount =
     jbind (view (\<lambda>s. tm_getBorrowingFee C s usddAmount)) (\<lambda>fee. jret (usddAmount + fee))"

definition getRedemptionGrossAmount :: "'s contracts \<Rightarrow> int \<Rightarrow> ('s world, int) js" where
  "getRedemptionGrossAmount C expected =
     jbind (view (tm_getRedemptionRate C)) (\<lambda>redemptionRate.
     jlift (bn_div (expected * mv_1e18BN MoneyValues) (mv_1e18BN MoneyValues + redemptionRate)))"

text \<open>\<open>this.getCollMinusGasComp\<close> is not a member of the class: calling it is a TypeError.\<close>

fun sum_coll_minus_gas_comp :: "int \<Rightarrow> address list \<Rightarrow> ('s world, int) js" where
  "sum_coll_minus_gas_comp totalCollRemainder [] = jret totalCollRemainder"
| "sum_coll_minus_gas_comp totalCollRemainder (trove # troves) = jthrow TypeError"

definition getExpectedTotalCollMinusTotalGasComp ::
  "address list \<Rightarrow> 's contracts \<Rightarrow> ('s world, int) js" where
  "getExpectedTotalCollMinusTotalGasComp troveList C = sum_coll_minus_gas_comp 0 troveList"

section \<open>Hints and the effect of adjustments\<close>

definition getBorrowerOpsListHint :: "'s contracts \<Rightarrow> int \<Rightarrow> int \<Rightarrow> ('s world, address \<times> address) js" where
  "getBorrowerOpsListHint C newColl newDebt =
     jbind (view (\<lambda>s. hh_computeNominalCR C s newColl newDebt)) (\<lambda>newNICR.
     jbind (jread (\<lambda>w. Inr (latestRandomSeed w))) (\<lambda>seed.
     jbind (view (\<lambda>s. hh_getApproxHint C s newNICR 5 seed)) (\<lambda>(approxfullListHint, seed').
     jbind (jmodify (\<lambda>w. w\<lparr>latestRandomSeed := seed'\<rparr>)) (\<lambda>_.
     view (\<lambda>s. st_findInsertPosition C s newNICR approxfullListHint approxfullListHint)))))"

definition getEntireCollAndDebt :: "'s contracts \<Rightarrow> address \<Rightarrow> ('s world, int \<times> int) js" where
  "getEntireCollAndDebt C account =
     jbind (view (\<lambda>s. tm_Troves C s account)) (\<lambda>(rawDebt, rawColl).
     jbind (view (\<lambda>s. tm_getPendingCollReward C s account)) (\<lambda>pendingETHReward.
     jbind (view (\<lambda>s. tm_getPendingUSDDDebtReward C s account)) (\<lambda>pendingUSDDDebtReward.
     jret (rawColl + pendingETHReward, rawDebt + pendingUSDDDebtReward))))"

definition getCollAndDebtFromAddColl :: "'s contracts \<Rightarrow> address \<Rightarrow> int \<Rightarrow> ('s world, int \<times> int) js" where
  "getCollAndDebtFromAddColl C account amount =
     jbind (getEntireCollAndDebt C account) (\<lambda>(entireColl, entireDebt).
     jret (entireColl + amount, entireDebt))"

definition getCollAndDebtFromWithdrawColl :: "'s contracts \<Rightarrow> address \<Rightarrow> int \<Rightarrow> ('s world, int \<times> int) js" where
  "getCollAndDebtFromWithdrawColl C account amount =
     jbind (getEntireCollAndDebt C account) (\<lambda>(entireColl, entireDebt).
     jret (entireColl - amount, entireDebt))"

definition getCollAndDebtFromWithdrawUSDD :: "'s contracts \<Rightarrow> address \<Rightarrow> int \<Rightarrow> ('s world, int \<times> int) js" where
  "getCollAndDebtFromWithdrawUSDD C account amount =
     jbind (view (\<lambda>s. tm_getBorrowingFee C s amount)) (\<lambda>fee.
     jbind (getEntireCollAndDebt C account) (\<lambda>(entireColl, entireDebt).
     jret (entireColl, entireDebt + amount + fee)))"

definition getCollAndDebtFromRepayUSDD :: "'s contracts \<Rightarrow> address \<Rightarrow> int \<Rightarrow> ('s world, int \<times> int) js" where
  "getCollAndDebtFromRepayUSDD C account amount =
     jbind (getEntireCollAndDebt C account) (\<lambda>(entireColl, entireDebt).
     jret (entireColl, entireDebt - amount))"

definition getCollAndDebtFromAdjustment ::
  "'s contracts \<Rightarrow> address \<Rightarrow> int \<Rightarrow> int \<Rightarrow> ('s world, int \<times> int) js" where
  "getCollAndDebtFromAdjustment C account ETHChange USDDChange =
     jbind (getEntireCollAndDebt C account) (\<lambda>(entireColl, entireDebt).
     jbind (if USDDChange > 0 then view (\<lambda>s. tm_getBorrowingFee C s USDDChange) else jret 0) (\<lambda>fee.
     jret (entireColl + ETHChange, entireDebt + USDDChange + fee)))"

section \<open>Single operations\<close>

text \<open>
  The values an optional amount of an options object takes: absent, a JavaScript number, a decimal
  string, or a BN.  \<open>truthy\<close> is JavaScript's test; a BN object is true whatever its value.
  \<open>allowance.add(amount)\<close> needs a BN: bn.js is strict code and assigns to a field of its argument, so
  any other value is a TypeError.  As an argument of a contract call each value but \<open>undefined\<close> is
  converted.
\<close>

datatype js_amount = Undefined | Num int | Str int | Big int

fun truthy :: "js_amount \<Rightarrow> bool" where
  "truthy Undefined = False"
| "truthy (Num n) = (n \<noteq> 0)"
| "truthy (Str n) = True"
| "truthy (Big n) = True"

fun as_uint :: "js_amount \<Rightarrow> int res" where
  "as_uint Undefined = Inl (Thrown ''invalid BigNumber value'')"
| "as_uint (Num n) = Inr n"
| "as_uint (Str n) = Inr n"
| "as_uint (Big n) = Inr n"

fun bn_add_amount :: "int \<Rightarrow> js_amount \<Rightarrow> int res" where
  "bn_add_amount a (Big n) = Inr (a + n)"
| "bn_add_amount a v = Inl TypeError"

record open_trove_params =
  otp_maxFeePercentage :: "int option"
  otp_usddAmount :: "int option"
  otp_extraUSDDAmount :: "int option"
  otp_upperHint :: "address option"
  otp_lowerHint :: "address option"
  otp_ICR :: "int option"
  otp_txPromise :: bool
  otp_from :: "address option"
  otp_value :: js_amount

record open_trove_result =
  otr_usddAmount :: int
  otr_netDebt :: int
  otr_totalDebt :: int
  otr_ICR :: "int option"
  otr_collateral :: int
  otr_tx :: "int tx res"

definition default :: "'a \<Rightarrow> 'a option \<Rightarrow> 'a" where
  "default d v = (case v of None \<Rightarrow> d | Some x \<Rightarrow> x)"

definition opts :: "address option \<Rightarrow> int option \<Rightarrow> txopts" where
  "opts f v = \<lparr>opt_from = f, opt_value = v, opt_gasPrice = None\<rparr>"

text \<open>
  The WETH preparation of \<open>openTrove\<close>: deposit, then raise the allowance of BorrowerOperations, or
  of the sender's proxy when the contracts are proxied.
\<close>

definition fund_open_trove :: "'s contracts \<Rightarrow> address option \<Rightarrow> js_amount \<Rightarrow> ('s world, unit) js" where
  "fund_open_trove C from amount =
     jbind (jlift (as_uint amount)) (\<lambda>v.
     jbind (submit C (TxCall ''weth'' ''deposit'' [] (opts from (Some v)))) (\<lambda>_.
     jbind (jlift (case (from, bo_proxies C) of
                     (Some f, Some px) \<Rightarrow> (case px f of None \<Rightarrow> Inl TypeError | Some p \<Rightarrow> Inr p)
                   | _ \<Rightarrow> Inr (bo_address C))) (\<lambda>approveAddress.
     jbind (case from of None \<Rightarrow> jthrow (Thrown ''invalid address'')
            | Some f \<Rightarrow> view (\<lambda>s. weth_allowance C s f approveAddress)) (\<lambda>allowance.
     jbind (jlift (bn_add_amount allowance amount)) (\<lambda>allowance'.
     jbind (submit C (TxCall ''weth'' ''approve'' [AAddr approveAddress, AUint allowance']
              (opts from None))) (\<lambda>_. jret ()))))))"

definition open_trove_call :: "'s contracts \<Rightarrow> open_trove_params \<Rightarrow> int \<Rightarrow> int \<Rightarrow> txcall" where
  "open_trove_call C p collAmount usddAmount =
     TxCall ''borrowerOperations''
       (if bo_proxies C \<noteq> None then ''openTrove''
        else ''openTrove(uint256,uint256,uint256,address,address)'')
       [AUint (default pct100 (otp_maxFeePercentage p)), AUint collAmount, AUint usddAmount,
        AAddr (default 0 (otp_upperHint p)), AAddr (default 0 (otp_lowerHint p))]
       (opts (otp_from p) None)"

definition openTrove :: "'s contracts \<Rightarrow> open_trove_params \<Rightarrow> ('s world, open_trove_result) js" where
  "openTrove C p =
     jbind (view (bo_MIN_NET_DEBT C)) (\<lambda>minNetDebt.
     jbind (getNetBorrowingAmount C minNetDebt) (\<lambda>net.
     let MIN_DEBT = net + 1;
         usddAmount = default MIN_DEBT (otp_usddAmount p) + default 0 (otp_extraUSDDAmount p);
         ICR = (if otp_ICR p = None \<and> \<not> truthy (otp_value p) then Some 1500000000000000000 else otp_ICR p)
     in
     jbind (getOpenTroveTotalDebt C usddAmount) (\<lambda>totalDebt.
     jbind (getActualDebtFromComposite totalDebt C) (\<lambda>netDebt.
     jbind (case ICR of
              None \<Rightarrow> jret (otp_value p)
            | Some icr \<Rightarrow>
                jbind (view (pf_getPrice C)) (\<lambda>price.
                jbind (jlift (bn_div (icr * totalDebt) price)) (\<lambda>v. jret (Big v)))) (\<lambda>value.
     let collAmount = (if truthy value then value else Num 0) in
     jbind (if truthy value then fund_open_trove C (otp_from p) value else jret ()) (\<lambda>_.
     jbind (jlift (as_uint collAmount)) (\<lambda>coll.
     let call = submit C (open_trove_call C p coll usddAmount) in
     jbind (if otp_txPromise p then jtry call else jbind call (\<lambda>t. jret (Inr t))) (\<lambda>t.
     jret \<lparr>otr_usddAmount = usddAmount, otr_netDebt = netDebt, otr_totalDebt = totalDebt,
           otr_ICR = ICR, otr_collateral = coll, otr_tx = t\<rparr>))))))))"

definition fund_from :: "'s contracts \<Rightarrow> address \<Rightarrow> js_amount \<Rightarrow> ('s world, unit) js" where
  "fund_from C from amount =
     (if truthy amount
      then jbind (jlift (as_uint amount)) (\<lambda>v.
           jbind (submit C (TxCall ''weth'' ''deposit'' [] (from_value from v))) (\<lambda>_.
           jbind (view (\<lambda>s. weth_allowance C s from (bo_address C))) (\<lambda>allowance.
           jbind (jlift (bn_add_amount allowance amount)) (\<lambda>allowance'.
           jbind (submit C (TxCall ''weth'' ''approve'' [AAddr (bo_address C), AUint allowance']
                    (from_only from))) (\<lambda>_. jret ())))))
      else jret ())"

definition addColl ::
  "'s contracts \<Rightarrow> js_amount \<Rightarrow> address option \<Rightarrow> address option \<Rightarrow> address \<Rightarrow> ('s world, int tx) js" where
  "addColl C collAmount upperHint lowerHint from =
     jbind (fund_from C from collAmount) (\<lambda>_.
     jbind (jlift (as_uint collAmount)) (\<lambda>coll.
     submit C (TxCall ''borrowerOperations'' ''addColl(uint256,address,address)''
       [AUint coll, AAddr (default 0 upperHint), AAddr (default 0 lowerHint)]
       (from_only from))))"

record adjust_params =
  ap_borrower :: "address option"
  ap_maxFee :: int
  ap_collDeposited :: js_amount
  ap_collWithdrawal :: int
  ap_debtChange :: int
  ap_isDebtIncrease :: bool
  ap_upperHint :: "address option"
  ap_lowerHint :: "address option"
  ap_from :: address

definition adjustTrove :: "'s contracts \<Rightarrow> adjust_params \<Rightarrow> ('s world, int tx) js" where
  "adjustTrove C p =
     jbind (fund_from C (ap_from p) (ap_collDeposited p)) (\<lambda>_.
     jbind (jlift (as_uint (ap_collDeposited p))) (\<lambda>coll.
     let common = [AUint (ap_maxFee p), AUint coll, AUint (ap_collWithdrawal p),
                   AUint (ap_debtChange p), ABool (ap_isDebtIncrease p),
                   AAddr (default 0 (ap_upperHint p)), AAddr (default 0 (ap_lowerHint p))]
     in case ap_borrower p of
          None \<Rightarrow> submit C (TxCall ''borrowerOperations''
                    ''adjustTrove(uint256,uint256,uint256,uint256,bool,address,address)''
                    common (from_only (ap_from p)))
        | Some b \<Rightarrow> submit C (TxCall ''borrowerOperations''
                    ''adjustTrove(address,uint256,uint256,uint256,uint256,bool,address,address)''
                    (AAddr b # common) (from_only (ap_from p)))))"

text \<open>
  \<open>targetDebt > debt\<close> on two BN objects compares their decimal strings: neither has a numeric
  \<open>valueOf\<close>, so JavaScript falls back to \<open>toString\<close> and compares lexicographically.
\<close>

definition bn_object_gt :: "int \<Rightarrow> int \<Rightarrow> bool" where
  "bn_object_gt a b \<longleftrightarrow> show_int b < show_int a"

record withdraw_params =
  wp_maxFeePercentage :: "int option"
  wp_usddAmount :: "int option"
  wp_ICR :: "int option"
  wp_upperHint :: "address option"
  wp_lowerHint :: "address option"
  wp_from :: "address option"

definition withdrawUSDD_amounts :: "'s contracts \<Rightarrow> withdraw_params \<Rightarrow> ('s world, int \<times> int) js" where
  "withdrawUSDD_amounts C p =
     (case (wp_usddAmount p, wp_ICR p) of
        (None, None) \<Rightarrow> jthrow (AssertionError ''Specify either usdd amount or target ICR, but not both'')
      | (Some _, Some _) \<Rightarrow> jthrow (AssertionError ''Specify either usdd amount or target ICR, but not both'')
      | (Some usddAmount, None) \<Rightarrow>
          jbind (getAmountWithBorrowingFee C usddAmount) (\<lambda>increased. jret (usddAmount, increased))
      | (None, Some ICR) \<Rightarrow>
          (case wp_from p of
             None \<Rightarrow> jthrow (AssertionError ''A from account is needed'')
           | Some from \<Rightarrow>
               jbind (view (\<lambda>s. tm_getEntireDebtAndColl C s from)) (\<lambda>(debt, coll, pd, pc).
               jbind (view (pf_getPrice C)) (\<lambda>price.
               jbind (jlift (bn_div (coll * price) ICR)) (\<lambda>targetDebt.
               if \<not> bn_object_gt targetDebt debt
               then jthrow (AssertionError ''ICR is already greater than or equal to target'')
               else let increasedTotalDebt = targetDebt - debt in
                 jbind (getNetBorrowingAmount C increasedTotalDebt) (\<lambda>usddAmount.
                 jret (usddAmount, increasedTotalDebt)))))))"

definition withdrawUSDD :: "'s contracts \<Rightarrow> withdraw_params \<Rightarrow> ('s world, int \<times> int) js" where
  "withdrawUSDD C p =
     jbind (withdrawUSDD_amounts C p) (\<lambda>(usddAmount, increasedTotalDebt).
     jbind (submit C (TxCall ''borrowerOperations'' ''withdrawUSDD''
              [AUint (default pct100 (wp_maxFeePercentage p)), AUint usddAmount,
               AAddr (default 0 (wp_upperHint p)), AAddr (default 0 (wp_lowerHint p))]
              (opts (wp_from p) None))) (\<lambda>_.
     jret (usddAmount, increasedTotalDebt)))"

section \<open>Redemptions\<close>

definition performRedemptionTx ::
  "'s contracts \<Rightarrow> address \<Rightarrow> int \<Rightarrow> int \<Rightarrow> int \<Rightarrow> ('s world, int tx) js" where
  "performRedemptionTx C redeemer price USDDAmount maxFee =
     jbind (view (\<lambda>s. hh_getRedemptionHints C s USDDAmount price 0)) (\<lambda>(firstRedemptionHint, partialRedemptionNewICR, trunc).
     jbind (jread (\<lambda>w. Inr (latestRandomSeed w))) (\<lambda>seed.
     jbind (view (\<lambda>s. hh_getApproxHint C s partialRedemptionNewICR 50 seed)) (\<lambda>(approxPartialRedemptionHint, seed').
     jbind (jmodify (\<lambda>w. w\<lparr>latestRandomSeed := seed'\<rparr>)) (\<lambda>_.
     jbind (view (\<lambda>s. st_findInsertPosition C s partialRedemptionNewICR
               approxPartialRedemptionHint approxPartialRedemptionHint)) (\<lambda>(upper, lower).
     submit C (TxCall ''troveManager''
       (if tm_proxies C then ''redeemCollateral''
        else ''redeemCollateral(uint256,address,address,address,uint256,uint256,uint256)'')
       [AUint USDDAmount, AAddr firstRedemptionHint, AAddr upper, AAddr lower,
        AUint partialRedemptionNewICR, AUint 0, AUint maxFee]
       \<lparr>opt_from = Some redeemer, opt_value = None, opt_gasPrice = Some 0\<rparr>))))))"

definition redeemCollateralAndGetTxObject ::
  "'s contracts \<Rightarrow> address \<Rightarrow> int \<Rightarrow> int \<Rightarrow> ('s world, int tx) js" where
  "redeemCollateralAndGetTxObject C redeemer USDDAmount maxFee =
     jbind (view (pf_getPrice C)) (\<lambda>price. performRedemptionTx C redeemer price USDDAmount maxFee)"

definition redeemCollateral :: "'s contracts \<Rightarrow> address \<Rightarrow> int \<Rightarrow> int \<Rightarrow> ('s world, int) js" where
  "redeemCollateral C redeemer USDDAmount maxFee =
     jbind (view (pf_getPrice C)) (\<lambda>price.
     jbind (performRedemptionTx C redeemer price USDDAmount maxFee) (\<lambda>t. jret (gas_used t)))"

section \<open>Time, front ends and revert assertions\<close>

definition registerFrontEnds :: "'s contracts \<Rightarrow> address list \<Rightarrow> ('s world, unit) js" where
  "registerFrontEnds C frontEnds =
     jbind (jfor (\<lambda>frontEnd. submit C (TxCall ''stabilityPool'' ''registerFrontEnd''
              [AUint (int (read_nat (dec ''5'' (Zeros 17))))] (from_only frontEnd))) frontEnds) (\<lambda>_.
     jret ())"

definition getLatestBlockTimestamp :: "'s contracts \<Rightarrow> ('s world, int) js" where
  "getLatestBlockTimestamp C =
     jbind (jread (\<lambda>w. Inr (chain_getBlockNumber C (chain w)))) (\<lambda>blockNumber.
     view (\<lambda>s. chain_getBlockTimestamp C s blockNumber))"

definition getTimestampFromTxReceipt :: "'s contracts \<Rightarrow> int tx \<Rightarrow> ('s world, int) js" where
  "getTimestampFromTxReceipt C t = view (\<lambda>s. chain_getBlockTimestamp C s (block_number t))"

definition getTimestampFromTx :: "'s contracts \<Rightarrow> int tx \<Rightarrow> ('s world, int) js" where
  "getTimestampFromTx C t = getTimestampFromTxReceipt C t"

definition getTimeFromSystemDeployment :: "'s contracts \<Rightarrow> int \<Rightarrow> ('s world, int) js" where
  "getTimeFromSystemDeployment C timePassedSinceDeployment =
     jbind (view (deft_getDeploymentStartTime C)) (\<lambda>deploymentTime.
     jret (deploymentTime + timePassedSinceDeployment))"

text \<open>The \<open>message\<close> of an exception, as the assertions of the helpers inspect it.\<close>

fun err_message :: "js_error \<Rightarrow> string" where
  "err_message TypeError = ''TypeError''"
| "err_message ReferenceError = ''ReferenceError''"
| "err_message (Thrown m) = m"
| "err_message (Revert m) = ''VM Exception while processing transaction: revert '' @ m"
| "err_message InvalidOpcode = ''VM Exception while processing transaction: invalid opcode''"
| "err_message (AssertionError m) = m"

text \<open>
  Both assertions await the transaction inside a \<open>try\<close>: a transaction that succeeds fails
  \<open>assert.isFalse(tx.receipt.status)\<close>, but that failure is caught by the same \<open>catch\<close>, which
  then looks for the marker in the assertion's own message.
\<close>

definition assert_fails_with :: "string \<Rightarrow> 'v tx res \<Rightarrow> unit res" where
  "assert_fails_with marker r =
     (let caught = (case r of
                      Inl e \<Rightarrow> Some (err_message e)
                    | Inr t \<Rightarrow> (if tx_status t then Some ''expected true to be false'' else None))
      in case caught of
           None \<Rightarrow> Inr ()
         | Some m \<Rightarrow> (if js_includes m marker then Inr () else Inl (AssertionError ''include'')))"

definition assertRevert :: "'v tx res \<Rightarrow> unit res" where
  "assertRevert txPromise = assert_fails_with ''revert'' txPromise"

definition assertAssert :: "'v tx res \<Rightarrow> unit res" where
  "assertAssert txPromise = assert_fails_with ''invalid opcode'' txPromise"

end
