(* ===== verification/Helper_Loops.thy ===== *)
theory Helper_Loops
  imports Helper_Chain
begin

text \<open>
  The gas-measuring loops of \<open>testHelpers.js\<close>: each sends one transaction per account and collects
  the gas it used.  For every method there is a definition of its loop body (\<open>..._step\<close>) and one of
  the method, which runs the body over the accounts with \<open>jfor\<close> and summarises the gas list.  The
  locale \<open>account_loop\<close> states what the body promises and derives what the loop does; each method's
  body is an interpretation of it.
\<close>

section \<open>Loop bodies and methods\<close>

definition gasUsed :: "'v tx \<Rightarrow> int" where
  "gasUsed t = gas_used t"

definition send_gas :: "'s contracts \<Rightarrow> txcall \<Rightarrow> ('s world, int) js" where
  "send_gas C c = jbind (submit C c) (\<lambda>t. jret (gasUsed t))"

definition measure_all ::
  "('x \<Rightarrow> ('s world, int) js) \<Rightarrow> 'x list \<Rightarrow> ('s world, gas_metrics) js" where
  "measure_all body xs = jbind (jfor body xs) (\<lambda>gs. jret (getGasMetrics gs))"

subsection \<open>Opening and closing troves\<close>

text \<open>The four-argument call that every opening loop makes, with the collateral as ETH value.\<close>

definition open_call :: "int \<Rightarrow> address \<Rightarrow> address \<Rightarrow> address \<Rightarrow> int \<Rightarrow> txcall" where
  "open_call usdd upperHint lowerHint account coll =
     TxCall ''borrowerOperations'' ''openTrove''
       [AUint pct100, AUint usdd, AAddr upperHint, AAddr lowerHint] (from_value account coll)"

definition open_with_hints ::
  "'s contracts \<Rightarrow> int \<Rightarrow> int \<Rightarrow> int \<Rightarrow> address \<Rightarrow> ('s world, int) js" where
  "open_with_hints C coll totalDebt usdd account =
     jbind (getBorrowerOpsListHint C coll totalDebt) (\<lambda>(upperHint, lowerHint).
     send_gas C (open_call usdd upperHint lowerHint account coll))"

definition openTrove_allAccounts ::
  "address list \<Rightarrow> 's contracts \<Rightarrow> int \<Rightarrow> int \<Rightarrow> ('s world, gas_metrics) js" where
  "openTrove_allAccounts accounts C ETHAmount USDDAmount =
     jbind (getOpenTroveTotalDebt C USDDAmount) (\<lambda>totalDebt.
     measure_all (open_with_hints C ETHAmount totalDebt USDDAmount) accounts)"

definition openTrove_randomETH_step ::
  "'s contracts \<Rightarrow> int \<Rightarrow> int \<Rightarrow> int \<Rightarrow> int \<Rightarrow> address \<Rightarrow> ('s world, int) js" where
  "openTrove_randomETH_step C minETH maxETH totalDebt USDDAmount account =
     jbind (randAmountInWei minETH maxETH) (\<lambda>randCollAmount.
     open_with_hints C randCollAmount totalDebt USDDAmount account)"

definition openTrove_allAccounts_randomETH ::
  "int \<Rightarrow> int \<Rightarrow> address list \<Rightarrow> 's contracts \<Rightarrow> int \<Rightarrow> ('s world, gas_metrics) js" where
  "openTrove_allAccounts_randomETH minETH maxETH accounts C USDDAmount =
     jbind (getOpenTroveTotalDebt C USDDAmount) (\<lambda>totalDebt.
     measure_all (openTrove_randomETH_step C minETH maxETH totalDebt USDDAmount) accounts)"

definition openTrove_proportional_step ::
  "'s contracts \<Rightarrow> int \<Rightarrow> int \<Rightarrow> int \<Rightarrow> address \<Rightarrow> ('s world, int) js" where
  "openTrove_proportional_step C minETH maxETH proportion account =
     jbind (randAmountInWei minETH maxETH) (\<lambda>randCollAmount.
     let proportionalUSDD = proportion * randCollAmount in
     jbind (getOpenTroveTotalDebt C proportionalUSDD) (\<lambda>totalDebt.
     open_with_hints C randCollAmount totalDebt proportionalUSDD account))"

definition openTrove_allAccounts_randomETH_ProportionalUSDD ::
  "int \<Rightarrow> int \<Rightarrow> address list \<Rightarrow> 's contracts \<Rightarrow> int \<Rightarrow> ('s world, gas_metrics) js" where
  "openTrove_allAccounts_randomETH_ProportionalUSDD minETH maxETH accounts C proportion =
     measure_all (openTrove_proportional_step C minETH maxETH proportion) accounts"

text \<open>With \<open>logging\<close> the body also reads the ICR of the new trove, which can revert.\<close>

definition openTrove_randomETH_randomUSDD_step ::
  "'s contracts \<Rightarrow> int \<Rightarrow> int \<Rightarrow> int \<Rightarrow> int \<Rightarrow> bool \<Rightarrow> int \<Rightarrow> address \<Rightarrow> ('s world, int) js" where
  "openTrove_randomETH_randomUSDD_step C minETH maxETH minUSDDProportion maxUSDDProportion logging price account =
     jbind (randAmountInWei minETH maxETH) (\<lambda>randCollAmount.
     jbind (randAmountInWei minUSDDProportion maxUSDDProportion) (\<lambda>randUSDDProportion.
     let proportionalUSDD = randUSDDProportion * bn_quot randCollAmount 1000000000000000000 in
     jbind (getOpenTroveTotalDebt C proportionalUSDD) (\<lambda>totalDebt.
     jbind (getBorrowerOpsListHint C randCollAmount totalDebt) (\<lambda>(upperHint, lowerHint).
     jbind (submit C (open_call proportionalUSDD upperHint lowerHint account randCollAmount)) (\<lambda>t.
     jbind (if logging \<and> tx_status t
            then jbind (view (\<lambda>s. tm_getCurrentICR C s account price)) (\<lambda>_. jret ())
            else jret ()) (\<lambda>_.
     jret (gasUsed t)))))))"

definition openTrove_allAccounts_randomETH_randomUSDD ::
  "int \<Rightarrow> int \<Rightarrow> address list \<Rightarrow> 's contracts \<Rightarrow> int \<Rightarrow> int \<Rightarrow> bool \<Rightarrow> ('s world, gas_metrics) js" where
  "openTrove_allAccounts_randomETH_randomUSDD minETH maxETH accounts C minUSDDProportion maxUSDDProportion logging =
     jbind (view (pf_getPrice C)) (\<lambda>price.
     measure_all (openTrove_randomETH_randomUSDD_step C minETH maxETH minUSDDProportion
       maxUSDDProportion logging price) accounts)"

definition openTrove_randomUSDD_step ::
  "'s contracts \<Rightarrow> int \<Rightarrow> int \<Rightarrow> int \<Rightarrow> address \<Rightarrow> ('s world, int) js" where
  "openTrove_randomUSDD_step C minUSDD maxUSDD ETHAmount account =
     jbind (randAmountInWei minUSDD maxUSDD) (\<lambda>randUSDDAmount.
     jbind (getOpenTroveTotalDebt C randUSDDAmount) (\<lambda>totalDebt.
     open_with_hints C ETHAmount totalDebt randUSDDAmount account))"

definition openTrove_allAccounts_randomUSDD ::
  "int \<Rightarrow> int \<Rightarrow> address list \<Rightarrow> 's contracts \<Rightarrow> int \<Rightarrow> ('s world, gas_metrics) js" where
  "openTrove_allAccounts_randomUSDD minUSDD maxUSDD accounts C ETHAmount =
     measure_all (openTrove_randomUSDD_step C minUSDD maxUSDD ETHAmount) accounts"

definition closeTrove_step :: "'s contracts \<Rightarrow> address \<Rightarrow> ('s world, int) js" where
  "closeTrove_step C account =
     send_gas C (TxCall ''borrowerOperations'' ''closeTrove'' [] (from_only account))"

definition closeTrove_allAccounts ::
  "address list \<Rightarrow> 's contracts \<Rightarrow> ('s world, gas_metrics) js" where
  "closeTrove_allAccounts accounts C = measure_all (closeTrove_step C) accounts"

definition openTrove_decreasing_step ::
  "'s contracts \<Rightarrow> int \<Rightarrow> int \<Rightarrow> nat \<times> address \<Rightarrow> ('s world, int) js" where
  "openTrove_decreasing_step C ETHAmount maxUSDDAmount = (\<lambda>(i, account).
     let USDDAmountWei = (maxUSDDAmount - int i) * 10 ^ 18 in
     jbind (getOpenTroveTotalDebt C USDDAmountWei) (\<lambda>totalDebt.
     open_with_hints C ETHAmount totalDebt USDDAmountWei account))"

definition openTrove_allAccounts_decreasingUSDDAmounts ::
  "address list \<Rightarrow> 's contracts \<Rightarrow> int \<Rightarrow> int \<Rightarrow> ('s world, gas_metrics) js" where
  "openTrove_allAccounts_decreasingUSDDAmounts accounts C ETHAmount maxUSDDAmount =
     measure_all (openTrove_decreasing_step C ETHAmount maxUSDDAmount) (enumerate 0 accounts)"

subsection \<open>Adjusting troves\<close>

text \<open>
  The call that adjusts a trove by a signed change of ETH and of debt; without an ETH change no
  transaction is sent and \<open>this.gasUsed(tx)\<close> dereferences \<open>undefined\<close>.  The two methods differ in
  the order of the hints when ETH is withdrawn.
\<close>

definition adjust_step ::
  "bool \<Rightarrow> 's contracts \<Rightarrow> int \<Rightarrow> int \<Rightarrow> address \<Rightarrow> ('s world, int) js" where
  "adjust_step swapped C ETHChange USDDChange account =
     jbind (getCollAndDebtFromAdjustment C account ETHChange USDDChange) (\<lambda>(newColl, newDebt).
     jbind (getBorrowerOpsListHint C newColl newDebt) (\<lambda>(upperHint, lowerHint).
     let isDebtIncrease = USDDChange > 0;
         hint1 = (if swapped then lowerHint else upperHint);
         hint2 = (if swapped then upperHint else lowerHint)
     in if ETHChange > 0
        then send_gas C (TxCall ''borrowerOperations'' ''adjustTrove''
               [AUint pct100, AUint 0, AUint \<bar>USDDChange\<bar>, ABool isDebtIncrease,
                AAddr upperHint, AAddr lowerHint] (from_value account ETHChange))
        else if ETHChange < 0
        then send_gas C (TxCall ''borrowerOperations'' ''adjustTrove''
               [AUint pct100, AUint (- ETHChange), AUint \<bar>USDDChange\<bar>, ABool isDebtIncrease,
                AAddr hint1, AAddr hint2] (from_only account))
        else jthrow TypeError))"

definition adjustTrove_allAccounts ::
  "address list \<Rightarrow> 's contracts \<Rightarrow> int \<Rightarrow> int \<Rightarrow> ('s world, gas_metrics) js" where
  "adjustTrove_allAccounts accounts C ETHAmount USDDAmount =
     measure_all (adjust_step False C ETHAmount USDDAmount) accounts"

definition adjustTrove_random_step ::
  "'s contracts \<Rightarrow> int \<Rightarrow> int \<Rightarrow> int \<Rightarrow> int \<Rightarrow> address \<Rightarrow> ('s world, int) js" where
  "adjustTrove_random_step C ETHMin ETHMax USDDMin USDDMax account =
     jbind (randAmountInWei ETHMin ETHMax) (\<lambda>ETHChange.
     jbind (randAmountInWei USDDMin USDDMax) (\<lambda>USDDChange.
     adjust_step True C ETHChange USDDChange account))"

definition adjustTrove_allAccounts_randomAmount ::
  "address list \<Rightarrow> 's contracts \<Rightarrow> int \<Rightarrow> int \<Rightarrow> int \<Rightarrow> int \<Rightarrow> ('s world, gas_metrics) js" where
  "adjustTrove_allAccounts_randomAmount accounts C ETHMin ETHMax USDDMin USDDMax =
     measure_all (adjustTrove_random_step C ETHMin ETHMax USDDMin USDDMax) accounts"

text \<open>
  \<open>this.addColl({...})\<close> passes the options object as the \<open>contracts\<close> parameter and leaves the second
  parameter undefined; destructuring \<open>undefined\<close> throws a TypeError before the body runs.
\<close>

definition addColl_without_contracts :: "('s world, int tx) js" where
  "addColl_without_contracts = jthrow TypeError"

definition addColl_step :: "'s contracts \<Rightarrow> int \<Rightarrow> address \<Rightarrow> ('s world, int) js" where
  "addColl_step C amount account =
     jbind (getCollAndDebtFromAddColl C account amount) (\<lambda>(newColl, newDebt).
     jbind (getBorrowerOpsListHint C newColl newDebt) (\<lambda>(upperHint, lowerHint).
     jbind addColl_without_contracts (\<lambda>t. jret (gasUsed t))))"

definition addColl_allAccounts ::
  "address list \<Rightarrow> 's contracts \<Rightarrow> int \<Rightarrow> ('s world, gas_metrics) js" where
  "addColl_allAccounts accounts C amount = measure_all (addColl_step C amount) accounts"

definition addColl_allAccounts_randomAmount ::
  "int \<Rightarrow> int \<Rightarrow> address list \<Rightarrow> 's contracts \<Rightarrow> ('s world, gas_metrics) js" where
  "addColl_allAccounts_randomAmount mn mx accounts C =
     measure_all (\<lambda>account. jbind (randAmountInWei mn mx) (\<lambda>amount. addColl_step C amount account)) accounts"

definition withdrawColl_step :: "'s contracts \<Rightarrow> int \<Rightarrow> address \<Rightarrow> ('s world, int) js" where
  "withdrawColl_step C amount account =
     jbind (getCollAndDebtFromWithdrawColl C account amount) (\<lambda>(newColl, newDebt).
     jbind (getBorrowerOpsListHint C newColl newDebt) (\<lambda>(upperHint, lowerHint).
     send_gas C (TxCall ''borrowerOperations'' ''withdrawColl''
       [AUint amount, AAddr upperHint, AAddr lowerHint] (from_only account))))"

definition withdrawColl_allAccounts ::
  "address list \<Rightarrow> 's contracts \<Rightarrow> int \<Rightarrow> ('s world, gas_metrics) js" where
  "withdrawColl_allAccounts accounts C amount = measure_all (withdrawColl_step C amount) accounts"

text \<open>A loop over a random amount draws it first and then runs the body with it.\<close>

definition with_random ::
  "int \<Rightarrow> int \<Rightarrow> (int \<Rightarrow> 'x \<Rightarrow> ('s world, int) js) \<Rightarrow> 'x \<Rightarrow> ('s world, int) js" where
  "with_random mn mx body x = jbind (randAmountInWei mn mx) (\<lambda>amount. body amount x)"

definition withdrawColl_allAccounts_randomAmount ::
  "int \<Rightarrow> int \<Rightarrow> address list \<Rightarrow> 's contracts \<Rightarrow> ('s world, gas_metrics) js" where
  "withdrawColl_allAccounts_randomAmount mn mx accounts C =
     measure_all (with_random mn mx (withdrawColl_step C)) accounts"

definition withdrawUSDD_step :: "'s contracts \<Rightarrow> int \<Rightarrow> address \<Rightarrow> ('s world, int) js" where
  "withdrawUSDD_step C amount account =
     jbind (getCollAndDebtFromWithdrawUSDD C account amount) (\<lambda>(newColl, newDebt).
     jbind (getBorrowerOpsListHint C newColl newDebt) (\<lambda>(upperHint, lowerHint).
     send_gas C (TxCall ''borrowerOperations'' ''withdrawUSDD''
       [AUint pct100, AUint amount, AAddr upperHint, AAddr lowerHint] (from_only account))))"

definition withdrawUSDD_allAccounts ::
  "address list \<Rightarrow> 's contracts \<Rightarrow> int \<Rightarrow> ('s world, gas_metrics) js" where
  "withdrawUSDD_allAccounts accounts C amount = measure_all (withdrawUSDD_step C amount) accounts"

definition withdrawUSDD_allAccounts_randomAmount ::
  "int \<Rightarrow> int \<Rightarrow> address list \<Rightarrow> 's contracts \<Rightarrow> ('s world, gas_metrics) js" where
  "withdrawUSDD_allAccounts_randomAmount mn mx accounts C =
     measure_all (with_random mn mx (withdrawUSDD_step C)) accounts"

definition repayUSDD_step :: "'s contracts \<Rightarrow> int \<Rightarrow> address \<Rightarrow> ('s world, int) js" where
  "repayUSDD_step C amount account =
     jbind (getCollAndDebtFromRepayUSDD C account amount) (\<lambda>(newColl, newDebt).
     jbind (getBorrowerOpsListHint C newColl newDebt) (\<lambda>(upperHint, lowerHint).
     send_gas C (TxCall ''borrowerOperations'' ''repayUSDD''
       [AUint amount, AAddr upperHint, AAddr lowerHint] (from_only account))))"

definition repayUSDD_allAccounts ::
  "address list \<Rightarrow> 's contracts \<Rightarrow> int \<Rightarrow> ('s world, gas_metrics) js" where
  "repayUSDD_allAccounts accounts C amount = measure_all (repayUSDD_step C amount) accounts"

definition repayUSDD_allAccounts_randomAmount ::
  "int \<Rightarrow> int \<Rightarrow> address list \<Rightarrow> 's contracts \<Rightarrow> ('s world, gas_metrics) js" where
  "repayUSDD_allAccounts_randomAmount mn mx accounts C =
     measure_all (with_random mn mx (repayUSDD_step C)) accounts"

definition getCurrentICR_step :: "'s contracts \<Rightarrow> int \<Rightarrow> address \<Rightarrow> ('s world, int) js" where
  "getCurrentICR_step C price account =
     jbind (submit C (TxCall ''functionCaller'' ''troveManager_getCurrentICR''
              [AAddr account, AUint price] (opts None None))) (\<lambda>t.
     jret (gasUsed t - 21000))"

definition getCurrentICR_allAccounts ::
  "address list \<Rightarrow> 's contracts \<Rightarrow> ('s world, gas_metrics) js" where
  "getCurrentICR_allAccounts accounts C =
     jbind (view (pf_getPrice C)) (\<lambda>price. measure_all (getCurrentICR_step C price) accounts)"

subsection \<open>Redemptions, composite functions and the stability pool\<close>

text \<open>
  The result of \<open>performRedemptionTx\<close>, called with its default \<open>maxFee = 0\<close>, is dropped, and the
  gas is read from \<open>tx\<close>, which is not declared anywhere: a ReferenceError.
\<close>

definition redeemCollateral_random_step ::
  "'s contracts \<Rightarrow> int \<Rightarrow> int \<Rightarrow> int \<Rightarrow> address \<Rightarrow> ('s world, int) js" where
  "redeemCollateral_random_step C mn mx price redeemer =
     jbind (randAmountInWei mn mx) (\<lambda>randUSDDAmount.
     jbind (performRedemptionTx C redeemer price randUSDDAmount 0) (\<lambda>_.
     jthrow ReferenceError))"

definition redeemCollateral_allAccounts_randomAmount ::
  "int \<Rightarrow> int \<Rightarrow> address list \<Rightarrow> 's contracts \<Rightarrow> ('s world, gas_metrics) js" where
  "redeemCollateral_allAccounts_randomAmount mn mx accounts C =
     jbind (view (pf_getPrice C)) (\<lambda>price.
     measure_all (redeemCollateral_random_step C mn mx price) accounts)"

text \<open>One round of \<open>makeTrovesIncreasingICR\<close>, and its loop with the variable \<open>amountFinney\<close>.\<close>

definition makeTroves_step :: "'s contracts \<Rightarrow> int \<Rightarrow> address \<Rightarrow> ('s world, int tx) js" where
  "makeTroves_step C amountFinney account =
     (let coll = amountFinney * 10 ^ 15
      in submit C (open_call 200000000000000000000 account account account coll))"

fun makeTroves_loop :: "'s contracts \<Rightarrow> int \<Rightarrow> address list \<Rightarrow> ('s world, unit) js" where
  "makeTroves_loop C amountFinney [] = jret ()"
| "makeTroves_loop C amountFinney (account # accounts) =
     jbind (makeTroves_step C amountFinney account) (\<lambda>_. makeTroves_loop C (amountFinney + 10) accounts)"

definition makeTrovesIncreasingICR :: "address list \<Rightarrow> 's contracts \<Rightarrow> ('s world, unit) js" where
  "makeTrovesIncreasingICR accounts C = makeTroves_loop C 2000 accounts"

definition provideToSP_step :: "'s contracts \<Rightarrow> int \<Rightarrow> address \<Rightarrow> ('s world, int) js" where
  "provideToSP_step C amount account =
     send_gas C (TxCall ''stabilityPool'' ''provideToSP'' [AUint amount, AAddr 0] (from_only account))"

definition provideToSP_allAccounts ::
  "address list \<Rightarrow> 's contracts \<Rightarrow> int \<Rightarrow> ('s world, gas_metrics) js" where
  "provideToSP_allAccounts accounts C amount = measure_all (provideToSP_step C amount) accounts"

definition provideToSP_allAccounts_randomAmount ::
  "int \<Rightarrow> int \<Rightarrow> address list \<Rightarrow> 's contracts \<Rightarrow> ('s world, gas_metrics) js" where
  "provideToSP_allAccounts_randomAmount mn mx accounts C =
     measure_all (with_random mn mx (provideToSP_step C)) accounts"

definition withdrawFromSP_step :: "'s contracts \<Rightarrow> int \<Rightarrow> address \<Rightarrow> ('s world, int) js" where
  "withdrawFromSP_step C amount account =
     send_gas C (TxCall ''stabilityPool'' ''withdrawFromSP'' [AUint amount] (from_only account))"

definition withdrawFromSP_allAccounts ::
  "address list \<Rightarrow> 's contracts \<Rightarrow> int \<Rightarrow> ('s world, gas_metrics) js" where
  "withdrawFromSP_allAccounts accounts C amount = measure_all (withdrawFromSP_step C amount) accounts"

definition withdrawFromSP_allAccounts_randomAmount ::
  "int \<Rightarrow> int \<Rightarrow> address list \<Rightarrow> 's contracts \<Rightarrow> ('s world, gas_metrics) js" where
  "withdrawFromSP_allAccounts_randomAmount mn mx accounts C =
     measure_all (with_random mn mx (withdrawFromSP_step C)) accounts"

definition withdrawETHGain_step :: "'s contracts \<Rightarrow> address \<Rightarrow> ('s world, int) js" where
  "withdrawETHGain_step C account =
     jbind (getEntireCollAndDebt C account) (\<lambda>(entireColl, entireDebt).
     jbind (view (\<lambda>s. sp_getDepositorETHGain C s account)) (\<lambda>ETHGain.
     jbind (getBorrowerOpsListHint C (entireColl + ETHGain) entireDebt) (\<lambda>(upperHint, lowerHint).
     send_gas C (TxCall ''stabilityPool'' ''withdrawETHGainToTrove''
       [AAddr upperHint, AAddr lowerHint] (from_only account)))))"

definition withdrawETHGainToTrove_allAccounts ::
  "address list \<Rightarrow> 's contracts \<Rightarrow> ('s world, gas_metrics) js" where
  "withdrawETHGainToTrove_allAccounts accounts C = measure_all (withdrawETHGain_step C) accounts"

subsection \<open>Listing troves\<close>

text \<open>One printed line: the account, its collateral, its debt and its ICR.\<close>

type_synonym trove_line = "address \<times> int \<times> int \<times> int"

definition trove_line :: "'s contracts \<Rightarrow> int \<Rightarrow> address \<Rightarrow> ('s world, trove_line) js" where
  "trove_line C price account =
     jbind (view (\<lambda>s. tm_Troves C s account)) (\<lambda>(debt, coll).
     jbind (view (\<lambda>s. tm_getCurrentICR C s account price)) (\<lambda>ICR.
     jret (account, coll, debt, ICR)))"

fun log_active_loop :: "'s contracts \<Rightarrow> int \<Rightarrow> address \<Rightarrow> nat \<Rightarrow> address \<Rightarrow> ('s world, trove_line list) js" where
  "log_active_loop C price head 0 account = jret []"
| "log_active_loop C price head (Suc k) account =
     jbind (trove_line C price account) (\<lambda>line.
     if account = head then jret [line]
     else jbind (view (\<lambda>s. st_getPrev C s account)) (\<lambda>account'.
          jbind (log_active_loop C price head k account') (\<lambda>lines. jret (line # lines))))"

definition logActiveAccounts :: "'s contracts \<Rightarrow> int option \<Rightarrow> ('s world, trove_line list) js" where
  "logActiveAccounts C n =
     jbind (view (st_getSize C)) (\<lambda>count.
     jbind (view (pf_getPrice C)) (\<lambda>price.
     let n' = default count n in
     jbind (view (st_getLast C)) (\<lambda>account.
     jbind (view (st_getFirst C)) (\<lambda>head.
     log_active_loop C price head (nat n') account))))"

text \<open>The parameter \<open>n\<close> only occurs in the heading that is printed; every account is listed.\<close>

definition logAccountsArray ::
  "address list \<Rightarrow> 's contracts \<Rightarrow> int \<Rightarrow> nat option \<Rightarrow> ('s world, nat \<times> trove_line list) js" where
  "logAccountsArray accounts C price n =
     (let n' = default (length accounts) n
      in jbind (jfor (trove_line C price) accounts) (\<lambda>lines. jret (n', lines)))"

section \<open>Computations that send nothing, and those that send one transaction\<close>

definition quiet :: "('s world, 'a) js \<Rightarrow> bool" where
  "quiet m \<longleftrightarrow> (\<forall>w. sent (snd (m w)) = sent w \<and> chain (snd (m w)) = chain w)"

text \<open>At most one transaction, which satisfies \<open>P\<close>; exactly one when the computation returns.\<close>

definition one_tx :: "(txcall \<Rightarrow> bool) \<Rightarrow> ('s world, 'a) js \<Rightarrow> bool" where
  "one_tx P m \<longleftrightarrow>
     (\<forall>w. (\<exists>t. sent (snd (m w)) = sent w @ [t] \<and> P t) \<or>
          (sent (snd (m w)) = sent w \<and> \<not> is_ok (fst (m w))))"

named_theorems tx_rules \<open>how many transactions a computation sends\<close>

lemma quietD: "quiet m \<Longrightarrow> m w = (r, w') \<Longrightarrow> sent w' = sent w \<and> chain w' = chain w"
  by (metis quiet_def snd_conv)

lemma quiet_basic [tx_rules]:
  "quiet (view f)" "quiet (jlift r)" "quiet (jread g)" "quiet (jret x)" "quiet (jthrow e)"
  "quiet (randAmountInWei mn mx)" "quiet (jmodify (\<lambda>w. w\<lparr>latestRandomSeed := seed\<rparr>))"
  by (simp_all add: quiet_def)

lemma quiet_bind [tx_rules]:
  assumes "quiet m" and "\<And>x. quiet (f x)"
  shows "quiet (jbind m f)"
  unfolding quiet_def
proof
  fix w
  obtain r w' where m: "m w = (r, w')" by fastforce
  show "sent (snd (jbind m f w)) = sent w \<and> chain (snd (jbind m f w)) = chain w"
    using quietD[OF assms(1) m] assms(2) by (cases r) (auto simp: jbind_def m quiet_def)
qed

lemma quiet_case_prod [tx_rules]: "(\<And>a b. quiet (f a b)) \<Longrightarrow> quiet (case p of (a, b) \<Rightarrow> f a b)"
  by (cases p) simp

lemma quiet_if [tx_rules]: "quiet m \<Longrightarrow> quiet m' \<Longrightarrow> quiet (if b then m else m')"
  by simp

lemma one_tx_bind [tx_rules]:
  assumes "quiet m" and "\<And>x. one_tx P (f x)"
  shows "one_tx P (jbind m f)"
  unfolding one_tx_def
proof
  fix w
  obtain r w' where m: "m w = (r, w')" by fastforce
  then show "(\<exists>t. sent (snd (jbind m f w)) = sent w @ [t] \<and> P t) \<or>
             (sent (snd (jbind m f w)) = sent w \<and> \<not> is_ok (fst (jbind m f w)))"
    using quietD[OF assms(1) m] assms(2)[unfolded one_tx_def, rule_format, of _ w']
    by (cases r) (auto simp: jbind_def)
qed

lemma one_tx_submit [tx_rules]: "P c \<Longrightarrow> one_tx P (submit C c)"
  by (auto simp: one_tx_def submit_def split: prod.splits)

lemma one_tx_submit_bind [tx_rules]:
  fixes f :: "int tx \<Rightarrow> ('s world, 'a) js"
  assumes "P c" and "\<And>t. quiet (f t)"
  shows "one_tx P (jbind (submit C c) f)"
  unfolding one_tx_def
proof
  fix w :: "'s world"
  obtain r s' where c: "send C c (chain w) = (r, s')" by fastforce
  let ?v = "w\<lparr>chain := s', sent := sent w @ [c]\<rparr>"
  have "sent (snd (f t ?v)) = sent w @ [c]" for t
    using assms(2)[of t] by (simp add: quiet_def)
  then show "(\<exists>t. sent (snd (jbind (submit C c) f w)) = sent w @ [t] \<and> P t) \<or>
             (sent (snd (jbind (submit C c) f w)) = sent w \<and> \<not> is_ok (fst (jbind (submit C c) f w)))"
    using assms(1) by (cases r) (auto simp: jbind_def submit_def c)
qed

lemma one_tx_case_prod [tx_rules]:
  "(\<And>a b. one_tx P (f a b)) \<Longrightarrow> one_tx P (case p of (a, b) \<Rightarrow> f a b)"
  by (cases p) simp

lemma one_tx_throw [tx_rules]: "one_tx P (jthrow e)"
  by (simp add: one_tx_def)

lemma one_tx_send_gas [tx_rules]: "P c \<Longrightarrow> one_tx P (send_gas C c)"
  unfolding send_gas_def by (intro tx_rules)

lemma quiet_helpers [tx_rules]:
  "quiet (getBorrowerOpsListHint C newColl newDebt)"
  "quiet (getEntireCollAndDebt C account)"
  "quiet (getOpenTroveTotalDebt C amount)"
  unfolding getBorrowerOpsListHint_def getEntireCollAndDebt_def getOpenTroveTotalDebt_def
    getCompositeDebt_def
  by (intro tx_rules)+

lemma quiet_adjustments [tx_rules]:
  "quiet (getCollAndDebtFromAddColl C account amount)"
  "quiet (getCollAndDebtFromWithdrawColl C account amount)"
  "quiet (getCollAndDebtFromWithdrawUSDD C account amount)"
  "quiet (getCollAndDebtFromRepayUSDD C account amount)"
  "quiet (getCollAndDebtFromAdjustment C account amount change)"
  unfolding getCollAndDebtFromAddColl_def getCollAndDebtFromWithdrawColl_def
    getCollAndDebtFromWithdrawUSDD_def getCollAndDebtFromRepayUSDD_def
    getCollAndDebtFromAdjustment_def
  by (intro tx_rules)+

lemma gasCostList_getGasMetrics: "gasCostList (getGasMetrics gs) = gs"
  by (simp add: getGasMetrics_def Let_def)

section \<open>The contract of a gas-measuring loop\<close>

text \<open>
  The body promises at most one transaction per element, which \<open>spec\<close> describes, and exactly one
  when it returns.  A loop over such a body sends the described transactions in the order of the
  list; an exception stops it, and what was sent before stays sent.
\<close>

locale account_loop =
  fixes body :: "'x \<Rightarrow> ('s world, 'a) js"
    and spec :: "'x \<Rightarrow> txcall \<Rightarrow> bool"
  assumes body_one_tx: "one_tx (spec x) (body x)"
begin

lemma loop_sends:
  "\<exists>ts. sent (snd (jfor body xs w)) = sent w @ ts \<and> length ts \<le> length xs \<and>
     list_all2 spec (take (length ts) xs) ts \<and>
     (is_ok (fst (jfor body xs w)) \<longrightarrow> length ts = length xs)"
proof (induction xs arbitrary: w)
  case Nil
  then show ?case by simp
next
  case (Cons x xs)
  obtain r w' where b: "body x w = (r, w')" by fastforce
  consider (sent) t where "sent w' = sent w @ [t]" "spec x t"
    | (failed) e where "sent w' = sent w" "r = Inl e"
    using body_one_tx[of x, unfolded one_tx_def, rule_format, of w] b by (cases r) auto
  then show ?case
  proof cases
    case failed
    then show ?thesis using b by (intro exI[of _ "[]"]) (simp add: jbind_def)
  next
    case sent
    show ?thesis
    proof (cases r)
      case (Inl e)
      then show ?thesis using b sent by (intro exI[of _ "[t]"]) (simp add: jbind_def)
    next
      case (Inr y)
      obtain r2 w2 where rest: "jfor body xs w' = (r2, w2)" by fastforce
      from Cons.IH[of w'] rest obtain ts where ts: "sent w2 = sent w' @ ts" "length ts \<le> length xs"
        "list_all2 spec (take (length ts) xs) ts" "is_ok r2 \<longrightarrow> length ts = length xs" by auto
      then show ?thesis
        using b sent Inr rest
        by (intro exI[of _ "t # ts"]) (cases r2; simp add: jbind_def)
    qed
  qed
qed

lemma loop_returns:
  assumes "jfor body xs w = (Inr ys, w')"
  shows "\<exists>ts. sent w' = sent w @ ts \<and> list_all2 spec xs ts \<and> length ys = length xs"
  using loop_sends[of xs w] jfor_length[OF assms] by (auto simp: assms)

end

text \<open>A method that measures gas reports one figure per account when it returns.\<close>

locale gas_loop = account_loop body spec
  for body :: "'x \<Rightarrow> ('s world, int) js" and spec
begin

lemma measure_all_sends:
  "\<exists>ts. sent (snd (measure_all body xs w)) = sent w @ ts \<and> length ts \<le> length xs \<and>
     list_all2 spec (take (length ts) xs) ts \<and>
     (\<forall>m. fst (measure_all body xs w) = Inr m \<longrightarrow>
        length ts = length xs \<and> length (gasCostList m) = length xs)"
proof -
  obtain r w' where l: "jfor body xs w = (r, w')" by fastforce
  from loop_sends[of xs w] l obtain ts where ts: "sent w' = sent w @ ts" "length ts \<le> length xs"
    "list_all2 spec (take (length ts) xs) ts" "is_ok r \<longrightarrow> length ts = length xs" by auto
  have "\<forall>m. fst (measure_all body xs w) = Inr m \<longrightarrow>
          length ts = length xs \<and> length (gasCostList m) = length xs"
    using ts(4) jfor_length[of body xs w] l
    by (cases r) (auto simp: measure_all_def jbind_def gasCostList_getGasMetrics)
  moreover have "snd (measure_all body xs w) = w'"
    using l by (cases r) (auto simp: measure_all_def jbind_def)
  ultimately show ?thesis using ts by auto
qed

end

section \<open>The loops of the helpers\<close>

text \<open>A call of BorrowerOperations or StabilityPool by the account, whose last arguments are the hints.\<close>

definition hinted :: "string \<Rightarrow> string \<Rightarrow> arg list \<Rightarrow> address \<Rightarrow> txcall \<Rightarrow> bool" where
  "hinted contract method front account t \<longleftrightarrow>
     (\<exists>u l. t = TxCall contract method (front @ [AAddr u, AAddr l]) (from_only account))"

definition opens :: "(int \<Rightarrow> int \<Rightarrow> bool) \<Rightarrow> address \<Rightarrow> txcall \<Rightarrow> bool" where
  "opens amounts account t \<longleftrightarrow>
     (\<exists>coll usdd u l. amounts coll usdd \<and> t = open_call usdd u l account coll)"

lemma hintedI [intro]: "hinted c m front a (TxCall c m (front @ [AAddr u, AAddr l]) (from_only a))"
  by (auto simp: hinted_def)

lemma opensI [intro]: "amounts coll usdd \<Longrightarrow> opens amounts a (open_call usdd u l a coll)"
  by (auto simp: opens_def)

lemma open_with_hints_one_tx [tx_rules]:
  "amounts coll usdd \<Longrightarrow> one_tx (opens amounts a) (open_with_hints C coll totalDebt usdd a)"
  unfolding open_with_hints_def by (intro tx_rules opensI)

interpretation open_loop: gas_loop "open_with_hints C coll totalDebt usdd"
    "opens (\<lambda>c u. c = coll \<and> u = usdd)"
  by unfold_locales (intro tx_rules, simp)

interpretation open_randomETH: gas_loop "openTrove_randomETH_step C minETH maxETH totalDebt usdd"
    "opens (\<lambda>c u. u = usdd)"
  by unfold_locales (unfold openTrove_randomETH_step_def, intro tx_rules, simp)

interpretation open_proportional: gas_loop "openTrove_proportional_step C minETH maxETH proportion"
    "opens (\<lambda>c u. u = proportion * c)"
  by unfold_locales (unfold openTrove_proportional_step_def Let_def, intro tx_rules, simp)

interpretation open_random: gas_loop
    "openTrove_randomETH_randomUSDD_step C minETH maxETH minP maxP logging price"
    "opens (\<lambda>c u. True)"
  by unfold_locales
    (unfold openTrove_randomETH_randomUSDD_step_def Let_def, intro tx_rules opensI, simp)

interpretation open_randomUSDD: gas_loop "openTrove_randomUSDD_step C minUSDD maxUSDD coll"
    "opens (\<lambda>c u. c = coll)"
  by unfold_locales (unfold openTrove_randomUSDD_step_def, intro tx_rules, simp)

interpretation open_decreasing: gas_loop "openTrove_decreasing_step C coll maxUSDD"
    "\<lambda>(i, a). opens (\<lambda>c u. c = coll \<and> u = (maxUSDD - int i) * 10 ^ 18) a"
  by unfold_locales
    (auto simp: openTrove_decreasing_step_def Let_def intro!: tx_rules split: prod.splits)

interpretation close_loop: gas_loop "closeTrove_step C"
    "\<lambda>a t. t = TxCall ''borrowerOperations'' ''closeTrove'' [] (from_only a)"
  by unfold_locales (unfold closeTrove_step_def, intro tx_rules refl)

interpretation withdrawColl_loop: gas_loop "withdrawColl_step C amount"
    "hinted ''borrowerOperations'' ''withdrawColl'' [AUint amount]"
  by unfold_locales
    (unfold withdrawColl_step_def, intro tx_rules, simp add: hinted_def)

interpretation withdrawUSDD_loop: gas_loop "withdrawUSDD_step C amount"
    "hinted ''borrowerOperations'' ''withdrawUSDD'' [AUint pct100, AUint amount]"
  by unfold_locales
    (unfold withdrawUSDD_step_def, intro tx_rules, simp add: hinted_def)

interpretation repayUSDD_loop: gas_loop "repayUSDD_step C amount"
    "hinted ''borrowerOperations'' ''repayUSDD'' [AUint amount]"
  by unfold_locales
    (unfold repayUSDD_step_def, intro tx_rules, simp add: hinted_def)

interpretation provideToSP_loop: gas_loop "provideToSP_step C amount"
    "\<lambda>a t. t = TxCall ''stabilityPool'' ''provideToSP'' [AUint amount, AAddr 0] (from_only a)"
  by unfold_locales (unfold provideToSP_step_def, intro tx_rules refl)

interpretation withdrawFromSP_loop: gas_loop "withdrawFromSP_step C amount"
    "\<lambda>a t. t = TxCall ''stabilityPool'' ''withdrawFromSP'' [AUint amount] (from_only a)"
  by unfold_locales (unfold withdrawFromSP_step_def, intro tx_rules refl)

interpretation withdrawETHGain_loop: gas_loop "withdrawETHGain_step C"
    "hinted ''stabilityPool'' ''withdrawETHGainToTrove'' []"
  by unfold_locales
    (unfold withdrawETHGain_step_def, intro tx_rules, simp add: hinted_def)

interpretation currentICR_loop: gas_loop "getCurrentICR_step C price"
    "\<lambda>a t. t = TxCall ''functionCaller'' ''troveManager_getCurrentICR'' [AAddr a, AUint price] (opts None None)"
  by unfold_locales (unfold getCurrentICR_step_def, intro tx_rules refl)

interpretation adjust_loop: gas_loop "adjust_step swapped C ETHChange USDDChange"
    "\<lambda>a t. \<exists>u l. t = (if ETHChange > 0
       then TxCall ''borrowerOperations'' ''adjustTrove''
              [AUint pct100, AUint 0, AUint \<bar>USDDChange\<bar>, ABool (USDDChange > 0), AAddr u, AAddr l]
              (from_value a ETHChange)
       else TxCall ''borrowerOperations'' ''adjustTrove''
              [AUint pct100, AUint (- ETHChange), AUint \<bar>USDDChange\<bar>, ABool (USDDChange > 0),
               AAddr (if swapped then l else u), AAddr (if swapped then u else l)] (from_only a))"
  by unfold_locales (unfold adjust_step_def Let_def, intro tx_rules, auto intro!: tx_rules)

text \<open>A random variant sends what its body sends for some drawn amount.\<close>

lemma one_tx_mono: "one_tx P m \<Longrightarrow> (\<And>t. P t \<Longrightarrow> Q t) \<Longrightarrow> one_tx Q m"
  unfolding one_tx_def by blast

lemma with_random_one_tx:
  assumes "\<And>n. one_tx (spec n x) (body n x)"
  shows "one_tx (\<lambda>t. \<exists>n. spec n x t) (with_random mn mx body x)"
  unfolding with_random_def by (intro tx_rules one_tx_mono[OF assms]) blast

interpretation withdrawColl_random: gas_loop "with_random mn mx (withdrawColl_step C)"
    "\<lambda>a t. \<exists>n. hinted ''borrowerOperations'' ''withdrawColl'' [AUint n] a t"
  by unfold_locales (rule with_random_one_tx, rule withdrawColl_loop.body_one_tx)

interpretation withdrawUSDD_random: gas_loop "with_random mn mx (withdrawUSDD_step C)"
    "\<lambda>a t. \<exists>n. hinted ''borrowerOperations'' ''withdrawUSDD'' [AUint pct100, AUint n] a t"
  by unfold_locales (rule with_random_one_tx, rule withdrawUSDD_loop.body_one_tx)

interpretation repayUSDD_random: gas_loop "with_random mn mx (repayUSDD_step C)"
    "\<lambda>a t. \<exists>n. hinted ''borrowerOperations'' ''repayUSDD'' [AUint n] a t"
  by unfold_locales (rule with_random_one_tx, rule repayUSDD_loop.body_one_tx)

interpretation provideToSP_random: gas_loop "with_random mn mx (provideToSP_step C)"
    "\<lambda>a t. \<exists>n. t = TxCall ''stabilityPool'' ''provideToSP'' [AUint n, AAddr 0] (from_only a)"
  by unfold_locales (rule with_random_one_tx, rule provideToSP_loop.body_one_tx)

interpretation withdrawFromSP_random: gas_loop "with_random mn mx (withdrawFromSP_step C)"
    "\<lambda>a t. \<exists>n. t = TxCall ''stabilityPool'' ''withdrawFromSP'' [AUint n] (from_only a)"
  by unfold_locales (rule with_random_one_tx, rule withdrawFromSP_loop.body_one_tx)

interpretation redeem_loop: gas_loop "redeemCollateral_random_step C mn mx price"
    "\<lambda>a t. tc_contract t = ''troveManager'' \<and> opt_from (tc_opts t) = Some a \<and>
           last (tc_args t) = AUint 0"
  by unfold_locales
    (unfold redeemCollateral_random_step_def performRedemptionTx_def jbind_assoc split_def,
     intro tx_rules, simp)

section \<open>Properties\<close>

lemma quiet_then_sent:
  assumes "quiet m"
    and "\<And>x w. \<exists>ts. sent (snd (f x w)) = sent w @ ts \<and> P ts (fst (f x w))"
    and "\<And>e. P [] (Inl e)"
  shows "\<exists>ts. sent (snd (jbind m f w)) = sent w @ ts \<and> P ts (fst (jbind m f w))"
proof -
  obtain r w' where m: "m w = (r, w')" by fastforce
  then show ?thesis
    using quietD[OF assms(1) m] assms(2)[of _ w'] assms(3)
    by (cases r) (auto simp: jbind_def)
qed

lemmas demo_eval = demo_contracts_def demo_views_def demo_world_def demo_tx_def openTrove_allAccounts_def measure_all_def
  open_with_hints_def send_gas_def submit_def getBorrowerOpsListHint_def getOpenTroveTotalDebt_def
  getCompositeDebt_def jbind_def

text \<open>Opening troves for a list of accounts sends \<open>openTrove\<close> transactions in the order of the
  accounts, each from its account with exactly the requested collateral and amount; when the method
  returns there is one for every account and one gas figure for each; after an exception the
  transactions sent are those of an initial segment of the accounts.\<close>

theorem openTrove_allAccounts_sends:
  "\<exists>ts. sent (snd (openTrove_allAccounts accounts C ETHAmount USDDAmount w)) = sent w @ ts \<and>
     length ts \<le> length accounts \<and>
     list_all2 (opens (\<lambda>coll usdd. coll = ETHAmount \<and> usdd = USDDAmount))
       (take (length ts) accounts) ts \<and>
     (\<forall>m. fst (openTrove_allAccounts accounts C ETHAmount USDDAmount w) = Inr m \<longrightarrow>
        length ts = length accounts \<and> length (gasCostList m) = length accounts)"
  unfolding openTrove_allAccounts_def
  by (rule quiet_then_sent) (simp_all add: tx_rules open_loop.measure_all_sends)

theorem openTrove_allAccounts_sends_witness:
  "\<exists>ts. sent (snd (openTrove_allAccounts [11, 12] demo_contracts 5 7 demo_world)) = ts \<and>
     length ts = 2 \<and> list_all2 (opens (\<lambda>coll usdd. coll = 5 \<and> usdd = 7)) [11, 12] ts"
proof -
  have ok: "is_ok (fst (openTrove_allAccounts [11, 12] demo_contracts 5 7 demo_world))"
    and start: "sent demo_world = []"
    by (simp_all add: demo_eval)
  from ok obtain m where "fst (openTrove_allAccounts [11, 12] demo_contracts 5 7 demo_world) = Inr m"
    by (cases "fst (openTrove_allAccounts [11, 12] demo_contracts 5 7 demo_world)") auto
  with openTrove_allAccounts_sends[of "[11, 12]" demo_contracts 5 7 demo_world] start
  show ?thesis by auto
qed

subsection \<open>Loops that cannot end normally\<close>

definition never_ok :: "('s world, 'a) js \<Rightarrow> bool" where
  "never_ok m \<longleftrightarrow> (\<forall>w. \<not> is_ok (fst (m w)))"

lemma never_ok_throw: "never_ok (jthrow e)"
  by (simp add: never_ok_def)

lemma never_ok_bind: "(\<And>x. never_ok (f x)) \<Longrightarrow> never_ok (jbind m f)"
  by (auto simp: never_ok_def jbind_def split: prod.splits sum.splits)

lemma never_ok_case_prod: "(\<And>a b. never_ok (f a b)) \<Longrightarrow> never_ok (case p of (a, b) \<Rightarrow> f a b)"
  by (cases p) simp

lemmas never_ok_rules = never_ok_throw never_ok_bind never_ok_case_prod

lemma failing_first_step:
  assumes "xs \<noteq> []" and "never_ok (body (hd xs))"
  shows "\<not> is_ok (fst (measure_all body xs w))"
    and "snd (measure_all body xs w) = snd (body (hd xs) w)"
proof -
  obtain x xs' where xs: "xs = x # xs'" using assms(1) by (cases xs) auto
  obtain r w' where b: "body x w = (r, w')" by fastforce
  have "\<not> is_ok r" using assms(2) xs b by (metis fst_conv list.sel(1) never_ok_def)
  then obtain e where "r = Inl e" by (cases r) auto
  then show "\<not> is_ok (fst (measure_all body xs w))"
    and "snd (measure_all body xs w) = snd (body (hd xs) w)"
    using b xs by (simp_all add: measure_all_def jbind_def)
qed

lemma addColl_step_never_ok: "never_ok (addColl_step C amount a)"
  unfolding addColl_step_def addColl_without_contracts_def jbind_throw
  by (intro never_ok_rules)

lemma addColl_step_quiet: "quiet (addColl_step C amount a)"
  unfolding addColl_step_def addColl_without_contracts_def by (intro tx_rules)

lemma redeem_step_never_ok: "never_ok (redeemCollateral_random_step C mn mx price a)"
  unfolding redeemCollateral_random_step_def by (intro never_ok_rules)

lemma adjust_step_zero: "adjust_step swapped C 0 d a =
   jbind (getCollAndDebtFromAdjustment C a 0 d) (\<lambda>(newColl, newDebt).
   jbind (getBorrowerOpsListHint C newColl newDebt) (\<lambda>(u, l). jthrow TypeError))"
  unfolding adjust_step_def Let_def by simp

lemma adjust_step_zero_never_ok: "never_ok (adjust_step swapped C 0 d a)"
  unfolding adjust_step_zero by (intro never_ok_rules)

text \<open>Three of the helper loops never return for a non-empty list of accounts: topping up collateral
  sends no transaction at all (the call of \<open>addColl\<close> lacks its \<open>contracts\<close> argument), the redemption loop
  sends at most the first redemption, with a maximal fee of zero (it reads the undeclared variable
  \<open>tx\<close>), and adjusting with a zero change of ETH sends no transaction.\<close>

theorem broken_account_loops:
  assumes "accounts \<noteq> []"
  shows "\<not> is_ok (fst (addColl_allAccounts accounts C amount w)) \<and>
         sent (snd (addColl_allAccounts accounts C amount w)) = sent w \<and>
         \<not> is_ok (fst (redeemCollateral_allAccounts_randomAmount mn mx accounts C w)) \<and>
         (sent (snd (redeemCollateral_allAccounts_randomAmount mn mx accounts C w)) = sent w \<or>
          (\<exists>t. sent (snd (redeemCollateral_allAccounts_randomAmount mn mx accounts C w)) = sent w @ [t] \<and>
               last (tc_args t) = AUint 0 \<and> opt_from (tc_opts t) = Some (hd accounts))) \<and>
         \<not> is_ok (fst (adjustTrove_allAccounts accounts C 0 USDDAmount w)) \<and>
         sent (snd (adjustTrove_allAccounts accounts C 0 USDDAmount w)) = sent w"
proof (intro conjI)
  note add = failing_first_step[of accounts "addColl_step C amount" w, OF assms addColl_step_never_ok]
  show "\<not> is_ok (fst (addColl_allAccounts accounts C amount w))"
    using add(1) by (simp add: addColl_allAccounts_def)
  show "sent (snd (addColl_allAccounts accounts C amount w)) = sent w"
    using add(2) addColl_step_quiet[of C amount "hd accounts"] by (simp add: addColl_allAccounts_def quiet_def)
  note redeem = failing_first_step[of accounts "redeemCollateral_random_step C mn mx p" for p, OF assms redeem_step_never_ok]
  show "\<not> is_ok (fst (redeemCollateral_allAccounts_randomAmount mn mx accounts C w))"
    using redeem(1)
    by (auto simp: redeemCollateral_allAccounts_randomAmount_def jbind_def split: sum.splits)
  show "sent (snd (redeemCollateral_allAccounts_randomAmount mn mx accounts C w)) = sent w \<or>
        (\<exists>t. sent (snd (redeemCollateral_allAccounts_randomAmount mn mx accounts C w)) = sent w @ [t] \<and>
             last (tc_args t) = AUint 0 \<and> opt_from (tc_opts t) = Some (hd accounts))"
  proof (cases "pf_getPrice C (chain w)")
    case (Inl e)
    then show ?thesis by (simp add: redeemCollateral_allAccounts_randomAmount_def jbind_def)
  next
    case (Inr price)
    then show ?thesis
      using redeem_loop.body_one_tx[where C = C and mn = mn and mx = mx and price = price and x = "hd accounts", unfolded one_tx_def, rule_format, of w]
        redeem(2)[of price w]
      by (auto simp: redeemCollateral_allAccounts_randomAmount_def jbind_def)
  qed
  note adj = failing_first_step[of accounts "adjust_step False C 0 USDDAmount" w, OF assms adjust_step_zero_never_ok]
  have "quiet (adjust_step False C 0 USDDAmount a)" for a
    unfolding adjust_step_zero by (intro tx_rules)
  with adj show "\<not> is_ok (fst (adjustTrove_allAccounts accounts C 0 USDDAmount w))"
    and "sent (snd (adjustTrove_allAccounts accounts C 0 USDDAmount w)) = sent w"
    by (simp_all add: adjustTrove_allAccounts_def quiet_def)
qed

theorem broken_account_loops_witness:
  "\<not> is_ok (fst (addColl_allAccounts [11, 12] demo_contracts 5 demo_world)) \<and>
   \<not> is_ok (fst (redeemCollateral_allAccounts_randomAmount 1 2 [11, 12] demo_contracts demo_world))"
  using broken_account_loops[of "[11, 12]" demo_contracts 5 demo_world 1 2 0] by simp

subsection \<open>Listing the sorted troves\<close>

text \<open>The list \<open>xs\<close> runs from the tail of the sorted list to its head along \<open>getPrev\<close>.\<close>

fun prev_chain :: "('s \<Rightarrow> address \<Rightarrow> address res) \<Rightarrow> 's \<Rightarrow> address list \<Rightarrow> bool" where
  "prev_chain prev s [] \<longleftrightarrow> False"
| "prev_chain prev s [x] \<longleftrightarrow> True"
| "prev_chain prev s (x # y # xs) \<longleftrightarrow> prev s x = Inr y \<and> prev_chain prev s (y # xs)"

lemma log_active_loop_chain:
  assumes "prev_chain (st_getPrev C) (chain w) xs" and "distinct xs" and "head = last xs"
    and "\<And>a. a \<in> set xs \<Longrightarrow> trove_line C price a w = (Inr (line a), w)"
  shows "log_active_loop C price head k (hd xs) w = (Inr (map line (take k xs)), w)"
  using assms
proof (induction "st_getPrev C" "chain w" xs arbitrary: k rule: prev_chain.induct)
  case 1
  then show ?case by simp
next
  case (2 x)
  then show ?case by (cases k) (simp_all add: jbind_def)
next
  case (3 x y xs)
  show ?case
  proof (cases k)
    case 0
    then show ?thesis by simp
  next
    case (Suc n)
    have "x \<noteq> head" using "3.prems" by (metis distinct.simps(2) last.simps last_in_set list.distinct(1))
    moreover have "trove_line C price x w = (Inr (line x), w)" using "3.prems" by simp
    moreover have "log_active_loop C price head n (hd (y # xs)) w = (Inr (map line (take n (y # xs))), w)"
      using "3.prems" by (intro "3.hyps") auto
    ultimately show ?thesis using "3.prems" Suc by (simp add: jbind_def)
  qed
qed

text \<open>On a well-linked sorted list, \<open>logActiveAccounts\<close> terminates and lists the troves from the last
  (lowest collateral ratio) towards the first, each once with its collateral, debt and ICR: all of
  them by default, and the first \<open>n\<close> of that order when \<open>n\<close> is given.\<close>

theorem logActiveAccounts_lists_in_order:
  assumes "prev_chain (st_getPrev C) (chain w) xs" and "distinct xs"
    and "st_getLast C (chain w) = Inr (hd xs)" and "st_getFirst C (chain w) = Inr (last xs)"
    and "st_getSize C (chain w) = Inr (int (length xs))" and "pf_getPrice C (chain w) = Inr price"
    and "\<And>a. a \<in> set xs \<Longrightarrow> tm_Troves C (chain w) a = Inr (debt a, coll a)"
    and "\<And>a. a \<in> set xs \<Longrightarrow> tm_getCurrentICR C (chain w) a price = Inr (icr a)"
  shows "logActiveAccounts C n w =
           (Inr (map (\<lambda>a. (a, coll a, debt a, icr a)) (take (nat (default (int (length xs)) n)) xs)), w)"
proof -
  have "trove_line C price a w = (Inr (a, coll a, debt a, icr a), w)" if "a \<in> set xs" for a
    using assms(7,8) that by (simp add: trove_line_def jbind_def)
  from log_active_loop_chain[OF assms(1,2) refl, of price "\<lambda>a. (a, coll a, debt a, icr a)", OF this]
  show ?thesis using assms(3-6) by (simp add: logActiveAccounts_def jbind_def)
qed

theorem logActiveAccounts_lists_in_order_witness:
  "logActiveAccounts demo_contracts (Some 2) demo_world =
     (Inr [(1, 1, 10, 200000000000000000000), (2, 2, 20, 200000000000000000000)], demo_world)"
  using logActiveAccounts_lists_in_order[of demo_contracts demo_world "[1, 2, 3]" 200000000000000000000
      "\<lambda>a. int a * 10" int "\<lambda>a. 200000000000000000000" "Some 2"]
  by (simp add: demo_contracts_def demo_views_def default_def)

subsection \<open>The signatures the contracts accept\<close>

text \<open>The numbers of parameters of the overloads of each entry point in \<open>BorrowerOperations.sol\<close>.\<close>

fun bo_arities :: "string \<Rightarrow> nat list" where
  "bo_arities m =
     (if m = ''openTrove'' then [5, 6]
      else if m = ''addColl'' then [3]
      else if m = ''moveCollGainToTrove'' then [4]
      else if m = ''withdrawColl'' then [3]
      else if m = ''withdrawUSDD'' then [4]
      else if m = ''repayUSDD'' then [3]
      else if m = ''adjustTrove'' then [7, 8]
      else if m = ''closeTrove'' then [1, 0]
      else if m = ''claimCollateral'' then [1, 0]
      else [])"

definition well_formed_call :: "txcall \<Rightarrow> bool" where
  "well_formed_call c \<longleftrightarrow>
     (tc_contract c = ''borrowerOperations'' \<longrightarrow> 
      length (tc_args c) \<in> set (bo_arities (takeWhile (\<lambda>ch. ch \<noteq> CHR ''('') (tc_method c))))"

text \<open>The contract layer refuses a call of BorrowerOperations with a wrong number of arguments.\<close>

definition checks_arity :: "'s contracts \<Rightarrow> bool" where
  "checks_arity C \<longleftrightarrow>
     (\<forall>c s. \<not> well_formed_call c \<longrightarrow> (\<exists>e. send C c s = (Inl e, s)))"

lemma open_call_ill_formed: "\<not> well_formed_call (open_call usdd u l a coll)"
  by (simp add: well_formed_call_def open_call_def)

text \<open>A computation that ends in refused calls: it never returns and the chain is as before.\<close>

definition rejected :: "('s world, 'a) js \<Rightarrow> bool" where
  "rejected m \<longleftrightarrow> (\<forall>w. \<not> is_ok (fst (m w)) \<and> chain (snd (m w)) = chain w)"

lemma rejected_submit:
  fixes C :: "'s contracts"
  assumes "checks_arity C" and "\<not> well_formed_call c"
  shows "rejected (submit C c)"
  unfolding rejected_def
proof
  fix w :: "'s world"
  from assms obtain e where "send C c (chain w) = (Inl e, chain w)"
    unfolding checks_arity_def by blast
  then show "\<not> is_ok (fst (submit C c w)) \<and> chain (snd (submit C c w)) = chain w"
    by (simp add: submit_def jbind_def)
qed

lemma rejected_send_gas:
  fixes C :: "'s contracts"
  assumes "checks_arity C" and "\<not> well_formed_call c"
  shows "rejected (send_gas C c)"
  unfolding rejected_def
proof
  fix w :: "'s world"
  from assms obtain e where "send C c (chain w) = (Inl e, chain w)"
    unfolding checks_arity_def by blast
  then show "\<not> is_ok (fst (send_gas C c w)) \<and> chain (snd (send_gas C c w)) = chain w"
    by (simp add: send_gas_def submit_def jbind_def)
qed

lemma rejected_bind:
  assumes "quiet m" and "\<And>x. rejected (f x)"
  shows "rejected (jbind m f)"
  unfolding rejected_def
proof
  fix w
  obtain r w' where m: "m w = (r, w')" by fastforce
  show "\<not> is_ok (fst (jbind m f w)) \<and> chain (snd (jbind m f w)) = chain w"
    using quietD[OF assms(1) m] assms(2) m by (cases r) (auto simp: jbind_def rejected_def)
qed

lemma rejected_case_prod: "(\<And>a b. rejected (f a b)) \<Longrightarrow> rejected (case p of (a, b) \<Rightarrow> f a b)"
  by (cases p) simp

lemma rejected_throw: "rejected (jthrow e)"
  by (simp add: rejected_def)

lemma rejected_measure_all:
  assumes "xs \<noteq> []" and "\<And>x. rejected (body x)"
  shows "rejected (measure_all body xs)"
proof -
  have n: "never_ok (body (hd xs))" using assms(2) by (simp add: rejected_def never_ok_def)
  show ?thesis
    using failing_first_step[of xs body, OF assms(1) n] assms(2) by (simp add: rejected_def)
qed

lemmas rejected_rules = rejected_send_gas rejected_bind rejected_case_prod rejected_throw
  rejected_measure_all

lemma rejected_first: "rejected m \<Longrightarrow> rejected (jbind m f)"
  unfolding rejected_def
proof
  fix w
  assume m: "\<forall>w. \<not> is_ok (fst (m w)) \<and> chain (snd (m w)) = chain w"
  show "\<not> is_ok (fst (jbind m f w)) \<and> chain (snd (jbind m f w)) = chain w"
    using m[rule_format, of w] by (cases "m w"; cases "fst (m w)") (auto simp: jbind_def)
qed

text \<open>
  C34. The helpers that open or adjust a trove for every account cannot work on these contracts:
  \<open>openTrove\<close> is called with four arguments and \<open>adjustTrove\<close> with six, where BorrowerOperations has five or six and seven or
  eight.  Against a contract layer that refuses a call with a wrong number of arguments none of the three loops returns for
  a non-empty list of accounts, and the chain is left as it was.
\<close>

theorem opening_loops_use_stale_signature:
  assumes "checks_arity C" and "accounts \<noteq> []"
  shows "\<not> is_ok (fst (openTrove_allAccounts accounts C ETHAmount USDDAmount w)) \<and>
         chain (snd (openTrove_allAccounts accounts C ETHAmount USDDAmount w)) = chain w \<and>
         \<not> is_ok (fst (makeTrovesIncreasingICR accounts C w)) \<and>
         chain (snd (makeTrovesIncreasingICR accounts C w)) = chain w \<and>
         \<not> is_ok (fst (adjustTrove_allAccounts accounts C ETHChange USDDChange w)) \<and>
         chain (snd (adjustTrove_allAccounts accounts C ETHChange USDDChange w)) = chain w"
proof -
  have "rejected (openTrove_allAccounts accounts C ETHAmount USDDAmount)"
    unfolding openTrove_allAccounts_def open_with_hints_def
    by (intro rejected_rules tx_rules assms open_call_ill_formed)
  moreover have "rejected (makeTrovesIncreasingICR accounts C)"
    using assms(2) rejected_first[OF rejected_submit[OF assms(1) open_call_ill_formed]]
    by (cases accounts) (simp_all add: makeTrovesIncreasingICR_def makeTroves_step_def)
  moreover have "rejected (adjust_step False C ETHChange USDDChange a)" for a
    unfolding adjust_step_def Let_def
    by (intro rejected_bind rejected_case_prod tx_rules)
      (simp add: rejected_throw rejected_send_gas[OF assms(1)] well_formed_call_def)
  then have "rejected (adjustTrove_allAccounts accounts C ETHChange USDDChange)"
    unfolding adjustTrove_allAccounts_def by (intro rejected_measure_all assms)
  ultimately show ?thesis by (simp add: rejected_def)
qed

theorem opening_loops_use_stale_signature_witness:
  "\<not> is_ok (fst (makeTrovesIncreasingICR [11, 12]
     (demo_contracts\<lparr>send := (\<lambda>c s. if well_formed_call c then (Inr demo_tx, Suc s) else (Inl TypeError, s))\<rparr>)
     demo_world))"
proof -
  let ?C = "demo_contracts\<lparr>send := (\<lambda>c s. if well_formed_call c then (Inr demo_tx, Suc s) else (Inl TypeError, s))\<rparr>"
  have "checks_arity ?C" by (simp add: checks_arity_def)
  from opening_loops_use_stale_signature[OF this, of "[11, 12]" 5 7 demo_world] show ?thesis by simp
qed

end
