(* ===== verification/Deployment.thy ===== *)
theory Deployment
  imports Prelude Js_String
begin

text \<open>
  Deploying and wiring the system (\<open>packages/contracts/utils/deploymentHelpers.js\<close>) on a model of
  the chain: for every address whether it has code, its contract class, its owner (\<open>Ownable\<close>), its
  address and number slots, its authorisation mappings, its address arrays, and its ERC20 balances
  and allowances.  The constructors and the setters that the scripts call are translated from the
  Solidity sources; a call that reverts leaves the chain as it was.  A JavaScript object of contract
  instances is a partial map from property names to addresses.
\<close>

section \<open>The chain\<close>

record evm =
  hasCode :: "address \<Rightarrow> bool"
  cls :: "address \<Rightarrow> string"
  owner :: "address \<Rightarrow> address"
  slot :: "address \<Rightarrow> string \<Rightarrow> nat"
  flag :: "address \<Rightarrow> string \<Rightarrow> address \<Rightarrow> bool"
  arr :: "address \<Rightarrow> string \<Rightarrow> address list"
  balanceOf :: "address \<Rightarrow> address \<Rightarrow> nat"
  allowance :: "address \<Rightarrow> address \<Rightarrow> address \<Rightarrow> nat"
  nextAddr :: address

type_synonym instances = "string \<Rightarrow> address option"

definition MAX_UINT :: nat where
  "MAX_UINT = 2 ^ 256 - 1"

definition checkContract :: "evm \<Rightarrow> address \<Rightarrow> unit res" where
  "checkContract E a =
     rbind (require (a \<noteq> 0) ''Account cannot be zero address'') (\<lambda>_.
     require (hasCode E a) ''Account code size cannot be zero'')"

fun checkContracts :: "evm \<Rightarrow> address list \<Rightarrow> unit res" where
  "checkContracts E [] = Inr ()"
| "checkContracts E (a # as) = rbind (checkContract E a) (\<lambda>_. checkContracts E as)"

definition onlyOwner :: "address \<Rightarrow> address \<Rightarrow> evm \<Rightarrow> unit res" where
  "onlyOwner me self E = require (me = owner E self) ''Ownable: caller is not the owner''"

definition renounceOwnership :: "address \<Rightarrow> evm \<Rightarrow> evm" where
  "renounceOwnership self E = E\<lparr>owner := (owner E)(self := 0)\<rparr>"

text \<open>Storage writes \<open>name = value\<close> of a contract, in order.\<close>

definition store :: "address \<Rightarrow> (string \<times> nat) list \<Rightarrow> evm \<Rightarrow> evm" where
  "store self writes E =
     E\<lparr>slot := (slot E)(self := foldl (\<lambda>s (n, v). s(n := v)) (slot E self) writes)\<rparr>"

text \<open>\<open>IERC20(token).approve(spender, amount)\<close>, called by a contract.\<close>

definition approve :: "address \<Rightarrow> address \<Rightarrow> address \<Rightarrow> nat \<Rightarrow> evm \<Rightarrow> evm res" where
  "approve token caller spender amount E =
     (if hasCode E token \<and> cls E token \<in> {''WETH'', ''ERC20Mock''}
      then Inr (E\<lparr>allowance := (allowance E)(token :=
                  (allowance E token)(caller := (allowance E token caller)(spender := amount)))\<rparr>)
      else Inl (Revert ''''))"

definition is_trove_manager :: "evm \<Rightarrow> address \<Rightarrow> bool" where
  "is_trove_manager E a \<longleftrightarrow> hasCode E a \<and> cls E a \<in> {''TroveManager'', ''TroveManagerTester''}"

section \<open>The setters of the contracts\<close>

text \<open>A call with a wrong number of arguments does not get past the contract abstraction.\<close>

definition bad_arity :: "'a res" where
  "bad_arity = Inl (Thrown ''Invalid number of parameters'')"

definition sortedTroves_setParams ::
  "address \<Rightarrow> address \<Rightarrow> nat \<Rightarrow> address \<Rightarrow> address \<Rightarrow> evm \<Rightarrow> evm res" where
  "sortedTroves_setParams me self sz troveManagerA borrowerOperationsA E =
     rbind (onlyOwner me self E) (\<lambda>_.
     rbind (require (sz > 0) ''SortedTroves: Size cannot be zero'') (\<lambda>_.
     rbind (checkContracts E [troveManagerA, borrowerOperationsA]) (\<lambda>_.
     Inr (renounceOwnership self
            (store self [(''maxSize'', sz), (''troveManager'', troveManagerA),
                         (''borrowerOperationsAddress'', borrowerOperationsA)] E)))))"

definition functionCaller_setTroveManagerAddress :: "address \<Rightarrow> address \<Rightarrow> evm \<Rightarrow> evm res" where
  "functionCaller_setTroveManagerAddress self a E =
     Inr (store self [(''troveManagerAddress'', a), (''troveManager'', a)] E)"

definition functionCaller_setPriceFeedAddress :: "address \<Rightarrow> address \<Rightarrow> evm \<Rightarrow> evm res" where
  "functionCaller_setPriceFeedAddress self a E = Inr (store self [(''priceFeedAddress'', a), (''priceFeed'', a)] E)"

definition functionCaller_setSortedTrovesAddress :: "address \<Rightarrow> address \<Rightarrow> evm \<Rightarrow> evm res" where
  "functionCaller_setSortedTrovesAddress self a E =
     Inr (store self [(''troveManagerAddress'', a), (''sortedTroves'', a)] E)"

definition troveManager_setAddresses :: "address \<Rightarrow> address \<Rightarrow> address list \<Rightarrow> evm \<Rightarrow> evm res" where
  "troveManager_setAddresses me self params E =
     (case params of
        [collT, gatewayA, borrowerOps, activeP, defaultP, stabilityP, gasP, collSurplusP, feed, usddT,
         sortedT, deftT, stakingA] \<Rightarrow>
          rbind (onlyOwner me self E) (\<lambda>_.
          rbind (checkContracts E [collT, gatewayA, borrowerOps, activeP, defaultP, stabilityP, gasP,
                   collSurplusP, feed, usddT, sortedT, deftT, stakingA]) (\<lambda>_.
          rbind (approve collT self collSurplusP MAX_UINT
            (store self [(''borrowerOperationsAddress'', borrowerOps), (''wETHGatewayAddress'', gatewayA),
               (''collToken'', collT), (''activePool'', activeP), (''defaultPool'', defaultP),
               (''stabilityPool'', stabilityP), (''gasPoolAddress'', gasP),
               (''collSurplusPool'', collSurplusP), (''priceFeed'', feed), (''usddToken'', usddT),
               (''sortedTroves'', sortedT), (''deftToken'', deftT), (''deftStaking'', stakingA)] E)) (\<lambda>E1.
          rbind (approve collT self defaultP MAX_UINT E1) (\<lambda>E2.
          Inr (renounceOwnership self E2)))))
      | _ \<Rightarrow> bad_arity)"

text \<open>
  The second write of \<open>BorrowerOperations.setAddresses\<close> is \<open>wETHGatewayAddress = wETHGatewayAddress\<close>:
  the storage variable is assigned to itself, the parameter is only checked.
\<close>

definition borrowerOperations_setAddresses :: "address \<Rightarrow> address \<Rightarrow> address list \<Rightarrow> evm \<Rightarrow> evm res" where
  "borrowerOperations_setAddresses me self params E =
     (case params of
        [collT, gatewayA, troveM, activeP, defaultP, stabilityP, gasP, collSurplusP, feed, sortedT, usddT,
         stakingA] \<Rightarrow>
          rbind (onlyOwner me self E) (\<lambda>_.
          rbind (checkContracts E [collT, gatewayA, troveM, activeP, defaultP, stabilityP, gasP,
                   collSurplusP, feed, sortedT, usddT, stakingA]) (\<lambda>_.
          rbind (approve collT self activeP MAX_UINT
            (store self [(''collToken'', collT), (''wETHGatewayAddress'', slot E self ''wETHGatewayAddress''),
               (''troveManager'', troveM), (''activePool'', activeP), (''defaultPool'', defaultP),
               (''stabilityPoolAddress'', stabilityP), (''gasPoolAddress'', gasP),
               (''collSurplusPool'', collSurplusP), (''priceFeed'', feed), (''sortedTroves'', sortedT),
               (''usddToken'', usddT), (''deftStakingAddress'', stakingA), (''deftStaking'', stakingA)] E)) (\<lambda>E1.
          Inr (renounceOwnership self E1))))
      | _ \<Rightarrow> bad_arity)"

definition stabilityPool_setAddresses :: "address \<Rightarrow> address \<Rightarrow> address list \<Rightarrow> evm \<Rightarrow> evm res" where
  "stabilityPool_setAddresses me self params E =
     (case params of
        [collT, gatewayA, borrowerOps, troveM, activeP, usddT, sortedT, feed, issuanceA] \<Rightarrow>
          rbind (onlyOwner me self E) (\<lambda>_.
          rbind (checkContracts E [collT, gatewayA, borrowerOps, troveM, activeP, usddT, sortedT, feed,
                   issuanceA]) (\<lambda>_.
          rbind (approve collT self borrowerOps MAX_UINT
            (store self [(''collToken'', collT), (''wETHGatewayAddress'', gatewayA),
               (''borrowerOperations'', borrowerOps), (''troveManager'', troveM), (''activePool'', activeP),
               (''usddToken'', usddT), (''sortedTroves'', sortedT), (''priceFeed'', feed),
               (''communityIssuance'', issuanceA)] E)) (\<lambda>E1.
          Inr (renounceOwnership self E1))))
      | _ \<Rightarrow> bad_arity)"

definition set_flag :: "address \<Rightarrow> string \<Rightarrow> address \<Rightarrow> evm \<Rightarrow> evm" where
  "set_flag self name a E =
     E\<lparr>flag := (flag E)(self := (flag E self)(name := (flag E self name)(a := True)))\<rparr>"

fun authorize :: "string \<Rightarrow> address \<Rightarrow> address list \<Rightarrow> evm \<Rightarrow> evm res" where
  "authorize name self [] E = Inr E"
| "authorize name self (a # as) E =
     rbind (checkContract E a) (\<lambda>_. authorize name self as (set_flag self name a E))"

definition activePool_setAddresses ::
  "address \<Rightarrow> address \<Rightarrow> address list \<Rightarrow> address list \<Rightarrow> address \<Rightarrow> address \<Rightarrow> evm \<Rightarrow> evm res" where
  "activePool_setAddresses me self troveMs borrowerOpss stabilityP defaultP E =
     rbind (onlyOwner me self E) (\<lambda>_.
     rbind (checkContracts E [stabilityP, defaultP]) (\<lambda>_.
     rbind (authorize ''authorizedTroveManagers'' self troveMs E) (\<lambda>E1.
     rbind (authorize ''authorizedBorrowerOperations'' self borrowerOpss E1) (\<lambda>E2.
     Inr (renounceOwnership self
       (store self [(''stabilityPoolAddress'', stabilityP), (''defaultPoolAddress'', defaultP)] E2))))))"

text \<open>
  \<open>DefaultPool.authorizeTroveManagers\<close> asks each TroveManager for its collateral token and approves
  the ActivePool there: it needs the TroveManager to be wired already.
\<close>

fun defaultPool_authorizeTroveManagers :: "address \<Rightarrow> address list \<Rightarrow> evm \<Rightarrow> evm res" where
  "defaultPool_authorizeTroveManagers self [] E = Inr E"
| "defaultPool_authorizeTroveManagers self (a # as) E =
     rbind (checkContract E a) (\<lambda>_.
     rbind (require (is_trove_manager E a) '''') (\<lambda>_.
     rbind (approve (slot E a ''collToken'') self (slot E self ''activePoolAddress'') MAX_UINT
              (set_flag self ''authorizedTroveManagers'' a E)) (\<lambda>E1.
     defaultPool_authorizeTroveManagers self as E1)))"

definition defaultPool_setAddresses ::
  "address \<Rightarrow> address \<Rightarrow> address list \<Rightarrow> address \<Rightarrow> evm \<Rightarrow> evm res" where
  "defaultPool_setAddresses me self troveMs activeP E =
     rbind (onlyOwner me self E) (\<lambda>_.
     rbind (checkContract E activeP) (\<lambda>_.
     rbind (defaultPool_authorizeTroveManagers self troveMs
              (store self [(''activePoolAddress'', activeP)] E)) (\<lambda>E1.
     Inr (renounceOwnership self E1))))"

text \<open>
  \<open>setCollTokens\<close> runs its check over the length of the stored array, which is the old one: with an
  empty stored array no token is checked; a stored array longer than the new one is an out-of-bounds
  read.
\<close>

fun check_first :: "nat \<Rightarrow> address list \<Rightarrow> evm \<Rightarrow> unit res" where
  "check_first 0 tokens E = Inr ()"
| "check_first (Suc n) [] E = Inl InvalidOpcode"
| "check_first (Suc n) (a # as) E = rbind (checkContract E a) (\<lambda>_. check_first n as E)"

definition setCollTokens :: "address \<Rightarrow> address list \<Rightarrow> evm \<Rightarrow> evm res" where
  "setCollTokens self tokens E =
     rbind (check_first (length (arr E self ''collTokens'')) tokens E) (\<lambda>_.
     Inr (E\<lparr>arr := (arr E)(self := (arr E self)(''collTokens'' := tokens))\<rparr>))"

definition collSurplusPool_setAddresses ::
  "address \<Rightarrow> address \<Rightarrow> address list \<Rightarrow> address list \<Rightarrow> address list \<Rightarrow> address \<Rightarrow> evm \<Rightarrow> evm res" where
  "collSurplusPool_setAddresses me self tokens troveMs borrowerOpss activeP E =
     rbind (onlyOwner me self E) (\<lambda>_.
     rbind (checkContract E activeP) (\<lambda>_.
     rbind (setCollTokens self tokens (store self [(''activePoolAddress'', activeP)] E)) (\<lambda>E1.
     rbind (authorize ''_authorizedTroveManagers'' self troveMs E1) (\<lambda>E2.
     rbind (authorize ''_authorizedBorrowerOperations'' self borrowerOpss E2) (\<lambda>E3.
     Inr (renounceOwnership self E3))))))"

definition hintHelpers_setAddresses :: "address \<Rightarrow> address \<Rightarrow> address list \<Rightarrow> evm \<Rightarrow> evm res" where
  "hintHelpers_setAddresses me self params E =
     (case params of
        [sortedT, troveM] \<Rightarrow>
          rbind (onlyOwner me self E) (\<lambda>_.
          rbind (checkContracts E [sortedT, troveM]) (\<lambda>_.
          Inr (renounceOwnership self (store self [(''sortedTroves'', sortedT), (''troveManager'', troveM)] E))))
      | _ \<Rightarrow> bad_arity)"

definition deftStaking_setAddresses ::
  "address \<Rightarrow> address \<Rightarrow> address list \<Rightarrow> address list \<Rightarrow> address list \<Rightarrow> address list \<Rightarrow> evm \<Rightarrow> evm res" where
  "deftStaking_setAddresses me self tokens troveMs borrowerOpss params E =
     (case params of
        [deftT, usddT, activeP, gatewayA] \<Rightarrow>
          rbind (onlyOwner me self E) (\<lambda>_.
          rbind (checkContracts E [gatewayA, deftT, usddT, activeP]) (\<lambda>_.
          rbind (setCollTokens self tokens E) (\<lambda>E1.
          rbind (authorize ''authorizedTroveManagers'' self troveMs E1) (\<lambda>E2.
          rbind (authorize ''authorizedBorrowerOperations'' self borrowerOpss E2) (\<lambda>E3.
          Inr (renounceOwnership self
            (store self [(''wETHGatewayAddress'', gatewayA), (''deftToken'', deftT), (''usddToken'', usddT),
               (''activePoolAddress'', activeP)] E3)))))))
      | _ \<Rightarrow> bad_arity)"

definition communityIssuance_setAddresses :: "address \<Rightarrow> address \<Rightarrow> address list \<Rightarrow> evm \<Rightarrow> evm res" where
  "communityIssuance_setAddresses me self params E =
     (case params of
        [deftT, stabilityP] \<Rightarrow>
          rbind (onlyOwner me self E) (\<lambda>_.
          rbind (checkContracts E [deftT, stabilityP]) (\<lambda>_.
          rbind (sol_assert (balanceOf E deftT self \<ge> slot E self ''DEFTSupplyCap'')) (\<lambda>_.
          Inr (store self [(''deftToken'', deftT), (''stabilityPoolAddress'', stabilityP)] E))))
      | _ \<Rightarrow> bad_arity)"

text \<open>
  The setters that \<open>setAddresses\<close> calls are public functions too, each with the guard \<open>onlyOwner\<close>.
\<close>

definition activePool_authorizeTroveManagers :: "address \<Rightarrow> address \<Rightarrow> address list \<Rightarrow> evm \<Rightarrow> evm res" where
  "activePool_authorizeTroveManagers me self troveMs E =
     rbind (onlyOwner me self E) (\<lambda>_. authorize ''authorizedTroveManagers'' self troveMs E)"

definition activePool_authorizeBorrowerOperations :: "address \<Rightarrow> address \<Rightarrow> address list \<Rightarrow> evm \<Rightarrow> evm res" where
  "activePool_authorizeBorrowerOperations me self borrowerOpss E =
     rbind (onlyOwner me self E) (\<lambda>_. authorize ''authorizedBorrowerOperations'' self borrowerOpss E)"

definition defaultPool_authorizeTroveManagers_ext :: "address \<Rightarrow> address \<Rightarrow> address list \<Rightarrow> evm \<Rightarrow> evm res" where
  "defaultPool_authorizeTroveManagers_ext me self troveMs E =
     rbind (onlyOwner me self E) (\<lambda>_. defaultPool_authorizeTroveManagers self troveMs E)"

definition collSurplusPool_authorizeTroveManagers :: "address \<Rightarrow> address \<Rightarrow> address list \<Rightarrow> evm \<Rightarrow> evm res" where
  "collSurplusPool_authorizeTroveManagers me self troveMs E =
     rbind (onlyOwner me self E) (\<lambda>_. authorize ''_authorizedTroveManagers'' self troveMs E)"

definition collSurplusPool_authorizeBorrowerOperations :: "address \<Rightarrow> address \<Rightarrow> address list \<Rightarrow> evm \<Rightarrow> evm res" where
  "collSurplusPool_authorizeBorrowerOperations me self borrowerOpss E =
     rbind (onlyOwner me self E) (\<lambda>_. authorize ''_authorizedBorrowerOperations'' self borrowerOpss E)"

definition collSurplusPool_setCollTokens :: "address \<Rightarrow> address \<Rightarrow> address list \<Rightarrow> evm \<Rightarrow> evm res" where
  "collSurplusPool_setCollTokens me self tokens E = rbind (onlyOwner me self E) (\<lambda>_. setCollTokens self tokens E)"

definition deftStaking_authorizeTroveManagers :: "address \<Rightarrow> address \<Rightarrow> address list \<Rightarrow> evm \<Rightarrow> evm res" where
  "deftStaking_authorizeTroveManagers me self troveMs E =
     rbind (onlyOwner me self E) (\<lambda>_. authorize ''authorizedTroveManagers'' self troveMs E)"

definition deftStaking_authorizeBorrowerOperations :: "address \<Rightarrow> address \<Rightarrow> address list \<Rightarrow> evm \<Rightarrow> evm res" where
  "deftStaking_authorizeBorrowerOperations me self borrowerOpss E =
     rbind (onlyOwner me self E) (\<lambda>_. authorize ''authorizedBorrowerOperations'' self borrowerOpss E)"

definition deftStaking_setCollTokens :: "address \<Rightarrow> address \<Rightarrow> address list \<Rightarrow> evm \<Rightarrow> evm res" where
  "deftStaking_setCollTokens me self tokens E = rbind (onlyOwner me self E) (\<lambda>_. setCollTokens self tokens E)"

definition unipool_setAddresses :: "address \<Rightarrow> address \<Rightarrow> address list \<Rightarrow> evm \<Rightarrow> evm res" where
  "unipool_setAddresses me self params E =
     (case params of
        [deftT, uniT] \<Rightarrow>
          rbind (onlyOwner me self E) (\<lambda>_.
          rbind (checkContracts E [deftT, uniT]) (\<lambda>_.
          Inr (store self [(''uniToken'', uniT), (''deftToken'', deftT)] E)))
      | _ \<Rightarrow> bad_arity)"

section \<open>Constructors\<close>

definition ownable :: "string list" where
  "ownable = [''SortedTroves'', ''TroveManager'', ''ActivePool'', ''StabilityPool'', ''DefaultPool'',
     ''CollSurplusPool'', ''BorrowerOperations'', ''HintHelpers'', ''DEFTStaking'', ''CommunityIssuance'',
     ''Unipool'', ''PriceFeed'', ''TroveManagerTester'', ''ActivePoolTester'', ''DefaultPoolTester'',
     ''StabilityPoolTester'', ''BorrowerOperationsTester'', ''CommunityIssuanceTester'', ''DEFTStakingTester'',
     ''PriceFeedTester'', ''WETHGateway'']"

text \<open>
  The constructor bodies, run for the fresh address \<open>self\<close>.  Only the classes below have one that
  checks or stores addresses; \<open>BorrowerWrappersScript\<close> reads the wiring of the TroveManager and
  refuses another staking contract than the one wired there.
\<close>

definition construct :: "string \<Rightarrow> address list \<Rightarrow> address \<Rightarrow> evm \<Rightarrow> evm res" where
  "construct c params self E =
     (if c \<in> {''USDDToken'', ''USDDTokenTester''} then
        (case params of
           [troveM, stabilityP, borrowerOps] \<Rightarrow>
             rbind (checkContracts E [troveM, stabilityP, borrowerOps]) (\<lambda>_.
             Inr (store self [(''troveManagerAddress'', troveM), (''stabilityPoolAddress'', stabilityP),
                    (''borrowerOperationsAddress'', borrowerOps)] E))
         | _ \<Rightarrow> bad_arity)
      else if c = ''WETHGateway'' then
        (case params of
           [borrowerOps, troveM, stabilityP, wethA] \<Rightarrow>
             rbind (checkContracts E [borrowerOps, troveM, stabilityP, wethA]) (\<lambda>_.
             approve wethA self borrowerOps MAX_UINT
               (store self [(''borrowerOperations'', borrowerOps), (''troveManager'', troveM),
                  (''stabilityPool'', stabilityP), (''WETH'', wethA)] E))
         | _ \<Rightarrow> bad_arity)
      else if c = ''BorrowerWrappersScript'' then
        (case params of
           [borrowerOps, troveM, stakingA] \<Rightarrow>
             rbind (checkContract E borrowerOps) (\<lambda>_.
             rbind (checkContract E stakingA) (\<lambda>_.
             rbind (checkContract E troveM) (\<lambda>_.
             rbind (require (is_trove_manager E troveM) '''') (\<lambda>_.
             rbind (checkContracts E [slot E troveM ''stabilityPool'', slot E troveM ''priceFeed'',
                      slot E troveM ''usddToken'', slot E troveM ''deftToken'']) (\<lambda>_.
             rbind (require (stakingA = slot E troveM ''deftStaking'')
                      ''BorrowerWrappersScript: Wrong DEFTStaking address'') (\<lambda>_.
             Inr (store self [(''borrowerOperations'', borrowerOps), (''DEFTStaking'', stakingA),
                    (''troveManager'', troveM), (''stabilityPool'', slot E troveM ''stabilityPool''),
                    (''priceFeed'', slot E troveM ''priceFeed''), (''usddToken'', slot E troveM ''usddToken''),
                    (''deftToken'', slot E troveM ''deftToken''), (''deftStaking'', stakingA)] E)))))))
         | _ \<Rightarrow> bad_arity)
      else if c = ''TellorCaller'' then
        (case params of
           [tellorMaster] \<Rightarrow> Inr (store self [(''tellor'', tellorMaster)] E)
         | _ \<Rightarrow> bad_arity)
      else if c = ''MultiTroveGetter'' then
        (case params of
           [troveM, sortedT] \<Rightarrow> Inr (store self [(''troveManager'', troveM), (''sortedTroves'', sortedT)] E)
         | _ \<Rightarrow> bad_arity)
      else if c \<in> {''BorrowerOperationsScript'', ''TroveManagerScript'', ''StabilityPoolScript'',
                    ''TokenScript'', ''DEFTStakingScript''} then
        (case params of
           [target] \<Rightarrow> rbind (checkContract E target) (\<lambda>_. Inr (store self [(''target'', target)] E))
         | _ \<Rightarrow> bad_arity)
      else if params = [] then Inr E else bad_arity)"

text \<open>\<open>Artifact.new(...)\<close>, sent by \<open>me\<close>: a fresh address gets code, then the constructor runs.\<close>

definition new :: "address \<Rightarrow> string \<Rightarrow> address list \<Rightarrow> (evm, address) js" where
  "new me c params E =
     (let self = nextAddr E;
          E1 = E\<lparr>hasCode := (hasCode E)(self := True), cls := (cls E)(self := c),
                 owner := (owner E)(self := (if c \<in> set ownable then me else 0)),
                 slot := (slot E)(self := (\<lambda>_. 0)), flag := (flag E)(self := (\<lambda>_ _. False)),
                 arr := (arr E)(self := (\<lambda>_. [])), balanceOf := (balanceOf E)(self := (\<lambda>_. 0)),
                 allowance := (allowance E)(self := (\<lambda>_ _. 0)), nextAddr := Suc self\<rparr>
      in case construct c params self E1 of
           Inl e \<Rightarrow> (Inl e, E)
         | Inr E2 \<Rightarrow> (Inr self, E2))"

text \<open>A transaction: a revert leaves the chain unchanged.\<close>

definition transact :: "(evm \<Rightarrow> evm res) \<Rightarrow> (evm, unit) js" where
  "transact f E = (case f E of Inl e \<Rightarrow> (Inl e, E) | Inr E' \<Rightarrow> (Inr (), E'))"

text \<open>\<open>contracts.name.address\<close>: a TypeError when the property is missing.\<close>

definition addr :: "instances \<Rightarrow> string \<Rightarrow> address res" where
  "addr obj name = (case obj name of None \<Rightarrow> Inl TypeError | Some a \<Rightarrow> Inr a)"

fun addrs :: "instances \<Rightarrow> string list \<Rightarrow> address list res" where
  "addrs obj [] = Inr []"
| "addrs obj (n # ns) = rbind (addr obj n) (\<lambda>a. rbind (addrs obj ns) (\<lambda>as. Inr (a # as)))"

section \<open>deploymentHelpers.js\<close>

definition max_size :: nat where
  "max_size = 0xffffffffffffffffffffffffffffffffffffffffffffffffffffffffffffffff"

definition deployLiquityCoreHardhat :: "address \<Rightarrow> (evm, instances) js" where
  "deployLiquityCoreHardhat me =
     jbind (new me ''WETH'' []) (\<lambda>weth.
     jbind (new me ''PriceFeedTestnet'' []) (\<lambda>priceFeedTestnet.
     jbind (new me ''SortedTroves'' []) (\<lambda>sortedTroves.
     jbind (new me ''TroveManager'' []) (\<lambda>troveManager.
     jbind (new me ''ActivePool'' []) (\<lambda>activePool.
     jbind (new me ''StabilityPool'' []) (\<lambda>stabilityPool.
     jbind (new me ''GasPool'' []) (\<lambda>gasPool.
     jbind (new me ''DefaultPool'' []) (\<lambda>defaultPool.
     jbind (new me ''CollSurplusPool'' []) (\<lambda>collSurplusPool.
     jbind (new me ''FunctionCaller'' []) (\<lambda>functionCaller.
     jbind (new me ''BorrowerOperations'' []) (\<lambda>borrowerOperations.
     jbind (new me ''HintHelpers'' []) (\<lambda>hintHelpers.
     jbind (new me ''USDDToken'' [troveManager, stabilityPool, borrowerOperations]) (\<lambda>usddToken.
     jbind (new me ''WETHGateway'' [borrowerOperations, troveManager, stabilityPool, weth]) (\<lambda>wETHGateway.
     jret (map_of [(''weth'', weth), (''wETHGateway'', wETHGateway), (''priceFeedTestnet'', priceFeedTestnet),
        (''usddToken'', usddToken), (''sortedTroves'', sortedTroves), (''troveManager'', troveManager),
        (''activePool'', activePool), (''stabilityPool'', stabilityPool), (''gasPool'', gasPool),
        (''defaultPool'', defaultPool), (''collSurplusPool'', collSurplusPool),
        (''functionCaller'', functionCaller), (''borrowerOperations'', borrowerOperations),
        (''hintHelpers'', hintHelpers)])))))))))))))))"

definition deployTesterContractsHardhat :: "address \<Rightarrow> (evm, instances) js" where
  "deployTesterContractsHardhat me =
     jbind (new me ''WETH'' []) (\<lambda>weth.
     jbind (new me ''PriceFeedTestnet'' []) (\<lambda>priceFeedTestnet.
     jbind (new me ''SortedTroves'' []) (\<lambda>sortedTroves.
     jbind (new me ''CommunityIssuanceTester'' []) (\<lambda>communityIssuance.
     jbind (new me ''ActivePoolTester'' []) (\<lambda>activePool.
     jbind (new me ''DefaultPoolTester'' []) (\<lambda>defaultPool.
     jbind (new me ''StabilityPoolTester'' []) (\<lambda>stabilityPool.
     jbind (new me ''GasPool'' []) (\<lambda>gasPool.
     jbind (new me ''CollSurplusPool'' []) (\<lambda>collSurplusPool.
     jbind (new me ''LiquityMathTester'' []) (\<lambda>mathTester.
     jbind (new me ''BorrowerOperationsTester'' []) (\<lambda>borrowerOperations.
     jbind (new me ''TroveManagerTester'' []) (\<lambda>troveManager.
     jbind (new me ''FunctionCaller'' []) (\<lambda>functionCaller.
     jbind (new me ''HintHelpers'' []) (\<lambda>hintHelpers.
     jbind (new me ''USDDTokenTester'' [troveManager, stabilityPool, borrowerOperations]) (\<lambda>usddToken.
     jbind (new me ''WETHGateway'' [borrowerOperations, troveManager, stabilityPool, weth]) (\<lambda>wETHGateway.
     jret (map_of [(''weth'', weth), (''priceFeedTestnet'', priceFeedTestnet), (''sortedTroves'', sortedTroves),
        (''communityIssuance'', communityIssuance), (''activePool'', activePool),
        (''defaultPool'', defaultPool), (''stabilityPool'', stabilityPool), (''gasPool'', gasPool),
        (''collSurplusPool'', collSurplusPool), (''math'', mathTester),
        (''borrowerOperations'', borrowerOperations), (''troveManager'', troveManager),
        (''functionCaller'', functionCaller), (''hintHelpers'', hintHelpers), (''usddToken'', usddToken),
        (''wETHGateway'', wETHGateway)])))))))))))))))))"

definition deployDEFTContractsHardhat :: "address \<Rightarrow> (evm, instances) js" where
  "deployDEFTContractsHardhat me =
     jbind (new me ''DEFTStaking'' []) (\<lambda>deftStaking.
     jbind (new me ''CommunityIssuance'' []) (\<lambda>communityIssuance.
     jbind (new me ''ERC20Mock'' []) (\<lambda>deftToken.
     jret (map_of [(''deftStaking'', deftStaking), (''communityIssuance'', communityIssuance),
        (''deftToken'', deftToken)]))))"

definition deployDEFTTesterContractsHardhat :: "address \<Rightarrow> (evm, instances) js" where
  "deployDEFTTesterContractsHardhat me =
     jbind (new me ''DEFTStaking'' []) (\<lambda>deftStaking.
     jbind (new me ''CommunityIssuanceTester'' []) (\<lambda>communityIssuance.
     jbind (new me ''ERC20Mock'' []) (\<lambda>deftToken.
     jret (map_of [(''deftStaking'', deftStaking), (''communityIssuance'', communityIssuance),
        (''deftToken'', deftToken)]))))"

definition deployLiquityCoreTruffle :: "address \<Rightarrow> (evm, instances) js" where
  "deployLiquityCoreTruffle me =
     jbind (new me ''PriceFeedTestnet'' []) (\<lambda>priceFeedTestnet.
     jbind (new me ''SortedTroves'' []) (\<lambda>sortedTroves.
     jbind (new me ''TroveManager'' []) (\<lambda>troveManager.
     jbind (new me ''ActivePool'' []) (\<lambda>activePool.
     jbind (new me ''StabilityPool'' []) (\<lambda>stabilityPool.
     jbind (new me ''GasPool'' []) (\<lambda>gasPool.
     jbind (new me ''DefaultPool'' []) (\<lambda>defaultPool.
     jbind (new me ''CollSurplusPool'' []) (\<lambda>collSurplusPool.
     jbind (new me ''FunctionCaller'' []) (\<lambda>functionCaller.
     jbind (new me ''BorrowerOperations'' []) (\<lambda>borrowerOperations.
     jbind (new me ''HintHelpers'' []) (\<lambda>hintHelpers.
     jbind (new me ''USDDToken'' [troveManager, stabilityPool, borrowerOperations]) (\<lambda>usddToken.
     jret (map_of [(''priceFeedTestnet'', priceFeedTestnet), (''usddToken'', usddToken),
        (''sortedTroves'', sortedTroves), (''troveManager'', troveManager), (''activePool'', activePool),
        (''stabilityPool'', stabilityPool), (''gasPool'', gasPool), (''defaultPool'', defaultPool),
        (''collSurplusPool'', collSurplusPool), (''functionCaller'', functionCaller),
        (''borrowerOperations'', borrowerOperations), (''hintHelpers'', hintHelpers)])))))))))))))"

text \<open>
  \<open>const deftStaking = await deftStaking.new()\<close> reads the constant in its own initialiser, before it
  is bound: a ReferenceError (temporal dead zone).
\<close>

definition deployDEFTContractsTruffle :: "address \<Rightarrow> (evm, instances) js" where
  "deployDEFTContractsTruffle me =
     jbind (jthrow ReferenceError) (\<lambda>deftStaking.
     jbind (new me ''CommunityIssuance'' []) (\<lambda>communityIssuance.
     jbind (new me ''ERC20Mock'' []) (\<lambda>deftToken.
     jret (map_of [(''deftStaking'', deftStaking), (''communityIssuance'', communityIssuance),
        (''deftToken'', deftToken)]))))"

text \<open>The dispatch on \<open>process.argv[1]\<close>; for another framework the function returns \<open>undefined\<close>.\<close>

definition deployLiquityCore :: "string \<Rightarrow> address \<Rightarrow> (evm, instances option) js" where
  "deployLiquityCore frameworkPath me =
     (if js_includes frameworkPath ''hardhat''
      then jbind (deployLiquityCoreHardhat me) (\<lambda>c. jret (Some c))
      else if js_includes frameworkPath ''truffle''
      then jbind (deployLiquityCoreTruffle me) (\<lambda>c. jret (Some c))
      else jret None)"

definition deployDEFTContracts :: "string \<Rightarrow> address \<Rightarrow> (evm, instances option) js" where
  "deployDEFTContracts frameworkPath me =
     (if js_includes frameworkPath ''hardhat''
      then jbind (deployDEFTContractsHardhat me) (\<lambda>c. jret (Some c))
      else if js_includes frameworkPath ''truffle''
      then jbind (deployDEFTContractsTruffle me) (\<lambda>c. jret (Some c))
      else jret None)"

definition deploy_token :: "string \<Rightarrow> address \<Rightarrow> instances \<Rightarrow> (evm, instances) js" where
  "deploy_token c me contracts =
     jbind (jlift (addrs contracts [''troveManager'', ''stabilityPool'', ''borrowerOperations''])) (\<lambda>params.
     jbind (new me c params) (\<lambda>usddToken.
     jret (contracts(''usddToken'' \<mapsto> usddToken))))"

definition deployUSDDToken :: "address \<Rightarrow> instances \<Rightarrow> (evm, instances) js" where
  "deployUSDDToken me contracts = deploy_token ''USDDToken'' me contracts"

definition deployUSDDTokenTester :: "address \<Rightarrow> instances \<Rightarrow> (evm, instances) js" where
  "deployUSDDTokenTester me contracts = deploy_token ''USDDTokenTester'' me contracts"

text \<open>\<open>contracts.target.method(args)\<close>: the target is looked up, then the arguments, then it is sent.\<close>

definition call_on ::
  "instances \<Rightarrow> string \<Rightarrow> 'a res \<Rightarrow> (address \<Rightarrow> 'a \<Rightarrow> evm \<Rightarrow> evm res) \<Rightarrow> (evm, unit) js" where
  "call_on contracts target args method =
     jbind (jlift (addr contracts target)) (\<lambda>self.
     jbind (jlift args) (\<lambda>params.
     transact (method self params)))"

definition connectCoreContracts :: "address \<Rightarrow> instances \<Rightarrow> instances \<Rightarrow> (evm, unit) js" where
  "connectCoreContracts me contracts DEFTContracts =
     jbind (call_on contracts ''sortedTroves'' (addrs contracts [''troveManager'', ''borrowerOperations''])
       (\<lambda>self ps. sortedTroves_setParams me self max_size (ps ! 0) (ps ! 1))) (\<lambda>_.
     jbind (call_on contracts ''functionCaller'' (addr contracts ''troveManager'')
       functionCaller_setTroveManagerAddress) (\<lambda>_.
     jbind (call_on contracts ''functionCaller'' (addr contracts ''sortedTroves'')
       functionCaller_setSortedTrovesAddress) (\<lambda>_.
     jbind (call_on contracts ''troveManager''
       (rbind (addrs contracts [''weth'', ''wETHGateway'', ''borrowerOperations'', ''activePool'', ''defaultPool'',
          ''stabilityPool'', ''gasPool'', ''collSurplusPool'', ''priceFeedTestnet'', ''usddToken'',
          ''sortedTroves'']) (\<lambda>core.
        rbind (addrs DEFTContracts [''deftToken'', ''deftStaking'']) (\<lambda>d. Inr (core @ d))))
       (troveManager_setAddresses me)) (\<lambda>_.
     jbind (call_on contracts ''borrowerOperations''
       (rbind (addrs contracts [''weth'', ''wETHGateway'', ''troveManager'', ''activePool'', ''defaultPool'',
          ''stabilityPool'', ''gasPool'', ''collSurplusPool'', ''priceFeedTestnet'', ''sortedTroves'',
          ''usddToken'']) (\<lambda>core.
        rbind (addrs DEFTContracts [''deftStaking'']) (\<lambda>d. Inr (core @ d))))
       (borrowerOperations_setAddresses me)) (\<lambda>_.
     jbind (call_on contracts ''stabilityPool''
       (rbind (addrs contracts [''weth'', ''wETHGateway'', ''borrowerOperations'', ''troveManager'',
          ''activePool'', ''usddToken'', ''sortedTroves'', ''priceFeedTestnet'']) (\<lambda>core.
        rbind (addrs DEFTContracts [''communityIssuance'']) (\<lambda>d. Inr (core @ d))))
       (stabilityPool_setAddresses me)) (\<lambda>_.
     jbind (call_on contracts ''activePool''
       (addrs contracts [''troveManager'', ''borrowerOperations'', ''stabilityPool'', ''defaultPool''])
       (\<lambda>self ps. activePool_setAddresses me self [ps ! 0] [ps ! 1] (ps ! 2) (ps ! 3))) (\<lambda>_.
     jbind (call_on contracts ''defaultPool'' (addrs contracts [''troveManager'', ''activePool''])
       (\<lambda>self ps. defaultPool_setAddresses me self [ps ! 0] (ps ! 1))) (\<lambda>_.
     jbind (call_on contracts ''collSurplusPool''
       (addrs contracts [''weth'', ''troveManager'', ''borrowerOperations'', ''activePool''])
       (\<lambda>self ps. collSurplusPool_setAddresses me self [ps ! 0] [ps ! 1] [ps ! 2] (ps ! 3))) (\<lambda>_.
     call_on contracts ''hintHelpers'' (addrs contracts [''sortedTroves'', ''troveManager''])
       (hintHelpers_setAddresses me))))))))))"

definition connectDEFTContracts :: "instances \<Rightarrow> (evm, unit) js" where
  "connectDEFTContracts DEFTContracts = jret ()"

definition connectDEFTContractsToCore :: "address \<Rightarrow> instances \<Rightarrow> instances \<Rightarrow> (evm, unit) js" where
  "connectDEFTContractsToCore me DEFTContracts coreContracts =
     jbind (call_on DEFTContracts ''deftStaking''
       (rbind (addrs coreContracts [''weth'', ''troveManager'', ''borrowerOperations'']) (\<lambda>core.
        rbind (addrs DEFTContracts [''deftToken'']) (\<lambda>d.
        rbind (addrs coreContracts [''usddToken'', ''activePool'', ''wETHGateway'']) (\<lambda>rest.
        Inr (core, d @ rest)))))
       (\<lambda>self (core, rest). deftStaking_setAddresses me self [core ! 0] [core ! 1] [core ! 2] rest)) (\<lambda>_.
     call_on DEFTContracts ''communityIssuance''
       (rbind (addrs DEFTContracts [''deftToken'']) (\<lambda>d.
        rbind (addrs coreContracts [''stabilityPool'']) (\<lambda>c. Inr (d @ c))))
       (communityIssuance_setAddresses me))"

definition connectUnipool :: "address \<Rightarrow> address \<Rightarrow> instances \<Rightarrow> address \<Rightarrow> (evm, unit) js" where
  "connectUnipool me uniPool DEFTContracts uniswapPairAddr =
     jbind (jlift (addr DEFTContracts ''deftToken'')) (\<lambda>deftToken.
     transact (unipool_setAddresses me uniPool [deftToken, uniswapPairAddr]))"

section \<open>Symbolic execution\<close>

text \<open>
  Every change of the chain is kept as a named operation, with what each observer sees of it; a run
  of a script is then a composition of these operations.
\<close>

definition fresh :: "address \<Rightarrow> string \<Rightarrow> evm \<Rightarrow> evm" where
  "fresh me c E = E\<lparr>hasCode := (hasCode E)(nextAddr E := True), cls := (cls E)(nextAddr E := c),
     owner := (owner E)(nextAddr E := (if c \<in> set ownable then me else 0)),
     slot := (slot E)(nextAddr E := (\<lambda>_. 0)), flag := (flag E)(nextAddr E := (\<lambda>_ _. False)),
     arr := (arr E)(nextAddr E := (\<lambda>_. [])), balanceOf := (balanceOf E)(nextAddr E := (\<lambda>_. 0)),
     allowance := (allowance E)(nextAddr E := (\<lambda>_ _. 0)), nextAddr := nextAddr E + 1\<rparr>"

definition approved :: "address \<Rightarrow> address \<Rightarrow> address \<Rightarrow> evm \<Rightarrow> evm" where
  "approved token caller spender E = E\<lparr>allowance := (allowance E)(token :=
     (allowance E token)(caller := (allowance E token caller)(spender := MAX_UINT)))\<rparr>"

definition with_tokens :: "address \<Rightarrow> address list \<Rightarrow> evm \<Rightarrow> evm" where
  "with_tokens self tokens E = E\<lparr>arr := (arr E)(self := (arr E self)(''collTokens'' := tokens))\<rparr>"

named_theorems evm_run \<open>symbolic execution of chain operations\<close>

lemma fresh_sel [evm_run]:
  "hasCode (fresh me c E) a = (a = nextAddr E \<or> hasCode E a)"
  "cls (fresh me c E) a = (if a = nextAddr E then c else cls E a)"
  "owner (fresh me c E) a = (if a = nextAddr E then (if c \<in> set ownable then me else 0) else owner E a)"
  "slot (fresh me c E) a = (if a = nextAddr E then (\<lambda>_. 0) else slot E a)"
  "flag (fresh me c E) a = (if a = nextAddr E then (\<lambda>_ _. False) else flag E a)"
  "arr (fresh me c E) a = (if a = nextAddr E then (\<lambda>_. []) else arr E a)"
  "balanceOf (fresh me c E) a = (if a = nextAddr E then (\<lambda>_. 0) else balanceOf E a)"
  "nextAddr (fresh me c E) = nextAddr E + 1"
  by (simp_all add: fresh_def)

lemma approved_sel [evm_run]:
  "hasCode (approved t c s E) = hasCode E" "cls (approved t c s E) = cls E"
  "owner (approved t c s E) = owner E" "slot (approved t c s E) = slot E"
  "flag (approved t c s E) = flag E" "arr (approved t c s E) = arr E"
  "balanceOf (approved t c s E) = balanceOf E" "nextAddr (approved t c s E) = nextAddr E"
  by (simp_all add: approved_def)

lemma store_sel [evm_run]:
  "hasCode (store self ws E) = hasCode E" "cls (store self ws E) = cls E"
  "owner (store self ws E) = owner E" "flag (store self ws E) = flag E" "arr (store self ws E) = arr E"
  "balanceOf (store self ws E) = balanceOf E" "nextAddr (store self ws E) = nextAddr E"
  "slot (store self ws E) a = (if a = self then foldl (\<lambda>s (n, v). s(n := v)) (slot E a) ws else slot E a)"
  by (simp_all add: store_def)

lemma renounce_sel [evm_run]:
  "hasCode (renounceOwnership self E) = hasCode E" "cls (renounceOwnership self E) = cls E"
  "slot (renounceOwnership self E) = slot E" "flag (renounceOwnership self E) = flag E"
  "arr (renounceOwnership self E) = arr E" "balanceOf (renounceOwnership self E) = balanceOf E"
  "nextAddr (renounceOwnership self E) = nextAddr E"
  "owner (renounceOwnership self E) a = (if a = self then 0 else owner E a)"
  by (simp_all add: renounceOwnership_def)

lemma set_flag_sel [evm_run]:
  "hasCode (set_flag self n b E) = hasCode E" "cls (set_flag self n b E) = cls E"
  "slot (set_flag self n b E) = slot E" "owner (set_flag self n b E) = owner E"
  "arr (set_flag self n b E) = arr E" "balanceOf (set_flag self n b E) = balanceOf E"
  "nextAddr (set_flag self n b E) = nextAddr E"
  "flag (set_flag self n b E) a m x = (a = self \<and> m = n \<and> x = b \<or> flag E a m x)"
  by (simp_all add: set_flag_def)

lemma with_tokens_sel [evm_run]:
  "hasCode (with_tokens self ts E) = hasCode E" "cls (with_tokens self ts E) = cls E"
  "slot (with_tokens self ts E) = slot E" "owner (with_tokens self ts E) = owner E"
  "flag (with_tokens self ts E) = flag E" "balanceOf (with_tokens self ts E) = balanceOf E"
  "nextAddr (with_tokens self ts E) = nextAddr E"
  "arr (with_tokens self ts E) a n = (if a = self \<and> n = ''collTokens'' then ts else arr E a n)"
  by (simp_all add: with_tokens_def)

lemma approve_run [evm_run]:
  "approve token caller spender MAX_UINT E =
     (if hasCode E token \<and> (cls E token = ''WETH'' \<or> cls E token = ''ERC20Mock'')
      then Inr (approved token caller spender E) else Inl (Revert ''''))"
  by (simp add: approve_def approved_def)

lemma setCollTokens_run [evm_run]:
  "arr E self ''collTokens'' = [] \<Longrightarrow> setCollTokens self tokens E = Inr (with_tokens self tokens E)"
  by (simp add: setCollTokens_def with_tokens_def)

lemma checkContract_run [evm_run]: "0 < a \<Longrightarrow> hasCode E a \<Longrightarrow> checkContract E a = Inr ()"
  by (simp add: checkContract_def)

lemma new_run:
  "new me c params E =
     (case construct c params (nextAddr E) (fresh me c E) of
        Inl e \<Rightarrow> (Inl e, E) | Inr E2 \<Rightarrow> (Inr (nextAddr E), E2))"
  by (simp add: new_def fresh_def Let_def)

lemma new_plain [evm_run]:
  "c \<notin> {''USDDToken'', ''USDDTokenTester'', ''WETHGateway'', ''BorrowerWrappersScript'',
        ''BorrowerOperationsScript'', ''TroveManagerScript'', ''StabilityPoolScript'', ''TokenScript'',
        ''DEFTStakingScript'', ''TellorCaller'', ''MultiTroveGetter''} \<Longrightarrow>
   new me c [] E = (Inr (nextAddr E), fresh me c E)"
  by (simp add: new_run construct_def)

lemma new_token [evm_run]:
  "new me ''USDDToken'' [tm, sp, bo] E =
     (case checkContracts (fresh me ''USDDToken'' E) [tm, sp, bo] of
        Inl e \<Rightarrow> (Inl e, E)
      | Inr _ \<Rightarrow> (Inr (nextAddr E), store (nextAddr E) [(''troveManagerAddress'', tm),
          (''stabilityPoolAddress'', sp), (''borrowerOperationsAddress'', bo)] (fresh me ''USDDToken'' E)))"
  unfolding new_run
  by (cases "checkContracts (fresh me ''USDDToken'' E) [tm, sp, bo]")
    (simp_all add: construct_def del: checkContracts.simps)

lemma new_gateway [evm_run]:
  "new me ''WETHGateway'' [bo, tm, sp, wethA] E =
     (case rbind (checkContracts (fresh me ''WETHGateway'' E) [bo, tm, sp, wethA]) (\<lambda>_.
             approve wethA (nextAddr E) bo MAX_UINT (store (nextAddr E) [(''borrowerOperations'', bo),
               (''troveManager'', tm), (''stabilityPool'', sp), (''WETH'', wethA)] (fresh me ''WETHGateway'' E))) of
        Inl e \<Rightarrow> (Inl e, E) | Inr E2 \<Rightarrow> (Inr (nextAddr E), E2))"
  unfolding new_run by (simp add: construct_def del: checkContracts.simps)

end
