(* ===== verification/Old_Deployment.thy ===== *)
theory Old_Deployment
  imports Deployment
begin

text \<open>
  The older deployment scripts: \<open>utils/truffleDeploymentHelpers.js\<close>, \<open>migrations/2_deploy_contracts.js\<close> and
  \<open>migrations/deploy_contracts_buidler.js\<close>.  They were written for contracts with one setter for each address, and the
  contracts of the repository have a single \<open>setAddresses\<close>.
\<close>

section \<open>Setters with one address\<close>

text \<open>
  The methods among those that the scripts name that the deployed classes have: both belong to \<open>FunctionCaller\<close>.  Calling
  any other is a TypeError.
\<close>

definition setter_of :: "string \<Rightarrow> string \<Rightarrow> (address \<Rightarrow> address \<Rightarrow> evm \<Rightarrow> evm res) option" where
  "setter_of c m =
     (if c = ''FunctionCaller'' \<and> m = ''setTroveManagerAddress'' then Some functionCaller_setTroveManagerAddress
      else if c = ''FunctionCaller'' \<and> m = ''setSortedTrovesAddress'' then Some functionCaller_setSortedTrovesAddress
      else None)"

text \<open>\<open>contracts.target.method(addresses.name)\<close>.\<close>

definition call_setter :: "instances \<Rightarrow> instances \<Rightarrow> string \<times> string \<times> string \<Rightarrow> (evm, unit) js" where
  "call_setter contracts addresses = (\<lambda>(target, method, name).
     jbind (jlift (addr contracts target)) (\<lambda>self E.
       case setter_of (cls E self) method of
         None \<Rightarrow> (Inl TypeError, E)
       | Some f \<Rightarrow> jbind (jlift (addr addresses name)) (\<lambda>a. transact (f self a)) E))"

fun call_setters :: "instances \<Rightarrow> instances \<Rightarrow> (string \<times> string \<times> string) list \<Rightarrow> (evm, unit) js" where
  "call_setters contracts addresses [] = jret ()"
| "call_setters contracts addresses (c # cs) =
     jbind (call_setter contracts addresses c) (\<lambda>_. call_setters contracts addresses cs)"

section \<open>truffleDeploymentHelpers.js\<close>

definition deployLiquity :: "address \<Rightarrow> (evm, instances) js" where
  "deployLiquity me =
     jbind (new me ''PriceFeedTestnet'' []) (\<lambda>priceFeedTestnet.
     jbind (new me ''SortedTroves'' []) (\<lambda>sortedTroves.
     jbind (new me ''TroveManager'' []) (\<lambda>troveManager.
     jbind (new me ''ActivePool'' []) (\<lambda>activePool.
     jbind (new me ''StabilityPool'' []) (\<lambda>stabilityPool.
     jbind (new me ''DefaultPool'' []) (\<lambda>defaultPool.
     jbind (new me ''FunctionCaller'' []) (\<lambda>functionCaller.
     jbind (new me ''BorrowerOperations'' []) (\<lambda>borrowerOperations.
     jbind (new me ''USDDToken'' [troveManager, stabilityPool, borrowerOperations]) (\<lambda>usddToken.
     jret (map_of [(''priceFeedTestnet'', priceFeedTestnet), (''usddToken'', usddToken), (''sortedTroves'', sortedTroves),
        (''troveManager'', troveManager), (''activePool'', activePool), (''stabilityPool'', stabilityPool),
        (''defaultPool'', defaultPool), (''functionCaller'', functionCaller),
        (''borrowerOperations'', borrowerOperations)]))))))))))"

definition getAddresses :: "instances \<Rightarrow> instances res" where
  "getAddresses contracts =
     rbind (addrs contracts [''borrowerOperations'', ''priceFeedTestnet'', ''usddToken'', ''sortedTroves'', ''troveManager'',
        ''stabilityPool'', ''activePool'', ''defaultPool'', ''functionCaller'']) (\<lambda>as.
     Inr (map_of (zip [''BorrowerOperations'', ''PriceFeedTestnet'', ''USDDToken'', ''SortedTroves'', ''TroveManager'',
        ''StabilityPool'', ''ActivePool'', ''DefaultPool'', ''FunctionCaller''] as)))"

text \<open>The calls of \<open>connectContracts\<close>, in order: the contract, its method and the address that is passed.\<close>

definition connect_calls :: "(string \<times> string \<times> string) list" where
  "connect_calls =
     [(''sortedTroves'', ''setTroveManager'', ''TroveManager''),
      (''functionCaller'', ''setTroveManagerAddress'', ''TroveManager''),
      (''functionCaller'', ''setSortedTrovesAddress'', ''SortedTroves''),
      (''priceFeedTestnet'', ''setTroveManagerAddress'', ''TroveManager''),
      (''troveManager'', ''setUSDDToken'', ''USDDToken''), (''troveManager'', ''setSortedTroves'', ''SortedTroves''),
      (''troveManager'', ''setPriceFeed'', ''PriceFeedTestnet''), (''troveManager'', ''setActivePool'', ''ActivePool''),
      (''troveManager'', ''setDefaultPool'', ''DefaultPool''), (''troveManager'', ''setStabilityPool'', ''StabilityPool''),
      (''troveManager'', ''setBorrowerOperations'', ''BorrowerOperations''),
      (''borrowerOperations'', ''setSortedTroves'', ''SortedTroves''),
      (''borrowerOperations'', ''setPriceFeed'', ''PriceFeedTestnet''),
      (''borrowerOperations'', ''setActivePool'', ''ActivePool''),
      (''borrowerOperations'', ''setDefaultPool'', ''DefaultPool''),
      (''borrowerOperations'', ''setTroveManager'', ''TroveManager''),
      (''stabilityPool'', ''setActivePoolAddress'', ''ActivePool''),
      (''stabilityPool'', ''setDefaultPoolAddress'', ''DefaultPool''),
      (''activePool'', ''setStabilityPoolAddress'', ''StabilityPool''),
      (''activePool'', ''setDefaultPoolAddress'', ''DefaultPool''),
      (''defaultPool'', ''setStabilityPoolAddress'', ''StabilityPool''),
      (''defaultPool'', ''setActivePoolAddress'', ''ActivePool'')]"

definition connectContracts :: "instances \<Rightarrow> instances \<Rightarrow> (evm, unit) js" where
  "connectContracts contracts addresses = call_setters contracts addresses connect_calls"

section \<open>The migrations\<close>

text \<open>Truffle's deployer runs \<open>deploy\<close> and \<open>then\<close> one after the other and stops at the first failure.\<close>

fun deploy_queue :: "address \<Rightarrow> string list \<Rightarrow> (evm, instances) js" where
  "deploy_queue me [] = jret Map.empty"
| "deploy_queue me (c # cs) = jbind (new me c []) (\<lambda>a. jbind (deploy_queue me cs) (\<lambda>m. jret (m(c \<mapsto> a))))"

text \<open>The object that the callback of \<open>2_deploy_contracts.js\<close> builds from the deployed contracts.\<close>

definition migrated_contracts :: "instances \<Rightarrow> instances" where
  "migrated_contracts deployed =
     (\<lambda>name. case map_of [(''borrowerOperations'', ''BorrowerOperations''), (''priceFeed'', ''PriceFeed''),
        (''usddToken'', ''USDDToken''), (''sortedTroves'', ''SortedTroves''), (''troveManager'', ''TroveManager''),
        (''activePool'', ''ActivePool''), (''stabilityPool'', ''StabilityPool''), (''defaultPool'', ''DefaultPool''),
        (''functionCaller'', ''FunctionCaller'')] name of
        None \<Rightarrow> None
      | Some c \<Rightarrow> deployed c)"

definition migrate_connect :: "instances \<Rightarrow> (evm, unit) js" where
  "migrate_connect deployed =
     (let liquityContracts = migrated_contracts deployed in
      jbind (jlift (getAddresses liquityContracts)) (\<lambda>liquityAddresses.
      connectContracts liquityContracts liquityAddresses))"

definition migration :: "address \<Rightarrow> (evm, unit) js" where
  "migration me =
     jbind (deploy_queue me [''BorrowerOperations'', ''PriceFeed'', ''SortedTroves'', ''TroveManager'', ''ActivePool'',
        ''StabilityPool'', ''DefaultPool'', ''USDDToken'', ''FunctionCaller'']) migrate_connect"

text \<open>
  The Buidler fixture takes \<open>getAddresses\<close> from \<open>deploymentHelpers.js\<close>, whose class has no such method: calling
  \<open>undefined\<close> is a TypeError, after the contracts were created.
\<close>

definition buidler_fixture :: "address \<Rightarrow> (evm, unit) js" where
  "buidler_fixture me =
     jbind (new me ''BorrowerOperations'' []) (\<lambda>borrowerOperations.
     jbind (new me ''PriceFeed'' []) (\<lambda>priceFeed.
     jbind (new me ''SortedTroves'' []) (\<lambda>sortedTroves.
     jbind (new me ''TroveManager'' []) (\<lambda>troveManager.
     jbind (new me ''ActivePool'' []) (\<lambda>activePool.
     jbind (new me ''StabilityPool'' []) (\<lambda>stabilityPool.
     jbind (new me ''DefaultPool'' []) (\<lambda>defaultPool.
     jbind (new me ''FunctionCaller'' []) (\<lambda>functionCaller.
     jbind (new me ''USDDToken'' [troveManager, stabilityPool, borrowerOperations]) (\<lambda>usddToken.
     jthrow TypeError)))))))))"

section \<open>What they do\<close>

lemma addr_missing: "obj n = None \<Longrightarrow> n \<in> set ns \<Longrightarrow> addrs obj ns = Inl TypeError"
  by (induction ns) (auto simp: addr_def rbind_def split: option.splits sum.splits)

lemma addrs_TypeError: "addrs obj ns = Inl e \<Longrightarrow> e = TypeError"
  by (induction ns) (auto simp: addr_def rbind_def split: option.splits sum.splits)

text \<open>On any chain the first call fails, unless the object in its place is of another class than \<open>SortedTroves\<close>.\<close>

lemma connectContracts_fails:
  assumes "contracts ''sortedTroves'' = Some s" and "cls E s \<noteq> ''FunctionCaller''"
  shows "connectContracts contracts addresses E = (Inl TypeError, E)"
  using assms by (simp add: connectContracts_def connect_calls_def call_setter_def jbind_def addr_def setter_of_def)

text \<open>
  None of the three scripts sets the system up.  The helpers create the nine contracts and fail at the first setter, before
  anything is wired; the migration fails when it deploys the stablecoin without its arguments, and its callback would fail
  on the name of the price feed; the fixture fails after creating the contracts.
\<close>

theorem old_scripts_never_wire:
  assumes "0 < nextAddr E"
  shows "\<exists>contracts addresses E'. deployLiquity me E = (Inr contracts, E') \<and> getAddresses contracts = Inr addresses \<and>
      connectContracts contracts addresses E' = (Inl TypeError, E') \<and>
      slot E' (the (contracts ''troveManager'')) = (\<lambda>_. 0) \<and> slot E' (the (contracts ''borrowerOperations'')) = (\<lambda>_. 0)"
    and "fst (migration me E) = Inl (Thrown ''Invalid number of parameters'')"
    and "migrate_connect deployed E = (Inl TypeError, E)"
    and "fst (buidler_fixture me E) = Inl TypeError"
proof -
  let ?k = "nextAddr E"
  show "\<exists>contracts addresses E'. deployLiquity me E = (Inr contracts, E') \<and> getAddresses contracts = Inr addresses \<and>
      connectContracts contracts addresses E' = (Inl TypeError, E') \<and>
      slot E' (the (contracts ''troveManager'')) = (\<lambda>_. 0) \<and> slot E' (the (contracts ''borrowerOperations'')) = (\<lambda>_. 0)"
    using assms by (simp add: deployLiquity_def jbind_def evm_run checkContract_run getAddresses_def addr_def
        connectContracts_fails)
  show "fst (migration me E) = Inl (Thrown ''Invalid number of parameters'')"
    by (simp add: migration_def jbind_def evm_run new_run construct_def bad_arity_def)
  show "migrate_connect deployed E = (Inl TypeError, E)"
    using addr_missing[of "migrated_contracts deployed" "''priceFeedTestnet''"]
    by (simp add: migrate_connect_def getAddresses_def migrated_contracts_def jbind_def del: addrs.simps)
  show "fst (buidler_fixture me E) = Inl TypeError"
    using assms by (simp add: buidler_fixture_def jbind_def evm_run)
qed

end
