(* ===== verification/Fuzz_Test.thy ===== *)
theory Fuzz_Test
  imports Helper_Loops
begin

text \<open>
  \<open>fuzzTests/PoolManager_AllDepositorsCanWithdrawTest.js\<close>: random liquidations and deposits, after which every depositor
  of the Stability Pool must be able to withdraw.  The contracts object gets the views of the pool and of the token that the
  test reads; \<open>Math.random\<close> draws come from the input stream of the world.  The helpers that clear
  undercollateralised troves are called nowhere and are left out, and so are log messages.
\<close>

section \<open>The contracts of the test\<close>

record 's fuzz_contracts =
  fz :: "'s contracts"
  sp_getTotalUSDDDeposits :: "'s \<Rightarrow> int res"
  sp_getETH :: "'s \<Rightarrow> int res"
  sp_deposits :: "'s \<Rightarrow> address \<Rightarrow> int res"
  sp_getCompoundedUSDDDeposit :: "'s \<Rightarrow> address \<Rightarrow> int res"
  sp_pool_balance :: "'s \<Rightarrow> int res"
  ut_balanceOf :: "'s \<Rightarrow> address \<Rightarrow> int res"

definition default_opts :: txopts where
  "default_opts = \<lparr>opt_from = None, opt_value = None, opt_gasPrice = None\<rparr>"

text \<open>\<open>assert.isTrue\<close> of chai.\<close>

definition assert_isTrue :: "bool \<Rightarrow> ('s world, unit) js" where
  "assert_isTrue b = (if b then jret () else jthrow (AssertionError ''''))"

text \<open>\<open>Math.floor(Math.random() * n)\<close>, and the element it selects (\<open>undefined\<close>, which no call accepts, from an empty list).\<close>

definition random_index :: "nat \<Rightarrow> ('s world, nat) js" where
  "random_index n = jbind (randAmountInWei 0 (int n)) (\<lambda>x. jret (if n = 0 then 0 else nat x mod n))"

definition element :: "'b list \<Rightarrow> nat \<Rightarrow> ('s world, 'b) js" where
  "element xs i = (if i < length xs then jret (xs ! i) else jthrow TypeError)"

text \<open>The mutable arrays and dictionaries of one test.\<close>

record fuzz_state =
  remainingDefaulters :: "address list"
  currentDepositors :: "address list"
  liquidatedAccountsDict :: "address \<Rightarrow> bool"
  currentDepositorsDict :: "address \<Rightarrow> bool"

section \<open>The operations\<close>

definition skyrocketPriceAndCheckAllTrovesSafe :: "'s fuzz_contracts \<Rightarrow> ('s world, unit) js" where
  "skyrocketPriceAndCheckAllTrovesSafe F =
     jbind (submit (fz F) (TxCall ''priceFeed'' ''setPrice'' [AUint (1000 * 10 ^ 18)] default_opts)) (\<lambda>_.
     jbind (view (st_getLast (fz F))) (\<lambda>lowest.
     jbind (view (\<lambda>s. tm_getCurrentICR (fz F) s lowest (1000 * 10 ^ 18))) (\<lambda>lowestICR.
     assert_isTrue (lowestICR > 110 * 10 ^ 16))))"

definition performLiquidation :: "'s fuzz_contracts \<Rightarrow> address \<Rightarrow> fuzz_state \<Rightarrow> ('s world, fuzz_state) js" where
  "performLiquidation F account0 st =
     (let ds = remainingDefaulters st in
      if ds = [] then jret st
      else jbind (random_index (length ds)) (\<lambda>i.
      jbind (element ds i) (\<lambda>randomDefaulter.
      jbind (view (\<lambda>s. tm_Troves (fz F) s randomDefaulter)) (\<lambda>(liquidatedUSDD, _).
      jbind (view (\<lambda>s. tm_Troves (fz F) s randomDefaulter)) (\<lambda>(_, liquidatedETH).
      jbind (view (pf_getPrice (fz F))) (\<lambda>price.
      jbind (view (\<lambda>s. tm_getCurrentICR (fz F) s randomDefaulter price)) (\<lambda>ICR.
      jbind (view (sp_getTotalUSDDDeposits F)) (\<lambda>USDDinPoolBefore.
      jbind (submit (fz F) (TxCall ''troveManager'' ''liquidate'' [AAddr randomDefaulter] (from_only account0))) (\<lambda>liquidatedTx.
      jbind (view (sp_getTotalUSDDDeposits F)) (\<lambda>USDDinPoolAfter.
      jbind (assert_isTrue (tx_status liquidatedTx)) (\<lambda>_.
      jbind (view (\<lambda>s. tm_checkRecoveryMode (fz F) s price)) (\<lambda>_.
      jret (st\<lparr>liquidatedAccountsDict := (liquidatedAccountsDict st)(randomDefaulter := True),
               remainingDefaulters := take i ds @ drop (Suc i) ds\<rparr>)))))))))))))"

definition performSPDeposit :: "'s fuzz_contracts \<Rightarrow> address list \<Rightarrow> fuzz_state \<Rightarrow> ('s world, fuzz_state) js" where
  "performSPDeposit F depositorAccounts st =
     jbind (random_index (length depositorAccounts)) (\<lambda>i.
     jbind (element depositorAccounts i) (\<lambda>randomDepositor.
     jbind (view (\<lambda>s. ut_balanceOf F s randomDepositor)) (\<lambda>userBalance.
     jbind (randAmountInWei 1 (bn_quot userBalance (10 ^ 18))) (\<lambda>randomUSDDAmount.
     jbind (submit (fz F) (TxCall ''stabilityPool'' ''provideToSP'' [AUint randomUSDDAmount, AAddr 0]
              (from_only randomDepositor))) (\<lambda>depositTx.
     jbind (assert_isTrue (tx_status depositTx)) (\<lambda>_.
     jret (if currentDepositorsDict st randomDepositor then st
           else st\<lparr>currentDepositorsDict := (currentDepositorsDict st)(randomDepositor := True),
                   currentDepositors := currentDepositors st @ [randomDepositor]\<rparr>)))))))"

definition randomOperation :: "'s fuzz_contracts \<Rightarrow> address \<Rightarrow> address list \<Rightarrow> fuzz_state \<Rightarrow> ('s world, fuzz_state) js" where
  "randomOperation F account0 depositorAccounts st =
     jbind (random_index 2) (\<lambda>randomSelection.
     if randomSelection = 0 then performLiquidation F account0 st
     else if randomSelection = 1 then performSPDeposit F depositorAccounts st
     else jret st)"

fun random_operations :: "nat \<Rightarrow> 's fuzz_contracts \<Rightarrow> address \<Rightarrow> address list \<Rightarrow> fuzz_state \<Rightarrow> ('s world, fuzz_state) js" where
  "random_operations 0 F account0 depositorAccounts st = jret st"
| "random_operations (Suc n) F account0 depositorAccounts st =
     jbind (randomOperation F account0 depositorAccounts st) (random_operations n F account0 depositorAccounts)"

definition attempt_withdrawal :: "'s fuzz_contracts \<Rightarrow> address \<Rightarrow> ('s world, unit) js" where
  "attempt_withdrawal F depositor =
     jbind (view (\<lambda>s. sp_deposits F s depositor)) (\<lambda>initialDeposit.
     jbind (view (\<lambda>s. sp_getCompoundedUSDDDeposit F s depositor)) (\<lambda>finalDeposit.
     jbind (view (\<lambda>s. sp_getDepositorETHGain (fz F) s depositor)) (\<lambda>ETHGain.
     jbind (view (sp_getETH F)) (\<lambda>ETHinSP.
     jbind (view (sp_getTotalUSDDDeposits F)) (\<lambda>USDDinSP.
     jbind (submit (fz F) (TxCall ''stabilityPool'' ''withdrawFromSP'' [AUint (10 ^ 36)] (from_only depositor))) (\<lambda>withdrawalTx.
     jbind (view (sp_getETH F)) (\<lambda>ETHinSPAfter.
     jbind (view (sp_getTotalUSDDDeposits F)) (\<lambda>USDDinSPAfter.
     jbind (view (sp_pool_balance F)) (\<lambda>USDDBalanceSPAfter.
     jbind (view (\<lambda>s. sp_getCompoundedUSDDDeposit F s depositor)) (\<lambda>depositAfter.
     jbind (assert_isTrue (tx_status withdrawalTx)) (\<lambda>_.
     assert_isTrue (depositAfter = 0))))))))))))"

definition attemptWithdrawAllDeposits :: "'s fuzz_contracts \<Rightarrow> address list \<Rightarrow> ('s world, unit) js" where
  "attemptWithdrawAllDeposits F depositors = jbind (jfor (attempt_withdrawal F) depositors) (\<lambda>_. jret ())"

section \<open>The test cases\<close>

record fuzz_ranges =
  defaulterCollMin :: int
  defaulterCollMax :: int
  depositorCollMin :: int
  depositorCollMax :: int
  case_logging :: bool
  dropped_price :: int

definition numberOfOps :: nat where
  "numberOfOps = 5"

text \<open>\<open>accounts.slice(i, j)\<close>.\<close>

definition slice :: "nat \<Rightarrow> nat \<Rightarrow> 'b list \<Rightarrow> 'b list" where
  "slice i j xs = drop i (take j xs)"

definition fuzz_case :: "fuzz_ranges \<Rightarrow> 's fuzz_contracts \<Rightarrow> address list \<Rightarrow> ('s world, fuzz_state) js" where
  "fuzz_case R F accounts =
     (let whale = last accounts; defaulterAccounts = slice 1 numberOfOps accounts;
          depositorAccounts = slice (numberOfOps + 1) (numberOfOps * 2) accounts in
      jbind (submit (fz F) (TxCall ''borrowerOperations'' ''openTrove'' [AUint 0, AUint 0, AAddr whale, AAddr whale]
               (from_value whale (5 * 10 ^ 29)))) (\<lambda>_.
      jbind (openTrove_allAccounts_randomETH_randomUSDD (defaulterCollMin R) (defaulterCollMax R) defaulterAccounts (fz F)
               91 180 (case_logging R)) (\<lambda>_.
      jbind (openTrove_allAccounts_randomETH_randomUSDD (depositorCollMin R) (depositorCollMax R) depositorAccounts (fz F)
               100 100 (case_logging R)) (\<lambda>_.
      jbind (submit (fz F) (TxCall ''priceFeed'' ''setPrice'' [AUint (dropped_price R)] default_opts)) (\<lambda>_.
      jbind (random_operations numberOfOps F (hd accounts) depositorAccounts
               \<lparr>remainingDefaulters = defaulterAccounts, currentDepositors = [], liquidatedAccountsDict = (\<lambda>_. False),
                currentDepositorsDict = (\<lambda>_. False)\<rparr>) (\<lambda>st.
      jbind (skyrocketPriceAndCheckAllTrovesSafe F) (\<lambda>_.
      jbind (view (sp_getTotalUSDDDeposits F)) (\<lambda>_.
      jbind (view (sp_getETH F)) (\<lambda>_.
      jbind (attemptWithdrawAllDeposits F (currentDepositors st)) (\<lambda>_.
      jbind (view (sp_getTotalUSDDDeposits F)) (\<lambda>_.
      jbind (view (sp_getETH F)) (\<lambda>_.
      jret st))))))))))))"

definition case_low_low :: "'s fuzz_contracts \<Rightarrow> address list \<Rightarrow> ('s world, fuzz_state) js" where
  "case_low_low = fuzz_case \<lparr>defaulterCollMin = 1, defaulterCollMax = 100000000, depositorCollMin = 1,
     depositorCollMax = 100000000, case_logging = True, dropped_price = 1 * 10 ^ 18\<rparr>"

definition case_low_high :: "'s fuzz_contracts \<Rightarrow> address list \<Rightarrow> ('s world, fuzz_state) js" where
  "case_low_high = fuzz_case \<lparr>defaulterCollMin = 1, defaulterCollMax = 10, depositorCollMin = 1000000,
     depositorCollMax = 100000000, case_logging = False, dropped_price = 100 * 10 ^ 18\<rparr>"

definition case_high_low :: "'s fuzz_contracts \<Rightarrow> address list \<Rightarrow> ('s world, fuzz_state) js" where
  "case_high_low = fuzz_case \<lparr>defaulterCollMin = 1000000, defaulterCollMax = 100000000, depositorCollMin = 1,
     depositorCollMax = 10, case_logging = False, dropped_price = 100 * 10 ^ 18\<rparr>"

definition case_high_high :: "'s fuzz_contracts \<Rightarrow> address list \<Rightarrow> ('s world, fuzz_state) js" where
  "case_high_high = fuzz_case \<lparr>defaulterCollMin = 1000000, defaulterCollMax = 100000000, depositorCollMin = 1000000,
     depositorCollMax = 100000000, case_logging = False, dropped_price = 100 * 10 ^ 18\<rparr>"

section \<open>What they do\<close>

text \<open>
  The books of a run: each defaulter is either still to be liquidated or marked as liquidated, and the depositors are listed
  once, in the order of their first deposit.
\<close>

definition fuzz_books :: "address list \<Rightarrow> address list \<Rightarrow> fuzz_state \<Rightarrow> bool" where
  "fuzz_books defaulters depositorAccounts st \<longleftrightarrow> distinct (remainingDefaulters st) \<and>
     set (remainingDefaulters st) \<union> {a. liquidatedAccountsDict st a} = set defaulters \<and>
     (\<forall>a \<in> set (remainingDefaulters st). \<not> liquidatedAccountsDict st a) \<and>
     distinct (currentDepositors st) \<and> set (currentDepositors st) = {a. currentDepositorsDict st a} \<and>
     (\<forall>a. currentDepositorsDict st a \<longrightarrow> a \<in> set depositorAccounts)"

lemma element_Inr: "element xs i w = (Inr x, w') \<longleftrightarrow> i < length xs \<and> x = xs ! i \<and> w' = w"
  by (auto simp: element_def)

lemma splice_set:
  assumes "distinct xs" and "i < length xs"
  shows "set (take i xs @ drop (Suc i) xs) = set xs - {xs ! i}" and "distinct (take i xs @ drop (Suc i) xs)"
proof -
  have xs: "xs = take i xs @ xs ! i # drop (Suc i) xs" using assms(2) by (rule id_take_nth_drop)
  have d: "distinct (take i xs @ xs ! i # drop (Suc i) xs)" using assms(1) xs by simp
  have "set xs = insert (xs ! i) (set (take i xs) \<union> set (drop (Suc i) xs))" using arg_cong[OF xs, of set] by simp
  then show "set (take i xs @ drop (Suc i) xs) = set xs - {xs ! i}" using d by auto
  show "distinct (take i xs @ drop (Suc i) xs)" using d by simp
qed

lemma performLiquidation_result:
  assumes "performLiquidation F a st w = (Inr st', w')"
  shows "st' = st \<or> (\<exists>i < length (remainingDefaulters st). let d = remainingDefaulters st ! i in
     st' = st\<lparr>liquidatedAccountsDict := (liquidatedAccountsDict st)(d := True),
       remainingDefaulters := take i (remainingDefaulters st) @ drop (Suc i) (remainingDefaulters st)\<rparr> \<and>
     TxCall ''troveManager'' ''liquidate'' [AAddr d] (from_only a) \<in> set (sent w'))"
proof (cases "remainingDefaulters st = []")
  case True
  with assms show ?thesis by (simp add: performLiquidation_def)
next
  case False
  with assms show ?thesis
    unfolding performLiquidation_def assert_isTrue_def Let_def
    by (auto simp: jbind_Inr_iff element_Inr split: prod.splits if_splits dest!: submit_Inr)
qed

lemma liquidate_books:
  assumes "fuzz_books ds ps st" and "d \<in> set (remainingDefaulters st)"
    and "set ys = set (remainingDefaulters st) - {d}" and "distinct ys"
  shows "fuzz_books ds ps (st\<lparr>liquidatedAccountsDict := (liquidatedAccountsDict st)(d := True), remainingDefaulters := ys\<rparr>)"
proof -
  have "{a. ((liquidatedAccountsDict st)(d := True)) a} = insert d {a. liquidatedAccountsDict st a}" by auto
  then have "set ys \<union> {a. ((liquidatedAccountsDict st)(d := True)) a} = set ds"
    using assms(1-3) by (auto simp: fuzz_books_def)
  then show ?thesis using assms by (simp add: fuzz_books_def)
qed

lemma performLiquidation_books:
  assumes "performLiquidation F a st w = (Inr st', w')" and "fuzz_books ds ps st"
  shows "fuzz_books ds ps st'"
proof -
  from performLiquidation_result[OF assms(1)] consider "st' = st"
    | i where "i < length (remainingDefaulters st)" and
      "st' = st\<lparr>liquidatedAccountsDict := (liquidatedAccountsDict st)(remainingDefaulters st ! i := True),
       remainingDefaulters := take i (remainingDefaulters st) @ drop (Suc i) (remainingDefaulters st)\<rparr>" by (auto simp: Let_def)
  then show ?thesis
  proof cases
    case 2
    have d: "distinct (remainingDefaulters st)" using assms(2) by (simp add: fuzz_books_def)
    show ?thesis unfolding 2(2) by (rule liquidate_books[OF assms(2) nth_mem[OF 2(1)] splice_set[OF d 2(1)]])
  qed (use assms(2) in simp)
qed

lemma performSPDeposit_books:
  assumes "performSPDeposit F ps st w = (Inr st', w')" and "fuzz_books ds ps st"
  shows "fuzz_books ds ps st'"
proof -
  from assms(1) obtain i where "i < length ps" and "st' = (if currentDepositorsDict st (ps ! i) then st
      else st\<lparr>currentDepositorsDict := (currentDepositorsDict st)(ps ! i := True), currentDepositors := currentDepositors st @ [ps ! i]\<rparr>)"
    unfolding performSPDeposit_def assert_isTrue_def
    by (auto simp: jbind_Inr_iff element_Inr split: if_splits)
  moreover from this have "ps ! i \<in> set ps" by simp
  ultimately show ?thesis using assms(2) by (auto simp: fuzz_books_def)
qed

theorem random_operations_keep_books:
  assumes "random_operations n F a ps st w = (Inr st', w')" and "fuzz_books ds ps st"
  shows "fuzz_books ds ps st'"
  using assms
proof (induction n arbitrary: st w)
  case (Suc n)
  from Suc.prems(1) obtain st1 w1 where 1: "randomOperation F a ps st w = (Inr st1, w1)"
    and 2: "random_operations n F a ps st1 w1 = (Inr st', w')" by (auto simp: jbind_Inr_iff)
  from 1 have "fuzz_books ds ps st1" using performLiquidation_books performSPDeposit_books Suc.prems(2)
    by (auto simp: randomOperation_def jbind_Inr_iff split: if_splits)
  from Suc.IH[OF 2 this] show ?case .
qed simp

text \<open>
  Against a contract layer that refuses calls with a wrong number of arguments no test case gets past its first line, which
  opens the whale's trove with four arguments: it fails and the chain is as before.
\<close>

lemma fuzz_case_rejected:
  fixes F :: "'a fuzz_contracts"
  assumes "checks_arity (fz F)"
  shows "rejected (fuzz_case R F accounts)"
  unfolding rejected_def
proof
  fix w :: "'a world"
  have "\<not> well_formed_call (TxCall ''borrowerOperations'' ''openTrove'' [AUint 0, AUint 0, AAddr (last accounts), AAddr (last accounts)]
      (from_value (last accounts) (5 * 10 ^ 29)))" by (simp add: well_formed_call_def)
  with assms obtain e where "send (fz F) (TxCall ''borrowerOperations'' ''openTrove'' [AUint 0, AUint 0, AAddr (last accounts),
      AAddr (last accounts)] (from_value (last accounts) (5 * 10 ^ 29))) (chain w) = (Inl e, chain w)"
    unfolding checks_arity_def by blast
  then show "\<not> is_ok (fst (fuzz_case R F accounts w)) \<and> chain (snd (fuzz_case R F accounts w)) = chain w"
    by (simp add: fuzz_case_def Let_def submit_def jbind_def)
qed

theorem fuzz_cases_never_start:
  assumes "checks_arity (fz F)"
  shows "rejected (case_low_low F accounts)" and "rejected (case_low_high F accounts)"
    and "rejected (case_high_low F accounts)" and "rejected (case_high_high F accounts)"
  using fuzz_case_rejected[OF assms]
  by (simp_all add: case_low_low_def case_low_high_def case_high_low_def case_high_high_def)

end
