(* ===== verification/Solidity_Math.thy ===== *)
theory Solidity_Math
  imports Prelude "HOL-Library.Word"
begin

text \<open>
  The arithmetic the contracts share: \<open>Dependencies/SafeMath.sol\<close>, \<open>LiquityMath.sol\<close>,
  \<open>BaseMath.sol\<close> and the constants and pure functions of \<open>LiquityBase.sol\<close>.
  SafeMath is modelled twice: literally, on 256-bit words with their wrap-around
  (\<open>sm_add\<close>, \<open>sm_sub\<close>, \<open>sm_mul\<close>, \<open>sm_div\<close>), and as checked operations on natural
  numbers below \<open>2^256\<close> (\<open>u_add\<close>, ...), which the contracts' models use; the first refines
  the second.
\<close>

section \<open>SafeMath on 256-bit words\<close>

type_synonym uint256 = "256 word"

definition sm_add :: "uint256 \<Rightarrow> uint256 \<Rightarrow> uint256 res" where
  "sm_add a b = (let c = a + b in
     rbind (require (a \<le> c) ''SafeMath: addition overflow'') (\<lambda>_. Inr c))"

definition sm_sub :: "uint256 \<Rightarrow> uint256 \<Rightarrow> uint256 res" where
  "sm_sub a b = rbind (require (b \<le> a) ''SafeMath: subtraction overflow'') (\<lambda>_. Inr (a - b))"

definition sm_mul :: "uint256 \<Rightarrow> uint256 \<Rightarrow> uint256 res" where
  "sm_mul a b = (if a = 0 then Inr 0 else
     let c = a * b in
     rbind (require (c div a = b) ''SafeMath: multiplication overflow'') (\<lambda>_. Inr c))"

definition sm_div :: "uint256 \<Rightarrow> uint256 \<Rightarrow> uint256 res" where
  "sm_div a b = rbind (require (0 < b) ''SafeMath: division by zero'') (\<lambda>_. Inr (a div b))"

section \<open>Checked arithmetic on natural numbers\<close>

definition u_add :: "nat \<Rightarrow> nat \<Rightarrow> nat res" where
  "u_add a b = (if a + b < 2 ^ 256 then Inr (a + b) else Inl (Revert ''SafeMath: addition overflow''))"

definition u_sub :: "nat \<Rightarrow> nat \<Rightarrow> nat res" where
  "u_sub a b = (if b \<le> a then Inr (a - b) else Inl (Revert ''SafeMath: subtraction overflow''))"

definition u_mul :: "nat \<Rightarrow> nat \<Rightarrow> nat res" where
  "u_mul a b = (if a * b < 2 ^ 256 then Inr (a * b) else Inl (Revert ''SafeMath: multiplication overflow''))"

definition u_div :: "nat \<Rightarrow> nat \<Rightarrow> nat res" where
  "u_div a b = (if 0 < b then Inr (a div b) else Inl (Revert ''SafeMath: division by zero''))"

section \<open>LiquityMath\<close>

definition DECIMAL_PRECISION :: nat where
  "DECIMAL_PRECISION = 1000000000000000000"

definition NICR_PRECISION :: nat where
  "NICR_PRECISION = 100000000000000000000"

definition min_u :: "nat \<Rightarrow> nat \<Rightarrow> nat" where
  "min_u a b = (if a < b then a else b)"

definition max_u :: "nat \<Rightarrow> nat \<Rightarrow> nat" where
  "max_u a b = (if a \<ge> b then a else b)"

definition decMul :: "nat \<Rightarrow> nat \<Rightarrow> nat res" where
  "decMul x y =
     rbind (u_mul x y) (\<lambda>prod_xy.
     rbind (u_add prod_xy (DECIMAL_PRECISION div 2)) (\<lambda>s. u_div s DECIMAL_PRECISION))"

text \<open>The exponentiation loop, with its state \<open>x\<close>, \<open>y\<close>, \<open>n\<close>.\<close>

function decPow_loop :: "nat \<Rightarrow> nat \<Rightarrow> nat \<Rightarrow> nat res" where
  "decPow_loop x y n =
     (if n > 1 then
        if n mod 2 = 0 then
          rbind (decMul x x) (\<lambda>x'. decPow_loop x' y (n div 2))
        else
          rbind (decMul x y) (\<lambda>y'.
          rbind (decMul x x) (\<lambda>x'. decPow_loop x' y' ((n - 1) div 2)))
      else decMul x y)"
  by pat_completeness auto
termination
  by (relation "measure (\<lambda>(x, y, n). n)") auto

declare decPow_loop.simps [simp del]

definition decPow :: "nat \<Rightarrow> nat \<Rightarrow> nat res" where
  "decPow base minutes0 =
     (let minutes = (if minutes0 > 525600000 then 525600000 else minutes0)
      in if minutes = 0 then Inr DECIMAL_PRECISION
         else decPow_loop base DECIMAL_PRECISION minutes)"

definition getAbsoluteDifference :: "nat \<Rightarrow> nat \<Rightarrow> nat res" where
  "getAbsoluteDifference a b = (if a \<ge> b then u_sub a b else u_sub b a)"

definition computeNominalCR :: "nat \<Rightarrow> nat \<Rightarrow> nat res" where
  "computeNominalCR coll debt =
     (if debt > 0 then rbind (u_mul coll NICR_PRECISION) (\<lambda>m. u_div m debt)
      else Inr (2 ^ 256 - 1))"

definition computeCR :: "nat \<Rightarrow> nat \<Rightarrow> nat \<Rightarrow> nat res" where
  "computeCR coll debt price =
     (if debt > 0 then rbind (u_mul coll price) (\<lambda>m. u_div m debt)
      else Inr (2 ^ 256 - 1))"

section \<open>LiquityBase\<close>

definition one_hundred_pct :: nat where
  "one_hundred_pct = 1000000000000000000"

definition MCR :: nat where
  "MCR = 1100000000000000000"

definition CCR :: nat where
  "CCR = 1500000000000000000"

definition USDD_GAS_COMPENSATION :: nat where
  "USDD_GAS_COMPENSATION = 200000000000000000000"

definition MIN_NET_DEBT :: nat where
  "MIN_NET_DEBT = 1800000000000000000000"

definition PERCENT_DIVISOR :: nat where
  "PERCENT_DIVISOR = 200"

definition BORROWING_FEE_FLOOR :: nat where
  "BORROWING_FEE_FLOOR = (DECIMAL_PRECISION div 1000) * 5"

definition getCompositeDebt_sol :: "nat \<Rightarrow> nat res" where
  "getCompositeDebt_sol debt = u_add debt USDD_GAS_COMPENSATION"

definition getNetDebt_sol :: "nat \<Rightarrow> nat res" where
  "getNetDebt_sol debt = u_sub debt USDD_GAS_COMPENSATION"

definition getCollGasCompensation :: "nat \<Rightarrow> nat" where
  "getCollGasCompensation entireColl = entireColl div PERCENT_DIVISOR"

definition requireUserAcceptsFee :: "nat \<Rightarrow> nat \<Rightarrow> nat \<Rightarrow> unit res" where
  "requireUserAcceptsFee fee amount maxFeePercentage =
     rbind (u_mul fee DECIMAL_PRECISION) (\<lambda>m.
     rbind (u_div m amount) (\<lambda>feePercentage.
     require (feePercentage \<le> maxFeePercentage) ''Fee exceeded provided maximum''))"

section \<open>The refinement relation\<close>

text \<open>A word result and a natural-number result agree: same value, or same revert.\<close>

definition u_rel :: "uint256 res \<Rightarrow> nat res \<Rightarrow> bool" where
  "u_rel r s \<longleftrightarrow> (case (r, s) of (Inl e, Inl e') \<Rightarrow> e = e' | (Inr w, Inr n) \<Rightarrow> unat w = n | _ \<Rightarrow> False)"

section \<open>Facts on checked arithmetic\<close>

lemma u_add_ok [simp]: "a + b < 2 ^ 256 \<Longrightarrow> u_add a b = Inr (a + b)"
  by (simp add: u_add_def)

lemma u_sub_ok [simp]: "b \<le> a \<Longrightarrow> u_sub a b = Inr (a - b)"
  by (simp add: u_sub_def)

lemma u_mul_ok [simp]: "a * b < 2 ^ 256 \<Longrightarrow> u_mul a b = Inr (a * b)"
  by (simp add: u_mul_def)

lemma u_div_ok [simp]: "0 < b \<Longrightarrow> u_div a b = Inr (a div b)"
  by (simp add: u_div_def)

lemma u_add_Inr_iff: "u_add a b = Inr c \<longleftrightarrow> a + b < 2 ^ 256 \<and> c = a + b"
  by (auto simp: u_add_def)

lemma u_sub_Inr_iff: "u_sub a b = Inr c \<longleftrightarrow> b \<le> a \<and> c = a - b"
  by (auto simp: u_sub_def)

lemma u_mul_Inr_iff: "u_mul a b = Inr c \<longleftrightarrow> a * b < 2 ^ 256 \<and> c = a * b"
  by (auto simp: u_mul_def)

lemma u_div_Inr_iff: "u_div a b = Inr c \<longleftrightarrow> 0 < b \<and> c = a div b"
  by (auto simp: u_div_def)

lemmas u_Inr_iffs = u_add_Inr_iff u_sub_Inr_iff u_mul_Inr_iff u_div_Inr_iff

lemma min_u_eq [simp]: "min_u a b = min a b"
  by (simp add: min_u_def min_def)

lemma max_u_eq [simp]: "max_u a b = max a b"
  by (simp add: max_u_def max_def)

lemma getAbsoluteDifference_eq:
  "getAbsoluteDifference a b = Inr (nat \<bar>int a - int b\<bar>)"
  by (auto simp: getAbsoluteDifference_def nat_diff_distrib' abs_if)

section \<open>SafeMath refines checked arithmetic\<close>

lemma sm_add_refines: "u_rel (sm_add a b) (u_add (unat a) (unat b))"
proof (cases "unat a + unat b < 2 ^ 256")
  case True
  then have c: "unat (a + b) = unat a + unat b"
    by (simp add: unat_word_ariths)
  then have "a \<le> a + b" by (simp add: word_le_nat_alt)
  with True c show ?thesis by (simp add: u_rel_def sm_add_def)
next
  case False
  have lt: "unat a < 2 ^ 256" "unat b < 2 ^ 256"
    using unsigned_less[of a] unsigned_less[of b] by simp_all
  have "unat (a + b) = unat a + unat b - 2 ^ 256"
  proof -
    have "unat (a + b) = (unat a + unat b) mod 2 ^ 256" by (simp add: unat_word_ariths)
    also have "\<dots> = (unat a + unat b - 2 ^ 256) mod 2 ^ 256"
      using False by (simp add: le_mod_geq)
    also have "\<dots> = unat a + unat b - 2 ^ 256" using lt by (intro mod_less) arith
    finally show ?thesis .
  qed
  then have "\<not> a \<le> a + b" using False lt by (simp add: word_le_nat_alt)
  with False show ?thesis by (simp add: u_rel_def sm_add_def u_add_def)
qed

lemma sm_sub_refines: "u_rel (sm_sub a b) (u_sub (unat a) (unat b))"
  by (cases "b \<le> a")
    (simp_all add: u_rel_def sm_sub_def u_sub_def word_le_nat_alt unat_sub)

lemma sm_mul_refines: "u_rel (sm_mul a b) (u_mul (unat a) (unat b))"
proof (cases "a = 0")
  case True
  then show ?thesis by (simp add: u_rel_def sm_mul_def u_mul_def)
next
  case a: False
  then have pos: "0 < unat a" by (simp add: unat_gt_0)
  show ?thesis
  proof (cases "unat a * unat b < 2 ^ 256")
    case True
    then have c: "unat (a * b) = unat a * unat b" by (simp add: unat_word_ariths)
    then have "unat (a * b div a) = unat b" using pos by (simp add: unat_div)
    then have "a * b div a = b" using word_unat_eq_iff by blast
    with True a c show ?thesis by (simp add: u_rel_def sm_mul_def)
  next
    case False
    have lt: "unat (a * b) < 2 ^ 256" using unsigned_less[of "a * b"] by simp
    have "a * b div a \<noteq> b"
    proof
      assume "a * b div a = b"
      then have "unat (a * b) div unat a = unat b" by (metis unat_div)
      then have "unat a * unat b \<le> unat (a * b)"
        by (metis div_times_less_eq_dividend mult.commute)
      with lt False show False by simp
    qed
    with False a show ?thesis by (simp add: u_rel_def sm_mul_def u_mul_def)
  qed
qed

lemma sm_div_refines: "u_rel (sm_div a b) (u_div (unat a) (unat b))"
  by (cases "b = 0") (simp_all add: u_rel_def sm_div_def u_div_def unat_div unat_gt_0 word_neq_0_conv[symmetric])

section \<open>Fixed-point multiplication and powers\<close>

lemma DECIMAL_PRECISION_pos [simp]: "0 < DECIMAL_PRECISION"
  by (simp add: DECIMAL_PRECISION_def)

lemma decMul_le_one:
  assumes "x \<le> DECIMAL_PRECISION" and "y \<le> DECIMAL_PRECISION"
  shows "decMul x y = Inr ((x * y + DECIMAL_PRECISION div 2) div DECIMAL_PRECISION)"
    and "(x * y + DECIMAL_PRECISION div 2) div DECIMAL_PRECISION \<le> DECIMAL_PRECISION"
proof -
  have le: "x * y \<le> DECIMAL_PRECISION * DECIMAL_PRECISION"
    using assms by (intro mult_le_mono)
  have "x * y + DECIMAL_PRECISION div 2 < 2 ^ 256"
    using le unfolding DECIMAL_PRECISION_def by simp
  then show "decMul x y = Inr ((x * y + DECIMAL_PRECISION div 2) div DECIMAL_PRECISION)"
    unfolding decMul_def by (simp add: add_lessD1)
  have "x * y + DECIMAL_PRECISION div 2 < Suc DECIMAL_PRECISION * DECIMAL_PRECISION"
    using le unfolding DECIMAL_PRECISION_def by simp
  then show "(x * y + DECIMAL_PRECISION div 2) div DECIMAL_PRECISION \<le> DECIMAL_PRECISION"
    by (simp add: less_mult_imp_div_less less_Suc_eq_le[symmetric])
qed

lemma decMul_one:
  assumes "x \<le> DECIMAL_PRECISION"
  shows "decMul x DECIMAL_PRECISION = Inr x" and "decMul DECIMAL_PRECISION x = Inr x"
  using decMul_le_one(1)[OF assms order_refl] decMul_le_one(1)[OF order_refl assms]
  by (simp_all add: DECIMAL_PRECISION_def)

text \<open>For a base of at most one the loop neither overflows nor leaves the unit interval.\<close>

lemma decPow_loop_le_one:
  "x \<le> DECIMAL_PRECISION \<Longrightarrow> y \<le> DECIMAL_PRECISION \<Longrightarrow>
   \<exists>r \<le> DECIMAL_PRECISION. decPow_loop x y n = Inr r"
proof (induction x y n rule: decPow_loop.induct)
  case (1 x y n)
  note xx = decMul_le_one[OF "1.prems"(1) "1.prems"(1)]
  note xy = decMul_le_one[OF "1.prems"(1) "1.prems"(2)]
  show ?case
  proof (cases "n > 1")
    case False
    then show ?thesis using xy by (simp add: decPow_loop.simps[of x y n])
  next
    case n: True
    show ?thesis
    proof (cases "n mod 2 = 0")
      case True
      with "1.IH"(1)[OF n True xx(1) xx(2) "1.prems"(2)] n show ?thesis
        by (simp add: decPow_loop.simps[of x y n] xx(1))
    next
      case False
      with "1.IH"(2)[OF n False xy(1) xx(1) xx(2) xy(2)] n show ?thesis
        by (simp add: decPow_loop.simps[of x y n] xx(1) xy(1))
    qed
  qed
qed

lemma decPow_le_one:
  assumes "base \<le> DECIMAL_PRECISION"
  shows "\<exists>r \<le> DECIMAL_PRECISION. decPow base m = Inr r"
  using decPow_loop_le_one[OF assms order_refl] by (simp add: decPow_def Let_def)

text \<open>A base of exactly one stays one: the rounding of \<open>decMul\<close> adds nothing.\<close>

lemma decPow_loop_one: "decPow_loop DECIMAL_PRECISION DECIMAL_PRECISION n = Inr DECIMAL_PRECISION"
proof (induction n rule: less_induct)
  case (less n)
  have m: "decMul DECIMAL_PRECISION DECIMAL_PRECISION = Inr DECIMAL_PRECISION"
    by (rule decMul_one(1)) simp
  show ?case
    by (subst decPow_loop.simps) (auto simp: m less.IH)
qed

section \<open>Collateral ratios\<close>

lemma computeCR_Inr_iff:
  "computeCR coll debt price = Inr r \<longleftrightarrow>
     (if debt = 0 then r = 2 ^ 256 - 1 else coll * price < 2 ^ 256 \<and> r = coll * price div debt)"
  by (auto simp: computeCR_def rbind_Inr_iff u_Inr_iffs)

lemma computeNominalCR_Inr_iff:
  "computeNominalCR coll debt = Inr r \<longleftrightarrow>
     (if debt = 0 then r = 2 ^ 256 - 1
      else coll * NICR_PRECISION < 2 ^ 256 \<and> r = coll * NICR_PRECISION div debt)"
  by (auto simp: computeNominalCR_def rbind_Inr_iff u_Inr_iffs)

section \<open>Properties\<close>

text \<open>
  C23. SafeMath is sound and complete for 256-bit words: each operation returns exactly the
  mathematical result when that result is a 256-bit value, and reverts with its message otherwise.
\<close>

theorem safemath_refines_checked_arithmetic:
  "u_rel (sm_add a b) (u_add (unat a) (unat b)) \<and> u_rel (sm_sub a b) (u_sub (unat a) (unat b)) \<and>
   u_rel (sm_mul a b) (u_mul (unat a) (unat b)) \<and> u_rel (sm_div a b) (u_div (unat a) (unat b))"
  by (simp add: sm_add_refines sm_sub_refines sm_mul_refines sm_div_refines)

text \<open>
  C24. \<open>_decPow\<close> is total on decay factors: for every base of at most 1 (scaled by 1e18) and every
  number of minutes the exponentiation ends without overflow, the result is at most 1, and the
  power of 1 is exactly 1.
\<close>

theorem decPow_total_and_bounded:
  assumes "base \<le> DECIMAL_PRECISION"
  shows "(\<exists>r \<le> DECIMAL_PRECISION. decPow base m = Inr r) \<and>
         decPow DECIMAL_PRECISION m = Inr DECIMAL_PRECISION"
  using decPow_le_one[OF assms] by (simp add: decPow_def Let_def decPow_loop_one)

theorem decPow_total_and_bounded_witness:
  "(\<exists>r \<le> DECIMAL_PRECISION. decPow 999037758833783000 720 = Inr r) \<and>
   decPow DECIMAL_PRECISION 720 = Inr DECIMAL_PRECISION"
  using decPow_total_and_bounded[of 999037758833783000 720] by (simp add: DECIMAL_PRECISION_def)

end
