(* ===== verification/Trove_Manager.thy ===== *)
theory Trove_Manager
  imports Solidity_Math
begin

text \<open>
  The part of \<open>contracts/TroveManager.sol\<close> that the JavaScript helpers and the deployment script
  read and drive: the fee schedule with its decaying base rate, the pending redistribution rewards,
  stakes, the trove-owners array and the trove property setters.  A state-changing function returns
  the new storage or the revert; \<open>now\<close> is \<open>block.timestamp\<close> and \<open>sender\<close> is \<open>msg.sender\<close>.
\<close>

section \<open>Storage\<close>

datatype status = nonExistent | active | closedByOwner | closedByLiquidation | closedByRedemption

record trove =
  debt :: nat
  coll :: nat
  stake :: nat
  status :: status
  arrayIndex :: nat

record reward_snapshot =
  snap_COLL :: nat
  snap_USDDDebt :: nat

record trove_manager =
  borrowerOperationsAddress :: address
  baseRate :: nat
  lastFeeOperationTime :: nat
  Troves :: "address \<Rightarrow> trove"
  totalStakes :: nat
  totalStakesSnapshot :: nat
  totalCollateralSnapshot :: nat
  L_COLL :: nat
  L_USDDDebt :: nat
  rewardSnapshots :: "address \<Rightarrow> reward_snapshot"
  TroveOwners :: "address list"
  lastETHError_Redistribution :: nat
  lastUSDDDebtError_Redistribution :: nat

text \<open>The storage right after deployment: every Solidity slot is zero.\<close>

definition empty_trove :: trove where
  "empty_trove = \<lparr>debt = 0, coll = 0, stake = 0, status = nonExistent, arrayIndex = 0\<rparr>"

definition fresh_trove_manager :: trove_manager where
  "fresh_trove_manager =
     \<lparr>borrowerOperationsAddress = 0, baseRate = 0, lastFeeOperationTime = 0, Troves = (\<lambda>_. empty_trove),
      totalStakes = 0, totalStakesSnapshot = 0, totalCollateralSnapshot = 0, L_COLL = 0,
      L_USDDDebt = 0, rewardSnapshots = (\<lambda>_. \<lparr>snap_COLL = 0, snap_USDDDebt = 0\<rparr>), TroveOwners = [],
      lastETHError_Redistribution = 0, lastUSDDDebtError_Redistribution = 0\<rparr>"

definition SECONDS_IN_ONE_MINUTE :: nat where
  "SECONDS_IN_ONE_MINUTE = 60"

definition MINUTE_DECAY_FACTOR :: nat where
  "MINUTE_DECAY_FACTOR = 999037758833783000"

definition REDEMPTION_FEE_FLOOR :: nat where
  "REDEMPTION_FEE_FLOOR = (DECIMAL_PRECISION div 1000) * 5"

definition MAX_BORROWING_FEE :: nat where
  "MAX_BORROWING_FEE = (DECIMAL_PRECISION div 100) * 5"

definition BETA :: nat where
  "BETA = 2"

definition requireCallerIsBorrowerOperations :: "address \<Rightarrow> trove_manager \<Rightarrow> unit res" where
  "requireCallerIsBorrowerOperations sender s =
     require (sender = borrowerOperationsAddress s)
       ''TroveManager: Caller is not the BorrowerOperations contract''"

section \<open>Fees and the base rate\<close>

definition minutesPassedSinceLastFeeOp :: "nat \<Rightarrow> trove_manager \<Rightarrow> nat res" where
  "minutesPassedSinceLastFeeOp now s =
     rbind (u_sub now (lastFeeOperationTime s)) (\<lambda>d. u_div d SECONDS_IN_ONE_MINUTE)"

definition calcDecayedBaseRate :: "nat \<Rightarrow> trove_manager \<Rightarrow> nat res" where
  "calcDecayedBaseRate now s =
     rbind (minutesPassedSinceLastFeeOp now s) (\<lambda>minutesPassed.
     rbind (decPow MINUTE_DECAY_FACTOR minutesPassed) (\<lambda>decayFactor.
     rbind (u_mul (baseRate s) decayFactor) (\<lambda>m. u_div m DECIMAL_PRECISION)))"

definition calcBorrowingRate :: "nat \<Rightarrow> nat res" where
  "calcBorrowingRate base = rbind (u_add BORROWING_FEE_FLOOR base) (\<lambda>r. Inr (min_u r MAX_BORROWING_FEE))"

definition getBorrowingRate :: "trove_manager \<Rightarrow> nat res" where
  "getBorrowingRate s = calcBorrowingRate (baseRate s)"

definition getBorrowingRateWithDecay :: "nat \<Rightarrow> trove_manager \<Rightarrow> nat res" where
  "getBorrowingRateWithDecay now s = rbind (calcDecayedBaseRate now s) calcBorrowingRate"

definition calcBorrowingFee :: "nat \<Rightarrow> nat \<Rightarrow> nat res" where
  "calcBorrowingFee borrowingRate usddDebt =
     rbind (u_mul borrowingRate usddDebt) (\<lambda>m. u_div m DECIMAL_PRECISION)"

definition getBorrowingFee :: "trove_manager \<Rightarrow> nat \<Rightarrow> nat res" where
  "getBorrowingFee s usddDebt = rbind (getBorrowingRate s) (\<lambda>r. calcBorrowingFee r usddDebt)"

definition getBorrowingFeeWithDecay :: "nat \<Rightarrow> trove_manager \<Rightarrow> nat \<Rightarrow> nat res" where
  "getBorrowingFeeWithDecay now s usddDebt =
     rbind (getBorrowingRateWithDecay now s) (\<lambda>r. calcBorrowingFee r usddDebt)"

definition calcRedemptionRate :: "nat \<Rightarrow> nat res" where
  "calcRedemptionRate base = rbind (u_add REDEMPTION_FEE_FLOOR base) (\<lambda>r. Inr (min_u r DECIMAL_PRECISION))"

definition getRedemptionRate_sol :: "trove_manager \<Rightarrow> nat res" where
  "getRedemptionRate_sol s = calcRedemptionRate (baseRate s)"

definition getRedemptionRateWithDecay :: "nat \<Rightarrow> trove_manager \<Rightarrow> nat res" where
  "getRedemptionRateWithDecay now s = rbind (calcDecayedBaseRate now s) calcRedemptionRate"

definition calcRedemptionFee :: "nat \<Rightarrow> nat \<Rightarrow> nat res" where
  "calcRedemptionFee redemptionRate collDrawn =
     rbind (u_mul redemptionRate collDrawn) (\<lambda>m.
     rbind (u_div m DECIMAL_PRECISION) (\<lambda>redemptionFee.
     rbind (require (redemptionFee < collDrawn) ''TroveManager: Fee would eat up all returned collateral'')
       (\<lambda>_. Inr redemptionFee)))"

definition getRedemptionFeeWithDecay :: "nat \<Rightarrow> trove_manager \<Rightarrow> nat \<Rightarrow> nat res" where
  "getRedemptionFeeWithDecay now s collDrawn =
     rbind (getRedemptionRateWithDecay now s) (\<lambda>r. calcRedemptionFee r collDrawn)"

definition updateLastFeeOpTime :: "nat \<Rightarrow> trove_manager \<Rightarrow> trove_manager res" where
  "updateLastFeeOpTime now s =
     rbind (u_sub now (lastFeeOperationTime s)) (\<lambda>timePassed.
       Inr (if timePassed \<ge> SECONDS_IN_ONE_MINUTE then s\<lparr>lastFeeOperationTime := now\<rparr> else s))"

definition decayBaseRateFromBorrowing :: "address \<Rightarrow> nat \<Rightarrow> trove_manager \<Rightarrow> trove_manager res" where
  "decayBaseRateFromBorrowing sender now s =
     rbind (requireCallerIsBorrowerOperations sender s) (\<lambda>_.
     rbind (calcDecayedBaseRate now s) (\<lambda>decayedBaseRate.
     rbind (sol_assert (decayedBaseRate \<le> DECIMAL_PRECISION)) (\<lambda>_.
     updateLastFeeOpTime now (s\<lparr>baseRate := decayedBaseRate\<rparr>))))"

definition updateBaseRateFromRedemption ::
  "nat \<Rightarrow> nat \<Rightarrow> nat \<Rightarrow> nat \<Rightarrow> trove_manager \<Rightarrow> (nat \<times> trove_manager) res" where
  "updateBaseRateFromRedemption now collDrawn price totalUSDDSupply s =
     rbind (calcDecayedBaseRate now s) (\<lambda>decayedBaseRate.
     rbind (u_mul collDrawn price) (\<lambda>m.
     rbind (u_div m totalUSDDSupply) (\<lambda>redeemedUSDDFraction.
     rbind (u_div redeemedUSDDFraction BETA) (\<lambda>q.
     rbind (u_add decayedBaseRate q) (\<lambda>sum.
     let newBaseRate = min_u sum DECIMAL_PRECISION in
     rbind (sol_assert (newBaseRate > 0)) (\<lambda>_.
     rbind (updateLastFeeOpTime now (s\<lparr>baseRate := newBaseRate\<rparr>)) (\<lambda>s'.
     Inr (newBaseRate, s'))))))))"

section \<open>Pending rewards and collateral ratios\<close>

definition pendingReward :: "nat \<Rightarrow> nat \<Rightarrow> trove \<Rightarrow> nat res" where
  "pendingReward L snapshot t =
     rbind (u_sub L snapshot) (\<lambda>rewardPerUnitStaked.
       if rewardPerUnitStaked = 0 \<or> status t \<noteq> active then Inr 0
       else rbind (u_mul (stake t) rewardPerUnitStaked) (\<lambda>m. u_div m DECIMAL_PRECISION))"

definition getPendingCollReward :: "trove_manager \<Rightarrow> address \<Rightarrow> nat res" where
  "getPendingCollReward s b = pendingReward (L_COLL s) (snap_COLL (rewardSnapshots s b)) (Troves s b)"

definition getPendingUSDDDebtReward :: "trove_manager \<Rightarrow> address \<Rightarrow> nat res" where
  "getPendingUSDDDebtReward s b =
     pendingReward (L_USDDDebt s) (snap_USDDDebt (rewardSnapshots s b)) (Troves s b)"

definition hasPendingRewards :: "trove_manager \<Rightarrow> address \<Rightarrow> bool" where
  "hasPendingRewards s b =
     (if status (Troves s b) \<noteq> active then False else snap_COLL (rewardSnapshots s b) < L_COLL s)"

text \<open>The result is \<open>(debt, coll, pendingUSDDDebtReward, pendingCollReward)\<close>.\<close>

definition getEntireDebtAndColl :: "trove_manager \<Rightarrow> address \<Rightarrow> (nat \<times> nat \<times> nat \<times> nat) res" where
  "getEntireDebtAndColl s b =
     rbind (getPendingUSDDDebtReward s b) (\<lambda>pd.
     rbind (getPendingCollReward s b) (\<lambda>pc.
     rbind (u_add (debt (Troves s b)) pd) (\<lambda>d.
     rbind (u_add (coll (Troves s b)) pc) (\<lambda>c. Inr (d, c, pd, pc)))))"

definition getCurrentTroveAmounts :: "trove_manager \<Rightarrow> address \<Rightarrow> (nat \<times> nat) res" where
  "getCurrentTroveAmounts s b =
     rbind (getPendingCollReward s b) (\<lambda>pc.
     rbind (getPendingUSDDDebtReward s b) (\<lambda>pd.
     rbind (u_add (coll (Troves s b)) pc) (\<lambda>c.
     rbind (u_add (debt (Troves s b)) pd) (\<lambda>d. Inr (c, d)))))"

definition getNominalICR :: "trove_manager \<Rightarrow> address \<Rightarrow> nat res" where
  "getNominalICR s b =
     rbind (getCurrentTroveAmounts s b) (\<lambda>(currentETH, currentUSDDDebt).
       computeNominalCR currentETH currentUSDDDebt)"

definition getCurrentICR :: "trove_manager \<Rightarrow> address \<Rightarrow> nat \<Rightarrow> nat res" where
  "getCurrentICR s b price =
     rbind (getCurrentTroveAmounts s b) (\<lambda>(currentETH, currentUSDDDebt).
       computeCR currentETH currentUSDDDebt price)"

definition updateTroveRewardSnapshots :: "address \<Rightarrow> trove_manager \<Rightarrow> trove_manager" where
  "updateTroveRewardSnapshots b s =
     s\<lparr>rewardSnapshots := (rewardSnapshots s)(b := \<lparr>snap_COLL = L_COLL s, snap_USDDDebt = L_USDDDebt s\<rparr>)\<rparr>"

section \<open>Stakes and the owners array\<close>

definition upd_trove :: "address \<Rightarrow> (trove \<Rightarrow> trove) \<Rightarrow> trove_manager \<Rightarrow> trove_manager" where
  "upd_trove b f s = s\<lparr>Troves := (Troves s)(b := f (Troves s b))\<rparr>"

definition computeNewStake :: "trove_manager \<Rightarrow> nat \<Rightarrow> nat res" where
  "computeNewStake s c =
     (if totalCollateralSnapshot s = 0 then Inr c
      else rbind (sol_assert (totalStakesSnapshot s > 0)) (\<lambda>_.
           rbind (u_mul c (totalStakesSnapshot s)) (\<lambda>m. u_div m (totalCollateralSnapshot s))))"

definition updateStakeAndTotalStakes :: "address \<Rightarrow> trove_manager \<Rightarrow> (nat \<times> trove_manager) res" where
  "updateStakeAndTotalStakes b s =
     rbind (computeNewStake s (coll (Troves s b))) (\<lambda>newStake.
     let oldStake = stake (Troves s b); s1 = upd_trove b (\<lambda>t. t\<lparr>stake := newStake\<rparr>) s in
     rbind (u_sub (totalStakes s1) oldStake) (\<lambda>ts.
     rbind (u_add ts newStake) (\<lambda>ts'. Inr (newStake, s1\<lparr>totalStakes := ts'\<rparr>))))"

definition removeStake :: "address \<Rightarrow> trove_manager \<Rightarrow> trove_manager res" where
  "removeStake b s =
     rbind (u_sub (totalStakes s) (stake (Troves s b))) (\<lambda>ts.
       Inr (upd_trove b (\<lambda>t. t\<lparr>stake := 0\<rparr>) (s\<lparr>totalStakes := ts\<rparr>)))"

definition addTroveOwnerToArray :: "address \<Rightarrow> trove_manager \<Rightarrow> (nat \<times> trove_manager) res" where
  "addTroveOwnerToArray b s =
     (let s1 = s\<lparr>TroveOwners := TroveOwners s @ [b]\<rparr> in
      rbind (u_sub (length (TroveOwners s1)) 1) (\<lambda>i.
        let index = i mod 2 ^ 128 in
        Inr (index, upd_trove b (\<lambda>t. t\<lparr>arrayIndex := index\<rparr>) s1)))"

definition removeTroveOwner :: "address \<Rightarrow> nat \<Rightarrow> trove_manager \<Rightarrow> trove_manager res" where
  "removeTroveOwner b TroveOwnersArrayLength s =
     (let troveStatus = status (Troves s b) in
      rbind (sol_assert (troveStatus \<noteq> nonExistent \<and> troveStatus \<noteq> active)) (\<lambda>_.
      let index = arrayIndex (Troves s b) in
      rbind (u_sub TroveOwnersArrayLength 1) (\<lambda>idxLast.
      rbind (sol_assert (index \<le> idxLast)) (\<lambda>_.
      rbind (sol_assert (idxLast < length (TroveOwners s))) (\<lambda>_.
      let addressToMove = TroveOwners s ! idxLast;
          s1 = s\<lparr>TroveOwners := (TroveOwners s)[index := addressToMove]\<rparr>;
          s2 = upd_trove addressToMove (\<lambda>t. t\<lparr>arrayIndex := index\<rparr>) s1
      in Inr (s2\<lparr>TroveOwners := butlast (TroveOwners s2)\<rparr>))))))"

section \<open>Invariants, and a state for the witnesses\<close>

text \<open>The storage invariant of the fee part.\<close>

definition fee_inv :: "nat \<Rightarrow> trove_manager \<Rightarrow> bool" where
  "fee_inv now s \<longleftrightarrow> baseRate s \<le> DECIMAL_PRECISION \<and> lastFeeOperationTime s \<le> now"

text \<open>The array lists each owner once, and every listed trove knows its position.\<close>

definition owners_inv :: "trove_manager \<Rightarrow> bool" where
  "owners_inv s \<longleftrightarrow> distinct (TroveOwners s) \<and> length (TroveOwners s) < 2 ^ 128 \<and>
     (\<forall>i < length (TroveOwners s). arrayIndex (Troves s (TroveOwners s ! i)) = i)"

definition three_owners :: trove_manager where
  "three_owners = fresh_trove_manager\<lparr>TroveOwners := [11, 12, 13],
     Troves := (\<lambda>b. empty_trove\<lparr>arrayIndex := b - 11, status := if b = 12 then closedByOwner else active\<rparr>)\<rparr>"

section \<open>Facts on the fee schedule\<close>

lemmas rate_consts =
  DECIMAL_PRECISION_def BORROWING_FEE_FLOOR_def MAX_BORROWING_FEE_def REDEMPTION_FEE_FLOOR_def

lemma decay_factor_le_one: "\<exists>r \<le> DECIMAL_PRECISION. decPow MINUTE_DECAY_FACTOR m = Inr r"
  by (rule decPow_le_one) (simp add: MINUTE_DECAY_FACTOR_def DECIMAL_PRECISION_def)

lemma calcDecayedBaseRate_ok:
  assumes "fee_inv now s"
  shows "\<exists>r \<le> baseRate s. calcDecayedBaseRate now s = Inr r"
proof -
  let ?m = "(now - lastFeeOperationTime s) div SECONDS_IN_ONE_MINUTE"
  obtain f where f: "f \<le> DECIMAL_PRECISION" "decPow MINUTE_DECAY_FACTOR ?m = Inr f"
    using decay_factor_le_one by blast
  have le: "baseRate s * f \<le> baseRate s * DECIMAL_PRECISION" using f by simp
  also have "\<dots> \<le> DECIMAL_PRECISION * DECIMAL_PRECISION"
    using assms by (simp add: fee_inv_def)
  finally have "baseRate s * f < 2 ^ 256"
    unfolding DECIMAL_PRECISION_def by simp
  moreover have "baseRate s * f div DECIMAL_PRECISION \<le> baseRate s"
    using div_le_mono[OF le, of DECIMAL_PRECISION] by simp
  ultimately show ?thesis
    using assms f
    by (simp add: calcDecayedBaseRate_def minutesPassedSinceLastFeeOp_def fee_inv_def
        SECONDS_IN_ONE_MINUTE_def)
qed

lemma calcBorrowingRate_ok:
  assumes "base \<le> DECIMAL_PRECISION"
  shows "calcBorrowingRate base = Inr (min (BORROWING_FEE_FLOOR + base) MAX_BORROWING_FEE)"
  using assms by (simp add: calcBorrowingRate_def rate_consts)

lemma borrowing_rate_bounds:
  "BORROWING_FEE_FLOOR \<le> min (BORROWING_FEE_FLOOR + base) MAX_BORROWING_FEE"
  "min (BORROWING_FEE_FLOOR + base) MAX_BORROWING_FEE \<le> MAX_BORROWING_FEE"
  by (simp_all add: rate_consts)

lemma updateLastFeeOpTime_ok:
  assumes "fee_inv now s"
  shows "\<exists>s'. updateLastFeeOpTime now s = Inr s' \<and> fee_inv now s' \<and> baseRate s' = baseRate s
     \<and> Troves s' = Troves s"
  using assms by (auto simp: updateLastFeeOpTime_def fee_inv_def)

lemma pendingReward_Inr_nonneg:
  "snapshot \<le> L \<Longrightarrow> stake t * (L - snapshot) < 2 ^ 256 \<Longrightarrow>
   pendingReward L snapshot t =
     Inr (if status t = active then stake t * (L - snapshot) div DECIMAL_PRECISION else 0)"
  by (auto simp: pendingReward_def)

section \<open>Facts on the owners array\<close>

lemma addTroveOwnerToArray_inv:
  assumes "owners_inv s" and "b \<notin> set (TroveOwners s)" and "Suc (length (TroveOwners s)) < 2 ^ 128"
  shows "\<exists>s'. addTroveOwnerToArray b s = Inr (length (TroveOwners s), s') \<and> owners_inv s' \<and>
     TroveOwners s' = TroveOwners s @ [b]"
  using assms
  by (auto simp: addTroveOwnerToArray_def owners_inv_def upd_trove_def nth_append
      less_Suc_eq Let_def dest: nth_mem)

lemma set_swap_remove:
  assumes "distinct xs" and "i < length xs"
  shows "set (butlast (xs[i := last xs])) = set xs - {xs ! i}"
    and "distinct (butlast (xs[i := last xs]))"
proof -
  from assms obtain ys z where xs: "xs = ys @ [z]" by (cases xs rule: rev_cases) auto
  consider "i = length ys" | "i < length ys" using assms xs by force
  then have "set (butlast (xs[i := last xs])) = set xs - {xs ! i} \<and> distinct (butlast (xs[i := last xs]))"
  proof cases
    case 1
    then show ?thesis using assms xs by (auto simp: list_update_append)
  next
    case 2
    have b: "butlast (xs[i := last xs]) = ys[i := z]"
      using 2 xs by (simp add: list_update_append)
    have ys: "ys = take i ys @ ys ! i # drop (Suc i) ys" using 2 by (simp add: id_take_nth_drop)
    have u: "ys[i := z] = take i ys @ z # drop (Suc i) ys" using 2 by (simp add: upd_conv_take_nth_drop)
    have "distinct (take i ys @ ys ! i # drop (Suc i) ys)" using assms(1) xs ys by simp
    moreover have "set ys = set (take i ys) \<union> {ys ! i} \<union> set (drop (Suc i) ys)"
      by (subst ys) auto
    moreover have "z \<notin> set ys" using assms(1) xs by simp
    ultimately show ?thesis using 2 xs unfolding b u by (auto simp: nth_append)
  qed
  then show "set (butlast (xs[i := last xs])) = set xs - {xs ! i}"
    and "distinct (butlast (xs[i := last xs]))" by auto
qed

lemma removeTroveOwner_ok:
  assumes inv: "owners_inv s" and b: "b \<in> set (TroveOwners s)"
    and closed: "status (Troves s b) \<noteq> nonExistent" "status (Troves s b) \<noteq> active"
  shows "\<exists>s'. removeTroveOwner b (length (TroveOwners s)) s = Inr s' \<and> owners_inv s' \<and>
           set (TroveOwners s') = set (TroveOwners s) - {b} \<and>
           length (TroveOwners s') = length (TroveOwners s) - 1"
proof -
  let ?xs = "TroveOwners s"
  let ?i = "arrayIndex (Troves s b)"
  from b obtain i where i: "i < length ?xs" "?xs ! i = b" by (auto simp: in_set_conv_nth)
  then have idx: "?i = i" using inv by (auto simp: owners_inv_def)
  have ne: "?xs \<noteq> []" using b by auto
  let ?s1 = "upd_trove (last ?xs) (\<lambda>t. t\<lparr>arrayIndex := i\<rparr>) (s\<lparr>TroveOwners := ?xs[i := last ?xs]\<rparr>)"
  let ?s' = "?s1\<lparr>TroveOwners := butlast (TroveOwners ?s1)\<rparr>"
  have lst: "?xs ! (length ?xs - 1) = last ?xs" using ne by (simp add: last_conv_nth)
  have le: "i \<le> length ?xs - Suc 0" using i by simp
  have run: "removeTroveOwner b (length ?xs) s = Inr ?s'"
    using closed i idx ne lst le by (simp add: removeTroveOwner_def Let_def Suc_leI upd_trove_def)
  have own: "TroveOwners ?s' = butlast (?xs[i := last ?xs])" by (simp add: upd_trove_def)
  have d: "distinct ?xs" using inv by (simp add: owners_inv_def)
  have "owners_inv ?s'"
    unfolding owners_inv_def own
  proof (intro conjI allI impI)
    show "distinct (butlast (?xs[i := last ?xs]))" using set_swap_remove(2)[OF d i(1)] .
    show "length (butlast (?xs[i := last ?xs])) < 2 ^ 128"
      using inv less_imp_diff_less by (auto simp: owners_inv_def)
    fix k assume "k < length (butlast (?xs[i := last ?xs]))"
    then have k: "k < length ?xs - 1" by simp
    then have nth: "butlast (?xs[i := last ?xs]) ! k = (if k = i then last ?xs else ?xs ! k)"
      by (simp add: nth_butlast nth_list_update)
    have "?xs ! k \<noteq> last ?xs"
      using d k by (auto simp: lst[symmetric] nth_eq_iff_index_eq)
    moreover have "arrayIndex (Troves s (?xs ! k)) = k"
      using inv k by (simp add: owners_inv_def)
    ultimately show "arrayIndex (Troves ?s' (butlast (?xs[i := last ?xs]) ! k)) = k"
      unfolding nth by (simp add: upd_trove_def)
  qed
  moreover have "set (TroveOwners ?s') = set ?xs - {b}"
    using set_swap_remove(1)[OF d i(1)] i(2) own by simp
  ultimately show ?thesis using run own by auto
qed

section \<open>Properties\<close>

text \<open>
  The base rate only decays while borrowing and its bound is an invariant: with a base rate of
  at most 100 percent and a clock that has not run backwards, \<open>decayBaseRateFromBorrowing\<close> called
  by BorrowerOperations always succeeds (its assertion never fires), never raises the base rate, keeps
  the bound, and moves the fee clock only forwards; any other caller is refused.
\<close>

theorem decayBaseRate_keeps_invariant:
  assumes "fee_inv now s"
  shows "(\<exists>s'. decayBaseRateFromBorrowing (borrowerOperationsAddress s) now s = Inr s' \<and>
           fee_inv now s' \<and> baseRate s' \<le> baseRate s \<and>
           lastFeeOperationTime s \<le> lastFeeOperationTime s' \<and> Troves s' = Troves s) \<and>
         (\<forall>sender. is_ok (decayBaseRateFromBorrowing sender now s) \<longrightarrow> sender = borrowerOperationsAddress s)"
proof -
  obtain r where r: "r \<le> baseRate s" "calcDecayedBaseRate now s = Inr r"
    using calcDecayedBaseRate_ok[OF assms] by blast
  with assms have "\<exists>s'. decayBaseRateFromBorrowing (borrowerOperationsAddress s) now s = Inr s' \<and>
           fee_inv now s' \<and> baseRate s' \<le> baseRate s \<and>
           lastFeeOperationTime s \<le> lastFeeOperationTime s' \<and> Troves s' = Troves s"
    by (auto simp: decayBaseRateFromBorrowing_def requireCallerIsBorrowerOperations_def
        updateLastFeeOpTime_def fee_inv_def)
  moreover have "is_ok (decayBaseRateFromBorrowing sender now s) \<Longrightarrow> sender = borrowerOperationsAddress s"
    for sender
    by (auto simp: decayBaseRateFromBorrowing_def requireCallerIsBorrowerOperations_def require_def
        split: if_splits)
  ultimately show ?thesis by blast
qed

theorem decayBaseRate_keeps_invariant_witness:
  "\<exists>s'. decayBaseRateFromBorrowing 0 600 (fresh_trove_manager\<lparr>baseRate := 50000000000000000\<rparr>) = Inr s' \<and>
      baseRate s' \<le> 50000000000000000"
  using decayBaseRate_keeps_invariant[of 600 "fresh_trove_manager\<lparr>baseRate := 50000000000000000\<rparr>"]
  by (auto simp: fee_inv_def fresh_trove_manager_def DECIMAL_PRECISION_def)

text \<open>
  The trove-owners array stays consistent under the swap-and-pop removal: after
  \<open>_removeTroveOwner\<close> of a listed, closed trove the array holds exactly the other owners, each
  once, is one shorter, and every owner's stored index is its position again.
\<close>

theorem removeTroveOwner_keeps_array_consistent:
  assumes "owners_inv s" and "b \<in> set (TroveOwners s)"
    and "status (Troves s b) \<notin> {nonExistent, active}"
  shows "\<exists>s'. removeTroveOwner b (length (TroveOwners s)) s = Inr s' \<and> owners_inv s' \<and>
           set (TroveOwners s') = set (TroveOwners s) - {b} \<and>
           length (TroveOwners s') = length (TroveOwners s) - 1"
  using removeTroveOwner_ok[of s b] assms by blast

theorem removeTroveOwner_keeps_array_consistent_witness:
  "\<exists>s'. removeTroveOwner 12 (length (TroveOwners three_owners)) three_owners = Inr s' \<and> owners_inv s' \<and>
     set (TroveOwners s') = {11, 13}"
proof -
  have inv: "owners_inv three_owners"
    by (auto simp: owners_inv_def three_owners_def nth_Cons' numeral_3_eq_3)
  have 1: "12 \<in> set (TroveOwners three_owners)" by (simp add: three_owners_def)
  have 2: "status (Troves three_owners 12) \<notin> {nonExistent, active}" by (simp add: three_owners_def)
  have 3: "set (TroveOwners three_owners) - {12} = {11, 13}" by (auto simp: three_owners_def)
  show ?thesis using removeTroveOwner_keeps_array_consistent[OF inv 1 2] 3 by auto
qed

end
