(* ===== verification/Fee_Client.thy ===== *)
theory Fee_Client
  imports Helper_Chain Trove_Manager
begin

text \<open>
  What the JavaScript helpers compute from the fee functions of the contracts.  The locale
  \<open>borrowing_fees\<close> is the interface: the laws of the view functions the helpers call, valid in the
  states of an invariant.  The rounding facts of \<open>getNetBorrowingAmount\<close> and \<open>openTrove\<close> are proved
  from it, and \<open>sol_views\<close>, the views as the Solidity model computes them, is its interpretation.
\<close>

section \<open>The views of the Solidity model\<close>

record sol_chain =
  sc_tm :: trove_manager
  sc_now :: nat
  sc_price :: nat

text \<open>A JavaScript integer as a \<open>uint256\<close> argument: the ABI encoder refuses what does not fit.\<close>

definition to_uint :: "int \<Rightarrow> nat res" where
  "to_uint a = (if 0 \<le> a \<and> a < 2 ^ 256 then Inr (nat a) else Inl (Thrown ''value out of range''))"

definition of_uint :: "nat res \<Rightarrow> int res" where
  "of_uint r = rbind r (\<lambda>n. Inr (int n))"

definition sol_views :: "sol_chain contracts \<Rightarrow> sol_chain contracts" where
  "sol_views ext = ext
     \<lparr>tm_getBorrowingFee := (\<lambda>s a. rbind (to_uint a) (\<lambda>n. of_uint (getBorrowingFee (sc_tm s) n))),
      tm_getBorrowingRateWithDecay := (\<lambda>s. of_uint (getBorrowingRateWithDecay (sc_now s) (sc_tm s))),
      tm_getRedemptionRate := (\<lambda>s. of_uint (getRedemptionRate_sol (sc_tm s))),
      tm_getActualDebtFromComposite := (\<lambda>s d. rbind (to_uint d) (\<lambda>n. of_uint (getNetDebt_sol n))),
      tm_getEntireDebtAndColl := (\<lambda>s b. rbind (getEntireDebtAndColl (sc_tm s) b)
         (\<lambda>(d, c, pd, pc). Inr (int d, int c, int pd, int pc))),
      tm_Troves := (\<lambda>s b. Inr (int (debt (Troves (sc_tm s) b)), int (coll (Troves (sc_tm s) b)))),
      tm_getTroveStake := (\<lambda>s b. Inr (int (stake (Troves (sc_tm s) b)))),
      tm_getPendingCollReward := (\<lambda>s b. of_uint (getPendingCollReward (sc_tm s) b)),
      tm_getPendingUSDDDebtReward := (\<lambda>s b. of_uint (getPendingUSDDDebtReward (sc_tm s) b)),
      tm_getCurrentICR := (\<lambda>s b p. rbind (to_uint p) (\<lambda>n. of_uint (getCurrentICR (sc_tm s) b n))),
      bo_getCompositeDebt := (\<lambda>s d. rbind (to_uint d) (\<lambda>n. of_uint (getCompositeDebt_sol n))),
      bo_MIN_NET_DEBT := (\<lambda>s. Inr (int MIN_NET_DEBT)),
      hh_computeNominalCR := (\<lambda>s c d. rbind (to_uint c) (\<lambda>m. rbind (to_uint d) (\<lambda>n.
         of_uint (computeNominalCR m n)))),
      pf_getPrice := (\<lambda>s. Inr (int (sc_price s)))\<rparr>"

section \<open>Rounding\<close>

lemma div_bounds:
  fixes a b :: int
  assumes "0 < b"
  shows "a div b * b \<le> a" and "a < a div b * b + b"
  using assms div_mult_mod_eq[of a b] pos_mod_sign[OF assms, of a] pos_mod_bound[OF assms, of a]
  by linarith+

lemma net_plus_fee_le:
  fixes x r E :: int
  assumes "0 \<le> x" "0 \<le> r" "0 < E"
  defines "n \<equiv> x * E div (E + r)"
  shows "n + n * r div E \<le> x"
proof -
  have "n * (E + r) \<le> x * E"
    unfolding n_def using assms by (intro div_bounds) simp
  then have "(n * E + n * r) div E \<le> (x * E) div E"
    using assms by (intro zdiv_mono1) (simp_all add: algebra_simps)
  then show ?thesis using assms(3) by simp
qed

lemma net_plus_one_enough:
  fixes x r r' E :: int
  assumes "0 \<le> x" "0 \<le> r" "r \<le> r'" "0 < E" "x * E div (E + r) + 1 \<le> u"
  shows "x \<le> u + u * r' div E"
proof -
  have pos: "0 < E + r" using assms by simp
  have u: "0 \<le> u" using assms pos pos_imp_zdiv_nonneg_iff[OF pos, of "x * E"] by simp
  have "x * E < (x * E div (E + r) + 1) * (E + r)"
    using div_bounds(2)[OF pos, of "x * E"] by (simp add: distrib_right)
  also have "\<dots> \<le> u * (E + r)" using assms pos by (intro mult_right_mono) auto
  also have "\<dots> \<le> u * (E + r')" using assms u by (intro mult_left_mono) auto
  finally have "x * E \<le> u * E + u * r'" by (simp add: algebra_simps)
  then have "(x * E) div E \<le> (u * E + u * r') div E" using assms by (intro zdiv_mono1) auto
  then show ?thesis using assms(4) by simp
qed

section \<open>The interface and its client lemmas\<close>

abbreviation (input) E18 :: int where
  "E18 \<equiv> 1000000000000000000"

abbreviation (input) GAS_COMP :: int where
  "GAS_COMP \<equiv> 200000000000000000000"

abbreviation (input) MIN_NET :: int where
  "MIN_NET \<equiv> 1800000000000000000000"

text \<open>The amount whose value with a fee of rate \<open>r\<close> is about \<open>x\<close>, and an amount with its fee.\<close>

definition net_of :: "int \<Rightarrow> int \<Rightarrow> int" where
  "net_of r x = x * E18 div (E18 + r)"

definition with_fee :: "int \<Rightarrow> int \<Rightarrow> int" where
  "with_fee r u = u + u * r div E18"

text \<open>The parameters of \<open>openTrove\<close> with no amounts and an extra \<open>e\<close>, sent by \<open>f\<close>.\<close>

definition default_request :: "int \<Rightarrow> address \<Rightarrow> open_trove_params" where
  "default_request e f =
     \<lparr>otp_maxFeePercentage = None, otp_usddAmount = None, otp_extraUSDDAmount = Some e,
      otp_upperHint = None, otp_lowerHint = None, otp_ICR = None, otp_txPromise = False,
      otp_from = Some f, otp_value = Undefined\<rparr>"

text \<open>
  Whatever the chain answers, funding and opening submit at most a deposit, an approval and the opening, in this order, and
  when they return they have submitted the three.
\<close>

lemma fund_open_trove_cases:
  fixes f :: address
  assumes "bo_proxies C = None" "0 \<le> c"
  defines "calls \<equiv> \<lambda>v. [TxCall ''weth'' ''deposit'' [] (from_value f c),
            TxCall ''weth'' ''approve'' [AAddr (bo_address C), AUint (v + c)] (from_only f)]"
  shows "\<exists>v k. sent (snd (fund_open_trove C (Some f) (Big c) w)) = sent w @ take k (calls v) \<and>
           (is_ok (fst (fund_open_trove C (Some f) (Big c) w)) \<longrightarrow> k = 2)"
proof -
  let ?app = "\<lambda>v. TxCall ''weth'' ''approve'' [AAddr (bo_address C), AUint (v + c)] (from_only f)"
  have opts: "opts (Some f) None = from_only f" "opts (Some f) (Some x) = from_value f x" for x
    by (simp_all add: opts_def from_only_def from_value_def)
  obtain r1 s1 where s1: "send C (TxCall ''weth'' ''deposit'' [] (from_value f c)) (chain w) = (r1, s1)" by fastforce
  note run = assms(1,2) calls_def s1 fund_open_trove_def jbind_def submit_def opts bn_add_amount.simps
  consider (dep) e where "r1 = Inl e" | (allow) t e where "r1 = Inr t" "weth_allowance C s1 f (bo_address C) = Inl e"
    | (app) t v where "r1 = Inr t" "weth_allowance C s1 f (bo_address C) = Inr v"
    by (cases r1; cases "weth_allowance C s1 f (bo_address C)") auto
  then show ?thesis
  proof cases
    case dep
    then show ?thesis by (intro exI[of _ 0] exI[of _ 1]) (simp add: run)
  next
    case allow
    then show ?thesis by (intro exI[of _ 0] exI[of _ 1]) (simp add: run)
  next
    case app
    obtain r2 s2 where s2: "send C (?app v) s1 = (r2, s2)" by fastforce
    with app show ?thesis by (intro exI[of _ v] exI[of _ 2]) (cases r2; simp add: run)
  qed
qed

lemma fund_and_open_cases:
  assumes "bo_proxies C = None" "0 \<le> c"
    and run: "run = jbind (fund_open_trove C (Some f) (Big c)) (\<lambda>_.
               jbind (submit C opening) (\<lambda>t. jret (result t))) w"
  shows "\<exists>v k. sent (snd run) = sent w @ take k
           [TxCall ''weth'' ''deposit'' [] (from_value f c),
            TxCall ''weth'' ''approve'' [AAddr (bo_address C), AUint (v + c)] (from_only f), opening] \<and>
         (\<forall>r. fst run = Inr r \<longrightarrow> k = 3 \<and> (\<exists>t. r = result t))"
proof -
  obtain r w1 where f: "fund_open_trove C (Some f) (Big c) w = (r, w1)" by fastforce
  obtain v k where k: "sent w1 = sent w @ take k
      [TxCall ''weth'' ''deposit'' [] (from_value f c),
       TxCall ''weth'' ''approve'' [AAddr (bo_address C), AUint (v + c)] (from_only f)]" "is_ok r \<longrightarrow> k = 2"
    using fund_open_trove_cases[OF assms(1,2), of f w] f by auto
  obtain r3 s3 where s3: "send C opening (chain w1) = (r3, s3)" by fastforce
  show ?thesis
  proof (cases r)
    case (Inl e)
    then show ?thesis using k run f by (intro exI[of _ v] exI[of _ "min k 2"]) (auto simp: jbind_def take_Cons' min_def)
  next
    case (Inr y)
    then show ?thesis using k run f s3
      by (intro exI[of _ v] exI[of _ 3]) (cases r3; auto simp: jbind_def submit_def)
  qed
qed

locale borrowing_fees =
  fixes C :: "'s contracts" and ok :: "'s \<Rightarrow> bool" and rate rateD :: "'s \<Rightarrow> int"
  assumes rate_bounds: "ok s \<Longrightarrow> 0 \<le> rateD s \<and> rateD s \<le> rate s \<and> rate s \<le> 50000000000000000"
    and rateD_law: "ok s \<Longrightarrow> tm_getBorrowingRateWithDecay C s = Inr (rateD s)"
    and fee_law: "ok s \<Longrightarrow> 0 \<le> a \<Longrightarrow> a < 2 ^ 192 \<Longrightarrow>
                    tm_getBorrowingFee C s a = Inr (a * rate s div E18)"
    and composite_law: "ok s \<Longrightarrow> 0 \<le> d \<Longrightarrow> d < 2 ^ 192 \<Longrightarrow> bo_getCompositeDebt C s d = Inr (d + GAS_COMP)"
    and actual_law: "ok s \<Longrightarrow> GAS_COMP \<le> d \<Longrightarrow> d < 2 ^ 200 \<Longrightarrow>
                       tm_getActualDebtFromComposite C s d = Inr (d - GAS_COMP)"
    and min_net_law: "ok s \<Longrightarrow> bo_MIN_NET_DEBT C s = Inr MIN_NET"
begin

lemma getNetBorrowingAmount_run:
  "ok (chain w) \<Longrightarrow> 0 \<le> x \<Longrightarrow> getNetBorrowingAmount C x w = (Inr (net_of (rateD (chain w)) x), w)"
  using rate_bounds[of "chain w"]
  by (simp add: getNetBorrowingAmount_def jbind_def rateD_law MoneyValues_def net_of_def)

lemma net_of_nonneg: "ok s \<Longrightarrow> 0 \<le> x \<Longrightarrow> 0 \<le> net_of (rateD s) x"
  using rate_bounds[of s] by (simp add: net_of_def pos_imp_zdiv_nonneg_iff)

lemma net_of_le: "ok s \<Longrightarrow> 0 \<le> x \<Longrightarrow> net_of (rateD s) x \<le> x"
proof -
  assume s: "ok s" and x: "0 \<le> x"
  have "0 \<le> net_of (rateD s) x * rateD s div E18"
    using net_of_nonneg[OF s x] rate_bounds[OF s] by (simp add: pos_imp_zdiv_nonneg_iff)
  then show ?thesis
    using net_plus_fee_le[of x "rateD s" E18] x rate_bounds[OF s] by (simp add: net_of_def)
qed

lemma fee_le_amount:
  assumes "ok s" "0 \<le> u"
  shows "0 \<le> u * rate s div E18" and "u * rate s div E18 \<le> u"
proof -
  show "0 \<le> u * rate s div E18"
    using assms rate_bounds[of s] by (simp add: pos_imp_zdiv_nonneg_iff)
  have "u * rate s div E18 \<le> u * E18 div E18"
    using assms rate_bounds[of s] by (intro zdiv_mono1 mult_left_mono) auto
  then show "u * rate s div E18 \<le> u" by simp
qed

lemma getOpenTroveTotalDebt_run:
  assumes "ok (chain w)" "0 \<le> u" "u < 2 ^ 192"
  shows "getOpenTroveTotalDebt C u w = (Inr (with_fee (rate (chain w)) u + GAS_COMP), w)"
  using assms
  by (simp add: getOpenTroveTotalDebt_def getCompositeDebt_def jbind_def fee_law composite_law with_fee_def)

lemma getActualDebtFromComposite_run:
  assumes "ok (chain w)" "0 \<le> u" "u < 2 ^ 192"
  shows "getActualDebtFromComposite (with_fee (rate (chain w)) u + GAS_COMP) C w =
           (Inr (with_fee (rate (chain w)) u), w)"
  using assms fee_le_amount[of "chain w" u]
  by (simp add: getActualDebtFromComposite_def actual_law with_fee_def)

text \<open>The amount that \<open>openTrove\<close> requests by default is enough for the minimum net debt.\<close>

lemma default_amount_enough:
  assumes "ok s" "0 \<le> e"
  shows "MIN_NET \<le> with_fee (rate s) (net_of (rateD s) MIN_NET + 1 + e)"
  using net_plus_one_enough[of MIN_NET "rateD s" "rate s" E18 "net_of (rateD s) MIN_NET + 1 + e"]
    rate_bounds[OF assms(1)] assms(2)
  by (simp add: net_of_def with_fee_def)

text \<open>\<open>openTrove\<close> without amounts reads the fees and the price, and then funds and submits the opening.\<close>

lemma openTrove_default_run:
  fixes w :: "'s world" and f :: address
  assumes ok: "ok (chain w)" and e: "0 \<le> e" "e < 2 ^ 190" and price: "pf_getPrice C (chain w) = Inr p" "0 < p"
  defines "u \<equiv> net_of (rateD (chain w)) MIN_NET + 1 + e"
  defines "T \<equiv> with_fee (rate (chain w)) u + GAS_COMP"
  defines "c \<equiv> 1500000000000000000 * T div p"
  shows "openTrove C (default_request e f) w =
           jbind (fund_open_trove C (Some f) (Big c)) (\<lambda>_.
           jbind (submit C (open_trove_call C (default_request e f) c u)) (\<lambda>t.
           jret \<lparr>otr_usddAmount = u, otr_netDebt = T - GAS_COMP, otr_totalDebt = T,
                  otr_ICR = Some 1500000000000000000, otr_collateral = c, otr_tx = Inr t\<rparr>)) w"
proof -
  have u: "0 \<le> u" "u < 2 ^ 192"
    using net_of_nonneg[OF ok, of MIN_NET] net_of_le[OF ok, of MIN_NET] e by (simp_all add: u_def)
  have T: "0 \<le> T" using u fee_le_amount[OF ok, of u] by (simp add: T_def with_fee_def)
  have borrow: "getNetBorrowingAmount C MIN_NET w = (Inr (net_of (rateD (chain w)) MIN_NET), w)"
    by (rule getNetBorrowingAmount_run[OF ok]) simp
  have debts: "getOpenTroveTotalDebt C u w = (Inr T, w)" "getActualDebtFromComposite T C w = (Inr (T - GAS_COMP), w)"
    using getOpenTroveTotalDebt_run[OF ok u] getActualDebtFromComposite_run[OF ok u] by (simp_all add: T_def)
  have "1 + net_of (rateD (chain w)) MIN_NET + e = u" "net_of (rateD (chain w)) MIN_NET + 1 + e = u"
    by (simp_all add: u_def)
  then show ?thesis
    using min_net_law[OF ok] borrow debts price T
    by (simp add: openTrove_def default_request_def jbind_def[abs_def] Let_def default_def c_def split: prod.splits sum.splits)
qed

end

section \<open>The Solidity model provides the interface\<close>

definition sol_ok :: "sol_chain \<Rightarrow> bool" where
  "sol_ok s \<longleftrightarrow> fee_inv (sc_now s) (sc_tm s)"

definition sol_rate :: "sol_chain \<Rightarrow> int" where
  "sol_rate s = int (min (BORROWING_FEE_FLOOR + baseRate (sc_tm s)) MAX_BORROWING_FEE)"

definition sol_rateD :: "sol_chain \<Rightarrow> int" where
  "sol_rateD s =
     (case getBorrowingRateWithDecay (sc_now s) (sc_tm s) of Inl e \<Rightarrow> 0 | Inr r \<Rightarrow> int r)"

lemma decayed_rate_ok:
  assumes "sol_ok s"
  shows "\<exists>r. getBorrowingRateWithDecay (sc_now s) (sc_tm s) = Inr r \<and> int r \<le> sol_rate s"
proof -
  from calcDecayedBaseRate_ok assms obtain b where
    b: "b \<le> baseRate (sc_tm s)" "calcDecayedBaseRate (sc_now s) (sc_tm s) = Inr b"
    by (auto simp: sol_ok_def)
  moreover have "b \<le> DECIMAL_PRECISION" using b assms by (simp add: sol_ok_def fee_inv_def)
  ultimately show ?thesis
    by (auto simp: getBorrowingRateWithDecay_def calcBorrowingRate_ok sol_rate_def)
qed

lemma borrowing_fee_ok:
  assumes "sol_ok s" "0 \<le> a" "a < 2 ^ 192"
  shows "rbind (to_uint a) (\<lambda>n. of_uint (getBorrowingFee (sc_tm s) n)) = Inr (a * sol_rate s div E18)"
proof -
  let ?r = "min (BORROWING_FEE_FLOOR + baseRate (sc_tm s)) MAX_BORROWING_FEE"
  have "?r * nat a \<le> DECIMAL_PRECISION * 2 ^ 192"
    using assms by (intro mult_mono) (auto simp: rate_consts nat_le_iff)
  then have "?r * nat a < 2 ^ 256" by (simp add: rate_consts)
  moreover have "getBorrowingRate (sc_tm s) = Inr ?r"
    using assms by (simp add: getBorrowingRate_def calcBorrowingRate_ok sol_ok_def fee_inv_def)
  moreover have "int (?r * nat a div DECIMAL_PRECISION) = a * sol_rate s div E18"
    using assms by (simp add: sol_rate_def zdiv_int DECIMAL_PRECISION_def mult.commute)
  ultimately show ?thesis
    using assms by (simp add: to_uint_def of_uint_def getBorrowingFee_def calcBorrowingFee_def)
qed

interpretation sol: borrowing_fees "sol_views ext" sol_ok sol_rate sol_rateD
proof unfold_locales
  fix s :: sol_chain assume s: "sol_ok s"
  obtain r where r: "getBorrowingRateWithDecay (sc_now s) (sc_tm s) = Inr r" "int r \<le> sol_rate s"
    using decayed_rate_ok[OF s] by blast
  then show "0 \<le> sol_rateD s \<and> sol_rateD s \<le> sol_rate s \<and> sol_rate s \<le> 50000000000000000"
    by (simp add: sol_rateD_def sol_rate_def rate_consts)
  show "tm_getBorrowingRateWithDecay (sol_views ext) s = Inr (sol_rateD s)"
    using r by (simp add: sol_views_def sol_rateD_def of_uint_def)
  show "bo_MIN_NET_DEBT (sol_views ext) s = Inr MIN_NET"
    by (simp add: sol_views_def MIN_NET_DEBT_def)
  fix a :: int
  show "0 \<le> a \<Longrightarrow> a < 2 ^ 192 \<Longrightarrow> tm_getBorrowingFee (sol_views ext) s a = Inr (a * sol_rate s div E18)"
    using borrowing_fee_ok[OF s, of a] by (simp add: sol_views_def)
  show "0 \<le> a \<Longrightarrow> a < 2 ^ 192 \<Longrightarrow> bo_getCompositeDebt (sol_views ext) s a = Inr (a + GAS_COMP)"
    by (simp add: sol_views_def to_uint_def of_uint_def getCompositeDebt_sol_def
        USDD_GAS_COMPENSATION_def u_add_def)
  show "GAS_COMP \<le> a \<Longrightarrow> a < 2 ^ 200 \<Longrightarrow>
        tm_getActualDebtFromComposite (sol_views ext) s a = Inr (a - GAS_COMP)"
    by (simp add: sol_views_def to_uint_def of_uint_def getNetDebt_sol_def
        USDD_GAS_COMPENSATION_def u_sub_def nat_diff_distrib)
qed

section \<open>Properties\<close>

lemma sol_views_ext [simp]:
  "send (sol_views ext) = send ext"
  "weth_allowance (sol_views ext) = weth_allowance ext"
  "bo_proxies (sol_views ext) = bo_proxies ext"
  "bo_address (sol_views ext) = bo_address ext"
  "pf_getPrice (sol_views ext) s = Inr (int (sc_price s))"
  by (simp_all add: sol_views_def)

definition demo_sol :: "sol_chain world" where
  "demo_sol =
     \<lparr>chain = \<lparr>sc_tm = fresh_trove_manager, sc_now = 1000, sc_price = 200000000000000000000\<rparr>,
      latestRandomSeed = 31337, sent = [], rand = (\<lambda>n mn mx. mn), draws = 0\<rparr>"

text \<open>
  C35. With no amounts given, \<open>openTrove\<close> computes from the fee functions of TroveManager an amount
  whose net debt reaches the protocol's minimum and a total debt with the gas compensation, and asks with the largest
  collateral whose ratio at the current price does not exceed 150% (so that the ratio is usually below it by a rounding of one unit of
  collateral).  Whatever the chain answers, it submits a prefix of a WETH deposit, an approval of some allowance plus
  the collateral and the opening with these amounts; when it returns, it has submitted all three and reports the amounts.
  The premises are the rates that TroveManager keeps, an extra amount below \<open>2^190\<close>, a positive price and no proxies.
\<close>

theorem openTrove_default_requests:
  assumes "fee_inv (sc_now (chain w)) (sc_tm (chain w))" and "0 \<le> e" "e < 2 ^ 190"
    and "0 < sc_price (chain w)" and "bo_proxies ext = None"
    and "run = openTrove (sol_views ext) (default_request e f) w"
  shows "\<exists>amount debt collateral v k. int MIN_NET_DEBT + int USDD_GAS_COMPENSATION \<le> debt \<and>
           collateral * int (sc_price (chain w)) \<le> 1500000000000000000 * debt \<and>
           1500000000000000000 * debt < (collateral + 1) * int (sc_price (chain w)) \<and>
           getOpenTroveTotalDebt (sol_views ext) amount w = (Inr debt, w) \<and>
           sent (snd run) = sent w @ take k
             [TxCall ''weth'' ''deposit'' [] (from_value f collateral),
              TxCall ''weth'' ''approve'' [AAddr (bo_address ext), AUint (v + collateral)] (from_only f),
              TxCall ''borrowerOperations'' ''openTrove(uint256,uint256,uint256,address,address)''
                [AUint pct100, AUint collateral, AUint amount, AAddr 0, AAddr 0] (from_only f)] \<and>
           (\<forall>r. fst run = Inr r \<longrightarrow> k = 3 \<and> otr_usddAmount r = amount \<and> otr_totalDebt r = debt \<and>
              otr_netDebt r = debt - int USDD_GAS_COMPENSATION \<and> otr_ICR r = Some 1500000000000000000 \<and>
              otr_collateral r = collateral)"
proof -
  have ok: "sol_ok (chain w)" using assms(1) by (simp add: sol_ok_def)
  define p where "p = int (sc_price (chain w))"
  define u where "u = net_of (sol_rateD (chain w)) MIN_NET + 1 + e"
  define D where "D = with_fee (sol_rate (chain w)) u + GAS_COMP"
  define c where "c = 1500000000000000000 * D div p"
  have u: "0 \<le> u" "u < 2 ^ 192"
    using sol.net_of_nonneg[OF ok, of MIN_NET] sol.net_of_le[OF ok, of MIN_NET] assms(2,3) by (simp_all add: u_def)
  have min: "MIN_NET + GAS_COMP \<le> D"
    using sol.default_amount_enough[OF ok assms(2)] by (simp add: D_def u_def)
  have p: "0 < p" using assms(4) by (simp add: p_def)
  then have c: "0 \<le> c" using min by (simp add: c_def pos_imp_zdiv_nonneg_iff)
  have bounds: "c * p \<le> 1500000000000000000 * D" "1500000000000000000 * D < (c + 1) * p"
    using div_bounds[OF p, of "1500000000000000000 * D"] by (simp_all add: c_def distrib_right)
  have debt: "getOpenTroveTotalDebt (sol_views ext) u w = (Inr D, w)"
    unfolding D_def by (rule sol.getOpenTroveTotalDebt_run[OF ok u])
  have opn: "open_trove_call (sol_views ext) (default_request e f) c u =
      TxCall ''borrowerOperations'' ''openTrove(uint256,uint256,uint256,address,address)''
        [AUint pct100, AUint c, AUint u, AAddr 0, AAddr 0] (from_only f)"
    using assms(5) by (simp add: open_trove_call_def default_request_def default_def opts_def from_only_def)
  have "pf_getPrice (sol_views ext) (chain w) = Inr p" by (simp add: p_def)
  from sol.openTrove_default_run[OF ok assms(2,3) this p] assms(6)
  have "run = jbind (fund_open_trove (sol_views ext) (Some f) (Big c)) (\<lambda>_.
      jbind (submit (sol_views ext) (open_trove_call (sol_views ext) (default_request e f) c u)) (\<lambda>t.
      jret \<lparr>otr_usddAmount = u, otr_netDebt = D - GAS_COMP, otr_totalDebt = D,
             otr_ICR = Some 1500000000000000000, otr_collateral = c, otr_tx = Inr t\<rparr>)) w"
    by (simp add: u_def D_def c_def)
  from fund_and_open_cases[OF _ c this[unfolded opn]] assms(5)
  obtain v k where reqs: "sent (snd run) = sent w @ take k
             [TxCall ''weth'' ''deposit'' [] (from_value f c),
              TxCall ''weth'' ''approve'' [AAddr (bo_address ext), AUint (v + c)] (from_only f),
              TxCall ''borrowerOperations'' ''openTrove(uint256,uint256,uint256,address,address)''
                [AUint pct100, AUint c, AUint u, AAddr 0, AAddr 0] (from_only f)]"
    and res: "\<forall>r. fst run = Inr r \<longrightarrow> k = 3 \<and> (\<exists>t. r = \<lparr>otr_usddAmount = u, otr_netDebt = D - GAS_COMP, otr_totalDebt = D,
             otr_ICR = Some 1500000000000000000, otr_collateral = c, otr_tx = Inr t\<rparr>)"
    by auto
  have "int MIN_NET_DEBT + int USDD_GAS_COMPENSATION \<le> D" and gas: "int USDD_GAS_COMPENSATION = GAS_COMP"
    using min by (simp_all add: MIN_NET_DEBT_def USDD_GAS_COMPENSATION_def)
  moreover have "\<forall>r. fst run = Inr r \<longrightarrow> k = 3 \<and> otr_usddAmount r = u \<and> otr_totalDebt r = D \<and>
      otr_netDebt r = D - int USDD_GAS_COMPENSATION \<and> otr_ICR r = Some 1500000000000000000 \<and> otr_collateral r = c"
    unfolding gas using res by fastforce
  ultimately show ?thesis using bounds debt reqs unfolding p_def by blast
qed

lemma demo_open_returns:
  "is_ok (fst (openTrove (sol_views (demo_views id (\<lambda>s. 0))) (default_request 0 11) demo_sol))"
proof -
  have ok: "sol_ok (chain demo_sol)" by (simp add: sol_ok_def demo_sol_def fee_inv_def fresh_trove_manager_def)
  have "0 \<le> with_fee (sol_rate (chain demo_sol)) (net_of (sol_rateD (chain demo_sol)) MIN_NET + 1) + GAS_COMP"
    using sol.default_amount_enough[OF ok, of 0] by simp
  then have "0 \<le> 1500000000000000000 *
      (with_fee (sol_rate (chain demo_sol)) (net_of (sol_rateD (chain demo_sol)) MIN_NET + 1) + GAS_COMP) div 200000000000000000000"
    by (simp add: pos_imp_zdiv_nonneg_iff)
  moreover have "pf_getPrice (sol_views (demo_views id (\<lambda>s. 0))) (chain demo_sol) = Inr 200000000000000000000"
    by (simp add: demo_sol_def)
  ultimately show ?thesis
    using sol.openTrove_default_run[OF ok, of 0 "demo_views id (\<lambda>s. 0)" 200000000000000000000 11]
    by (simp add: jbind_def fund_open_trove_def submit_def bn_add_amount.simps demo_views_def)
qed

theorem openTrove_default_requests_witness:
  "\<exists>r w'. openTrove (sol_views (demo_views id (\<lambda>s. 0))) (default_request 0 11) demo_sol = (Inr r, w') \<and>
           2000000000000000000000 \<le> otr_totalDebt r \<and> length (sent w') = 3"
proof -
  let ?C = "demo_views id (\<lambda>s. 0) :: sol_chain contracts"
  have inv: "fee_inv (sc_now (chain demo_sol)) (sc_tm (chain demo_sol))" and price: "0 < sc_price (chain demo_sol)"
    and empty: "sent demo_sol = []" and px: "bo_proxies ?C = None"
    by (simp_all add: demo_sol_def fee_inv_def fresh_trove_manager_def demo_views_def)
  obtain x w' where run: "openTrove (sol_views ?C) (default_request 0 11) demo_sol = (x, w')" by fastforce
  then obtain r where r: "x = Inr r" using demo_open_returns by (cases x) auto
  from openTrove_default_requests[OF inv _ _ price px run[symmetric]] obtain D k where
    "int MIN_NET_DEBT + int USDD_GAS_COMPENSATION \<le> D" "\<exists>xs. sent w' = take k xs \<and> length xs = 3"
    "k = 3" "otr_totalDebt r = D"
    using empty r by fastforce
  then show ?thesis using run r by (auto simp: MIN_NET_DEBT_def USDD_GAS_COMPENSATION_def)
qed

text \<open>C36. The helpers predict what the contracts compute.  Whenever \<open>getEntireDebtAndColl\<close> succeeds, the
  JavaScript \<open>getEntireCollAndDebt\<close>, which adds up the raw amounts and the pending rewards, gives the same
  collateral and debt; and for every price at which the contract's ratio does not overflow,
  \<open>computeICR\<close> on these amounts is the \<open>getCurrentICR\<close> of the contract.\<close>

theorem helpers_agree_with_contract:
  assumes "getEntireDebtAndColl (sc_tm (chain w)) b = Inr (d, c, pd, pc)"
  shows "getEntireCollAndDebt (sol_views ext) b w = (Inr (int c, int d), w) \<and>
         (\<forall>p r. computeCR c d p = Inr r \<longrightarrow>
            getCurrentICR (sc_tm (chain w)) b p = Inr r \<and> computeICR (int c) (int d) (int p) = int r)"
proof -
  from assms have parts: "getPendingUSDDDebtReward (sc_tm (chain w)) b = Inr pd"
    "getPendingCollReward (sc_tm (chain w)) b = Inr pc"
    "d = debt (Troves (sc_tm (chain w)) b) + pd" "c = coll (Troves (sc_tm (chain w)) b) + pc"
    and amounts: "getCurrentTroveAmounts (sc_tm (chain w)) b = Inr (c, d)"
    by (auto simp: getEntireDebtAndColl_def getCurrentTroveAmounts_def rbind_Inr_iff u_Inr_iffs)
  have "computeICR (int c) (int d) (int p) = int r" if "computeCR c d p = Inr r" for p r
    using that by (auto simp: computeCR_Inr_iff computeICR_def zdiv_int split: if_splits)
  with amounts parts show ?thesis
    by (simp add: getEntireCollAndDebt_def jbind_def sol_views_def of_uint_def getCurrentICR_def)
qed

theorem helpers_agree_with_contract_witness:
  "getEntireCollAndDebt (sol_views (demo_views id (\<lambda>s. 0))) 11 demo_sol = (Inr (0, 0), demo_sol)"
  using helpers_agree_with_contract[of demo_sol 11 0 0 0 0 "demo_views id (\<lambda>s. 0)"]
  by (simp add: demo_sol_def fresh_trove_manager_def empty_trove_def getEntireDebtAndColl_def
      getPendingUSDDDebtReward_def getPendingCollReward_def pendingReward_def)

text \<open>\<open>getNetBorrowingAmount\<close> inverts the borrowing fee up to rounding: the amount it returns plus the
  fee at the decayed rate does not exceed the target debt, and one unit more with its fee reaches it.\<close>

theorem getNetBorrowingAmount_inverts_fee:
  assumes "fee_inv (sc_now (chain w)) (sc_tm (chain w))" and "0 \<le> x"
  shows "\<exists>n r. getNetBorrowingAmount (sol_views ext) x w = (Inr n, w) \<and>
           getBorrowingRateWithDecay (sc_now (chain w)) (sc_tm (chain w)) = Inr r \<and>
           0 \<le> n \<and> n + n * int r div 1000000000000000000 \<le> x \<and>
           x \<le> (n + 1) + (n + 1) * int r div 1000000000000000000"
proof -
  have ok: "sol_ok (chain w)" using assms(1) by (simp add: sol_ok_def)
  obtain r where r: "getBorrowingRateWithDecay (sc_now (chain w)) (sc_tm (chain w)) = Inr r"
    using decayed_rate_ok[OF ok] by blast
  then have rD: "sol_rateD (chain w) = int r" by (simp add: sol_rateD_def)
  let ?n = "net_of (int r) x"
  have "getNetBorrowingAmount (sol_views ext) x w = (Inr ?n, w)"
    using sol.getNetBorrowingAmount_run[OF ok assms(2), of ext] by (simp add: rD)
  moreover have "0 \<le> ?n" using sol.net_of_nonneg[OF ok assms(2)] by (simp add: rD)
  moreover have "?n + ?n * int r div E18 \<le> x"
    using net_plus_fee_le[of x "int r" E18] assms(2) by (simp add: net_of_def)
  moreover have "x \<le> (?n + 1) + (?n + 1) * int r div E18"
    using net_plus_one_enough[of x "int r" "int r" E18 "?n + 1"] assms(2) by (simp add: net_of_def)
  ultimately show ?thesis using r by blast
qed

theorem getNetBorrowingAmount_inverts_fee_witness:
  "\<exists>n. getNetBorrowingAmount (sol_views (demo_views id (\<lambda>s. 0))) 1005 demo_sol = (Inr n, demo_sol)"
proof -
  have "fee_inv (sc_now (chain demo_sol)) (sc_tm (chain demo_sol))"
    by (simp add: demo_sol_def fee_inv_def fresh_trove_manager_def)
  from getNetBorrowingAmount_inverts_fee[OF this, of 1005 "demo_views id (\<lambda>s. 0)"] show ?thesis by auto
qed

text \<open>\<open>withdrawUSDD\<close> compares two BN objects with the \<open>>\<close> operator, that is, as decimal strings.
  For non-negative numbers with equally many digits this is the numeric comparison; otherwise it
  can be wrong: with a debt of 2000 USDD and a target debt of 10000 USDD the helper refuses the
  withdrawal as if the target were not above the debt.\<close>

theorem withdrawUSDD_compares_strings:
  "(\<forall>a b. 0 \<le> a \<longrightarrow> 0 \<le> b \<longrightarrow> length (show_int a) = length (show_int b) \<longrightarrow>
      (bn_object_gt a b \<longleftrightarrow> b < a)) \<and>
   fst (withdrawUSDD_amounts demo_contracts
     \<lparr>wp_maxFeePercentage = None, wp_usddAmount = None, wp_ICR = Some 2000000000000000000,
      wp_upperHint = None, wp_lowerHint = None, wp_from = Some 11\<rparr> demo_world) =
   Inl (AssertionError ''ICR is already greater than or equal to target'') \<and>
   (2000000000000000000000 :: int) < 100000000000000000000 * 200000000000000000000 div 2000000000000000000"
proof (intro conjI allI impI)
  fix a b :: int
  assume "0 \<le> a" "0 \<le> b" "length (show_int a) = length (show_int b)"
  then show "bn_object_gt a b \<longleftrightarrow> b < a"
    using lex_le_iff_numeric[of "show_int a" "show_int b"] show_nat_digits
    by (simp add: bn_object_gt_def show_int_def list_all_iff not_le[symmetric] nat_le_eq_zle)
next
  have "\<not> bn_object_gt 10000000000000000000000 2000000000000000000000"
    by (simp add: bn_object_gt_def show_int_def show_nat.simps digit_char_def less_char_def)
  then show "fst (withdrawUSDD_amounts demo_contracts
     \<lparr>wp_maxFeePercentage = None, wp_usddAmount = None, wp_ICR = Some 2000000000000000000,
      wp_upperHint = None, wp_lowerHint = None, wp_from = Some 11\<rparr> demo_world) =
   Inl (AssertionError ''ICR is already greater than or equal to target'')"
    by (simp add: withdrawUSDD_amounts_def jbind_def demo_contracts_def demo_views_def)
qed simp

theorem withdrawUSDD_compares_strings_witness:
  "bn_object_gt 30 20 \<and> \<not> bn_object_gt 20 30"
  using conjunct1[OF withdrawUSDD_compares_strings, rule_format, of 30 20]
    conjunct1[OF withdrawUSDD_compares_strings, rule_format, of 20 30]
  by (simp add: show_int_def show_nat.simps)

end
