(* ===== verification/Deployment_Wiring.thy ===== *)
theory Deployment_Wiring
  imports Deployment
begin

text \<open>
  What the deployment scripts achieve.  For each setter: it succeeds when its caller owns the contract
  and its arguments are contracts, and what it changes (\<open>configured\<close>, \<open>frame\<close>).  The locale
  \<open>deployment\<close> collects what the connection scripts need of the contracts they are given; inside it the
  whole connection is run.  The Hardhat deployment is an interpretation, and the properties
  of the set-up follow: what is wired and what is not, and that no sequence of setter calls changes it.
\<close>

section \<open>What each setter does\<close>

text \<open>
  \<open>frame self E E'\<close>: the step from \<open>E\<close> to \<open>E'\<close> deploys nothing and changes the storage of no
  contract but \<open>self\<close>, ERC20 allowances apart.  \<open>configured\<close> adds that \<open>self\<close> renounced its ownership
  and what its slots are now.
\<close>

definition live :: "evm \<Rightarrow> address list \<Rightarrow> bool" where
  "live E as \<longleftrightarrow> (\<forall>a \<in> set as. 0 < a \<and> hasCode E a)"

definition frame :: "address \<Rightarrow> evm \<Rightarrow> evm \<Rightarrow> bool" where
  "frame self E E' \<longleftrightarrow> hasCode E' = hasCode E \<and> cls E' = cls E \<and> nextAddr E' = nextAddr E \<and>
     balanceOf E' = balanceOf E \<and>
     (\<forall>a. a \<noteq> self \<longrightarrow> owner E' a = owner E a \<and> slot E' a = slot E a \<and> flag E' a = flag E a \<and>
        arr E' a = arr E a)"

definition updates :: "(string \<Rightarrow> nat) \<Rightarrow> (string \<times> nat) list \<Rightarrow> string \<Rightarrow> nat" where
  "updates s writes = foldl (\<lambda>s (n, v). s(n := v)) s writes"

definition configured :: "address \<Rightarrow> (string \<times> nat) list \<Rightarrow> evm \<Rightarrow> evm \<Rightarrow> bool" where
  "configured self writes E E' \<longleftrightarrow> frame self E E' \<and> owner E' self = 0 \<and>
     slot E' self = updates (slot E self) writes"

lemma checkContract_live [simp]: "checkContract E a = Inr u \<longleftrightarrow> 0 < a \<and> hasCode E a"
  by (auto simp: checkContract_def rbind_Inr_iff)

lemma checkContracts_live: "checkContracts E as = Inr u \<longleftrightarrow> live E as"
  by (induction as) (auto simp: live_def rbind_Inr_iff)

lemma checkContracts_ok: "live E as \<Longrightarrow> checkContracts E as = Inr ()"
  by (simp add: checkContracts_live)

lemma frame_live: "frame self E E' \<Longrightarrow> live E' as = live E as"
  by (simp add: frame_def live_def)

lemma frame_other:
  assumes "frame self E E'" "a \<noteq> self"
  shows "owner E' a = owner E a" "slot E' a = slot E a" "flag E' a = flag E a" "arr E' a = arr E a"
  using assms by (simp_all add: frame_def)

lemma frame_all: "frame self E E' \<Longrightarrow> cls E' = cls E \<and> hasCode E' = hasCode E \<and> balanceOf E' = balanceOf E"
  by (simp add: frame_def)

lemma configured_frame: "configured self ws E E' \<Longrightarrow> frame self E E'"
  by (simp add: configured_def)

lemma sortedTroves_setParams_ok:
  assumes "owner E self = me" "0 < sz" "live E [tm, bo]"
  shows "\<exists>E'. sortedTroves_setParams me self sz tm bo E = Inr E' \<and>
     configured self [(''maxSize'', sz), (''troveManager'', tm), (''borrowerOperationsAddress'', bo)] E E'"
  using assms
  by (simp add: sortedTroves_setParams_def onlyOwner_def checkContracts_ok configured_def frame_def evm_run
      updates_def del: checkContracts.simps)

lemma functionCaller_set_ok:
  "\<exists>E'. functionCaller_setTroveManagerAddress self a E = Inr E' \<and> frame self E E' \<and>
     slot E' self = updates (slot E self) [(''troveManagerAddress'', a), (''troveManager'', a)]"
  "\<exists>E'. functionCaller_setSortedTrovesAddress self a E = Inr E' \<and> frame self E E' \<and>
     slot E' self = updates (slot E self) [(''troveManagerAddress'', a), (''sortedTroves'', a)]"
  by (simp_all add: functionCaller_setTroveManagerAddress_def functionCaller_setSortedTrovesAddress_def
      frame_def evm_run updates_def)

lemma troveManager_setAddresses_ok:
  assumes "owner E self = me" "live E [a1, a2, a3, a4, a5, a6, a7, a8, a9, a10, a11, a12, a13]"
    "cls E a1 = ''WETH''"
  shows "\<exists>E'. troveManager_setAddresses me self [a1, a2, a3, a4, a5, a6, a7, a8, a9, a10, a11, a12, a13] E = Inr E' \<and>
     configured self [(''borrowerOperationsAddress'', a3), (''wETHGatewayAddress'', a2), (''collToken'', a1),
       (''activePool'', a4), (''defaultPool'', a5), (''stabilityPool'', a6), (''gasPoolAddress'', a7),
       (''collSurplusPool'', a8), (''priceFeed'', a9), (''usddToken'', a10), (''sortedTroves'', a11),
       (''deftToken'', a12), (''deftStaking'', a13)] E E'"
proof -
  have "hasCode E a1" using assms(2) by (simp add: live_def)
  then show ?thesis
    using assms
    by (simp add: troveManager_setAddresses_def onlyOwner_def checkContracts_ok configured_def frame_def
        evm_run updates_def del: checkContracts.simps)
qed

lemma borrowerOperations_setAddresses_ok:
  assumes "owner E self = me" "live E [a1, a2, a3, a4, a5, a6, a7, a8, a9, a10, a11, a12]"
    "cls E a1 = ''WETH''"
  shows "\<exists>E'. borrowerOperations_setAddresses me self [a1, a2, a3, a4, a5, a6, a7, a8, a9, a10, a11, a12] E = Inr E' \<and>
     configured self [(''collToken'', a1), (''wETHGatewayAddress'', slot E self ''wETHGatewayAddress''),
       (''troveManager'', a3), (''activePool'', a4), (''defaultPool'', a5), (''stabilityPoolAddress'', a6),
       (''gasPoolAddress'', a7), (''collSurplusPool'', a8), (''priceFeed'', a9), (''sortedTroves'', a10),
       (''usddToken'', a11), (''deftStakingAddress'', a12), (''deftStaking'', a12)] E E'"
proof -
  have "hasCode E a1" using assms(2) by (simp add: live_def)
  then show ?thesis
    using assms
    by (simp add: borrowerOperations_setAddresses_def onlyOwner_def checkContracts_ok configured_def
        frame_def evm_run updates_def del: checkContracts.simps)
qed

lemma stabilityPool_setAddresses_ok:
  assumes "owner E self = me" "live E [a1, a2, a3, a4, a5, a6, a7, a8, a9]" "cls E a1 = ''WETH''"
  shows "\<exists>E'. stabilityPool_setAddresses me self [a1, a2, a3, a4, a5, a6, a7, a8, a9] E = Inr E' \<and>
     configured self [(''collToken'', a1), (''wETHGatewayAddress'', a2), (''borrowerOperations'', a3),
       (''troveManager'', a4), (''activePool'', a5), (''usddToken'', a6), (''sortedTroves'', a7),
       (''priceFeed'', a8), (''communityIssuance'', a9)] E E'"
proof -
  have "hasCode E a1" using assms(2) by (simp add: live_def)
  then show ?thesis
    using assms
    by (simp add: stabilityPool_setAddresses_def onlyOwner_def checkContracts_ok configured_def frame_def
        evm_run updates_def del: checkContracts.simps)
qed

lemma activePool_setAddresses_ok:
  assumes "owner E self = me" "live E [tm, bo, sp, dp]"
  shows "\<exists>E'. activePool_setAddresses me self [tm] [bo] sp dp E = Inr E' \<and>
     configured self [(''stabilityPoolAddress'', sp), (''defaultPoolAddress'', dp)] E E' \<and>
     flag E' self ''authorizedTroveManagers'' tm \<and> flag E' self ''authorizedBorrowerOperations'' bo"
  using assms
  by (simp add: activePool_setAddresses_def onlyOwner_def configured_def frame_def evm_run
      updates_def live_def fun_eq_iff)

lemma defaultPool_setAddresses_ok:
  assumes "owner E self = me" "live E [tm, ap]" "is_trove_manager E tm" "tm \<noteq> self"
    "live E [slot E tm ''collToken'']" "cls E (slot E tm ''collToken'') = ''WETH''"
  shows "\<exists>E'. defaultPool_setAddresses me self [tm] ap E = Inr E' \<and>
     configured self [(''activePoolAddress'', ap)] E E' \<and> flag E' self ''authorizedTroveManagers'' tm"
  using assms
  by (simp add: defaultPool_setAddresses_def onlyOwner_def configured_def frame_def evm_run
      updates_def live_def fun_eq_iff is_trove_manager_def)

text \<open>Without the TroveManager wired the DefaultPool cannot be: its collateral token slot is still zero.\<close>

lemma defaultPool_needs_troveManager:
  assumes "slot E tm ''collToken'' = 0" "\<not> hasCode E 0" "tm \<noteq> self"
  shows "\<not> is_ok (defaultPool_setAddresses me self [tm] ap E)"
  using assms
  by (auto simp: defaultPool_setAddresses_def rbind_def approve_def onlyOwner_def require_def
      checkContract_def evm_run split: sum.splits if_splits)

lemma collSurplusPool_setAddresses_ok:
  assumes "owner E self = me" "live E [tm, bo, ap]" "arr E self ''collTokens'' = []"
  shows "\<exists>E'. collSurplusPool_setAddresses me self [t] [tm] [bo] ap E = Inr E' \<and>
     configured self [(''activePoolAddress'', ap)] E E' \<and> flag E' self ''_authorizedTroveManagers'' tm \<and>
     flag E' self ''_authorizedBorrowerOperations'' bo \<and> arr E' self ''collTokens'' = [t]"
  using assms
  by (simp add: collSurplusPool_setAddresses_def onlyOwner_def configured_def frame_def evm_run
      updates_def live_def fun_eq_iff)

lemma hintHelpers_setAddresses_ok:
  assumes "owner E self = me" "live E [st, tm]"
  shows "\<exists>E'. hintHelpers_setAddresses me self [st, tm] E = Inr E' \<and>
     configured self [(''sortedTroves'', st), (''troveManager'', tm)] E E'"
  using assms
  by (simp add: hintHelpers_setAddresses_def onlyOwner_def checkContracts_ok configured_def frame_def
      evm_run updates_def del: checkContracts.simps)

lemma deftStaking_setAddresses_ok:
  assumes "owner E self = me" "live E [tm, bo, dt, usdd, ap, gw]" "arr E self ''collTokens'' = []"
  shows "\<exists>E'. deftStaking_setAddresses me self [t] [tm] [bo] [dt, usdd, ap, gw] E = Inr E' \<and>
     configured self [(''wETHGatewayAddress'', gw), (''deftToken'', dt), (''usddToken'', usdd),
       (''activePoolAddress'', ap)] E E' \<and> flag E' self ''authorizedTroveManagers'' tm \<and>
     flag E' self ''authorizedBorrowerOperations'' bo \<and> arr E' self ''collTokens'' = [t]"
  using assms
  by (simp add: deftStaking_setAddresses_def onlyOwner_def configured_def frame_def evm_run
      updates_def live_def fun_eq_iff)

text \<open>CommunityIssuance keeps its owner.\<close>

lemma communityIssuance_setAddresses_ok:
  assumes "owner E self = me" "live E [dt, sp]" "slot E self ''DEFTSupplyCap'' = 0"
  shows "\<exists>E'. communityIssuance_setAddresses me self [dt, sp] E = Inr E' \<and> frame self E E' \<and>
     owner E' self = me \<and>
     slot E' self = updates (slot E self) [(''deftToken'', dt), (''stabilityPoolAddress'', sp)]"
  using assms
  by (simp add: communityIssuance_setAddresses_def onlyOwner_def checkContracts_ok frame_def evm_run
      updates_def del: checkContracts.simps)

section \<open>The wiring the system needs\<close>

text \<open>
  The specification of a connected system, one row for each storage variable of the contracts that holds
  an address (the inherited ones too): contract, storage variable, and the contract it is there to name.
  \<open>not_wired\<close> lists the rows that the set-up does not establish.
\<close>

definition wiring :: "(string \<times> string \<times> string) list" where
  "wiring =
     [(''sortedTroves'', ''troveManager'', ''troveManager''),
      (''sortedTroves'', ''borrowerOperationsAddress'', ''borrowerOperations''),
      (''troveManager'', ''collToken'', ''weth''),
      (''troveManager'', ''wETHGatewayAddress'', ''wETHGateway''),
      (''troveManager'', ''borrowerOperationsAddress'', ''borrowerOperations''),
      (''troveManager'', ''activePool'', ''activePool''),
      (''troveManager'', ''defaultPool'', ''defaultPool''),
      (''troveManager'', ''stabilityPool'', ''stabilityPool''),
      (''troveManager'', ''gasPoolAddress'', ''gasPool''),
      (''troveManager'', ''collSurplusPool'', ''collSurplusPool''),
      (''troveManager'', ''priceFeed'', ''priceFeedTestnet''),
      (''troveManager'', ''usddToken'', ''usddToken''),
      (''troveManager'', ''sortedTroves'', ''sortedTroves''),
      (''troveManager'', ''deftToken'', ''deftToken''),
      (''troveManager'', ''deftStaking'', ''deftStaking''),
      (''borrowerOperations'', ''collToken'', ''weth''),
      (''borrowerOperations'', ''troveManager'', ''troveManager''),
      (''borrowerOperations'', ''activePool'', ''activePool''),
      (''borrowerOperations'', ''defaultPool'', ''defaultPool''),
      (''borrowerOperations'', ''stabilityPoolAddress'', ''stabilityPool''),
      (''borrowerOperations'', ''gasPoolAddress'', ''gasPool''),
      (''borrowerOperations'', ''collSurplusPool'', ''collSurplusPool''),
      (''borrowerOperations'', ''priceFeed'', ''priceFeedTestnet''),
      (''borrowerOperations'', ''sortedTroves'', ''sortedTroves''),
      (''borrowerOperations'', ''usddToken'', ''usddToken''),
      (''borrowerOperations'', ''deftStaking'', ''deftStaking''),
      (''borrowerOperations'', ''deftStakingAddress'', ''deftStaking''),
      (''borrowerOperations'', ''wETHGatewayAddress'', ''wETHGateway''),
      (''stabilityPool'', ''collToken'', ''weth''),
      (''stabilityPool'', ''wETHGatewayAddress'', ''wETHGateway''),
      (''stabilityPool'', ''borrowerOperations'', ''borrowerOperations''),
      (''stabilityPool'', ''troveManager'', ''troveManager''),
      (''stabilityPool'', ''activePool'', ''activePool''),
      (''stabilityPool'', ''defaultPool'', ''defaultPool''),
      (''stabilityPool'', ''usddToken'', ''usddToken''),
      (''stabilityPool'', ''sortedTroves'', ''sortedTroves''),
      (''stabilityPool'', ''priceFeed'', ''priceFeedTestnet''),
      (''stabilityPool'', ''communityIssuance'', ''communityIssuance''),
      (''activePool'', ''stabilityPoolAddress'', ''stabilityPool''),
      (''activePool'', ''defaultPoolAddress'', ''defaultPool''),
      (''defaultPool'', ''activePoolAddress'', ''activePool''),
      (''collSurplusPool'', ''activePoolAddress'', ''activePool''),
      (''hintHelpers'', ''sortedTroves'', ''sortedTroves''),
      (''hintHelpers'', ''troveManager'', ''troveManager''),
      (''hintHelpers'', ''activePool'', ''activePool''),
      (''hintHelpers'', ''defaultPool'', ''defaultPool''),
      (''hintHelpers'', ''priceFeed'', ''priceFeedTestnet''),
      (''functionCaller'', ''troveManager'', ''troveManager''),
      (''functionCaller'', ''troveManagerAddress'', ''troveManager''),
      (''functionCaller'', ''sortedTroves'', ''sortedTroves''),
      (''functionCaller'', ''sortedTrovesAddress'', ''sortedTroves''),
      (''functionCaller'', ''priceFeed'', ''priceFeedTestnet''),
      (''functionCaller'', ''priceFeedAddress'', ''priceFeedTestnet''),
      (''usddToken'', ''troveManagerAddress'', ''troveManager''),
      (''usddToken'', ''stabilityPoolAddress'', ''stabilityPool''),
      (''usddToken'', ''borrowerOperationsAddress'', ''borrowerOperations''),
      (''wETHGateway'', ''WETH'', ''weth''),
      (''wETHGateway'', ''borrowerOperations'', ''borrowerOperations''),
      (''wETHGateway'', ''troveManager'', ''troveManager''),
      (''wETHGateway'', ''stabilityPool'', ''stabilityPool''),
      (''wETHGateway'', ''lQTYStaking'', ''deftStaking''),
      (''deftStaking'', ''wETHGatewayAddress'', ''wETHGateway''),
      (''deftStaking'', ''deftToken'', ''deftToken''),
      (''deftStaking'', ''usddToken'', ''usddToken''),
      (''deftStaking'', ''activePoolAddress'', ''activePool''),
      (''communityIssuance'', ''deftToken'', ''deftToken''),
      (''communityIssuance'', ''stabilityPoolAddress'', ''stabilityPool'')]"

definition not_wired :: "(string \<times> string) list" where
  "not_wired =
     [(''borrowerOperations'', ''wETHGatewayAddress''), (''stabilityPool'', ''defaultPool''),
      (''hintHelpers'', ''activePool''), (''hintHelpers'', ''defaultPool''), (''hintHelpers'', ''priceFeed''),
      (''functionCaller'', ''troveManagerAddress''), (''functionCaller'', ''sortedTrovesAddress''),
      (''functionCaller'', ''priceFeed''), (''functionCaller'', ''priceFeedAddress''),
      (''wETHGateway'', ''lQTYStaking'')]"

text \<open>The instance of a name: the DEFT contracts are a separate object.\<close>

definition inst :: "instances \<Rightarrow> instances \<Rightarrow> string \<Rightarrow> address" where
  "inst core deft n =
     (if n \<in> {''deftStaking'', ''communityIssuance'', ''deftToken''} then the (deft n) else the (core n))"

definition wired :: "evm \<Rightarrow> instances \<Rightarrow> instances \<Rightarrow> bool" where
  "wired E core deft \<longleftrightarrow>
     (\<forall>(c, s, t) \<in> set wiring. (c, s) \<notin> set not_wired \<longrightarrow> slot E (inst core deft c) s = inst core deft t)"

definition misses :: "evm \<Rightarrow> instances \<Rightarrow> instances \<Rightarrow> bool" where
  "misses E core deft \<longleftrightarrow>
     (\<forall>(c, s) \<in> set not_wired. slot E (inst core deft c) s =
        (if (c, s) = (''functionCaller'', ''troveManagerAddress'') then inst core deft ''sortedTroves'' else 0))"

text \<open>Who may call the pools and the staking contract, and the collateral tokens they know.\<close>

definition authorized :: "evm \<Rightarrow> instances \<Rightarrow> instances \<Rightarrow> bool" where
  "authorized E core deft \<longleftrightarrow>
     (\<forall>(c, f, a) \<in> set [(''activePool'', ''authorizedTroveManagers'', ''troveManager''),
        (''activePool'', ''authorizedBorrowerOperations'', ''borrowerOperations''),
        (''defaultPool'', ''authorizedTroveManagers'', ''troveManager''),
        (''collSurplusPool'', ''_authorizedTroveManagers'', ''troveManager''),
        (''collSurplusPool'', ''_authorizedBorrowerOperations'', ''borrowerOperations''),
        (''deftStaking'', ''authorizedTroveManagers'', ''troveManager''),
        (''deftStaking'', ''authorizedBorrowerOperations'', ''borrowerOperations'')].
        flag E (inst core deft c) f (inst core deft a)) \<and>
     (\<forall>c \<in> set [''collSurplusPool'', ''deftStaking'']. arr E (inst core deft c) ''collTokens'' = [inst core deft ''weth''])"

definition renounced_contracts :: "string list" where
  "renounced_contracts = [''sortedTroves'', ''troveManager'', ''borrowerOperations'', ''stabilityPool'',
     ''activePool'', ''defaultPool'', ''collSurplusPool'', ''hintHelpers'', ''deftStaking'']"

section \<open>Running the connection scripts\<close>

lemma call_on_step:
  assumes "obj target = Some self" "params = Inr ps" "method self ps E = Inr E'"
  shows "jbind (call_on obj target params method) f E = f () E'" "call_on obj target params method E = (Inr (), E')"
  using assms by (simp_all add: call_on_def addr_def transact_def jbind_def)

lemma addrs_Cons: "obj n = Some a \<Longrightarrow> addrs obj ns = Inr as \<Longrightarrow> addrs obj (n # ns) = Inr (a # as)"
  by (simp add: addr_def)

text \<open>What the connection scripts need of a deployment.\<close>

locale deployment =
  fixes me :: address and E0 :: evm and core deft :: instances
    and weth gw pf usdd st tm ap sp gp dp csp fc bo hh staking ci dt :: address
  assumes core: "core ''weth'' = Some weth" "core ''wETHGateway'' = Some gw"
      "core ''priceFeedTestnet'' = Some pf" "core ''usddToken'' = Some usdd"
      "core ''sortedTroves'' = Some st" "core ''troveManager'' = Some tm" "core ''activePool'' = Some ap"
      "core ''stabilityPool'' = Some sp" "core ''gasPool'' = Some gp" "core ''defaultPool'' = Some dp"
      "core ''collSurplusPool'' = Some csp" "core ''functionCaller'' = Some fc"
      "core ''borrowerOperations'' = Some bo" "core ''hintHelpers'' = Some hh"
    and deft: "deft ''deftStaking'' = Some staking" "deft ''communityIssuance'' = Some ci"
      "deft ''deftToken'' = Some dt"
    and diff: "distinct [st, fc, tm, bo, sp, ap, dp, csp, hh, staking, ci, usdd, gw]"
    and all_live: "live E0 [weth, gw, pf, usdd, st, tm, ap, sp, gp, dp, csp, fc, bo, hh, staking, ci, dt]"
    and owned: "\<forall>a \<in> set [st, tm, bo, sp, ap, dp, csp, hh, staking, ci]. owner E0 a = me"
    and classes: "cls E0 weth = ''WETH''" "is_trove_manager E0 tm"
    and empty: "arr E0 csp ''collTokens'' = []" "arr E0 staking ''collTokens'' = []"
      "slot E0 ci ''DEFTSupplyCap'' = 0"
    and unset: "slot E0 bo ''wETHGatewayAddress'' = 0" "slot E0 sp ''defaultPool'' = 0" "slot E0 hh ''activePool'' = 0"
      "slot E0 hh ''defaultPool'' = 0" "slot E0 hh ''priceFeed'' = 0" "slot E0 fc ''sortedTrovesAddress'' = 0"
      "slot E0 fc ''priceFeed'' = 0" "slot E0 fc ''priceFeedAddress'' = 0" "slot E0 gw ''lQTYStaking'' = 0"
    and constructed: "slot E0 usdd ''troveManagerAddress'' = tm" "slot E0 usdd ''stabilityPoolAddress'' = sp"
      "slot E0 usdd ''borrowerOperationsAddress'' = bo" "slot E0 gw ''WETH'' = weth"
      "slot E0 gw ''borrowerOperations'' = bo" "slot E0 gw ''troveManager'' = tm"
      "slot E0 gw ''stabilityPool'' = sp"
begin

lemmas lookups = core deft addr_def

lemma diff_rev: "distinct [gw, usdd, ci, staking, hh, csp, dp, ap, sp, bo, tm, fc, st]"
  using diff by auto

lemmas neqs = diff[simplified] diff_rev[simplified]

lemma live_sub: "set as \<subseteq> set [weth, gw, pf, usdd, st, tm, ap, sp, gp, dp, csp, fc, bo, hh, staking, ci, dt] \<Longrightarrow>
    live E0 as"
  using all_live unfolding live_def by blast

text \<open>
  The ten transactions of \<open>connectCoreContracts\<close> in order; each finds its contract still owned by the
  deployer, because the ones before configured other contracts.
\<close>

lemma core_steps:
  obtains E1 E2 E3 E4 E5 E6 E7 E8 E9 E' where
    "connectCoreContracts me core deft E0 = (Inr (), E')"
    "configured st [(''maxSize'', max_size), (''troveManager'', tm), (''borrowerOperationsAddress'', bo)] E0 E1"
    "frame fc E1 E2" "frame fc E2 E3"
    "slot E3 fc = updates (slot E0 fc) [(''troveManagerAddress'', tm), (''troveManager'', tm),
       (''troveManagerAddress'', st), (''sortedTroves'', st)]"
    "configured tm [(''borrowerOperationsAddress'', bo), (''wETHGatewayAddress'', gw), (''collToken'', weth),
       (''activePool'', ap), (''defaultPool'', dp), (''stabilityPool'', sp), (''gasPoolAddress'', gp),
       (''collSurplusPool'', csp), (''priceFeed'', pf), (''usddToken'', usdd), (''sortedTroves'', st),
       (''deftToken'', dt), (''deftStaking'', staking)] E3 E4"
    "configured bo [(''collToken'', weth), (''wETHGatewayAddress'', slot E0 bo ''wETHGatewayAddress''),
       (''troveManager'', tm), (''activePool'', ap), (''defaultPool'', dp), (''stabilityPoolAddress'', sp),
       (''gasPoolAddress'', gp), (''collSurplusPool'', csp), (''priceFeed'', pf), (''sortedTroves'', st),
       (''usddToken'', usdd), (''deftStakingAddress'', staking), (''deftStaking'', staking)] E4 E5"
    "configured sp [(''collToken'', weth), (''wETHGatewayAddress'', gw), (''borrowerOperations'', bo),
       (''troveManager'', tm), (''activePool'', ap), (''usddToken'', usdd), (''sortedTroves'', st),
       (''priceFeed'', pf), (''communityIssuance'', ci)] E5 E6"
    "configured ap [(''stabilityPoolAddress'', sp), (''defaultPoolAddress'', dp)] E6 E7"
    "flag E7 ap ''authorizedTroveManagers'' tm" "flag E7 ap ''authorizedBorrowerOperations'' bo"
    "configured dp [(''activePoolAddress'', ap)] E7 E8" "flag E8 dp ''authorizedTroveManagers'' tm"
    "configured csp [(''activePoolAddress'', ap)] E8 E9" "flag E9 csp ''_authorizedTroveManagers'' tm"
    "flag E9 csp ''_authorizedBorrowerOperations'' bo" "arr E9 csp ''collTokens'' = [weth]"
    "configured hh [(''sortedTroves'', st), (''troveManager'', tm)] E9 E'"
proof -
  note own = owned[simplified] and L = live_sub
  have p1: "owner E0 st = me" "0 < max_size" "live E0 [tm, bo]" by (simp_all add: own L max_size_def)
  obtain E1 where s1: "sortedTroves_setParams me st max_size tm bo E0 = Inr E1"
    "configured st [(''maxSize'', max_size), (''troveManager'', tm), (''borrowerOperationsAddress'', bo)] E0 E1"
    using sortedTroves_setParams_ok[OF p1] by blast
  note f1 = configured_frame[OF s1(2)]
  obtain E2 where s2: "functionCaller_setTroveManagerAddress fc tm E1 = Inr E2" "frame fc E1 E2"
    "slot E2 fc = updates (slot E1 fc) [(''troveManagerAddress'', tm), (''troveManager'', tm)]"
    using functionCaller_set_ok(1) by blast
  obtain E3 where s3: "functionCaller_setSortedTrovesAddress fc st E2 = Inr E3" "frame fc E2 E3"
    "slot E3 fc = updates (slot E2 fc) [(''troveManagerAddress'', st), (''sortedTroves'', st)]"
    using functionCaller_set_ok(2) by blast
  note F3 = frame_other[OF f1] frame_other[OF s2(2)] frame_other[OF s3(2)]
  note A3 = frame_all[OF f1] frame_all[OF s2(2)] frame_all[OF s3(2)]
  note L3 = frame_live[OF f1] frame_live[OF s2(2)] frame_live[OF s3(2)]
  have fc3: "slot E3 fc = updates (slot E0 fc) [(''troveManagerAddress'', tm), (''troveManager'', tm),
       (''troveManagerAddress'', st), (''sortedTroves'', st)]"
    using s2(3) s3(3) by (simp add: updates_def F3 neqs)
  have p4: "owner E3 tm = me" "live E3 [weth, gw, bo, ap, dp, sp, gp, csp, pf, usdd, st, dt, staking]"
    "cls E3 weth = ''WETH''" by (simp_all add: own L classes neqs F3 A3 L3)
  obtain E4 where s4: "troveManager_setAddresses me tm [weth, gw, bo, ap, dp, sp, gp, csp, pf, usdd, st, dt, staking] E3 = Inr E4"
    "configured tm [(''borrowerOperationsAddress'', bo), (''wETHGatewayAddress'', gw), (''collToken'', weth),
       (''activePool'', ap), (''defaultPool'', dp), (''stabilityPool'', sp), (''gasPoolAddress'', gp),
       (''collSurplusPool'', csp), (''priceFeed'', pf), (''usddToken'', usdd), (''sortedTroves'', st),
       (''deftToken'', dt), (''deftStaking'', staking)] E3 E4"
    using troveManager_setAddresses_ok[OF p4] by blast
  note f4 = configured_frame[OF s4(2)]
  note F4 = F3 frame_other[OF f4] and A4 = A3 frame_all[OF f4] and L4 = L3 frame_live[OF f4]
  have p5: "owner E4 bo = me" "live E4 [weth, gw, tm, ap, dp, sp, gp, csp, pf, st, usdd, staking]"
    "cls E4 weth = ''WETH''" and g5: "slot E4 bo = slot E0 bo"
    by (simp_all add: own L classes neqs F4 A4 L4)
  obtain E5 where s5: "borrowerOperations_setAddresses me bo [weth, gw, tm, ap, dp, sp, gp, csp, pf, st, usdd, staking] E4 = Inr E5"
    "configured bo [(''collToken'', weth), (''wETHGatewayAddress'', slot E0 bo ''wETHGatewayAddress''),
       (''troveManager'', tm), (''activePool'', ap), (''defaultPool'', dp), (''stabilityPoolAddress'', sp),
       (''gasPoolAddress'', gp), (''collSurplusPool'', csp), (''priceFeed'', pf), (''sortedTroves'', st),
       (''usddToken'', usdd), (''deftStakingAddress'', staking), (''deftStaking'', staking)] E4 E5"
    using borrowerOperations_setAddresses_ok[OF p5] unfolding g5 by blast
  note f5 = configured_frame[OF s5(2)]
  note F5 = F4 frame_other[OF f5] and A5 = A4 frame_all[OF f5] and L5 = L4 frame_live[OF f5]
  have p6: "owner E5 sp = me" "live E5 [weth, gw, bo, tm, ap, usdd, st, pf, ci]" "cls E5 weth = ''WETH''"
    by (simp_all add: own L classes neqs F5 A5 L5)
  obtain E6 where s6: "stabilityPool_setAddresses me sp [weth, gw, bo, tm, ap, usdd, st, pf, ci] E5 = Inr E6"
    "configured sp [(''collToken'', weth), (''wETHGatewayAddress'', gw), (''borrowerOperations'', bo),
       (''troveManager'', tm), (''activePool'', ap), (''usddToken'', usdd), (''sortedTroves'', st),
       (''priceFeed'', pf), (''communityIssuance'', ci)] E5 E6"
    using stabilityPool_setAddresses_ok[OF p6] by blast
  note f6 = configured_frame[OF s6(2)]
  note F6 = F5 frame_other[OF f6] and A6 = A5 frame_all[OF f6] and L6 = L5 frame_live[OF f6]
  have p7: "owner E6 ap = me" "live E6 [tm, bo, sp, dp]" by (simp_all add: own L neqs F6 L6)
  obtain E7 where s7: "activePool_setAddresses me ap [tm] [bo] sp dp E6 = Inr E7"
    "configured ap [(''stabilityPoolAddress'', sp), (''defaultPoolAddress'', dp)] E6 E7"
    "flag E7 ap ''authorizedTroveManagers'' tm" "flag E7 ap ''authorizedBorrowerOperations'' bo"
    using activePool_setAddresses_ok[OF p7] by blast
  note f7 = configured_frame[OF s7(2)]
  note F7 = F6 frame_other[OF f7] and A7 = A6 frame_all[OF f7] and L7 = L6 frame_live[OF f7]
  have tok: "slot E7 tm ''collToken'' = weth"
    using s4(2) by (simp add: neqs configured_def updates_def frame_other[OF f5] frame_other[OF f6]
        frame_other[OF f7])
  have p8: "owner E7 dp = me" "live E7 [tm, ap]" "is_trove_manager E7 tm" "tm \<noteq> dp"
    "live E7 [slot E7 tm ''collToken'']" "cls E7 (slot E7 tm ''collToken'') = ''WETH''"
    unfolding tok using classes by (simp_all add: own L neqs F7 A7 L7 is_trove_manager_def)
  obtain E8 where s8: "defaultPool_setAddresses me dp [tm] ap E7 = Inr E8"
    "configured dp [(''activePoolAddress'', ap)] E7 E8" "flag E8 dp ''authorizedTroveManagers'' tm"
    using defaultPool_setAddresses_ok[OF p8] by blast
  note f8 = configured_frame[OF s8(2)]
  note F8 = F7 frame_other[OF f8] and L8 = L7 frame_live[OF f8]
  have p9: "owner E8 csp = me" "live E8 [tm, bo, ap]" "arr E8 csp ''collTokens'' = []"
    by (simp_all add: own L empty neqs F8 L8)
  obtain E9 where s9: "collSurplusPool_setAddresses me csp [weth] [tm] [bo] ap E8 = Inr E9"
    "configured csp [(''activePoolAddress'', ap)] E8 E9" "flag E9 csp ''_authorizedTroveManagers'' tm"
    "flag E9 csp ''_authorizedBorrowerOperations'' bo" "arr E9 csp ''collTokens'' = [weth]"
    using collSurplusPool_setAddresses_ok[OF p9] by blast
  note f9 = configured_frame[OF s9(2)]
  note F9 = F8 frame_other[OF f9] and L9 = L8 frame_live[OF f9]
  have p10: "owner E9 hh = me" "live E9 [st, tm]" by (simp_all add: own L neqs F9 L9)
  obtain E' where s10: "hintHelpers_setAddresses me hh [st, tm] E9 = Inr E'"
    "configured hh [(''sortedTroves'', st), (''troveManager'', tm)] E9 E'"
    using hintHelpers_setAddresses_ok[OF p10] by blast
  have "connectCoreContracts me core deft E0 = (Inr (), E')"
    unfolding connectCoreContracts_def
    by (simp add: call_on_step lookups s1(1) s2(1) s3(1) s4(1) s5(1) s6(1) s7(1) s8(1) s9(1) s10(1))
  then show ?thesis
    using that s1(2) s2(2) s3(2) fc3 s4(2) s5(2) s6(2) s7(2-4) s8(2,3) s9(2-5) s10(2) by blast
qed

lemma connect_all:
  obtains E' where
    "jbind (connectCoreContracts me core deft) (\<lambda>_. connectDEFTContractsToCore me deft core) E0 = (Inr (), E')"
    "wired E' core deft" "\<forall>c \<in> set renounced_contracts. owner E' (inst core deft c) = 0"
    "owner E' ci = me" "misses E' core deft" "authorized E' core deft"
proof (rule core_steps)
  note own = owned[simplified] and L = live_sub
  fix E1 E2 E3 E4 E5 E6 E7 E8 E9 E10
  assume run: "connectCoreContracts me core deft E0 = (Inr (), E10)"
    and c1: "configured st [(''maxSize'', max_size), (''troveManager'', tm), (''borrowerOperationsAddress'', bo)] E0 E1"
    and f2: "frame fc E1 E2" and f3: "frame fc E2 E3"
    and s3: "slot E3 fc = updates (slot E0 fc) [(''troveManagerAddress'', tm), (''troveManager'', tm),
       (''troveManagerAddress'', st), (''sortedTroves'', st)]"
    and c4: "configured tm [(''borrowerOperationsAddress'', bo), (''wETHGatewayAddress'', gw), (''collToken'', weth),
       (''activePool'', ap), (''defaultPool'', dp), (''stabilityPool'', sp), (''gasPoolAddress'', gp),
       (''collSurplusPool'', csp), (''priceFeed'', pf), (''usddToken'', usdd), (''sortedTroves'', st),
       (''deftToken'', dt), (''deftStaking'', staking)] E3 E4"
    and c5: "configured bo [(''collToken'', weth), (''wETHGatewayAddress'', slot E0 bo ''wETHGatewayAddress''),
       (''troveManager'', tm), (''activePool'', ap), (''defaultPool'', dp), (''stabilityPoolAddress'', sp),
       (''gasPoolAddress'', gp), (''collSurplusPool'', csp), (''priceFeed'', pf), (''sortedTroves'', st),
       (''usddToken'', usdd), (''deftStakingAddress'', staking), (''deftStaking'', staking)] E4 E5"
    and c6: "configured sp [(''collToken'', weth), (''wETHGatewayAddress'', gw), (''borrowerOperations'', bo),
       (''troveManager'', tm), (''activePool'', ap), (''usddToken'', usdd), (''sortedTroves'', st),
       (''priceFeed'', pf), (''communityIssuance'', ci)] E5 E6"
    and c7: "configured ap [(''stabilityPoolAddress'', sp), (''defaultPoolAddress'', dp)] E6 E7"
    and g7: "flag E7 ap ''authorizedTroveManagers'' tm" "flag E7 ap ''authorizedBorrowerOperations'' bo"
    and c8: "configured dp [(''activePoolAddress'', ap)] E7 E8"
    and g8: "flag E8 dp ''authorizedTroveManagers'' tm"
    and c9: "configured csp [(''activePoolAddress'', ap)] E8 E9"
    and g9: "flag E9 csp ''_authorizedTroveManagers'' tm" "flag E9 csp ''_authorizedBorrowerOperations'' bo"
      "arr E9 csp ''collTokens'' = [weth]"
    and c10: "configured hh [(''sortedTroves'', st), (''troveManager'', tm)] E9 E10"
  note C = c1 c4 c5 c6 c7 c8 c9 c10
  note fr = C[THEN configured_frame] f2 f3
  note F = fr[THEN frame_other(1)] fr[THEN frame_other(2)] fr[THEN frame_other(3)] fr[THEN frame_other(4)]
  have p11: "owner E10 staking = me" "live E10 [tm, bo, dt, usdd, ap, gw]" "arr E10 staking ''collTokens'' = []"
    by (simp_all add: own L empty neqs F fr[THEN frame_live])
  obtain E11 where s11: "deftStaking_setAddresses me staking [weth] [tm] [bo] [dt, usdd, ap, gw] E10 = Inr E11"
    and c11: "configured staking [(''wETHGatewayAddress'', gw), (''deftToken'', dt), (''usddToken'', usdd),
       (''activePoolAddress'', ap)] E10 E11"
    and g11: "flag E11 staking ''authorizedTroveManagers'' tm" "flag E11 staking ''authorizedBorrowerOperations'' bo"
      "arr E11 staking ''collTokens'' = [weth]"
    using deftStaking_setAddresses_ok[OF p11] by blast
  note f11 = configured_frame[OF c11]
  note F11 = F frame_other[OF f11]
  have p12: "owner E11 ci = me" "live E11 [dt, sp]" "slot E11 ci ''DEFTSupplyCap'' = 0"
    by (simp_all add: own L empty neqs F11 fr[THEN frame_live] frame_live[OF f11])
  obtain E12 where s12: "communityIssuance_setAddresses me ci [dt, sp] E11 = Inr E12"
    and f12: "frame ci E11 E12" and o12: "owner E12 ci = me"
    and t12: "slot E12 ci = updates (slot E11 ci) [(''deftToken'', dt), (''stabilityPoolAddress'', sp)]"
    using communityIssuance_setAddresses_ok[OF p12] by blast
  note F12 = F11 frame_other[OF f12]
  have "jbind (connectCoreContracts me core deft) (\<lambda>_. connectDEFTContractsToCore me deft core) E0 = (Inr (), E12)"
    by (simp add: jbind_def[of "connectCoreContracts me core deft"] run connectDEFTContractsToCore_def call_on_step lookups s11 s12)
  moreover have "\<forall>c \<in> set renounced_contracts. owner E12 (inst core deft c) = 0"
    using C c11 by (simp add: renounced_contracts_def inst_def lookups configured_def F12 neqs)
  moreover have "wired E12 core deft"
    using C c11
    by (simp add: wired_def wiring_def not_wired_def inst_def lookups configured_def F12 neqs updates_def t12 constructed s3)
  moreover have "misses E12 core deft"
    using C c11
    by (simp add: misses_def not_wired_def inst_def lookups configured_def F12 neqs updates_def s3 unset)
  moreover have "authorized E12 core deft"
    using g7 g8 g9 g11 by (simp add: authorized_def inst_def lookups F12 neqs)
  ultimately show thesis using that o12 by blast
qed

end

section \<open>The Hardhat deployment\<close>

definition hardhat_deploy :: "address \<Rightarrow> (evm, instances \<times> instances) js" where
  "hardhat_deploy me =
     jbind (deployLiquityCoreHardhat me) (\<lambda>core.
     jbind (deployDEFTContractsHardhat me) (\<lambda>deft. jret (core, deft)))"

text \<open>The set-up of the test suites: deploy both groups of contracts, then connect them.\<close>

definition hardhat_setup :: "address \<Rightarrow> (evm, instances \<times> instances) js" where
  "hardhat_setup me =
     jbind (hardhat_deploy me) (\<lambda>(core, deft).
     jbind (jbind (connectCoreContracts me core deft) (\<lambda>_. connectDEFTContractsToCore me deft core)) (\<lambda>_.
     jret (core, deft)))"

definition hardhat_core :: "address \<Rightarrow> instances" where
  "hardhat_core b = map_of [(''weth'', b), (''wETHGateway'', b + 13), (''priceFeedTestnet'', b + 1),
     (''usddToken'', b + 12), (''sortedTroves'', b + 2), (''troveManager'', b + 3), (''activePool'', b + 4),
     (''stabilityPool'', b + 5), (''gasPool'', b + 6), (''defaultPool'', b + 7), (''collSurplusPool'', b + 8),
     (''functionCaller'', b + 9), (''borrowerOperations'', b + 10), (''hintHelpers'', b + 11)]"

definition hardhat_deft :: "address \<Rightarrow> instances" where
  "hardhat_deft b = map_of [(''deftStaking'', b + 14), (''communityIssuance'', b + 15), (''deftToken'', b + 16)]"

definition hardhat_state :: "address \<Rightarrow> evm \<Rightarrow> evm" where
  "hardhat_state me E = (let b = nextAddr E in
     fresh me ''ERC20Mock'' (fresh me ''CommunityIssuance'' (fresh me ''DEFTStaking''
       (approved b (b + 13) (b + 10)
         (store (b + 13) [(''borrowerOperations'', b + 10), (''troveManager'', b + 3), (''stabilityPool'', b + 5),
            (''WETH'', b)] (fresh me ''WETHGateway''
         (store (b + 12) [(''troveManagerAddress'', b + 3), (''stabilityPoolAddress'', b + 5),
            (''borrowerOperationsAddress'', b + 10)] (fresh me ''USDDToken''
       (foldl (\<lambda>E c. fresh me c E) E [''WETH'', ''PriceFeedTestnet'', ''SortedTroves'', ''TroveManager'',
          ''ActivePool'', ''StabilityPool'', ''GasPool'', ''DefaultPool'', ''CollSurplusPool'', ''FunctionCaller'',
          ''BorrowerOperations'', ''HintHelpers'']))))))))) "

lemma hardhat_deploy_run:
  assumes "0 < nextAddr E"
  shows "hardhat_deploy me E = (Inr (hardhat_core (nextAddr E), hardhat_deft (nextAddr E)), hardhat_state me E)"
  using assms
  by (simp add: hardhat_deploy_def deployLiquityCoreHardhat_def deployDEFTContractsHardhat_def jbind_def
      evm_run hardhat_core_def hardhat_deft_def hardhat_state_def Let_def eval_nat_numeral)

lemma hardhat_deployment:
  assumes "0 < nextAddr E"
  shows "deployment me (hardhat_state me E) (hardhat_core (nextAddr E)) (hardhat_deft (nextAddr E))
     (nextAddr E) (nextAddr E + 13) (nextAddr E + 1) (nextAddr E + 12) (nextAddr E + 2) (nextAddr E + 3)
     (nextAddr E + 4) (nextAddr E + 5) (nextAddr E + 6) (nextAddr E + 7) (nextAddr E + 8) (nextAddr E + 9)
     (nextAddr E + 10) (nextAddr E + 11) (nextAddr E + 14) (nextAddr E + 15) (nextAddr E + 16)"
  using assms
  by unfold_locales
    (simp_all add: hardhat_core_def hardhat_deft_def hardhat_state_def Let_def evm_run live_def
      is_trove_manager_def ownable_def)

interpretation hardhat: deployment me "hardhat_state me (E\<lparr>nextAddr := Suc n\<rparr>)" "hardhat_core (Suc n)"
    "hardhat_deft (Suc n)" "Suc n" "Suc n + 13" "Suc n + 1" "Suc n + 12" "Suc n + 2" "Suc n + 3" "Suc n + 4"
    "Suc n + 5" "Suc n + 6" "Suc n + 7" "Suc n + 8" "Suc n + 9" "Suc n + 10" "Suc n + 11" "Suc n + 14"
    "Suc n + 15" "Suc n + 16"
  using hardhat_deployment[of "E\<lparr>nextAddr := Suc n\<rparr>" me] by (simp del: add_Suc)

lemma hardhat_setup_result:
  assumes "0 < nextAddr E"
  defines "b \<equiv> nextAddr E"
  obtains E' where "hardhat_setup me E = (Inr (hardhat_core b, hardhat_deft b), E')"
    "wired E' (hardhat_core b) (hardhat_deft b)"
    "\<forall>c \<in> set renounced_contracts. owner E' (inst (hardhat_core b) (hardhat_deft b) c) = 0"
    "owner E' (b + 15) = me" "misses E' (hardhat_core b) (hardhat_deft b)"
    "authorized E' (hardhat_core b) (hardhat_deft b)"
proof -
  obtain n where b: "b = Suc n" using gr0_implies_Suc[OF assms(1)] by (auto simp: b_def)
  have E: "E\<lparr>nextAddr := Suc n\<rparr> = E" using b by (simp add: b_def)
  note run = hardhat_deploy_run[OF assms(1), of me, folded b_def]
  show thesis
    by (rule hardhat.connect_all[where me = me and E = E and n = n, unfolded E, folded b], rule that)
      (simp_all add: hardhat_setup_def jbind_def[of "hardhat_deploy me"] run
        jbind_def[of "jbind (connectCoreContracts me c d) f" for c d f])
qed

section \<open>Properties\<close>

lemma hardhat_names:
  "inst (hardhat_core b) (hardhat_deft b) ''communityIssuance'' = b + 15"
  "inst (hardhat_core b) (hardhat_deft b) ''functionCaller'' = b + 9"
  "inst (hardhat_core b) (hardhat_deft b) ''sortedTroves'' = b + 2"
  by (simp_all add: inst_def hardhat_core_def hardhat_deft_def)

text \<open>What a row of \<open>not_wired\<close> holds is not what it is there to name.\<close>

lemma missed_rows_differ:
  assumes "0 < b"
  shows "\<forall>(c, s, t) \<in> set wiring. (c, s) \<in> set not_wired \<longrightarrow>
     (if (c, s) = (''functionCaller'', ''troveManagerAddress'') then inst (hardhat_core b) (hardhat_deft b) ''sortedTroves''
      else 0) \<noteq> inst (hardhat_core b) (hardhat_deft b) t"
  using assms by (simp add: wiring_def not_wired_def inst_def hardhat_core_def hardhat_deft_def)

text \<open>C37. On any chain, deploying with the Hardhat helpers and connecting succeeds.  Afterwards, of the table with a
  row for every address variable of the contracts, exactly the rows outside \<open>not_wired\<close> name the right contract.
  BorrowerOperations assigns its gateway variable to itself, so it stays zero; FunctionCaller's \<open>troveManagerAddress\<close> is
  overwritten with SortedTroves, and the other rows of \<open>not_wired\<close> are never assigned and stay zero, among them the staking contract
  of the gateway.  Every configured contract has renounced its ownership, CommunityIssuance is still owned by the deployer, and
  the pools and the staking contract accept the TroveManager and BorrowerOperations and know the collateral.\<close>

theorem hardhat_setup_wires_system:
  assumes "0 < nextAddr E"
  shows "\<exists>core deft E'. hardhat_setup me E = (Inr (core, deft), E') \<and>
     (\<forall>(c, s, t) \<in> set wiring. slot E' (inst core deft c) s = inst core deft t \<longleftrightarrow> (c, s) \<notin> set not_wired) \<and>
     (\<forall>(c, s) \<in> set not_wired. slot E' (inst core deft c) s =
        (if (c, s) = (''functionCaller'', ''troveManagerAddress'') then inst core deft ''sortedTroves'' else 0)) \<and>
     (\<forall>c \<in> set renounced_contracts. owner E' (inst core deft c) = 0) \<and>
     owner E' (inst core deft ''communityIssuance'') = me \<and> authorized E' core deft"
proof (rule hardhat_setup_result[OF assms, of me])
  let ?core = "hardhat_core (nextAddr E)" and ?deft = "hardhat_deft (nextAddr E)"
  fix E'
  assume run: "hardhat_setup me E = (Inr (?core, ?deft), E')" and wired: "wired E' ?core ?deft"
    and owners: "\<forall>c \<in> set renounced_contracts. owner E' (inst ?core ?deft c) = 0" "owner E' (nextAddr E + 15) = me"
    and misses: "misses E' ?core ?deft" and auth: "authorized E' ?core ?deft"
  have rows: "slot E' (inst ?core ?deft c) s = inst ?core ?deft t \<longleftrightarrow> (c, s) \<notin> set not_wired"
    if "(c, s, t) \<in> set wiring" for c s t
  proof (cases "(c, s) \<in> set not_wired")
    case True
    then show ?thesis using missed_rows_differ[OF assms] that misses unfolding misses_def by fastforce
  next
    case False
    then show ?thesis using wired that unfolding wired_def by fastforce
  qed
  show ?thesis
    by (intro exI[of _ ?core] exI[of _ ?deft] exI[of _ E'] conjI)
      (use run rows owners misses auth in \<open>auto simp: misses_def hardhat_names\<close>)
qed

text \<open>A chain with no contracts yet.\<close>

definition genesis :: evm where
  "genesis = \<lparr>hasCode = (\<lambda>_. False), cls = (\<lambda>_. ''''), owner = (\<lambda>_. 0), slot = (\<lambda>_ _. 0), flag = (\<lambda>_ _ _. False),
     arr = (\<lambda>_ _. []), balanceOf = (\<lambda>_ _. 0), allowance = (\<lambda>_ _ _. 0), nextAddr = 100\<rparr>"

theorem hardhat_setup_wires_system_witness:
  "\<exists>core deft E'. hardhat_setup 7 genesis = (Inr (core, deft), E') \<and>
     slot E' (inst core deft ''troveManager'') ''activePool'' = inst core deft ''activePool'' \<and>
     slot E' (inst core deft ''borrowerOperations'') ''wETHGatewayAddress'' = 0"
proof -
  have "0 < nextAddr genesis" by (simp add: genesis_def)
  from hardhat_setup_wires_system[OF this, of 7] obtain core deft E' where run: "hardhat_setup 7 genesis = (Inr (core, deft), E')"
    and rows: "\<forall>(c, s, t) \<in> set wiring. slot E' (inst core deft c) s = inst core deft t \<longleftrightarrow> (c, s) \<notin> set not_wired"
    and missed: "\<forall>(c, s) \<in> set not_wired. slot E' (inst core deft c) s =
        (if (c, s) = (''functionCaller'', ''troveManagerAddress'') then inst core deft ''sortedTroves'' else 0)"
    by blast
  have row: "(''troveManager'', ''activePool'', ''activePool'') \<in> set wiring" "(''troveManager'', ''activePool'') \<notin> set not_wired"
    "(''borrowerOperations'', ''wETHGatewayAddress'') \<in> set not_wired"
    by (simp_all add: wiring_def not_wired_def)
  show ?thesis using run bspec[OF rows row(1)] bspec[OF missed row(3)] row(2) by auto
qed

section \<open>The setters afterwards\<close>

text \<open>A call of a setter of one of the connected contracts: the external functions that write address variables,
  authorizations or the collateral tokens.\<close>

datatype setter =
    SortedTroves_setParams nat address address
  | TroveManager_setAddresses "address list"
  | BorrowerOperations_setAddresses "address list"
  | StabilityPool_setAddresses "address list"
  | ActivePool_setAddresses "address list" "address list" address address
  | ActivePool_authorizeTroveManagers "address list"
  | ActivePool_authorizeBorrowerOperations "address list"
  | DefaultPool_setAddresses "address list" address
  | DefaultPool_authorizeTroveManagers "address list"
  | CollSurplusPool_setAddresses "address list" "address list" "address list" address
  | CollSurplusPool_authorizeTroveManagers "address list"
  | CollSurplusPool_authorizeBorrowerOperations "address list"
  | CollSurplusPool_setCollTokens "address list"
  | HintHelpers_setAddresses "address list"
  | DEFTStaking_setAddresses "address list" "address list" "address list" "address list"
  | DEFTStaking_authorizeTroveManagers "address list"
  | DEFTStaking_authorizeBorrowerOperations "address list"
  | DEFTStaking_setCollTokens "address list"
  | CommunityIssuance_setAddresses "address list"
  | FunctionCaller_setTroveManagerAddress address
  | FunctionCaller_setSortedTrovesAddress address
  | FunctionCaller_setPriceFeedAddress address

fun setter_of :: "setter \<Rightarrow> string \<times> (address \<Rightarrow> address \<Rightarrow> evm \<Rightarrow> evm res)" where
  "setter_of (SortedTroves_setParams n t b) = (''sortedTroves'', \<lambda>me self. sortedTroves_setParams me self n t b)"
| "setter_of (TroveManager_setAddresses as) = (''troveManager'', \<lambda>me self. troveManager_setAddresses me self as)"
| "setter_of (BorrowerOperations_setAddresses as) =
     (''borrowerOperations'', \<lambda>me self. borrowerOperations_setAddresses me self as)"
| "setter_of (StabilityPool_setAddresses as) = (''stabilityPool'', \<lambda>me self. stabilityPool_setAddresses me self as)"
| "setter_of (ActivePool_setAddresses ts bs s d) = (''activePool'', \<lambda>me self. activePool_setAddresses me self ts bs s d)"
| "setter_of (ActivePool_authorizeTroveManagers ts) =
     (''activePool'', \<lambda>me self. activePool_authorizeTroveManagers me self ts)"
| "setter_of (ActivePool_authorizeBorrowerOperations bs) =
     (''activePool'', \<lambda>me self. activePool_authorizeBorrowerOperations me self bs)"
| "setter_of (DefaultPool_setAddresses ts a) = (''defaultPool'', \<lambda>me self. defaultPool_setAddresses me self ts a)"
| "setter_of (DefaultPool_authorizeTroveManagers ts) =
     (''defaultPool'', \<lambda>me self. defaultPool_authorizeTroveManagers_ext me self ts)"
| "setter_of (CollSurplusPool_setAddresses cs ts bs a) =
     (''collSurplusPool'', \<lambda>me self. collSurplusPool_setAddresses me self cs ts bs a)"
| "setter_of (CollSurplusPool_authorizeTroveManagers ts) =
     (''collSurplusPool'', \<lambda>me self. collSurplusPool_authorizeTroveManagers me self ts)"
| "setter_of (CollSurplusPool_authorizeBorrowerOperations bs) =
     (''collSurplusPool'', \<lambda>me self. collSurplusPool_authorizeBorrowerOperations me self bs)"
| "setter_of (CollSurplusPool_setCollTokens cs) = (''collSurplusPool'', \<lambda>me self. collSurplusPool_setCollTokens me self cs)"
| "setter_of (HintHelpers_setAddresses as) = (''hintHelpers'', \<lambda>me self. hintHelpers_setAddresses me self as)"
| "setter_of (DEFTStaking_setAddresses cs ts bs as) =
     (''deftStaking'', \<lambda>me self. deftStaking_setAddresses me self cs ts bs as)"
| "setter_of (DEFTStaking_authorizeTroveManagers ts) =
     (''deftStaking'', \<lambda>me self. deftStaking_authorizeTroveManagers me self ts)"
| "setter_of (DEFTStaking_authorizeBorrowerOperations bs) =
     (''deftStaking'', \<lambda>me self. deftStaking_authorizeBorrowerOperations me self bs)"
| "setter_of (DEFTStaking_setCollTokens cs) = (''deftStaking'', \<lambda>me self. deftStaking_setCollTokens me self cs)"
| "setter_of (CommunityIssuance_setAddresses as) =
     (''communityIssuance'', \<lambda>me self. communityIssuance_setAddresses me self as)"
| "setter_of (FunctionCaller_setTroveManagerAddress a) =
     (''functionCaller'', \<lambda>me self. functionCaller_setTroveManagerAddress self a)"
| "setter_of (FunctionCaller_setSortedTrovesAddress a) =
     (''functionCaller'', \<lambda>me self. functionCaller_setSortedTrovesAddress self a)"
| "setter_of (FunctionCaller_setPriceFeedAddress a) =
     (''functionCaller'', \<lambda>me self. functionCaller_setPriceFeedAddress self a)"

definition run_setter :: "instances \<Rightarrow> instances \<Rightarrow> address \<Rightarrow> setter \<Rightarrow> evm \<Rightarrow> evm res" where
  "run_setter core deft sender s = (case setter_of s of (c, f) \<Rightarrow> f sender (inst core deft c))"

text \<open>Transactions of several senders in order; those that revert change nothing.\<close>

definition run_setters :: "instances \<Rightarrow> instances \<Rightarrow> (address \<times> setter) list \<Rightarrow> evm \<Rightarrow> evm" where
  "run_setters core deft calls E =
     foldl (\<lambda>E (sender, s). snd (transact (run_setter core deft sender s) E)) E calls"

lemmas setter_defs = sortedTroves_setParams_def troveManager_setAddresses_def borrowerOperations_setAddresses_def
  stabilityPool_setAddresses_def activePool_setAddresses_def activePool_authorizeTroveManagers_def
  activePool_authorizeBorrowerOperations_def defaultPool_setAddresses_def defaultPool_authorizeTroveManagers_ext_def
  collSurplusPool_setAddresses_def collSurplusPool_authorizeTroveManagers_def collSurplusPool_authorizeBorrowerOperations_def
  collSurplusPool_setCollTokens_def hintHelpers_setAddresses_def deftStaking_setAddresses_def
  deftStaking_authorizeTroveManagers_def deftStaking_authorizeBorrowerOperations_def deftStaking_setCollTokens_def
  communityIssuance_setAddresses_def

lemma guard_refuses:
  "sender \<noteq> owner E self \<Longrightarrow> rbind (onlyOwner sender self E) g = Inl (Revert ''Ownable: caller is not the owner'')"
  by (simp add: onlyOwner_def require_def)

lemma params_refused:
  assumes "sender \<noteq> owner E self"
  shows "\<exists>e. troveManager_setAddresses sender self as E = Inl e" "\<exists>e. borrowerOperations_setAddresses sender self as E = Inl e"
    "\<exists>e. stabilityPool_setAddresses sender self as E = Inl e" "\<exists>e. hintHelpers_setAddresses sender self as E = Inl e"
    "\<exists>e. deftStaking_setAddresses sender self cs ts bs as E = Inl e" "\<exists>e. communityIssuance_setAddresses sender self as E = Inl e"
  unfolding setter_defs bad_arity_def guard_refuses[OF assms] by (simp_all split: list.split)

lemma setter_of_owner:
  assumes "setter_of s = (c, f)" "c \<noteq> ''functionCaller''" "sender \<noteq> owner E self"
  shows "\<exists>e. f sender self E = Inl e"
  using assms(1,2) params_refused[OF assms(3)]
  by (cases s) (clarsimp simp: sortedTroves_setParams_def activePool_setAddresses_def activePool_authorizeTroveManagers_def
  activePool_authorizeBorrowerOperations_def defaultPool_setAddresses_def defaultPool_authorizeTroveManagers_ext_def
  collSurplusPool_setAddresses_def collSurplusPool_authorizeTroveManagers_def collSurplusPool_authorizeBorrowerOperations_def
  collSurplusPool_setCollTokens_def deftStaking_authorizeTroveManagers_def deftStaking_authorizeBorrowerOperations_def
  deftStaking_setCollTokens_def guard_refuses[OF assms(3)])+

lemma setter_of_contract:
  "setter_of s = (c, f) \<Longrightarrow> c \<in> set renounced_contracts \<or> c = ''communityIssuance'' \<or> c = ''functionCaller''"
  by (cases s) (auto simp: renounced_contracts_def)

lemma unrenounced_setter:
  assumes "setter_of s = (c, f)" "c = ''communityIssuance'' \<or> c = ''functionCaller''" "f sender self E = Inr E'"
  shows "owner E' = owner E \<and> flag E' = flag E \<and> arr E' = arr E \<and> (\<forall>a. a \<noteq> self \<longrightarrow> slot E' a = slot E a)"
  using assms
  by (cases s; auto simp: bad_arity_def communityIssuance_setAddresses_def functionCaller_setTroveManagerAddress_def
      functionCaller_setSortedTrovesAddress_def functionCaller_setPriceFeedAddress_def rbind_Inr_iff evm_run
      split: list.splits)

text \<open>What no sequence of setter calls changes, given the owners after the set-up.\<close>

lemma run_setters_keep:
  assumes owners: "\<forall>c \<in> set renounced_contracts. owner E (inst core deft c) = 0"
    and apart: "\<forall>c \<in> set renounced_contracts. inst core deft c \<notin> {inst core deft ''communityIssuance'', inst core deft ''functionCaller''}"
    and senders: "\<forall>(sender, s) \<in> set calls. sender \<noteq> 0"
  defines "E' \<equiv> run_setters core deft calls E"
  shows "owner E' = owner E \<and> flag E' = flag E \<and> arr E' = arr E \<and>
    (\<forall>a. a \<noteq> inst core deft ''communityIssuance'' \<and> a \<noteq> inst core deft ''functionCaller'' \<longrightarrow> slot E' a = slot E a)"
  using senders unfolding E'_def
proof (induction calls rule: rev_induct)
  case Nil
  then show ?case by (simp add: run_setters_def)
next
  case (snoc x calls)
  obtain sender s where x: "x = (sender, s)" by fastforce
  obtain c f where s: "setter_of s = (c, f)" by fastforce
  let ?E = "run_setters core deft calls E"
  have same: "owner ?E = owner E" "flag ?E = flag E" "arr ?E = arr E"
    "\<And>a. a \<noteq> inst core deft ''communityIssuance'' \<Longrightarrow> a \<noteq> inst core deft ''functionCaller'' \<Longrightarrow> slot ?E a = slot E a"
    using snoc by auto
  have last: "run_setters core deft (calls @ [x]) E = snd (transact (f sender (inst core deft c)) ?E)"
    by (simp add: run_setters_def run_setter_def x s)
  show ?case
  proof (cases "f sender (inst core deft c) ?E")
    case (Inl e)
    then show ?thesis using same by (simp add: last transact_def)
  next
    case (Inr E1)
    have "c \<notin> set renounced_contracts"
    proof
      assume c: "c \<in> set renounced_contracts"
      then have "c \<noteq> ''functionCaller''" by (auto simp: renounced_contracts_def)
      from setter_of_owner[OF s this, of sender ?E "inst core deft c"] Inr c owners same(1) snoc.prems x show False by auto
    qed
    then have c: "c = ''communityIssuance'' \<or> c = ''functionCaller''" using setter_of_contract[OF s] by blast
    then show ?thesis
      using unrenounced_setter[OF s c Inr] same by (auto simp: last transact_def Inr)
  qed
qed

text \<open>
  C38. The wiring is final.  After the set-up, no sequence of setter calls by any accounts, the deployer's included,
  changes the owner, the authorizations or the collateral tokens of any contract, nor an address variable of any contract but two:
  FunctionCaller, whose setters are unguarded, and CommunityIssuance, which keeps its owner.  In every state such a
  sequence leads to, each setter of the other contracts, with any arguments, is refused for every sender, and that of
  CommunityIssuance for every sender but the deployer.  (No account has the address zero.)
\<close>

theorem wiring_is_final:
  assumes "0 < nextAddr E"
  shows "\<exists>core deft E'. hardhat_setup me E = (Inr (core, deft), E') \<and>
     (\<forall>calls E''. (\<forall>(sender, s) \<in> set calls. sender \<noteq> 0) \<and> E'' = run_setters core deft calls E' \<longrightarrow>
        owner E'' = owner E' \<and> flag E'' = flag E' \<and> arr E'' = arr E' \<and>
        (\<forall>a. a \<noteq> inst core deft ''communityIssuance'' \<and> a \<noteq> inst core deft ''functionCaller'' \<longrightarrow> slot E'' a = slot E' a) \<and>
        (\<forall>sender s. sender \<noteq> 0 \<and> fst (setter_of s) \<noteq> ''functionCaller'' \<and>
           (fst (setter_of s) = ''communityIssuance'' \<longrightarrow> sender \<noteq> me) \<longrightarrow>
           (\<exists>e. run_setter core deft sender s E'' = Inl e)))"
proof (rule hardhat_setup_result[OF assms(1), of me])
  let ?core = "hardhat_core (nextAddr E)" and ?deft = "hardhat_deft (nextAddr E)"
  fix E'
  assume run: "hardhat_setup me E = (Inr (?core, ?deft), E')"
    and owners: "\<forall>c \<in> set renounced_contracts. owner E' (inst ?core ?deft c) = 0" "owner E' (nextAddr E + 15) = me"
  have apart: "\<forall>c \<in> set renounced_contracts. inst ?core ?deft c \<notin> {inst ?core ?deft ''communityIssuance'', inst ?core ?deft ''functionCaller''}"
    by (simp add: renounced_contracts_def inst_def hardhat_core_def hardhat_deft_def)
  note keep = run_setters_keep[OF owners(1) apart]
  have refused: "\<exists>e. run_setter ?core ?deft sender s E'' = Inl e"
    if same: "owner E'' = owner E'" and sender: "sender \<noteq> 0" and fc: "fst (setter_of s) \<noteq> ''functionCaller''"
      and ci: "fst (setter_of s) = ''communityIssuance'' \<longrightarrow> sender \<noteq> me" for E'' sender s
  proof -
    obtain c f where s: "setter_of s = (c, f)" by fastforce
    have "sender \<noteq> owner E'' (inst ?core ?deft c)"
      using setter_of_contract[OF s] sender fc ci owners by (auto simp: s same hardhat_names)
    then show ?thesis using setter_of_owner[OF s] fc by (simp add: run_setter_def s)
  qed
  show ?thesis
    by (intro exI[of _ ?core] exI[of _ ?deft] exI[of _ E']) (use run keep refused in auto)
qed

theorem wiring_is_final_witness:
  "\<exists>core deft E'. hardhat_setup 7 genesis = (Inr (core, deft), E') \<and>
     run_setters core deft [(7, SortedTroves_setParams 1 5 6), (8, ActivePool_authorizeTroveManagers [8])] E' = E' \<and>
     (\<exists>e. run_setter core deft 7 (CollSurplusPool_setCollTokens [8]) E' = Inl e)"
proof -
  have "0 < nextAddr genesis" by (simp add: genesis_def)
  from wiring_is_final[OF this, of 7] show ?thesis
  proof (elim exE conjE)
    fix core deft E'
    assume run: "hardhat_setup 7 genesis = (Inr (core, deft), E')"
      and final: "\<forall>calls E''. (\<forall>(sender, s) \<in> set calls. sender \<noteq> 0) \<and> E'' = run_setters core deft calls E' \<longrightarrow>
        owner E'' = owner E' \<and> flag E'' = flag E' \<and> arr E'' = arr E' \<and>
        (\<forall>a. a \<noteq> inst core deft ''communityIssuance'' \<and> a \<noteq> inst core deft ''functionCaller'' \<longrightarrow> slot E'' a = slot E' a) \<and>
        (\<forall>sender s. sender \<noteq> 0 \<and> fst (setter_of s) \<noteq> ''functionCaller'' \<and>
           (fst (setter_of s) = ''communityIssuance'' \<longrightarrow> sender \<noteq> 7) \<longrightarrow>
           (\<exists>e. run_setter core deft sender s E'' = Inl e))"
    have now: "\<exists>e. run_setter core deft sender s E' = Inl e"
      if "sender \<noteq> 0" "fst (setter_of s) \<notin> {''functionCaller'', ''communityIssuance''}" for sender s
      using final[THEN spec, of "[]", THEN spec, of E'] that by (simp add: run_setters_def)
    have "\<exists>e. run_setter core deft 7 (SortedTroves_setParams 1 5 6) E' = Inl e"
      "\<exists>e. run_setter core deft 8 (ActivePool_authorizeTroveManagers [8]) E' = Inl e"
      "\<exists>e. run_setter core deft 7 (CollSurplusPool_setCollTokens [8]) E' = Inl e"
      by (rule now; simp)+
    then show ?thesis using run by (auto simp: run_setters_def transact_def)
  qed
qed

text \<open>The Truffle path cannot build the system.  Deploying the DEFT contracts throws a ReferenceError
  before anything is deployed; and connecting what \<open>deployLiquityCoreTruffle\<close> returns, with any DEFT
  contracts, stops with a TypeError because it deployed no WETH, after SortedTroves has already
  renounced its ownership.\<close>

theorem truffle_path_is_broken:
  assumes "js_includes path ''truffle''" and "\<not> js_includes path ''hardhat''" and "0 < nextAddr E"
  shows "deployDEFTContracts path me E = (Inl ReferenceError, E) \<and>
     (\<exists>core E1. deployLiquityCore path me E = (Inr (Some core), E1) \<and>
        (\<forall>deft. \<exists>E2. connectCoreContracts me core deft E1 = (Inl TypeError, E2) \<and>
           owner E2 (the (core ''sortedTroves'')) = 0))"
proof
  show "deployDEFTContracts path me E = (Inl ReferenceError, E)"
    using assms by (simp add: deployDEFTContracts_def deployDEFTContractsTruffle_def jbind_def)
  show "\<exists>core E1. deployLiquityCore path me E = (Inr (Some core), E1) \<and>
        (\<forall>deft. \<exists>E2. connectCoreContracts me core deft E1 = (Inl TypeError, E2) \<and>
           owner E2 (the (core ''sortedTroves'')) = 0)"
    using assms
    by (simp add: deployLiquityCore_def deployLiquityCoreTruffle_def jbind_def evm_run
        connectCoreContracts_def call_on_def addr_def transact_def sortedTroves_setParams_def onlyOwner_def
        functionCaller_setTroveManagerAddress_def functionCaller_setSortedTrovesAddress_def
        max_size_def ownable_def)
qed

theorem truffle_path_is_broken_witness:
  "deployDEFTContracts ''/usr/bin/truffle'' 7 genesis = (Inl ReferenceError, genesis)"
proof -
  have "js_includes ''/usr/bin/truffle'' ''truffle''" "\<not> js_includes ''/usr/bin/truffle'' ''hardhat''"
    "0 < nextAddr genesis" by code_simp+
  from truffle_path_is_broken[OF this, of 7] show ?thesis by blast
qed

end
