(* ===== verification/Proxy_Helpers.thy ===== *)
theory Proxy_Helpers
  imports Test_Helper Deployment
begin

text \<open>
  The proxy wrappers of \<open>packages/contracts/utils/proxyHelpers.js\<close>: an object that looks like a contract
  and sends a user's call through the user's DSProxy, as calldata for a script contract, or directly
  when the user has no proxy.  A call's parameters are a list whose last element may be an options
  object.  The result of a method is the call that is made (\<open>pcall\<close>).  Users and accounts are
  address strings here, as the keys of \<open>proxies\<close> are; the type \<open>'a\<close> of contract addresses is
  left open.  Contract classes come with one definition per class, by method name.
\<close>

section \<open>The base class\<close>

record options =
  o_from :: "string option"
  o_value :: "int option"

datatype pval = PVal param | POpts options

record 'a proxy =
  px_owner :: string
  px_proxies :: "string \<Rightarrow> string option"
  px_scriptAddress :: "'a option"
  px_address :: "'a option"

text \<open>
  \<open>Execute\<close> is \<open>proxy.methods["execute(address,bytes)"](script, calldata, optional)\<close>; \<open>Direct\<close> is
  \<open>this.contract[name](...params)\<close>.
\<close>

datatype 'a pcall =
    Execute string "'a option" string "pval option"
  | Direct string "pval list"

definition mk_proxy :: "string \<Rightarrow> (string \<Rightarrow> string option) \<Rightarrow> 'a option \<Rightarrow> 'a option \<Rightarrow> 'a proxy" where
  "mk_proxy own proxies scriptAddress contractAddress =
     \<lparr>px_owner = own, px_proxies = proxies, px_scriptAddress = scriptAddress, px_address = contractAddress\<rparr>"

fun val_from :: "pval \<Rightarrow> string option" where
  "val_from (PVal v) = None"
| "val_from (POpts o') = o_from o'"

text \<open>Is \<open>lastParam.from || lastParam.value\<close> true?  A value of zero (a number) is not.\<close>

fun is_options :: "pval \<Rightarrow> bool" where
  "is_options (PVal v) = False"
| "is_options (POpts o') = (o_from o' \<noteq> None \<or> (\<exists>v. o_value o' = Some v \<and> v \<noteq> 0))"

definition getFrom :: "'a proxy \<Rightarrow> pval list \<Rightarrow> string" where
  "getFrom p params =
     (if params = [] then px_owner p
      else case val_from (last params) of Some f \<Rightarrow> f | None \<Rightarrow> px_owner p)"

text \<open>\<open>None\<close> is the empty object.\<close>

definition getOptionalParams :: "pval list \<Rightarrow> pval option" where
  "getOptionalParams params = (if params = [] then None else Some (last params))"

definition getProxyAddressFromUser :: "'a proxy \<Rightarrow> string \<Rightarrow> string" where
  "getProxyAddressFromUser p user = (case px_proxies p user of Some a \<Rightarrow> a | None \<Rightarrow> user)"

definition getProxyFromUser :: "'a proxy \<Rightarrow> string \<Rightarrow> string option" where
  "getProxyFromUser p user = px_proxies p user"

definition getProxyFromParams :: "'a proxy \<Rightarrow> pval list \<Rightarrow> string option" where
  "getProxyFromParams p params = px_proxies p (getFrom p params)"

definition getSlicedParams :: "pval list \<Rightarrow> pval list" where
  "getSlicedParams params =
     (if params = [] then params
      else if is_options (last params) then butlast params else params)"

definition proxyFunction :: "string \<Rightarrow> pval list \<Rightarrow> 'a pcall" where
  "proxyFunction functionName params = Direct functionName params"

definition proxyFunctionWithUser :: "'a proxy \<Rightarrow> string \<Rightarrow> string \<Rightarrow> 'a pcall" where
  "proxyFunctionWithUser p functionName user =
     Direct functionName [PVal (PString (getProxyAddressFromUser p user))]"

text \<open>
  The calldata of a list of parameters: \<open>getTransactionData\<close> on their values; \<open>formatParam\<close> of an object
  that is not a number goes to \<open>toHex\<close> too, which serialises it.
\<close>

fun as_param :: "(options \<Rightarrow> int) \<Rightarrow> pval \<Rightarrow> param" where
  "as_param json (PVal v) = v"
| "as_param json (POpts o') = PObject (json o')"

record encoder =
  en_sha3 :: "string \<Rightarrow> string"
  en_toHex :: "param \<Rightarrow> string"
  en_ascii :: "string \<Rightarrow> string"
  en_json :: "options \<Rightarrow> int"

definition calldata :: "encoder \<Rightarrow> string \<Rightarrow> pval list \<Rightarrow> string" where
  "calldata en signature params =
     getTransactionData (en_sha3 en) (en_toHex en) (en_ascii en) signature (map (as_param (en_json en)) params)"

definition forwardFunction :: "encoder \<Rightarrow> 'a proxy \<Rightarrow> pval list \<Rightarrow> string \<Rightarrow> 'a pcall" where
  "forwardFunction en p params signature =
     (case getProxyFromParams p params of
        None \<Rightarrow> proxyFunction (js_slice signature 0 (js_indexOf signature ''('')) params
      | Some proxy \<Rightarrow>
          Execute proxy (px_scriptAddress p) (calldata en signature (getSlicedParams params))
            (getOptionalParams params))"

section \<open>The wrapper classes\<close>

text \<open>
  A method that forwards its parameters with a fixed signature, one that passes them to the contract
  under a fixed name, and one that takes a user.
\<close>

datatype meth = Forward string | Pass string | WithUser string | NoArgs string

fun borrowerOperations_methods :: "string \<Rightarrow> meth option" where
  "borrowerOperations_methods m =
     map_of [(''openTrove'', Forward ''openTrove(uint256,uint256,uint256,address,address)''),
       (''addColl'', Forward ''addColl(uint256,address,address)''),
       (''withdrawColl'', Forward ''withdrawColl(uint256,address,address)''),
       (''withdrawUSDD'', Forward ''withdrawUSDD(uint256,uint256,address,address)''),
       (''repayUSDD'', Forward ''repayUSDD(uint256,address,address)''),
       (''closeTrove'', Forward ''closeTrove()''),
       (''adjustTrove'', Forward ''adjustTrove(uint256,uint256,uint256,uint256,bool,address,address)''),
       (''claimRedeemedCollateral'', Forward ''claimRedeemedCollateral(address)''),
       (''getNewTCRFromTroveChange'', Pass ''getNewTCRFromTroveChange''),
       (''getNewICRFromTroveChange'', Pass ''getNewICRFromTroveChange''),
       (''getCompositeDebt'', Pass ''getCompositeDebt''),
       (''USDD_GAS_COMPENSATION'', Pass ''USDD_GAS_COMPENSATION''),
       (''MIN_NET_DEBT'', Pass ''MIN_NET_DEBT''),
       (''BORROWING_FEE_FLOOR'', Pass ''BORROWING_FEE_FLOOR'')] m"

fun borrowerWrappers_methods :: "string \<Rightarrow> meth option" where
  "borrowerWrappers_methods m =
     map_of [(''claimCollateralAndOpenTrove'',
        Forward ''claimCollateralAndOpenTrove(uint256,uint256,uint256,address,address)''),
       (''claimSPRewardsAndRecycle'', Forward ''claimSPRewardsAndRecycle(uint256,address,address)''),
       (''claimStakingGainsAndRecycle'', Forward ''claimStakingGainsAndRecycle(uint256,address,address)''),
       (''transferETH'', Forward ''transferETH(address,uint256)'')] m"

fun troveManager_methods :: "string \<Rightarrow> meth option" where
  "troveManager_methods m =
     map_of [(''Troves'', WithUser ''Troves''), (''getTroveStatus'', WithUser ''getTroveStatus''),
       (''getTroveDebt'', WithUser ''getTroveDebt''), (''getTroveColl'', WithUser ''getTroveColl''),
       (''totalStakes'', NoArgs ''totalStakes''),
       (''getPendingETHReward'', Pass ''getPendingCollReward''),
       (''getPendingUSDDDebtReward'', Pass ''getPendingUSDDDebtReward''),
       (''liquidate'', WithUser ''liquidate''), (''getTCR'', Pass ''getTCR''),
       (''checkRecoveryMode'', Pass ''checkRecoveryMode''),
       (''getTroveOwnersCount'', NoArgs ''getTroveOwnersCount''), (''baseRate'', NoArgs ''baseRate''),
       (''L_ETH'', NoArgs ''L_COLL''), (''L_USDDDebt'', NoArgs ''L_USDDDebt''),
       (''rewardSnapshots'', WithUser ''rewardSnapshots''),
       (''lastFeeOperationTime'', NoArgs ''lastFeeOperationTime''),
       (''redeemCollateral'',
        Forward ''redeemCollateral(uint256,address,address,address,uint256,uint256,uint256)''),
       (''getActualDebtFromComposite'', Pass ''getActualDebtFromComposite''),
       (''getRedemptionFeeWithDecay'', Pass ''getRedemptionFeeWithDecay''),
       (''getBorrowingRate'', NoArgs ''getBorrowingRate''),
       (''getBorrowingRateWithDecay'', NoArgs ''getBorrowingRateWithDecay''),
       (''getBorrowingFee'', Pass ''getBorrowingFee''),
       (''getBorrowingFeeWithDecay'', Pass ''getBorrowingFeeWithDecay''),
       (''getEntireDebtAndColl'', Pass ''getEntireDebtAndColl'')] m"

fun stabilityPool_methods :: "string \<Rightarrow> meth option" where
  "stabilityPool_methods m =
     map_of [(''provideToSP'', Forward ''provideToSP(uint256,address)''),
       (''getCompoundedUSDDDeposit'', WithUser ''getCompoundedUSDDDeposit''),
       (''deposits'', WithUser ''deposits''),
       (''getDepositorETHGain'', WithUser ''getDepositorCollGain'')] m"

fun sortedTroves_methods :: "string \<Rightarrow> meth option" where
  "sortedTroves_methods m =
     map_of [(''contains'', WithUser ''contains''), (''isEmpty'', WithUser ''isEmpty''),
       (''findInsertPosition'', Pass ''findInsertPosition'')] m"

fun deftStaking_methods :: "string \<Rightarrow> meth option" where
  "deftStaking_methods m =
     map_of [(''stake'', Forward ''stake(uint256)''), (''stakes'', WithUser ''stakes''),
       (''F_USDD'', WithUser ''F_USDD'')] m"

text \<open>The user argument of a method: its first parameter, which has to be an address string.\<close>

fun user_arg :: "pval list \<Rightarrow> string option" where
  "user_arg (PVal (PString u) # _) = Some u"
| "user_arg _ = None"

definition call_method ::
  "encoder \<Rightarrow> 'a proxy \<Rightarrow> (string \<Rightarrow> meth option) \<Rightarrow> string \<Rightarrow> pval list \<Rightarrow> 'a pcall res" where
  "call_method en p methods m params =
     (case methods m of
        None \<Rightarrow> Inl TypeError
      | Some (Forward signature) \<Rightarrow> Inr (forwardFunction en p params signature)
      | Some (Pass name) \<Rightarrow> Inr (proxyFunction name params)
      | Some (NoArgs name) \<Rightarrow> Inr (proxyFunction name [])
      | Some (WithUser name) \<Rightarrow>
          (case user_arg params of
             None \<Rightarrow> Inl (Thrown ''invalid address'')
           | Some user \<Rightarrow> Inr (proxyFunctionWithUser p name user)))"

text \<open>\<open>TroveManagerProxy.getCurrentICR(user, price)\<close>.\<close>

definition getCurrentICR_proxy :: "'a proxy \<Rightarrow> string \<Rightarrow> pval \<Rightarrow> 'a pcall" where
  "getCurrentICR_proxy p user price =
     Direct ''getCurrentICR'' [PVal (PString (getProxyAddressFromUser p user)), price]"

text \<open>A user in a parameter position of the token wrapper is replaced by the user's proxy.\<close>

fun to_proxy :: "'a proxy \<Rightarrow> pval \<Rightarrow> pval" where
  "to_proxy p (PVal (PString u)) = PVal (PString (getProxyAddressFromUser p u))"
| "to_proxy p v = v"

text \<open>
  \<open>params[i] = this.getProxyAddressFromUser(params[i])\<close>; with too few parameters this appends an
  \<open>undefined\<close>, whose \<open>from\<close> is then read: a TypeError.
\<close>

definition replace_at :: "'a proxy \<Rightarrow> nat \<Rightarrow> pval list \<Rightarrow> pval list res" where
  "replace_at p i params =
     (if i < length params then Inr (params[i := to_proxy p (params ! i)]) else Inl TypeError)"

definition forward_first :: "encoder \<Rightarrow> 'a proxy \<Rightarrow> pval list \<Rightarrow> string \<Rightarrow> 'a pcall res" where
  "forward_first en p params signature =
     rbind (replace_at p 0 params) (\<lambda>params'. Inr (forwardFunction en p params' signature))"

definition token_method :: "encoder \<Rightarrow> 'a proxy \<Rightarrow> string \<Rightarrow> pval list \<Rightarrow> 'a pcall res" where
  "token_method en p m params =
     (if m = ''transfer'' then forward_first en p params ''transfer(address,uint256)''
      else if m = ''transferFrom''
      then rbind (replace_at p 0 params) (\<lambda>params1.
           rbind (replace_at p 1 params1) (\<lambda>params2.
           Inr (forwardFunction en p params2 ''transferFrom(address,address,uint256)'')))
      else if m = ''approve'' then forward_first en p params ''approve(address,uint256)''
      else if m = ''increaseAllowance'' then forward_first en p params ''increaseAllowance(address,uint256)''
      else if m = ''decreaseAllowance'' then forward_first en p params ''decreaseAllowance(address,uint256)''
      else if m = ''allowance''
      then (if length params < 2 then Inl (Thrown ''invalid address'')
            else Inr (proxyFunction ''allowance'' (map (to_proxy p) (take 2 params))))
      else call_method en p
        (map_of [(''totalSupply'', Pass ''totalSupply''), (''balanceOf'', WithUser ''balanceOf''),
           (''name'', Pass ''name''), (''symbol'', Pass ''symbol''), (''decimals'', Pass ''decimals'')]) m params)"

section \<open>Building the proxies\<close>

text \<open>
  \<open>buildUserProxies\<close>: DSProxyFactory is not part of the repository; \<open>newFactory\<close> deploys it and
  \<open>build factory user\<close> is its \<open>build\<close> transaction, which returns the address of the new proxy.
\<close>

fun build_loop ::
  "('f \<Rightarrow> string \<Rightarrow> ('w, string) js) \<Rightarrow> 'f \<Rightarrow> (string \<Rightarrow> string option) \<Rightarrow> string list \<Rightarrow>
   ('w, string \<Rightarrow> string option) js" where
  "build_loop build factory proxies [] = jret proxies"
| "build_loop build factory proxies (user # users) =
     jbind (build factory user) (\<lambda>a. build_loop build factory (proxies(user \<mapsto> a)) users)"

definition buildUserProxies ::
  "('w, 'f) js \<Rightarrow> ('f \<Rightarrow> string \<Rightarrow> ('w, string) js) \<Rightarrow> string list \<Rightarrow> ('w, string \<Rightarrow> string option) js" where
  "buildUserProxies newFactory build users =
     jbind newFactory (\<lambda>factory. build_loop build factory (\<lambda>_. None) users)"

text \<open>
  \<open>deployProxyScripts\<close>: deploys one script per wrapped contract and replaces the instance by its
  wrapper.  The result gives the wrappers of the core object and of the DEFT object; a wrapper keeps
  the address of the contract it wraps, so the addresses of both objects are unchanged.
\<close>

definition deployProxyScripts ::
  "(evm, 'f) js \<Rightarrow> ('f \<Rightarrow> string \<Rightarrow> (evm, string) js) \<Rightarrow> address \<Rightarrow> instances \<Rightarrow> instances \<Rightarrow> string \<Rightarrow>
   string list \<Rightarrow> (evm, (string \<Rightarrow> address proxy option) \<times> (string \<Rightarrow> address proxy option)) js" where
  "deployProxyScripts newFactory build me contracts DEFTContracts own users =
     jbind (buildUserProxies newFactory build users) (\<lambda>proxies.
     jbind (jlift (rbind (addrs contracts [''borrowerOperations'', ''troveManager'']) (\<lambda>c.
                   rbind (addrs DEFTContracts [''deftStaking'']) (\<lambda>d. Inr (c @ d))))) (\<lambda>ps.
     jbind (new me ''BorrowerWrappersScript'' ps) (\<lambda>borrowerWrappersScript.
     jbind (jlift (addr contracts ''borrowerOperations'')) (\<lambda>borrowerOperations.
     jbind (new me ''BorrowerOperationsScript'' [borrowerOperations]) (\<lambda>borrowerOperationsScript.
     jbind (jlift (addr contracts ''troveManager'')) (\<lambda>troveManager.
     jbind (new me ''TroveManagerScript'' [troveManager]) (\<lambda>troveManagerScript.
     jbind (jlift (addr contracts ''stabilityPool'')) (\<lambda>stabilityPool.
     jbind (new me ''StabilityPoolScript'' [stabilityPool]) (\<lambda>stabilityPoolScript.
     jbind (jlift (addr contracts ''sortedTroves'')) (\<lambda>sortedTroves.
     jbind (jlift (addr contracts ''usddToken'')) (\<lambda>usddToken.
     jbind (new me ''TokenScript'' [usddToken]) (\<lambda>usddTokenScript.
     jbind (jlift (addr DEFTContracts ''deftToken'')) (\<lambda>deftToken.
     jbind (new me ''TokenScript'' [deftToken]) (\<lambda>deftTokenScript.
     jbind (jlift (addr DEFTContracts ''deftStaking'')) (\<lambda>deftStaking.
     jbind (new me ''DEFTStakingScript'' [deftStaking]) (\<lambda>deftStakingScript.
     jret (map_of [(''borrowerWrappers'', mk_proxy own proxies (Some borrowerWrappersScript) None),
             (''borrowerOperations'', mk_proxy own proxies (Some borrowerOperationsScript) (Some borrowerOperations)),
             (''troveManager'', mk_proxy own proxies (Some troveManagerScript) (Some troveManager)),
             (''stabilityPool'', mk_proxy own proxies (Some stabilityPoolScript) (Some stabilityPool)),
             (''sortedTroves'', mk_proxy own proxies None (Some sortedTroves)),
             (''usddToken'', mk_proxy own proxies (Some usddTokenScript) (Some usddToken))],
           map_of [(''deftToken'', mk_proxy own proxies (Some deftTokenScript) (Some deftToken)),
             (''deftStaking'', mk_proxy own proxies (Some deftStakingScript) (Some deftStaking))])))))))))))))))))"

section \<open>The script contracts\<close>

text \<open>
  The external functions of the script contracts in \<open>contracts/Proxy/\<close>, as signatures; a DSProxy that
  executes calldata with another selector reverts.  \<open>BorrowerWrappersScript\<close> inherits from three of
  them.
\<close>

fun script_functions :: "string \<Rightarrow> string list" where
  "script_functions c =
     (if c = ''BorrowerOperationsScript'' then
        [''openTrove(uint256,uint256,uint256,address,address)'', ''addColl(uint256,address,address)'',
         ''withdrawColl(uint256,address,address)'', ''withdrawUSDD(uint256,uint256,address,address)'',
         ''repayUSDD(uint256,address,address)'', ''closeTrove()'',
         ''adjustTrove(uint256,uint256,uint256,uint256,bool,address,address)'', ''claimCollateral()'']
      else if c = ''BorrowerWrappersScript'' then
        [''claimCollateralAndOpenTrove(uint256,uint256,uint256,address,address)'',
         ''claimSPRewardsAndRecycle(uint256,address,address)'',
         ''claimStakingGainsAndRecycle(uint256,address,address)'', ''transferETH(address,uint256)'',
         ''stake(uint256)'', ''openTrove(uint256,uint256,uint256,address,address)'',
         ''addColl(uint256,address,address)'', ''withdrawColl(uint256,address,address)'',
         ''withdrawUSDD(uint256,uint256,address,address)'', ''repayUSDD(uint256,address,address)'',
         ''closeTrove()'', ''adjustTrove(uint256,uint256,uint256,uint256,bool,address,address)'',
         ''claimCollateral()'']
      else if c = ''TroveManagerScript'' then
        [''redeemCollateral(uint256,address,address,address,uint256,uint256,uint256)'']
      else if c = ''StabilityPoolScript'' then
        [''provideToSP(uint256,address)'', ''withdrawFromSP(uint256)'', ''withdrawETHGainToTrove(address,address)'']
      else if c = ''DEFTStakingScript'' then [''stake(uint256)'']
      else [])"

definition wrapper_classes :: "(string \<times> (string \<Rightarrow> meth option)) list" where
  "wrapper_classes =
     [(''BorrowerOperationsScript'', borrowerOperations_methods),
      (''BorrowerWrappersScript'', borrowerWrappers_methods),
      (''TroveManagerScript'', troveManager_methods),
      (''StabilityPoolScript'', stabilityPool_methods),
      (''DEFTStakingScript'', deftStaking_methods)]"

section \<open>Properties\<close>

lemma is_prefix_single: "is_prefix [c] (x # xs) \<longleftrightarrow> c = x"
  by simp

lemma index_from_char:
  "c \<in> set s \<Longrightarrow> index_from k s [c] = int (k + length (takeWhile (\<lambda>x. x \<noteq> c) s))"
  by (induction s arbitrary: k) (auto simp: is_prefix_single)

lemma slice_to_char:
  assumes "c \<in> set s"
  shows "js_slice s 0 (js_indexOf s [c]) = takeWhile (\<lambda>x. x \<noteq> c) s"
proof -
  have "length (takeWhile (\<lambda>x. x \<noteq> c) s) \<le> length s" by (rule length_takeWhile_le)
  moreover have "take (length (takeWhile (\<lambda>x. x \<noteq> c) s)) s = takeWhile (\<lambda>x. x \<noteq> c) s"
    by (rule takeWhile_eq_take[symmetric])
  ultimately show ?thesis
    using index_from_char[OF assms, of 0] by (simp add: js_indexOf_def js_slice_def rel_index_def)
qed

lemma getFrom_options: "o_from o' = Some user \<Longrightarrow> getFrom p (xs @ [POpts o']) = user"
  by (simp add: getFrom_def)

lemma getSlicedParams_options: "o_from o' = Some user \<Longrightarrow> getSlicedParams (xs @ [POpts o']) = xs"
  by (simp add: getSlicedParams_def)

lemma build_loop_dom:
  "build_loop build factory px0 users w = (Inr px, w') \<Longrightarrow> dom px = dom px0 \<union> set users"
proof (induction users arbitrary: px0 w)
  case Nil
  then show ?case by simp
next
  case (Cons user users)
  from Cons.prems obtain a v where "build_loop build factory (px0(user \<mapsto> a)) users v = (Inr px, w')"
    by (auto elim!: jbind_InrE)
  from Cons.IH[OF this] show ?case by auto
qed

text \<open>A wrapped call goes where it should.  For a call with an options object that names its sender, the
  wrapper executes the script through the sender's proxy when there is one, with calldata
  made of the selector and one word per argument, options excluded and passed on; a sender without a
  proxy calls the contract's own function, the part of the signature before the parenthesis, with all
  parameters.\<close>

theorem forwardFunction_routes_by_sender:
  assumes "o_from o' = Some user" and "CHR ''('' \<in> set signature" and "10 \<le> length (en_sha3 en signature)"
  shows "(\<forall>pa. px_proxies p user = Some pa \<longrightarrow>
            (\<exists>cd. forwardFunction en p (args @ [POpts o']) signature =
                    Execute pa (px_scriptAddress p) cd (Some (POpts o')) \<and>
                  length cd = 10 + 64 * length args \<and> take 10 cd = take 10 (en_sha3 en signature))) \<and>
         (px_proxies p user = None \<longrightarrow>
            forwardFunction en p (args @ [POpts o']) signature =
              Direct (takeWhile (\<lambda>c. c \<noteq> CHR ''('') signature) (args @ [POpts o']))"
proof (intro conjI allI impI)
  fix pa assume pa: "px_proxies p user = Some pa"
  let ?cd = "calldata en signature args"
  have eq: "?cd = take 10 (en_sha3 en signature) @
      concat (map (formatParam (en_toHex en) (en_ascii en)) (map (as_param (en_json en)) args))"
    by (simp add: calldata_def getTransactionData_eq js_slice_def rel_index_def assms(3))
  have "length (concat (map (formatParam (en_toHex en) (en_ascii en)) ps)) = 64 * length ps" for ps
    by (induction ps) (simp_all add: formatParam_length)
  from this[of "map (as_param (en_json en)) args"] assms(3) have "length ?cd = 10 + 64 * length args" "take 10 ?cd = take 10 (en_sha3 en signature)"
    unfolding eq by simp_all
  then show "\<exists>cd. forwardFunction en p (args @ [POpts o']) signature =
                    Execute pa (px_scriptAddress p) cd (Some (POpts o')) \<and>
                  length cd = 10 + 64 * length args \<and> take 10 cd = take 10 (en_sha3 en signature)"
    using pa assms(1)
    by (simp add: forwardFunction_def getProxyFromParams_def getFrom_options getSlicedParams_options
        getOptionalParams_def)
next
  assume "px_proxies p user = None"
  then show "forwardFunction en p (args @ [POpts o']) signature =
      Direct (takeWhile (\<lambda>c. c \<noteq> CHR ''('') signature) (args @ [POpts o'])"
    using assms(1) slice_to_char[OF assms(2)]
    by (simp add: forwardFunction_def getProxyFromParams_def getFrom_options proxyFunction_def)
qed

theorem forwardFunction_routes_by_sender_witness:
  "forwardFunction \<lparr>en_sha3 = (\<lambda>s. ''0x12345678abcdef''), en_toHex = (\<lambda>p. ''0x05''), en_ascii = (\<lambda>s. s), en_json = (\<lambda>o'. 0)\<rparr>
     (mk_proxy ''owner'' (\<lambda>u. if u = ''alice'' then Some ''proxyA'' else None) (Some (1 :: nat)) None)
     [PVal (PNumber 5), POpts \<lparr>o_from = Some ''bob'', o_value = None\<rparr>] ''stake(uint256)'' =
   Direct ''stake'' [PVal (PNumber 5), POpts \<lparr>o_from = Some ''bob'', o_value = None\<rparr>]"
proof -
  let ?o = "\<lparr>o_from = Some ''bob'', o_value = None\<rparr>"
  let ?en = "\<lparr>en_sha3 = (\<lambda>s. ''0x12345678abcdef''), en_toHex = (\<lambda>p. ''0x05''), en_ascii = (\<lambda>s. s), en_json = (\<lambda>o'. 0)\<rparr>"
  have "o_from ?o = Some ''bob''" "CHR ''('' \<in> set ''stake(uint256)''" "10 \<le> length (en_sha3 ?en ''stake(uint256)'')"
    by simp_all
  from forwardFunction_routes_by_sender[OF this, of "mk_proxy ''owner'' (\<lambda>u. if u = ''alice'' then Some ''proxyA'' else None) (Some (1 :: nat)) None" "[PVal (PNumber 5)]"]
  show ?thesis by (simp add: mk_proxy_def)
qed

text \<open>The signatures the wrappers encode are those of the scripts: for every forwarding method of the
  five script-backed wrappers but one the script contract has the function, and the function's name is
  the method's name, so that a sender without a proxy reaches the same operation; the one exception is
  \<open>claimRedeemedCollateral\<close>, which no script has.\<close>

theorem wrapper_signatures_exist:
  "(\<forall>(c, ms) \<in> set wrapper_classes. \<forall>m sig. ms m = Some (Forward sig) \<longrightarrow>
      takeWhile (\<lambda>ch. ch \<noteq> CHR ''('') sig = m \<and>
      (sig \<in> set (script_functions c) \<longleftrightarrow> m \<noteq> ''claimRedeemedCollateral''))"
  unfolding wrapper_classes_def
  by (auto simp del: map_of.simps dest!: map_of_SomeD)

theorem wrapper_signatures_exist_witness:
  "''repayUSDD(uint256,address,address)'' \<in> set (script_functions ''BorrowerOperationsScript'')"
proof -
  have "(''BorrowerOperationsScript'', borrowerOperations_methods) \<in> set wrapper_classes"
    by (simp add: wrapper_classes_def)
  moreover have "borrowerOperations_methods ''repayUSDD'' = Some (Forward ''repayUSDD(uint256,address,address)'')"
    by simp
  ultimately show ?thesis using wrapper_signatures_exist by fastforce
qed

end
