(* ===== verification/Mainnet.thy ===== *)
theory Mainnet
  imports Deployment
begin

text \<open>
  The mainnet deployment: \<open>utils/mainnetDeploymentHelpers.js\<close>, \<open>mainnetDeployment/mainnetDeployment.js\<close> and
  its parameter files.  The world holds the chain, the in-memory \<open>deploymentState\<close> object, the output
  file it is saved to after every deployment, the number of transactions sent (a transaction hash
  is that number) and of writes made.  Which transactions the provider confirms (\<open>m_confirmed\<close>) and which writes of
  the file succeed (\<open>m_writable\<close>; a failed write leaves the file as it was) are arbitrary.  The verification service and the Uniswap factory are parameters.  An ethers
  contract checks the number of arguments before it sends (\<open>bad_arity\<close>), and refuses an address where
  the signature has an address array.
\<close>

section \<open>World and configuration\<close>

record entry =
  e_address :: "address option"
  e_txHash :: nat
  e_verification :: "string option"

type_synonym deployment_state = "string \<Rightarrow> entry option"

record mworld =
  m_evm :: evm
  m_state :: deployment_state
  m_file :: "deployment_state option"
  m_txs :: nat
  m_saves :: nat
  m_confirmed :: "nat \<Rightarrow> bool"
  m_writable :: "nat \<Rightarrow> bool"

record config =
  CHAINLINK_ETHUSD_PROXY :: address
  TELLOR_MASTER :: address
  UNISWAP_V2_FACTORY :: address
  UNIWAP_V2_ROUTER02 :: address
  WETH_ERC20 :: address
  AAB_ERC20 :: "address option"
  DEPLOYER :: address
  OUTPUT_FILE :: string
  GAS_PRICE :: nat
  TX_CONFIRMATIONS :: nat
  ETHERSCAN_BASE_URL :: "string option"

definition localFork_params :: config where
  "localFork_params =
     \<lparr>CHAINLINK_ETHUSD_PROXY = 0x5f4eC3Df9cbd43714FE2740f5E3616155c5b8419,
      TELLOR_MASTER = 0x88dF592F8eb5D7Bd38bFeF7dEb0fBc02cf3778a0,
      UNISWAP_V2_FACTORY = 0x5C69bEe701ef814a2B6a3EDD4B1652CB9cc5aA6f,
      UNIWAP_V2_ROUTER02 = 0x7a250d5630B4cF539739dF2C5dAcb4c659F2488D,
      WETH_ERC20 = 0xc02aaa39b223fe8d0a0e5c4f27ead9083c756cc2, AAB_ERC20 = None,
      DEPLOYER = 0x31c57298578f7508B5982062cfEc5ec8BD346247,
      OUTPUT_FILE = ''./mainnetDeployment/localForkDeploymentOutput.json'', GAS_PRICE = 1000,
      TX_CONFIRMATIONS = 1, ETHERSCAN_BASE_URL = None\<rparr>"

definition mainnet_params :: config where
  "mainnet_params =
     \<lparr>CHAINLINK_ETHUSD_PROXY = 0x5f4eC3Df9cbd43714FE2740f5E3616155c5b8419,
      TELLOR_MASTER = 0x88dF592F8eb5D7Bd38bFeF7dEb0fBc02cf3778a0,
      UNISWAP_V2_FACTORY = 0x5C69bEe701ef814a2B6a3EDD4B1652CB9cc5aA6f,
      UNIWAP_V2_ROUTER02 = 0x7a250d5630B4cF539739dF2C5dAcb4c659F2488D,
      WETH_ERC20 = 0xc02aaa39b223fe8d0a0e5c4f27ead9083c756cc2,
      AAB_ERC20 = Some 0x686c650dbcfeaa75d09b883621ad810f5952bd5d,
      DEPLOYER = 0xa850535D3628CD4dFEB528dC85cfA93051Ff2984,
      OUTPUT_FILE = ''./mainnetDeployment/mainnetDeploymentOutput.json'', GAS_PRICE = 150000000000,
      TX_CONFIRMATIONS = 3, ETHERSCAN_BASE_URL = Some ''https://etherscan.io/address''\<rparr>"

definition rinkeby_params :: config where
  "rinkeby_params =
     \<lparr>CHAINLINK_ETHUSD_PROXY = 0x8A753747A1Fa494EC906cE90E9f37563A8AF630e,
      TELLOR_MASTER = 0x20374E579832859f180536A69093A126Db1c8aE9,
      UNISWAP_V2_FACTORY = 0x5C69bEe701ef814a2B6a3EDD4B1652CB9cc5aA6f,
      UNIWAP_V2_ROUTER02 = 0x7a250d5630B4cF539739dF2C5dAcb4c659F2488D,
      WETH_ERC20 = 0xc778417e063141139fce010982780140aa0cd5ab,
      AAB_ERC20 = Some 0x3e792ad976409933A8FdfF65f3d2d894fE45405c,
      DEPLOYER = 0x8B0a2D45aC9D4BaCa1589EF82eC6A2C7c4Ef69Dc,
      OUTPUT_FILE = ''./mainnetDeployment/rinkebyDeploymentOutput.json'', GAS_PRICE = 1000000000,
      TX_CONFIRMATIONS = 1, ETHERSCAN_BASE_URL = Some ''https://rinkeby.etherscan.io/address''\<rparr>"

section \<open>Loading, saving and deploying\<close>

definition on_evm :: "(evm, 'a) js \<Rightarrow> (mworld, 'a) js" where
  "on_evm m w = (case m (m_evm w) of (r, E') \<Rightarrow> (r, w\<lparr>m_evm := E'\<rparr>))"

text \<open>What the output file says; no file, no deployment.\<close>

definition file_state :: "mworld \<Rightarrow> deployment_state" where
  "file_state w = (case m_file w of None \<Rightarrow> (\<lambda>_. None) | Some s \<Rightarrow> s)"

definition loadPreviousDeployment :: "(mworld, unit) js" where
  "loadPreviousDeployment =
     jmodify (\<lambda>w. w\<lparr>m_state := file_state w\<rparr>)"

text \<open>\<open>fs.writeFileSync\<close>: throws when the file cannot be written.\<close>

definition write_error :: js_error where
  "write_error = Thrown ''EACCES''"

definition saveDeployment :: "(mworld, unit) js" where
  "saveDeployment w =
     (if m_writable w (m_saves w)
      then (Inr (), w\<lparr>m_file := Some (m_state w), m_saves := Suc (m_saves w)\<rparr>)
      else (Inl write_error, w\<lparr>m_saves := Suc (m_saves w)\<rparr>))"

text \<open>\<open>provider.waitForTransaction(hash, confirmations)\<close>: rejected when the provider does not confirm.\<close>

definition waitForTransaction :: "nat \<Rightarrow> (mworld, unit) js" where
  "waitForTransaction hash w = (if m_confirmed w hash then (Inr (), w) else (Inl (Thrown ''timeout''), w))"

text \<open>A transaction that is sent: its hash.\<close>

definition next_hash :: "(mworld, nat) js" where
  "next_hash w = (Inr (m_txs w), w\<lparr>m_txs := Suc (m_txs w)\<rparr>)"

definition state_address :: "deployment_state \<Rightarrow> string \<Rightarrow> address option" where
  "state_address s name = Option.bind (s name) e_address"

text \<open>
  Deploying, waiting for the transaction, recording and saving are four steps, each of which may end the script: a contract
  that is deployed but not confirmed is not recorded, and one that is recorded may not be saved.
\<close>

definition loadOrDeploy :: "address \<Rightarrow> string \<Rightarrow> string \<Rightarrow> address list \<Rightarrow> (mworld, address) js" where
  "loadOrDeploy me factory name params =
     jbind (jread (\<lambda>w. Inr (state_address (m_state w) name))) (\<lambda>prev.
     case prev of
       Some a \<Rightarrow> jret a
     | None \<Rightarrow>
         jbind (on_evm (new me factory params)) (\<lambda>contract.
         jbind next_hash (\<lambda>hash.
         jbind (waitForTransaction hash) (\<lambda>_.
         jbind (jmodify (\<lambda>w. w\<lparr>m_state := (m_state w)(name \<mapsto>
                  \<lparr>e_address = Some contract, e_txHash = hash, e_verification = None\<rparr>)\<rparr>)) (\<lambda>_.
         jbind saveDeployment (\<lambda>_. jret contract))))))"

datatype verify_result = Verified | PluginError | OtherError string

definition verifyContract ::
  "config \<Rightarrow> (address \<Rightarrow> address list \<Rightarrow> verify_result) \<Rightarrow> string \<Rightarrow> address list \<Rightarrow> (mworld, unit) js" where
  "verifyContract cfg verify name constructorArguments =
     jbind (jread (\<lambda>w. Inr (m_state w name))) (\<lambda>st.
     case st of
       None \<Rightarrow> jret ()
     | Some e \<Rightarrow>
         (case e_address e of
            None \<Rightarrow> jret ()
          | Some a \<Rightarrow>
              if e_verification e \<noteq> None then jret ()
              else (case verify a constructorArguments of
                      OtherError msg \<Rightarrow> jret ()
                    | _ \<Rightarrow>
                        jbind (jmodify (\<lambda>w. w\<lparr>m_state := (m_state w)(name \<mapsto> e\<lparr>e_verification :=
                                 Some ((case ETHERSCAN_BASE_URL cfg of None \<Rightarrow> ''undefined'' | Some u \<Rightarrow> u) @
                                       ''/'' @ show_nat a @ ''#code'')\<rparr>)\<rparr>)) (\<lambda>_.
                        saveDeployment))))"

fun verify_all ::
  "config \<Rightarrow> (address \<Rightarrow> address list \<Rightarrow> verify_result) \<Rightarrow> (string \<times> address list) list \<Rightarrow> (mworld, unit) js" where
  "verify_all cfg verify [] = jret ()"
| "verify_all cfg verify ((name, params) # rest) =
     jbind (verifyContract cfg verify name params) (\<lambda>_. verify_all cfg verify rest)"

definition deployLiquityCoreMainnet ::
  "config \<Rightarrow> (address \<Rightarrow> address list \<Rightarrow> verify_result) \<Rightarrow> address \<Rightarrow> address \<Rightarrow> (mworld, instances) js" where
  "deployLiquityCoreMainnet cfg verify me tellorMasterAddr =
     jbind (loadOrDeploy me ''PriceFeed'' ''priceFeed'' []) (\<lambda>priceFeed.
     jbind (loadOrDeploy me ''SortedTroves'' ''sortedTroves'' []) (\<lambda>sortedTroves.
     jbind (loadOrDeploy me ''TroveManager'' ''troveManager'' []) (\<lambda>troveManager.
     jbind (loadOrDeploy me ''ActivePool'' ''activePool'' []) (\<lambda>activePool.
     jbind (loadOrDeploy me ''StabilityPool'' ''stabilityPool'' []) (\<lambda>stabilityPool.
     jbind (loadOrDeploy me ''GasPool'' ''gasPool'' []) (\<lambda>gasPool.
     jbind (loadOrDeploy me ''DefaultPool'' ''defaultPool'' []) (\<lambda>defaultPool.
     jbind (loadOrDeploy me ''CollSurplusPool'' ''collSurplusPool'' []) (\<lambda>collSurplusPool.
     jbind (loadOrDeploy me ''BorrowerOperations'' ''borrowerOperations'' []) (\<lambda>borrowerOperations.
     jbind (loadOrDeploy me ''HintHelpers'' ''hintHelpers'' []) (\<lambda>hintHelpers.
     jbind (loadOrDeploy me ''TellorCaller'' ''tellorCaller'' [tellorMasterAddr]) (\<lambda>tellorCaller.
     let usddTokenParams = [troveManager, stabilityPool, borrowerOperations] in
     jbind (loadOrDeploy me ''USDDToken'' ''usddToken'' usddTokenParams) (\<lambda>usddToken.
     jbind (if ETHERSCAN_BASE_URL cfg = None then jret ()
            else verify_all cfg verify
              [(''priceFeed'', []), (''sortedTroves'', []), (''troveManager'', []), (''activePool'', []),
               (''stabilityPool'', []), (''gasPool'', []), (''defaultPool'', []), (''collSurplusPool'', []),
               (''borrowerOperations'', []), (''hintHelpers'', []), (''tellorCaller'', [tellorMasterAddr]),
               (''usddToken'', usddTokenParams)]) (\<lambda>_.
     jret (map_of [(''priceFeed'', priceFeed), (''usddToken'', usddToken), (''sortedTroves'', sortedTroves),
       (''troveManager'', troveManager), (''activePool'', activePool), (''stabilityPool'', stabilityPool),
       (''gasPool'', gasPool), (''defaultPool'', defaultPool), (''collSurplusPool'', collSurplusPool),
       (''borrowerOperations'', borrowerOperations), (''hintHelpers'', hintHelpers),
       (''tellorCaller'', tellorCaller)]))))))))))))))"

text \<open>
  With an Etherscan URL the function ends in \<open>verifyContract("deftToken", ..., deftTokenParams)\<close>, whose
  last argument is not declared: a ReferenceError.  The token it is given is an address string, not
  a contract object, so it contributes no instance to the result.
\<close>

definition deployDEFTContractsMainnet ::
  "config \<Rightarrow> (address \<Rightarrow> address list \<Rightarrow> verify_result) \<Rightarrow> address \<Rightarrow> (mworld, instances) js" where
  "deployDEFTContractsMainnet cfg verify me =
     jbind (loadOrDeploy me ''DEFTStaking'' ''deftStaking'' []) (\<lambda>deftStaking.
     jbind (loadOrDeploy me ''CommunityIssuance'' ''communityIssuance'' []) (\<lambda>communityIssuance.
     jbind (if ETHERSCAN_BASE_URL cfg = None then jret ()
            else jbind (verify_all cfg verify [(''deftStaking'', []), (''communityIssuance'', [])]) (\<lambda>_.
                 jthrow ReferenceError)) (\<lambda>_.
     jret (map_of [(''deftStaking'', deftStaking), (''communityIssuance'', communityIssuance)]))))"

definition deployUnipoolMainnet ::
  "config \<Rightarrow> (address \<Rightarrow> address list \<Rightarrow> verify_result) \<Rightarrow> address \<Rightarrow> (mworld, address) js" where
  "deployUnipoolMainnet cfg verify me =
     jbind (loadOrDeploy me ''Unipool'' ''unipool'' []) (\<lambda>unipool.
     jbind (if ETHERSCAN_BASE_URL cfg = None then jret () else verifyContract cfg verify ''unipool'' []) (\<lambda>_.
     jret unipool))"

definition deployMultiTroveGetterMainnet ::
  "config \<Rightarrow> (address \<Rightarrow> address list \<Rightarrow> verify_result) \<Rightarrow> address \<Rightarrow> instances \<Rightarrow> (mworld, address) js" where
  "deployMultiTroveGetterMainnet cfg verify me liquityCore =
     jbind (jlift (addrs liquityCore [''troveManager'', ''sortedTroves''])) (\<lambda>params.
     jbind (loadOrDeploy me ''MultiTroveGetter'' ''multiTroveGetter'' params) (\<lambda>multiTroveGetter.
     jbind (if ETHERSCAN_BASE_URL cfg = None then jret ()
            else verifyContract cfg verify ''multiTroveGetter'' params) (\<lambda>_.
     jret multiTroveGetter)))"

section \<open>Connecting\<close>

text \<open>The arguments of an ethers call; \<open>None\<close> is \<open>undefined\<close>, which no address parameter accepts.\<close>

definition ethers_args :: "address option list \<Rightarrow> nat \<Rightarrow> address list res" where
  "ethers_args args n =
     (if length args \<noteq> n then bad_arity
      else if None \<in> set args then Inl (Thrown ''invalid address'')
      else Inr (map the args))"

text \<open>An address where the signature has an address array is refused by the encoder.\<close>

definition not_an_array :: "'a res" where
  "not_an_array = Inl (Thrown ''expected array value'')"

text \<open>
  \<open>PriceFeed.setAddresses(collToken, aggregator, tellorCaller)\<close>; whether Chainlink answers with a working
  and current price is a parameter.
\<close>

definition priceFeed_setAddresses ::
  "(evm \<Rightarrow> address \<Rightarrow> bool) \<Rightarrow> address \<Rightarrow> address \<Rightarrow> address list \<Rightarrow> evm \<Rightarrow> evm res" where
  "priceFeed_setAddresses chainlink_ok me self params E =
     (case params of
        [collT, aggregator, tellorC] \<Rightarrow>
          rbind (onlyOwner me self E) (\<lambda>_.
          rbind (checkContracts E [aggregator, tellorC]) (\<lambda>_.
          rbind (require (chainlink_ok E aggregator) ''PriceFeed: Chainlink must be working and current'') (\<lambda>_.
          Inr (renounceOwnership self (store self [(''priceAggregator'', aggregator),
                 (''tellorCaller'', tellorC)] E)))))
      | _ \<Rightarrow> bad_arity)"

definition isOwnershipRenounced :: "instances \<Rightarrow> string \<Rightarrow> (mworld, bool) js" where
  "isOwnershipRenounced contracts name =
     jbind (jlift (addr contracts name)) (\<lambda>a. jread (\<lambda>w. Inr (owner (m_evm w) a = 0)))"

definition sendAndWaitForTransaction :: "(evm \<Rightarrow> evm res) \<Rightarrow> (mworld, unit) js" where
  "sendAndWaitForTransaction f =
     jbind (on_evm (transact f)) (\<lambda>_. jbind next_hash waitForTransaction)"

text \<open>\<open>(await this.isOwnershipRenounced(c)) || (await this.sendAndWaitForTransaction(c.method(args)))\<close>\<close>

definition unless_renounced ::
  "instances \<Rightarrow> string \<Rightarrow> 'a res \<Rightarrow> (address \<Rightarrow> 'a \<Rightarrow> evm \<Rightarrow> evm res) \<Rightarrow> (mworld, unit) js" where
  "unless_renounced contracts name args method =
     jbind (isOwnershipRenounced contracts name) (\<lambda>done'.
     if done' then jret ()
     else jbind (jlift (addr contracts name)) (\<lambda>self.
          jbind (jlift args) (\<lambda>params.
          sendAndWaitForTransaction (method self params))))"

text \<open>\<open>DEFTContracts.deftToken.address\<close>: the token is an address string (or undefined).\<close>

definition deftToken_address :: "address option \<Rightarrow> address option res" where
  "deftToken_address deftToken = (case deftToken of None \<Rightarrow> Inl TypeError | Some _ \<Rightarrow> Inr None)"

definition some_addrs :: "instances \<Rightarrow> string list \<Rightarrow> address option list res" where
  "some_addrs obj names = rbind (addrs obj names) (\<lambda>as. Inr (map Some as))"

definition connectCoreContractsMainnet ::
  "(evm \<Rightarrow> address \<Rightarrow> bool) \<Rightarrow> address \<Rightarrow> instances \<Rightarrow> instances \<Rightarrow> address option \<Rightarrow> address \<Rightarrow> (mworld, unit) js" where
  "connectCoreContractsMainnet chainlink_ok me contracts DEFTContracts deftToken chainlinkProxyAddress =
     jbind (unless_renounced contracts ''priceFeed''
       (rbind (some_addrs contracts [''tellorCaller'']) (\<lambda>t. ethers_args (Some chainlinkProxyAddress # t) 3))
       (priceFeed_setAddresses chainlink_ok me)) (\<lambda>_.
     jbind (unless_renounced contracts ''sortedTroves''
       (rbind (some_addrs contracts [''troveManager'', ''borrowerOperations'']) (\<lambda>as. ethers_args as 2))
       (\<lambda>self ps. sortedTroves_setParams me self max_size (ps ! 0) (ps ! 1))) (\<lambda>_.
     jbind (unless_renounced contracts ''troveManager''
       (rbind (some_addrs contracts [''borrowerOperations'', ''activePool'', ''defaultPool'', ''stabilityPool'',
          ''gasPool'', ''collSurplusPool'', ''priceFeed'', ''usddToken'', ''sortedTroves'']) (\<lambda>as.
        rbind (deftToken_address deftToken) (\<lambda>t.
        rbind (some_addrs DEFTContracts [''deftStaking'']) (\<lambda>d. ethers_args (as @ t # d) 13))))
       (troveManager_setAddresses me)) (\<lambda>_.
     jbind (unless_renounced contracts ''borrowerOperations''
       (rbind (some_addrs contracts [''troveManager'', ''activePool'', ''defaultPool'', ''stabilityPool'',
          ''gasPool'', ''collSurplusPool'', ''priceFeed'', ''sortedTroves'', ''usddToken'']) (\<lambda>as.
        rbind (some_addrs DEFTContracts [''deftStaking'']) (\<lambda>d. ethers_args (as @ d) 12)))
       (borrowerOperations_setAddresses me)) (\<lambda>_.
     jbind (unless_renounced contracts ''stabilityPool''
       (rbind (some_addrs contracts [''borrowerOperations'', ''troveManager'', ''activePool'', ''usddToken'',
          ''sortedTroves'', ''priceFeed'']) (\<lambda>as.
        rbind (some_addrs DEFTContracts [''communityIssuance'']) (\<lambda>d. ethers_args (as @ d) 9)))
       (stabilityPool_setAddresses me)) (\<lambda>_.
     jbind (unless_renounced contracts ''activePool''
       (rbind (some_addrs contracts [''borrowerOperations'', ''troveManager'', ''stabilityPool'', ''defaultPool''])
          (\<lambda>as. rbind (ethers_args as 4) (\<lambda>_. not_an_array)))
       (\<lambda>self ps. activePool_setAddresses me self [] [] (ps ! 2) (ps ! 3))) (\<lambda>_.
     jbind (unless_renounced contracts ''defaultPool''
       (rbind (some_addrs contracts [''troveManager'', ''activePool''])
          (\<lambda>as. rbind (ethers_args as 2) (\<lambda>_. not_an_array)))
       (\<lambda>self ps. defaultPool_setAddresses me self [] (ps ! 1))) (\<lambda>_.
     jbind (unless_renounced contracts ''collSurplusPool''
       (rbind (some_addrs contracts [''borrowerOperations'', ''troveManager'', ''activePool''])
          (\<lambda>as. ethers_args as 4))
       (\<lambda>self ps. collSurplusPool_setAddresses me self [] [] [] (ps ! 3))) (\<lambda>_.
     unless_renounced contracts ''hintHelpers''
       (rbind (some_addrs contracts [''sortedTroves'', ''troveManager'']) (\<lambda>as. ethers_args as 2))
       (hintHelpers_setAddresses me)))))))))"

definition connectDEFTContractsToCoreMainnet ::
  "address \<Rightarrow> instances \<Rightarrow> address option \<Rightarrow> instances \<Rightarrow> (mworld, unit) js" where
  "connectDEFTContractsToCoreMainnet me DEFTContracts deftToken coreContracts =
     jbind (unless_renounced DEFTContracts ''deftStaking''
       (rbind (deftToken_address deftToken) (\<lambda>t.
        rbind (some_addrs coreContracts [''usddToken'', ''troveManager'', ''borrowerOperations'', ''activePool''])
          (\<lambda>as. ethers_args (t # as) 7)))
       (\<lambda>self ps. deftStaking_setAddresses me self [] [] [] (drop 3 ps))) (\<lambda>_.
     unless_renounced DEFTContracts ''communityIssuance''
       (rbind (deftToken_address deftToken) (\<lambda>t.
        rbind (some_addrs coreContracts [''stabilityPool'']) (\<lambda>as. ethers_args (t # as) 2)))
       (communityIssuance_setAddresses me))"

text \<open>\<open>uniPool.setParams\<close> does not exist in \<open>Unipool.sol\<close>: calling \<open>undefined\<close> is a TypeError.\<close>

definition connectUnipoolMainnet :: "address \<Rightarrow> address option \<Rightarrow> address \<Rightarrow> (mworld, unit) js" where
  "connectUnipoolMainnet uniPool deftToken USDDWETHPairAddr =
     jbind (jread (\<lambda>w. Inr (owner (m_evm w) uniPool = 0))) (\<lambda>done'.
     if done' then jret () else jthrow TypeError)"

section \<open>The whole script\<close>

text \<open>
  The views the script reads at its end, with the number of arguments it passes, and the number of
  parameters they have in the contracts; \<open>L_ETH\<close> and \<open>F_ETH\<close> are not there.
\<close>

definition stat_reads :: "(string \<times> string \<times> nat) list" where
  "stat_reads =
     [(''troveManager'', ''getTroveOwnersCount'', 0), (''sortedTroves'', ''getSize'', 0),
      (''troveManager'', ''getEntireSystemDebt'', 0), (''troveManager'', ''getEntireSystemColl'', 0),
      (''troveManager'', ''getTCR'', 1), (''troveManager'', ''baseRate'', 0),
      (''troveManager'', ''getBorrowingRateWithDecay'', 0), (''stabilityPool'', ''getTotalUSDDDeposits'', 0),
      (''deftStaking'', ''totalDEFTStaked'', 0), (''unipool'', ''totalSupply'', 0),
      (''troveManager'', ''totalStakes'', 0), (''troveManager'', ''totalStakesSnapshot'', 0),
      (''troveManager'', ''totalCollateralSnapshot'', 0), (''troveManager'', ''L_ETH'', 0),
      (''troveManager'', ''L_USDDDebt'', 0), (''stabilityPool'', ''P'', 0), (''stabilityPool'', ''currentScale'', 0),
      (''stabilityPool'', ''currentEpoch'', 0), (''stabilityPool'', ''epochToScaleToSum'', 2),
      (''stabilityPool'', ''epochToScaleToG'', 2), (''deftStaking'', ''F_USDD'', 0), (''deftStaking'', ''F_ETH'', 0),
      (''communityIssuance'', ''totalDEFTIssued'', 0)]"

definition view_arity :: "string \<Rightarrow> string \<Rightarrow> nat option" where
  "view_arity c f =
     map_of [((''troveManager'', ''getTroveOwnersCount''), 0), ((''sortedTroves'', ''getSize''), 0),
      ((''troveManager'', ''getEntireSystemDebt''), 0), ((''troveManager'', ''getEntireSystemColl''), 1),
      ((''troveManager'', ''getTCR''), 1), ((''troveManager'', ''baseRate''), 0),
      ((''troveManager'', ''getBorrowingRateWithDecay''), 0), ((''stabilityPool'', ''getTotalUSDDDeposits''), 0),
      ((''deftStaking'', ''totalDEFTStaked''), 0), ((''unipool'', ''totalSupply''), 0),
      ((''troveManager'', ''totalStakes''), 0), ((''troveManager'', ''totalStakesSnapshot''), 0),
      ((''troveManager'', ''totalCollateralSnapshot''), 0), ((''troveManager'', ''L_COLL''), 0),
      ((''troveManager'', ''L_USDDDebt''), 0), ((''stabilityPool'', ''P''), 0), ((''stabilityPool'', ''currentScale''), 0),
      ((''stabilityPool'', ''currentEpoch''), 0), ((''stabilityPool'', ''epochToScaleToSum''), 2),
      ((''stabilityPool'', ''epochToScaleToG''), 2), ((''deftStaking'', ''F_USDD''), 0),
      ((''communityIssuance'', ''totalDEFTIssued''), 0)] (c, f)"

fun read_stats :: "(string \<times> string \<times> nat) list \<Rightarrow> unit res" where
  "read_stats [] = Inr ()"
| "read_stats ((c, f, n) # rest) =
     (case view_arity c f of
        None \<Rightarrow> Inl TypeError
      | Some k \<Rightarrow> if k = n then read_stats rest else bad_arity)"

text \<open>The parts of the outside world that the script talks to.\<close>

record outside =
  out_verify :: "address \<Rightarrow> address list \<Rightarrow> verify_result"
  out_getPair :: "evm \<Rightarrow> address \<Rightarrow> address \<Rightarrow> address res"
  out_createPair :: "address \<Rightarrow> address \<Rightarrow> evm \<Rightarrow> evm res"
  out_chainlink_ok :: "evm \<Rightarrow> address \<Rightarrow> bool"
  out_allPairsLength :: "evm \<Rightarrow> nat res"
  out_latestAnswer :: "evm \<Rightarrow> nat res"
  out_getReserves :: "evm \<Rightarrow> address \<Rightarrow> (nat \<times> nat) res"

definition getPair :: "outside \<Rightarrow> address \<Rightarrow> address \<Rightarrow> (mworld, address) js" where
  "getPair out a b = jread (\<lambda>w. out_getPair out (m_evm w) a b)"

definition assert_that :: "bool \<Rightarrow> (mworld, unit) js" where
  "assert_that b = jlift (if b then Inr () else Inl (AssertionError ''assert''))"

definition ensure_pair :: "config \<Rightarrow> outside \<Rightarrow> address \<Rightarrow> (mworld, address) js" where
  "ensure_pair cfg out usddToken =
     jbind (getPair out usddToken (WETH_ERC20 cfg)) (\<lambda>USDDWETHPairAddr.
     jbind (getPair out (WETH_ERC20 cfg) usddToken) (\<lambda>WETHUSDDPairAddr.
     jbind (assert_that (USDDWETHPairAddr = WETHUSDDPairAddr)) (\<lambda>_.
     if USDDWETHPairAddr = 0
     then jbind (sendAndWaitForTransaction (out_createPair out (WETH_ERC20 cfg) usddToken)) (\<lambda>_.
          jbind (getPair out usddToken (WETH_ERC20 cfg)) (\<lambda>pair.
          jbind (assert_that (pair \<noteq> 0)) (\<lambda>_.
          jbind (getPair out (WETH_ERC20 cfg) usddToken) (\<lambda>pair'.
          jbind (assert_that (pair' = pair)) (\<lambda>_. jret pair)))))
     else jret USDDWETHPairAddr)))"

text \<open>
  \<open>logContractObjects\<close> reads \<open>.address\<close> of every member; of the DEFT contracts, \<open>deftToken\<close> may be
  \<open>undefined\<close>, and reading a property of it throws.
\<close>

definition logContractObjects :: "address option \<Rightarrow> (mworld, unit) js" where
  "logContractObjects deftToken = jlift (case deftToken of None \<Rightarrow> Inl TypeError | Some _ \<Rightarrow> Inr ())"

definition mainnetDeploy :: "config \<Rightarrow> outside \<Rightarrow> address \<Rightarrow> (mworld, unit) js" where
  "mainnetDeploy cfg out deployerWallet =
     jbind loadPreviousDeployment (\<lambda>_.
     jbind (assert_that (deployerWallet = DEPLOYER cfg)) (\<lambda>_.
     jbind (jread (\<lambda>w. out_allPairsLength out (m_evm w))) (\<lambda>uniAllPairsLength.
     jbind (deployLiquityCoreMainnet cfg (out_verify out) deployerWallet (TELLOR_MASTER cfg)) (\<lambda>liquityCore.
     jbind (jlift (addr liquityCore ''usddToken'')) (\<lambda>usddToken.
     jbind (ensure_pair cfg out usddToken) (\<lambda>USDDWETHPairAddr.
     jbind (deployUnipoolMainnet cfg (out_verify out) deployerWallet) (\<lambda>unipool.
     jbind (deployDEFTContractsMainnet cfg (out_verify out) deployerWallet) (\<lambda>DEFTContracts.
     jbind (connectCoreContractsMainnet (out_chainlink_ok out) deployerWallet liquityCore DEFTContracts
              (AAB_ERC20 cfg) (CHAINLINK_ETHUSD_PROXY cfg)) (\<lambda>_.
     jbind (connectDEFTContractsToCoreMainnet deployerWallet DEFTContracts (AAB_ERC20 cfg) liquityCore) (\<lambda>_.
     jbind (deployMultiTroveGetterMainnet cfg (out_verify out) deployerWallet liquityCore) (\<lambda>multiTroveGetter.
     jbind (connectUnipoolMainnet unipool (AAB_ERC20 cfg) USDDWETHPairAddr) (\<lambda>_.
     jbind (logContractObjects (AAB_ERC20 cfg)) (\<lambda>_.
     jbind (jread (\<lambda>w. out_latestAnswer out (m_evm w))) (\<lambda>chainlinkPrice.
     jbind (jread (\<lambda>w. out_getReserves out (m_evm w) USDDWETHPairAddr)) (\<lambda>reserves.
     jlift (read_stats stat_reads))))))))))))))))"

definition demo_mworld :: mworld where
  "demo_mworld = \<lparr>m_evm = \<lparr>hasCode = (\<lambda>_. False), cls = (\<lambda>_. ''''), owner = (\<lambda>_. 0), slot = (\<lambda>_ _. 0),
      flag = (\<lambda>_ _ _. False), arr = (\<lambda>_ _. []), balanceOf = (\<lambda>_ _. 0), allowance = (\<lambda>_ _ _. 0), nextAddr = 100\<rparr>,
    m_state = (\<lambda>_. None), m_file = None, m_txs = 0, m_saves = 0, m_confirmed = (\<lambda>_. True), m_writable = (\<lambda>_. True)\<rparr>"

definition renounced_in :: "instances \<Rightarrow> mworld \<Rightarrow> string \<Rightarrow> bool" where
  "renounced_in contracts w name \<longleftrightarrow> (\<exists>a. contracts name = Some a \<and> owner (m_evm w) a = 0)"

section \<open>Persistence\<close>

text \<open>
  \<open>synced\<close>: loading the output file would give the in-memory state.  A \<open>persistent\<close> computation keeps
  it so, whether it returns or throws, unless it throws because the file could not be written; then the file is one record
  behind.  It never changes an address that is recorded.
\<close>

definition synced :: "mworld \<Rightarrow> bool" where
  "synced w \<longleftrightarrow> file_state w = m_state w"

definition one_behind :: "mworld \<Rightarrow> bool" where
  "one_behind w \<longleftrightarrow> (\<exists>n e. m_state w = (file_state w)(n \<mapsto> e))"

definition keeps_addresses :: "mworld \<Rightarrow> mworld \<Rightarrow> bool" where
  "keeps_addresses w w' \<longleftrightarrow> (\<forall>n a. state_address (m_state w) n = Some a \<longrightarrow>
     state_address (m_state w') n = Some a \<and> state_address (file_state w') n = Some a)"

definition persists :: "mworld \<Rightarrow> 'a res \<times> mworld \<Rightarrow> bool" where
  "persists w out \<longleftrightarrow> m_writable (snd out) = m_writable w \<and> keeps_addresses w (snd out) \<and>
     (synced (snd out) \<or> fst out = Inl write_error \<and> one_behind (snd out) \<and> (\<exists>k. \<not> m_writable w k))"

definition persistent :: "(mworld, 'a) js \<Rightarrow> bool" where
  "persistent m \<longleftrightarrow> (\<forall>w. synced w \<longrightarrow> persists w (m w))"

named_theorems persist_rules \<open>computations that keep the deployment record\<close>

lemmas persists_defs = persists_def keeps_addresses_def synced_def one_behind_def file_state_def

lemma persistent_basic [persist_rules]:
  "persistent (jret x)" "persistent (jthrow e)" "persistent (jlift r)" "persistent (jread f)"
  "persistent (on_evm m)" "persistent next_hash" "persistent (waitForTransaction h)"
  by (auto simp: persistent_def persists_defs on_evm_def next_hash_def waitForTransaction_def split: prod.splits)

lemma persistent_bind [persist_rules]:
  fixes m :: "(mworld, 'a) js" and f :: "'a \<Rightarrow> (mworld, 'b) js"
  assumes "persistent m" and "\<And>x. persistent (f x)"
  shows "persistent (jbind m f)"
  unfolding persistent_def
proof (intro allI impI)
  fix w :: mworld
  assume w: "synced w"
  obtain r v where m: "m w = (r, v)" by fastforce
  have mw: "persists w (r, v)" using assms(1) w m unfolding persistent_def by metis
  show "persists w (jbind m f w)"
  proof (cases r)
    case (Inl e)
    then show ?thesis using mw m by (simp add: jbind_def persists_def)
  next
    case (Inr x)
    then have v: "synced v" "m_writable v = m_writable w" "keeps_addresses w v" using mw by (auto simp: persists_def)
    then have "persists v (f x v)" using assms(2)[of x] unfolding persistent_def by blast
    then have "persists w (f x v)" using v unfolding persists_def keeps_addresses_def by fastforce
    then show ?thesis using m Inr by (simp add: jbind_def)
  qed
qed

lemma persistent_if [persist_rules]: "persistent a \<Longrightarrow> persistent b \<Longrightarrow> persistent (if c then a else b)"
  by simp

text \<open>Recording a contract that had no address, or has the same one, and saving at once.\<close>

lemma persistent_record:
  assumes "synced w" "state_address (m_state w) n \<in> {None, e_address e}"
  shows "persists w (saveDeployment (w\<lparr>m_state := (m_state w)(n \<mapsto> e)\<rparr>))"
  using assms by (auto simp: persists_defs saveDeployment_def state_address_def)

lemma persists_ret: "persists w (m v) \<Longrightarrow> persists w (jbind m (\<lambda>_. jret a) v)"
  by (cases "m v"; cases "fst (m v)") (auto simp: persists_def jbind_def)

lemma persistent_loadOrDeploy [persist_rules]: "persistent (loadOrDeploy me f n ps)"
  unfolding persistent_def
proof (intro allI impI)
  fix w assume w: "synced w"
  show "persists w (loadOrDeploy me f n ps w)"
  proof (cases "state_address (m_state w) n")
    case (Some a)
    then show ?thesis using w by (simp add: loadOrDeploy_def jbind_def persists_defs)
  next
    case None
    obtain r E where r: "new me f ps (m_evm w) = (r, E)" by fastforce
    let ?v = "w\<lparr>m_evm := E, m_txs := Suc (m_txs w)\<rparr>"
    have v: "synced ?v" "state_address (m_state ?v) n = None" using w None by (simp_all add: synced_def file_state_def)
    note run = loadOrDeploy_def jbind_def on_evm_def next_hash_def waitForTransaction_def None r
    consider (fails) e where "r = Inl e" | (lost) a where "r = Inr a" "\<not> m_confirmed w (m_txs w)"
      | (mined) a where "r = Inr a" "m_confirmed w (m_txs w)"
      by (cases r) auto
    then show ?thesis
    proof cases
      case fails
      then show ?thesis using w by (simp add: run persists_defs)
    next
      case lost
      then show ?thesis using w by (simp add: run persists_defs)
    next
      case mined
      let ?rec = "\<lparr>e_address = Some a, e_txHash = m_txs w, e_verification = None\<rparr>"
      have "persists ?v (saveDeployment (?v\<lparr>m_state := (m_state ?v)(n \<mapsto> ?rec)\<rparr>))"
        using persistent_record[OF v(1), of n ?rec] v(2) by simp
      then have "persists w (saveDeployment (?v\<lparr>m_state := (m_state w)(n \<mapsto> ?rec)\<rparr>))"
        by (simp add: persists_def keeps_addresses_def)
      from persists_ret[where m = saveDeployment and a = a, OF this] mined show ?thesis by (simp add: run)
    qed
  qed
qed

lemma persistent_verify [persist_rules]: "persistent (verifyContract cfg verify n ps)"
  unfolding persistent_def
proof (intro allI impI)
  fix w assume w: "synced w"
  have "persists w (saveDeployment (w\<lparr>m_state := (m_state w)(n \<mapsto> e\<lparr>e_verification := v\<rparr>)\<rparr>))" if "m_state w n = Some e" for e v
    by (rule persistent_record[OF w]) (simp add: state_address_def that)
  moreover have "persists w (Inr (), w)" using w by (simp add: persists_defs)
  ultimately show "persists w (verifyContract cfg verify n ps w)"
    by (auto simp: verifyContract_def jbind_def split: option.splits verify_result.splits)
qed

lemma persistent_verify_all [persist_rules]: "persistent (verify_all cfg verify ns)"
proof (induction cfg verify ns rule: verify_all.induct)
  case (1 cfg verify)
  show ?case unfolding verify_all.simps by (rule persist_rules)
next
  case (2 cfg verify name params rest)
  show ?case unfolding verify_all.simps by (intro persist_rules 2)
qed

lemma recorded_step:
  assumes "jbind (loadOrDeploy me f n ps) g w = (Inr r, w')" and w: "synced w" and "\<And>x. persistent (g x)"
  obtains a v where "g a v = (Inr r, w')" "synced v" and "state_address (m_state w') n = Some a"
proof -
  from assms(1) obtain a v where v: "loadOrDeploy me f n ps w = (Inr a, v)" and g: "g a v = (Inr r, w')"
    by (rule jbind_InrE)
  have "synced v" using persistent_loadOrDeploy[of me f n ps] w v unfolding persistent_def persists_def
    by (metis fst_conv snd_conv sum.distinct(1))
  from v have "state_address (m_state v) n = Some a"
    by (auto simp: loadOrDeploy_def jbind_def on_evm_def saveDeployment_def state_address_def next_hash_def
        waitForTransaction_def split: option.splits prod.splits sum.splits if_splits)
  moreover have "persists v (Inr r, w')" using assms(3)[of a] \<open>synced v\<close> g unfolding persistent_def by metis
  ultimately have "state_address (m_state w') n = Some a" by (simp add: persists_def keeps_addresses_def)
  with g \<open>synced v\<close> that show ?thesis by blast
qed

lemma loaded_step:
  "state_address (m_state w) n = Some a \<Longrightarrow> jbind (loadOrDeploy me f n ps) g w = g a w"
  by (simp add: loadOrDeploy_def jbind_def)

lemma verify_keeps_chain:
  "\<forall>k. m_writable w k \<Longrightarrow>
   m_evm (snd (verifyContract cfg verify n ps w)) = m_evm w \<and> m_txs (snd (verifyContract cfg verify n ps w)) = m_txs w \<and>
   m_writable (snd (verifyContract cfg verify n ps w)) = m_writable w \<and> is_ok (fst (verifyContract cfg verify n ps w))"
  by (auto simp: verifyContract_def jbind_def saveDeployment_def split: option.splits verify_result.splits)

lemma verify_all_keeps_chain:
  assumes "\<forall>k. m_writable w k"
  obtains w' where "verify_all cfg verify ns w = (Inr (), w')" "m_evm w' = m_evm w" "m_txs w' = m_txs w"
  using assms
proof (induction cfg verify ns arbitrary: w thesis rule: verify_all.induct)
  case (1 cfg verify)
  then show ?case by simp
next
  case (2 cfg verify name params rest)
  obtain r v where v: "verifyContract cfg verify name params w = (r, v)" by fastforce
  with verify_keeps_chain[of w cfg verify name params] 2(3)
  have "r = Inr ()" "m_evm v = m_evm w" "m_txs v = m_txs w" and w: "m_writable v = m_writable w" by (cases r; simp)+
  moreover obtain w' where "verify_all cfg verify rest v = (Inr (), w')" "m_evm w' = m_evm v" "m_txs w' = m_txs v"
    using 2(1)[of v] 2(3) w by auto
  ultimately show ?case using v 2(2)[of w'] by (simp add: jbind_def)
qed

lemma persistent_core [persist_rules]: "persistent (deployLiquityCoreMainnet cfg verify me tellor)"
  unfolding deployLiquityCoreMainnet_def Let_def by (intro persist_rules)

lemma core_records:
  assumes "deployLiquityCoreMainnet cfg verify me tellor w = (Inr core, w')" and "synced w"
  obtains pf st tm ap sp gp dp cp bo hh tc ut where
    "state_address (m_state w') ''priceFeed'' = Some pf" "state_address (m_state w') ''sortedTroves'' = Some st"
    "state_address (m_state w') ''troveManager'' = Some tm" "state_address (m_state w') ''activePool'' = Some ap"
    "state_address (m_state w') ''stabilityPool'' = Some sp" "state_address (m_state w') ''gasPool'' = Some gp"
    "state_address (m_state w') ''defaultPool'' = Some dp" "state_address (m_state w') ''collSurplusPool'' = Some cp"
    "state_address (m_state w') ''borrowerOperations'' = Some bo" "state_address (m_state w') ''hintHelpers'' = Some hh"
    "state_address (m_state w') ''tellorCaller'' = Some tc" "state_address (m_state w') ''usddToken'' = Some ut"
    "core = map_of [(''priceFeed'', pf), (''usddToken'', ut), (''sortedTroves'', st), (''troveManager'', tm),
       (''activePool'', ap), (''stabilityPool'', sp), (''gasPool'', gp), (''defaultPool'', dp),
       (''collSurplusPool'', cp), (''borrowerOperations'', bo), (''hintHelpers'', hh), (''tellorCaller'', tc)]"
  using assms unfolding deployLiquityCoreMainnet_def Let_def
  apply -
  apply (erule (1) recorded_step, (intro persist_rules; fail))+
  apply (erule jbind_InrE)
  apply (simp only: jret_def prod.inject sum.inject)
  done

lemma core_loads:
  assumes "state_address (m_state w) ''priceFeed'' = Some pf" "state_address (m_state w) ''sortedTroves'' = Some st"
    "state_address (m_state w) ''troveManager'' = Some tm" "state_address (m_state w) ''activePool'' = Some ap"
    "state_address (m_state w) ''stabilityPool'' = Some sp" "state_address (m_state w) ''gasPool'' = Some gp"
    "state_address (m_state w) ''defaultPool'' = Some dp" "state_address (m_state w) ''collSurplusPool'' = Some cp"
    "state_address (m_state w) ''borrowerOperations'' = Some bo" "state_address (m_state w) ''hintHelpers'' = Some hh"
    "state_address (m_state w) ''tellorCaller'' = Some tc" "state_address (m_state w) ''usddToken'' = Some ut"
    and writes: "\<forall>k. m_writable w k"
  obtains w' where "deployLiquityCoreMainnet cfg verify me tellor w = (Inr (map_of
       [(''priceFeed'', pf), (''usddToken'', ut), (''sortedTroves'', st), (''troveManager'', tm),
       (''activePool'', ap), (''stabilityPool'', sp), (''gasPool'', gp), (''defaultPool'', dp),
       (''collSurplusPool'', cp), (''borrowerOperations'', bo), (''hintHelpers'', hh), (''tellorCaller'', tc)]), w')"
    "m_evm w' = m_evm w" "m_txs w' = m_txs w"
proof -
  let ?args = "[(''priceFeed'', []), (''sortedTroves'', []), (''troveManager'', []), (''activePool'', []),
               (''stabilityPool'', []), (''gasPool'', []), (''defaultPool'', []), (''collSurplusPool'', []),
               (''borrowerOperations'', []), (''hintHelpers'', []), (''tellorCaller'', [tellor]),
               (''usddToken'', [tm, sp, bo])]"
  obtain v where v: "verify_all cfg verify ?args w = (Inr (), v)" "m_evm v = m_evm w" "m_txs v = m_txs w"
    using verify_all_keeps_chain[OF writes] by metis
  show ?thesis
  proof (cases "ETHERSCAN_BASE_URL cfg = None")
    case True
    show ?thesis
      by (rule that[of w], unfold deployLiquityCoreMainnet_def Let_def)
        (simp_all only: loaded_step[OF assms(1)] loaded_step[OF assms(2)] loaded_step[OF assms(3)]
          loaded_step[OF assms(4)] loaded_step[OF assms(5)] loaded_step[OF assms(6)] loaded_step[OF assms(7)]
          loaded_step[OF assms(8)] loaded_step[OF assms(9)] loaded_step[OF assms(10)] loaded_step[OF assms(11)]
          loaded_step[OF assms(12)] True if_True simp_thms jbind_ret jret_apply)
  next
    case False
    show ?thesis
      by (rule that[of v], unfold deployLiquityCoreMainnet_def Let_def)
        (simp_all only: loaded_step[OF assms(1)] loaded_step[OF assms(2)] loaded_step[OF assms(3)]
          loaded_step[OF assms(4)] loaded_step[OF assms(5)] loaded_step[OF assms(6)] loaded_step[OF assms(7)]
          loaded_step[OF assms(8)] loaded_step[OF assms(9)] loaded_step[OF assms(10)] loaded_step[OF assms(11)]
          loaded_step[OF assms(12)] False if_False jbind_run(1)[where m = "verify_all cfg verify ?args" and w = w, OF v(1)] v jret_apply)
  qed
qed

lemma not_ok_bind: "(\<And>x v. \<not> is_ok (fst (f x v))) \<Longrightarrow> \<not> is_ok (fst (jbind m f w))"
  by (auto simp: jbind_def split: prod.splits sum.splits)

lemma not_ok_bind_first: "\<not> is_ok (fst (m w)) \<Longrightarrow> \<not> is_ok (fst (jbind m f w))"
  by (auto simp: jbind_def split: prod.splits sum.splits)

lemma renounced_skips:
  "renounced_in contracts w n \<Longrightarrow> unless_renounced contracts n args f w = (Inr (), w)"
  by (auto simp: renounced_in_def unless_renounced_def isOwnershipRenounced_def addr_def jbind_def)

lemma renounced_then:
  "renounced_in contracts w n \<Longrightarrow> jbind (unless_renounced contracts n args f) g w = g () w"
  using renounced_skips[of contracts w n args f] by (simp add: jbind_run)

lemma refused_arguments_then:
  assumes "contracts n = Some a" and "owner (m_evm w) a \<noteq> 0" and "args = Inl e"
  shows "jbind (unless_renounced contracts n args f) g w = (Inl e, w)"
proof -
  have "unless_renounced contracts n args f w = (Inl e, w)"
    using assms by (simp add: unless_renounced_def isOwnershipRenounced_def addr_def jbind_def)
  then show ?thesis by (rule jbind_run)
qed

text \<open>One step of a deployment from scratch.\<close>

definition deployed :: "string \<Rightarrow> address \<Rightarrow> evm \<Rightarrow> mworld \<Rightarrow> mworld" where
  "deployed n a E w = (let s = (m_state w)(n \<mapsto> \<lparr>e_address = Some a, e_txHash = m_txs w, e_verification = None\<rparr>) in
     w\<lparr>m_evm := E, m_txs := Suc (m_txs w), m_state := s, m_file := Some s, m_saves := Suc (m_saves w)\<rparr>)"

lemma deployed_fields:
  "m_confirmed (deployed n a E w) = m_confirmed w" "m_writable (deployed n a E w) = m_writable w"
  "m_evm (deployed n a E w) = E" "m_txs (deployed n a E w) = Suc (m_txs w)"
  "state_address (m_state (deployed n a E w)) k = (if k = n then Some a else state_address (m_state w) k)"
  by (simp_all add: deployed_def state_address_def Let_def)

lemma fresh_step:
  assumes "state_address (m_state w) n = None" and "new me c ps (m_evm w) = (Inr a, E)"
    and "m_confirmed w = (\<lambda>_. True)" "m_writable w = (\<lambda>_. True)"
  shows "jbind (loadOrDeploy me c n ps) g w = g a (deployed n a E w)"
  using assms by (simp add: loadOrDeploy_def jbind_def on_evm_def saveDeployment_def next_hash_def
      waitForTransaction_def deployed_def Let_def)

lemmas fresh_plain_step = fresh_step[OF _ new_plain]

lemma fresh_tellor_step:
  "state_address (m_state w) n = None \<Longrightarrow> m_confirmed w = (\<lambda>_. True) \<Longrightarrow> m_writable w = (\<lambda>_. True) \<Longrightarrow>
   jbind (loadOrDeploy me ''TellorCaller'' n [t]) g w =
     g (nextAddr (m_evm w)) (deployed n (nextAddr (m_evm w))
       (store (nextAddr (m_evm w)) [(''tellor'', t)] (fresh me ''TellorCaller'' (m_evm w))) w)"
  by (rule fresh_step) (simp_all add: new_run construct_def)

lemma fresh_usdd_step:
  "state_address (m_state w) n = None \<Longrightarrow>
   checkContracts (fresh me ''USDDToken'' (m_evm w)) [tm, sp, bo] = Inr () \<Longrightarrow>
   m_confirmed w = (\<lambda>_. True) \<Longrightarrow> m_writable w = (\<lambda>_. True) \<Longrightarrow>
   jbind (loadOrDeploy me ''USDDToken'' n [tm, sp, bo]) g w =
     g (nextAddr (m_evm w)) (deployed n (nextAddr (m_evm w)) (store (nextAddr (m_evm w)) [(''troveManagerAddress'', tm),
          (''stabilityPoolAddress'', sp), (''borrowerOperationsAddress'', bo)] (fresh me ''USDDToken'' (m_evm w))) w)"
  by (rule fresh_step) (simp_all only: new_token sum.case)

lemma demo_mworld_fields:
  "m_confirmed demo_mworld = (\<lambda>_. True)" "m_writable demo_mworld = (\<lambda>_. True)"
  "state_address (m_state demo_mworld) k = None" "nextAddr (m_evm demo_mworld) = 100" "m_txs demo_mworld = 0"
  by (simp_all add: demo_mworld_def state_address_def)

section \<open>Properties\<close>



text \<open>Resumption: once the core deployment has returned, a new process that loads the output file and
  runs it again (with whatever configuration, verification service and in-memory state) gets the same
  contracts, sends no transaction and leaves the chain as it is, if the file can still be written.\<close>

theorem core_redeployment_resumes:
  assumes "synced w" and "deployLiquityCoreMainnet cfg verify me tellor w = (Inr core, w1)"
    and writes: "\<forall>k. m_writable w1 k"
  shows "\<exists>w2. jbind loadPreviousDeployment (\<lambda>_. deployLiquityCoreMainnet cfg' verify' me' tellor')
                 (w1\<lparr>m_state := s\<rparr>) = (Inr core, w2) \<and> m_evm w2 = m_evm w1 \<and> m_txs w2 = m_txs w1"
proof -
  let ?v = "w1\<lparr>m_state := s\<rparr>\<lparr>m_state := m_state w1\<rparr>"
  have "synced w1"
    using persistent_core[of cfg verify me tellor] assms(1,2) unfolding persistent_def persists_def
    by (metis fst_conv snd_conv sum.distinct(1))
  then have load: "loadPreviousDeployment (w1\<lparr>m_state := s\<rparr>) = (Inr (), ?v)"
    by (simp add: loadPreviousDeployment_def synced_def file_state_def)
  from assms(2,1) show ?thesis
  proof (rule core_records)
    fix pf st tm ap sp gp dp cp bo hh tc ut
    assume "state_address (m_state w1) ''priceFeed'' = Some pf" "state_address (m_state w1) ''sortedTroves'' = Some st"
      "state_address (m_state w1) ''troveManager'' = Some tm" "state_address (m_state w1) ''activePool'' = Some ap"
      "state_address (m_state w1) ''stabilityPool'' = Some sp" "state_address (m_state w1) ''gasPool'' = Some gp"
      "state_address (m_state w1) ''defaultPool'' = Some dp" "state_address (m_state w1) ''collSurplusPool'' = Some cp"
      "state_address (m_state w1) ''borrowerOperations'' = Some bo" "state_address (m_state w1) ''hintHelpers'' = Some hh"
      "state_address (m_state w1) ''tellorCaller'' = Some tc" "state_address (m_state w1) ''usddToken'' = Some ut"
    then have recorded: "state_address (m_state ?v) ''priceFeed'' = Some pf" "state_address (m_state ?v) ''sortedTroves'' = Some st"
      "state_address (m_state ?v) ''troveManager'' = Some tm" "state_address (m_state ?v) ''activePool'' = Some ap"
      "state_address (m_state ?v) ''stabilityPool'' = Some sp" "state_address (m_state ?v) ''gasPool'' = Some gp"
      "state_address (m_state ?v) ''defaultPool'' = Some dp" "state_address (m_state ?v) ''collSurplusPool'' = Some cp"
      "state_address (m_state ?v) ''borrowerOperations'' = Some bo" "state_address (m_state ?v) ''hintHelpers'' = Some hh"
      "state_address (m_state ?v) ''tellorCaller'' = Some tc" "state_address (m_state ?v) ''usddToken'' = Some ut"
      by simp_all
    assume core: "core = map_of [(''priceFeed'', pf), (''usddToken'', ut), (''sortedTroves'', st), (''troveManager'', tm),
       (''activePool'', ap), (''stabilityPool'', sp), (''gasPool'', gp), (''defaultPool'', dp),
       (''collSurplusPool'', cp), (''borrowerOperations'', bo), (''hintHelpers'', hh), (''tellorCaller'', tc)]"
    from recorded obtain w2 where "deployLiquityCoreMainnet cfg' verify' me' tellor' ?v = (Inr core, w2)"
        "m_evm w2 = m_evm ?v" "m_txs w2 = m_txs ?v"
      unfolding core by (rule core_loads) (simp add: writes)
    with load show ?thesis
      by (intro exI[of _ w2]) (simp add: jbind_run)
  qed
qed

theorem core_redeployment_resumes_witness:
  "\<exists>core w1 w2. deployLiquityCoreMainnet localFork_params (\<lambda>_ _. Verified) 7 8 demo_mworld = (Inr core, w1) \<and>
     core ''usddToken'' = Some 111 \<and> m_txs w1 = 12 \<and>
     jbind loadPreviousDeployment (\<lambda>_. deployLiquityCoreMainnet mainnet_params (\<lambda>_ _. PluginError) 7 8)
       (w1\<lparr>m_state := Map.empty\<rparr>) = (Inr core, w2) \<and> m_evm w2 = m_evm w1 \<and> m_txs w2 = 12"
proof -
  let ?r = "deployLiquityCoreMainnet localFork_params (\<lambda>_ _. Verified) 7 8 demo_mworld"
  have ok: "is_ok (fst ?r) \<and> (case fst ?r of Inl _ \<Rightarrow> False | Inr c \<Rightarrow> c ''usddToken'' = Some 111) \<and> m_txs (snd ?r) = 12"
    by (simp add: deployLiquityCoreMainnet_def Let_def fresh_plain_step fresh_tellor_step fresh_usdd_step
        deployed_fields evm_run demo_mworld_fields localFork_params_def)
  have writes: "\<forall>k. m_writable (snd ?r) k"
    by (simp add: deployLiquityCoreMainnet_def Let_def fresh_plain_step fresh_tellor_step fresh_usdd_step
        deployed_fields evm_run demo_mworld_fields localFork_params_def)
  from ok obtain core where r: "?r = (Inr core, snd ?r)" "core ''usddToken'' = Some 111"
    by (cases ?r; cases "fst ?r") auto
  have "synced demo_mworld" by (simp add: synced_def demo_mworld_def file_state_def)
  from core_redeployment_resumes[OF this r(1) writes, of mainnet_params "\<lambda>_ _. PluginError" 7 8 Map.empty]
  show ?thesis using r ok by auto
qed

text \<open>The script never completes: it always ends in an exception.  With an Etherscan URL the DEFT
  deployment throws after its verifications; without, connecting the core stops at its first call,
  whose argument count does not match, as long as the price feed still has an owner, and changes nothing.\<close>

theorem mainnetDeploy_never_completes:
  "\<not> is_ok (fst (mainnetDeploy cfg out me w)) \<and>
   (ETHERSCAN_BASE_URL cfg \<noteq> None \<longrightarrow> \<not> is_ok (fst (deployDEFTContractsMainnet cfg verify me w))) \<and>
   (core ''priceFeed'' = Some p \<and> core ''tellorCaller'' = Some t \<and> owner (m_evm w) p \<noteq> 0 \<longrightarrow>
     connectCoreContractsMainnet ok me core deft token chainlink w = (bad_arity, w))"
proof (intro conjI impI)
  have "\<not> is_ok (read_stats stat_reads)"
    by (simp add: stat_reads_def view_arity_def bad_arity_def)
  then show "\<not> is_ok (fst (mainnetDeploy cfg out me w))"
    unfolding mainnetDeploy_def by (intro not_ok_bind) simp
next
  assume "ETHERSCAN_BASE_URL cfg \<noteq> None"
  then show "\<not> is_ok (fst (deployDEFTContractsMainnet cfg verify me w))"
    unfolding deployDEFTContractsMainnet_def
    by (intro not_ok_bind not_ok_bind_first) (simp add: not_ok_bind)
next
  assume "core ''priceFeed'' = Some p \<and> core ''tellorCaller'' = Some t \<and> owner (m_evm w) p \<noteq> 0"
  then show "connectCoreContractsMainnet ok me core deft token chainlink w = (bad_arity, w)"
    unfolding connectCoreContractsMainnet_def bad_arity_def
    by (intro refused_arguments_then[of _ _ p])
      (simp_all add: some_addrs_def addr_def ethers_args_def bad_arity_def)
qed

theorem mainnetDeploy_never_completes_witness:
  "ETHERSCAN_BASE_URL mainnet_params \<noteq> None \<and>
   \<not> is_ok (fst (deployDEFTContractsMainnet mainnet_params (\<lambda>_ _. Verified) 7 demo_mworld)) \<and>
   connectCoreContractsMainnet (\<lambda>_ _. True) 7 (Map.empty(''priceFeed'' \<mapsto> 50, ''tellorCaller'' \<mapsto> 51)) Map.empty None 9
     (demo_mworld\<lparr>m_evm := m_evm demo_mworld\<lparr>owner := \<lambda>_. 7\<rparr>\<rparr>) =
   (bad_arity, demo_mworld\<lparr>m_evm := m_evm demo_mworld\<lparr>owner := \<lambda>_. 7\<rparr>\<rparr>)"
  using mainnetDeploy_never_completes[of mainnet_params undefined 7 demo_mworld "\<lambda>_ _. Verified"]
    mainnetDeploy_never_completes[of mainnet_params undefined 7
      "demo_mworld\<lparr>m_evm := m_evm demo_mworld\<lparr>owner := \<lambda>_. 7\<rparr>\<rparr>" "\<lambda>_ _. Verified"
      "Map.empty(''priceFeed'' \<mapsto> 50, ''tellorCaller'' \<mapsto> 51)" 50 51 "\<lambda>_ _. True" Map.empty None 9]
  by (simp add: mainnet_params_def)

text \<open>Connecting is skipped for contracts whose ownership is renounced: on a fully connected system both
  connectors return without a transaction and without a change.\<close>

theorem connectors_skip_renounced:
  assumes "\<forall>n\<in>{''priceFeed'', ''sortedTroves'', ''troveManager'', ''borrowerOperations'', ''stabilityPool'', ''activePool'',
             ''defaultPool'', ''collSurplusPool'', ''hintHelpers''}. renounced_in core w n"
    and "\<forall>n\<in>{''deftStaking'', ''communityIssuance''}. renounced_in deft w n"
  shows "connectCoreContractsMainnet ok me core deft token chainlink w = (Inr (), w) \<and>
         connectDEFTContractsToCoreMainnet me deft token core w = (Inr (), w)"
proof
  from assms(1) have c: "renounced_in core w ''priceFeed''" "renounced_in core w ''sortedTroves''"
    "renounced_in core w ''troveManager''" "renounced_in core w ''borrowerOperations''"
    "renounced_in core w ''stabilityPool''" "renounced_in core w ''activePool''" "renounced_in core w ''defaultPool''"
    "renounced_in core w ''collSurplusPool''" "renounced_in core w ''hintHelpers''"
    by (simp_all only: ball_simps)
  from assms(2) have d: "renounced_in deft w ''deftStaking''" "renounced_in deft w ''communityIssuance''"
    by (simp_all only: ball_simps)
  show "connectCoreContractsMainnet ok me core deft token chainlink w = (Inr (), w)"
    unfolding connectCoreContractsMainnet_def
    by (simp only: c[THEN renounced_then] c[THEN renounced_skips])
  show "connectDEFTContractsToCoreMainnet me deft token core w = (Inr (), w)"
    unfolding connectDEFTContractsToCoreMainnet_def
    by (simp only: d[THEN renounced_then] d[THEN renounced_skips])
qed

theorem connectors_skip_renounced_witness:
  "connectCoreContractsMainnet (\<lambda>_ _. True) 7 (\<lambda>_. Some 50) (\<lambda>_. Some 60) None 9 demo_mworld = (Inr (), demo_mworld)"
  using connectors_skip_renounced[of "\<lambda>_. Some 50" demo_mworld "\<lambda>_. Some 60" "\<lambda>_ _. True" 7 None 9]
  by (simp add: renounced_in_def demo_mworld_def)

end
