(* ===== verification/Mutation_Tool.thy ===== *)
theory Mutation_Tool
  imports Test_Helper
begin

text \<open>
  The mutation tester in \<open>packages/contracts/eth-mutants-custom\<close>: the five mutators over the visited
  syntax nodes of a Solidity file, the \<open>Mutation\<close> object (apply, restore, diff, patch), the reporter
  and the two commands.  The file system is a partial map from paths to contents.  The Solidity
  parser, sha1, the line diff, chalk, glob, the recursive copy and the npm process are parameters
  (\<open>tools\<close>).  \<open>process.exit(1)\<close> is the exception \<open>Thrown ''exit 1''\<close>.
\<close>

section \<open>String and number primitives\<close>

text \<open>\<open>replace\<close> with a string pattern changes its first occurrence.\<close>

fun js_replace :: "string \<Rightarrow> string \<Rightarrow> string \<Rightarrow> string" where
  "js_replace [] p r = (if p = [] then r else [])"
| "js_replace (x # xs) p r =
     (if is_prefix p (x # xs) then r @ drop (length p) (x # xs) else x # js_replace xs p r)"

text \<open>\<open>text.replace(/c[^=]/, r)\<close>: the first \<open>c\<close> that is followed by a character other than \<open>=\<close>.\<close>

fun replace_not_eq :: "char \<Rightarrow> string \<Rightarrow> string \<Rightarrow> string" where
  "replace_not_eq c (x # y # s) r =
     (if x = c \<and> y \<noteq> CHR ''='' then r @ s else x # replace_not_eq c (y # s) r)"
| "replace_not_eq c s r = s"

fun hex_val :: "char \<Rightarrow> nat option" where
  "hex_val c = (let n = of_char c in
     if 48 \<le> n \<and> n \<le> 57 then Some (n - 48)
     else if 97 \<le> n \<and> n \<le> 102 then Some (n - 87)
     else if 65 \<le> n \<and> n \<le> (70::nat) then Some (n - 55) else None)"

definition read_hex :: "string \<Rightarrow> nat" where
  "read_hex s = foldl (\<lambda>acc c. 16 * acc + the (hex_val c)) 0 s"

text \<open>
  \<open>parseInt\<close> of an unsigned literal: hexadecimal after \<open>0x\<close>, else the leading decimal digits; \<open>None\<close> is
  NaN.  The value is a Number, so it is rounded.
\<close>

definition parseInt :: "string \<Rightarrow> nat option" where
  "parseInt s =
     (if is_prefix ''0x'' s \<or> is_prefix ''0X'' s
      then let ds = takeWhile (\<lambda>c. hex_val c \<noteq> None) (drop 2 s)
           in if ds = [] then None else Some (to_number (read_hex ds))
      else let ds = takeWhile is_digit s in if ds = [] then None else Some (to_number (read_nat ds)))"

text \<open>
  \<open>toString\<close> of a Number that is a natural number: the fewest digits that read back as the same double,
  the nearest such, padded with zeros up to 21 digits and in exponent form beyond.
\<close>

definition nearest_with :: "nat \<Rightarrow> nat \<Rightarrow> nat option" where
  "nearest_with x e =
     (let s = x div 10 ^ e; lo = to_number (s * 10 ^ e) = x; hi = to_number ((s + 1) * 10 ^ e) = x
      in if lo \<and> (\<not> hi \<or> 2 * (x mod 10 ^ e) \<le> 10 ^ e) then Some s else if hi then Some (s + 1) else None)"

fun shortest_digits :: "nat \<Rightarrow> nat \<Rightarrow> string \<times> nat" where
  "shortest_digits x 0 = (show_nat x, 0)"
| "shortest_digits x (Suc e) =
     (case nearest_with x (Suc e) of
        Some s \<Rightarrow> if s = 0 then shortest_digits x e else (show_nat s, Suc e)
      | None \<Rightarrow> shortest_digits x e)"

definition number_toString :: "nat \<Rightarrow> string" where
  "number_toString x =
     (case shortest_digits x (length (show_nat x) - 1) of
        (ds, e) \<Rightarrow>
          if length ds + e \<le> 21 then ds @ replicate e (CHR ''0'')
          else take 1 ds @ (if length ds = 1 then '''' else ''.'' @ drop 1 ds) @ ''e+'' @ show_nat (length ds + e - 1))"

definition numbers_toString :: "int \<Rightarrow> string" where
  "numbers_toString i = (if i < 0 then ''-'' @ number_toString (nat (- i)) else number_toString (nat i))"

section \<open>Mutations\<close>

record mutation =
  mu_file :: string
  mu_start :: nat
  mu_end :: nat
  mu_replace :: string

type_synonym file_system = "string \<Rightarrow> string option"

record part =
  p_added :: bool
  p_removed :: bool
  p_value :: string

type_synonym range = "nat \<times> nat"

datatype ast_node =
    BooleanLiteral range bool
  | NumberLiteral range string "string option"
  | BinaryOperation string range range
  | OtherNode

record tools =
  tl_sha1 :: "string \<Rightarrow> string"
  tl_chalk :: "string \<Rightarrow> string \<Rightarrow> string"
  tl_diffLines :: "string \<Rightarrow> string \<Rightarrow> part list"
  tl_createPatch :: "string \<Rightarrow> string \<Rightarrow> string \<Rightarrow> string"
  tl_parse :: "string \<Rightarrow> ast_node list res"
  tl_glob :: "file_system \<Rightarrow> string \<Rightarrow> string list res"
  tl_copy :: "string \<Rightarrow> string \<Rightarrow> file_system \<Rightarrow> file_system"
  tl_npm :: "string list \<Rightarrow> file_system \<Rightarrow> nat option"

record tool_world =
  tw_fs :: file_system
  tw_survived :: "mutation list"
  tw_killed :: "mutation list"
  tw_out :: "string list"

definition baselineDir :: string where "baselineDir = ''.eth-mutants/baseline''"
definition contractsDir :: string where "contractsDir = ''contracts''"
definition defaultContractsGlob :: string where "defaultContractsGlob = ''*.sol''"

definition splice :: "string \<Rightarrow> int \<Rightarrow> int \<Rightarrow> string \<Rightarrow> string" where
  "splice str start len replacement =
     js_substring str 0 start @ replacement @ js_substring str (start + len) (int (length str))"

fun join_with :: "string \<Rightarrow> string list \<Rightarrow> string" where
  "join_with sep [] = ''''"
| "join_with sep [s] = s"
| "join_with sep (s # ss) = s @ sep @ join_with sep ss"

definition hash :: "tools \<Rightarrow> mutation \<Rightarrow> string" where
  "hash T mu =
     js_slice (tl_sha1 T (join_with '':'' [mu_file mu, show_nat (mu_start mu), show_nat (mu_end mu), mu_replace mu])) 0 8"

definition applyToString :: "mutation \<Rightarrow> string \<Rightarrow> string" where
  "applyToString mu original = splice original (int (mu_start mu)) (int (mu_end mu) - int (mu_start mu)) (mu_replace mu)"

definition readFile :: "string \<Rightarrow> (tool_world, string) js" where
  "readFile path = jread (\<lambda>w. case tw_fs w path of None \<Rightarrow> Inl (Thrown ''ENOENT'') | Some s \<Rightarrow> Inr s)"

definition writeFile :: "string \<Rightarrow> string \<Rightarrow> (tool_world, unit) js" where
  "writeFile path s = jmodify (\<lambda>w. w\<lparr>tw_fs := (tw_fs w)(path \<mapsto> s)\<rparr>)"

definition console_log :: "string \<Rightarrow> (tool_world, unit) js" where
  "console_log s = jmodify (\<lambda>w. w\<lparr>tw_out := tw_out w @ [s]\<rparr>)"

definition apply_mutation :: "mutation \<Rightarrow> (tool_world, unit) js" where
  "apply_mutation mu =
     jbind (readFile (mu_file mu)) (\<lambda>original. writeFile (mu_file mu) (applyToString mu original))"

definition baseline_path :: "mutation \<Rightarrow> string" where
  "baseline_path mu = baselineDir @ js_slice_from (mu_file mu) (int (length contractsDir))"

definition restore :: "mutation \<Rightarrow> (tool_world, unit) js" where
  "restore mu =
     jbind (console_log (''Restoring '' @ mu_file mu)) (\<lambda>_.
     jbind (readFile (baseline_path mu)) (\<lambda>original. writeFile (mu_file mu) original))"

definition diff :: "tools \<Rightarrow> mutation \<Rightarrow> (tool_world, string) js" where
  "diff T mu =
     jbind (readFile (baseline_path mu)) (\<lambda>original.
     jret (concat (map (\<lambda>part.
       let color = (if p_added part then ''green'' else if p_removed part then ''red'' else ''grey'')
       in if p_added part \<or> p_removed part then tl_chalk T color (p_value part) else '''')
       (tl_diffLines T original (applyToString mu original)))))"

definition patch :: "tools \<Rightarrow> mutation \<Rightarrow> (tool_world, string) js" where
  "patch T mu =
     jbind (readFile (baseline_path mu)) (\<lambda>original.
     jret (tl_createPatch T (mu_file mu) original (applyToString mu original)))"

section \<open>Mutators\<close>

text \<open>A mutator is its \<open>getMutations(file, source, visit)\<close>; visiting calls the handler of each node in order.\<close>

type_synonym mutator = "string \<Rightarrow> string \<Rightarrow> ast_node list \<Rightarrow> mutation list"

definition mk_mutation :: "string \<Rightarrow> nat \<Rightarrow> nat \<Rightarrow> string \<Rightarrow> mutation" where
  "mk_mutation file start end' replace = \<lparr>mu_file = file, mu_start = start, mu_end = end', mu_replace = replace\<rparr>"

fun boolean_node :: "string \<Rightarrow> ast_node \<Rightarrow> mutation list" where
  "boolean_node file (BooleanLiteral (a, b) v) = [mk_mutation file a (b + 1) (if v then ''false'' else ''true'')]"
| "boolean_node file _ = []"

definition BooleanMutator :: mutator where
  "BooleanMutator file source nodes = concat (map (boolean_node file) nodes)"

text \<open>\<open>replacement\<close> stays undefined (\<open>None\<close>) for another operator; an empty string is falsy.\<close>

definition boundary_replacement :: "string \<Rightarrow> string \<Rightarrow> string option" where
  "boundary_replacement operator txt =
     (if operator = ''<'' then Some (replace_not_eq (CHR ''<'') txt ''<= '')
      else if operator = ''>'' then Some (replace_not_eq (CHR ''>'') txt ''>= '')
      else if operator = ''<='' then Some (js_replace txt ''<='' ''<'')
      else if operator = ''>='' then Some (js_replace txt ''>='' ''>'')
      else None)"

definition inversion_replacement :: "string \<Rightarrow> string \<Rightarrow> string option" where
  "inversion_replacement operator txt =
     (if operator = ''<'' then Some (js_replace txt ''<'' ''>'')
      else if operator = ''>'' then Some (js_replace txt ''>'' ''<'')
      else if operator = ''<='' then Some (js_replace txt ''<='' ''>='')
      else if operator = ''>='' then Some (js_replace txt ''>='' ''<='')
      else if operator = ''=='' then Some (js_replace txt ''=='' ''!='')
      else if operator = ''!='' then Some (js_replace txt ''!='' ''=='')
      else None)"

fun operator_node ::
  "(string \<Rightarrow> string \<Rightarrow> string option) \<Rightarrow> string \<Rightarrow> string \<Rightarrow> ast_node \<Rightarrow> mutation list" where
  "operator_node f file source (BinaryOperation operator left right) =
     (let start = snd left + 1; end' = fst right; txt = js_slice source (int start) (int end')
      in case f operator txt of
           None \<Rightarrow> []
         | Some replacement \<Rightarrow> if replacement = '''' then [] else [mk_mutation file start end' replacement])"
| "operator_node f file source _ = []"

definition ConditionalBoundaryMutator :: mutator where
  "ConditionalBoundaryMutator file source nodes = concat (map (operator_node boundary_replacement file source) nodes)"

definition ConditionalInversionMutator :: mutator where
  "ConditionalInversionMutator file source nodes = concat (map (operator_node inversion_replacement file source) nodes)"

fun decrease_node :: "string \<Rightarrow> ast_node \<Rightarrow> mutation list" where
  "decrease_node file (NumberLiteral (a, b) number sub) =
     (if number = ''1e18'' then [mk_mutation file a (b + 1) ''1e17'']
      else [mk_mutation file a (b + 1)
              (case parseInt number of
                 None \<Rightarrow> ''0''
               | Some num \<Rightarrow> if num = 0 then numbers_toString (-1) else numbers_toString (int (to_number (num - 1))))])"
| "decrease_node file _ = []"

definition NumberDecreaseMutator :: mutator where
  "NumberDecreaseMutator file source nodes = concat (map (decrease_node file) nodes)"

fun increase_node :: "string \<Rightarrow> ast_node \<Rightarrow> mutation list" where
  "increase_node file (NumberLiteral (a, b) number sub) =
     (if sub \<noteq> None then []
      else if number = ''1e18'' then [mk_mutation file a (b + 1) ''1e19'']
      else [mk_mutation file a (b + 1)
              (case parseInt number of
                 None \<Rightarrow> ''1'' | Some num \<Rightarrow> numbers_toString (int (to_number (num + 1))))])"
| "increase_node file _ = []"

definition NumberIncreaseMutator :: mutator where
  "NumberIncreaseMutator file source nodes = concat (map (increase_node file) nodes)"

fun CompositeMutator :: "mutator list \<Rightarrow> mutator" where
  "CompositeMutator mutators file source nodes = foldl (\<lambda>mutations mu. mutations @ mu file source nodes) [] mutators"

section \<open>Reporter and commands\<close>

definition formatMutant :: "tools \<Rightarrow> mutation \<Rightarrow> string" where
  "formatMutant T mu = tl_chalk T ''green'' (hash T mu)"

definition beginMutant :: "tools \<Rightarrow> mutation \<Rightarrow> (tool_world, unit) js" where
  "beginMutant T mu =
     jbind (console_log (''Applying mutation '' @ hash T mu @ '' to '' @ mu_file mu)) (\<lambda>_.
     jbind (diff T mu) (\<lambda>d.
     jbind (console_log d) (\<lambda>_.
     console_log (''Running tests for mutation '' @ hash T mu))))"

definition mutantSurvived :: "tools \<Rightarrow> mutation \<Rightarrow> (tool_world, unit) js" where
  "mutantSurvived T mu =
     jbind (jmodify (\<lambda>w. w\<lparr>tw_survived := tw_survived w @ [mu]\<rparr>)) (\<lambda>_.
     console_log ([CHR 0x20, CHR 0xF0, CHR 0x9F, CHR 0x91, CHR 0xBE] @ '' Mutant '' @ formatMutant T mu @
       '' survived testing.''))"

definition mutantKilled :: "tools \<Rightarrow> mutation \<Rightarrow> (tool_world, unit) js" where
  "mutantKilled T mu =
     jbind (jmodify (\<lambda>w. w\<lparr>tw_killed := tw_killed w @ [mu]\<rparr>)) (\<lambda>_.
     console_log ([CHR 0x20, CHR 0xF0, CHR 0x9F, CHR 0x92, CHR 0xAA] @ '' Mutant '' @ formatMutant T mu @
       '' was killed by tests.''))"

definition summary :: "tools \<Rightarrow> (tool_world, unit) js" where
  "summary T =
     jbind (jread (\<lambda>w. Inr (tw_survived w, tw_killed w))) (\<lambda>(survived, killed).
     jbind (console_log (show_nat (length survived) @ '' mutants survived testing, '' @
              show_nat (length killed) @ '' mutants killed.'')) (\<lambda>_.
     console_log (''Survivors: '' @ join_with '', '' (map (formatMutant T) survived))))"

definition prepare :: "tools \<Rightarrow> (tool_world, unit) js" where
  "prepare T = jmodify (\<lambda>w. w\<lparr>tw_fs := tl_copy T contractsDir baselineDir (tw_fs w)\<rparr>)"

definition all_mutators :: mutator where
  "all_mutators = CompositeMutator [ConditionalBoundaryMutator, ConditionalInversionMutator, BooleanMutator,
     NumberIncreaseMutator, NumberDecreaseMutator]"

fun generate_loop :: "tools \<Rightarrow> mutation list \<Rightarrow> string list \<Rightarrow> (tool_world, mutation list) js" where
  "generate_loop T mutations [] = jret mutations"
| "generate_loop T mutations (file # files) =
     jbind (readFile file) (\<lambda>source.
     jbind (jlift (tl_parse T source)) (\<lambda>ast.
     generate_loop T (mutations @ all_mutators file source ast) files))"

definition generateAllMutations :: "tools \<Rightarrow> string list \<Rightarrow> (tool_world, mutation list) js" where
  "generateAllMutations T files = generate_loop T [] files"

definition runTests :: "tools \<Rightarrow> string list \<Rightarrow> (tool_world, bool) js" where
  "runTests T testFilePaths =
     (let args = ''test'' # testFilePaths in
      jbind (jfor console_log (''args are:'' # args)) (\<lambda>_.
      jread (\<lambda>w. Inr (tl_npm T args (tw_fs w) = Some 0))))"

definition getContractsGlob :: "string list \<Rightarrow> string" where
  "getContractsGlob argv =
     (if 3 < length argv \<and> argv ! 3 \<noteq> '''' then ''/'' @ argv ! 3 else ''/'' @ defaultContractsGlob)"

definition test_paths :: "string list \<Rightarrow> string list" where
  "test_paths argv = map (\<lambda>a. ''./test/'' @ a) (filter (\<lambda>a. js_includes a ''Test'' \<and> js_includes a ''.js'') argv)"

definition getTestFilePaths :: "string list \<Rightarrow> (tool_world, string list) js" where
  "getTestFilePaths argv =
     (let paths = test_paths argv in jbind (jfor console_log (''paths are:'' # paths)) (\<lambda>_. jret paths))"

definition test_mutant :: "tools \<Rightarrow> bool \<Rightarrow> string list \<Rightarrow> mutation \<Rightarrow> (tool_world, unit) js" where
  "test_mutant T failfast paths mu =
     jbind (apply_mutation mu) (\<lambda>_.
     jbind (beginMutant T mu) (\<lambda>_.
     jbind (runTests T paths) (\<lambda>result.
     jbind (if result
            then jbind (mutantSurvived T mu) (\<lambda>_. if failfast then jthrow (Thrown ''exit 1'') else jret ())
            else mutantKilled T mu) (\<lambda>_.
     restore mu))))"

text \<open>An error of glob is printed and ends the process with status 1.\<close>

definition test :: "tools \<Rightarrow> bool \<Rightarrow> string list \<Rightarrow> (tool_world, unit) js" where
  "test T failfast argv =
     jbind (getTestFilePaths argv) (\<lambda>paths.
     jbind (prepare T) (\<lambda>_.
     jbind (jread (\<lambda>w. case tl_glob T (tw_fs w) (contractsDir @ getContractsGlob argv) of
                         Inl e \<Rightarrow> Inl (Thrown ''exit 1'') | Inr fs \<Rightarrow> Inr fs)) (\<lambda>files.
     jbind (generateAllMutations T files) (\<lambda>mutations.
     jbind (jfor (test_mutant T failfast paths) mutations) (\<lambda>_.
     summary T)))))"

text \<open>
  \<open>preflight\<close> does not look at the error of glob: iterating over the undefined list throws.  The test
  paths are printed by the last statement, which runs before the callbacks.
\<close>

definition preflight :: "tools \<Rightarrow> string list \<Rightarrow> (tool_world, unit) js" where
  "preflight T argv =
     jbind (getTestFilePaths argv) (\<lambda>_.
     jbind (prepare T) (\<lambda>_.
     jbind (jread (\<lambda>w. case tl_glob T (tw_fs w) (contractsDir @ getContractsGlob argv) of
                         Inl e \<Rightarrow> Inl TypeError | Inr fs \<Rightarrow> Inr fs)) (\<lambda>files.
     jbind (generateAllMutations T files) (\<lambda>mutations.
     jbind (console_log (show_nat (length mutations) @ '' possible mutations found.'')) (\<lambda>_.
     jbind (console_log ''---'') (\<lambda>_.
     jbind (jfor (\<lambda>mu. jbind (console_log (mu_file mu @ '':'' @ hash T mu @ '':'')) (\<lambda>_.
                        jbind (diff T mu) console_log)) mutations) (\<lambda>_.
     jret ())))))))"


text \<open>The tests pass on the file system in which the mutant is applied.\<close>

definition survives :: "tools \<Rightarrow> string list \<Rightarrow> file_system \<Rightarrow> mutation \<Rightarrow> bool" where
  "survives T paths fs mu \<longleftrightarrow>
     tl_npm T (''test'' # paths) (fs(mu_file mu \<mapsto> applyToString mu (the (fs (mu_file mu))))) = Some 0"

text \<open>A contract file whose baseline copy is in place.\<close>

definition backed_up :: "file_system \<Rightarrow> string \<Rightarrow> bool" where
  "backed_up fs f \<longleftrightarrow> take (length contractsDir) f = contractsDir \<and> fs f \<noteq> None \<and>
     fs (baselineDir @ drop (length contractsDir) f) = fs f"

fun inverse_operator :: "string \<Rightarrow> string" where
  "inverse_operator op =
     (if op = ''<'' then ''>'' else if op = ''>'' then ''<'' else if op = ''<='' then ''>='' else
      if op = ''>='' then ''<='' else if op = ''=='' then ''!='' else if op = ''!='' then ''=='' else op)"

definition operators :: "string list" where
  "operators = [''<'', ''>'', ''<='', ''>='', ''=='', ''!='']"

definition plain :: "string \<Rightarrow> bool" where
  "plain s \<longleftrightarrow> list_all (\<lambda>c. c \<notin> set ''<>=!'') s"

text \<open>A concrete set of tools for the examples: one contract with one comparison, tests that fail on \<open>>\<close>.\<close>

definition demo_fs :: file_system where
  "demo_fs = Map.empty(''contracts/A.sol'' \<mapsto> ''a < b;'', ''.eth-mutants/baseline/A.sol'' \<mapsto> ''a < b;'')"

definition demo_tools :: tools where
  "demo_tools = \<lparr>tl_sha1 = (\<lambda>s. s), tl_chalk = (\<lambda>c s. s), tl_diffLines = (\<lambda>a b. []),
     tl_createPatch = (\<lambda>f a b. []), tl_parse = (\<lambda>s. Inr [BinaryOperation ''<'' (0, 0) (4, 4)]),
     tl_glob = (\<lambda>fs g. Inr [''contracts/A.sol'']), tl_copy = (\<lambda>a b fs. demo_fs),
     tl_npm = (\<lambda>args fs. if fs ''contracts/A.sol'' = Some ''a > b;'' then Some 1 else Some 0)\<rparr>"


definition demo_tool_world :: tool_world where
  "demo_tool_world = \<lparr>tw_fs = Map.empty(''contracts/A.sol'' \<mapsto> ''a < b;''), tw_survived = [], tw_killed = [], tw_out = []\<rparr>"

definition demo_backed_up :: tool_world where
  "demo_backed_up = demo_tool_world\<lparr>tw_fs := demo_fs\<rparr>"

section \<open>Facts on the mutators\<close>

lemma js_replace_skip:
  "p \<noteq> [] \<Longrightarrow> hd p \<notin> set a \<Longrightarrow> js_replace (a @ s) p r = a @ js_replace s p r"
proof (induction a)
  case Nil
  then show ?case by simp
next
  case (Cons x a)
  then have "\<not> is_prefix p (x # a @ s)" by (cases p) auto
  with Cons show ?case by simp
qed

lemma is_prefix_append [simp]: "is_prefix p (p @ s)"
  by (induction p) auto

lemma js_replace_at: "p \<noteq> [] \<Longrightarrow> hd p \<notin> set a \<Longrightarrow> js_replace (a @ p @ b) p r = a @ r @ b"
  by (cases p) (simp_all add: js_replace_skip)

lemma replace_not_eq_skip:
  "c \<notin> set a \<Longrightarrow> replace_not_eq c (a @ c # s) r = a @ replace_not_eq c (c # s) r"
proof (induction a)
  case Nil
  then show ?case by simp
next
  case (Cons x a)
  then show ?case by (cases "a @ c # s") (auto simp: Cons_eq_append_conv append_eq_Cons_conv)
qed



section \<open>Facts on numbers\<close>

lemma zero_digit: "digit_char 0 = CHR ''0''"
  by (simp add: digit_char_def char_of_def bit_0)

lemma show_nat_scale: "0 < s \<Longrightarrow> show_nat (s * 10 ^ e) = show_nat s @ replicate e (CHR ''0'')"
proof (induction e)
  case 0
  then show ?case by simp
next
  case (Suc e)
  let ?n = "s * 10 ^ Suc e"
  have "\<not> ?n < 10" using Suc.prems by (simp add: not_less)
  then have "show_nat ?n = show_nat (?n div 10) @ [digit_char (?n mod 10)]"
    by (subst show_nat.simps) simp
  also have "?n div 10 = s * 10 ^ e" by simp
  also have "?n mod 10 = 0" by simp
  finally show ?case
    using Suc by (simp add: zero_digit replicate_append_same)
qed

lemma length_show_nat: "n < 10 ^ k \<Longrightarrow> 0 < k \<Longrightarrow> length (show_nat n) \<le> k"
proof (induction k arbitrary: n)
  case 0
  then show ?case by simp
next
  case (Suc k)
  show ?case
  proof (cases "n < 10")
    case True
    then show ?thesis by (simp add: show_nat.simps[of n])
  next
    case False
    then have "0 < k" using Suc.prems by (cases k) simp_all
    moreover have "n div 10 < 10 ^ k" using Suc.prems by (simp add: less_mult_imp_div_less mult.commute)
    ultimately show ?thesis using False Suc.IH[of "n div 10"] by (simp add: show_nat.simps[of n])
  qed
qed

lemma to_number_eq_small: "x < 2 ^ 53 \<Longrightarrow> to_number m = x \<Longrightarrow> m = x"
  using to_number_large[of m] to_number_exact[of m] by (cases "m < 2 ^ 53") auto

lemma nearest_with_small: "x < 2 ^ 53 \<Longrightarrow> nearest_with x e = Some s \<Longrightarrow> s * 10 ^ e = x"
  using to_number_eq_small[of x "x div 10 ^ e * 10 ^ e"] to_number_eq_small[of x "(x div 10 ^ e + 1) * 10 ^ e"]
  unfolding nearest_with_def Let_def by (auto split: if_splits simp del: mult_Suc)

lemma shortest_digits_small:
  assumes "x < 2 ^ 53"
  shows "shortest_digits x e = (ds, k) \<Longrightarrow> ds @ replicate k (CHR ''0'') = show_nat x"
proof (induction e)
  case 0
  then show ?case by auto
next
  case (Suc e)
  show ?case
  proof (cases "nearest_with x (Suc e)")
    case None
    with Suc show ?thesis by simp
  next
    case (Some s)
    then have "s * 10 ^ Suc e = x" by (rule nearest_with_small[OF assms])
    with Suc Some show ?thesis by (cases "s = 0") (auto simp: show_nat_scale simp del: power_Suc)
  qed
qed

lemma number_toString_small:
  assumes "x < 2 ^ 53"
  shows "number_toString x = show_nat x"
proof -
  obtain ds k where d: "shortest_digits x (length (show_nat x) - 1) = (ds, k)" by fastforce
  from shortest_digits_small[OF assms d] have e: "ds @ replicate k (CHR ''0'') = show_nat x" .
  have "length (show_nat x) \<le> 16" using assms by (intro length_show_nat) simp_all
  then have "length ds + k \<le> 16" unfolding e[symmetric] by simp
  with d e show ?thesis by (simp add: number_toString_def)
qed

lemma parseInt_show_nat:
  assumes "n < 2 ^ 53"
  shows "parseInt (show_nat n) = Some n"
proof -
  have d: "\<forall>c \<in> set (show_nat n). is_digit c" by (rule show_nat_digits)
  then have tw: "takeWhile is_digit (show_nat n) = show_nat n" by (simp add: takeWhile_eq_all_conv)
  have "\<not> is_prefix (c # [CHR ''x'']) (show_nat n)" "\<not> is_prefix (c # [CHR ''X'']) (show_nat n)" for c
    using d by (cases "show_nat n"; cases "tl (show_nat n)"; auto simp: is_digit_def)+
  then show ?thesis unfolding parseInt_def Let_def tw using assms by (simp add: to_number_exact)
qed

section \<open>Facts on the test loop\<close>

lemma backed_up_baseline:
  assumes "backed_up fs (mu_file mu)"
  shows "fs (baseline_path mu) = fs (mu_file mu)" and "baseline_path mu \<noteq> mu_file mu"
proof -
  from assms have t: "take (length contractsDir) (mu_file mu) = contractsDir"
    and f: "fs (baselineDir @ drop (length contractsDir) (mu_file mu)) = fs (mu_file mu)"
    by (auto simp: backed_up_def)
  from t have "length contractsDir \<le> length (mu_file mu)" by (metis nat_le_linear take_all)
  then have b: "baseline_path mu = baselineDir @ drop (length contractsDir) (mu_file mu)"
    by (simp add: baseline_path_def js_slice_from_def rel_index_def)
  with f show "fs (baseline_path mu) = fs (mu_file mu)" by simp
  have "take 1 (mu_file mu) = take 1 (take (length contractsDir) (mu_file mu))"
    by (simp add: contractsDir_def)
  then have "take 1 (mu_file mu) = ''c''" unfolding t by (simp add: contractsDir_def)
  moreover have "take 1 (baseline_path mu) = ''.''" by (simp add: b baselineDir_def)
  ultimately show "baseline_path mu \<noteq> mu_file mu" by auto
qed

lemma jfor_console: "\<exists>us. jfor console_log ss w = (Inr us, w\<lparr>tw_out := tw_out w @ ss\<rparr>)"
proof (induction ss arbitrary: w)
  case Nil
  then show ?case by simp
next
  case (Cons s ss)
  obtain us where "jfor console_log ss (w\<lparr>tw_out := tw_out w @ [s]\<rparr>) = (Inr us, w\<lparr>tw_out := tw_out w @ s # ss\<rparr>)"
    using Cons[of "w\<lparr>tw_out := tw_out w @ [s]\<rparr>"] by auto
  moreover have "console_log s w = (Inr (), w\<lparr>tw_out := tw_out w @ [s]\<rparr>)" by (simp add: console_log_def)
  ultimately show ?case by (simp add: jbind_def)
qed

lemma runTests_run:
  "\<exists>out. runTests T paths w = (Inr (tl_npm T (''test'' # paths) (tw_fs w) = Some 0), w\<lparr>tw_out := out\<rparr>)"
  using jfor_console[of "''args are:'' # ''test'' # paths" w]
  by (auto simp: runTests_def jbind_def Let_def simp del: jfor.simps)

text \<open>The part of an iteration that both outcomes share: apply, report, run the tests.\<close>

lemma mutant_tested:
  assumes "backed_up (tw_fs w) (mu_file mu)" and "tw_fs w (mu_file mu) = Some s"
  obtains out where "test_mutant T failfast paths mu w =
     jbind (if survives T paths (tw_fs w) mu
            then jbind (mutantSurvived T mu) (\<lambda>_. if failfast then jthrow (Thrown ''exit 1'') else jret ())
            else mutantKilled T mu) (\<lambda>_. restore mu)
       (w\<lparr>tw_fs := (tw_fs w)(mu_file mu \<mapsto> applyToString mu s), tw_out := out\<rparr>)"
proof -
  let ?w1 = "w\<lparr>tw_fs := (tw_fs w)(mu_file mu \<mapsto> applyToString mu s)\<rparr>"
  have b: "tw_fs ?w1 (baseline_path mu) = Some s"
    using backed_up_baseline[OF assms(1)] assms(2) by simp
  have a: "apply_mutation mu w = (Inr (), ?w1)"
    using assms(2) by (simp add: apply_mutation_def jbind_def readFile_def writeFile_def)
  have "\<exists>out. beginMutant T mu ?w1 = (Inr (), ?w1\<lparr>tw_out := out\<rparr>)"
    using b by (simp add: beginMutant_def diff_def jbind_def readFile_def console_log_def) blast
  then obtain out1 where "beginMutant T mu ?w1 = (Inr (), ?w1\<lparr>tw_out := out1\<rparr>)" ..
  moreover obtain out2 where "runTests T paths (?w1\<lparr>tw_out := out1\<rparr>) =
      (Inr (survives T paths (tw_fs w) mu), ?w1\<lparr>tw_out := out2\<rparr>)"
    using runTests_run[of T paths "?w1\<lparr>tw_out := out1\<rparr>"] assms(2) by (auto simp: survives_def)
  ultimately show ?thesis
    using a that[of out2] by (simp add: test_mutant_def jbind_run)
qed




lemma applyToString_range:
  assumes "mu_start mu \<le> mu_end mu" and "mu_end mu \<le> length s"
  shows "applyToString mu s = take (mu_start mu) s @ mu_replace mu @ drop (mu_end mu) s"
  using assms by (simp add: applyToString_def splice_def js_substring_def Let_def min_def max_def)

lemma literal_1e20:
  "excess_bits 100000000000000000000 = 14" "excess_bits 100000000000000000001 = 14"
  "show_nat 100000000000000000000 = CHR ''1'' # replicate 20 (CHR ''0'')"
  "parseInt ''100000000000000000000'' = Some 100000000000000000000"
  "to_number 100000000000000000001 = 100000000000000000000"
  "to_number 100000000000000000000 = 100000000000000000000"
  "nearest_with 100000000000000000000 20 = Some 1"
  "shortest_digits 100000000000000000000 20 = (''1'', 20)"
  "number_toString 100000000000000000000 = ''100000000000000000000''"
proof -
  show 1: "excess_bits 100000000000000000000 = 14" "excess_bits 100000000000000000001 = 14"
    by (simp_all add: excess_bits.simps)
  show 2: "to_number 100000000000000000001 = 100000000000000000000"
    "to_number 100000000000000000000 = 100000000000000000000"
    by (simp_all add: to_number_def 1)
  show 3: "show_nat 100000000000000000000 = CHR ''1'' # replicate 20 (CHR ''0'')"
    using show_nat_scale[of 1 20] by (simp add: show_nat.simps[of "Suc 0"] digit_char_def char_of_def bit_0)
  have "read_nat ''100000000000000000000'' = 100000000000000000000"
    by (simp add: read_nat_def digit_val_def)
  then show "parseInt ''100000000000000000000'' = Some 100000000000000000000"
    by (simp add: parseInt_def Let_def is_digit_def 2)
  show 4: "nearest_with 100000000000000000000 20 = Some 1"
    by (simp add: nearest_with_def 2)
  show 5: "shortest_digits 100000000000000000000 20 = (''1'', 20)"
    using shortest_digits.simps(2)[of 100000000000000000000 19] 4
    by (simp add: show_nat.simps[of "Suc 0"] digit_char_def char_of_def bit_0)
  have len: "length (show_nat 100000000000000000000) - 1 = 20"
    unfolding 3 by (simp only: list.size length_replicate)
  have "replicate 20 (CHR ''0'') = ''00000000000000000000''" by (simp add: eval_nat_numeral)
  then show "number_toString 100000000000000000000 = ''100000000000000000000''"
    unfolding number_toString_def len 5 prod.case by simp
qed

section \<open>Properties\<close>



text \<open>With \<open>failfast\<close> the process exits at the first survivor before it restores: the mutated text
  stays in the source file.\<close>

theorem failfast_leaves_mutant:
  assumes "backed_up (tw_fs w) (mu_file mu)" and "survives T paths (tw_fs w) mu"
  shows "\<exists>w'. test_mutant T True paths mu w = (Inl (Thrown ''exit 1''), w') \<and>
     tw_fs w' = (tw_fs w)(mu_file mu \<mapsto> applyToString mu (the (tw_fs w (mu_file mu))))"
proof -
  from assms obtain s where s: "tw_fs w (mu_file mu) = Some s" by (auto simp: backed_up_def)
  obtain out where "test_mutant T True paths mu w =
     jbind (if survives T paths (tw_fs w) mu
            then jbind (mutantSurvived T mu) (\<lambda>_. if True then jthrow (Thrown ''exit 1'') else jret ())
            else mutantKilled T mu) (\<lambda>_. restore mu)
       (w\<lparr>tw_fs := (tw_fs w)(mu_file mu \<mapsto> applyToString mu s), tw_out := out\<rparr>)"
    using mutant_tested[OF assms(1) s] by blast
  with assms(2) s show ?thesis
    by (simp add: jbind_def mutantSurvived_def console_log_def)
qed

theorem failfast_leaves_mutant_witness:
  "\<exists>w'. test_mutant demo_tools True [] (mk_mutation ''contracts/A.sol'' 1 4 '' <= '') demo_backed_up =
       (Inl (Thrown ''exit 1''), w') \<and>
     tw_fs w' ''contracts/A.sol'' = Some ''a <= b;''"
proof -
  have "backed_up demo_fs ''contracts/A.sol''"
    by (simp add: backed_up_def demo_fs_def contractsDir_def baselineDir_def)
  moreover have "survives demo_tools [] demo_fs (mk_mutation ''contracts/A.sol'' 1 4 '' <= '')"
    "applyToString (mk_mutation ''contracts/A.sol'' 1 4 '' <= '') ''a < b;'' = ''a <= b;''"
    by (simp_all add: survives_def demo_tools_def demo_fs_def mk_mutation_def applyToString_def splice_def
        js_substring_def Let_def)
  ultimately show ?thesis
    using failfast_leaves_mutant[of demo_backed_up "mk_mutation ''contracts/A.sol'' 1 4 '' <= ''" demo_tools "[]"]
    by (auto simp: demo_backed_up_def mk_mutation_def demo_fs_def)
qed

text \<open>The operator mutators change the operator and nothing else.  Around an operator, in text without
  operator characters, the inversion replaces it by its inverse, and inverting twice gives the
  text back; the boundary mutator widens \<open><\<close> and \<open>>\<close> when a space follows, and narrows \<open><=\<close> and \<open>>=\<close>.
  Without a following character the boundary \<open>mutant\<close> of \<open><\<close> is the unchanged text.\<close>

theorem operator_mutants_change_operator:
  assumes "plain a" and "plain b"
  shows "(op \<in> set operators \<longrightarrow> inversion_replacement op (a @ op @ b) = Some (a @ inverse_operator op @ b) \<and>
            inversion_replacement (inverse_operator op) (a @ inverse_operator op @ b) = Some (a @ op @ b)) \<and>
         boundary_replacement ''<'' (a @ ''< '' @ b) = Some (a @ ''<= '' @ b) \<and>
         boundary_replacement ''>'' (a @ ''> '' @ b) = Some (a @ ''>= '' @ b) \<and>
         boundary_replacement ''<='' (a @ ''<='' @ b) = Some (a @ ''<'' @ b) \<and>
         boundary_replacement ''>='' (a @ ''>='' @ b) = Some (a @ ''>'' @ b) \<and>
         boundary_replacement ''<'' (a @ ''<'') = Some (a @ ''<'')"
proof -
  have na: "c \<notin> set a" if "c \<in> set ''<>=!''" for c
    using assms(1) that by (auto simp: plain_def list_all_iff)
  have "inversion_replacement op (a @ op @ b) = Some (a @ inverse_operator op @ b) \<and>
        inversion_replacement (inverse_operator op) (a @ inverse_operator op @ b) = Some (a @ op @ b)"
    if "op \<in> set operators"
    using that na js_replace_at[where a = a and b = b]
    by (auto simp: operators_def inversion_replacement_def simp del: append_Cons)
  moreover have "boundary_replacement ''<'' (a @ ''< '' @ b) = Some (a @ ''<= '' @ b) \<and>
         boundary_replacement ''>'' (a @ ''> '' @ b) = Some (a @ ''>= '' @ b) \<and>
         boundary_replacement ''<='' (a @ ''<='' @ b) = Some (a @ ''<'' @ b) \<and>
         boundary_replacement ''>='' (a @ ''>='' @ b) = Some (a @ ''>'' @ b) \<and>
         boundary_replacement ''<'' (a @ ''<'') = Some (a @ ''<'')"
    using na[of "CHR ''<''"] na[of "CHR ''>''"] js_replace_at[of "''<=''" a b "''<''"] js_replace_at[of "''>=''" a b "''>''"]
    by (simp add: boundary_replacement_def replace_not_eq_skip)
  ultimately show ?thesis by blast
qed

theorem operator_mutants_change_operator_witness:
  "inversion_replacement ''<='' '' <= '' = Some '' >= '' \<and> boundary_replacement ''<'' '' < '' = Some '' <= ''"
  using operator_mutants_change_operator[of "'' ''" "'' ''" "''<=''"] operator_mutants_change_operator[of "'' ''" "''''" "''<=''"]
  by (simp add: plain_def operators_def)

text \<open>A mutation replaces exactly the text between its bounds, and the mutation back restores the file.\<close>

theorem applyToString_replaces_range:
  assumes "mu_start mu \<le> mu_end mu" and "mu_end mu \<le> length s"
  shows "applyToString mu s = take (mu_start mu) s @ mu_replace mu @ drop (mu_end mu) s \<and>
         applyToString (mk_mutation (mu_file mu) (mu_start mu) (mu_start mu + length (mu_replace mu))
           (js_slice s (int (mu_start mu)) (int (mu_end mu)))) (applyToString mu s) = s"
proof -
  let ?undo = "mk_mutation (mu_file mu) (mu_start mu) (mu_start mu + length (mu_replace mu))
      (js_slice s (int (mu_start mu)) (int (mu_end mu)))"
  have 1: "applyToString mu s = take (mu_start mu) s @ mu_replace mu @ drop (mu_end mu) s"
    by (rule applyToString_range[OF assms])
  have 2: "applyToString ?undo (applyToString mu s) =
      take (mu_start mu) s @ js_slice s (int (mu_start mu)) (int (mu_end mu)) @ drop (mu_end mu) s"
    using assms by (subst applyToString_range) (simp_all add: 1 mk_mutation_def)
  have 3: "js_slice s (int (mu_start mu)) (int (mu_end mu)) = take (mu_end mu - mu_start mu) (drop (mu_start mu) s)"
    using assms by (simp add: js_slice_def rel_index_def Let_def min_def)
  have "take (mu_start mu) s @ take (mu_end mu - mu_start mu) (drop (mu_start mu) s) @ drop (mu_end mu) s = s"
    using assms(1) by (metis append.assoc append_take_drop_id le_add_diff_inverse take_add)
  then show ?thesis unfolding 2 unfolding 1 3 by simp
qed

theorem applyToString_replaces_range_witness:
  "applyToString (mk_mutation ''f'' 1 2 ''xyz'') ''abc'' = ''axyzc''"
  using applyToString_replaces_range[of "mk_mutation ''f'' 1 2 ''xyz''" "''abc''"]
  by (simp add: mk_mutation_def)

text \<open>The number mutators add and subtract one for every literal below \<open>2^53\<close>, a zero becoming \<open>-1\<close>; above, the
  rounding to a double can leave the literal unchanged: \<open>100000000000000000000\<close> is its own successor.\<close>

theorem number_mutants_step_by_one:
  "(n + 1 < 2 ^ 53 \<longrightarrow>
      increase_node file (NumberLiteral (a, b) (show_nat n) None) = [mk_mutation file a (b + 1) (show_nat (n + 1))] \<and>
      decrease_node file (NumberLiteral (a, b) (show_nat n) sub) = [mk_mutation file a (b + 1) (show_int (int n - 1))]) \<and>
   increase_node file (NumberLiteral (a, b) ''100000000000000000000'' None) =
     [mk_mutation file a (b + 1) ''100000000000000000000'']"
proof (intro conjI impI)
  assume n: "n + 1 < 2 ^ 53"
  have "CHR ''e'' \<notin> set (show_nat n)" using show_nat_digits[of n] by (auto simp: is_digit_def)
  then have e: "show_nat n \<noteq> ''1e18''" by auto
  show "increase_node file (NumberLiteral (a, b) (show_nat n) None) = [mk_mutation file a (b + 1) (show_nat (n + 1))]"
    using n e by (simp add: parseInt_show_nat numbers_toString_def number_toString_small to_number_exact
        nat_add_distrib)
  show "decrease_node file (NumberLiteral (a, b) (show_nat n) sub) = [mk_mutation file a (b + 1) (show_int (int n - 1))]"
    using n e by (simp add: parseInt_show_nat numbers_toString_def number_toString_small to_number_exact
        show_int_def nat_diff_distrib')
next
  show "increase_node file (NumberLiteral (a, b) ''100000000000000000000'' None) =
     [mk_mutation file a (b + 1) ''100000000000000000000'']"
    by (simp add: literal_1e20 numbers_toString_def)
qed

theorem number_mutants_step_by_one_witness:
  "increase_node ''f'' (NumberLiteral (4, 5) (show_nat 41) None) = [mk_mutation ''f'' 4 6 (show_nat 42)] \<and>
   decrease_node ''f'' (NumberLiteral (4, 4) (show_nat 0) None) = [mk_mutation ''f'' 4 5 ''-1'']"
  using number_mutants_step_by_one[of 41 "''f''" 4 5 None] number_mutants_step_by_one[of 0 "''f''" 4 4 None]
  by (simp add: show_int_def show_nat.simps[of "Suc 0"] digit_char_def char_of_def bit_0)

end
