(* ===== verification/Gas_Scripts.thy ===== *)
theory Gas_Scripts
  imports Test_Helper
begin

text \<open>
  Two stand-alone scripts of \<open>packages/contracts/utils\<close>: \<open>processGasOutput.js\<close>, which turns logged \<open>gas left\<close>
  figures into the gas used by each step, and \<open>makeAccounts.js\<close>, which writes a list of random test
  accounts.  A Number that may be NaN is an option.  The indices drawn by \<open>Math.floor(len * Math.random())\<close> are
  an input of the second script.
\<close>

section \<open>Processing gas logs\<close>

definition is_space :: "char \<Rightarrow> bool" where
  "is_space c \<longleftrightarrow> c \<in> {CHR '' '', CHR 9, CHR 10, CHR 11, CHR 12, CHR 13}"

definition js_trim :: "string \<Rightarrow> string" where
  "js_trim s = rev (dropWhile is_space (rev (dropWhile is_space s)))"

text \<open>
  \<open>Number(s)\<close> of a logged figure: blank is 0, digits are their value, anything else NaN.  The Solidity
  console prints unsigned integers, so signs, fractions and other radices are not told apart from NaN.
\<close>

definition js_Number :: "string \<Rightarrow> int option" where
  "js_Number s = (let t = js_trim s in
     if t = '''' then Some 0 else if list_all is_digit t then Some (int (to_number (read_nat t))) else None)"

definition logged_gas :: "string list \<Rightarrow> string list" where
  "logged_gas data =
     map (\<lambda>line. js_slice line 0 4 @ js_trim (js_slice_from line 14)) (filter (\<lambda>line. js_includes line ''gas left:'') data)"

definition minus_number :: "int option \<Rightarrow> int option \<Rightarrow> int option" where
  "minus_number a b = (case (a, b) of (Some x, Some y) \<Rightarrow> Some (x - y) | _ \<Rightarrow> None)"

definition show_number :: "int option \<Rightarrow> string" where
  "show_number g = (case g of None \<Rightarrow> ''NaN'' | Some x \<Rightarrow> show_int x)"

definition step_gas :: "string \<Rightarrow> string \<Rightarrow> int option" where
  "step_gas prevLine line =
     minus_number (minus_number (js_Number (js_slice_from prevLine 4)) (js_Number (js_slice_from line 4))) (Some 1900)"

text \<open>
  The loop over the logged lines, with the line before as state (\<open>None\<close> before the first: reading \<open>slice\<close> of
  \<open>undefined\<close> is a TypeError), the messages so far and the running total.
\<close>

fun process_loop :: "string option \<Rightarrow> string list \<Rightarrow> int option \<Rightarrow> string list \<Rightarrow> (string list \<times> int option) res" where
  "process_loop prev processedData totalGas [] = Inr (processedData, totalGas)"
| "process_loop prev processedData totalGas (line # lines) =
     (let step = js_slice line 0 3 in
      if step = ''00.'' then process_loop (Some line) processedData totalGas lines
      else case prev of
             None \<Rightarrow> Inl TypeError
           | Some prevLine \<Rightarrow>
               let gas = step_gas prevLine line in
               process_loop (Some line)
                 (processedData @ [''Gas used at step '' @ step @ '': '' @ show_number gas @ '' '' @ [CHR 10]])
                 (case (totalGas, gas) of (Some a, Some b) \<Rightarrow> Some (a + b) | _ \<Rightarrow> None) lines)"

definition processGasOutput :: "string \<Rightarrow> (string list \<times> int option) res" where
  "processGasOutput content = process_loop None [] (Some 0) (logged_gas (js_split (CHR 10) content))"

section \<open>Making accounts\<close>

definition hexChars :: string where
  "hexChars = ''abcdefABCDEF0123456789''"

definition randomChar :: "string \<Rightarrow> nat \<Rightarrow> string" where
  "randomChar chars idx = (if idx < length chars then [chars ! idx] else '''')"

text \<open>The draws are consumed in order; the result carries the number of the next draw.\<close>

definition randomHex :: "(nat \<Rightarrow> nat) \<Rightarrow> nat \<Rightarrow> string \<times> nat" where
  "randomHex draws k = (''0x'' @ concat (map (\<lambda>i. randomChar hexChars (draws (k + i))) [0..<64]), k + 64)"

definition account_text :: "string \<Rightarrow> string" where
  "account_text key = ''{ privateKey: \"'' @ key @ ''\", balance: \"'' @ [CHR 0x27] @ ''0xc097ce7bc90715b34b9f1000000000'' @
     [CHR 0x27] @ ''\" }''"

definition makeAccount :: "(nat \<Rightarrow> nat) \<Rightarrow> nat \<Rightarrow> string \<times> nat" where
  "makeAccount draws k = (case randomHex draws k of (key, k') \<Rightarrow> (account_text key, k'))"

fun accounts_loop :: "(nat \<Rightarrow> nat) \<Rightarrow> nat \<Rightarrow> nat \<Rightarrow> string list \<Rightarrow> string list" where
  "accounts_loop draws 0 k accounts = accounts"
| "accounts_loop draws (Suc n) k accounts =
     (case makeAccount draws k of
        (account, k') \<Rightarrow>
          if account \<in> set accounts then accounts_loop draws n k' accounts
          else accounts_loop draws n k' (accounts @ [account]))"

fun join_accounts :: "string list \<Rightarrow> string" where
  "join_accounts [] = ''''"
| "join_accounts [a] = a"
| "join_accounts (a # b # as) = a @ '','' @ [CHR 10] @ join_accounts (b # as)"

definition makeHardhatAccountsList :: "(nat \<Rightarrow> nat) \<Rightarrow> nat \<Rightarrow> string" where
  "makeHardhatAccountsList draws n =
     ''const accountsList = '' @ [CHR 10, CHR 10] @ ''        [ '' @ join_accounts (accounts_loop draws n 0 []) @
     '' ]'' @ [CHR 10] @ '' '' @ [CHR 10] @ ''          module.exports = {'' @ [CHR 10] @
     ''          accountsList: accountsList'' @ [CHR 10] @ ''      };''"

section \<open>Facts on the gas log\<close>

text \<open>A logged line \<open>dd. n\<close> as the first loop leaves it.\<close>

definition log_entry :: "string \<times> nat \<Rightarrow> string" where
  "log_entry sg = fst sg @ '' '' @ show_nat (snd sg)"

definition step_label :: "string \<Rightarrow> bool" where
  "step_label st \<longleftrightarrow> length st = 3 \<and> CHR 10 \<notin> set st"

fun step_costs :: "nat \<Rightarrow> (string \<times> nat) list \<Rightarrow> int list" where
  "step_costs g [] = []"
| "step_costs g ((st, g') # rest) =
     (if st = ''00.'' then [] else [int g - int g' - 1900]) @ step_costs g' rest"

lemma digit_not_space: "is_digit c \<Longrightarrow> \<not> is_space c"
  by (auto simp: is_digit_def is_space_def)

lemma js_trim_digits: "\<forall>c \<in> set s. is_digit c \<Longrightarrow> js_trim s = s"
proof -
  assume "\<forall>c \<in> set s. is_digit c"
  then have "\<forall>c \<in> set s. \<not> is_space c" by (auto dest: digit_not_space)
  then have "dropWhile is_space t = t" if "set t = set s" for t
    using that hd_in_set[of t] by (auto simp: dropWhile_eq_self_iff)
  then have "dropWhile is_space s = s" "dropWhile is_space (rev s) = rev s" by simp_all
  then show ?thesis by (simp add: js_trim_def)
qed

lemma js_Number_show_nat: "n < 2 ^ 53 \<Longrightarrow> js_Number (show_nat n) = Some (int n)"
  using show_nat_digits[of n] by (simp add: js_Number_def js_trim_digits Let_def list_all_iff to_number_exact)

lemma log_entry_parts:
  assumes "step_label st" and "g < 2 ^ 53"
  shows "js_slice (log_entry (st, g)) 0 3 = st" and "js_Number (js_slice_from (log_entry (st, g)) 4) = Some (int g)"
  using assms by (simp_all add: log_entry_def step_label_def js_slice_def js_slice_from_def rel_index_def Let_def
      js_Number_show_nat min_def)

text \<open>The lines of the log file, as \<open>console.log("dd. gas left: %s", gasleft())\<close> prints them.\<close>

definition raw_line :: "string \<times> nat \<Rightarrow> string" where
  "raw_line sg = fst sg @ '' gas left: '' @ show_nat (snd sg)"

definition log_file :: "(string \<times> nat) list \<Rightarrow> string" where
  "log_file steps = concat (map (\<lambda>sg. raw_line sg @ [CHR 10]) steps)"

lemma js_split_line: "c \<notin> set s \<Longrightarrow> js_split c (s @ c # t) = s # js_split c t"
  by (induction s) auto

lemma is_prefix_self [simp]: "is_prefix p (p @ s)"
  by (induction p) auto

lemma js_includes_middle: "js_includes (a @ p @ b) p"
proof (induction a)
  case Nil
  then show ?case by (cases "p @ b") (auto, metis is_prefix_self)
next
  case (Cons x a)
  then show ?case by simp
qed

lemma raw_line_includes: "js_includes (raw_line sg) ''gas left:''"
proof -
  have "raw_line sg = (fst sg @ '' '') @ ''gas left:'' @ '' '' @ show_nat (snd sg)"
    by (simp add: raw_line_def)
  then show ?thesis by (simp only: js_includes_middle)
qed

lemma raw_line_entry:
  "step_label (fst sg) \<Longrightarrow> js_slice (raw_line sg) 0 4 @ js_trim (js_slice_from (raw_line sg) 14) = log_entry sg"
  using show_nat_digits[of "snd sg"]
  by (simp add: raw_line_def log_entry_def step_label_def js_slice_def js_slice_from_def rel_index_def Let_def
      min_def js_trim_digits)

lemma logged_gas_log_file:
  "\<forall>sg \<in> set steps. step_label (fst sg) \<Longrightarrow> logged_gas (js_split (CHR 10) (log_file steps)) = map log_entry steps"
proof (induction steps)
  case Nil
  then show ?case by (simp add: log_file_def logged_gas_def)
next
  case (Cons sg steps)
  have "CHR 10 \<notin> set (show_nat (snd sg))" using show_nat_digits[of "snd sg"] by (auto simp: is_digit_def)
  moreover have "step_label (fst sg)" using Cons.prems by simp
  ultimately have "CHR 10 \<notin> set (raw_line sg)" by (simp add: raw_line_def step_label_def)
  then have "js_split (CHR 10) (log_file (sg # steps)) = raw_line sg # js_split (CHR 10) (log_file steps)"
    by (simp add: log_file_def js_split_line)
  then show ?case
    using Cons raw_line_includes[of sg] raw_line_entry[of sg] by (simp add: logged_gas_def)
qed

lemma process_loop_total:
  assumes "\<forall>(st, g') \<in> set steps. step_label st \<and> g' < 2 ^ 53" and "step_label st0" and "g < 2 ^ 53"
  shows "\<exists>out. process_loop (Some (log_entry (st0, g))) pd (Some t) (map log_entry steps) =
     Inr (out, Some (t + sum_list (step_costs g steps))) \<and> length out = length pd + length (step_costs g steps)"
  using assms
proof (induction steps arbitrary: st0 g pd t)
  case Nil
  then show ?case by simp
next
  case (Cons sg steps)
  obtain st g' where sg: "sg = (st, g')" by (cases sg)
  with Cons.prems have st: "step_label st" and g': "g' < 2 ^ 53"
    and rest: "\<forall>(st, g') \<in> set steps. step_label st \<and> g' < 2 ^ 53" by auto
  have gas: "step_gas (log_entry (st0, g)) (log_entry (st, g')) = Some (int g - int g' - 1900)"
    using Cons.prems st g' by (simp add: step_gas_def minus_number_def log_entry_parts)
  show ?case
  proof (cases "st = ''00.''")
    case True
    then show ?thesis
      using Cons.IH[OF rest st g', of pd t] sg log_entry_parts(1)[OF st g'] by simp
  next
    case False
    then show ?thesis
      using Cons.IH[OF rest st g', of "pd @ [''Gas used at step '' @ st @ '': '' @
          show_number (Some (int g - int g' - 1900)) @ '' '' @ [CHR 10]]" "t + (int g - int g' - 1900)"]
        sg log_entry_parts(1)[OF st g'] gas
      by (simp add: add.assoc)
  qed
qed

lemma step_costs_telescope:
  "\<forall>(st, g') \<in> set steps. st \<noteq> ''00.'' \<Longrightarrow>
   sum_list (step_costs g steps) = int g - int (last (g # map snd steps)) - 1900 * int (length steps)"
  by (induction steps arbitrary: g) (auto simp: algebra_simps)

section \<open>Facts on the accounts\<close>

lemma accounts_loop_distinct: "distinct accounts \<Longrightarrow> distinct (accounts_loop draws n k accounts)"
  by (induction draws n k accounts rule: accounts_loop.induct) (auto split: prod.splits)

lemma accounts_loop_set:
  "set (accounts_loop draws n k accounts) = set accounts \<union> (\<lambda>i. fst (makeAccount draws (k + 64 * i))) ` {..<n}"
proof (induction draws n k accounts rule: accounts_loop.induct)
  case (1 draws k accounts)
  then show ?case by simp
next
  case (2 draws n k accounts)
  obtain a where a: "makeAccount draws k = (a, k + 64)"
    by (simp add: makeAccount_def randomHex_def)
  have "(\<lambda>i. fst (makeAccount draws (k + 64 * i))) ` {..<Suc n} =
      insert a ((\<lambda>i. fst (makeAccount draws (k + 64 + 64 * i))) ` {..<n})"
    using a by (simp add: lessThan_Suc_eq_insert_0 image_image add.assoc)
  with 2 a show ?case by auto
qed

lemma randomHex_length:
  assumes "\<forall>k. draws k < 22"
  shows "length (fst (randomHex draws k)) = 66"
proof -
  have "length hexChars = 22" by (simp add: hexChars_def)
  with assms have "length (randomChar hexChars (draws i)) = 1" for i by (simp add: randomChar_def)
  then show ?thesis by (simp add: randomHex_def length_concat comp_def sum_list_triv)
qed

lemma randomHex_chars: "set (fst (randomHex draws k)) \<subseteq> set (CHR ''x'' # hexChars)"
proof -
  have "set (randomChar hexChars i) \<subseteq> set hexChars" for i
    by (auto simp: randomChar_def)
  then have "set (concat (map (\<lambda>i. randomChar hexChars (draws (k + i))) [0..<64])) \<subseteq> set hexChars" by auto
  moreover have "set ''0x'' \<subseteq> set (CHR ''x'' # hexChars)" by (simp add: hexChars_def)
  ultimately show ?thesis by (auto simp: randomHex_def)
qed

section \<open>Properties\<close>

text \<open>The gas of a profile that begins with step \<open>00.\<close> telescopes: the total is the gas left at the start
  minus the gas left at the end, minus 1900 for every later logged line, and there is one message per
  later line.  A profile that begins with another step is a TypeError.\<close>

theorem gas_profile_telescopes:
  assumes "g < 2 ^ 53" and "steps \<noteq> []"
    and "\<forall>sg \<in> set steps. step_label (fst sg) \<and> fst sg \<noteq> ''00.'' \<and> snd sg < 2 ^ 53"
  shows "(\<exists>out. processGasOutput (log_file ((''00.'', g) # steps)) =
       Inr (out, Some (int g - int (snd (last steps)) - 1900 * int (length steps))) \<and> length out = length steps) \<and>
     processGasOutput (log_file steps) = Inl TypeError"
proof
  have "length (step_costs h steps) = length steps" for h
    using assms(3) by (induction steps arbitrary: h) auto
  moreover have "sum_list (step_costs g steps) = int g - int (snd (last steps)) - 1900 * int (length steps)"
    using assms(2,3) by (subst step_costs_telescope) (auto simp: last_map)
  moreover have l0: "step_label ''00.''" by (simp add: step_label_def)
  moreover have "\<forall>(st, g') \<in> set steps. step_label st \<and> g' < 2 ^ 53" using assms(3) by auto
  ultimately have "\<exists>out. process_loop None [] (Some 0) (map log_entry ((''00.'', g) # steps)) =
       Inr (out, Some (int g - int (snd (last steps)) - 1900 * int (length steps))) \<and> length out = length steps"
    using process_loop_total[of steps "''00.''" g "[]" 0] assms(1) log_entry_parts(1)[OF l0 assms(1)] by fastforce
  moreover have "\<forall>sg \<in> set ((''00.'', g) # steps). step_label (fst sg)" using l0 assms(3) by simp
  ultimately show "\<exists>out. processGasOutput (log_file ((''00.'', g) # steps)) =
       Inr (out, Some (int g - int (snd (last steps)) - 1900 * int (length steps))) \<and> length out = length steps"
    unfolding processGasOutput_def by (simp only: logged_gas_log_file)
  obtain st g' rest where "steps = (st, g') # rest" using assms(2) by (cases steps) auto
  with assms(3) have "process_loop None [] (Some 0) (map log_entry steps) = Inl TypeError"
    by (simp add: log_entry_parts(1))
  then show "processGasOutput (log_file steps) = Inl TypeError"
    using assms(3) by (simp add: processGasOutput_def logged_gas_log_file)
qed

theorem gas_profile_telescopes_witness:
  "\<exists>out. processGasOutput (log_file [(''00.'', 90000), (''01.'', 80000), (''02.'', 50000)]) =
     Inr (out, Some 36200) \<and> length out = Suc (Suc 0)"
  using gas_profile_telescopes[of 90000 "[(''01.'', 80000), (''02.'', 50000)]"]
  by (simp add: step_label_def)

text \<open>The generated accounts are pairwise different, are exactly the drawn ones, and have a private key of
  64 hexadecimal digits; a repeated draw is skipped and not made up for, so that \<open>n\<close> is only an upper bound.\<close>

theorem accounts_distinct_and_wellformed:
  assumes "\<forall>k. draws k < 22"
  shows "distinct (accounts_loop draws n 0 []) \<and> length (accounts_loop draws n 0 []) \<le> n \<and>
    set (accounts_loop draws n 0 []) = (\<lambda>i. account_text (fst (randomHex draws (64 * i)))) ` {..<n} \<and>
    (\<forall>i. length (fst (randomHex draws i)) = 66 \<and> set (fst (randomHex draws i)) \<subseteq> set (CHR ''x'' # hexChars))"
proof -
  let ?as = "accounts_loop draws n 0 []"
  have d: "distinct ?as" by (simp add: accounts_loop_distinct)
  have s: "set ?as = (\<lambda>i. account_text (fst (randomHex draws (64 * i)))) ` {..<n}"
    by (simp add: accounts_loop_set makeAccount_def case_prod_unfold)
  have "length ?as = card (set ?as)" using d by (simp add: distinct_card)
  also have "\<dots> \<le> n" unfolding s using card_image_le[of "{..<n}"] by fastforce
  finally show ?thesis using d s randomHex_length[OF assms] randomHex_chars by blast
qed

theorem accounts_distinct_and_wellformed_witness:
  "length (accounts_loop (\<lambda>k. k mod 22) 3 0 []) \<le> 3 \<and> length (fst (randomHex (\<lambda>k. k mod 22) 5)) = 66"
  using accounts_distinct_and_wellformed[of "\<lambda>k. k mod 22" 3] by simp

end
