(* ===== verification/Sorted_Troves.thy ===== *)
theory Sorted_Troves
  imports Solidity_Math
begin

text \<open>
  \<open>contracts/SortedTroves.sol\<close>: the doubly linked list of the active troves in descending order of their
  nominal collateral ratio (NICR).  A storage mapping is a total function whose default entry is the
  zeroed node; the zero address is \<open>null\<close>.  The NICRs are not stored: \<open>nicr\<close> is the view
  \<open>TroveManager.getNominalICR\<close>, which may revert.  The two search loops are partial functions, so that a
  loop that does not return is \<open>None\<close>.  The list abstraction (\<open>dll\<close>, \<open>list_inv\<close>) relates a storage to the list of its
  nodes from head to tail.
\<close>

section \<open>Storage\<close>

record node =
  node_exists :: bool
  nextId :: address
  prevId :: address

record sorted_troves =
  head :: address
  tail :: address
  maxSize :: nat
  st_size :: nat
  nodes :: "address \<Rightarrow> node"
  st_troveManager :: address
  st_borrowerOperations :: address

definition empty_node :: node where
  "empty_node = \<lparr>node_exists = False, nextId = 0, prevId = 0\<rparr>"

definition set_next :: "address \<Rightarrow> address \<Rightarrow> sorted_troves \<Rightarrow> sorted_troves" where
  "set_next a v s = s\<lparr>nodes := (nodes s)(a := (nodes s a)\<lparr>nextId := v\<rparr>)\<rparr>"

definition set_prev :: "address \<Rightarrow> address \<Rightarrow> sorted_troves \<Rightarrow> sorted_troves" where
  "set_prev a v s = s\<lparr>nodes := (nodes s)(a := (nodes s a)\<lparr>prevId := v\<rparr>)\<rparr>"

definition set_exists :: "address \<Rightarrow> sorted_troves \<Rightarrow> sorted_troves" where
  "set_exists a s = s\<lparr>nodes := (nodes s)(a := (nodes s a)\<lparr>node_exists := True\<rparr>)\<rparr>"

definition delete_node :: "address \<Rightarrow> sorted_troves \<Rightarrow> sorted_troves" where
  "delete_node a s = s\<lparr>nodes := (nodes s)(a := empty_node)\<rparr>"

section \<open>Views\<close>

definition containsNode :: "sorted_troves \<Rightarrow> address \<Rightarrow> bool" where
  "containsNode s a = node_exists (nodes s a)"

definition isFull :: "sorted_troves \<Rightarrow> bool" where
  "isFull s \<longleftrightarrow> st_size s = maxSize s"

definition isEmpty :: "sorted_troves \<Rightarrow> bool" where
  "isEmpty s \<longleftrightarrow> st_size s = 0"

definition getNext :: "sorted_troves \<Rightarrow> address \<Rightarrow> address" where
  "getNext s a = nextId (nodes s a)"

definition getPrev :: "sorted_troves \<Rightarrow> address \<Rightarrow> address" where
  "getPrev s a = prevId (nodes s a)"

definition validInsertPosition ::
  "(address \<Rightarrow> nat res) \<Rightarrow> sorted_troves \<Rightarrow> nat \<Rightarrow> address \<Rightarrow> address \<Rightarrow> bool res" where
  "validInsertPosition nicr s N p n =
     (if p = 0 \<and> n = 0 then Inr (isEmpty s)
      else if p = 0 then (if head s = n then rbind (nicr n) (\<lambda>k. Inr (N \<ge> k)) else Inr False)
      else if n = 0 then (if tail s = p then rbind (nicr p) (\<lambda>k. Inr (N \<le> k)) else Inr False)
      else if nextId (nodes s p) = n
           then rbind (nicr p) (\<lambda>k. if k \<ge> N then rbind (nicr n) (\<lambda>k'. Inr (N \<ge> k')) else Inr False)
           else Inr False)"

section \<open>Searching an insert position\<close>

partial_function (option) descend_loop ::
  "(address \<Rightarrow> nat res) \<Rightarrow> sorted_troves \<Rightarrow> nat \<Rightarrow> address \<Rightarrow> address \<Rightarrow> (address \<times> address) res option" where
  "descend_loop nicr s N p n =
     (if p = 0 then Some (Inr (p, n))
      else case validInsertPosition nicr s N p n of
             Inl e \<Rightarrow> Some (Inl e)
           | Inr valid \<Rightarrow>
               if valid then Some (Inr (p, n))
               else descend_loop nicr s N (nextId (nodes s p)) (nextId (nodes s (nextId (nodes s p)))))"

partial_function (option) ascend_loop ::
  "(address \<Rightarrow> nat res) \<Rightarrow> sorted_troves \<Rightarrow> nat \<Rightarrow> address \<Rightarrow> address \<Rightarrow> (address \<times> address) res option" where
  "ascend_loop nicr s N p n =
     (if n = 0 then Some (Inr (p, n))
      else case validInsertPosition nicr s N p n of
             Inl e \<Rightarrow> Some (Inl e)
           | Inr valid \<Rightarrow>
               if valid then Some (Inr (p, n))
               else ascend_loop nicr s N (prevId (nodes s (prevId (nodes s n)))) (prevId (nodes s n)))"

definition descendList ::
  "(address \<Rightarrow> nat res) \<Rightarrow> sorted_troves \<Rightarrow> nat \<Rightarrow> address \<Rightarrow> (address \<times> address) res option" where
  "descendList nicr s N startId =
     (case (if head s = startId then rbind (nicr startId) (\<lambda>k. Inr (N \<ge> k)) else Inr False) of
        Inl e \<Rightarrow> Some (Inl e)
      | Inr atHead \<Rightarrow>
          if atHead then Some (Inr (0, startId))
          else descend_loop nicr s N startId (nextId (nodes s startId)))"

definition ascendList ::
  "(address \<Rightarrow> nat res) \<Rightarrow> sorted_troves \<Rightarrow> nat \<Rightarrow> address \<Rightarrow> (address \<times> address) res option" where
  "ascendList nicr s N startId =
     (case (if tail s = startId then rbind (nicr startId) (\<lambda>k. Inr (N \<le> k)) else Inr False) of
        Inl e \<Rightarrow> Some (Inl e)
      | Inr atTail \<Rightarrow>
          if atTail then Some (Inr (startId, 0))
          else ascend_loop nicr s N (prevId (nodes s startId)) startId)"

text \<open>A hint that is gone, or on the wrong side of the ratio, is replaced by the zero address.\<close>

definition keep_hint ::
  "(address \<Rightarrow> nat res) \<Rightarrow> sorted_troves \<Rightarrow> (nat \<Rightarrow> bool) \<Rightarrow> address \<Rightarrow> address res" where
  "keep_hint nicr s wrong a =
     (if a = 0 then Inr 0
      else if \<not> containsNode s a then Inr 0
      else rbind (nicr a) (\<lambda>k. Inr (if wrong k then 0 else a)))"

definition findInsertPosition ::
  "(address \<Rightarrow> nat res) \<Rightarrow> sorted_troves \<Rightarrow> nat \<Rightarrow> address \<Rightarrow> address \<Rightarrow> (address \<times> address) res option" where
  "findInsertPosition nicr s N p n =
     (case rbind (keep_hint nicr s (\<lambda>k. N > k) p) (\<lambda>p'. rbind (keep_hint nicr s (\<lambda>k. N < k) n) (\<lambda>n'. Inr (p', n'))) of
        Inl e \<Rightarrow> Some (Inl e)
      | Inr (p', n') \<Rightarrow>
          if p' = 0 \<and> n' = 0 then descendList nicr s N (head s)
          else if p' = 0 then ascendList nicr s N n'
          else if n' = 0 then descendList nicr s N p'
          else descendList nicr s N p')"

section \<open>Operations\<close>

definition link_node :: "address \<Rightarrow> address \<Rightarrow> address \<Rightarrow> sorted_troves \<Rightarrow> sorted_troves" where
  "link_node a p n s0 =
     (let s = set_exists a s0 in
      if p = 0 \<and> n = 0 then s\<lparr>head := a, tail := a\<rparr>
      else if p = 0 then (let s1 = set_next a (head s) s; s2 = set_prev (head s1) a s1 in s2\<lparr>head := a\<rparr>)
      else if n = 0 then (let s1 = set_prev a (tail s) s; s2 = set_next (tail s1) a s1 in s2\<lparr>tail := a\<rparr>)
      else set_prev n a (set_next p a (set_prev a p (set_next a n s))))"

definition insert_inner ::
  "(address \<Rightarrow> nat res) \<Rightarrow> sorted_troves \<Rightarrow> address \<Rightarrow> nat \<Rightarrow> address \<Rightarrow> address \<Rightarrow> sorted_troves res option" where
  "insert_inner nicr s a N p n =
     (case rbind (require (\<not> isFull s) ''SortedTroves: List is full'') (\<lambda>_.
           rbind (require (\<not> containsNode s a) ''SortedTroves: List already contains the node'') (\<lambda>_.
           rbind (require (a \<noteq> 0) ''SortedTroves: Id cannot be zero'') (\<lambda>_.
           rbind (require (N > 0) ''SortedTroves: NICR must be positive'') (\<lambda>_.
           validInsertPosition nicr s N p n)))) of
        Inl e \<Rightarrow> Some (Inl e)
      | Inr valid \<Rightarrow>
          (case (if valid then Some (Inr (p, n)) else findInsertPosition nicr s N p n) of
             None \<Rightarrow> None
           | Some r \<Rightarrow> Some (rbind r (\<lambda>(p', n').
               let s1 = link_node a p' n' s in
               rbind (u_add (st_size s1) 1) (\<lambda>k. Inr (s1\<lparr>st_size := k\<rparr>))))))"

definition requireCallerIsBOorTroveM :: "address \<Rightarrow> sorted_troves \<Rightarrow> unit res" where
  "requireCallerIsBOorTroveM sender s =
     require (sender = st_borrowerOperations s \<or> sender = st_troveManager s)
       ''SortedTroves: Caller is neither BO nor TroveM''"

definition insert_trove ::
  "address \<Rightarrow> (address \<Rightarrow> nat res) \<Rightarrow> sorted_troves \<Rightarrow> address \<Rightarrow> nat \<Rightarrow> address \<Rightarrow> address \<Rightarrow> sorted_troves res option" where
  "insert_trove sender nicr s a N p n =
     (case requireCallerIsBOorTroveM sender s of
        Inl e \<Rightarrow> Some (Inl e) | Inr _ \<Rightarrow> insert_inner nicr s a N p n)"

definition remove_inner :: "sorted_troves \<Rightarrow> address \<Rightarrow> sorted_troves res" where
  "remove_inner s a =
     rbind (require (containsNode s a) ''SortedTroves: List does not contain the id'') (\<lambda>_.
     let s1 =
       (if st_size s > 1 then
          if a = head s then (let t = s\<lparr>head := nextId (nodes s a)\<rparr> in set_prev (head t) 0 t)
          else if a = tail s then (let t = s\<lparr>tail := prevId (nodes s a)\<rparr> in set_next (tail t) 0 t)
          else (let t = set_next (prevId (nodes s a)) (nextId (nodes s a)) s
                in set_prev (nextId (nodes t a)) (prevId (nodes t a)) t)
        else s\<lparr>head := 0, tail := 0\<rparr>);
       s2 = delete_node a s1
     in rbind (u_sub (st_size s2) 1) (\<lambda>k. Inr (s2\<lparr>st_size := k\<rparr>)))"

definition remove_trove :: "address \<Rightarrow> sorted_troves \<Rightarrow> address \<Rightarrow> sorted_troves res" where
  "remove_trove sender s a =
     rbind (require (sender = st_troveManager s) ''SortedTroves: Caller is not the TroveManager'') (\<lambda>_.
     remove_inner s a)"

definition reInsert ::
  "address \<Rightarrow> (address \<Rightarrow> nat res) \<Rightarrow> sorted_troves \<Rightarrow> address \<Rightarrow> nat \<Rightarrow> address \<Rightarrow> address \<Rightarrow> sorted_troves res option" where
  "reInsert sender nicr s a N p n =
     (case rbind (requireCallerIsBOorTroveM sender s) (\<lambda>_.
           rbind (require (containsNode s a) ''SortedTroves: List does not contain the id'') (\<lambda>_.
           rbind (require (N > 0) ''SortedTroves: NICR must be positive'') (\<lambda>_.
           remove_inner s a))) of
        Inl e \<Rightarrow> Some (Inl e)
      | Inr s1 \<Rightarrow> insert_inner nicr s1 a N p n)"

section \<open>The list a storage represents\<close>

definition first :: "address list \<Rightarrow> address" where
  "first xs = (case xs of [] \<Rightarrow> 0 | x # _ \<Rightarrow> x)"

definition final :: "address list \<Rightarrow> address" where
  "final xs = (case xs of [] \<Rightarrow> 0 | _ # _ \<Rightarrow> last xs)"

text \<open>
  \<open>dll N p xs n\<close>: the nodes \<open>xs\<close> are doubly linked in this order, the first has the predecessor \<open>p\<close> and the last
  the successor \<open>n\<close>.
\<close>

fun dll :: "(address \<Rightarrow> node) \<Rightarrow> address \<Rightarrow> address list \<Rightarrow> address \<Rightarrow> bool" where
  "dll N p [] n = True"
| "dll N p [x] n = (prevId (N x) = p \<and> nextId (N x) = n)"
| "dll N p (x # y # xs) n = (prevId (N x) = p \<and> nextId (N x) = y \<and> dll N x (y # xs) n)"

definition list_inv :: "sorted_troves \<Rightarrow> address list \<Rightarrow> bool" where
  "list_inv s xs \<longleftrightarrow>
     distinct xs \<and> 0 \<notin> set xs \<and> head s = first xs \<and> tail s = final xs \<and> st_size s = length xs \<and>
     dll (nodes s) 0 xs 0 \<and> (\<forall>a. if a \<in> set xs then node_exists (nodes s a) else nodes s a = empty_node)"

text \<open>Descending order with respect to the current ratios.\<close>

definition descending :: "(address \<Rightarrow> nat) \<Rightarrow> address list \<Rightarrow> bool" where
  "descending k xs \<longleftrightarrow> sorted_wrt (\<lambda>a b. k a \<ge> k b) xs"

section \<open>Facts on linked segments\<close>

lemma first_simps [simp]: "first [] = 0" "first (x # xs) = x"
  by (simp_all add: first_def)

lemma final_simps [simp]: "final [] = 0" "final (xs @ [x]) = x" "final [x] = x"
  by (cases xs; simp add: final_def)+

lemma final_Cons_Cons [simp]: "final (x # y # xs) = final (y # xs)"
  by (simp add: final_def)

lemma final_append [simp]: "final (xs @ y # ys) = final (y # ys)"
  by (induction xs) (auto simp: final_def)

lemma final_Cons_append [simp]: "final (x # xs @ y # ys) = final (y # ys)"
  using final_append[of "x # xs"] by simp

lemma first_append [simp]: "first ((x # xs) @ ys) = x"
  by simp

lemma final_in_set: "xs \<noteq> [] \<Longrightarrow> final xs \<in> set xs"
  by (simp add: final_def split: list.splits)

lemma first_in_set: "xs \<noteq> [] \<Longrightarrow> first xs \<in> set xs"
  by (cases xs) simp_all

lemma dll_append:
  "dll N p (xs @ ys) n \<longleftrightarrow>
     dll N p xs (if ys = [] then n else first ys) \<and> dll N (if xs = [] then p else final xs) ys n"
proof (induction N p xs n rule: dll.induct)
  case (1 N p n)
  then show ?case by simp
next
  case (2 N p x n)
  then show ?case by (cases ys) auto
next
  case (3 N p x y xs n)
  then show ?case by simp
qed

lemma dll_cong: "(\<And>x. x \<in> set xs \<Longrightarrow> prevId (M x) = prevId (N x) \<and> nextId (M x) = nextId (N x)) \<Longrightarrow>
   dll M p xs n = dll N p xs n"
  by (induction M p xs n rule: dll.induct) auto

lemma dll_Cons:
  "dll N p (x # xs) n \<longleftrightarrow>
     prevId (N x) = p \<and> nextId (N x) = (if xs = [] then n else first xs) \<and> dll N x xs n"
  by (cases xs) auto

lemma dll_final: "xs \<noteq> [] \<Longrightarrow> dll N p xs n \<Longrightarrow> nextId (N (final xs)) = n"
  by (induction N p xs n rule: dll.induct) auto

lemma dll_first: "xs \<noteq> [] \<Longrightarrow> dll N p xs n \<Longrightarrow> prevId (N (first xs)) = p"
  by (cases xs) (auto simp: dll_Cons)

text \<open>A segment whose inner links are kept and whose outer links are replaced.\<close>

lemma dll_relink:
  assumes "dll N p xs n" and "distinct xs"
    and "\<And>x. x \<in> set xs \<Longrightarrow> prevId (M x) = (if x = first xs then p' else prevId (N x)) \<and>
           nextId (M x) = (if x = final xs then n' else nextId (N x))"
  shows "dll M p' xs n'"
  using assms
proof (induction N p xs n arbitrary: p' rule: dll.induct)
  case (1 N p n)
  then show ?case by simp
next
  case (2 N p x n)
  then show ?case by simp
next
  case (3 N p x y xs n)
  have d: "distinct (y # xs)" and l: "dll N x (y # xs) n" and e: "nextId (N x) = y" "prevId (N y) = x"
    and ne: "x \<noteq> final (y # xs)" "x \<noteq> y"
    using "3.prems"(1,2) final_in_set[of "y # xs"] by (auto simp: dll_Cons)
  have "prevId (M z) = (if z = first (y # xs) then x else prevId (N z)) \<and>
        nextId (M z) = (if z = final (y # xs) then n' else nextId (N z))" if "z \<in> set (y # xs)" for z
  proof -
    have "z \<noteq> x" using that "3.prems"(2) by auto
    with "3.prems"(3)[of z] that e show ?thesis by auto
  qed
  with "3.IH"[OF l d] have "dll M x (y # xs) n'" by blast
  moreover have "prevId (M x) = p'" "nextId (M x) = y" using "3.prems"(3)[of x] e ne by simp_all
  ultimately show ?case by simp
qed

section \<open>Facts on the invariant\<close>

lemma list_inv_links:
  assumes "list_inv s (as @ a # bs)"
  shows "nextId (nodes s a) = first bs" and "prevId (nodes s a) = final as"
    and "a \<noteq> 0" and "containsNode s a" and "node_exists (nodes s a)"
proof -
  from assms have "dll (nodes s) 0 (as @ a # bs) 0" by (simp add: list_inv_def)
  then have "dll (nodes s) (if as = [] then 0 else final as) (a # bs) 0" by (simp add: dll_append)
  then show "nextId (nodes s a) = first bs" "prevId (nodes s a) = final as"
    by (auto simp: dll_Cons split: if_splits)
  show "a \<noteq> 0" using assms by (auto simp: list_inv_def)
  show "containsNode s a" "node_exists (nodes s a)"
    using assms by (auto simp: list_inv_def containsNode_def dest: spec[where x = a])
qed

lemma list_inv_contains: "list_inv s xs \<Longrightarrow> containsNode s a \<longleftrightarrow> a \<in> set xs"
  by (auto simp: list_inv_def containsNode_def empty_node_def split: if_splits dest: spec[where x = a])

lemma list_inv_outside: "list_inv s xs \<Longrightarrow> a \<notin> set xs \<Longrightarrow> nodes s a = empty_node"
  by (auto simp: list_inv_def split: if_splits dest: spec[where x = a])

lemma list_inv_final_zero: "list_inv s (as @ bs) \<Longrightarrow> final as = 0 \<longleftrightarrow> as = []"
  using final_in_set[of as] by (auto simp: list_inv_def)

lemma list_inv_first_zero: "list_inv s (as @ bs) \<Longrightarrow> first bs = 0 \<longleftrightarrow> bs = []"
  using first_in_set[of bs] by (auto simp: list_inv_def)

lemma list_inv_head_tail: "list_inv s xs \<Longrightarrow> head s = first xs \<and> tail s = final xs \<and> st_size s = length xs"
  by (simp add: list_inv_def)

section \<open>Insert positions\<close>

definition reads :: "(address \<Rightarrow> nat res) \<Rightarrow> (address \<Rightarrow> nat) \<Rightarrow> bool" where
  "reads nicr k \<longleftrightarrow> (\<forall>a. nicr a = Inr (k a))"

lemma reads_app: "reads nicr k \<Longrightarrow> nicr a = Inr (k a)"
  by (simp add: reads_def)

definition position :: "(address \<Rightarrow> nat) \<Rightarrow> nat \<Rightarrow> address list \<Rightarrow> address list \<Rightarrow> bool" where
  "position k N as bs \<longleftrightarrow> (as \<noteq> [] \<longrightarrow> k (final as) \<ge> N) \<and> (bs \<noteq> [] \<longrightarrow> N \<ge> k (first bs))"

lemma validInsertPosition_at:
  assumes "list_inv s (as @ bs)" and "reads nicr k"
  shows "validInsertPosition nicr s N (final as) (first bs) = Inr (position k N as bs)"
proof -
  note z = list_inv_final_zero[OF assms(1)] list_inv_first_zero[OF assms(1)]
  note ht = list_inv_head_tail[OF assms(1)]
  consider "as = []" "bs = []" | "as = []" "bs \<noteq> []" | "as \<noteq> []" "bs = []" | "as \<noteq> []" "bs \<noteq> []" by blast
  then show ?thesis
  proof cases
    case 4
    then obtain b bs' where b: "bs = b # bs'" by (cases bs) auto
    from assms(1) have "dll (nodes s) 0 as b" using b by (simp add: list_inv_def dll_append)
    then have "nextId (nodes s (final as)) = b" using 4 dll_final by blast
    with 4 z b reads_app[OF assms(2)] show ?thesis by (simp add: validInsertPosition_def position_def)
  qed (use z ht reads_app[OF assms(2)] in \<open>simp_all add: validInsertPosition_def position_def isEmpty_def\<close>)
qed

lemma validInsertPosition_split:
  assumes "list_inv s xs" and "reads nicr k" and "validInsertPosition nicr s N p n = Inr True"
  obtains as bs where "xs = as @ bs" "p = final as" "n = first bs"
proof -
  note ht = list_inv_head_tail[OF assms(1)]
  consider "p = 0" "n = 0" | "p = 0" "n \<noteq> 0" | "p \<noteq> 0" "n = 0" | "p \<noteq> 0" "n \<noteq> 0" by blast
  then show thesis
  proof cases
    case 1
    with assms(3) ht show thesis by (intro that[of "[]" "[]"]) (auto simp: validInsertPosition_def isEmpty_def)
  next
    case 2
    with assms(3) ht show thesis by (intro that[of "[]" xs]) (auto simp: validInsertPosition_def split: if_splits)
  next
    case 3
    with assms(3) ht show thesis by (intro that[of xs "[]"]) (auto simp: validInsertPosition_def split: if_splits)
  next
    case 4
    with assms(3) have n: "nextId (nodes s p) = n" by (auto simp: validInsertPosition_def split: if_splits)
    have "p \<in> set xs"
    proof (rule ccontr)
      assume "p \<notin> set xs"
      with list_inv_outside[OF assms(1)] n 4 show False by (simp add: empty_node_def)
    qed
    then obtain as bs where xs: "xs = as @ p # bs" by (auto simp: in_set_conv_decomp)
    with assms(1) n have "n = first bs" using list_inv_links(1) by blast
    with xs show thesis by (intro that[of "as @ [p]" bs]) simp_all
  qed
qed

text \<open>
  Both loops find a position, whatever the order of the ratios: going down from a node that is not below
  the new ratio, either some next node is not above it or the end of the list is reached.
\<close>

lemma descend_loop_finds:
  assumes "list_inv s (as @ bs)" and "reads nicr k" and "as \<noteq> []" and "k (final as) \<ge> N"
  shows "\<exists>cs ds. as @ bs = cs @ ds \<and> position k N cs ds \<and>
     descend_loop nicr s N (final as) (first bs) = Some (Inr (final cs, first ds))"
  using assms
proof (induction bs arbitrary: as)
  case Nil
  then have "final as \<noteq> 0" using list_inv_final_zero[of s as "[]"] by simp
  moreover have "validInsertPosition nicr s N (final as) (first []) = Inr True"
    using validInsertPosition_at[OF Nil(1,2), where N = N] Nil(4) by (simp add: position_def)
  ultimately show ?case
    using Nil(4)
    by - (rule exI[of _ as], rule exI[of _ "[]"], simp add: descend_loop.simps position_def)
next
  case (Cons b bs)
  have nz: "final as \<noteq> 0" using list_inv_final_zero[OF Cons.prems(1)] Cons.prems(3) by simp
  note v = validInsertPosition_at[OF Cons.prems(1,2)]
  show ?case
  proof (cases "N \<ge> k b")
    case True
    then show ?thesis
      using nz v Cons.prems
      by - (rule exI[of _ as], rule exI[of _ "b # bs"], simp add: descend_loop.simps position_def)
  next
    case False
    obtain a as' where as: "as = as' @ [a]" using Cons.prems(3) by (cases as rule: rev_cases) auto
    have l: "nextId (nodes s (final as)) = b" "nextId (nodes s b) = first bs"
      using list_inv_links(1)[of s as' a "b # bs"] list_inv_links(1)[of s as b bs] Cons.prems(1) as by simp_all
    have "descend_loop nicr s N (final as) (first (b # bs)) = descend_loop nicr s N b (first bs)"
      using False nz v l by (simp add: descend_loop.simps[of nicr s N "final as"] position_def)
    moreover obtain cs ds where "(as @ [b]) @ bs = cs @ ds" "position k N cs ds"
      "descend_loop nicr s N (final (as @ [b])) (first bs) = Some (Inr (final cs, first ds))"
      using Cons.IH[of "as @ [b]"] Cons.prems(1,2) False by auto
    ultimately show ?thesis by auto
  qed
qed

lemma ascend_loop_finds:
  assumes "list_inv s (as @ bs)" and "reads nicr k" and "bs \<noteq> []" and "N \<ge> k (first bs)"
  shows "\<exists>cs ds. as @ bs = cs @ ds \<and> position k N cs ds \<and>
     ascend_loop nicr s N (final as) (first bs) = Some (Inr (final cs, first ds))"
  using assms
proof (induction as arbitrary: bs rule: rev_induct)
  case Nil
  then have "first bs \<noteq> 0" using list_inv_first_zero[of s "[]" bs] by simp
  moreover have "validInsertPosition nicr s N (final []) (first bs) = Inr True"
    using validInsertPosition_at[OF Nil(1,2), where N = N] Nil(4) by (simp add: position_def)
  ultimately show ?case
    using Nil(4)
    by - (rule exI[of _ "[]"], rule exI[of _ bs], simp add: ascend_loop.simps position_def)
next
  case (snoc a as)
  have nz: "first bs \<noteq> 0" using list_inv_first_zero[OF snoc.prems(1)] snoc.prems(3) by simp
  note v = validInsertPosition_at[OF snoc.prems(1,2)]
  show ?case
  proof (cases "N \<le> k a")
    case True
    then show ?thesis
      using nz v snoc.prems
      by - (rule exI[of _ "as @ [a]"], rule exI[of _ bs], simp add: ascend_loop.simps position_def)
  next
    case False
    obtain b bs' where bs: "bs = b # bs'" using snoc.prems(3) by (cases bs) auto
    have l: "prevId (nodes s (first bs)) = a" "prevId (nodes s a) = final as"
      using list_inv_links(2)[of s "as @ [a]" b bs'] list_inv_links(2)[of s as a bs] snoc.prems(1) bs by simp_all
    have "ascend_loop nicr s N (final (as @ [a])) (first bs) = ascend_loop nicr s N (final as) a"
      using False nz v l by (simp add: ascend_loop.simps[of nicr s N _ "first bs"] position_def)
    moreover obtain cs ds where "as @ (a # bs) = cs @ ds" "position k N cs ds"
      "ascend_loop nicr s N (final as) (first (a # bs)) = Some (Inr (final cs, first ds))"
      using snoc.IH[of "a # bs"] snoc.prems(1,2) False by auto
    ultimately show ?thesis by auto
  qed
qed

lemma descendList_finds:
  assumes "list_inv s (as @ bs)" and "reads nicr k" and "as = [] \<longrightarrow> bs = []"
    and "as \<noteq> [] \<longrightarrow> k (final as) \<ge> N \<or> as = [head s]"
  shows "\<exists>cs ds. as @ bs = cs @ ds \<and> position k N cs ds \<and>
     descendList nicr s N (final as) = Some (Inr (final cs, first ds))"
proof (cases "head s = final as \<and> N \<ge> k (final as)")
  case True
  then have d: "descendList nicr s N (final as) = Some (Inr (0, head s))"
    using reads_app[OF assms(2)] by (simp add: descendList_def)
  have "head s = first (as @ bs)" using list_inv_head_tail[OF assms(1)] by simp
  with True d show ?thesis
    by - (rule exI[of _ "[]"], rule exI[of _ "as @ bs"], cases "as @ bs"; simp add: position_def)
next
  case False
  then have d: "descendList nicr s N (final as) = descend_loop nicr s N (final as) (nextId (nodes s (final as)))"
    using reads_app[OF assms(2)] by (auto simp: descendList_def)
  show ?thesis
  proof (cases "as = []")
    case True
    have "nodes s 0 = empty_node" using assms(1) list_inv_outside[of s "as @ bs" 0] by (auto simp: list_inv_def)
    with True d assms(3) show ?thesis
      by (intro exI[of _ "[]"]) (simp add: descend_loop.simps position_def empty_node_def)
  next
    case nonempty: False
    then obtain a as' where as: "as = as' @ [a]" by (cases as rule: rev_cases) auto
    then have "nextId (nodes s (final as)) = first bs" using list_inv_links(1)[of s as' a bs] assms(1) by simp
    moreover have "k (final as) \<ge> N" using False nonempty assms(4) by auto
    ultimately show ?thesis using descend_loop_finds[OF assms(1,2) nonempty] d by simp
  qed
qed

lemma ascendList_finds:
  assumes "list_inv s (as @ bs)" and "reads nicr k" and "bs \<noteq> []" and "N \<ge> k (first bs)"
  shows "\<exists>cs ds. as @ bs = cs @ ds \<and> position k N cs ds \<and>
     ascendList nicr s N (first bs) = Some (Inr (final cs, first ds))"
proof (cases "tail s = first bs \<and> N \<le> k (first bs)")
  case True
  then have "ascendList nicr s N (first bs) = Some (Inr (tail s, 0))"
    using reads_app[OF assms(2)] by (simp add: ascendList_def)
  with True list_inv_head_tail[OF assms(1)] show ?thesis
    by - (rule exI[of _ "as @ bs"], rule exI[of _ "[]"], auto simp: position_def)
next
  case False
  obtain b bs' where bs: "bs = b # bs'" using assms(3) by (cases bs) auto
  have "prevId (nodes s (first bs)) = final as" using list_inv_links(2)[of s as b bs'] assms(1) bs by simp
  with False have "ascendList nicr s N (first bs) = ascend_loop nicr s N (final as) (first bs)"
    using reads_app[OF assms(2)] by (auto simp: ascendList_def)
  with ascend_loop_finds[OF assms(1), of nicr k N] assms(2-4) show ?thesis by simp
qed

lemma findInsertPosition_finds:
  assumes "list_inv s xs" and "reads nicr k"
  shows "\<exists>as bs. xs = as @ bs \<and> position k N as bs \<and>
     findInsertPosition nicr s N p n = Some (Inr (final as, first bs))"
proof -
  define p' where "p' = (if p \<in> set xs \<and> k p \<ge> N then p else 0)"
  define n' where "n' = (if n \<in> set xs \<and> N \<ge> k n then n else 0)"
  have z: "0 \<notin> set xs" using assms(1) by (simp add: list_inv_def)
  have "keep_hint nicr s (\<lambda>k. N > k) p = Inr p'" "keep_hint nicr s (\<lambda>k. N < k) n = Inr n'"
    using z reads_app[OF assms(2)] list_inv_contains[OF assms(1)] by (auto simp: keep_hint_def p'_def n'_def)
  then have f: "findInsertPosition nicr s N p n =
      (if p' = 0 \<and> n' = 0 then descendList nicr s N (head s)
       else if p' = 0 then ascendList nicr s N n' else descendList nicr s N p')"
    by (simp add: findInsertPosition_def)
  consider "p' = 0" "n' = 0" | "p' = 0" "n' \<noteq> 0" | "p' \<noteq> 0" by blast
  then show ?thesis
  proof cases
    case 1
    have h: "head s = first xs" using list_inv_head_tail[OF assms(1)] by simp
    show ?thesis
    proof (cases xs)
      case Nil
      then show ?thesis using 1 f h descendList_finds[of s "[]" "[]" nicr k N] assms by auto
    next
      case (Cons x ys)
      then show ?thesis using 1 f h descendList_finds[of s "[x]" ys nicr k N] assms by auto
    qed
  next
    case 2
    then have "n' = n" "n \<in> set xs" "N \<ge> k n" by (auto simp: n'_def split: if_splits)
    moreover from this obtain as bs where "xs = as @ n # bs" by (auto simp: in_set_conv_decomp)
    ultimately show ?thesis using 2 f ascendList_finds[of s as "n # bs" nicr k N] assms by auto
  next
    case 3
    then have "p' = p" "p \<in> set xs" "k p \<ge> N" by (auto simp: p'_def split: if_splits)
    moreover from this obtain as bs where "xs = (as @ [p]) @ bs" by (auto simp: in_set_conv_decomp)
    ultimately show ?thesis using 3 f descendList_finds[of s "as @ [p]" bs nicr k N] assms by auto
  qed
qed

section \<open>Linking and unlinking\<close>

lemma list_inv_fields_iff:
  "list_inv s xs \<longleftrightarrow>
     distinct xs \<and> 0 \<notin> set xs \<and> head s = first xs \<and> tail s = final xs \<and> st_size s = length xs \<and>
     dll (nodes s) 0 xs 0 \<and> (\<forall>a \<in> set xs. node_exists (nodes s a)) \<and> (\<forall>a. a \<notin> set xs \<longrightarrow> nodes s a = empty_node)"
  by (auto simp: list_inv_def)

lemma list_inv_ends_differ:
  assumes "list_inv s (as @ bs)" and "as \<noteq> []" and "bs \<noteq> []"
  shows "final as \<noteq> first bs"
  using assms final_in_set[of as] first_in_set[of bs] by (auto simp: list_inv_def)

text \<open>The nodes after linking in \<open>a\<close>: its own node, and the two neighbours that now point to it.\<close>

lemma link_node_nodes:
  assumes "list_inv s (as @ bs)" and "a \<notin> set (as @ bs)" and "a \<noteq> 0"
  shows "nodes (link_node a (final as) (first bs) s) =
      (\<lambda>x. if x = a then \<lparr>node_exists = True, nextId = first bs, prevId = final as\<rparr>
           else (nodes s x)
             \<lparr>nextId := (if as \<noteq> [] \<and> x = final as then a else nextId (nodes s x)),
              prevId := (if bs \<noteq> [] \<and> x = first bs then a else prevId (nodes s x))\<rparr>)"
    and "head (link_node a (final as) (first bs) s) = first (as @ a # bs)"
    and "tail (link_node a (final as) (first bs) s) = final (as @ a # bs)"
    and "st_size (link_node a (final as) (first bs) s) = st_size s"
proof -
  have e: "nodes s a = empty_node" using list_inv_outside assms(1,2) by blast
  have ht: "head s = first (as @ bs)" "tail s = final (as @ bs)" using list_inv_head_tail[OF assms(1)] by auto
  note z = list_inv_final_zero[OF assms(1)] list_inv_first_zero[OF assms(1)]
  have na: "as \<noteq> [] \<Longrightarrow> final as \<noteq> a" "bs \<noteq> [] \<Longrightarrow> first bs \<noteq> a"
    using assms(2) final_in_set[of as] first_in_set[of bs] by auto
  note d = list_inv_ends_differ[OF assms(1)]
  note defs = link_node_def set_exists_def set_next_def set_prev_def Let_def empty_node_def
  consider (1) "as = []" "bs = []" | (2) "as = []" "bs \<noteq> []" | (3) "as \<noteq> []" "bs = []" | (4) "as \<noteq> []" "bs \<noteq> []" by blast
  then have "nodes (link_node a (final as) (first bs) s) =
      (\<lambda>x. if x = a then \<lparr>node_exists = True, nextId = first bs, prevId = final as\<rparr>
           else (nodes s x)
             \<lparr>nextId := (if as \<noteq> [] \<and> x = final as then a else nextId (nodes s x)),
              prevId := (if bs \<noteq> [] \<and> x = first bs then a else prevId (nodes s x))\<rparr>) \<and>
    head (link_node a (final as) (first bs) s) = first (as @ a # bs) \<and>
    tail (link_node a (final as) (first bs) s) = final (as @ a # bs) \<and>
    st_size (link_node a (final as) (first bs) s) = st_size s"
  proof cases
    case 1
    then show ?thesis using e by (simp add: defs fun_eq_iff)
  next
    case 2
    then show ?thesis using e z na ht by (cases bs) (auto simp: defs fun_eq_iff)
  next
    case 3
    then show ?thesis using e z na ht by (cases as) (auto simp: defs fun_eq_iff)
  next
    case 4
    then show ?thesis using e z na ht d by (cases bs; cases as) (auto simp: defs fun_eq_iff)
  qed
  then show "nodes (link_node a (final as) (first bs) s) =
      (\<lambda>x. if x = a then \<lparr>node_exists = True, nextId = first bs, prevId = final as\<rparr>
           else (nodes s x)
             \<lparr>nextId := (if as \<noteq> [] \<and> x = final as then a else nextId (nodes s x)),
              prevId := (if bs \<noteq> [] \<and> x = first bs then a else prevId (nodes s x))\<rparr>)"
    "head (link_node a (final as) (first bs) s) = first (as @ a # bs)"
    "tail (link_node a (final as) (first bs) s) = final (as @ a # bs)"
    "st_size (link_node a (final as) (first bs) s) = st_size s" by blast+
qed

lemma link_node_inv:
  assumes "list_inv s (as @ bs)" and "a \<notin> set (as @ bs)" and "a \<noteq> 0"
  shows "list_inv (link_node a (final as) (first bs) s\<lparr>st_size := Suc (st_size s)\<rparr>) (as @ a # bs)"
proof -
  note L = link_node_nodes[OF assms]
  let ?M = "nodes (link_node a (final as) (first bs) s)"
  note I = assms(1)[unfolded list_inv_fields_iff]
  have "dll (nodes s) 0 as (if bs = [] then 0 else first bs)" "dll (nodes s) (if as = [] then 0 else final as) bs 0"
    using I by (simp_all add: dll_append)
  moreover have "prevId (?M x) = (if x = first as then 0 else prevId (nodes s x)) \<and>
      nextId (?M x) = (if x = final as then a else nextId (nodes s x))" if "x \<in> set as" for x
  proof -
    have "x \<noteq> a" "x = first bs \<longrightarrow> bs = []" "as \<noteq> []" using that assms(2) I first_in_set[of bs] by auto
    moreover have "x = first as \<longrightarrow> prevId (nodes s x) = 0"
      using dll_first[OF \<open>as \<noteq> []\<close>, of "nodes s" 0] I by (auto simp: dll_append)
    ultimately show ?thesis by (auto simp: L)
  qed
  moreover have "prevId (?M x) = (if x = first bs then a else prevId (nodes s x)) \<and>
      nextId (?M x) = (if x = final bs then 0 else nextId (nodes s x))" if "x \<in> set bs" for x
  proof -
    have "x \<noteq> a" "x = final as \<longrightarrow> as = []" "bs \<noteq> []" using that assms(2) I final_in_set[of as] by auto
    moreover have "x = final bs \<longrightarrow> nextId (nodes s x) = 0"
      using dll_final[OF \<open>bs \<noteq> []\<close>, of "nodes s" _ 0] I by (auto simp: dll_append)
    ultimately show ?thesis by (auto simp: L)
  qed
  ultimately have "dll ?M 0 as a" "dll ?M a bs 0"
    using I dll_relink[of "nodes s" 0 as _ ?M 0 a] dll_relink[of "nodes s" _ bs 0 ?M a 0] by simp_all
  then have "dll ?M 0 (as @ a # bs) 0" by (auto simp: dll_append dll_Cons L)
  moreover have "node_exists (?M x)" if "x \<in> set (as @ a # bs)" for x
    using that I by (auto simp: L)
  moreover have "?M x = empty_node" if "x \<notin> set (as @ a # bs)" for x
    using that I final_in_set[of as] first_in_set[of bs] by (auto simp: L)
  ultimately show ?thesis using I assms(2,3) L(2,3) by (simp add: list_inv_fields_iff)
qed

text \<open>Removal, likewise.\<close>

definition unlinked :: "sorted_troves \<Rightarrow> address list \<Rightarrow> address \<Rightarrow> address list \<Rightarrow> sorted_troves" where
  "unlinked s as a bs = s\<lparr>head := first (as @ bs), tail := final (as @ bs), st_size := length (as @ bs),
     nodes := (\<lambda>x. if x = a then empty_node
           else (nodes s x)
             \<lparr>nextId := (if as \<noteq> [] \<and> x = final as then first bs else nextId (nodes s x)),
              prevId := (if bs \<noteq> [] \<and> x = first bs then final as else prevId (nodes s x))\<rparr>)\<rparr>"

lemma remove_inner_unlinks:
  assumes "list_inv s (as @ a # bs)"
  shows "remove_inner s a = Inr (unlinked s as a bs)"
proof -
  note l = list_inv_links[OF assms]
  have ht: "head s = first (as @ a # bs)" "tail s = final (as @ a # bs)" "st_size s = Suc (length (as @ bs))"
    using list_inv_head_tail[OF assms] by auto
  have na: "as \<noteq> [] \<Longrightarrow> final as \<noteq> a" "bs \<noteq> [] \<Longrightarrow> first bs \<noteq> a" "bs \<noteq> [] \<Longrightarrow> final bs \<noteq> a" "as \<noteq> [] \<Longrightarrow> first as \<noteq> a"
    using assms final_in_set[of as] first_in_set[of bs] final_in_set[of bs] first_in_set[of as] by (auto simp: list_inv_def)
  have d: "as \<noteq> [] \<Longrightarrow> bs \<noteq> [] \<Longrightarrow> final as \<noteq> first bs"
    using assms final_in_set[of as] first_in_set[of bs] by (auto simp: list_inv_def)
  note defs = remove_inner_def unlinked_def delete_node_def set_next_def set_prev_def Let_def
  consider (1) "as = []" "bs = []" | (2) "as = []" "bs \<noteq> []" | (3) "as \<noteq> []" "bs = []" | (4) "as \<noteq> []" "bs \<noteq> []" by blast
  then show ?thesis
  proof cases
    case 1
    then show ?thesis using l ht by (simp add: defs u_sub_def fun_eq_iff)
  next
    case 2
    then show ?thesis using l ht na by (cases bs) (auto simp: defs u_sub_def fun_eq_iff)
  next
    case 3
    then obtain b cs where "as = b # cs" by (cases as) auto
    with 3 show ?thesis using l ht na by (auto simp: defs u_sub_def fun_eq_iff)
  next
    case 4
    then obtain b cs where "as = b # cs" by (cases as) auto
    moreover from 4 obtain b' cs' where "bs = b' # cs'" by (cases bs) auto
    ultimately show ?thesis using l ht na d by (auto simp: defs u_sub_def fun_eq_iff)
  qed
qed

lemma unlinked_inv:
  assumes "list_inv s (as @ a # bs)"
  shows "list_inv (unlinked s as a bs) (as @ bs)"
proof -
  let ?M = "nodes (unlinked s as a bs)"
  note I = assms[unfolded list_inv_fields_iff]
  have "dll (nodes s) 0 as a" "dll (nodes s) a bs 0"
    using I by (auto simp: dll_append dll_Cons)
  moreover have "prevId (?M x) = (if x = first as then 0 else prevId (nodes s x)) \<and>
      nextId (?M x) = (if x = final as then first bs else nextId (nodes s x))" if "x \<in> set as" for x
  proof -
    have "x \<noteq> a" "x = first bs \<longrightarrow> bs = []" "as \<noteq> []" using that I first_in_set[of bs] by auto
    moreover have "x = first as \<longrightarrow> prevId (nodes s x) = 0"
      using dll_first[OF \<open>as \<noteq> []\<close>, of "nodes s" 0] I by (auto simp: dll_append)
    ultimately show ?thesis by (auto simp: unlinked_def)
  qed
  moreover have "prevId (?M x) = (if x = first bs then final as else prevId (nodes s x)) \<and>
      nextId (?M x) = (if x = final bs then 0 else nextId (nodes s x))" if "x \<in> set bs" for x
  proof -
    have "x \<noteq> a" "x = final as \<longrightarrow> as = []" "bs \<noteq> []" using that I final_in_set[of as] by auto
    moreover have "x = final bs \<longrightarrow> nextId (nodes s x) = 0"
      using dll_final[OF \<open>bs \<noteq> []\<close>, of "nodes s" a 0] \<open>dll (nodes s) a bs 0\<close> by auto
    ultimately show ?thesis by (auto simp: unlinked_def)
  qed
  ultimately have "dll ?M 0 as (first bs)" "dll ?M (final as) bs 0"
    using I dll_relink[of "nodes s" 0 as a ?M 0 "first bs"] dll_relink[of "nodes s" a bs 0 ?M "final as" 0] by simp_all
  then have "dll ?M 0 (as @ bs) 0" by (auto simp: dll_append)
  moreover have "node_exists (?M x)" if "x \<in> set (as @ bs)" for x
    using that I by (auto simp: unlinked_def)
  moreover have "?M x = empty_node" if "x \<notin> set (as @ bs)" for x
    using that I final_in_set[of as] first_in_set[of bs] by (auto simp: unlinked_def)
  ultimately show ?thesis using I by (simp add: list_inv_fields_iff unlinked_def)
qed

section \<open>The operations on the represented list\<close>

lemma link_node_others [simp]:
  "maxSize (link_node a p n s) = maxSize s"
  "st_troveManager (link_node a p n s) = st_troveManager s"
  "st_borrowerOperations (link_node a p n s) = st_borrowerOperations s"
  by (simp_all add: link_node_def set_exists_def set_next_def set_prev_def Let_def)

lemma insert_inner_ok:
  assumes "list_inv s xs" and "reads nicr k" and "st_size s < maxSize s" and "maxSize s < 2 ^ 256"
    and "a \<notin> set xs" and "a \<noteq> 0" and "0 < N"
  obtains as bs where "xs = as @ bs" and "position k N as bs"
    and "insert_inner nicr s a N p n = Some (Inr (link_node a (final as) (first bs) s\<lparr>st_size := Suc (st_size s)\<rparr>))"
proof -
  have guards: "\<not> isFull s" "\<not> containsNode s a"
    using assms(3,5) list_inv_contains[OF assms(1)] by (auto simp: isFull_def)
  have "is_ok (validInsertPosition nicr s N p n)"
    using reads_app[OF assms(2)] by (simp add: validInsertPosition_def)
  then obtain b where v: "validInsertPosition nicr s N p n = Inr b"
    by (cases "validInsertPosition nicr s N p n") auto
  obtain as bs where xs: "xs = as @ bs" and pos: "position k N as bs"
    and r: "(if b then Some (Inr (p, n)) else findInsertPosition nicr s N p n) = Some (Inr (final as, first bs))"
  proof (cases b)
    case True
    with v have "validInsertPosition nicr s N p n = Inr True" by simp
    from validInsertPosition_split[OF assms(1,2) this] obtain as bs
      where e: "xs = as @ bs" "p = final as" "n = first bs" by metis
    moreover from this True v validInsertPosition_at[of s as bs nicr k N] assms(1,2) have "position k N as bs" by simp
    ultimately show thesis using True that by simp
  next
    case False
    with findInsertPosition_finds[OF assms(1,2), of N p n] that show thesis by auto
  qed
  have "st_size (link_node a (final as) (first bs) s) = st_size s"
    using link_node_nodes(4) assms(1,5,6) xs by blast
  moreover have "st_size s + 1 < 2 ^ 256" using assms(3,4) by linarith
  ultimately have "insert_inner nicr s a N p n = Some (Inr (link_node a (final as) (first bs) s\<lparr>st_size := Suc (st_size s)\<rparr>))"
    using guards v r assms(6,7) by (simp add: insert_inner_def Let_def)
  with xs pos that show thesis by blast
qed

lemma insert_inner_guards:
  assumes "insert_inner nicr s a N p n = Some (Inr s')"
  shows "\<not> isFull s" and "\<not> containsNode s a" and "a \<noteq> 0" and "0 < N"
  using assms by (auto simp: insert_inner_def rbind_Inr_iff split: sum.splits option.splits)

lemma remove_inner_ok:
  assumes "list_inv s xs" and "a \<in> set xs"
  obtains as bs where "xs = as @ a # bs" and "remove_inner s a = Inr (unlinked s as a bs)"
    and "list_inv (unlinked s as a bs) (remove1 a xs)"
proof -
  obtain as bs where xs: "xs = as @ a # bs" using assms(2) by (auto simp: in_set_conv_decomp)
  have "a \<notin> set as" using assms(1) xs by (auto simp: list_inv_def)
  then have "remove1 a xs = as @ bs" using xs by (simp add: remove1_append)
  then show thesis
    using that[OF xs] remove_inner_unlinks unlinked_inv assms(1) xs by simp
qed

lemma unlinked_others [simp]:
  "maxSize (unlinked s as a bs) = maxSize s"
  "st_troveManager (unlinked s as a bs) = st_troveManager s"
  "st_borrowerOperations (unlinked s as a bs) = st_borrowerOperations s"
  "st_size (unlinked s as a bs) = length (as @ bs)"
  by (simp_all add: unlinked_def)

text \<open>Inserting at a position keeps the descending order, for the ratios in which \<open>a\<close> has the new one.\<close>

lemma descending_insert:
  assumes "descending k (as @ bs)" and "position k N as bs" and "a \<notin> set (as @ bs)"
  shows "descending (k(a := N)) (as @ a # bs)"
proof -
  have as: "N \<le> k x" if "x \<in> set as" for x
  proof (cases "x = final as")
    case True
    with assms(2) that show ?thesis by (auto simp: position_def)
  next
    case False
    have "as \<noteq> []" using that by auto
    then obtain ys y where y: "as = ys @ [y]" by (cases as rule: rev_cases) auto
    with that False assms(1) have "k y \<le> k x" by (auto simp: descending_def sorted_wrt_append)
    with y assms(2) show ?thesis by (simp add: position_def)
  qed
  have bs: "k x \<le> N" if "x \<in> set bs" for x
  proof (cases bs)
    case Nil
    with that show ?thesis by simp
  next
    case (Cons b bs')
    with that assms(1) have "k x \<le> k b" by (auto simp: descending_def sorted_wrt_append)
    with Cons assms(2) show ?thesis by (simp add: position_def)
  qed
  have "sorted_wrt (\<lambda>x y. (k(a := N)) y \<le> (k(a := N)) x) as"
    "sorted_wrt (\<lambda>x y. (k(a := N)) y \<le> (k(a := N)) x) bs"
    using assms(1,3) by (auto simp: descending_def sorted_wrt_append intro!: sorted_wrt_mono_rel[where P = "\<lambda>x y. k y \<le> k x"])
  then show ?thesis
    using assms(1,3) as bs by (auto simp: descending_def sorted_wrt_append)
qed

lemma descending_remove: "descending k xs \<Longrightarrow> descending k (remove1 a xs)"
  unfolding descending_def using set_remove1_subset by (induction xs) fastforce+

section \<open>All histories of the list\<close>

text \<open>
  A history: inserts, removals and re-insertions by any caller with any hints, and changes of the ratios that
  keep their order, which is what the distribution of a liquidation does.
\<close>

definition initial_list :: "address \<Rightarrow> address \<Rightarrow> nat \<Rightarrow> sorted_troves" where
  "initial_list tm bo sz = \<lparr>head = 0, tail = 0, maxSize = sz, st_size = 0, nodes = (\<lambda>_. empty_node),
     st_troveManager = tm, st_borrowerOperations = bo\<rparr>"

inductive list_reachable :: "address \<Rightarrow> address \<Rightarrow> nat \<Rightarrow> sorted_troves \<Rightarrow> (address \<Rightarrow> nat) \<Rightarrow> bool"
  for tm bo sz where
  start: "list_reachable tm bo sz (initial_list tm bo sz) k"
| insert_step: "list_reachable tm bo sz s k \<Longrightarrow> insert_trove sender (\<lambda>a. Inr (k a)) s a N p n = Some (Inr s') \<Longrightarrow>
    list_reachable tm bo sz s' (k(a := N))"
| remove_step: "list_reachable tm bo sz s k \<Longrightarrow> remove_trove sender s a = Inr s' \<Longrightarrow> list_reachable tm bo sz s' k"
| reinsert_step: "list_reachable tm bo sz s k \<Longrightarrow> reInsert sender (\<lambda>a. Inr (k a)) s a N p n = Some (Inr s') \<Longrightarrow>
    list_reachable tm bo sz s' (k(a := N))"
| ratios_step: "list_reachable tm bo sz s k \<Longrightarrow> (\<forall>a b. k b \<le> k a \<longrightarrow> k' b \<le> k' a) \<Longrightarrow>
    list_reachable tm bo sz s k'"

inductive_cases list_reachableE: "list_reachable tm bo sz s k"

text \<open>What holds of every reachable storage.\<close>

definition list_ok :: "sorted_troves \<Rightarrow> (address \<Rightarrow> nat) \<Rightarrow> address list \<Rightarrow> bool" where
  "list_ok s k xs \<longleftrightarrow> list_inv s xs \<and> descending k xs \<and> length xs \<le> maxSize s"

lemma insert_inner_list_ok:
  assumes "list_ok s k xs" and "maxSize s < 2 ^ 256" and "insert_inner (\<lambda>a. Inr (k a)) s a N p n = Some (Inr s')"
  shows "\<exists>as bs. xs = as @ bs \<and> list_ok s' (k(a := N)) (as @ a # bs) \<and> maxSize s' = maxSize s"
proof -
  note g = insert_inner_guards[OF assms(3)]
  have inv: "list_inv s xs" using assms(1) by (simp add: list_ok_def)
  then have "a \<notin> set xs" using g(2) list_inv_contains by blast
  moreover have lt: "st_size s < maxSize s"
    using assms(1) g(1) list_inv_head_tail[OF inv] by (auto simp: list_ok_def isFull_def)
  moreover have "reads (\<lambda>a. Inr (k a)) k" by (simp add: reads_def)
  ultimately obtain as bs where xs: "xs = as @ bs" "position k N as bs"
    and s': "insert_inner (\<lambda>a. Inr (k a)) s a N p n = Some (Inr (link_node a (final as) (first bs) s\<lparr>st_size := Suc (st_size s)\<rparr>))"
    using insert_inner_ok[OF inv _ _ assms(2) _ g(3,4)] by metis
  have "list_inv s' (as @ a # bs)"
    using link_node_inv[of s as bs a] inv xs(1) g(3) \<open>a \<notin> set xs\<close> s' assms(3) by simp
  moreover have "descending (k(a := N)) (as @ a # bs)"
    using descending_insert[of k as bs N a] assms(1) xs \<open>a \<notin> set xs\<close> by (simp add: list_ok_def)
  moreover have "length (as @ a # bs) \<le> maxSize s" "maxSize s' = maxSize s"
    using lt list_inv_head_tail[OF inv] xs(1) s' assms(3) by auto
  ultimately show ?thesis using xs(1) by (auto simp: list_ok_def)
qed

lemma remove_inner_list_ok:
  assumes "list_ok s k xs" and "remove_inner s a = Inr s'"
  shows "a \<in> set xs \<and> list_ok s' k (remove1 a xs) \<and> maxSize s' = maxSize s"
proof -
  have inv: "list_inv s xs" using assms(1) by (simp add: list_ok_def)
  have "containsNode s a" using assms(2) by (auto simp: remove_inner_def rbind_Inr_iff)
  then have a: "a \<in> set xs" using list_inv_contains[OF inv] by simp
  from remove_inner_ok[OF inv a] obtain as bs where "remove_inner s a = Inr (unlinked s as a bs)"
    "list_inv (unlinked s as a bs) (remove1 a xs)" by metis
  with assms a show ?thesis
    by (auto simp: list_ok_def descending_remove length_remove1)
qed

lemma reachable_list_ok:
  assumes "list_reachable tm bo sz s k" and "sz < 2 ^ 256"
  shows "\<exists>xs. list_ok s k xs \<and> maxSize s = sz"
  using assms(1)
proof (induction rule: list_reachable.induct)
  case (start k)
  have "list_ok (initial_list tm bo sz) k []"
    by (simp add: list_ok_def list_inv_def initial_list_def descending_def)
  then show ?case by (auto simp: initial_list_def)
next
  case (insert_step s k sender a N p n s')
  then have "insert_inner (\<lambda>a. Inr (k a)) s a N p n = Some (Inr s')"
    by (auto simp: insert_trove_def split: sum.splits)
  with insert_step.IH assms(2) insert_inner_list_ok show ?case by metis
next
  case (remove_step s k sender a s')
  then have "remove_inner s a = Inr s'" by (auto simp: remove_trove_def rbind_Inr_iff)
  with remove_step.IH remove_inner_list_ok show ?case by metis
next
  case (reinsert_step s k sender a N p n s')
  then obtain s1 where "remove_inner s a = Inr s1" "insert_inner (\<lambda>a. Inr (k a)) s1 a N p n = Some (Inr s')"
    by (auto simp: reInsert_def rbind_Inr_iff split: sum.splits)
  with reinsert_step.IH assms(2) remove_inner_list_ok insert_inner_list_ok show ?case by metis
next
  case (ratios_step s k k')
  then obtain xs where "list_ok s k xs" "maxSize s = sz" by auto
  moreover from this ratios_step(2) have "descending k' xs"
    unfolding list_ok_def descending_def by (auto intro: sorted_wrt_mono_rel[rotated])
  ultimately show ?case by (auto simp: list_ok_def)
qed

text \<open>Unlinking what was linked gives the storage back.\<close>

lemma unlink_link:
  assumes "list_inv s (as @ bs)" and "a \<notin> set (as @ bs)" and "a \<noteq> 0"
  shows "unlinked (link_node a (final as) (first bs) s\<lparr>st_size := k\<rparr>) as a bs = s"
proof -
  note L = link_node_nodes[OF assms]
  have ht: "head s = first (as @ bs)" "tail s = final (as @ bs)" "st_size s = length (as @ bs)"
    using list_inv_head_tail[OF assms(1)] by auto
  have ends: "as \<noteq> [] \<Longrightarrow> nextId (nodes s (final as)) = first bs" "bs \<noteq> [] \<Longrightarrow> prevId (nodes s (first bs)) = final as"
    using assms(1) dll_final[of as "nodes s" 0] dll_first[of bs "nodes s" _ 0]
    by (auto simp: list_inv_def dll_append split: if_splits)
  have "nodes s a = empty_node" using list_inv_outside assms(1,2) by blast
  then have "nodes (unlinked (link_node a (final as) (first bs) s\<lparr>st_size := k\<rparr>) as a bs) = nodes s"
    using ends by (auto simp: unlinked_def L fun_eq_iff)
  then show ?thesis
    using ht by (intro sorted_troves.equality) (simp_all add: unlinked_def)
qed

section \<open>A concrete list\<close>

text \<open>Troves 7 and 5 with the ratios 300 and 200, inserted by BorrowerOperations (address 2).\<close>

definition demo_ratio :: "address \<Rightarrow> nat" where
  "demo_ratio a = (if a = 7 then 300 else if a = 5 then 200 else 0)"

definition demo_list :: sorted_troves where
  "demo_list = \<lparr>head = 7, tail = 5, maxSize = 10, st_size = 2,
     nodes = (\<lambda>_. empty_node)(7 := \<lparr>node_exists = True, nextId = 5, prevId = 0\<rparr>,
                              5 := \<lparr>node_exists = True, nextId = 0, prevId = 7\<rparr>),
     st_troveManager = 1, st_borrowerOperations = 2\<rparr>"

lemma demo_list_ok: "list_ok demo_list demo_ratio [7, 5]"
  by (simp add: list_ok_def list_inv_def demo_list_def descending_def demo_ratio_def final_def)

section \<open>Properties\<close>

text \<open>C20. Insertion refines insertion into a descending list: for a caller allowed to insert, a new positive
  ratio and room in the list, \<open>insert\<close> returns for every pair of hints, right or wrong, and the list it
  leaves is the old one with the new trove between those with a ratio at least as large and those
  with a ratio at most as large.\<close>

theorem insert_refines_ordered_insertion:
  assumes "list_ok s k xs" and "reads nicr k" and "length xs < maxSize s" and "maxSize s < 2 ^ 256"
    and "sender = st_borrowerOperations s \<or> sender = st_troveManager s"
    and "a \<notin> set xs" and "a \<noteq> 0" and "0 < N"
  shows "\<exists>as bs s'. xs = as @ bs \<and> (\<forall>x \<in> set as. N \<le> k x) \<and> (\<forall>x \<in> set bs. k x \<le> N) \<and>
     insert_trove sender nicr s a N p n = Some (Inr s') \<and> list_ok s' (k(a := N)) (as @ a # bs)"
proof -
  have nicr: "nicr = (\<lambda>a. Inr (k a))" using assms(2) by (auto simp: reads_def)
  have inv: "list_inv s xs" using assms(1) by (simp add: list_ok_def)
  then have "st_size s < maxSize s" using assms(3) list_inv_head_tail by simp
  from insert_inner_ok[OF inv assms(2) this assms(4,6-8)] obtain s' where
    i: "insert_inner nicr s a N p n = Some (Inr s')" by metis
  from insert_inner_list_ok[OF assms(1,4) i[unfolded nicr]] obtain as bs where
    xs: "xs = as @ bs" and ok: "list_ok s' (k(a := N)) (as @ a # bs)" by blast
  from ok assms(6) xs have "(\<forall>x \<in> set as. N \<le> k x) \<and> (\<forall>x \<in> set bs. k x \<le> N)"
    by (auto simp: list_ok_def descending_def sorted_wrt_append split: if_splits)
  moreover have "insert_trove sender nicr s a N p n = Some (Inr s')"
    using assms(5) i by (auto simp: insert_trove_def requireCallerIsBOorTroveM_def)
  ultimately show ?thesis using xs ok by blast
qed

theorem insert_refines_ordered_insertion_witness:
  "\<exists>s' xs. insert_trove 2 (\<lambda>a. Inr (demo_ratio a)) demo_list 9 250 5 7 = Some (Inr s') \<and>
     list_ok s' (demo_ratio(9 := 250)) xs \<and> set xs = {5, 7, 9}"
proof -
  from insert_refines_ordered_insertion[OF demo_list_ok, of "\<lambda>a. Inr (demo_ratio a)" 2 9 250 5 7]
  obtain as bs s' where "[7, 5] = as @ bs" "insert_trove 2 (\<lambda>a. Inr (demo_ratio a)) demo_list 9 250 5 7 = Some (Inr s')"
    "list_ok s' (demo_ratio(9 := 250)) (as @ 9 # bs)" by (auto simp: reads_def demo_list_def)
  moreover from this(1) have "set (as @ 9 # bs) = {5, 7, 9}"
    by (metis Un_insert_right insert_commute list.simps(15) list.set(1) set_append)
  ultimately show ?thesis by blast
qed

text \<open>C21. In every history of inserts, removals, re-insertions by any callers with any hints, and
  order-preserving changes of the ratios, the storage stays a doubly linked list without repetition, in
  descending order of the ratios and within its maximal size.\<close>

theorem every_history_stays_sorted:
  assumes "list_reachable tm bo sz s k" and "sz < 2 ^ 256"
  shows "\<exists>xs. list_inv s xs \<and> descending k xs \<and> length xs \<le> sz"
  using reachable_list_ok[OF assms] by (auto simp: list_ok_def)

theorem every_history_stays_sorted_witness:
  "\<exists>s xs. list_reachable 1 2 5 s ((\<lambda>_. 0)(9 := 4)) \<and> containsNode s 9 \<and> list_inv s xs \<and>
     descending ((\<lambda>_. 0)(9 := 4)) xs \<and> length xs \<le> 5"
proof -
  let ?s = "initial_list 1 2 5"
  have i: "insert_trove 2 (\<lambda>a. Inr 0) ?s 9 4 0 0 =
      Some (Inr (link_node 9 0 0 ?s\<lparr>st_size := 1\<rparr>))"
    by (simp add: insert_trove_def requireCallerIsBOorTroveM_def insert_inner_def initial_list_def isFull_def
        containsNode_def empty_node_def validInsertPosition_def isEmpty_def link_node_def set_exists_def)
  have "list_reachable 1 2 5 (link_node 9 0 0 ?s\<lparr>st_size := 1\<rparr>) ((\<lambda>_. 0)(9 := 4))"
    using insert_step[OF start i] by simp
  moreover have "containsNode (link_node 9 0 0 ?s\<lparr>st_size := 1\<rparr>) 9"
    by (simp add: link_node_def set_exists_def containsNode_def)
  ultimately show ?thesis using every_history_stays_sorted[of 1 2 5] by fastforce
qed

text \<open>C22. The search always comes back, and with a position that \<open>validInsertPosition\<close> accepts, on every
  well-linked list, for any hints and any ratios, even when the order of the ratios is broken.\<close>

theorem search_returns_valid_position:
  assumes "list_inv s xs" and "reads nicr k"
  shows "\<exists>p' n'. findInsertPosition nicr s N p n = Some (Inr (p', n')) \<and>
     validInsertPosition nicr s N p' n' = Inr True"
proof -
  from findInsertPosition_finds[OF assms, of N p n] obtain as bs where
    "xs = as @ bs" "position k N as bs" "findInsertPosition nicr s N p n = Some (Inr (final as, first bs))" by blast
  moreover from this assms validInsertPosition_at[of s as bs nicr k N]
  have "validInsertPosition nicr s N (final as) (first bs) = Inr True" by simp
  ultimately show ?thesis by blast
qed

theorem search_returns_valid_position_witness:
  "\<exists>p' n'. findInsertPosition (\<lambda>a. Inr (demo_ratio a)) demo_list 250 5 99 = Some (Inr (p', n')) \<and>
     validInsertPosition (\<lambda>a. Inr (demo_ratio a)) demo_list 250 p' n' = Inr True"
  using search_returns_valid_position[of demo_list "[7, 5]" "\<lambda>a. Inr (demo_ratio a)" demo_ratio 250 5 99] demo_list_ok
  by (simp add: list_ok_def reads_def)

text \<open>Removing the trove that was just inserted gives the storage back, field by field.\<close>

theorem insert_remove_roundtrip:
  assumes "list_inv s xs" and "reads nicr k" and "st_size s < maxSize s" and "maxSize s < 2 ^ 256"
    and "insert_inner nicr s a N p n = Some (Inr s')"
  shows "remove_inner s' a = Inr s"
proof -
  note g = insert_inner_guards[OF assms(5)]
  have a: "a \<notin> set xs" using g(2) list_inv_contains[OF assms(1)] by simp
  from insert_inner_ok[OF assms(1-4) a g(3,4), of p n] obtain as bs where
    xs: "xs = as @ bs" and i: "insert_inner nicr s a N p n =
      Some (Inr (link_node a (final as) (first bs) s\<lparr>st_size := Suc (st_size s)\<rparr>))" by metis
  from i assms(5) have s': "s' = link_node a (final as) (first bs) s\<lparr>st_size := Suc (st_size s)\<rparr>" by simp
  from link_node_inv[of s as bs a] assms(1) a xs g(3) have "list_inv s' (as @ a # bs)" by (simp add: s')
  then have "remove_inner s' a = Inr (unlinked s' as a bs)" by (rule remove_inner_unlinks)
  then show ?thesis using unlink_link[of s as bs a] assms(1) a xs g(3) by (simp add: s')
qed

theorem insert_remove_roundtrip_witness:
  "\<exists>s'. insert_inner (\<lambda>a. Inr (demo_ratio a)) demo_list 9 250 7 5 = Some (Inr s') \<and> remove_inner s' 9 = Inr demo_list"
proof -
  have "list_inv demo_list [7, 5]" "reads (\<lambda>a. Inr (demo_ratio a)) demo_ratio" "st_size demo_list < maxSize demo_list"
    "maxSize demo_list < 2 ^ 256"
    using demo_list_ok by (simp_all add: list_ok_def reads_def demo_list_def)
  moreover obtain s' where "insert_inner (\<lambda>a. Inr (demo_ratio a)) demo_list 9 250 7 5 = Some (Inr s')"
    by (simp add: insert_inner_def isFull_def containsNode_def validInsertPosition_def demo_list_def demo_ratio_def
        empty_node_def Let_def link_node_def set_exists_def set_next_def set_prev_def)
  ultimately show ?thesis using insert_remove_roundtrip by blast
qed

text \<open>What the operations refuse, and that nothing else fails: an insertion reverts exactly when the caller
  is neither contract, the list is full, the trove is there already, or its address or ratio is
  zero; a removal exactly when the caller is not the TroveManager or the trove is not there.\<close>

theorem list_operations_revert_exactly:
  assumes "list_ok s k xs" and "reads nicr k" and "maxSize s < 2 ^ 256"
  shows "((\<exists>e. insert_trove sender nicr s a N p n = Some (Inl e)) \<longleftrightarrow>
            (sender \<noteq> st_borrowerOperations s \<and> sender \<noteq> st_troveManager s) \<or> length xs = maxSize s \<or>
            a \<in> set xs \<or> a = 0 \<or> N = 0) \<and>
         ((\<exists>e. remove_trove sender s a = Inl e) \<longleftrightarrow> sender \<noteq> st_troveManager s \<or> a \<notin> set xs)"
proof
  have inv: "list_inv s xs" and len: "length xs \<le> maxSize s" using assms(1) by (auto simp: list_ok_def)
  note ht = list_inv_head_tail[OF inv] and c = list_inv_contains[OF inv, of a]
  show "(\<exists>e. insert_trove sender nicr s a N p n = Some (Inl e)) \<longleftrightarrow>
            (sender \<noteq> st_borrowerOperations s \<and> sender \<noteq> st_troveManager s) \<or> length xs = maxSize s \<or>
            a \<in> set xs \<or> a = 0 \<or> N = 0" (is "?err \<longleftrightarrow> ?bad")
  proof
    assume ?err
    then obtain e where e: "insert_trove sender nicr s a N p n = Some (Inl e)" by blast
    show ?bad
    proof (rule ccontr)
      assume "\<not> ?bad"
      then have g: "sender = st_borrowerOperations s \<or> sender = st_troveManager s" "st_size s < maxSize s"
        "a \<notin> set xs" "a \<noteq> 0" "0 < N" using len ht by auto
      from insert_inner_ok[OF inv assms(2) g(2) assms(3) g(3-5)] obtain s' where
        "insert_inner nicr s a N p n = Some (Inr s')" by metis
      with g(1) e show False by (auto simp: insert_trove_def requireCallerIsBOorTroveM_def)
    qed
  next
    assume ?bad
    then show ?err
      using ht c by (auto simp: insert_trove_def requireCallerIsBOorTroveM_def insert_inner_def isFull_def
          require_def rbind_def split: sum.splits)
  qed
  show "(\<exists>e. remove_trove sender s a = Inl e) \<longleftrightarrow> sender \<noteq> st_troveManager s \<or> a \<notin> set xs"
  proof (cases "a \<in> set xs")
    case True
    from remove_inner_ok[OF inv this] obtain s' where "remove_inner s a = Inr s'" by metis
    with True show ?thesis by (auto simp: remove_trove_def require_def rbind_def)
  next
    case False
    with c show ?thesis by (auto simp: remove_trove_def remove_inner_def require_def rbind_def)
  qed
qed

theorem list_operations_revert_exactly_witness:
  "(\<exists>e. insert_trove 3 (\<lambda>a. Inr (demo_ratio a)) demo_list 9 250 0 0 = Some (Inl e)) \<and>
   \<not> (\<exists>e. remove_trove 1 demo_list 7 = Inl e)"
  using list_operations_revert_exactly[OF demo_list_ok, of "\<lambda>a. Inr (demo_ratio a)" 3 9 250 0 0]
    list_operations_revert_exactly[OF demo_list_ok, of "\<lambda>a. Inr (demo_ratio a)" 1 7 250 0 0]
  by (simp add: reads_def demo_list_def)

end
