(* ===== verification/Trove_Listing.thy ===== *)
theory Trove_Listing
  imports Sorted_Troves Helper_Loops
begin

text \<open>
  The helper \<open>logActiveAccounts\<close> as a client of the SortedTroves contract: the interface it uses (first, last,
  previous, size) as a locale, its listing proved once from the laws of that interface, and the
  interpretation on the contract's storage.
\<close>

section \<open>The interface\<close>

text \<open>The views of a contracts object read the list in the storage \<open>store c\<close>.\<close>

definition listed_by ::
  "('s \<Rightarrow> 'l) \<Rightarrow> ('l \<Rightarrow> address) \<Rightarrow> ('l \<Rightarrow> address) \<Rightarrow> ('l \<Rightarrow> address \<Rightarrow> address) \<Rightarrow> ('l \<Rightarrow> nat) \<Rightarrow> 's contracts \<Rightarrow> bool" where
  "listed_by store first_of last_of prev_of size_of C \<longleftrightarrow>
     (\<forall>c. st_getFirst C c = Inr (first_of (store c)) \<and> st_getLast C c = Inr (last_of (store c)) \<and>
          st_getSize C c = Inr (int (size_of (store c))) \<and> (\<forall>a. st_getPrev C c a = Inr (prev_of (store c) a)))"

locale trove_list =
  fixes inv :: "'l \<Rightarrow> address list \<Rightarrow> bool" and first_of last_of :: "'l \<Rightarrow> address"
    and prev_of :: "'l \<Rightarrow> address \<Rightarrow> address" and size_of :: "'l \<Rightarrow> nat"
  assumes distinct_troves: "inv l xs \<Longrightarrow> distinct xs"
    and first_is_head: "inv l xs \<Longrightarrow> xs \<noteq> [] \<Longrightarrow> first_of l = hd xs"
    and last_is_last: "inv l xs \<Longrightarrow> xs \<noteq> [] \<Longrightarrow> last_of l = last xs"
    and prev_is_predecessor: "inv l (as @ a # b # bs) \<Longrightarrow> prev_of l b = a"
    and size_is_length: "inv l xs \<Longrightarrow> size_of l = length xs"
begin

lemma chain_backwards:
  assumes "inv l xs" and "\<And>a. get_prev c a = Inr (prev_of l a)"
  shows "xs = as @ bs \<Longrightarrow> as \<noteq> [] \<Longrightarrow> prev_chain get_prev c (rev as)"
proof (induction as arbitrary: bs rule: rev_induct)
  case Nil
  then show ?case by simp
next
  case (snoc b as)
  show ?case
  proof (cases as rule: rev_cases)
    case Nil
    then show ?thesis by simp
  next
    case as: (snoc as' a)
    have "prev_of l b = a" using assms(1) snoc.prems as prev_is_predecessor[of l as' a b bs] by simp
    moreover have "prev_chain get_prev c (rev as)" using snoc.IH[of "b # bs"] snoc.prems as by simp
    ultimately show ?thesis using as assms(2) by simp
  qed
qed

lemma listing_from_tail:
  assumes "inv (store (chain w)) xs" and "xs \<noteq> []" and "listed_by store first_of last_of prev_of size_of C"
    and "pf_getPrice C (chain w) = Inr price"
    and "\<And>a. a \<in> set xs \<Longrightarrow> tm_Troves C (chain w) a = Inr (debt a, coll a)"
    and "\<And>a. a \<in> set xs \<Longrightarrow> tm_getCurrentICR C (chain w) a price = Inr (icr a)"
  shows "logActiveAccounts C n w =
    (Inr (map (\<lambda>a. (a, coll a, debt a, icr a)) (take (nat (default (int (length xs)) n)) (rev xs))), w)"
proof -
  have v: "st_getFirst C (chain w) = Inr (last (rev xs))" "st_getLast C (chain w) = Inr (hd (rev xs))"
    "st_getSize C (chain w) = Inr (int (length xs))" "\<And>a. st_getPrev C (chain w) a = Inr (prev_of (store (chain w)) a)"
    using assms(1-3) first_is_head last_is_last size_is_length
    by (auto simp: listed_by_def last_rev hd_rev)
  have "prev_chain (st_getPrev C) (chain w) (rev xs)"
    using chain_backwards[OF assms(1), of "st_getPrev C" "chain w" xs "[]"] v(4) assms(2) by simp
  moreover have "distinct (rev xs)" using distinct_troves[OF assms(1)] by simp
  moreover have "trove_line C price a w = (Inr (a, coll a, debt a, icr a), w)" if "a \<in> set (rev xs)" for a
    using assms(5,6) that by (simp add: trove_line_def jbind_def)
  ultimately have "log_active_loop C price (last (rev xs)) k (hd (rev xs)) w =
      (Inr (map (\<lambda>a. (a, coll a, debt a, icr a)) (take k (rev xs))), w)" for k
    by (intro log_active_loop_chain) auto
  then show ?thesis using v assms(4) by (simp add: logActiveAccounts_def jbind_def)
qed

end

section \<open>The contract provides it\<close>

interpretation stored: trove_list list_inv head tail getPrev st_size
proof unfold_locales
  fix l as a b bs
  assume "list_inv l (as @ a # b # bs)"
  then have "list_inv l ((as @ [a]) @ b # bs)" by simp
  from list_inv_links(2)[OF this] show "getPrev l b = a" by (simp add: getPrev_def)
next
  fix l :: sorted_troves and xs :: "address list"
  assume "list_inv l xs" and "xs \<noteq> []"
  then show "head l = hd xs" "tail l = last xs"
    by (auto simp: list_inv_def final_def neq_Nil_conv)
qed (auto simp: list_inv_def)

definition with_list :: "('s \<Rightarrow> sorted_troves) \<Rightarrow> 's contracts \<Rightarrow> 's contracts" where
  "with_list store ext = ext
     \<lparr>st_getFirst := (\<lambda>c. Inr (head (store c))), st_getLast := (\<lambda>c. Inr (tail (store c))),
      st_getSize := (\<lambda>c. Inr (int (st_size (store c)))), st_getPrev := (\<lambda>c a. Inr (getPrev (store c) a))\<rparr>"

lemma with_list_listed: "listed_by store head tail getPrev st_size (with_list store ext)"
  by (simp add: listed_by_def with_list_def)

section \<open>Properties\<close>

text \<open>The helper lists what the contract holds: on a well-linked non-empty SortedTroves storage in descending order,
  \<open>logActiveAccounts\<close> ends and lists the troves from the lowest ratio upwards, each once, with its
  collateral, debt and ICR; all of them by default, the first \<open>n\<close> when \<open>n\<close> is given.\<close>

theorem logActiveAccounts_lists_contract:
  assumes "list_ok (store (chain w)) k xs" and "xs \<noteq> []"
    and "pf_getPrice ext (chain w) = Inr price"
    and "\<forall>a \<in> set xs. tm_Troves ext (chain w) a = Inr (debt a, coll a)"
    and "\<forall>a \<in> set xs. tm_getCurrentICR ext (chain w) a price = Inr (icr a)"
  shows "logActiveAccounts (with_list store ext) n w =
      (Inr (map (\<lambda>a. (a, coll a, debt a, icr a)) (take (nat (default (int (length xs)) n)) (rev xs))), w) \<and>
    sorted_wrt (\<lambda>a b. k a \<le> k b) (rev xs)"
proof
  show "logActiveAccounts (with_list store ext) n w =
      (Inr (map (\<lambda>a. (a, coll a, debt a, icr a)) (take (nat (default (int (length xs)) n)) (rev xs))), w)"
    using assms by (intro stored.listing_from_tail[OF _ _ with_list_listed]) (auto simp: list_ok_def with_list_def)
  show "sorted_wrt (\<lambda>a b. k a \<le> k b) (rev xs)"
    using assms(1) by (simp add: list_ok_def descending_def sorted_wrt_rev)
qed

theorem logActiveAccounts_lists_contract_witness:
  "logActiveAccounts (with_list (\<lambda>_. demo_list) demo_contracts) None demo_world =
     (Inr [(5, 5, 50, 200000000000000000000), (7, 7, 70, 200000000000000000000)], demo_world)"
  using logActiveAccounts_lists_contract[of "\<lambda>_. demo_list" demo_world demo_ratio "[7, 5]" demo_contracts
      200000000000000000000 "\<lambda>a. int a * 10" int "\<lambda>a. 200000000000000000000" None] demo_list_ok
  by (simp add: demo_contracts_def demo_views_def default_def)

end
