(* ===== verification/Lib_Decimal.thy ===== *)
theory Lib_Decimal
  imports Solidity_Math BN_Converter
begin

text \<open>
  \<open>packages/lib-base/src/Decimal.ts\<close>: the fixed-point class of the SDK that the liquidation bot
  and the SDK's fee and trove calculators compute with.  A \<open>Decimal\<close> wraps one integer, scaled by
  1e18; the constructor throws on a negative one, so every operation returns a result.  ethers'
  \<open>BigNumber\<close> is an unbounded integer.  An argument of type \<open>Decimalish\<close> is a Decimal, a string,
  or a Number, which the code only ever converts with \<open>toString\<close>: a Number is represented by that
  string.  A \<open>Percent\<close> and a \<open>Difference\<close> only format values for the front end and are left out.
\<close>

section \<open>The class\<close>

datatype decimal = Decimal (bigNumber: int)

datatype decimalish = DDecimal decimal | DString string | DNumber string

definition DIGITS :: int where
  "DIGITS = 10 ^ 18"

definition new_Decimal :: "int \<Rightarrow> decimal res" where
  "new_Decimal b =
     (if b < 0 then Inl (Thrown ''negatives not supported by Decimal'') else Inr (Decimal b))"

definition INFINITY :: decimal where
  "INFINITY = Decimal (2 ^ 256 - 1)"

definition dec_ZERO :: decimal where
  "dec_ZERO = Decimal 0"

definition dec_HALF :: decimal where
  "dec_HALF = Decimal (5 * 10 ^ 17)"

definition dec_ONE :: decimal where
  "dec_ONE = Decimal (10 ^ 18)"

section \<open>Reading\<close>

text \<open>The regular expression \<open>^[0-9]*(\.[0-9]*)?(e[-+]?[0-9]+)?$\<close>.\<close>

definition exponent_format :: "string \<Rightarrow> bool" where
  "exponent_format t =
     (let u = (case t of c # v \<Rightarrow> if c = CHR ''-'' \<or> c = CHR ''+'' then v else t | [] \<Rightarrow> [])
      in u \<noteq> [] \<and> list_all is_digit u)"

definition stringRepresentationFormat :: "string \<Rightarrow> bool" where
  "stringRepresentationFormat s =
     (let r = dropWhile is_digit s;
          r' = (case r of c # t \<Rightarrow> if c = CHR ''.'' then dropWhile is_digit t else r | [] \<Rightarrow> [])
      in case r' of [] \<Rightarrow> True | c # t \<Rightarrow> c = CHR ''e'' \<and> exponent_format t)"

lemma js_split_shorter: "c \<in> set s \<Longrightarrow> length (js_split c s ! 0) < length s"
proof (induction s)
  case Nil
  then show ?case by simp
next
  case (Cons x xs)
  show ?case
  proof (cases "x = c")
    case True
    then show ?thesis by simp
  next
    case False
    with Cons obtain p ps where "js_split c xs = p # ps" "length p < length xs"
      by (cases "js_split c xs") auto
    with False show ?thesis by simp
  qed
qed

function fromString :: "string \<Rightarrow> decimal res" where
  "fromString representation =
     (if representation = '''' \<or> \<not> stringRepresentationFormat representation
      then Inl (Thrown (''bad decimal format: \"'' @ representation @ ''\"''))
      else if CHR ''e'' \<in> set representation then
        let coefficient = js_split (CHR ''e'') representation ! 0;
            exponent = js_split (CHR ''e'') representation ! 1
        in if is_prefix ''-'' exponent then
             rbind (fromString coefficient) (\<lambda>d.
               new_Decimal (bigNumber d div 10 ^ read_nat (js_slice_from exponent 1)))
           else
             let exponent = (if is_prefix ''+'' exponent then js_slice_from exponent 1 else exponent)
             in rbind (fromString coefficient) (\<lambda>d.
                  new_Decimal (bigNumber d * 10 ^ read_nat exponent))
      else if CHR ''.'' \<notin> set representation then
        new_Decimal (int (read_nat representation) * DIGITS)
      else
        let characteristic = js_split (CHR ''.'') representation ! 0;
            mantissa = js_split (CHR ''.'') representation ! 1;
            mantissa = (if length mantissa < 18 then mantissa @ js_repeat ''0'' (18 - length mantissa)
                        else take 18 mantissa)
        in new_Decimal (int (read_nat characteristic) * DIGITS + int (read_nat mantissa)))"
  by pat_completeness auto
termination
  by (relation "measure length") (simp_all add: js_split_shorter)

declare fromString.simps [simp del]

fun Decimal_from :: "decimalish \<Rightarrow> decimal res" where
  "Decimal_from (DDecimal d) = Inr d"
| "Decimal_from (DString s) = fromString s"
| "Decimal_from (DNumber s) = fromString s"

section \<open>Printing\<close>

text \<open>The sign that \<open>toString\<close> returns for the infinite value, in UTF-8.\<close>

definition infinity_sign :: string where
  "infinity_sign = [CHR 0xE2, CHR 0x88, CHR 0x9E]"

definition trim_trailing_zeros :: "string \<Rightarrow> string" where
  "trim_trailing_zeros s = rev (dropWhile (\<lambda>c. c = CHR ''0'') (rev s))"

definition toStringWithAutomaticPrecision :: "decimal \<Rightarrow> string" where
  "toStringWithAutomaticPrecision d =
     (let characteristic = bigNumber d div DIGITS; mantissa = bigNumber d mod DIGITS
      in if mantissa = 0 then show_int characteristic
         else show_int characteristic @ ''.'' @
              trim_trailing_zeros (js_padStart (show_int mantissa) 18 (CHR ''0'')))"

definition roundUp :: "decimal \<Rightarrow> nat \<Rightarrow> int" where
  "roundUp d precision = bigNumber d + 10 ^ (17 - precision) * 5"

definition toStringWithPrecision :: "decimal \<Rightarrow> int \<Rightarrow> string res" where
  "toStringWithPrecision d precision =
     (if precision < 0 then Inl (Thrown ''precision must not be negative'')
      else let p = nat precision;
               v = (if p < 18 then roundUp d p else bigNumber d);
               characteristic = v div DIGITS; mantissa = v mod DIGITS
           in if p = 0 then Inr (show_int characteristic)
              else Inr (show_int characteristic @ ''.'' @
                        take p (js_padStart (show_int mantissa) 18 (CHR ''0''))))"

definition dec_infinite :: "decimal \<Rightarrow> bool" where
  "dec_infinite d = (bigNumber d = bigNumber INFINITY)"

definition dec_toString :: "decimal \<Rightarrow> int option \<Rightarrow> string res" where
  "dec_toString d precision =
     (if dec_infinite d then Inr infinity_sign
      else case precision of Some p \<Rightarrow> toStringWithPrecision d p
           | None \<Rightarrow> Inr (toStringWithAutomaticPrecision d))"

section \<open>Arithmetic and comparison\<close>

definition dec_add :: "decimal \<Rightarrow> decimalish \<Rightarrow> decimal res" where
  "dec_add d addend = rbind (Decimal_from addend) (\<lambda>a. new_Decimal (bigNumber d + bigNumber a))"

definition dec_sub :: "decimal \<Rightarrow> decimalish \<Rightarrow> decimal res" where
  "dec_sub d subtrahend = rbind (Decimal_from subtrahend) (\<lambda>a. new_Decimal (bigNumber d - bigNumber a))"

definition dec_mul :: "decimal \<Rightarrow> decimalish \<Rightarrow> decimal res" where
  "dec_mul d multiplier =
     rbind (Decimal_from multiplier) (\<lambda>a. new_Decimal (bigNumber d * bigNumber a div DIGITS))"

definition dec_isZero :: "decimal \<Rightarrow> bool" where
  "dec_isZero d = (bigNumber d = 0)"

definition dec_div :: "decimal \<Rightarrow> decimalish \<Rightarrow> decimal res" where
  "dec_div d divider = rbind (Decimal_from divider) (\<lambda>a.
     if dec_isZero a then Inr INFINITY else new_Decimal (bigNumber d * DIGITS div bigNumber a))"

definition divCeil :: "decimal \<Rightarrow> decimalish \<Rightarrow> decimal res" where
  "divCeil d divider = rbind (Decimal_from divider) (\<lambda>a.
     if dec_isZero a then Inr INFINITY
     else new_Decimal ((bigNumber d * DIGITS + (bigNumber a - 1)) div bigNumber a))"

definition mulDiv :: "decimal \<Rightarrow> decimalish \<Rightarrow> decimalish \<Rightarrow> decimal res" where
  "mulDiv d multiplier divider =
     rbind (Decimal_from multiplier) (\<lambda>a. rbind (Decimal_from divider) (\<lambda>b.
       if dec_isZero b then Inr INFINITY
       else new_Decimal (bigNumber d * bigNumber a div bigNumber b)))"

definition roundedMul :: "int \<Rightarrow> int \<Rightarrow> int" where
  "roundedMul x y = (x * y + bigNumber dec_HALF) div DIGITS"

text \<open>The loop of \<open>pow\<close> with its variables \<open>x\<close>, \<open>y\<close> and \<open>exponent\<close>.\<close>

fun pow_loop :: "int \<Rightarrow> int \<Rightarrow> nat \<Rightarrow> int" where
  "pow_loop x y exponent =
     (if exponent > 1 then
        let y' = (if odd exponent then roundedMul x y else y)
        in pow_loop (roundedMul x x) y' (exponent div 2)
      else roundedMul x y)"

declare pow_loop.simps [simp del]

definition dec_pow :: "decimal \<Rightarrow> nat \<Rightarrow> decimal res" where
  "dec_pow d exponent =
     (if exponent > 0xffffffff
      then Inl (AssertionError ''0 <= exponent && exponent <= 0xffffffff'')
      else if exponent = 0 then Inr dec_ONE
      else if exponent = 1 then Inr d
      else new_Decimal (pow_loop (bigNumber d) DIGITS exponent))"

definition dec_lt :: "decimal \<Rightarrow> decimalish \<Rightarrow> bool res" where
  "dec_lt d that = rbind (Decimal_from that) (\<lambda>a. Inr (bigNumber d < bigNumber a))"

definition dec_eq :: "decimal \<Rightarrow> decimalish \<Rightarrow> bool res" where
  "dec_eq d that = rbind (Decimal_from that) (\<lambda>a. Inr (bigNumber d = bigNumber a))"

definition dec_gt :: "decimal \<Rightarrow> decimalish \<Rightarrow> bool res" where
  "dec_gt d that = rbind (Decimal_from that) (\<lambda>a. Inr (bigNumber d > bigNumber a))"

definition dec_gte :: "decimal \<Rightarrow> decimalish \<Rightarrow> bool res" where
  "dec_gte d that = rbind (Decimal_from that) (\<lambda>a. Inr (bigNumber d \<ge> bigNumber a))"

definition dec_min :: "decimalish \<Rightarrow> decimalish \<Rightarrow> decimal res" where
  "dec_min a b = rbind (Decimal_from a) (\<lambda>a. rbind (Decimal_from b) (\<lambda>b.
     rbind (dec_lt a (DDecimal b)) (\<lambda>l. Inr (if l then a else b))))"

definition dec_max :: "decimalish \<Rightarrow> decimalish \<Rightarrow> decimal res" where
  "dec_max a b = rbind (Decimal_from a) (\<lambda>a. rbind (Decimal_from b) (\<lambda>b.
     rbind (dec_gt a (DDecimal b)) (\<lambda>l. Inr (if l then a else b))))"

section \<open>The invariant of the class\<close>

definition decimal_ok :: "decimal \<Rightarrow> bool" where
  "decimal_ok d \<longleftrightarrow> 0 \<le> bigNumber d"

fun decimalish_ok :: "decimalish \<Rightarrow> bool" where
  "decimalish_ok (DDecimal d) = decimal_ok d"
| "decimalish_ok (DString s) = True"
| "decimalish_ok (DNumber s) = True"

section \<open>Facts on the constructor and the operations\<close>

lemma decimal_ok_Decimal [simp]: "decimal_ok (Decimal b) \<longleftrightarrow> 0 \<le> b"
  by (simp add: decimal_ok_def)

lemma new_Decimal_nonneg [simp]: "0 \<le> b \<Longrightarrow> new_Decimal b = Inr (Decimal b)"
  by (simp add: new_Decimal_def)

lemma new_Decimal_Inr_iff: "new_Decimal b = Inr d \<longleftrightarrow> 0 \<le> b \<and> d = Decimal b"
  by (auto simp: new_Decimal_def)

lemma DIGITS_pos [simp]: "0 < DIGITS" "0 \<le> DIGITS" "DIGITS \<noteq> 0"
  by (simp_all add: DIGITS_def)

lemma decimal_ok_consts [simp]:
  "decimal_ok INFINITY" "decimal_ok dec_ZERO" "decimal_ok dec_HALF" "decimal_ok dec_ONE"
  by (simp_all add: INFINITY_def dec_ZERO_def dec_HALF_def dec_ONE_def)

lemma bigNumber_consts [simp]:
  "bigNumber dec_ZERO = 0" "bigNumber dec_ONE = DIGITS" "bigNumber dec_HALF = 5 * 10 ^ 17"
  by (simp_all add: dec_ZERO_def dec_ONE_def dec_HALF_def DIGITS_def)

text \<open>
  On well-formed Decimal arguments the operations are these integer functions; the proofs about
  the classes built on Decimal rewrite with them.
\<close>

lemma dec_ops [simp]:
  assumes "decimal_ok d" "decimal_ok a"
  shows "dec_add d (DDecimal a) = Inr (Decimal (bigNumber d + bigNumber a))"
    and "dec_mul d (DDecimal a) = Inr (Decimal (bigNumber d * bigNumber a div DIGITS))"
    and "bigNumber a \<le> bigNumber d \<Longrightarrow>
           dec_sub d (DDecimal a) = Inr (Decimal (bigNumber d - bigNumber a))"
    and "dec_lt d (DDecimal a) = Inr (bigNumber d < bigNumber a)"
    and "dec_gt d (DDecimal a) = Inr (bigNumber d > bigNumber a)"
    and "dec_gte d (DDecimal a) = Inr (bigNumber d \<ge> bigNumber a)"
    and "dec_eq d (DDecimal a) = Inr (bigNumber d = bigNumber a)"
  using assms
  by (simp_all add: dec_add_def dec_mul_def dec_sub_def dec_lt_def dec_gt_def dec_gte_def
      dec_eq_def decimal_ok_def pos_imp_zdiv_nonneg_iff)

lemma divCeil_ok:
  assumes "decimal_ok d" "0 < bigNumber a"
  shows "divCeil d (DDecimal a) =
           Inr (Decimal ((bigNumber d * DIGITS + (bigNumber a - 1)) div bigNumber a))"
proof -
  have "0 \<le> bigNumber d * DIGITS" using assms(1) by (simp add: decimal_ok_def)
  then have "0 \<le> (bigNumber d * DIGITS + (bigNumber a - 1)) div bigNumber a"
    using assms(2) by (simp add: pos_imp_zdiv_nonneg_iff)
  then show ?thesis using assms(2) by (simp add: divCeil_def dec_isZero_def)
qed

lemma mulDiv_ok:
  assumes "decimal_ok d" "decimal_ok a" "decimal_ok b"
  shows "mulDiv d (DDecimal a) (DDecimal b) =
           Inr (if bigNumber b = 0 then INFINITY else Decimal (bigNumber d * bigNumber a div bigNumber b))"
  using assms
  by (simp add: mulDiv_def dec_isZero_def decimal_ok_def pos_imp_zdiv_nonneg_iff order.strict_iff_order)

lemma roundedMul_nonneg: "0 \<le> x \<Longrightarrow> 0 \<le> y \<Longrightarrow> 0 \<le> roundedMul x y"
  by (simp add: roundedMul_def pos_imp_zdiv_nonneg_iff)

lemma pow_loop_nonneg: "0 \<le> x \<Longrightarrow> 0 \<le> y \<Longrightarrow> 0 \<le> pow_loop x y n"
proof (induction x y n rule: pow_loop.induct)
  case (1 x y n)
  then show ?case
    by (subst pow_loop.simps) (simp add: roundedMul_nonneg Let_def)
qed

section \<open>Facts on reading and printing\<close>

lemma is_digit_e [simp]: "\<not> is_digit (CHR ''e'')"
  by (simp add: is_digit_def)

lemma fromString_ok: "fromString s = Inr d \<Longrightarrow> decimal_ok d"
  by (subst (asm) fromString.simps)
    (auto simp: Let_def rbind_Inr_iff new_Decimal_Inr_iff split: if_splits)

text \<open>The only error of the parser.\<close>

definition bad_format :: "js_error \<Rightarrow> bool" where
  "bad_format e \<longleftrightarrow> (\<exists>t. e = Thrown (''bad decimal format: \"'' @ t @ ''\"''))"

lemma fromString_error: "fromString s = Inl e \<Longrightarrow> bad_format e"
proof (induction s rule: fromString.induct)
  case (1 s)
  have coeff: "bad_format e"
    if "rbind (fromString (js_split (CHR ''e'') s ! 0)) (\<lambda>d. new_Decimal (f (bigNumber d))) = Inl e"
      and "\<And>b. 0 \<le> b \<Longrightarrow> 0 \<le> f b"
      and "fromString (js_split (CHR ''e'') s ! 0) = Inl e \<Longrightarrow> bad_format e" for f
  proof (cases "fromString (js_split (CHR ''e'') s ! 0)")
    case (Inl e')
    then show ?thesis using that(1,3) by simp
  next
    case (Inr x)
    then have "0 \<le> f (bigNumber x)" using that(2) fromString_ok decimal_ok_def by blast
    with that(1) Inr show ?thesis by simp
  qed
  show ?case
  proof (cases "s = '''' \<or> \<not> stringRepresentationFormat s")
    case True
    with "1.prems" show ?thesis by (subst (asm) fromString.simps) (auto simp: bad_format_def)
  next
    case ok: False
    show ?thesis
    proof (cases "CHR ''e'' \<in> set s")
      case True
      show ?thesis
      proof (cases "is_prefix ''-'' (js_split (CHR ''e'') s ! 1)")
        case neg: True
        then have "fromString s = rbind (fromString (js_split (CHR ''e'') s ! 0)) (\<lambda>d.
            new_Decimal (bigNumber d div 10 ^ read_nat (js_slice_from (js_split (CHR ''e'') s ! 1) 1)))"
          using ok True by (subst fromString.simps) (simp add: Let_def)
        from coeff[OF trans[OF this[symmetric] "1.prems"] _ "1.IH"(1)[OF ok True refl refl neg]]
        show ?thesis by (simp add: pos_imp_zdiv_nonneg_iff)
      next
        case pos: False
        let ?x = "js_split (CHR ''e'') s ! 1"
        have "fromString s = rbind (fromString (js_split (CHR ''e'') s ! 0)) (\<lambda>d.
            new_Decimal (bigNumber d * 10 ^ read_nat (if is_prefix ''+'' ?x then js_slice_from ?x 1 else ?x)))"
          using ok True pos by (subst fromString.simps) (simp add: Let_def)
        from coeff[OF trans[OF this[symmetric] "1.prems"] _ "1.IH"(2)[OF ok True refl refl pos refl]]
        show ?thesis by simp
      qed
    next
      case False
      with "1.prems" ok show ?thesis
        by (subst (asm) fromString.simps) (auto simp: Let_def split: if_splits)
    qed
  qed
qed

lemma Decimal_from_ok: "decimalish_ok a \<Longrightarrow> Decimal_from a = Inr d \<Longrightarrow> decimal_ok d"
  by (cases a) (auto dest: fromString_ok)

lemma digits_no_char:
  assumes "list_all is_digit s"
  shows "CHR ''e'' \<notin> set s" "CHR ''.'' \<notin> set s"
  using assms by (auto simp: list_all_iff)

lemma dropWhile_digits:
  assumes "list_all is_digit s"
  shows "dropWhile is_digit s = []" "\<not> is_digit c \<Longrightarrow> dropWhile is_digit (s @ c # t) = c # t"
  using assms by (induction s) auto

text \<open>A plain numeral is read exactly.\<close>

lemma fromString_integer:
  assumes "digits_only c"
  shows "fromString c = Inr (Decimal (int (read_nat c) * DIGITS))"
proof -
  have d: "list_all is_digit c" "c \<noteq> []" using assms by (simp_all add: digits_only_def)
  have "stringRepresentationFormat c"
    by (simp only: stringRepresentationFormat_def dropWhile_digits(1)[OF d(1)] Let_def list.case)
  with d digits_no_char[OF d(1)] show ?thesis
    by (simp add: fromString.simps[of c] DIGITS_def)
qed

lemma fromString_numeral:
  assumes "digits_only c" and "list_all is_digit m" and "length m \<le> 18"
  shows "fromString (c @ ''.'' @ m) =
           Inr (Decimal (int (read_nat c) * DIGITS + int (read_nat m) * 10 ^ (18 - length m)))"
proof -
  have d: "list_all is_digit c" using assms by (simp add: digits_only_def)
  have f: "stringRepresentationFormat (c @ ''.'' @ m)"
    by (simp only: stringRepresentationFormat_def append.simps not_digit_sign not_False_eq_True
        dropWhile_digits(2)[OF d] dropWhile_digits(1)[OF assms(2)] Let_def list.case simp_thms if_True)
  have e: "CHR ''e'' \<notin> set (c @ ''.'' @ m)"
    using digits_no_char[OF d] digits_no_char[OF assms(2)] by simp
  have sp: "js_split (CHR ''.'') (c @ ''.'' @ m) = [c, m]"
    using js_split_one[of "CHR ''.''" c m] digits_no_char[OF d] digits_no_char[OF assms(2)] by simp
  let ?p = "if length m < 18 then m @ js_repeat ''0'' (18 - length m) else take 18 m"
  have "read_nat ?p = read_nat m * 10 ^ (18 - length m)"
    using assms(3) by (simp add: read_nat_append)
  with f e sp show ?thesis
    by (subst fromString.simps) (simp add: Let_def del: js_repeat_single)
qed

lemma read_nat_trim:
  "\<exists>k. s = trim_trailing_zeros s @ replicate k (CHR ''0'')"
proof -
  let ?Z = "\<lambda>c. c = CHR ''0''"
  have "\<forall>c \<in> set (takeWhile ?Z (rev s)). c = CHR ''0''" by (auto dest: set_takeWhileD)
  then have "takeWhile ?Z (rev s) = replicate (length (takeWhile ?Z (rev s))) (CHR ''0'')"
    by (metis replicate_length_same)
  then have "rev s = replicate (length (takeWhile ?Z (rev s))) (CHR ''0'') @ dropWhile ?Z (rev s)"
    by (metis takeWhile_dropWhile_id)
  then have "rev (rev s) = rev (dropWhile ?Z (rev s)) @ rev (replicate (length (takeWhile ?Z (rev s))) (CHR ''0''))"
    by (metis rev_append)
  then show ?thesis unfolding trim_trailing_zeros_def by (metis rev_replicate rev_rev_ident)
qed

lemma show_nat_length: "0 < k \<Longrightarrow> n < 10 ^ k \<Longrightarrow> length (show_nat n) \<le> k"
proof (induction n arbitrary: k rule: show_nat.induct)
  case (1 n)
  show ?case
  proof (cases "n < 10")
    case True
    then show ?thesis using 1 by (simp add: show_nat.simps[of n])
  next
    case False
    with "1.prems" obtain j where k: "k = Suc j" "0 < j"
      by (cases k; cases "k - 1") auto
    with "1.prems" have "n div 10 < 10 ^ j" by (simp add: less_mult_imp_div_less mult.commute)
    from "1.IH"[OF False k(2) this] False k show ?thesis by (simp add: show_nat.simps[of n])
  qed
qed

lemma padded_mantissa:
  assumes "m < 10 ^ 18"
  defines "s \<equiv> js_padStart (show_nat m) 18 (CHR ''0'')"
  shows "list_all is_digit s" "length s = 18" "read_nat s = m"
  using assms show_nat_length[of 18 m] show_nat_digits_only[of m] zeros_digits
  by (simp_all add: js_padStart_def digits_only_def read_nat_append)

lemma read_nat_take:
  assumes "list_all is_digit s" and "length s = 18" and "p \<le> 18"
  shows "read_nat (take p s) = read_nat s div 10 ^ (18 - p)"
proof -
  have "read_nat s = read_nat (take p s) * 10 ^ (18 - p) + read_nat (drop p s)"
    using read_nat_append[of "take p s" "drop p s"] assms by simp
  moreover have "read_nat (drop p s) < 10 ^ (18 - p)"
    using read_nat_bound[of "drop p s"] assms by (auto simp: list_all_iff dest: in_set_dropD)
  ultimately show ?thesis by simp
qed

text \<open>Reading a printed numeral of \<open>p\<close> fraction digits gives the value cut to those digits.\<close>

lemma fromString_printed:
  assumes "0 < p" "p \<le> 18"
  shows "fromString (show_nat (w div 10 ^ 18) @ ''.'' @
           take p (js_padStart (show_nat (w mod 10 ^ 18)) 18 (CHR ''0''))) =
         Inr (Decimal (int (w - w mod 10 ^ (18 - p))))"
proof -
  let ?s = "js_padStart (show_nat (w mod 10 ^ 18)) 18 (CHR ''0'')"
  let ?K = "10 ^ (18 - p) :: nat"
  have s: "list_all is_digit ?s" "length ?s = 18" "read_nat ?s = w mod 10 ^ 18"
    using padded_mantissa[of "w mod 10 ^ 18"] by simp_all
  have t: "list_all is_digit (take p ?s)" "length (take p ?s) = p"
    using s assms by (auto simp: list_all_iff dest: in_set_takeD)
  have split: "(10::nat) ^ 18 = 10 ^ p * ?K" using assms by (simp add: power_add[symmetric])
  have cut: "(w mod 10 ^ 18) div ?K * ?K = w mod 10 ^ 18 - w mod ?K"
    unfolding split minus_mod_eq_div_mult[symmetric] by (subst mod_mod_cancel) (rule dvd_triv_right, rule refl)
  have "w mod ?K \<le> w mod 10 ^ 18"
    using mod_less_eq_dividend[of "w mod 10 ^ 18" ?K] unfolding split by (subst (asm) mod_mod_cancel) (rule dvd_triv_right)
  with cut have "w div 10 ^ 18 * 10 ^ 18 + (w mod 10 ^ 18) div ?K * ?K = w - w mod ?K"
    using div_mult_mod_eq[of w "10 ^ 18"] by linarith
  from arg_cong[OF this, of int]
  have eq: "int (w div 10 ^ 18) * DIGITS + int ((w mod 10 ^ 18) div ?K) * 10 ^ (18 - p) = int (w - w mod ?K)"
    unfolding DIGITS_def of_nat_add of_nat_mult of_nat_power of_nat_numeral .
  have "fromString (show_nat (w div 10 ^ 18) @ ''.'' @ take p ?s) =
      Inr (Decimal (int (w div 10 ^ 18) * DIGITS + int ((w mod 10 ^ 18) div ?K) * 10 ^ (18 - p)))"
    using fromString_numeral[OF show_nat_digits_only t(1)] read_nat_take[OF s(1,2) assms(2)] s(3) t(2) assms
    by simp
  then show ?thesis unfolding eq .
qed

lemma show_int_int [simp]: "show_int (int n) = show_nat n"
  by (simp add: show_int_def)

lemma dec_nat_cases:
  assumes "decimal_ok d"
  obtains n where "d = Decimal (int n)"
  using assms by (cases d) (auto elim: nonneg_int_cases)

lemma automatic_precision_reads_exactly:
  "fromString (toStringWithAutomaticPrecision (Decimal (int n))) = Inr (Decimal (int n))"
proof -
  let ?c = "n div 10 ^ 18" and ?m = "n mod 10 ^ 18"
  have eq: "int ?c * DIGITS + int ?m = int n"
    using arg_cong[OF div_mult_mod_eq[of n "10 ^ 18"], of int]
    unfolding DIGITS_def of_nat_add of_nat_mult of_nat_power of_nat_numeral .
  have c: "int n div DIGITS = int ?c" "int n mod DIGITS = int ?m"
    by (simp_all add: DIGITS_def zdiv_int zmod_int)
  show ?thesis
  proof (cases "?m = 0")
    case True
    then have "toStringWithAutomaticPrecision (Decimal (int n)) = show_nat ?c"
      by (simp add: toStringWithAutomaticPrecision_def c Let_def show_int_def del: of_nat_mod of_nat_div)
    with fromString_integer[OF show_nat_digits_only, of ?c] eq True show ?thesis by simp
  next
    case False
    let ?s = "js_padStart (show_nat ?m) 18 (CHR ''0'')"
    obtain k where k: "?s = trim_trailing_zeros ?s @ replicate k (CHR ''0'')"
      using read_nat_trim by blast
    let ?t = "trim_trailing_zeros ?s"
    have s: "list_all is_digit ?s" "length ?s = 18" "read_nat ?s = ?m"
      using padded_mantissa[of ?m] by simp_all
    have t: "list_all is_digit ?t" "length ?t = 18 - k" "k \<le> 18"
      using arg_cong[OF k, of "list_all is_digit"] arg_cong[OF k, of length] s(1,2) by simp_all
    have "?m = read_nat ?t * 10 ^ k"
      using arg_cong[OF k, of read_nat] s(3) by (simp add: read_nat_append)
    from arg_cong[OF this, of int] have m: "int (read_nat ?t) * 10 ^ (18 - length ?t) = int ?m"
      unfolding of_nat_mult of_nat_power of_nat_numeral using t by simp
    have "toStringWithAutomaticPrecision (Decimal (int n)) = show_nat ?c @ ''.'' @ ?t"
      using False
      by (simp add: toStringWithAutomaticPrecision_def c Let_def show_int_def del: of_nat_mod of_nat_div)
    with fromString_numeral[OF show_nat_digits_only t(1), of ?c] t(2) m eq show ?thesis by simp
  qed
qed

text \<open>What \<open>toString(p)\<close> prints, read again: the value rounded half up at the last digit.\<close>

lemma fixed_precision_reads:
  fixes n :: nat
  assumes "p \<le> 18"
  defines "w \<equiv> (if p < 18 then n + 10 ^ (17 - p) * 5 else n)"
  shows "rbind (toStringWithPrecision (Decimal (int n)) (int p)) fromString =
           Inr (Decimal (int (w - w mod 10 ^ (18 - p))))"
proof -
  have v: "(if p < 18 then roundUp (Decimal (int n)) p else int n) = int w"
    by (simp add: w_def roundUp_def)
  have c: "int w div DIGITS = int (w div 10 ^ 18)" "int w mod DIGITS = int (w mod 10 ^ 18)"
    by (simp_all add: DIGITS_def zdiv_int zmod_int)
  have run: "toStringWithPrecision (Decimal (int n)) (int p) =
      (if p = 0 then Inr (show_int (int w div DIGITS))
       else Inr (show_int (int w div DIGITS) @ ''.'' @
              take p (js_padStart (show_int (int w mod DIGITS)) 18 (CHR ''0''))))"
    unfolding toStringWithPrecision_def Let_def nat_int decimal.sel v by simp
  show ?thesis
  proof (cases "p = 0")
    case True
    have "w - w mod 10 ^ 18 = w div 10 ^ 18 * 10 ^ 18" by (simp add: minus_mod_eq_div_mult)
    then have "int (w - w mod 10 ^ 18) = int (w div 10 ^ 18) * DIGITS"
      unfolding DIGITS_def by (metis of_nat_mult of_nat_numeral of_nat_power)
    moreover have "toStringWithPrecision (Decimal (int n)) (int p) = Inr (show_nat (w div 10 ^ 18))"
      using True unfolding run c by (simp del: of_nat_div)
    ultimately show ?thesis
      using fromString_integer[OF show_nat_digits_only, of "w div 10 ^ 18"] True by simp
  next
    case False
    then have "toStringWithPrecision (Decimal (int n)) (int p) =
        Inr (show_nat (w div 10 ^ 18) @ ''.'' @ take p (js_padStart (show_nat (w mod 10 ^ 18)) 18 (CHR ''0'')))"
      unfolding run c by (simp del: of_nat_div of_nat_mod)
    then show ?thesis using fromString_printed[of p w] False assms(1) by simp
  qed
qed

lemma half_up_error:
  fixes n :: nat
  assumes "p \<le> 18"
  defines "w \<equiv> (if p < 18 then n + 10 ^ (17 - p) * 5 else n)" and "K \<equiv> 10 ^ (18 - p)"
  shows "2 * \<bar>int (w - w mod K) - int n\<bar> \<le> int K"
proof (cases "p < 18")
  case True
  then have "18 - p = Suc (17 - p)" by simp
  then have "K = 10 * 10 ^ (17 - p)" unfolding K_def by simp
  with True have w: "2 * w = 2 * n + K" by (simp add: w_def)
  have "w mod K < K" "w mod K \<le> w" unfolding K_def by simp_all
  then have "int (w - w mod K) = int w - int (w mod K)" "int (w mod K) < int K" "0 \<le> int (w mod K)"
    by linarith+
  moreover have "2 * int w = 2 * int n + int K" using w by linarith
  ultimately show ?thesis unfolding abs_if by (simp del: of_nat_mod)
next
  case False
  with assms show ?thesis by simp
qed

section \<open>Properties\<close>

text \<open>
  C27. \<open>Decimal.from(d.toString())\<close> gives back every finite Decimal exactly.
\<close>

theorem decimal_toString_from_roundtrip:
  assumes "decimal_ok d" and "\<not> dec_infinite d"
  shows "rbind (dec_toString d None) fromString = Inr d"
  using assms automatic_precision_reads_exactly
  by (auto simp: dec_toString_def elim!: dec_nat_cases)

theorem decimal_toString_from_roundtrip_witness:
  "rbind (dec_toString (Decimal 1050000000000000000) None) fromString = Inr (Decimal 1050000000000000000)"
  using decimal_toString_from_roundtrip[of "Decimal 1050000000000000000"]
  by (simp add: dec_infinite_def INFINITY_def)

text \<open>
  \<open>toString(p)\<close> of a finite Decimal prints at most 18 digits of the value rounded half up:
  the printed numeral is a multiple of \<open>10^-p\<close> and differs from the value by at most half of that.
\<close>

theorem decimal_toString_precision_error:
  assumes "decimal_ok d" and "\<not> dec_infinite d" and "p \<le> 18"
  shows "\<exists>r. rbind (dec_toString d (Some (int p))) fromString = Inr r \<and>
           10 ^ (18 - p) dvd bigNumber r \<and> 2 * \<bar>bigNumber r - bigNumber d\<bar> \<le> 10 ^ (18 - p)"
proof -
  obtain n where d: "d = Decimal (int n)" using dec_nat_cases[OF assms(1)] .
  let ?w = "if p < 18 then n + 10 ^ (17 - p) * 5 else n"
  let ?r = "?w - ?w mod 10 ^ (18 - p)"
  have "(10 ^ (18 - p) :: nat) dvd ?r" by (rule dvd_minus_mod)
  then have "int (10 ^ (18 - p)) dvd int ?r" by (simp only: int_dvd_int_iff)
  moreover have "rbind (dec_toString d (Some (int p))) fromString = Inr (Decimal (int ?r))"
    using fixed_precision_reads[OF assms(3), of n] assms(2) d by (simp add: dec_toString_def)
  moreover have "2 * \<bar>int ?r - int n\<bar> \<le> int (10 ^ (18 - p))"
    by (rule half_up_error[OF assms(3)])
  ultimately show ?thesis using d by auto
qed

theorem decimal_toString_precision_error_witness:
  "\<exists>r. rbind (dec_toString (Decimal 2005000000000000000) (Some (int 2))) fromString = Inr r \<and>
     2 * \<bar>bigNumber r - 2005000000000000000\<bar> \<le> 10 ^ 16"
  using decimal_toString_precision_error[of "Decimal 2005000000000000000" 2]
  by (auto simp: dec_infinite_def INFINITY_def)

end
