(* ===== verification/Decimal_Rounding.thy ===== *)
theory Decimal_Rounding
  imports Complex_Main Lib_Decimal
begin

text \<open>
  The arithmetic of the SDK's \<open>Decimal\<close> (\<open>Lib_Decimal\<close>) against the rationals that its values stand for: which
  operations are exact, which way the others round and by how much.
\<close>

section \<open>Values and rounding\<close>

text \<open>The rational that a Decimal stands for, the value of its last digit, and a result that is a Decimal with a property of its value.\<close>

definition dec_value :: "decimal \<Rightarrow> rat" where
  "dec_value d = of_int (bigNumber d) / of_int DIGITS"

definition last_place :: rat where
  "last_place = 1 / of_int DIGITS"

definition yields :: "decimal res \<Rightarrow> (rat \<Rightarrow> bool) \<Rightarrow> bool" where
  "yields r Q \<longleftrightarrow> (case r of Inl _ \<Rightarrow> False | Inr d \<Rightarrow> decimal_ok d \<and> Q (dec_value d))"

lemma yields_Inr [simp]: "yields (Inr d) Q \<longleftrightarrow> decimal_ok d \<and> Q (dec_value d)"
  by (simp add: yields_def)

lemma dec_value_Decimal: "dec_value (Decimal m) = of_int m / of_int DIGITS"
  by (simp add: dec_value_def)

lemma quotient_bounds:
  fixes m k :: int
  assumes "0 < k"
  shows "of_int (m div k) \<le> (of_int m / of_int k :: rat)" and "(of_int m / of_int k :: rat) < of_int (m div k) + 1"
proof -
  have "\<lfloor>of_int m / of_int k :: rat\<rfloor> = m div k" by (rule floor_divide_of_int_eq)
  then show "of_int (m div k) \<le> (of_int m / of_int k :: rat)" "(of_int m / of_int k :: rat) < of_int (m div k) + 1"
    using floor_correct[of "of_int m / of_int k :: rat"] by simp_all
qed

text \<open>A quotient rounded down, and one rounded up by adding the divisor less one, as multiples of the last place.\<close>

lemma rounded_down:
  fixes m k :: int
  assumes "0 < k" and "x * of_int DIGITS = of_int m / of_int k"
  shows "dec_value (Decimal (m div k)) \<le> x" and "x < dec_value (Decimal (m div k)) + last_place"
proof -
  have "of_int (m div k) \<le> x * of_int DIGITS" "x * of_int DIGITS < of_int (m div k) + 1"
    using quotient_bounds[OF assms(1), of m] assms(2) by simp_all
  then show "dec_value (Decimal (m div k)) \<le> x" "x < dec_value (Decimal (m div k)) + last_place"
    by (simp_all add: dec_value_Decimal last_place_def pos_divide_le_eq add_divide_distrib[symmetric] pos_less_divide_eq)
qed

lemma rounded_up:
  fixes m k :: int
  assumes "0 < k" and "x * of_int DIGITS = of_int m / of_int k"
  shows "x \<le> dec_value (Decimal ((m + (k - 1)) div k))" and "dec_value (Decimal ((m + (k - 1)) div k)) < x + last_place"
proof -
  let ?q = "(m + (k - 1)) div k"
  have "?q * k \<le> m + (k - 1)" "m + (k - 1) < ?q * k + k"
    using div_mult_mod_eq[of "m + (k - 1)" k] pos_mod_bound[OF assms(1), of "m + (k - 1)"] pos_mod_sign[OF assms(1), of "m + (k - 1)"] by linarith+
  then have "m \<le> ?q * k" "?q * k < m + k" by linarith+
  then have "(of_int m :: rat) \<le> of_int (?q * k)" "(of_int (?q * k) :: rat) < of_int (m + k)" by (simp_all only: of_int_le_iff of_int_less_iff)
  then have "of_int m / of_int k \<le> (of_int ?q :: rat)" "(of_int ?q :: rat) < (of_int m + of_int k) / of_int k"
    using assms(1) by (simp_all add: pos_divide_le_eq pos_less_divide_eq)
  then have "of_int m / of_int k \<le> (of_int ?q :: rat)" "(of_int ?q :: rat) < of_int m / of_int k + 1"
    using assms(1) by (simp_all add: add_divide_distrib)
  then have "x * of_int DIGITS \<le> of_int ?q" "of_int ?q < x * of_int DIGITS + 1" using assms(2) by simp_all
  then have "x * of_int DIGITS \<le> of_int ?q" "of_int ?q < (x + last_place) * of_int DIGITS" by (simp_all add: last_place_def distrib_right)
  then show "x \<le> dec_value (Decimal ?q)" "dec_value (Decimal ?q) < x + last_place"
    by (simp_all add: dec_value_Decimal pos_le_divide_eq pos_divide_less_eq)
qed

text \<open>A rounded product is half a last place off at most, and errors of the factors add up when both are at most one.\<close>

definition near :: "int \<Rightarrow> rat \<Rightarrow> nat \<Rightarrow> bool" where
  "near x X k \<longleftrightarrow> 0 \<le> x \<and> x \<le> DIGITS \<and> 0 \<le> X \<and> X \<le> 1 \<and> 2 * \<bar>of_int x - X * of_int DIGITS\<bar> \<le> of_nat k"

lemma roundedMul_error: "2 * \<bar>of_int (roundedMul x y) - (of_int x * of_int y / of_int DIGITS :: rat)\<bar> \<le> 1"
proof -
  let ?h = "5 * 10 ^ 17 :: int"
  have "of_int (x * y + ?h) / of_int DIGITS = (of_int x * of_int y / of_int DIGITS + 1 / 2 :: rat)"
    by (simp add: add_divide_distrib DIGITS_def)
  then have "- 1 \<le> 2 * (of_int (roundedMul x y) - (of_int x * of_int y / of_int DIGITS :: rat))"
    "2 * (of_int (roundedMul x y) - (of_int x * of_int y / of_int DIGITS :: rat)) \<le> 1"
    using quotient_bounds[of DIGITS "x * y + ?h"] by (simp_all add: roundedMul_def)
  then show ?thesis by (auto simp: abs_if)
qed

lemma roundedMul_le: "0 \<le> x \<Longrightarrow> x \<le> DIGITS \<Longrightarrow> 0 \<le> y \<Longrightarrow> y \<le> DIGITS \<Longrightarrow> 0 \<le> roundedMul x y \<and> roundedMul x y \<le> DIGITS"
proof -
  assume a: "0 \<le> x" "x \<le> DIGITS" "0 \<le> y" "y \<le> DIGITS"
  then have "x * y \<le> DIGITS * DIGITS" by (intro mult_mono) simp_all
  then have "(x * y + 5 * 10 ^ 17) div DIGITS \<le> (DIGITS * DIGITS + 5 * 10 ^ 17) div DIGITS" by (intro zdiv_mono1) simp_all
  also have "\<dots> = DIGITS" by (simp add: DIGITS_def)
  finally show ?thesis using a roundedMul_nonneg by (simp add: roundedMul_def)
qed

lemma near_mul:
  assumes "near x X a" and "near y Y b"
  shows "near (roundedMul x y) (X * Y) (a + b + 1)"
proof -
  let ?D = "of_int DIGITS :: rat"
  have D: "0 < ?D" by simp
  have x: "0 \<le> x" "x \<le> DIGITS" "0 \<le> X" "X \<le> 1" "2 * \<bar>of_int x - X * ?D\<bar> \<le> of_nat a"
    and y: "0 \<le> y" "y \<le> DIGITS" "0 \<le> Y" "Y \<le> 1" "2 * \<bar>of_int y - Y * ?D\<bar> \<le> of_nat b"
    using assms by (simp_all add: near_def)
  have "of_int x * of_int y / ?D - X * Y * ?D = (of_int x - X * ?D) * (of_int y / ?D) + X * (of_int y - Y * ?D)"
    by (simp add: field_simps)
  also have "2 * \<bar>\<dots>\<bar> \<le> 2 * \<bar>of_int x - X * ?D\<bar> * 1 + 1 * (2 * \<bar>of_int y - Y * ?D\<bar>)"
  proof -
    have "\<bar>(of_int x - X * ?D) * (of_int y / ?D) + X * (of_int y - Y * ?D)\<bar>
        \<le> \<bar>of_int x - X * ?D\<bar> * \<bar>of_int y / ?D\<bar> + \<bar>X\<bar> * \<bar>of_int y - Y * ?D\<bar>"
      by (metis abs_mult abs_triangle_ineq)
    moreover have "\<bar>of_int x - X * ?D\<bar> * \<bar>of_int y / ?D\<bar> \<le> \<bar>of_int x - X * ?D\<bar> * 1"
      by (rule mult_left_mono) (use y in simp_all)
    moreover have "\<bar>X\<bar> * \<bar>of_int y - Y * ?D\<bar> \<le> 1 * \<bar>of_int y - Y * ?D\<bar>"
      by (rule mult_right_mono) (use x in simp_all)
    ultimately show ?thesis by linarith
  qed
  finally have "2 * \<bar>of_int x * of_int y / ?D - X * Y * ?D\<bar> \<le> of_nat a + of_nat b" using x(5) y(5) by linarith
  with roundedMul_error[of x y] abs_triangle_ineq[of "of_int (roundedMul x y) - of_int x * of_int y / ?D" "of_int x * of_int y / ?D - X * Y * ?D"]
  have "2 * \<bar>of_int (roundedMul x y) - X * Y * ?D\<bar> \<le> of_nat a + of_nat b + 1" by simp
  with x y roundedMul_le[of x y] show ?thesis by (simp add: near_def mult_le_one)
qed

lemma near_pow:
  "near x X a \<Longrightarrow> near y Y b \<Longrightarrow> 0 < e \<Longrightarrow> near (pow_loop x y e) (Y * X ^ e) (b + e * (a + 1))"
proof (induction x y e arbitrary: X Y a b rule: pow_loop.induct)
  case (1 x y e)
  show ?case
  proof (cases "e > 1")
    case False
    with 1 have "e = 1" by simp
    with near_mul[OF 1(2,3)] show ?thesis by (subst pow_loop.simps) (simp add: mult.commute add.commute)
  next
    case True
    let ?y = "if odd e then roundedMul x y else y" and ?Y = "if odd e then X * Y else Y" and ?b = "if odd e then a + b + 1 else b"
    have y: "near ?y ?Y ?b" using near_mul[OF 1(2,3)] 1(3) by simp
    have "near (pow_loop (roundedMul x x) ?y (e div 2)) (?Y * (X * X) ^ (e div 2)) (?b + e div 2 * ((a + a + 1) + 1))"
      by (rule "1.IH"[OF True refl near_mul[OF 1(2,2)] y]) (use True in simp)
    moreover have "?Y * (X * X) ^ (e div 2) = Y * X ^ e"
    proof -
      have "(X * X) ^ (e div 2) = X ^ (2 * (e div 2))" by (simp add: power_mult power2_eq_square)
      then show ?thesis by (cases "odd e") (auto elim!: oddE evenE)
    qed
    moreover have "?b + e div 2 * ((a + a + 1) + 1) = b + e * (a + 1)" by (cases "odd e") (auto elim!: oddE evenE simp: algebra_simps)
    ultimately show ?thesis using True by (subst pow_loop.simps) (simp add: Let_def)
  qed
qed

lemma dec_pow_error:
  assumes "decimal_ok d" and "n \<le> 0xffffffff"
  shows "yields (dec_pow d n) (\<lambda>v. dec_value d \<le> 1 \<longrightarrow> \<bar>v - dec_value d ^ n\<bar> \<le> of_nat n * last_place / 2)"
proof -
  let ?X = "dec_value d" and ?p = "pow_loop (bigNumber d) DIGITS n"
  have ok: "0 \<le> ?p" using assms(1) by (intro pow_loop_nonneg) (simp_all add: decimal_ok_def)
  have "\<bar>dec_value (Decimal ?p) - ?X ^ n\<bar> \<le> of_nat n * last_place / 2" if "?X \<le> 1" "0 < n"
  proof -
    have "near (bigNumber d) ?X 0" "near DIGITS 1 0"
      using that(1) assms(1) by (simp_all add: near_def dec_value_def decimal_ok_def pos_divide_le_eq)
    from near_pow[OF this that(2)] have "2 * \<bar>of_int ?p - ?X ^ n * of_int DIGITS\<bar> \<le> of_nat n" by (simp add: near_def)
    moreover have "of_int ?p - ?X ^ n * of_int DIGITS = (dec_value (Decimal ?p) - ?X ^ n) * of_int DIGITS"
      by (simp add: dec_value_Decimal left_diff_distrib)
    ultimately show ?thesis by (simp add: abs_mult last_place_def pos_le_divide_eq mult.commute)
  qed
  with assms ok show ?thesis by (auto simp: dec_pow_def dec_value_def last_place_def)
qed

section \<open>The operations\<close>

text \<open>
  C26. The class computes with the rationals that its values stand for.  \<open>add\<close> is exact;
  \<open>sub\<close> is exact and throws precisely on a negative difference; \<open>mul\<close>, \<open>div\<close> and \<open>mulDiv\<close> round the exact result down and
  \<open>_divCeil\<close> rounds it up, each by less than one unit of the last place; a division by zero gives the infinite value.
  The square-and-multiply loop of \<open>pow\<close> with its rounded products is at most \<open>n\<close> halves of the last place away from the
  exact power of a base of at most one.  Every result is a non-negative Decimal, and reading a string gives one or throws.
\<close>

theorem decimal_operations_round_correctly:
  assumes "decimal_ok d" and "decimal_ok a" and "decimal_ok b" and "n \<le> 0xffffffff"
    and "x = dec_value d" and "y = dec_value a" and "z = dec_value b"
  shows "(case fromString s of Inl e \<Rightarrow> bad_format e | Inr r \<Rightarrow> decimal_ok r) \<and>
    yields (dec_add d (DDecimal a)) (\<lambda>v. v = x + y) \<and>
    (if y \<le> x then yields (dec_sub d (DDecimal a)) (\<lambda>v. v = x - y)
     else dec_sub d (DDecimal a) = Inl (Thrown ''negatives not supported by Decimal'')) \<and>
    yields (dec_mul d (DDecimal a)) (\<lambda>v. v \<le> x * y \<and> x * y < v + last_place) \<and>
    (if y = 0 then dec_div d (DDecimal a) = Inr INFINITY \<and> divCeil d (DDecimal a) = Inr INFINITY
     else yields (dec_div d (DDecimal a)) (\<lambda>v. v \<le> x / y \<and> x / y < v + last_place) \<and>
       yields (divCeil d (DDecimal a)) (\<lambda>v. x / y \<le> v \<and> v < x / y + last_place)) \<and>
    (if z = 0 then mulDiv d (DDecimal a) (DDecimal b) = Inr INFINITY
     else yields (mulDiv d (DDecimal a) (DDecimal b)) (\<lambda>v. v \<le> x * y / z \<and> x * y / z < v + last_place)) \<and>
    yields (dec_pow d n) (\<lambda>v. x \<le> 1 \<longrightarrow> \<bar>v - x ^ n\<bar> \<le> of_nat n * last_place / 2)"
proof (intro conjI)
  have nn: "0 \<le> bigNumber d" "0 \<le> bigNumber a" "0 \<le> bigNumber b" using assms by (simp_all add: decimal_ok_def)
  note v = assms(5-7)
  have zero: "y = 0 \<longleftrightarrow> bigNumber a = 0" "z = 0 \<longleftrightarrow> bigNumber b = 0" by (simp_all add: v dec_value_def)
  show "case fromString s of Inl e \<Rightarrow> bad_format e | Inr r \<Rightarrow> decimal_ok r"
    by (cases "fromString s") (auto dest: fromString_ok fromString_error)
  show "yields (dec_add d (DDecimal a)) (\<lambda>v. v = x + y)"
    using assms(1,2) nn by (simp add: v dec_value_def add_divide_distrib)
  show "if y \<le> x then yields (dec_sub d (DDecimal a)) (\<lambda>v. v = x - y)
      else dec_sub d (DDecimal a) = Inl (Thrown ''negatives not supported by Decimal'')"
    using DIGITS_pos(1) by (auto simp: v dec_value_def divide_le_cancel diff_divide_distrib dec_sub_def new_Decimal_def simp del: DIGITS_pos)
  have "x * y * of_int DIGITS = of_int (bigNumber d * bigNumber a) / of_int DIGITS" by (simp add: v dec_value_def)
  from rounded_down[OF _ this] show "yields (dec_mul d (DDecimal a)) (\<lambda>v. v \<le> x * y \<and> x * y < v + last_place)"
    using assms(1,2) nn by (simp add: pos_imp_zdiv_nonneg_iff)
  show "if y = 0 then dec_div d (DDecimal a) = Inr INFINITY \<and> divCeil d (DDecimal a) = Inr INFINITY
     else yields (dec_div d (DDecimal a)) (\<lambda>v. v \<le> x / y \<and> x / y < v + last_place) \<and>
       yields (divCeil d (DDecimal a)) (\<lambda>v. x / y \<le> v \<and> v < x / y + last_place)"
  proof (cases "bigNumber a = 0")
    case False
    then have a: "0 < bigNumber a" using nn by simp
    have "x / y * of_int DIGITS = of_int (bigNumber d * DIGITS) / of_int (bigNumber a)" by (simp add: v dec_value_def)
    from rounded_down[OF a this] rounded_up[OF a this] a nn show ?thesis
      by (simp add: zero dec_div_def divCeil_def dec_isZero_def pos_imp_zdiv_nonneg_iff)
  qed (simp add: zero dec_div_def divCeil_def dec_isZero_def)
  show "if z = 0 then mulDiv d (DDecimal a) (DDecimal b) = Inr INFINITY
     else yields (mulDiv d (DDecimal a) (DDecimal b)) (\<lambda>v. v \<le> x * y / z \<and> x * y / z < v + last_place)"
  proof (cases "bigNumber b = 0")
    case False
    then have b: "0 < bigNumber b" using nn by simp
    have "x * y / z * of_int DIGITS = of_int (bigNumber d * bigNumber a) / of_int (bigNumber b)" by (simp add: v dec_value_def)
    from rounded_down[OF b this] b nn show ?thesis
      by (simp add: zero mulDiv_def dec_isZero_def pos_imp_zdiv_nonneg_iff)
  qed (simp add: zero mulDiv_def dec_isZero_def)
  show "yields (dec_pow d n) (\<lambda>v. x \<le> 1 \<longrightarrow> \<bar>v - x ^ n\<bar> \<le> of_nat n * last_place / 2)"
    unfolding v by (rule dec_pow_error[OF assms(1,4)])
qed

theorem decimal_operations_round_correctly_witness:
  "dec_sub dec_HALF (DDecimal dec_ONE) = Inl (Thrown ''negatives not supported by Decimal'') \<and>
   dec_div dec_HALF (DDecimal dec_ZERO) = Inr INFINITY \<and>
   yields (dec_pow dec_HALF 3) (\<lambda>v. \<bar>v - (1 / 2) ^ 3\<bar> \<le> of_nat 3 * last_place / 2)"
  using decimal_operations_round_correctly[of dec_HALF dec_ONE dec_ONE 3 "dec_value dec_HALF"]
    decimal_operations_round_correctly[of dec_HALF dec_ZERO dec_ONE 3 "dec_value dec_HALF"]
  by (simp add: dec_value_def DIGITS_def)

end
