(* ===== verification/Lib_Base.thy ===== *)
theory Lib_Base
  imports Lib_Decimal Trove_Manager
begin

text \<open>
  The fee calculator of the SDK, which mirrors the contract's: \<open>packages/lib-base/src/constants.ts\<close>
  and \<open>Fees.ts\<close>, and the factory of \<open>ReadableEthersLiquity.ts\<close> (lib-ethers) that builds a \<open>Fees\<close>
  object from the storage of TroveManager.  A \<open>Date\<close> is its number of milliseconds.
\<close>

section \<open>constants.ts\<close>

definition CRITICAL_COLLATERAL_RATIO :: decimal where
  "CRITICAL_COLLATERAL_RATIO = Decimal (15 * 10 ^ 17)"

definition MINIMUM_COLLATERAL_RATIO :: decimal where
  "MINIMUM_COLLATERAL_RATIO = Decimal (11 * 10 ^ 17)"

definition LUSD_LIQUIDATION_RESERVE :: decimal where
  "LUSD_LIQUIDATION_RESERVE = Decimal (200 * 10 ^ 18)"

definition LUSD_MINIMUM_NET_DEBT :: decimal where
  "LUSD_MINIMUM_NET_DEBT = Decimal (1800 * 10 ^ 18)"

definition LUSD_MINIMUM_DEBT :: "decimal res" where
  "LUSD_MINIMUM_DEBT = dec_add LUSD_LIQUIDATION_RESERVE (DDecimal LUSD_MINIMUM_NET_DEBT)"

definition MINIMUM_BORROWING_RATE :: decimal where
  "MINIMUM_BORROWING_RATE = Decimal (5 * 10 ^ 15)"

definition MAXIMUM_BORROWING_RATE :: decimal where
  "MAXIMUM_BORROWING_RATE = Decimal (5 * 10 ^ 16)"

definition MINIMUM_REDEMPTION_RATE :: decimal where
  "MINIMUM_REDEMPTION_RATE = Decimal (5 * 10 ^ 15)"

section \<open>Fees.ts\<close>

record fees =
  baseRateWithoutDecay :: decimal
  minuteDecayFactor :: decimal
  beta :: decimal
  lastFeeOperation :: int
  timeOfLatestBlock :: int
  recoveryMode :: bool

definition new_Fees ::
  "decimalish \<Rightarrow> decimalish \<Rightarrow> decimalish \<Rightarrow> int \<Rightarrow> int \<Rightarrow> bool \<Rightarrow> fees res" where
  "new_Fees rate factor b lastOp latest mode =
     rbind (Decimal_from rate) (\<lambda>rate.
     rbind (Decimal_from factor) (\<lambda>factor.
     rbind (Decimal_from b) (\<lambda>b.
     rbind (dec_lt factor (DNumber ''1'')) (\<lambda>small.
       if small
       then Inr \<lparr>baseRateWithoutDecay = rate, minuteDecayFactor = factor, beta = b,
                 lastFeeOperation = lastOp, timeOfLatestBlock = latest, recoveryMode = mode\<rparr>
       else Inl (AssertionError ''this._minuteDecayFactor.lt(1)'')))))"

definition setRecoveryMode :: "fees \<Rightarrow> bool \<Rightarrow> fees res" where
  "setRecoveryMode f mode =
     new_Fees (DDecimal (baseRateWithoutDecay f)) (DDecimal (minuteDecayFactor f)) (DDecimal (beta f))
       (lastFeeOperation f) (timeOfLatestBlock f) mode"

definition fees_equals :: "fees \<Rightarrow> fees \<Rightarrow> bool" where
  "fees_equals f g \<longleftrightarrow>
     bigNumber (baseRateWithoutDecay f) = bigNumber (baseRateWithoutDecay g) \<and>
     bigNumber (minuteDecayFactor f) = bigNumber (minuteDecayFactor g) \<and>
     bigNumber (beta f) = bigNumber (beta g) \<and> lastFeeOperation f = lastFeeOperation g \<and>
     timeOfLatestBlock f = timeOfLatestBlock g \<and> recoveryMode f = recoveryMode g"

text \<open>An omitted \<open>when\<close> is the time of the latest block.\<close>

definition fees_baseRate :: "fees \<Rightarrow> int option \<Rightarrow> decimal res" where
  "fees_baseRate f w =
     (let at = (case w of None \<Rightarrow> timeOfLatestBlock f | Some t \<Rightarrow> t);
          millisecondsSinceLastFeeOperation = max (at - lastFeeOperation f) 0;
          minutesSinceLastFeeOperation = millisecondsSinceLastFeeOperation div 60000
      in rbind (dec_pow (minuteDecayFactor f) (nat minutesSinceLastFeeOperation)) (\<lambda>p.
           dec_mul p (DDecimal (baseRateWithoutDecay f))))"

definition fees_borrowingRate :: "fees \<Rightarrow> int option \<Rightarrow> decimal res" where
  "fees_borrowingRate f w =
     (if recoveryMode f then Inr dec_ZERO
      else rbind (fees_baseRate f w) (\<lambda>r.
           rbind (dec_add MINIMUM_BORROWING_RATE (DDecimal r)) (\<lambda>s.
           dec_min (DDecimal s) (DDecimal MAXIMUM_BORROWING_RATE))))"

definition fees_redemptionRate :: "fees \<Rightarrow> decimalish \<Rightarrow> int option \<Rightarrow> decimal res" where
  "fees_redemptionRate f fraction w =
     rbind (Decimal_from fraction) (\<lambda>fraction.
     rbind (fees_baseRate f w) (\<lambda>r.
     rbind (if dec_isZero fraction then Inr r
            else rbind (dec_div fraction (DDecimal (beta f))) (\<lambda>q. dec_add q (DDecimal r))) (\<lambda>r.
     rbind (dec_add MINIMUM_REDEMPTION_RATE (DDecimal r)) (\<lambda>s.
     dec_min (DDecimal s) (DDecimal dec_ONE)))))"

section \<open>The factory in ReadableEthersLiquity.ts\<close>

definition sdk_MINUTE_DECAY_FACTOR :: decimal where
  "sdk_MINUTE_DECAY_FACTOR = Decimal 999037758833783000"

definition sdk_BETA :: decimal where
  "sdk_BETA = Decimal (2 * 10 ^ 18)"

definition decimalify :: "nat \<Rightarrow> decimal res" where
  "decimalify n = new_Decimal (int n)"

text \<open>\<open>toNumber\<close> of ethers throws on an integer that a double cannot hold exactly.\<close>

definition bn_toNumber :: "nat \<Rightarrow> nat res" where
  "bn_toNumber n = (if n < 2 ^ 53 then Inr n else Inl (Thrown ''overflow''))"

text \<open>JavaScript dates end at 8.64e15 milliseconds; the theorems stay below that bound.\<close>

definition convertToDate :: "nat \<Rightarrow> int" where
  "convertToDate timestamp = int timestamp * 1000"

definition createFees :: "trove_manager \<Rightarrow> nat \<Rightarrow> bool \<Rightarrow> fees res" where
  "createFees s blockTimestamp mode =
     rbind (decimalify (baseRate s)) (\<lambda>rate.
     rbind (bn_toNumber (lastFeeOperationTime s)) (\<lambda>lastOp.
       new_Fees (DDecimal rate) (DDecimal sdk_MINUTE_DECAY_FACTOR) (DDecimal sdk_BETA)
         (convertToDate lastOp) (convertToDate blockTimestamp) mode))"

section \<open>Facts on the constants\<close>

text \<open>The constants are what the code writes: Decimals read from these literals.\<close>

lemma constants_read:
  "fromString ''1.5'' = Inr CRITICAL_COLLATERAL_RATIO"
  "fromString ''1.1'' = Inr MINIMUM_COLLATERAL_RATIO"
  "fromString ''200'' = Inr LUSD_LIQUIDATION_RESERVE"
  "fromString ''1800'' = Inr LUSD_MINIMUM_NET_DEBT"
  "fromString ''0.05'' = Inr MAXIMUM_BORROWING_RATE"
  "fromString ''0.005'' = Inr MINIMUM_BORROWING_RATE"
  "fromString ''0.999037758833783000'' = Inr sdk_MINUTE_DECAY_FACTOR"
  "fromString ''0'' = Inr dec_ZERO" "fromString ''0.5'' = Inr dec_HALF" "fromString ''1'' = Inr dec_ONE"
  using fromString_numeral[of "''1''" "''5''"] fromString_numeral[of "''1''" "''1''"]
    fromString_integer[of "''200''"] fromString_integer[of "''1800''"]
    fromString_numeral[of "''0''" "''05''"] fromString_numeral[of "''0''" "''005''"]
    fromString_numeral[of "''0''" "''999037758833783000''"] fromString_integer[of "''0''"]
    fromString_numeral[of "''0''" "''5''"] fromString_integer[of "''1''"]
  by (simp_all add: digits_only_def is_digit_def read_nat_Cons digit_val_def DIGITS_def
      CRITICAL_COLLATERAL_RATIO_def MINIMUM_COLLATERAL_RATIO_def LUSD_LIQUIDATION_RESERVE_def
      LUSD_MINIMUM_NET_DEBT_def MAXIMUM_BORROWING_RATE_def MINIMUM_BORROWING_RATE_def
      sdk_MINUTE_DECAY_FACTOR_def dec_ZERO_def dec_HALF_def dec_ONE_def)

lemma constants_ok [simp]:
  "decimal_ok CRITICAL_COLLATERAL_RATIO" "decimal_ok MINIMUM_COLLATERAL_RATIO"
  "decimal_ok LUSD_LIQUIDATION_RESERVE" "decimal_ok MINIMUM_BORROWING_RATE"
  "decimal_ok MAXIMUM_BORROWING_RATE" "decimal_ok MINIMUM_REDEMPTION_RATE"
  by (simp_all add: CRITICAL_COLLATERAL_RATIO_def MINIMUM_COLLATERAL_RATIO_def
      LUSD_LIQUIDATION_RESERVE_def MAXIMUM_BORROWING_RATE_def MINIMUM_BORROWING_RATE_def
      MINIMUM_REDEMPTION_RATE_def)

section \<open>The SDK's arithmetic is the contracts'\<close>

lemma DIGITS_int: "DIGITS = int DECIMAL_PRECISION"
  by (simp add: DIGITS_def DECIMAL_PRECISION_def)

lemma roundedMul_int:
  "roundedMul (int x) (int y) = int ((x * y + DECIMAL_PRECISION div 2) div DECIMAL_PRECISION)"
  by (simp add: roundedMul_def DIGITS_def DECIMAL_PRECISION_def zdiv_int)

lemma pow_loop_decPow_loop:
  "x \<le> DECIMAL_PRECISION \<Longrightarrow> y \<le> DECIMAL_PRECISION \<Longrightarrow>
   \<exists>r \<le> DECIMAL_PRECISION. decPow_loop x y n = Inr r \<and> pow_loop (int x) (int y) n = int r"
proof (induction x y n rule: decPow_loop.induct)
  case (1 x y n)
  note xx = decMul_le_one[OF "1.prems"(1) "1.prems"(1)]
  note xy = decMul_le_one[OF "1.prems"(1) "1.prems"(2)]
  show ?case
  proof (cases "n > 1")
    case False
    then show ?thesis
      using xy by (simp add: decPow_loop.simps[of x y n] pow_loop.simps[of "int x" "int y" n] roundedMul_int)
  next
    case n: True
    show ?thesis
    proof (cases "n mod 2 = 0")
      case True
      with "1.IH"(1)[OF n True xx(1) xx(2) "1.prems"(2)] n show ?thesis
        by (simp add: decPow_loop.simps[of x y n] pow_loop.simps[of "int x" "int y" n] xx(1)
            roundedMul_int Let_def even_iff_mod_2_eq_zero)
    next
      case False
      then have h: "(n - 1) div 2 = n div 2" by presburger
      with False "1.IH"(2)[OF n False xy(1) xx(1) xx(2) xy(2)] n show ?thesis
        by (simp add: decPow_loop.simps[of x y n] pow_loop.simps[of "int x" "int y" n] xx(1) xy(1)
            roundedMul_int Let_def even_iff_mod_2_eq_zero)
    qed
  qed
qed

lemma dec_pow_decPow:
  assumes "base \<le> DECIMAL_PRECISION" and "n \<le> 525600000"
  shows "\<exists>r \<le> DECIMAL_PRECISION. decPow base n = Inr r \<and> dec_pow (Decimal (int base)) n = Inr (Decimal (int r))"
proof (cases "n = 1")
  case True
  have "decPow base 1 = Inr base"
    by (simp add: decPow_def decPow_loop.simps[of base] decMul_one(1)[OF assms(1)])
  with True assms(1) show ?thesis by (simp add: dec_pow_def)
next
  case False
  then show ?thesis
    using pow_loop_decPow_loop[OF assms(1) order_refl, of n] assms(2)
    by (auto simp: decPow_def dec_pow_def DIGITS_int dec_ONE_def DECIMAL_PRECISION_def)
qed

lemma dec_min_eq [simp]:
  "dec_min (DDecimal (Decimal x)) (DDecimal (Decimal y)) = Inr (Decimal (min x y))"
  by (simp add: dec_min_def dec_lt_def min_def)

lemma minutes_eq:
  assumes "t \<le> now"
  shows "nat (max (convertToDate now - convertToDate t) 0 div 60000) = (now - t) div SECONDS_IN_ONE_MINUTE"
proof -
  have "max (convertToDate now - convertToDate t) 0 = int ((now - t) * 1000)"
    using assms by (simp add: convertToDate_def of_nat_diff)
  then have "max (convertToDate now - convertToDate t) 0 div 60000 = int ((now - t) * 1000 div 60000)"
    by (simp add: zdiv_int)
  then show ?thesis
    by (simp add: SECONDS_IN_ONE_MINUTE_def div_mult2_eq[symmetric])
qed

text \<open>The object that \<open>createFees\<close> makes for a storage and a block.\<close>

definition fees_of :: "trove_manager \<Rightarrow> nat \<Rightarrow> bool \<Rightarrow> fees" where
  "fees_of s now mode =
     \<lparr>baseRateWithoutDecay = Decimal (int (baseRate s)), minuteDecayFactor = sdk_MINUTE_DECAY_FACTOR,
      beta = sdk_BETA, lastFeeOperation = convertToDate (lastFeeOperationTime s),
      timeOfLatestBlock = convertToDate now, recoveryMode = mode\<rparr>"

lemma createFees_ok:
  assumes "lastFeeOperationTime s < 2 ^ 53"
  shows "createFees s now mode = Inr (fees_of s now mode)"
  using assms constants_read(10)
  by (simp add: createFees_def decimalify_def bn_toNumber_def new_Fees_def dec_lt_def
      sdk_MINUTE_DECAY_FACTOR_def dec_ONE_def fees_of_def)

text \<open>The decayed base rate of the SDK is the contract's.\<close>

lemma fees_baseRate_agrees:
  assumes inv: "fee_inv now s" and recent: "(now - lastFeeOperationTime s) div 60 \<le> 525600000"
  shows "\<exists>r \<le> DECIMAL_PRECISION. calcDecayedBaseRate now s = Inr r \<and>
           fees_baseRate (fees_of s now mode) None = Inr (Decimal (int r))"
proof -
  let ?m = "(now - lastFeeOperationTime s) div SECONDS_IN_ONE_MINUTE"
  have "999037758833783000 \<le> DECIMAL_PRECISION" by (simp add: DECIMAL_PRECISION_def)
  moreover have "?m \<le> 525600000" using recent by (simp add: SECONDS_IN_ONE_MINUTE_def)
  ultimately obtain f where f: "f \<le> DECIMAL_PRECISION" "decPow MINUTE_DECAY_FACTOR ?m = Inr f"
      "dec_pow sdk_MINUTE_DECAY_FACTOR ?m = Inr (Decimal (int f))"
    using dec_pow_decPow[of 999037758833783000 ?m]
    by (auto simp: MINUTE_DECAY_FACTOR_def sdk_MINUTE_DECAY_FACTOR_def)
  obtain r where r: "r \<le> baseRate s" "calcDecayedBaseRate now s = Inr r"
    using calcDecayedBaseRate_ok[OF inv] by blast
  have t: "lastFeeOperationTime s \<le> now" using inv by (simp add: fee_inv_def)
  from r(2) f(2) t have "r = baseRate s * f div DECIMAL_PRECISION"
    by (auto simp: calcDecayedBaseRate_def minutesPassedSinceLastFeeOp_def SECONDS_IN_ONE_MINUTE_def
        rbind_Inr_iff u_Inr_iffs)
  then have "int f * int (baseRate s) div DIGITS = int r"
    by (simp add: DIGITS_int zdiv_int mult.commute)
  then have "fees_baseRate (fees_of s now mode) None = Inr (Decimal (int r))"
    using f(3) minutes_eq[OF t]
    by (simp add: fees_baseRate_def fees_of_def Let_def)
  moreover have "r \<le> DECIMAL_PRECISION" using r(1) inv by (simp add: fee_inv_def)
  ultimately show ?thesis using r(2) by blast
qed

text \<open>The rates that follow from a base rate.\<close>

lemma borrowing_rate_agrees:
  "rbind (dec_add MINIMUM_BORROWING_RATE (DDecimal (Decimal (int r)))) (\<lambda>s.
           dec_min (DDecimal s) (DDecimal MAXIMUM_BORROWING_RATE)) =
         Inr (Decimal (int (min (BORROWING_FEE_FLOOR + r) MAX_BORROWING_FEE)))"
  by (simp add: MINIMUM_BORROWING_RATE_def MAXIMUM_BORROWING_RATE_def rate_consts of_nat_min)

lemma redemption_rate_agrees:
  "rbind (dec_add MINIMUM_REDEMPTION_RATE (DDecimal (Decimal (int x)))) (\<lambda>s.
           dec_min (DDecimal s) (DDecimal dec_ONE)) =
         Inr (Decimal (int (min (REDEMPTION_FEE_FLOOR + x) DECIMAL_PRECISION)))"
  by (simp add: MINIMUM_REDEMPTION_RATE_def dec_ONE_def rate_consts of_nat_min)

lemma calcRedemptionRate_ok:
  assumes "base \<le> DECIMAL_PRECISION"
  shows "calcRedemptionRate base = Inr (min (REDEMPTION_FEE_FLOOR + base) DECIMAL_PRECISION)"
  using assms by (simp add: calcRedemptionRate_def rate_consts)

lemma updateBaseRate_eq:
  assumes "updateBaseRateFromRedemption now drawn price supplied s = Inr (newRate, s')"
    and "calcDecayedBaseRate now s = Inr r"
  shows "newRate = min (r + drawn * price div supplied div 2) DECIMAL_PRECISION"
  using assms
  by (auto simp: updateBaseRateFromRedemption_def BETA_def rbind_Inr_iff u_Inr_iffs Let_def)

lemma half_of_fraction: "int x * DIGITS div (2 * 10 ^ 18) = int (x div 2)"
proof -
  have "int x * DIGITS div (2 * 10 ^ 18) = (int x * DIGITS) div (DIGITS * 2)" by (simp add: DIGITS_def)
  also have "\<dots> = int x div 2" by (simp add: mult.commute[of _ DIGITS])
  finally show ?thesis by (simp add: zdiv_int)
qed

lemma redemption_fraction_agrees:
  assumes "fees_baseRate (fees_of s now mode) None = Inr (Decimal (int r))"
  shows "fees_redemptionRate (fees_of s now mode) (DDecimal (Decimal (int x))) None =
           Inr (Decimal (int (min (REDEMPTION_FEE_FLOOR + (r + x div 2)) DECIMAL_PRECISION)))"
proof (cases "x = 0")
  case True
  then show ?thesis
    using assms redemption_rate_agrees[of r] by (simp add: fees_redemptionRate_def dec_isZero_def)
next
  case False
  have "dec_div (Decimal (int x)) (DDecimal sdk_BETA) = Inr (Decimal (int (x div 2)))"
    using half_of_fraction[of x]
    by (simp add: dec_div_def dec_isZero_def sdk_BETA_def del: of_nat_div)
  moreover have "beta (fees_of s now mode) = sdk_BETA" by (simp add: fees_of_def)
  ultimately show ?thesis
    using False assms redemption_rate_agrees[of "r + x div 2"]
    by (simp add: fees_redemptionRate_def dec_isZero_def add.commute del: of_nat_div)
qed

section \<open>Property: fees\<close>

text \<open>
  C28. The SDK predicts the contract's fees exactly: with the base-rate invariant, and less
  than a thousand years after the last fee operation, the \<open>Fees\<close> object made from the storage and
  the latest block computes the same borrowing rate and redemption rate as TroveManager does with
  decay, to the last of the 18 digits; and for a redemption of a given fraction of the supply it
  computes the rate that follows from the base rate the contract will have stored.  In recovery mode, in which the
  contract asks no borrowing fee, its borrowing rate is zero and the redemption rates are the same.
\<close>

theorem sdk_fees_agree_with_contract:
  assumes "fee_inv now s" and "(now - lastFeeOperationTime s) div 60 \<le> 525600000"
    and "now \<le> 8640000000000"
  shows "\<exists>f b r. createFees s now recovery = Inr f \<and>
           getBorrowingRateWithDecay now s = Inr b \<and>
           fees_borrowingRate f None = Inr (Decimal (if recovery then 0 else int b)) \<and>
           getRedemptionRateWithDecay now s = Inr r \<and>
           fees_redemptionRate f (DDecimal dec_ZERO) None = Inr (Decimal (int r)) \<and>
           (\<forall>drawn price supplied newRate s'.
              updateBaseRateFromRedemption now drawn price supplied s = Inr (newRate, s') \<longrightarrow>
              fees_redemptionRate f (DDecimal (Decimal (int (drawn * price div supplied)))) None =
                map_sum id (\<lambda>r. Decimal (int r)) (calcRedemptionRate newRate))"
proof -
  let ?f = "fees_of s now recovery"
  have f: "createFees s now recovery = Inr ?f"
    using assms(1,3) by (intro createFees_ok) (simp add: fee_inv_def)
  obtain r where r: "r \<le> DECIMAL_PRECISION" "calcDecayedBaseRate now s = Inr r"
      "fees_baseRate ?f None = Inr (Decimal (int r))"
    using fees_baseRate_agrees[OF assms(1,2)] by blast
  let ?b = "min (BORROWING_FEE_FLOOR + r) MAX_BORROWING_FEE"
  let ?q = "min (REDEMPTION_FEE_FLOOR + r) DECIMAL_PRECISION"
  have "fees_redemptionRate ?f (DDecimal (Decimal (int (drawn * price div supplied)))) None =
      map_sum id (\<lambda>r. Decimal (int r)) (calcRedemptionRate newRate)"
    if "updateBaseRateFromRedemption now drawn price supplied s = Inr (newRate, s')"
    for drawn price supplied newRate s'
  proof -
    let ?x = "drawn * price div supplied"
    have n: "newRate = min (r + ?x div 2) DECIMAL_PRECISION" using updateBaseRate_eq[OF that r(2)] .
    have "fees_redemptionRate ?f (DDecimal (Decimal (int ?x))) None =
        Inr (Decimal (int (min (REDEMPTION_FEE_FLOOR + (r + ?x div 2)) DECIMAL_PRECISION)))"
      using redemption_fraction_agrees[OF r(3)] .
    moreover have "calcRedemptionRate newRate = Inr (min (REDEMPTION_FEE_FLOOR + newRate) DECIMAL_PRECISION)"
      by (rule calcRedemptionRate_ok) (simp add: n)
    ultimately show ?thesis by (simp add: n min_def)
  qed
  moreover have "getBorrowingRateWithDecay now s = Inr ?b" "fees_borrowingRate ?f None = Inr (Decimal (if recovery then 0 else int ?b))"
    using r calcBorrowingRate_ok[OF r(1)] borrowing_rate_agrees[of r]
    by (simp_all add: getBorrowingRateWithDecay_def fees_borrowingRate_def) (simp add: fees_of_def dec_ZERO_def)
  moreover have "getRedemptionRateWithDecay now s = Inr ?q"
      "fees_redemptionRate ?f (DDecimal dec_ZERO) None = Inr (Decimal (int ?q))"
    using r calcRedemptionRate_ok[OF r(1)] redemption_rate_agrees[of r]
    by (simp_all add: getRedemptionRateWithDecay_def fees_redemptionRate_def dec_isZero_def)
  ultimately show ?thesis using f by blast
qed

theorem sdk_fees_agree_with_contract_witness:
  "\<exists>f b. createFees (fresh_trove_manager\<lparr>baseRate := 50000000000000000\<rparr>) 86400 False = Inr f \<and>
     getBorrowingRateWithDecay 86400 (fresh_trove_manager\<lparr>baseRate := 50000000000000000\<rparr>) = Inr b \<and>
     fees_borrowingRate f None = Inr (Decimal (int b))"
  using sdk_fees_agree_with_contract[of 86400 "fresh_trove_manager\<lparr>baseRate := 50000000000000000\<rparr>" False]
  by (auto simp: fee_inv_def fresh_trove_manager_def DECIMAL_PRECISION_def)

end
