(* ===== verification/Lib_Trove.thy ===== *)
theory Lib_Trove
  imports Lib_Base
begin

text \<open>
  \<open>packages/lib-base/src/Trove.ts\<close>: the SDK's view of a trove.  Adding and subtracting troves, the
  collateral ratios, the difference between two troves (\<open>whatChanged\<close>) and its application
  (\<open>apply\<close>), the normalisation of transaction parameters, and a trove with pending
  redistributions.  An object of parameters is the list of its entries, a value \<open>None\<close> being
  \<open>undefined\<close>.
\<close>

section \<open>Troves\<close>

record sdk_trove =
  collateral :: decimal
  tdebt :: decimal

definition emptyTrove :: sdk_trove where
  "emptyTrove = \<lparr>collateral = dec_ZERO, tdebt = dec_ZERO\<rparr>"

definition trove_isEmpty :: "sdk_trove \<Rightarrow> bool" where
  "trove_isEmpty t \<longleftrightarrow> dec_isZero (collateral t) \<and> dec_isZero (tdebt t)"

definition netDebt :: "sdk_trove \<Rightarrow> decimal res" where
  "netDebt t =
     rbind (dec_lt (tdebt t) (DDecimal LUSD_LIQUIDATION_RESERVE)) (\<lambda>low.
       if low then Inl (Thrown ''netDebt should not be used when debt < 200'')
       else dec_sub (tdebt t) (DDecimal LUSD_LIQUIDATION_RESERVE))"

definition nominalCollateralRatio :: "sdk_trove \<Rightarrow> decimal res" where
  "nominalCollateralRatio t = mulDiv (collateral t) (DDecimal (Decimal (100 * 10 ^ 18))) (DDecimal (tdebt t))"

definition collateralRatio :: "sdk_trove \<Rightarrow> decimalish \<Rightarrow> decimal res" where
  "collateralRatio t price = mulDiv (collateral t) price (DDecimal (tdebt t))"

definition collateralRatioIsBelowMinimum :: "sdk_trove \<Rightarrow> decimalish \<Rightarrow> bool res" where
  "collateralRatioIsBelowMinimum t price =
     rbind (collateralRatio t price) (\<lambda>r. dec_lt r (DDecimal MINIMUM_COLLATERAL_RATIO))"

definition collateralRatioIsBelowCritical :: "sdk_trove \<Rightarrow> decimalish \<Rightarrow> bool res" where
  "collateralRatioIsBelowCritical t price =
     rbind (collateralRatio t price) (\<lambda>r. dec_lt r (DDecimal CRITICAL_COLLATERAL_RATIO))"

definition isOpenableInRecoveryMode :: "sdk_trove \<Rightarrow> decimalish \<Rightarrow> bool res" where
  "isOpenableInRecoveryMode t price =
     rbind (collateralRatio t price) (\<lambda>r. dec_gte r (DDecimal CRITICAL_COLLATERAL_RATIO))"

definition trove_equals :: "sdk_trove \<Rightarrow> sdk_trove \<Rightarrow> bool" where
  "trove_equals t u \<longleftrightarrow>
     bigNumber (collateral t) = bigNumber (collateral u) \<and> bigNumber (tdebt t) = bigNumber (tdebt u)"

definition new_trove :: "decimal res \<Rightarrow> decimal res \<Rightarrow> sdk_trove res" where
  "new_trove c d = rbind c (\<lambda>c. rbind d (\<lambda>d. Inr \<lparr>collateral = c, tdebt = d\<rparr>))"

definition trove_add :: "sdk_trove \<Rightarrow> sdk_trove \<Rightarrow> sdk_trove res" where
  "trove_add t u =
     new_trove (dec_add (collateral t) (DDecimal (collateral u))) (dec_add (tdebt t) (DDecimal (tdebt u)))"

definition trove_addCollateral :: "sdk_trove \<Rightarrow> decimalish \<Rightarrow> sdk_trove res" where
  "trove_addCollateral t c = new_trove (dec_add (collateral t) c) (Inr (tdebt t))"

definition trove_addDebt :: "sdk_trove \<Rightarrow> decimalish \<Rightarrow> sdk_trove res" where
  "trove_addDebt t d = new_trove (Inr (collateral t)) (dec_add (tdebt t) d)"

text \<open>The subtractions stop at zero.\<close>

definition sub_clamped :: "decimal \<Rightarrow> decimalish \<Rightarrow> decimal res" where
  "sub_clamped x y = rbind (dec_gt x y) (\<lambda>g. if g then dec_sub x y else Inr dec_ZERO)"

definition trove_subtract :: "sdk_trove \<Rightarrow> sdk_trove \<Rightarrow> sdk_trove res" where
  "trove_subtract t u =
     new_trove (sub_clamped (collateral t) (DDecimal (collateral u)))
       (sub_clamped (tdebt t) (DDecimal (tdebt u)))"

definition trove_subtractCollateral :: "sdk_trove \<Rightarrow> decimalish \<Rightarrow> sdk_trove res" where
  "trove_subtractCollateral t c = new_trove (sub_clamped (collateral t) c) (Inr (tdebt t))"

definition trove_subtractDebt :: "sdk_trove \<Rightarrow> decimalish \<Rightarrow> sdk_trove res" where
  "trove_subtractDebt t d = new_trove (Inr (collateral t)) (sub_clamped (tdebt t) d)"

definition trove_multiply :: "sdk_trove \<Rightarrow> decimalish \<Rightarrow> sdk_trove res" where
  "trove_multiply t m = new_trove (dec_mul (collateral t) m) (dec_mul (tdebt t) m)"

definition trove_setCollateral :: "sdk_trove \<Rightarrow> decimalish \<Rightarrow> sdk_trove res" where
  "trove_setCollateral t c = new_trove (Decimal_from c) (Inr (tdebt t))"

definition trove_setDebt :: "sdk_trove \<Rightarrow> decimalish \<Rightarrow> sdk_trove res" where
  "trove_setDebt t d = new_trove (Inr (collateral t)) (Decimal_from d)"

section \<open>Changes\<close>

record adjustment_params =
  depositCollateral :: "decimal option"
  withdrawCollateral :: "decimal option"
  borrowLUSD :: "decimal option"
  repayLUSD :: "decimal option"

datatype set_to_zero = ZeroCollateral | ZeroDebt

datatype trove_change =
    InvalidCreation sdk_trove string
  | Creation decimal decimal
  | Closure decimal "decimal option"
  | Adjustment adjustment_params "set_to_zero option"

definition applyFee :: "decimalish \<Rightarrow> decimal \<Rightarrow> decimal res" where
  "applyFee borrowingRate debtIncrease =
     rbind (dec_add dec_ONE borrowingRate) (\<lambda>f. dec_mul debtIncrease (DDecimal f))"

definition unapplyFee :: "decimalish \<Rightarrow> decimal \<Rightarrow> decimal res" where
  "unapplyFee borrowingRate debtIncrease =
     rbind (dec_add dec_ONE borrowingRate) (\<lambda>f. divCeil debtIncrease (DDecimal f))"

definition no_change :: adjustment_params where
  "no_change = \<lparr>depositCollateral = None, withdrawCollateral = None, borrowLUSD = None, repayLUSD = None\<rparr>"

definition debtChange :: "sdk_trove \<Rightarrow> sdk_trove \<Rightarrow> decimalish \<Rightarrow> adjustment_params \<Rightarrow> adjustment_params res" where
  "debtChange t that borrowingRate ps =
     rbind (dec_gt (tdebt that) (DDecimal (tdebt t))) (\<lambda>g.
       if g then rbind (dec_sub (tdebt that) (DDecimal (tdebt t))) (\<lambda>d.
                 rbind (unapplyFee borrowingRate d) (\<lambda>b. Inr (ps\<lparr>borrowLUSD := Some b\<rparr>)))
       else rbind (dec_sub (tdebt t) (DDecimal (tdebt that))) (\<lambda>d. Inr (ps\<lparr>repayLUSD := Some d\<rparr>)))"

definition collateralChange :: "sdk_trove \<Rightarrow> sdk_trove \<Rightarrow> adjustment_params \<Rightarrow> adjustment_params res" where
  "collateralChange t that ps =
     rbind (dec_gt (collateral that) (DDecimal (collateral t))) (\<lambda>g.
       if g then rbind (dec_sub (collateral that) (DDecimal (collateral t))) (\<lambda>c.
                 Inr (ps\<lparr>depositCollateral := Some c\<rparr>))
       else rbind (dec_sub (collateral t) (DDecimal (collateral that))) (\<lambda>c.
                 Inr (ps\<lparr>withdrawCollateral := Some c\<rparr>)))"

definition whatChanged :: "sdk_trove \<Rightarrow> sdk_trove \<Rightarrow> decimalish \<Rightarrow> trove_change option res" where
  "whatChanged t that borrowingRate =
     (let same_coll = bigNumber (collateral t) = bigNumber (collateral that);
          same_debt = bigNumber (tdebt t) = bigNumber (tdebt that);
          zero_debt = (if dec_isZero (tdebt that) then Some ZeroDebt else None);
          zero_coll = (if dec_isZero (collateral that) then Some ZeroCollateral else None)
      in if same_coll \<and> same_debt then Inr None
         else if trove_isEmpty t then
           rbind (dec_lt (tdebt that) (DDecimal LUSD_LIQUIDATION_RESERVE)) (\<lambda>low.
             if low then Inr (Some (InvalidCreation that ''missingLiquidationReserve''))
             else rbind (netDebt that) (\<lambda>n. rbind (unapplyFee borrowingRate n) (\<lambda>b.
                    Inr (Some (Creation (collateral that) b)))))
         else if trove_isEmpty that then
           rbind (netDebt t) (\<lambda>n.
             Inr (Some (Closure (collateral t) (if dec_isZero n then None else Some n))))
         else if same_coll then
           rbind (debtChange t that borrowingRate no_change) (\<lambda>ps. Inr (Some (Adjustment ps zero_debt)))
         else if same_debt then
           rbind (collateralChange t that no_change) (\<lambda>ps. Inr (Some (Adjustment ps zero_coll)))
         else rbind (debtChange t that borrowingRate no_change) (\<lambda>ps.
              rbind (collateralChange t that ps) (\<lambda>ps.
                Inr (Some (Adjustment ps (if zero_debt \<noteq> None then zero_debt else zero_coll))))))"

fun apply_change :: "sdk_trove \<Rightarrow> trove_change option \<Rightarrow> decimalish \<Rightarrow> sdk_trove res" where
  "apply_change t None borrowingRate = Inr t"
| "apply_change t (Some (InvalidCreation invalidTrove err)) borrowingRate =
     (if \<not> trove_isEmpty t then Inl (Thrown ''Can't create onto existing Trove'')
      else Inr invalidTrove)"
| "apply_change t (Some (Creation deposit borrow)) borrowingRate =
     (if \<not> trove_isEmpty t then Inl (Thrown ''Can't create onto existing Trove'')
      else new_trove (Inr deposit)
             (rbind (applyFee borrowingRate borrow) (\<lambda>d. dec_add LUSD_LIQUIDATION_RESERVE (DDecimal d))))"
| "apply_change t (Some (Closure withdraw repay)) borrowingRate =
     (if trove_isEmpty t then Inl (Thrown ''Can't close empty Trove'')
      else Inr emptyTrove)"
| "apply_change t (Some (Adjustment ps setToZero)) borrowingRate =
     (let collateralDecrease = (case withdrawCollateral ps of None \<Rightarrow> dec_ZERO | Some c \<Rightarrow> c);
          collateralIncrease = (case depositCollateral ps of None \<Rightarrow> dec_ZERO | Some c \<Rightarrow> c);
          debtDecrease = (case repayLUSD ps of None \<Rightarrow> dec_ZERO | Some d \<Rightarrow> d)
      in rbind (case borrowLUSD ps of None \<Rightarrow> Inr dec_ZERO | Some b \<Rightarrow> applyFee borrowingRate b) (\<lambda>debtIncrease.
         case setToZero of
           Some ZeroCollateral \<Rightarrow>
             rbind (trove_setCollateral t (DDecimal dec_ZERO)) (\<lambda>t.
             rbind (trove_addDebt t (DDecimal debtIncrease)) (\<lambda>t.
             trove_subtractDebt t (DDecimal debtDecrease)))
         | Some ZeroDebt \<Rightarrow>
             rbind (trove_setDebt t (DDecimal dec_ZERO)) (\<lambda>t.
             rbind (trove_addCollateral t (DDecimal collateralIncrease)) (\<lambda>t.
             trove_subtractCollateral t (DDecimal collateralDecrease)))
         | None \<Rightarrow>
             rbind (trove_add t \<lparr>collateral = collateralIncrease, tdebt = debtIncrease\<rparr>) (\<lambda>t.
             trove_subtract t \<lparr>collateral = collateralDecrease, tdebt = debtDecrease\<rparr>)))"

section \<open>Parameters of transactions\<close>

type_synonym entries = "(string \<times> decimalish option) list"

fun js_join :: "string \<Rightarrow> string list \<Rightarrow> string" where
  "js_join sep [] = ''''"
| "js_join sep [x] = x"
| "js_join sep (x # y # xs) = x @ sep @ js_join sep (y # xs)"

definition quote :: "string \<Rightarrow> string" where
  "quote k = CHR 0x27 # k @ [CHR 0x27]"

definition definedEntries :: "entries \<Rightarrow> (string \<times> decimalish) list" where
  "definedEntries ps = List.map_filter (\<lambda>(k, v). map_option (Pair k) v) ps"

fun decimalize :: "(string \<times> decimalish) list \<Rightarrow> (string \<times> decimal) list res" where
  "decimalize [] = Inr []"
| "decimalize ((k, v) # es) =
     rbind (Decimal_from v) (\<lambda>d. rbind (decimalize es) (\<lambda>ds. Inr ((k, d) # ds)))"

definition checkAllowedKeys :: "string \<Rightarrow> string list \<Rightarrow> (string \<times> decimalish) list \<Rightarrow> unit res" where
  "checkAllowedKeys what allowed es =
     (let badKeys = map quote (filter (\<lambda>k. k \<notin> set allowed) (map fst es))
      in if badKeys \<noteq> [] then Inl (Thrown (what @ '': property '' @ js_join '', '' badKeys @ '' not allowed''))
         else Inr ())"

definition allowedTroveCreationKeys :: "string list" where
  "allowedTroveCreationKeys = [''depositCollateral'', ''borrowLUSD'']"

definition allowedTroveAdjustmentKeys :: "string list" where
  "allowedTroveAdjustmentKeys = [''depositCollateral'', ''withdrawCollateral'', ''borrowLUSD'', ''repayLUSD'']"

definition troveCreationParamsFromEntries :: "(string \<times> decimal) list \<Rightarrow> (decimal \<times> decimal) res" where
  "troveCreationParamsFromEntries es =
     (case (map_of es ''depositCollateral'', map_of es ''borrowLUSD'') of
        (Some c, Some b) \<Rightarrow> Inr (c, b)
      | _ \<Rightarrow> Inl (Thrown (''TroveCreationParams: property '' @
               js_join '', '' (map quote (filter (\<lambda>k. map_of es k = None) allowedTroveCreationKeys)) @ '' missing'')))"

definition normalizeTroveCreation :: "entries \<Rightarrow> (decimal \<times> decimal) res" where
  "normalizeTroveCreation ps =
     (let es = definedEntries ps
      in rbind (checkAllowedKeys ''TroveCreationParams'' allowedTroveCreationKeys es) (\<lambda>_.
         rbind (decimalize es) troveCreationParamsFromEntries))"

definition both_present :: "string \<Rightarrow> string \<Rightarrow> js_error" where
  "both_present a b = Thrown (''TroveAdjustmentParams: '' @ quote a @ '' and '' @ quote b @ '' can't be present at the same time'')"

definition troveAdjustmentParamsFromEntries :: "(string \<times> decimal) list \<Rightarrow> adjustment_params res" where
  "troveAdjustmentParamsFromEntries es =
     (let dc = map_of es ''depositCollateral''; wc = map_of es ''withdrawCollateral'';
          bo = map_of es ''borrowLUSD''; re = map_of es ''repayLUSD''
      in if dc \<noteq> None \<and> wc \<noteq> None then Inl (both_present ''depositCollateral'' ''withdrawCollateral'')
         else if bo \<noteq> None \<and> re \<noteq> None then Inl (both_present ''borrowLUSD'' ''repayLUSD'')
         else if dc = None \<and> wc = None \<and> bo = None \<and> re = None
         then Inl (Thrown ''TroveAdjustmentParams: must include at least one non-zero parameter'')
         else Inr \<lparr>depositCollateral = dc, withdrawCollateral = wc, borrowLUSD = bo, repayLUSD = re\<rparr>)"

definition normalizeTroveAdjustment :: "entries \<Rightarrow> adjustment_params res" where
  "normalizeTroveAdjustment ps =
     (let es = definedEntries ps
      in rbind (checkAllowedKeys ''TroveAdjustmentParams'' allowedTroveAdjustmentKeys es) (\<lambda>_.
         rbind (decimalize es) (\<lambda>ds.
           troveAdjustmentParamsFromEntries (filter (\<lambda>(k, d). \<not> dec_isZero d) ds))))"

definition default_rate :: "decimalish option \<Rightarrow> decimalish" where
  "default_rate r = (case r of None \<Rightarrow> DDecimal MINIMUM_BORROWING_RATE | Some x \<Rightarrow> x)"

definition trove_create :: "entries \<Rightarrow> decimalish option \<Rightarrow> sdk_trove res" where
  "trove_create ps borrowingRate =
     rbind (normalizeTroveCreation ps) (\<lambda>(c, b).
       apply_change emptyTrove (Some (Creation c b)) (default_rate borrowingRate))"

definition trove_recreate :: "sdk_trove \<Rightarrow> decimalish option \<Rightarrow> (decimal \<times> decimal) res" where
  "trove_recreate that borrowingRate =
     rbind (whatChanged emptyTrove that (default_rate borrowingRate)) (\<lambda>c.
       case c of Some (Creation c b) \<Rightarrow> Inr (c, b)
       | _ \<Rightarrow> Inl (AssertionError ''change?.type === \"creation\"''))"

definition trove_adjust :: "sdk_trove \<Rightarrow> entries \<Rightarrow> decimalish option \<Rightarrow> sdk_trove res" where
  "trove_adjust t ps borrowingRate =
     rbind (normalizeTroveAdjustment ps) (\<lambda>ps.
       apply_change t (Some (Adjustment ps None)) (default_rate borrowingRate))"

definition trove_adjustTo :: "sdk_trove \<Rightarrow> sdk_trove \<Rightarrow> decimalish option \<Rightarrow> adjustment_params res" where
  "trove_adjustTo t that borrowingRate =
     rbind (whatChanged t that (default_rate borrowingRate)) (\<lambda>c.
       case c of Some (Adjustment ps z) \<Rightarrow> Inr ps
       | _ \<Rightarrow> Inl (AssertionError ''change?.type === \"adjustment\"''))"

section \<open>Troves with pending redistributions\<close>

record pending_trove = sdk_trove +
  ownerAddress :: address
  tstatus :: status
  tstake :: decimal
  snapshotOfTotalRedistributed :: sdk_trove

definition applyRedistribution :: "pending_trove \<Rightarrow> sdk_trove \<Rightarrow> sdk_trove res" where
  "applyRedistribution t totalRedistributed =
     rbind (trove_subtract totalRedistributed (snapshotOfTotalRedistributed t)) (\<lambda>gain.
     rbind (trove_multiply gain (DDecimal (tstake t))) (\<lambda>share.
     trove_add \<lparr>collateral = collateral t, tdebt = tdebt t\<rparr> share))"

text \<open>
  \<open>getTroveBeforeRedistribution\<close> and \<open>getTotalRedistributed\<close> of lib-ethers on the storage: the
  numbers of an active trove, an empty trove otherwise.
\<close>

definition to_decimal :: "nat \<Rightarrow> decimal" where
  "to_decimal n = Decimal (int n)"

definition getTroveBeforeRedistribution :: "trove_manager \<Rightarrow> address \<Rightarrow> pending_trove" where
  "getTroveBeforeRedistribution s b =
     (let t = Troves s b; snap = rewardSnapshots s b
      in if status t = active
         then \<lparr>collateral = to_decimal (coll t), tdebt = to_decimal (debt t), ownerAddress = b, tstatus = active,
               tstake = to_decimal (stake t),
               snapshotOfTotalRedistributed =
                 \<lparr>collateral = to_decimal (snap_COLL snap), tdebt = to_decimal (snap_USDDDebt snap)\<rparr>\<rparr>
         else \<lparr>collateral = dec_ZERO, tdebt = dec_ZERO, ownerAddress = b, tstatus = status t,
               tstake = dec_ZERO, snapshotOfTotalRedistributed = emptyTrove\<rparr>)"

text \<open>
  The \<open>uint256\<close> state variables of TroveManager with a public getter, by name.  The contract has no function of
  another of these names and no fallback function: a call of one is reverted, which ethers reports as an exception.
\<close>

definition troveManager_getter :: "trove_manager \<Rightarrow> string \<Rightarrow> nat res" where
  "troveManager_getter s name =
     (case map_of [(''baseRate'', baseRate s), (''lastFeeOperationTime'', lastFeeOperationTime s),
        (''totalStakes'', totalStakes s), (''totalStakesSnapshot'', totalStakesSnapshot s),
        (''totalCollateralSnapshot'', totalCollateralSnapshot s), (''L_COLL'', L_COLL s), (''L_USDDDebt'', L_USDDDebt s),
        (''lastETHError_Redistribution'', lastETHError_Redistribution s),
        (''lastUSDDDebtError_Redistribution'', lastUSDDDebtError_Redistribution s)] name of
        Some v \<Rightarrow> Inr v
      | None \<Rightarrow> Inl (Thrown ''call revert exception''))"

text \<open>The SDK asks for the names of the original Liquity contracts.\<close>

definition getTotalRedistributed :: "trove_manager \<Rightarrow> sdk_trove res" where
  "getTotalRedistributed s =
     rbind (troveManager_getter s ''L_ETH'') (\<lambda>c.
     rbind (troveManager_getter s ''L_LUSDDebt'') (\<lambda>d. Inr \<lparr>collateral = to_decimal c, tdebt = to_decimal d\<rparr>))"

definition getTrove :: "trove_manager \<Rightarrow> address \<Rightarrow> sdk_trove res" where
  "getTrove s b = rbind (getTotalRedistributed s) (applyRedistribution (getTroveBeforeRedistribution s b))"

section \<open>Facts on fees and on the clamped subtraction\<close>

definition trove_ok :: "sdk_trove \<Rightarrow> bool" where
  "trove_ok t \<longleftrightarrow> decimal_ok (collateral t) \<and> decimal_ok (tdebt t)"

lemma new_trove_Inr [simp]: "new_trove (Inr c) (Inr d) = Inr \<lparr>collateral = c, tdebt = d\<rparr>"
  by (simp add: new_trove_def)

lemma sub_clamped_eq [simp]:
  "0 \<le> x \<Longrightarrow> 0 \<le> y \<Longrightarrow> sub_clamped (Decimal x) (DDecimal (Decimal y)) = Inr (Decimal (max (x - y) 0))"
  by (simp add: sub_clamped_def dec_ZERO_def)

text \<open>Applying the fee to an amount from which it was taken out gives the amount, or one unit more.\<close>

lemma fee_roundtrip:
  assumes rate: "Decimal_from r = Inr (Decimal \<rho>)" and \<rho>: "0 \<le> \<rho>" "\<rho> < DIGITS" and x: "0 \<le> x"
  shows "\<exists>b y. unapplyFee r (Decimal x) = Inr (Decimal b) \<and> 0 \<le> b \<and> applyFee r (Decimal b) = Inr (Decimal y) \<and>
           x \<le> y \<and> y \<le> x + 1 \<and> (\<rho> = 0 \<longrightarrow> y = x)"
proof -
  let ?R = "DIGITS + \<rho>"
  let ?b = "(x * DIGITS + (?R - 1)) div ?R"
  let ?y = "?b * ?R div DIGITS"
  have R: "0 < ?R" using \<rho> DIGITS_pos(1) by linarith
  have xD: "0 \<le> x * DIGITS" using x by simp
  have b: "0 \<le> ?b" using xD R by (simp add: pos_imp_zdiv_nonneg_iff)
  have upper: "?b * ?R \<le> x * DIGITS + (?R - 1)"
    using R div_mult_mod_eq[of "x * DIGITS + (?R - 1)" ?R]
      pos_mod_sign[OF R, of "x * DIGITS + (?R - 1)"] by linarith
  have lower: "x * DIGITS \<le> ?b * ?R"
    using div_mult_mod_eq[of "x * DIGITS + (?R - 1)" ?R]
      pos_mod_bound[OF R, of "x * DIGITS + (?R - 1)"] by linarith
  have "x \<le> ?y" using zdiv_mono1[OF lower DIGITS_pos(1)] by simp
  moreover have "?y \<le> x + 1"
  proof -
    have "?b * ?R \<le> DIGITS - 1 + (x + 1) * DIGITS" using upper \<rho> by (simp add: algebra_simps)
    then have "?y \<le> (DIGITS - 1 + (x + 1) * DIGITS) div DIGITS" by (intro zdiv_mono1) simp_all
    also have "\<dots> = x + 1" by (simp add: div_pos_pos_trivial)
    finally show ?thesis .
  qed
  moreover have "\<rho> = 0 \<longrightarrow> ?y = x" by (simp add: DIGITS_def)
  moreover have f: "dec_add dec_ONE r = Inr (Decimal ?R)"
    using rate R by (simp add: dec_add_def)
  moreover have "unapplyFee r (Decimal x) = Inr (Decimal ?b)"
    using f x R by (simp add: unapplyFee_def divCeil_ok)
  moreover have "applyFee r (Decimal ?b) = Inr (Decimal ?y)"
    using f b R by (simp add: applyFee_def)
  ultimately show ?thesis using b by blast
qed

section \<open>Differences of troves\<close>

text \<open>
  A trove that the round trip may end in: the target, except that a positive borrowing rate may
  leave the debt one unit of the last digit too high.
\<close>

definition reaches :: "int \<Rightarrow> sdk_trove \<Rightarrow> sdk_trove \<Rightarrow> bool" where
  "reaches \<rho> t that \<longleftrightarrow> collateral t = collateral that \<and>
     bigNumber (tdebt that) \<le> bigNumber (tdebt t) \<and> bigNumber (tdebt t) \<le> bigNumber (tdebt that) + 1 \<and>
     (\<rho> = 0 \<longrightarrow> t = that)"

definition roundtrip :: "sdk_trove \<Rightarrow> sdk_trove \<Rightarrow> decimalish \<Rightarrow> int \<Rightarrow> bool" where
  "roundtrip a b r \<rho> \<longleftrightarrow>
     (\<exists>c t. whatChanged a b r = Inr c \<and> apply_change a c r = Inr t \<and> reaches \<rho> t b)"

lemma reaches_refl: "reaches \<rho> t t"
  by (simp add: reaches_def)

lemmas trove_defs = trove_isEmpty_def dec_isZero_def emptyTrove_def dec_ZERO_def

lemma roundtrip_creation:
  assumes "0 \<le> c" "0 \<le> d" and rate: "Decimal_from r = Inr (Decimal \<rho>)" "0 \<le> \<rho>" "\<rho> < DIGITS"
  shows "roundtrip emptyTrove \<lparr>collateral = Decimal c, tdebt = Decimal d\<rparr> r \<rho>"
proof -
  let ?b = "\<lparr>collateral = Decimal c, tdebt = Decimal d\<rparr>"
  consider "c = 0 \<and> d = 0" | "\<not> (c = 0 \<and> d = 0)" "d < 200 * 10 ^ 18" | "200 * 10 ^ 18 \<le> d" by linarith
  then show ?thesis
  proof cases
    case 1
    then show ?thesis by (simp add: roundtrip_def whatChanged_def trove_defs reaches_def)
  next
    case 2
    then have "whatChanged emptyTrove ?b r = Inr (Some (InvalidCreation ?b ''missingLiquidationReserve''))"
      using assms by (auto simp: whatChanged_def trove_defs LUSD_LIQUIDATION_RESERVE_def)
    then show ?thesis by (simp add: roundtrip_def trove_defs reaches_def)
  next
    case 3
    let ?n = "d - 200 * 10 ^ 18"
    obtain x y where xy: "unapplyFee r (Decimal ?n) = Inr (Decimal x)" "0 \<le> x"
        "applyFee r (Decimal x) = Inr (Decimal y)" "?n \<le> y" "y \<le> ?n + 1" "\<rho> = 0 \<longrightarrow> y = ?n"
      using fee_roundtrip[OF rate, of ?n] 3 by auto
    have "netDebt ?b = Inr (Decimal ?n)"
      using 3 by (simp add: netDebt_def LUSD_LIQUIDATION_RESERVE_def)
    then have "whatChanged emptyTrove ?b r = Inr (Some (Creation (Decimal c) (Decimal x)))"
      using 3 assms xy(1) by (simp add: whatChanged_def trove_defs LUSD_LIQUIDATION_RESERVE_def)
    moreover have "apply_change emptyTrove (Some (Creation (Decimal c) (Decimal x))) r =
        Inr \<lparr>collateral = Decimal c, tdebt = Decimal (200 * 10 ^ 18 + y)\<rparr>"
      using xy 3 by (simp add: trove_defs LUSD_LIQUIDATION_RESERVE_def)
    ultimately show ?thesis using xy(4-6) by (auto simp: roundtrip_def reaches_def)
  qed
qed

lemma roundtrip_closure:
  assumes "0 \<le> c" "200 * 10 ^ 18 \<le> d"
  shows "roundtrip \<lparr>collateral = Decimal c, tdebt = Decimal d\<rparr> emptyTrove r \<rho>"
proof -
  let ?a = "\<lparr>collateral = Decimal c, tdebt = Decimal d\<rparr>"
  have "netDebt ?a = Inr (Decimal (d - 200 * 10 ^ 18))"
    using assms by (simp add: netDebt_def LUSD_LIQUIDATION_RESERVE_def)
  then obtain n where "whatChanged ?a emptyTrove r = Inr (Some (Closure (Decimal c) n))"
    using assms by (auto simp: whatChanged_def trove_defs)
  moreover have "apply_change ?a (Some (Closure (Decimal c) n)) r = Inr emptyTrove"
    using assms by (simp add: trove_defs)
  ultimately show ?thesis by (auto simp: roundtrip_def reaches_def)
qed

text \<open>What the two halves of an adjustment contribute.\<close>

definition debt_part :: "decimalish \<Rightarrow> int \<Rightarrow> int \<Rightarrow> int \<Rightarrow> adjustment_params \<Rightarrow> bool" where
  "debt_part r \<rho> da db ps \<longleftrightarrow>
     (\<exists>x y. repayLUSD ps = None \<and> borrowLUSD ps = Some (Decimal x) \<and> applyFee r (Decimal x) = Inr (Decimal y) \<and>
        0 \<le> y \<and> db \<le> da + y \<and> da + y \<le> db + 1 \<and> (\<rho> = 0 \<longrightarrow> da + y = db) \<and> 0 < db) \<or>
     (repayLUSD ps = Some (Decimal (da - db)) \<and> borrowLUSD ps = None \<and> db \<le> da) \<or>
     (repayLUSD ps = None \<and> borrowLUSD ps = None \<and> da = db)"

definition coll_part :: "int \<Rightarrow> int \<Rightarrow> adjustment_params \<Rightarrow> bool" where
  "coll_part ca cb ps \<longleftrightarrow>
     (withdrawCollateral ps = None \<and> depositCollateral ps = Some (Decimal (cb - ca)) \<and> ca < cb) \<or>
     (withdrawCollateral ps = Some (Decimal (ca - cb)) \<and> depositCollateral ps = None \<and> cb \<le> ca) \<or>
     (withdrawCollateral ps = None \<and> depositCollateral ps = None \<and> ca = cb)"

lemma debtChange_part:
  assumes "0 \<le> da" "0 \<le> db" and rate: "Decimal_from r = Inr (Decimal \<rho>)" "0 \<le> \<rho>" "\<rho> < DIGITS"
  shows "\<exists>ps. debtChange \<lparr>collateral = Decimal ca, tdebt = Decimal da\<rparr>
           \<lparr>collateral = Decimal cb, tdebt = Decimal db\<rparr> r no_change = Inr ps \<and> debt_part r \<rho> da db ps \<and>
           withdrawCollateral ps = None \<and> depositCollateral ps = None"
proof (cases "da < db")
  case True
  obtain x y where "unapplyFee r (Decimal (db - da)) = Inr (Decimal x)" "0 \<le> x"
      "applyFee r (Decimal x) = Inr (Decimal y)" "db - da \<le> y" "y \<le> db - da + 1" "\<rho> = 0 \<longrightarrow> y = db - da"
    using fee_roundtrip[OF rate, of "db - da"] True by auto
  with True assms show ?thesis
    by (auto simp: debtChange_def debt_part_def no_change_def)
next
  case False
  with assms show ?thesis by (auto simp: debtChange_def debt_part_def no_change_def)
qed

lemma collateralChange_part:
  assumes "0 \<le> ca" "0 \<le> cb"
  shows "\<exists>ps'. collateralChange \<lparr>collateral = Decimal ca, tdebt = Decimal da\<rparr>
           \<lparr>collateral = Decimal cb, tdebt = Decimal db\<rparr> ps = Inr ps' \<and>
           (withdrawCollateral ps = None \<and> depositCollateral ps = None \<longrightarrow> coll_part ca cb ps') \<and>
           borrowLUSD ps' = borrowLUSD ps \<and> repayLUSD ps' = repayLUSD ps"
  using assms by (cases "ca < cb") (auto simp: collateralChange_def coll_part_def)

text \<open>Applying an adjustment whose parts lead to the target, with any zero that the target has.\<close>

lemma apply_adjustment:
  assumes "0 \<le> ca" "0 \<le> da" "0 \<le> cb" "0 \<le> db" and parts: "debt_part r \<rho> da db ps" "coll_part ca cb ps"
    and z: "z = Some ZeroDebt \<longrightarrow> db = 0" "z = Some ZeroCollateral \<longrightarrow> cb = 0"
  shows "\<exists>t. apply_change \<lparr>collateral = Decimal ca, tdebt = Decimal da\<rparr> (Some (Adjustment ps z)) r = Inr t \<and>
           reaches \<rho> t \<lparr>collateral = Decimal cb, tdebt = Decimal db\<rparr>"
proof -
  let ?inc = "case borrowLUSD ps of None \<Rightarrow> Inr dec_ZERO | Some b \<Rightarrow> applyFee r b"
  let ?dd = "case repayLUSD ps of None \<Rightarrow> dec_ZERO | Some d \<Rightarrow> d"
  let ?ci = "case depositCollateral ps of None \<Rightarrow> dec_ZERO | Some c \<Rightarrow> c"
  let ?cd = "case withdrawCollateral ps of None \<Rightarrow> dec_ZERO | Some c \<Rightarrow> c"
  obtain y d where d: "?inc = Inr (Decimal y)" "?dd = Decimal d" "0 \<le> y" "0 \<le> d" "d \<le> da + y"
      "db \<le> da + y - d" "da + y - d \<le> db + 1" "\<rho> = 0 \<longrightarrow> da + y - d = db" "db = 0 \<longrightarrow> y = 0"
    by (rule that[of "case ?inc of Inr v \<Rightarrow> bigNumber v" "bigNumber ?dd"]) (use parts(1) assms(2,4) in \<open>auto simp: debt_part_def dec_ZERO_def\<close>)
  obtain i w where c: "?ci = Decimal i" "?cd = Decimal w" "0 \<le> i" "0 \<le> w" "ca + i - w = cb" "cb = 0 \<longrightarrow> i = 0"
    by (rule that[of "bigNumber ?ci" "bigNumber ?cd"]) (use parts(2) assms(1,3) in \<open>auto simp: coll_part_def dec_ZERO_def\<close>)
  consider "z = None" | "z = Some ZeroDebt" | "z = Some ZeroCollateral"
    by (cases z; cases "the z") auto
  then show ?thesis
    using assms(1-4) c d z
    by cases (auto simp: Let_def trove_add_def trove_subtract_def trove_setDebt_def trove_setCollateral_def
        trove_addCollateral_def trove_addDebt_def trove_subtractCollateral_def trove_subtractDebt_def
        reaches_def max_def dec_ZERO_def)
qed

lemma roundtrip_adjustment:
  assumes nn: "0 \<le> ca" "0 \<le> da" "0 \<le> cb" "0 \<le> db"
    and rate: "Decimal_from r = Inr (Decimal \<rho>)" "0 \<le> \<rho>" "\<rho> < DIGITS"
    and ne: "\<not> (ca = 0 \<and> da = 0)" "\<not> (cb = 0 \<and> db = 0)"
  shows "roundtrip \<lparr>collateral = Decimal ca, tdebt = Decimal da\<rparr> \<lparr>collateral = Decimal cb, tdebt = Decimal db\<rparr> r \<rho>"
    (is "roundtrip ?a ?b r \<rho>")
proof (cases "ca = cb \<and> da = db")
  case True
  then show ?thesis by (auto simp: roundtrip_def whatChanged_def reaches_def)
next
  case False
  obtain ps where ps: "debtChange ?a ?b r no_change = Inr ps" "debt_part r \<rho> da db ps"
      "withdrawCollateral ps = None" "depositCollateral ps = None"
    using debtChange_part[OF nn(2,4) rate] by blast
  obtain ps' where ps': "collateralChange ?a ?b ps = Inr ps'" "coll_part ca cb ps'"
      "borrowLUSD ps' = borrowLUSD ps" "repayLUSD ps' = repayLUSD ps"
    using collateralChange_part[OF nn(1,3)] ps(3,4) by blast
  obtain cs where cs: "collateralChange ?a ?b no_change = Inr cs" "coll_part ca cb cs"
      "borrowLUSD cs = None" "repayLUSD cs = None"
    using collateralChange_part[OF nn(1,3), of da db no_change] by (auto simp: no_change_def)
  have both: "debt_part r \<rho> da db ps'" using ps(2) ps'(3,4) by (simp add: debt_part_def)
  have only_coll: "da = db \<Longrightarrow> debt_part r \<rho> da db cs" using cs(3,4) by (simp add: debt_part_def)
  have only_debt: "ca = cb \<Longrightarrow> coll_part ca cb ps" using ps(3,4) by (simp add: coll_part_def)
  have nea: "\<not> trove_isEmpty ?a" "\<not> trove_isEmpty ?b"
    using ne by (simp_all add: trove_isEmpty_def dec_isZero_def)
  consider "ca = cb" "da \<noteq> db" | "ca \<noteq> cb" "da = db" | "ca \<noteq> cb" "da \<noteq> db" using False by blast
  then have "\<exists>qs z. whatChanged ?a ?b r = Inr (Some (Adjustment qs z)) \<and> debt_part r \<rho> da db qs \<and>
      coll_part ca cb qs \<and> (z = Some ZeroDebt \<longrightarrow> db = 0) \<and> (z = Some ZeroCollateral \<longrightarrow> cb = 0)"
  proof cases
    case 1
    then show ?thesis
      using nea ps(1,2) only_debt by (auto simp: whatChanged_def dec_isZero_def)
  next
    case 2
    then show ?thesis
      using nea cs(1,2) only_coll by (auto simp: whatChanged_def dec_isZero_def)
  next
    case 3
    then show ?thesis
      using nea ps(1) ps'(1,2) both by (auto simp: whatChanged_def dec_isZero_def)
  qed
  then show ?thesis
    using apply_adjustment[OF nn] unfolding roundtrip_def by blast
qed

lemma trove_cases:
  assumes "trove_ok t"
  obtains c d where "t = \<lparr>collateral = Decimal c, tdebt = Decimal d\<rparr>" "0 \<le> c" "0 \<le> d"
  using assms
  by (cases t; cases "collateral t"; cases "tdebt t") (auto simp: trove_ok_def)

section \<open>Facts on redistributions\<close>

lemma to_decimal_simps [simp]: "bigNumber (to_decimal n) = int n" "decimal_ok (to_decimal n)"
  by (simp_all add: to_decimal_def)

text \<open>The gain of one pool, as the SDK and as the contract compute it.\<close>

lemma pendingReward_eq:
  assumes "pendingReward L snapshot t = Inr g" and "status t = active"
  shows "snapshot \<le> L" and "int g = (int L - int snapshot) * int (stake t) div DIGITS"
  using assms
  by (auto simp: pendingReward_def rbind_Inr_iff u_Inr_iffs DIGITS_int zdiv_int of_nat_diff
      mult.commute split: if_splits)

text \<open>The totals of the contract as a Trove of the SDK, and the trove that the SDK makes of them.\<close>

definition redistribution_totals :: "trove_manager \<Rightarrow> sdk_trove" where
  "redistribution_totals s = \<lparr>collateral = to_decimal (L_COLL s), tdebt = to_decimal (L_USDDDebt s)\<rparr>"

lemma applyRedistribution_eq:
  assumes "getEntireDebtAndColl s b = Inr (d, c, pd, pc)" and "status (Troves s b) = active"
  shows "applyRedistribution (getTroveBeforeRedistribution s b) (redistribution_totals s) =
    Inr \<lparr>collateral = to_decimal c, tdebt = to_decimal d\<rparr>"
proof -
  let ?t = "Troves s b" and ?snap = "rewardSnapshots s b"
  from assms(1) have p: "pendingReward (L_USDDDebt s) (snap_USDDDebt ?snap) ?t = Inr pd"
      "pendingReward (L_COLL s) (snap_COLL ?snap) ?t = Inr pc" "d = debt ?t + pd" "c = coll ?t + pc"
    by (auto simp: getEntireDebtAndColl_def getPendingUSDDDebtReward_def getPendingCollReward_def
        rbind_Inr_iff u_Inr_iffs)
  note pd = pendingReward_eq[OF p(1) assms(2)] and pc = pendingReward_eq[OF p(2) assms(2)]
  have "trove_subtract (redistribution_totals s) (snapshotOfTotalRedistributed (getTroveBeforeRedistribution s b)) =
      Inr \<lparr>collateral = Decimal (int (L_COLL s) - int (snap_COLL ?snap)),
           tdebt = Decimal (int (L_USDDDebt s) - int (snap_USDDDebt ?snap))\<rparr>"
    using assms(2) pc(1) pd(1)
    by (simp add: trove_subtract_def redistribution_totals_def getTroveBeforeRedistribution_def Let_def
        to_decimal_def)
  then show ?thesis
    using assms(2) pd pc p(3,4)
    by (simp add: applyRedistribution_def getTroveBeforeRedistribution_def Let_def
        trove_multiply_def trove_add_def to_decimal_def)
qed

text \<open>The two readers of TroveManager agree on the amounts.\<close>

lemma current_amounts_entire:
  assumes "getCurrentTroveAmounts s b = Inr (c, d)"
  shows "\<exists>pd pc. getEntireDebtAndColl s b = Inr (d, c, pd, pc)"
  using assms
  by (auto simp: getCurrentTroveAmounts_def getEntireDebtAndColl_def rbind_Inr_iff)

text \<open>The ratio of a trove, and the comparison with the minimum, as the SDK and as the contract compute them.\<close>

lemma ratio_agrees:
  assumes "computeCR c d price = Inr icr"
  shows "collateralRatio \<lparr>collateral = to_decimal c, tdebt = to_decimal d\<rparr> (DDecimal (to_decimal price)) = Inr (to_decimal icr)"
  using assms
  by (auto simp: collateralRatio_def mulDiv_ok computeCR_Inr_iff INFINITY_def to_decimal_def zdiv_int split: if_splits)

lemma below_minimum_agrees:
  assumes "computeCR c d price = Inr icr"
  shows "collateralRatioIsBelowMinimum \<lparr>collateral = to_decimal c, tdebt = to_decimal d\<rparr> (DDecimal (to_decimal price)) = Inr (icr < MCR)"
  using ratio_agrees[OF assms] by (simp add: collateralRatioIsBelowMinimum_def MINIMUM_COLLATERAL_RATIO_def MCR_def)

lemma sdk_trove_agrees:
  assumes "getCurrentICR s b price = Inr icr" and "status (Troves s b) = active"
  shows "\<exists>t d c pd pc. applyRedistribution (getTroveBeforeRedistribution s b) (redistribution_totals s) = Inr t \<and>
           getEntireDebtAndColl s b = Inr (d, c, pd, pc) \<and>
           t = \<lparr>collateral = to_decimal c, tdebt = to_decimal d\<rparr> \<and>
           collateralRatio t (DDecimal (to_decimal price)) = Inr (to_decimal icr) \<and>
           collateralRatioIsBelowMinimum t (DDecimal (to_decimal price)) = Inr (icr < MCR)"
proof -
  from assms(1) obtain c d where amounts: "getCurrentTroveAmounts s b = Inr (c, d)" "computeCR c d price = Inr icr"
    by (auto simp: getCurrentICR_def rbind_Inr_iff)
  obtain pd pc where e: "getEntireDebtAndColl s b = Inr (d, c, pd, pc)"
    using current_amounts_entire[OF amounts(1)] by blast
  show ?thesis using applyRedistribution_eq[OF e assms(2)] e ratio_agrees[OF amounts(2)] below_minimum_agrees[OF amounts(2)] by blast
qed

section \<open>Properties\<close>

text \<open>
  C29. Differences of troves are reversible.  Let \<open>a\<close> be empty or have at least the liquidation
  reserve as debt, and let the borrowing rate be below 100 percent.  Then \<open>a.apply(a.whatChanged(b))\<close>
  never throws, has exactly the collateral of \<open>b\<close>, and has its debt or one unit of the eighteenth
  digit more; with a borrowing rate of zero it is exactly \<open>b\<close>.
\<close>

theorem trove_difference_roundtrip:
  assumes "trove_ok a" and "trove_ok b" and "trove_isEmpty a \<or> bigNumber LUSD_LIQUIDATION_RESERVE \<le> bigNumber (tdebt a)"
    and "Decimal_from r = Inr (Decimal \<rho>)" and "0 \<le> \<rho>" and "\<rho> < DIGITS"
  shows "\<exists>c t. whatChanged a b r = Inr c \<and> apply_change a c r = Inr t \<and> collateral t = collateral b \<and>
           bigNumber (tdebt b) \<le> bigNumber (tdebt t) \<and> bigNumber (tdebt t) \<le> bigNumber (tdebt b) + 1 \<and>
           (\<rho> = 0 \<longrightarrow> t = b)"
proof -
  obtain ca da where a: "a = \<lparr>collateral = Decimal ca, tdebt = Decimal da\<rparr>" "0 \<le> ca" "0 \<le> da"
    using trove_cases[OF assms(1)] .
  obtain cb db where b: "b = \<lparr>collateral = Decimal cb, tdebt = Decimal db\<rparr>" "0 \<le> cb" "0 \<le> db"
    using trove_cases[OF assms(2)] .
  consider "ca = 0 \<and> da = 0" | "200 * 10 ^ 18 \<le> da" "cb = 0 \<and> db = 0" | "\<not> (ca = 0 \<and> da = 0)" "\<not> (cb = 0 \<and> db = 0)"
    using assms(3) by (auto simp: a trove_isEmpty_def dec_isZero_def LUSD_LIQUIDATION_RESERVE_def)
  then have "roundtrip a b r \<rho>"
  proof cases
    case 1
    then have "a = emptyTrove" by (simp add: a trove_defs)
    then show ?thesis using roundtrip_creation[OF b(2,3) assms(4-6)] b(1) by simp
  next
    case 2
    then have "b = emptyTrove" by (simp add: b trove_defs)
    then show ?thesis using roundtrip_closure[OF a(2) 2(1)] a(1) by simp
  next
    case 3
    then show ?thesis using roundtrip_adjustment[OF a(2,3) b(2,3) assms(4-6)] a(1) b(1) by simp
  qed
  then show ?thesis by (simp add: roundtrip_def reaches_def)
qed

theorem trove_difference_roundtrip_witness:
  "\<exists>c t. whatChanged emptyTrove \<lparr>collateral = dec_ONE, tdebt = Decimal (2000 * 10 ^ 18)\<rparr> (DDecimal MINIMUM_BORROWING_RATE) = Inr c \<and>
     apply_change emptyTrove c (DDecimal MINIMUM_BORROWING_RATE) = Inr t \<and> collateral t = dec_ONE"
  using trove_difference_roundtrip[of emptyTrove "\<lparr>collateral = dec_ONE, tdebt = Decimal (2000 * 10 ^ 18)\<rparr>"
      "DDecimal MINIMUM_BORROWING_RATE" "5 * 10 ^ 15"]
  by (auto simp: trove_ok_def trove_defs MINIMUM_BORROWING_RATE_def DIGITS_def)

text \<open>
  C30. The SDK's arithmetic agrees with the contract on every active trove: whenever
  TroveManager returns the current collateral ratio (no overflow, no revert), \<open>applyRedistribution\<close> on the trove as it is stored,
  given the totals \<open>L_COLL\<close> and \<open>L_USDDDebt\<close> as a Trove, has exactly the collateral and debt of \<open>getEntireDebtAndColl\<close>,
  the same collateral ratio, and is below the SDK's minimum ratio exactly when the contract's ratio is below MCR.  (How the
  SDK asks for the totals is another matter: \<open>getTotalRedistributed\<close>.)
\<close>

theorem sdk_redistribution_agrees_with_contract:
  assumes "getCurrentICR s b price = Inr icr" and "status (Troves s b) = active"
  shows "\<exists>t d c pd pc. applyRedistribution (getTroveBeforeRedistribution s b)
             \<lparr>collateral = to_decimal (L_COLL s), tdebt = to_decimal (L_USDDDebt s)\<rparr> = Inr t \<and>
           getEntireDebtAndColl s b = Inr (d, c, pd, pc) \<and>
           t = \<lparr>collateral = to_decimal c, tdebt = to_decimal d\<rparr> \<and>
           collateralRatio t (DDecimal (to_decimal price)) = Inr (to_decimal icr) \<and>
           collateralRatioIsBelowMinimum t (DDecimal (to_decimal price)) = Inr (icr < MCR)"
  using sdk_trove_agrees[OF assms] by (simp add: redistribution_totals_def)

text \<open>A storage with one trove of 2 ETH and 300 USDD that a redistribution has changed.\<close>

definition demo_redistributed :: trove_manager where
  "demo_redistributed = fresh_trove_manager\<lparr>L_COLL := 10 ^ 17, L_USDDDebt := 5 * 10 ^ 19,
     Troves := (\<lambda>_. empty_trove\<lparr>coll := 2 * 10 ^ 18, debt := 3 * 10 ^ 20, stake := 2 * 10 ^ 18, status := active\<rparr>)\<rparr>"

theorem sdk_redistribution_agrees_with_contract_witness:
  "\<exists>t. applyRedistribution (getTroveBeforeRedistribution demo_redistributed 7)
       \<lparr>collateral = Decimal (10 ^ 17), tdebt = Decimal (5 * 10 ^ 19)\<rparr> = Inr t \<and>
     collateralRatioIsBelowMinimum t (DDecimal (to_decimal (2 * 10 ^ 20))) = Inr (1100000000000000000 < MCR)"
proof -
  have "getCurrentICR demo_redistributed 7 (2 * 10 ^ 20) = Inr 1100000000000000000"
    by (simp add: demo_redistributed_def fresh_trove_manager_def empty_trove_def getCurrentICR_def
        getCurrentTroveAmounts_def getPendingCollReward_def getPendingUSDDDebtReward_def pendingReward_def
        computeCR_def DECIMAL_PRECISION_def)
  moreover have "status (Troves demo_redistributed 7) = active" by (simp add: demo_redistributed_def)
  moreover have "to_decimal (L_COLL demo_redistributed) = Decimal (10 ^ 17)"
    "to_decimal (L_USDDDebt demo_redistributed) = Decimal (5 * 10 ^ 19)"
    by (simp_all add: demo_redistributed_def to_decimal_def)
  ultimately show ?thesis using sdk_redistribution_agrees_with_contract[of demo_redistributed 7 "2 * 10 ^ 20"] by metis
qed

end
