(* ===== verification/Multi_Trove_Getter.thy ===== *)
theory Multi_Trove_Getter
  imports Sorted_Troves Trove_Manager
begin

text \<open>
  \<open>contracts/MultiTroveGetter.sol\<close>: reading a window of the sorted list together with the storage of
  TroveManager, from the head (a start index of at least 0) or from the tail (a negative one).  It is
  the query behind \<open>getTroves\<close> of the SDK.
\<close>

section \<open>Operations\<close>

record CombinedTroveData =
  cd_owner :: address
  cd_debt :: nat
  cd_coll :: nat
  cd_stake :: nat
  cd_snapshotETH :: nat
  cd_snapshotUSDDDebt :: nat

definition combinedTroveData :: "trove_manager \<Rightarrow> address \<Rightarrow> CombinedTroveData" where
  "combinedTroveData tm a =
     \<lparr>cd_owner = a, cd_debt = debt (Troves tm a), cd_coll = coll (Troves tm a), cd_stake = stake (Troves tm a),
      cd_snapshotETH = snap_COLL (rewardSnapshots tm a),
      cd_snapshotUSDDDebt = snap_USDDDebt (rewardSnapshots tm a)\<rparr>"

text \<open>The two loops: skip \<open>startIdx\<close> nodes, then fill \<open>count\<close> entries.\<close>

fun skip_nodes :: "(address \<Rightarrow> address) \<Rightarrow> nat \<Rightarrow> address \<Rightarrow> address" where
  "skip_nodes step 0 a = a"
| "skip_nodes step (Suc i) a = skip_nodes step i (step a)"

fun collect_nodes :: "(address \<Rightarrow> address) \<Rightarrow> trove_manager \<Rightarrow> nat \<Rightarrow> address \<Rightarrow> CombinedTroveData list" where
  "collect_nodes step tm 0 a = []"
| "collect_nodes step tm (Suc c) a = combinedTroveData tm a # collect_nodes step tm c (step a)"

definition getMultipleSortedTrovesFromHead ::
  "sorted_troves \<Rightarrow> trove_manager \<Rightarrow> nat \<Rightarrow> nat \<Rightarrow> CombinedTroveData list" where
  "getMultipleSortedTrovesFromHead l tm startIdx cnt =
     collect_nodes (getNext l) tm cnt (skip_nodes (getNext l) startIdx (head l))"

definition getMultipleSortedTrovesFromTail ::
  "sorted_troves \<Rightarrow> trove_manager \<Rightarrow> nat \<Rightarrow> nat \<Rightarrow> CombinedTroveData list" where
  "getMultipleSortedTrovesFromTail l tm startIdx cnt =
     collect_nodes (getPrev l) tm cnt (skip_nodes (getPrev l) startIdx (tail l))"

definition getMultipleSortedTroves ::
  "sorted_troves \<Rightarrow> trove_manager \<Rightarrow> int \<Rightarrow> nat \<Rightarrow> CombinedTroveData list" where
  "getMultipleSortedTroves l tm startIdx0 cnt0 =
     (let descend = 0 \<le> startIdx0;
          startIdx = (if descend then nat startIdx0 else nat (- (startIdx0 + 1)));
          sortedTrovesSize = st_size l
      in if sortedTrovesSize \<le> startIdx then []
         else let maxCount = sortedTrovesSize - startIdx;
                  cnt = (if cnt0 > maxCount then maxCount else cnt0)
              in if descend then getMultipleSortedTrovesFromHead l tm startIdx cnt
                 else getMultipleSortedTrovesFromTail l tm startIdx cnt)"

section \<open>Walking a chain\<close>

text \<open>\<open>step\<close> leads from each element of the list to the next one.\<close>

definition chained :: "(address \<Rightarrow> address) \<Rightarrow> address list \<Rightarrow> bool" where
  "chained step xs \<longleftrightarrow> (\<forall>i. Suc i < length xs \<longrightarrow> step (xs ! i) = xs ! Suc i)"

lemma skip_nodes_chain:
  "chained step xs \<Longrightarrow> j + i < length xs \<Longrightarrow> skip_nodes step i (xs ! j) = xs ! (j + i)"
proof (induction i arbitrary: j)
  case 0
  then show ?case by simp
next
  case (Suc i)
  then show ?case using Suc.IH[of "Suc j"] by (simp add: chained_def)
qed

lemma collect_nodes_chain:
  "chained step xs \<Longrightarrow> j < length xs \<Longrightarrow> c \<le> length xs - j \<Longrightarrow>
   collect_nodes step tm c (xs ! j) = map (combinedTroveData tm) (take c (drop j xs))"
proof (induction c arbitrary: j)
  case 0
  then show ?case by simp
next
  case (Suc c)
  have d: "drop j xs = xs ! j # drop (Suc j) xs" using Suc.prems(2) by (simp add: Cons_nth_drop_Suc)
  show ?case
  proof (cases "Suc j < length xs")
    case True
    with Suc.IH[of "Suc j"] Suc.prems have "collect_nodes step tm c (xs ! Suc j) =
        map (combinedTroveData tm) (take c (drop (Suc j) xs))" by simp
    with True Suc.prems(1) show ?thesis unfolding d by (simp add: chained_def)
  next
    case False
    with Suc.prems have "c = 0" by simp
    then show ?thesis unfolding d by simp
  qed
qed

lemma window:
  assumes "chained step xs" and "i < length xs" and "c \<le> length xs - i"
  shows "collect_nodes step tm c (skip_nodes step i (hd xs)) = map (combinedTroveData tm) (take c (drop i xs))"
proof -
  have "hd xs = xs ! 0" using assms(2) by (cases xs) simp_all
  then show ?thesis
    using skip_nodes_chain[OF assms(1), of 0 i] collect_nodes_chain[OF assms] assms(2) by simp
qed

lemma list_inv_chained:
  assumes "list_inv l xs"
  shows "chained (getNext l) xs" "chained (getPrev l) (rev xs)"
proof -
  have links: "getNext l (xs ! i) = xs ! Suc i \<and> getPrev l (xs ! Suc i) = xs ! i" if "Suc i < length xs" for i
  proof -
    have xs: "xs = take i xs @ xs ! i # xs ! Suc i # drop (Suc (Suc i)) xs"
      using that by (simp add: Cons_nth_drop_Suc id_take_nth_drop)
    show ?thesis
      using list_inv_links(1)[of l "take i xs" "xs ! i" "xs ! Suc i # drop (Suc (Suc i)) xs"]
        list_inv_links(2)[of l "take i xs @ [xs ! i]" "xs ! Suc i" "drop (Suc (Suc i)) xs"] assms xs
      by (simp add: getNext_def getPrev_def)
  qed
  then show "chained (getNext l) xs" by (simp add: chained_def)
  have "getPrev l (rev xs ! i) = rev xs ! Suc i" if "Suc i < length xs" for i
    using links[of "length xs - Suc (Suc i)"] that by (simp add: rev_nth Suc_diff_Suc)
  then show "chained (getPrev l) (rev xs)" by (simp add: chained_def)
qed

lemma list_inv_ends:
  assumes "list_inv l xs" "xs \<noteq> []"
  shows "head l = hd xs" "tail l = hd (rev xs)"
  using assms by (auto simp: list_inv_def final_def neq_Nil_conv hd_rev)

lemma window_of_list:
  assumes "list_inv l xs"
  shows "getMultipleSortedTroves l tm (int i) n = map (combinedTroveData tm) (take n (drop i xs))"
    and "getMultipleSortedTroves l tm (- (int i + 1)) n = map (combinedTroveData tm) (take n (drop i (rev xs)))"
proof -
  have "getMultipleSortedTroves l tm (int i) n = map (combinedTroveData tm) (take n (drop i xs)) \<and>
      getMultipleSortedTroves l tm (- (int i + 1)) n = map (combinedTroveData tm) (take n (drop i (rev xs)))"
  proof (cases "i < length xs")
    case True
    then have ne: "xs \<noteq> []" by auto
    have size: "st_size l = length xs" using assms by (simp add: list_inv_def)
    let ?c = "if n > length xs - i then length xs - i else n"
    have c: "?c \<le> length xs - i" by simp
    have "take ?c (drop i xs) = take n (drop i xs)" "take ?c (drop i (rev xs)) = take n (drop i (rev xs))"
      by simp_all
    then show ?thesis
      using True size window[OF list_inv_chained(1)[OF assms] True c, of tm]
        window[OF list_inv_chained(2)[OF assms], of i ?c tm] list_inv_ends[OF assms ne] c
      by (simp add: getMultipleSortedTroves_def getMultipleSortedTrovesFromHead_def
          getMultipleSortedTrovesFromTail_def Let_def)
  next
    case False
    then show ?thesis
      using assms by (simp add: getMultipleSortedTroves_def list_inv_def Let_def)
  qed
  then show "getMultipleSortedTroves l tm (int i) n = map (combinedTroveData tm) (take n (drop i xs))"
    and "getMultipleSortedTroves l tm (- (int i + 1)) n = map (combinedTroveData tm) (take n (drop i (rev xs)))"
    by simp_all
qed

section \<open>Properties\<close>

text \<open>
  On a well-linked list \<open>getMultipleSortedTroves(i, n)\<close> returns the window of \<open>n\<close> troves from
  position \<open>i\<close> in descending order of their ratios, and \<open>getMultipleSortedTroves(-(i + 1), n)\<close> the window
  from position \<open>i\<close> in ascending order, both cut at the end of the list and both empty beyond it.
\<close>

theorem getMultipleSortedTroves_window:
  assumes "list_inv l xs"
  shows "getMultipleSortedTroves l tm (int i) n = map (combinedTroveData tm) (take n (drop i xs)) \<and>
         getMultipleSortedTroves l tm (- (int i + 1)) n = map (combinedTroveData tm) (take n (drop i (rev xs)))"
  using window_of_list[OF assms, of tm i n] by simp

theorem getMultipleSortedTroves_window_witness:
  "map cd_owner (getMultipleSortedTroves demo_list fresh_trove_manager 0 9) = [7, 5] \<and>
   map cd_owner (getMultipleSortedTroves demo_list fresh_trove_manager (- 1) 1) = [5]"
  using getMultipleSortedTroves_window[of demo_list "[7, 5]" fresh_trove_manager 0 9]
    getMultipleSortedTroves_window[of demo_list "[7, 5]" fresh_trove_manager 0 1] demo_list_ok
  by (simp add: list_ok_def combinedTroveData_def)

end
