(* ===== verification/Liqbot.thy ===== *)
theory Liqbot
  imports Lib_Trove Multi_Trove_Getter
begin

text \<open>
  The liquidation bot \<open>packages/examples/src/liqbot.js\<close>, on top of the SDK (\<open>Lib_Decimal\<close>,
  \<open>Lib_Trove\<close>) and of the window query of \<open>Multi_Trove_Getter\<close>.  The node and the wallet are a
  parameter (\<open>bot_api\<close>): the gas price, the troves, the price in the store when it is read, the
  populated liquidation and what sending it gives.  The world is the list of transactions sent and
  the lines logged (their colours and time stamps left out).
\<close>

section \<open>The query: getTroves of lib-ethers\<close>

record user_trove = sdk_trove +
  u_owner :: address

definition mapBackendTroves :: "CombinedTroveData list \<Rightarrow> pending_trove list" where
  "mapBackendTroves cs = map (\<lambda>d.
     \<lparr>collateral = to_decimal (cd_coll d), tdebt = to_decimal (cd_debt d), ownerAddress = cd_owner d,
      tstatus = active, tstake = to_decimal (cd_stake d),
      snapshotOfTotalRedistributed =
        \<lparr>collateral = to_decimal (cd_snapshotETH d), tdebt = to_decimal (cd_snapshotUSDDDebt d)\<rparr>\<rparr>) cs"

fun map_res :: "('a \<Rightarrow> 'b res) \<Rightarrow> 'a list \<Rightarrow> 'b list res" where
  "map_res f [] = Inr []"
| "map_res f (x # xs) = rbind (f x) (\<lambda>y. rbind (map_res f xs) (\<lambda>ys. Inr (y # ys)))"

definition to_user_trove :: "address \<Rightarrow> sdk_trove \<Rightarrow> user_trove" where
  "to_user_trove a t = \<lparr>collateral = collateral t, tdebt = tdebt t, u_owner = a\<rparr>"

text \<open>\<open>sortedBy\<close> is \<open>ascendingCollateralRatio\<close>, \<open>startingAt\<close> is omitted.\<close>

definition getTroves_ascending :: "sorted_troves \<Rightarrow> trove_manager \<Rightarrow> nat \<Rightarrow> user_trove list res" where
  "getTroves_ascending l tm count_first =
     rbind (getTotalRedistributed tm) (\<lambda>totalRedistributed.
     map_res (\<lambda>t. rbind (applyRedistribution t totalRedistributed) (\<lambda>u. Inr (to_user_trove (ownerAddress t) u)))
       (mapBackendTroves (getMultipleSortedTroves l tm (- (0 + 1)) count_first)))"

section \<open>Choosing the troves\<close>

definition underCollateralized :: "decimal \<Rightarrow> user_trove \<Rightarrow> bool res" where
  "underCollateralized price t = collateralRatioIsBelowMinimum (sdk_trove.truncate t) (DDecimal price)"

definition byDescendingCollateral :: "user_trove \<Rightarrow> user_trove \<Rightarrow> int" where
  "byDescendingCollateral t u =
     (let a = bigNumber (collateral t); b = bigNumber (collateral u)
      in if b > a then 1 else if b < a then - 1 else 0)"

fun filter_res :: "('a \<Rightarrow> bool res) \<Rightarrow> 'a list \<Rightarrow> 'a list res" where
  "filter_res p [] = Inr []"
| "filter_res p (x # xs) =
     rbind (p x) (\<lambda>b. rbind (filter_res p xs) (\<lambda>ys. Inr (if b then x # ys else ys)))"

text \<open>\<open>Array.prototype.sort\<close> with a comparator is stable.\<close>

fun insert_by :: "('a \<Rightarrow> 'a \<Rightarrow> int) \<Rightarrow> 'a \<Rightarrow> 'a list \<Rightarrow> 'a list" where
  "insert_by cmp x [] = [x]"
| "insert_by cmp x (y # ys) = (if cmp x y \<le> 0 then x # y # ys else y # insert_by cmp x ys)"

definition stable_sort :: "('a \<Rightarrow> 'a \<Rightarrow> int) \<Rightarrow> 'a list \<Rightarrow> 'a list" where
  "stable_sort cmp xs = foldr (insert_by cmp) xs []"

definition candidates :: "decimal \<Rightarrow> user_trove list \<Rightarrow> user_trove list res" where
  "candidates price riskiestTroves =
     rbind (filter_res (underCollateralized price) riskiestTroves) (\<lambda>ts.
       Inr (take 40 (stable_sort byDescendingCollateral ts)))"

section \<open>The outside world\<close>

datatype log_line = Info string | Warn string | Err string | Success string | ConsoleError js_error

record bot_world =
  sent :: "address list list"
  console :: "log_line list"

record receipt_details =
  collateralGasCompensation :: decimal
  usddGasCompensation :: "decimal option"
  liquidatedAddresses :: "address list"

datatype receipt = Failed string | Confirmed receipt_details nat

text \<open>Sending may be rejected; once sent, waiting for the receipt may fail.\<close>

record populated =
  gasLimit :: nat
  send_result :: "receipt res res"

record bot_api =
  api_getGasPrice :: "nat res"
  api_getTroves :: "user_trove list res"
  api_price :: "nat \<Rightarrow> decimal"
  api_liquidate :: "address list \<Rightarrow> decimal \<Rightarrow> populated res"

definition say :: "log_line \<Rightarrow> (bot_world, unit) js" where
  "say l = jmodify (\<lambda>w. w\<lparr>console := console w @ [l]\<rparr>)"

section \<open>The imported constant\<close>

text \<open>
  The constants that \<open>@liquity/lib-base\<close> exports (but \<open>LUSD_MINIMUM_DEBT\<close>, the sum of two of them); no
  module of the package exports a name that starts with USDD.
\<close>

definition lib_base_constants :: "(string \<times> decimal) list" where
  "lib_base_constants =
     [(''CRITICAL_COLLATERAL_RATIO'', CRITICAL_COLLATERAL_RATIO), (''MINIMUM_COLLATERAL_RATIO'', MINIMUM_COLLATERAL_RATIO),
      (''LUSD_LIQUIDATION_RESERVE'', LUSD_LIQUIDATION_RESERVE), (''LUSD_MINIMUM_NET_DEBT'', LUSD_MINIMUM_NET_DEBT),
      (''MINIMUM_BORROWING_RATE'', MINIMUM_BORROWING_RATE), (''MAXIMUM_BORROWING_RATE'', MAXIMUM_BORROWING_RATE),
      (''MINIMUM_REDEMPTION_RATE'', MINIMUM_REDEMPTION_RATE)]"

definition USDD_LIQUIDATION_RESERVE :: "decimal option" where
  "USDD_LIQUIDATION_RESERVE = map_of lib_base_constants ''USDD_LIQUIDATION_RESERVE''"

section \<open>tryToLiquidate\<close>

definition num :: "nat \<Rightarrow> decimalish" where
  "num n = DNumber (show_nat n)"

definition gas_cost :: "decimal \<Rightarrow> nat \<Rightarrow> decimal \<Rightarrow> decimal res" where
  "gas_cost gasPrice gas price =
     rbind (bn_toNumber gas) (\<lambda>g. rbind (dec_mul gasPrice (num g)) (\<lambda>c. dec_mul c (DDecimal price)))"

text \<open>\<open>troves.reduce((a, b) => a.add(b))\<close> without an initial value.\<close>

fun reduce_troves :: "sdk_trove \<Rightarrow> user_trove list \<Rightarrow> sdk_trove res" where
  "reduce_troves a [] = Inr a"
| "reduce_troves a (t # ts) = rbind (trove_add a (sdk_trove.truncate t)) (\<lambda>s. reduce_troves s ts)"

definition sum_troves :: "user_trove list \<Rightarrow> sdk_trove res" where
  "sum_troves ts = (case ts of [] \<Rightarrow> Inl TypeError | t # ts \<Rightarrow> reduce_troves (sdk_trove.truncate t) ts)"

text \<open>A method call on the imported name throws when it is \<open>undefined\<close>.\<close>

definition expected_compensation :: "decimal \<Rightarrow> user_trove list \<Rightarrow> decimal res" where
  "expected_compensation price troves =
     rbind (sum_troves troves) (\<lambda>t.
     rbind (dec_mul (collateral t) (DNumber ''0.005'')) (\<lambda>x.
     rbind (dec_mul x (DDecimal price)) (\<lambda>y.
     rbind (case USDD_LIQUIDATION_RESERVE of None \<Rightarrow> Inl TypeError | Some r \<Rightarrow> dec_mul r (num (length troves))) (\<lambda>z.
     dec_add y (DDecimal z)))))"

definition skip_message :: "decimal \<Rightarrow> decimal \<Rightarrow> string res" where
  "skip_message expectedCost expectedCompensation =
     rbind (dec_toString expectedCost (Some 2)) (\<lambda>a. rbind (dec_toString expectedCompensation (Some 2)) (\<lambda>b.
       Inr (''Skipping liquidation due to high TX cost ($'' @ a @ '' > $'' @ b @ '').'')))"

definition undefined_decimalish :: "decimal option \<Rightarrow> decimal res" where
  "undefined_decimalish d = (case d of None \<Rightarrow> Inl (Thrown ''invalid Decimalish value'') | Some x \<Rightarrow> Inr x)"

definition success_message :: "decimal \<Rightarrow> decimal \<Rightarrow> receipt_details \<Rightarrow> nat \<Rightarrow> string res" where
  "success_message gasPrice price d gasUsed =
     rbind (gas_cost gasPrice gasUsed price) (\<lambda>gasCost.
     rbind (dec_mul (collateralGasCompensation d) (DDecimal price)) (\<lambda>c.
     rbind (undefined_decimalish (usddGasCompensation d)) (\<lambda>u.
     rbind (dec_add c (DDecimal u)) (\<lambda>totalCompensation.
     rbind (dec_toString (collateralGasCompensation d) (Some 4)) (\<lambda>eth.
     rbind (dec_toString u (Some 2)) (\<lambda>usdd.
     rbind (dec_gte totalCompensation (DDecimal gasCost)) (\<lambda>profit.
     rbind (if profit
            then rbind (dec_sub totalCompensation (DDecimal gasCost)) (\<lambda>p. rbind (dec_toString p (Some 2)) (\<lambda>s. Inr (''$'' @ s @ '' profit'')))
            else rbind (dec_sub gasCost (DDecimal totalCompensation)) (\<lambda>p. rbind (dec_toString p (Some 2)) (\<lambda>s. Inr (''$'' @ s @ '' loss''))))
       (\<lambda>result.
       Inr (''Received '' @ eth @ '' ETH + '' @ usdd @ '' USDD compensation ('' @ result @
            '') for liquidating '' @ show_nat (length (liquidatedAddresses d)) @ '' Trove(s).'')))))))))"

definition send_liquidation ::
  "bot_api \<Rightarrow> decimal \<Rightarrow> address list \<Rightarrow> populated \<Rightarrow> (bot_world, unit) js" where
  "send_liquidation api gasPrice addresses liquidation =
     jbind (say (Info (''Attempting to liquidate '' @ show_nat (length addresses) @ '' Trove(s)...''))) (\<lambda>_.
     jbind (jlift (send_result liquidation)) (\<lambda>tx.
     jbind (jmodify (\<lambda>w. w\<lparr>sent := sent w @ [addresses]\<rparr>)) (\<lambda>_.
     jbind (jlift tx) (\<lambda>receipt.
       case receipt of
         Failed hash \<Rightarrow> say (Err (''TX '' @ hash @ '' failed.''))
       | Confirmed details gasUsed \<Rightarrow>
           jbind (jlift (success_message gasPrice (api_price api 2) details gasUsed)) (\<lambda>s. say (Success s))))))"

text \<open>The body of the \<open>try\<close>.\<close>

definition attempt_liquidation ::
  "bot_api \<Rightarrow> decimal \<Rightarrow> user_trove list \<Rightarrow> (bot_world, unit) js" where
  "attempt_liquidation api gasPrice troves =
     (let addresses = map u_owner troves
      in jbind (jlift (api_liquidate api addresses gasPrice)) (\<lambda>liquidation.
         jbind (jlift (gas_cost gasPrice (gasLimit liquidation) (api_price api 1))) (\<lambda>expectedCost.
         jbind (jlift (expected_compensation (api_price api 1) troves)) (\<lambda>expectedCompensation.
         jbind (jlift (dec_gt expectedCost (DDecimal expectedCompensation))) (\<lambda>too_high.
           if too_high
           then jbind (jlift (skip_message expectedCost expectedCompensation)) (\<lambda>s. say (Warn s))
           else send_liquidation api gasPrice addresses liquidation)))))"

definition tryToLiquidate :: "bot_api \<Rightarrow> (bot_world, unit) js" where
  "tryToLiquidate api =
     jbind (jlift (rbind (api_getGasPrice api) decimalify)) (\<lambda>gasPrice.
     jbind (jlift (api_getTroves api)) (\<lambda>riskiestTroves.
     jbind (jlift (candidates (api_price api 0) riskiestTroves)) (\<lambda>troves.
       if length troves = 0 then jret ()
       else jbind (jtry (attempt_liquidation api gasPrice troves)) (\<lambda>r.
              case r of Inr _ \<Rightarrow> jret ()
              | Inl e \<Rightarrow> jbind (say (Err ''Unexpected error:'')) (\<lambda>_. say (ConsoleError e))))))"

section \<open>The main function\<close>

text \<open>
  The store reports that it has loaded, and every change of its state (new price, old price).  A run
  of \<open>tryToLiquidate\<close> is not awaited: its rejection reaches nobody.
\<close>

datatype store_event = Loaded | Changed decimal decimal

definition on_store_event :: "bot_api \<times> store_event \<Rightarrow> (bot_world, unit res) js" where
  "on_store_event = (\<lambda>(api, e). case e of
     Loaded \<Rightarrow> jbind (say (Info ''Waiting for price drops...'')) (\<lambda>_. jtry (tryToLiquidate api))
   | Changed newPrice oldPrice \<Rightarrow>
       jbind (jlift (dec_lt newPrice (DDecimal oldPrice))) (\<lambda>drop.
         if drop then jtry (tryToLiquidate api) else jret (Inr ())))"

definition liqbot :: "(bot_api \<times> store_event) list \<Rightarrow> (bot_world, unit res list) js" where
  "liqbot events = jfor on_store_event events"

section \<open>Facts on the choice\<close>

lemma insert_by_insort:
  "insert_by byDescendingCollateral t ts = insort_key (\<lambda>t. - bigNumber (collateral t)) t ts"
  by (induction ts) (simp_all add: byDescendingCollateral_def Let_def)

lemma stable_sort_eq:
  "stable_sort byDescendingCollateral ts = sort_key (\<lambda>t. - bigNumber (collateral t)) ts"
proof -
  have "insert_by byDescendingCollateral = insort_key (\<lambda>t. - bigNumber (collateral t))"
    by (rule ext, rule ext, rule insert_by_insort)
  then show ?thesis by (simp add: stable_sort_def sort_key_def)
qed

lemma filter_res_pure:
  "(\<And>x. x \<in> set xs \<Longrightarrow> p x = Inr (P x)) \<Longrightarrow> filter_res p xs = Inr (filter P xs)"
  by (induction xs) simp_all

text \<open>The first \<open>n\<close> of a list sorted by descending collateral.\<close>

lemma top_by_collateral:
  fixes n :: nat and ts :: "user_trove list"
  defines "us \<equiv> take n (sort_key (\<lambda>t. - bigNumber (collateral t)) ts)"
  shows "set us \<subseteq> set ts" "length us = min n (length ts)" "length ts \<le> n \<Longrightarrow> set us = set ts"
    "sorted_wrt (\<lambda>t u. bigNumber (collateral t) \<ge> bigNumber (collateral u)) us"
    "t \<in> set ts \<Longrightarrow> t \<notin> set us \<Longrightarrow> u \<in> set us \<Longrightarrow> bigNumber (collateral t) \<le> bigNumber (collateral u)"
proof -
  let ?s = "sort_key (\<lambda>t. - bigNumber (collateral t)) ts"
  have sorted: "sorted_wrt (\<lambda>t u. bigNumber (collateral t) \<ge> bigNumber (collateral u)) ?s"
    using sorted_sort_key[of "\<lambda>t. - bigNumber (collateral t)" ts] by (simp add: sorted_map)
  show "set us \<subseteq> set ts" unfolding us_def by (auto dest: in_set_takeD)
  show "length us = min n (length ts)" by (simp add: us_def)
  show "length ts \<le> n \<Longrightarrow> set us = set ts" by (simp add: us_def)
  show "sorted_wrt (\<lambda>t u. bigNumber (collateral t) \<ge> bigNumber (collateral u)) us"
    unfolding us_def by (rule sorted_wrt_take[OF sorted])
  assume t: "t \<in> set ts" "t \<notin> set us" and u: "u \<in> set us"
  have both: "us @ drop n ?s = ?s" by (simp add: us_def)
  have "sorted_wrt (\<lambda>t u. bigNumber (collateral t) \<ge> bigNumber (collateral u)) (us @ drop n ?s)"
    by (simp only: both sorted)
  moreover have "t \<in> set (us @ drop n ?s)" using t(1) by (simp only: both set_sort)
  ultimately show "bigNumber (collateral t) \<le> bigNumber (collateral u)"
    using t(2) u by (simp add: sorted_wrt_append)
qed

section \<open>Facts on the query\<close>

text \<open>The getters that the SDK calls are not the contract's, so every query of the totals is reverted.\<close>

lemma getTotalRedistributed_reverts: "getTotalRedistributed s = Inl (Thrown ''call revert exception'')"
  by (simp add: getTotalRedistributed_def troveManager_getter_def)

lemma getTroves_reverts: "getTroves_ascending l tm n = Inl (Thrown ''call revert exception'')"
  by (simp add: getTroves_ascending_def getTotalRedistributed_reverts)

lemma getTrove_reverts: "getTrove s b = Inl (Thrown ''call revert exception'')"
  by (simp add: getTrove_def getTotalRedistributed_reverts)

section \<open>Facts on a run\<close>

lemma show_nat_read [simp]: "Decimal_from (num n) = Inr (Decimal (int n * DIGITS))"
  using fromString_integer[OF show_nat_digits_only, of n] by (simp add: num_def)

lemma dec_mul_num [simp]: "decimal_ok d \<Longrightarrow> dec_mul d (num n) = Inr (Decimal (bigNumber d * int n))"
  by (simp add: dec_mul_def decimal_ok_def mult.assoc[symmetric])

lemma dec_mul_half_percent [simp]:
  "decimal_ok d \<Longrightarrow> dec_mul d (DNumber ''0.005'') = Inr (Decimal (bigNumber d * (5 * 10 ^ 15) div DIGITS))"
  using constants_read(6)
  by (simp add: dec_mul_def decimal_ok_def MINIMUM_BORROWING_RATE_def pos_imp_zdiv_nonneg_iff)

lemma gas_cost_ok:
  assumes "decimal_ok gp" "decimal_ok price" "g < 2 ^ 53"
  shows "gas_cost gp g price = Inr (Decimal (bigNumber gp * int g * bigNumber price div DIGITS))"
  using assms by (simp add: gas_cost_def bn_toNumber_def decimal_ok_def)

definition user_trove_ok :: "user_trove \<Rightarrow> bool" where
  "user_trove_ok t \<longleftrightarrow> decimal_ok (collateral t) \<and> decimal_ok (tdebt t)"

definition total_collateral :: "user_trove list \<Rightarrow> int" where
  "total_collateral ts = sum_list (map (\<lambda>t. bigNumber (collateral t)) ts)"

lemma reduce_troves_ok:
  assumes "\<forall>t \<in> set ts. user_trove_ok t" and "trove_ok a"
  shows "\<exists>s. reduce_troves a ts = Inr s \<and> trove_ok s \<and>
           bigNumber (collateral s) = bigNumber (collateral a) + total_collateral ts"
  using assms
proof (induction ts arbitrary: a)
  case Nil
  then show ?case by (simp add: total_collateral_def)
next
  case (Cons t ts)
  let ?s = "\<lparr>collateral = Decimal (bigNumber (collateral a) + bigNumber (collateral t)),
              tdebt = Decimal (bigNumber (tdebt a) + bigNumber (tdebt t))\<rparr>"
  have "trove_add a (sdk_trove.truncate t) = Inr ?s" "trove_ok ?s"
    using Cons.prems by (simp_all add: trove_add_def user_trove_ok_def trove_ok_def sdk_trove.defs decimal_ok_def)
  with Cons.IH[of ?s] Cons.prems show ?case by (auto simp: total_collateral_def)
qed

lemma sum_troves_ok:
  assumes "\<forall>t \<in> set ts. user_trove_ok t" and "ts \<noteq> []"
  shows "\<exists>s. sum_troves ts = Inr s \<and> decimal_ok (collateral s) \<and> bigNumber (collateral s) = total_collateral ts"
proof -
  obtain t us where ts: "ts = t # us" using assms(2) by (cases ts) auto
  have "trove_ok (sdk_trove.truncate t)" using assms(1) ts by (simp add: trove_ok_def user_trove_ok_def sdk_trove.defs)
  from reduce_troves_ok[OF _ this, of us] show ?thesis
    using assms(1) ts by (auto simp: sum_troves_def total_collateral_def sdk_trove.defs trove_ok_def)
qed

lemma total_collateral_nonneg: "\<forall>t \<in> set ts. user_trove_ok t \<Longrightarrow> 0 \<le> total_collateral ts"
  unfolding total_collateral_def by (intro sum_list_nonneg) (auto simp: user_trove_ok_def decimal_ok_def)

lemma no_usdd_constant: "USDD_LIQUIDATION_RESERVE = None"
  by (simp add: USDD_LIQUIDATION_RESERVE_def lib_base_constants_def)

lemma expected_compensation_TypeError:
  assumes "\<forall>t \<in> set ts. user_trove_ok t" and "ts \<noteq> []" and "decimal_ok price"
  shows "expected_compensation price ts = Inl TypeError"
proof -
  obtain s where s: "sum_troves ts = Inr s" "decimal_ok (collateral s)" "bigNumber (collateral s) = total_collateral ts"
    using sum_troves_ok[OF assms(1,2)] by blast
  have "0 \<le> total_collateral ts * (5 * 10 ^ 15) div DIGITS"
    using total_collateral_nonneg[OF assms(1)] by (simp add: pos_imp_zdiv_nonneg_iff)
  then show ?thesis using s assms(3) by (simp add: expected_compensation_def no_usdd_constant)
qed

text \<open>The attempt always throws before anything is sent or logged.\<close>

lemma expected_compensation_fails: "\<exists>e. expected_compensation price ts = Inl e"
  by (cases "expected_compensation price ts")
    (auto simp: expected_compensation_def no_usdd_constant rbind_Inr_iff)

lemma attempt_fails: "\<exists>e. attempt_liquidation api gp ts w = (Inl e, w)"
proof -
  obtain e where e: "expected_compensation (api_price api (Suc 0)) ts = Inl e"
    using expected_compensation_fails by blast
  show ?thesis
    by (cases "api_liquidate api (map u_owner ts) gp")
      (auto simp: attempt_liquidation_def Let_def jbind_def e split: sum.splits prod.splits)
qed

lemma tryToLiquidate_sends_nothing: "sent (snd (tryToLiquidate api w)) = sent w"
proof -
  obtain E where "\<And>gp ts. attempt_liquidation api gp ts w = (Inl (E gp ts), w)"
    using attempt_fails[of api _ _ w] by metis
  then show ?thesis
    by (auto simp: tryToLiquidate_def jbind_def jtry_def say_def split: sum.splits)
qed

lemma on_store_event_sends_nothing: "sent (snd (on_store_event p w)) = sent w"
  using tryToLiquidate_sends_nothing
  by (cases p; cases "snd p")
    (auto simp: on_store_event_def jbind_def jtry_def say_def split: sum.splits prod.splits dest: arg_cong[where f = "\<lambda>x. sent (snd x)"])

lemma candidates_subset: "candidates price ts = Inr us \<Longrightarrow> set us \<subseteq> set ts"
proof -
  assume c: "candidates price ts = Inr us"
  then obtain vs where vs: "filter_res (underCollateralized price) ts = Inr vs" "us = take 40 (stable_sort byDescendingCollateral vs)"
    by (auto simp: candidates_def rbind_Inr_iff)
  have "filter_res p xs = Inr zs \<Longrightarrow> set zs \<subseteq> set xs" for p and xs zs :: "user_trove list"
    by (induction xs arbitrary: zs) (auto simp: rbind_Inr_iff split: if_splits)
  from this[OF vs(1)] show ?thesis
    using top_by_collateral(1)[where n = 40 and ts = vs] by (simp add: vs(2) stable_sort_eq)
qed

section \<open>Properties\<close>

text \<open>
  C31. The bot's selection from a list of troves.  For any list that it is given, each trove with
  the collateral and the debt that the contract computes (\<open>getCurrentTroveAmounts\<close>) and the contract's current ratio at the
  price in the store: the selection has at most 40 troves, all of them below MCR on the contract; it has all of those of the list
  when there are at most 40; it is in descending order of collateral and leaves out none with more collateral than one it takes.
\<close>

theorem bot_selects_liquidatable_troves:
  assumes "\<forall>t \<in> set ts. \<exists>c d. getCurrentTroveAmounts tm (u_owner t) = Inr (c, d) \<and>
      collateral t = to_decimal c \<and> tdebt t = to_decimal d \<and> getCurrentICR tm (u_owner t) price = Inr (icr (u_owner t))"
  shows "\<exists>us. candidates (to_decimal price) ts = Inr us \<and> set us \<subseteq> set ts \<and>
           length us = min 40 (length (filter (\<lambda>t. icr (u_owner t) < MCR) ts)) \<and>
           (\<forall>t \<in> set us. icr (u_owner t) < MCR) \<and>
           (length (filter (\<lambda>t. icr (u_owner t) < MCR) ts) \<le> 40 \<longrightarrow> set us = {t \<in> set ts. icr (u_owner t) < MCR}) \<and>
           sorted_wrt (\<lambda>t u. bigNumber (collateral t) \<ge> bigNumber (collateral u)) us \<and>
           (\<forall>t \<in> set ts. \<forall>u \<in> set us. icr (u_owner t) < MCR \<and> t \<notin> set us \<longrightarrow>
              bigNumber (collateral t) \<le> bigNumber (collateral u))"
proof -
  let ?vs = "filter (\<lambda>t. icr (u_owner t) < MCR) ts"
  note top = top_by_collateral[where n = 40 and ts = ?vs]
  have "underCollateralized (to_decimal price) t = Inr (icr (u_owner t) < MCR)" if "t \<in> set ts" for t
  proof -
    from assms that obtain c d where "getCurrentTroveAmounts tm (u_owner t) = Inr (c, d)" "collateral t = to_decimal c"
      "tdebt t = to_decimal d" "getCurrentICR tm (u_owner t) price = Inr (icr (u_owner t))" by blast
    then show ?thesis using below_minimum_agrees[of c d price "icr (u_owner t)"]
      by (simp add: underCollateralized_def sdk_trove.defs getCurrentICR_def)
  qed
  then have "filter_res (underCollateralized (to_decimal price)) ts = Inr ?vs" by (intro filter_res_pure) auto
  then have "candidates (to_decimal price) ts = Inr (take 40 (sort_key (\<lambda>t. - bigNumber (collateral t)) ?vs))"
    by (simp add: candidates_def stable_sort_eq)
  with top show ?thesis by (intro exI[of _ "take 40 (sort_key (\<lambda>t. - bigNumber (collateral t)) ?vs)"]) auto
qed

text \<open>A storage in which two troves have 3 and 2 ETH against 400 USDD each.\<close>

definition demo_troves :: trove_manager where
  "demo_troves = fresh_trove_manager\<lparr>Troves := (\<lambda>a.
     empty_trove\<lparr>coll := (if a = 7 then 3 else 2) * 10 ^ 18, debt := 4 * 10 ^ 20, status := active\<rparr>)\<rparr>"

definition demo_user_troves :: "user_trove list" where
  "demo_user_troves = map (\<lambda>a. \<lparr>collateral = Decimal ((if a = 7 then 3 else 2) * 10 ^ 18), tdebt = Decimal (4 * 10 ^ 20), u_owner = a\<rparr>) [5, 7]"

theorem bot_selects_liquidatable_troves_witness:
  "\<exists>us. candidates (to_decimal (2 * 10 ^ 20)) demo_user_troves = Inr us \<and> map u_owner us = [5]"
proof -
  let ?icr = "\<lambda>a. if a = 7 then 15 * 10 ^ 17 else (10 ^ 18 :: nat)"
  have "\<forall>t \<in> set demo_user_troves. \<exists>c d. getCurrentTroveAmounts demo_troves (u_owner t) = Inr (c, d) \<and>
      collateral t = to_decimal c \<and> tdebt t = to_decimal d \<and>
      getCurrentICR demo_troves (u_owner t) (2 * 10 ^ 20) = Inr (?icr (u_owner t))"
    by (simp add: demo_user_troves_def demo_troves_def fresh_trove_manager_def empty_trove_def getCurrentICR_def to_decimal_def
        getCurrentTroveAmounts_def getPendingCollReward_def getPendingUSDDDebtReward_def pendingReward_def
        computeCR_def DECIMAL_PRECISION_def)
  from bot_selects_liquidatable_troves[OF this] obtain us where us: "candidates (to_decimal (2 * 10 ^ 20)) demo_user_troves = Inr us"
    "set us \<subseteq> set demo_user_troves" "length us = min 40 (length (filter (\<lambda>t. ?icr (u_owner t) < MCR) demo_user_troves))"
    "\<forall>t \<in> set us. ?icr (u_owner t) < MCR" by blast
  then have "length us = 1" by (simp add: demo_user_troves_def MCR_def)
  then obtain t where "us = [t]" by (auto simp: length_Suc_conv)
  with us show ?thesis by (auto simp: demo_user_troves_def MCR_def)
qed

text \<open>
  C32. As written the bot never liquidates anything: it imports \<open>USDD_LIQUIDATION_RESERVE\<close>, which
  \<open>@liquity/lib-base\<close> does not export, so that the expected compensation throws a TypeError.  No
  sequence of store events, prices and answers of the node makes it send a transaction; and whenever
  it has candidates, a populated transaction and a gas limit, all it does is log the unexpected error.
\<close>

theorem liqbot_never_liquidates:
  assumes "rbind (api_getGasPrice api) decimalify = Inr gp" and "api_getTroves api = Inr ts"
    and "candidates (api_price api 0) ts = Inr us" and "us \<noteq> []" and "\<forall>t \<in> set ts. user_trove_ok t"
    and "api_liquidate api (map u_owner us) gp = Inr liq" and "gasLimit liq < 2 ^ 53" and "decimal_ok (api_price api 1)"
  shows "sent (snd (liqbot events w)) = sent w \<and>
         tryToLiquidate api w =
           (Inr (), w\<lparr>console := console w @ [Err ''Unexpected error:'', ConsoleError TypeError]\<rparr>)"
proof
  show "sent (snd (liqbot events w)) = sent w"
    unfolding liqbot_def
    using on_store_event_sends_nothing by (intro jfor_invariant[where P = "\<lambda>v. sent v = sent w"]) simp_all
  have us: "\<forall>t \<in> set us. user_trove_ok t" using candidates_subset[OF assms(3)] assms(5) by blast
  have "decimal_ok gp" using assms(1) by (auto simp: rbind_Inr_iff decimalify_def new_Decimal_Inr_iff)
  from gas_cost_ok[OF this assms(8,7)] expected_compensation_TypeError[OF us assms(4,8)]
  have "attempt_liquidation api gp us w = (Inl TypeError, w)"
    using assms(6) by (simp add: attempt_liquidation_def jbind_def)
  then show "tryToLiquidate api w =
      (Inr (), w\<lparr>console := console w @ [Err ''Unexpected error:'', ConsoleError TypeError]\<rparr>)"
    using assms(1-4) by (simp add: tryToLiquidate_def jbind_def jtry_def say_def)
qed

definition demo_api :: bot_api where
  "demo_api = \<lparr>api_getGasPrice = Inr 100000000000,
     api_getTroves = Inr [\<lparr>collateral = Decimal (2 * 10 ^ 18), tdebt = Decimal (4 * 10 ^ 20), u_owner = 5\<rparr>],
     api_price = (\<lambda>_. Decimal (2 * 10 ^ 20)),
     api_liquidate = (\<lambda>_ _. Inr \<lparr>gasLimit = 500000, send_result = Inr (Inr (Failed ''0x''))\<rparr>)\<rparr>"

lemma demo_candidates:
  "candidates (Decimal (2 * 10 ^ 20)) [\<lparr>collateral = Decimal (2 * 10 ^ 18), tdebt = Decimal (4 * 10 ^ 20), u_owner = 5\<rparr>] =
     Inr [\<lparr>collateral = Decimal (2 * 10 ^ 18), tdebt = Decimal (4 * 10 ^ 20), u_owner = 5\<rparr>]"
  by (simp add: candidates_def underCollateralized_def collateralRatioIsBelowMinimum_def collateralRatio_def
      mulDiv_ok MINIMUM_COLLATERAL_RATIO_def stable_sort_def sdk_trove.defs)

theorem liqbot_never_liquidates_witness:
  "sent (snd (liqbot [(demo_api, Loaded)] \<lparr>sent = [], console = []\<rparr>)) = [] \<and>
   tryToLiquidate demo_api \<lparr>sent = [], console = []\<rparr> =
     (Inr (), \<lparr>sent = [], console = [Err ''Unexpected error:'', ConsoleError TypeError]\<rparr>)"
  using liqbot_never_liquidates[of demo_api "Decimal 100000000000" _ _ "\<lparr>gasLimit = 500000, send_result = Inr (Inr (Failed ''0x''))\<rparr>"
      "[(demo_api, Loaded)]" "\<lparr>sent = [], console = []\<rparr>", OF _ _ _ not_Cons_self2] demo_candidates
  by (simp add: demo_api_def decimalify_def user_trove_ok_def)

text \<open>
  C33. Against the contracts of this repository the SDK cannot read a trove: \<open>getTotalRedistributed\<close> calls the
  getters \<open>L_ETH\<close> and \<open>L_LUSDDebt\<close>, which TroveManager does not have, so \<open>getTrove\<close> and \<open>getTroves\<close> fail for every storage,
  trove and list.  When the node answers the bot's \<open>getTroves\<close> from storages of this contract, every run rejects before it
  has looked at a trove: after any sequence of store events the bot has sent nothing and logged only its greeting.
\<close>

theorem sdk_queries_revert:
  assumes "\<forall>(api, e) \<in> set events. \<exists>l tm. api_getTroves api = getTroves_ascending l tm 1000"
  shows "getTotalRedistributed s = Inl (Thrown ''call revert exception'') \<and>
    getTrove s b = Inl (Thrown ''call revert exception'') \<and>
    getTroves_ascending l s n = Inl (Thrown ''call revert exception'') \<and>
    sent (snd (liqbot events w)) = sent w \<and>
    (\<exists>k. console (snd (liqbot events w)) = console w @ replicate k (Info ''Waiting for price drops...''))"
proof -
  have quiet: "snd (tryToLiquidate api v) = v" if "(api, e) \<in> set events" for api e v
    using assms that by (auto simp: tryToLiquidate_def jbind_def getTroves_reverts split: sum.splits)
  have "sent (snd (liqbot events w)) = sent w \<and>
      (\<exists>k. console (snd (liqbot events w)) = console w @ replicate k (Info ''Waiting for price drops...''))"
    unfolding liqbot_def
  proof (rule jfor_invariant[where P = "\<lambda>v. sent v = sent w \<and> (\<exists>k. console v = console w @ replicate k (Info ''Waiting for price drops...''))"])
    fix x and v :: bot_world
    assume x: "x \<in> set events" and v: "sent v = sent w \<and> (\<exists>k. console v = console w @ replicate k (Info ''Waiting for price drops...''))"
    obtain api e where ae: "x = (api, e)" by (cases x)
    have "snd (on_store_event x v) = (case e of Loaded \<Rightarrow> v\<lparr>console := console v @ [Info ''Waiting for price drops...'']\<rparr> | _ \<Rightarrow> v)"
      using quiet[of api e] x unfolding ae
      by (cases e) (auto simp: on_store_event_def jbind_def jtry_def say_def split: sum.splits prod.splits dest: arg_cong[where f = snd])
    moreover obtain k where "console v = console w @ replicate k (Info ''Waiting for price drops...'')" using v by blast
    ultimately have "sent (snd (on_store_event x v)) = sent w \<and> console (snd (on_store_event x v)) =
        console w @ replicate (case e of Loaded \<Rightarrow> Suc k | _ \<Rightarrow> k) (Info ''Waiting for price drops...'')"
      using v by (cases e) (auto simp: replicate_append_same)
    then show "sent (snd (on_store_event x v)) = sent w \<and>
        (\<exists>k. console (snd (on_store_event x v)) = console w @ replicate k (Info ''Waiting for price drops...''))" by blast
  qed (auto intro: exI[of _ 0])
  then show ?thesis by (simp add: getTotalRedistributed_reverts getTrove_reverts getTroves_reverts)
qed

theorem sdk_queries_revert_witness:
  "getTrove demo_troves 7 = Inl (Thrown ''call revert exception'') \<and>
   sent (snd (liqbot [(demo_api\<lparr>api_getTroves := getTroves_ascending demo_list demo_troves 1000\<rparr>, Loaded)] \<lparr>sent = [], console = []\<rparr>)) = []"
  using sdk_queries_revert[of "[(demo_api\<lparr>api_getTroves := getTroves_ascending demo_list demo_troves 1000\<rparr>, Loaded)]" demo_troves 7
      demo_list 1000 "\<lparr>sent = [], console = []\<rparr>"] by auto

end
