(* ===== verification/Ledger.thy ===== *)
theory Ledger
  imports Solidity_Math
begin

text \<open>
  Mappings from addresses to amounts.  A Solidity mapping is a total function; only finitely many
  addresses ever hold something, and \<open>held f\<close> adds up what they hold.  The lemmas say how the sum
  moves when one entry is written, which is all that the token and the Stability Pool need.
\<close>

definition holders :: "(address \<Rightarrow> 'a::zero) \<Rightarrow> address set" where
  "holders f = {a. f a \<noteq> 0}"

definition held :: "(address \<Rightarrow> 'a::comm_monoid_add) \<Rightarrow> 'a" where
  "held f = sum f (holders f)"

definition u_sub_msg :: "nat \<Rightarrow> nat \<Rightarrow> string \<Rightarrow> nat res" where
  "u_sub_msg a b msg = (if b \<le> a then Inr (a - b) else Inl (Revert msg))"

lemma u_sub_msg_Inr_iff: "u_sub_msg a b msg = Inr c \<longleftrightarrow> b \<le> a \<and> c = a - b"
  by (auto simp: u_sub_msg_def)

lemma u_sub_msg_ok [simp]: "b \<le> a \<Longrightarrow> u_sub_msg a b msg = Inr (a - b)"
  by (simp add: u_sub_msg_def)

lemma holders_zero [simp]: "holders (\<lambda>_. 0) = {}"
  by (simp add: holders_def)

lemma held_zero [simp]: "held (\<lambda>_. 0) = 0"
  by (simp add: held_def)

lemma finite_holders_upd [simp]:
  "finite (holders f) \<Longrightarrow> finite (holders (f(a := v)))"
  by (rule finite_subset[of _ "insert a (holders f)"]) (auto simp: holders_def)

lemma held_superset:
  assumes "finite A" and "holders f \<subseteq> A"
  shows "held f = sum f A"
  unfolding held_def using assms by (intro sum.mono_neutral_left) (auto simp: holders_def)

lemma held_split:
  assumes "finite (holders f)"
  shows "held f = f a + held (f(a := 0))"
proof -
  let ?A = "insert a (holders f)"
  have "held f = sum f ?A" using assms by (intro held_superset) auto
  also have "\<dots> = f a + sum f (?A - {a})" using assms by (simp add: sum.remove[of ?A a])
  also have "sum f (?A - {a}) = sum (f(a := 0)) (?A - {a})" by (intro sum.cong) auto
  also have "\<dots> = held (f(a := 0))"
    using assms by (intro held_superset[symmetric]) (auto simp: holders_def)
  finally show ?thesis .
qed

lemma held_upd:
  assumes "finite (holders f)"
  shows "held (f(a := v)) + f a = held f + v"
  using held_split[OF assms, of a] held_split[OF finite_holders_upd[OF assms], of a v a]
  by (simp add: ac_simps)

lemma held_mono:
  fixes f g :: "address \<Rightarrow> 'a::ordered_comm_monoid_add"
  assumes "finite (holders f)" and "finite (holders g)" and "\<And>a. f a \<le> g a"
  shows "held f \<le> held g"
proof -
  let ?A = "holders f \<union> holders g"
  have "held f = sum f ?A" "held g = sum g ?A" using assms by (auto intro: held_superset)
  then show ?thesis using assms(3) by (simp add: sum_mono)
qed

lemma held_entry_le:
  fixes f :: "address \<Rightarrow> nat"
  assumes "finite (holders f)"
  shows "f a \<le> held f"
  using held_split[OF assms, of a] by simp

text \<open>Moving an amount from one address to another leaves the sum alone.\<close>

lemma held_move:
  fixes f :: "address \<Rightarrow> nat"
  assumes "finite (holders f)" and "n \<le> f a"
  shows "held ((f(a := f a - n))(b := (f(a := f a - n)) b + n)) = held f"
proof -
  have "held (f(a := f a - n)) + f a = held f + (f a - n)" by (rule held_upd[OF assms(1)])
  moreover have "held ((f(a := f a - n))(b := (f(a := f a - n)) b + n)) + (f(a := f a - n)) b
    = held (f(a := f a - n)) + ((f(a := f a - n)) b + n)"
    by (rule held_upd) (simp add: assms(1))
  ultimately show ?thesis using assms(2) by linarith
qed

end
