(* ===== verification/Usdd_Token.thy ===== *)
theory Usdd_Token
  imports Ledger
begin

text \<open>
  \<open>contracts/USDDToken.sol\<close>, the stablecoin: balances, allowances and the supply, the ERC-20 calls
  and the calls reserved to the other contracts of the system.  Permits (EIP 2612) rest on
  \<open>ecrecover\<close> and are left out.  \<open>sender\<close> is \<open>msg.sender\<close>, \<open>this\<close> the token's own address.  Every
  history of calls keeps the supply equal to the sum of the balances.
\<close>

section \<open>Storage\<close>

record usdd_token =
  usdd_balances :: "address \<Rightarrow> nat"
  usdd_allowances :: "address \<Rightarrow> address \<Rightarrow> nat"
  usdd_totalSupply :: nat
  usdd_troveManagerAddress :: address
  usdd_stabilityPoolAddress :: address
  usdd_borrowerOperationsAddress :: address

definition usdd_deployed :: "address \<Rightarrow> address \<Rightarrow> address \<Rightarrow> usdd_token" where
  "usdd_deployed tm pool bo =
     \<lparr>usdd_balances = (\<lambda>_. 0), usdd_allowances = (\<lambda>_ _. 0), usdd_totalSupply = 0,
      usdd_troveManagerAddress = tm, usdd_stabilityPoolAddress = pool,
      usdd_borrowerOperationsAddress = bo\<rparr>"

section \<open>Guards\<close>

definition usdd_requireValidRecipient :: "address \<Rightarrow> address \<Rightarrow> usdd_token \<Rightarrow> unit res" where
  "usdd_requireValidRecipient this r s =
     rbind (require (r \<noteq> 0 \<and> r \<noteq> this)
       ''USDD: Cannot transfer tokens directly to the USDD token contract or the zero address'') (\<lambda>_.
     require (r \<noteq> usdd_stabilityPoolAddress s \<and> r \<noteq> usdd_troveManagerAddress s \<and>
         r \<noteq> usdd_borrowerOperationsAddress s)
       ''USDD: Cannot transfer tokens directly to the StabilityPool, TroveManager or BorrowerOps'')"

definition usdd_requireCallerIsBorrowerOperations :: "address \<Rightarrow> usdd_token \<Rightarrow> unit res" where
  "usdd_requireCallerIsBorrowerOperations sender s =
     require (sender = usdd_borrowerOperationsAddress s) ''USDDToken: Caller is not BorrowerOperations''"

definition usdd_requireCallerIsBOorTroveMorSP :: "address \<Rightarrow> usdd_token \<Rightarrow> unit res" where
  "usdd_requireCallerIsBOorTroveMorSP sender s =
     require (sender = usdd_borrowerOperationsAddress s \<or> sender = usdd_troveManagerAddress s \<or>
         sender = usdd_stabilityPoolAddress s)
       ''USDD: Caller is neither BorrowerOperations nor TroveManager nor StabilityPool''"

definition usdd_requireCallerIsStabilityPool :: "address \<Rightarrow> usdd_token \<Rightarrow> unit res" where
  "usdd_requireCallerIsStabilityPool sender s =
     require (sender = usdd_stabilityPoolAddress s) ''USDD: Caller is not the StabilityPool''"

definition usdd_requireCallerIsTroveMorSP :: "address \<Rightarrow> usdd_token \<Rightarrow> unit res" where
  "usdd_requireCallerIsTroveMorSP sender s =
     require (sender = usdd_troveManagerAddress s \<or> sender = usdd_stabilityPoolAddress s)
       ''USDD: Caller is neither TroveManager nor StabilityPool''"

section \<open>Internal operations\<close>

definition usdd_internal_transfer :: "address \<Rightarrow> address \<Rightarrow> nat \<Rightarrow> usdd_token \<Rightarrow> usdd_token res" where
  "usdd_internal_transfer from to amount s =
     rbind (sol_assert (from \<noteq> 0)) (\<lambda>_.
     rbind (sol_assert (to \<noteq> 0)) (\<lambda>_.
     rbind (u_sub_msg (usdd_balances s from) amount ''ERC20: transfer amount exceeds balance'') (\<lambda>b.
     let s1 = s\<lparr>usdd_balances := (usdd_balances s)(from := b)\<rparr> in
     rbind (u_add (usdd_balances s1 to) amount) (\<lambda>c.
     Inr (s1\<lparr>usdd_balances := (usdd_balances s1)(to := c)\<rparr>)))))"

definition usdd_internal_mint :: "address \<Rightarrow> nat \<Rightarrow> usdd_token \<Rightarrow> usdd_token res" where
  "usdd_internal_mint account amount s =
     rbind (sol_assert (account \<noteq> 0)) (\<lambda>_.
     rbind (u_add (usdd_totalSupply s) amount) (\<lambda>t.
     rbind (u_add (usdd_balances s account) amount) (\<lambda>b.
     Inr (s\<lparr>usdd_totalSupply := t, usdd_balances := (usdd_balances s)(account := b)\<rparr>))))"

definition usdd_internal_burn :: "address \<Rightarrow> nat \<Rightarrow> usdd_token \<Rightarrow> usdd_token res" where
  "usdd_internal_burn account amount s =
     rbind (sol_assert (account \<noteq> 0)) (\<lambda>_.
     rbind (u_sub_msg (usdd_balances s account) amount ''ERC20: burn amount exceeds balance'') (\<lambda>b.
     rbind (u_sub (usdd_totalSupply s) amount) (\<lambda>t.
     Inr (s\<lparr>usdd_balances := (usdd_balances s)(account := b), usdd_totalSupply := t\<rparr>))))"

definition usdd_internal_approve :: "address \<Rightarrow> address \<Rightarrow> nat \<Rightarrow> usdd_token \<Rightarrow> usdd_token res" where
  "usdd_internal_approve owner spender amount s =
     rbind (sol_assert (owner \<noteq> 0)) (\<lambda>_.
     rbind (sol_assert (spender \<noteq> 0)) (\<lambda>_.
     Inr (s\<lparr>usdd_allowances := (usdd_allowances s)(owner := (usdd_allowances s owner)(spender := amount))\<rparr>)))"

section \<open>External calls\<close>

definition usdd_mint :: "address \<Rightarrow> address \<Rightarrow> nat \<Rightarrow> usdd_token \<Rightarrow> usdd_token res" where
  "usdd_mint sender account amount s =
     rbind (usdd_requireCallerIsBorrowerOperations sender s) (\<lambda>_. usdd_internal_mint account amount s)"

definition usdd_burn :: "address \<Rightarrow> address \<Rightarrow> nat \<Rightarrow> usdd_token \<Rightarrow> usdd_token res" where
  "usdd_burn sender account amount s =
     rbind (usdd_requireCallerIsBOorTroveMorSP sender s) (\<lambda>_. usdd_internal_burn account amount s)"

definition usdd_sendToPool :: "address \<Rightarrow> address \<Rightarrow> address \<Rightarrow> nat \<Rightarrow> usdd_token \<Rightarrow> usdd_token res" where
  "usdd_sendToPool sender from pool amount s =
     rbind (usdd_requireCallerIsStabilityPool sender s) (\<lambda>_. usdd_internal_transfer from pool amount s)"

definition usdd_returnFromPool :: "address \<Rightarrow> address \<Rightarrow> address \<Rightarrow> nat \<Rightarrow> usdd_token \<Rightarrow> usdd_token res" where
  "usdd_returnFromPool sender pool receiver amount s =
     rbind (usdd_requireCallerIsTroveMorSP sender s) (\<lambda>_. usdd_internal_transfer pool receiver amount s)"

definition usdd_transfer :: "address \<Rightarrow> address \<Rightarrow> address \<Rightarrow> nat \<Rightarrow> usdd_token \<Rightarrow> usdd_token res" where
  "usdd_transfer this sender recipient amount s =
     rbind (usdd_requireValidRecipient this recipient s) (\<lambda>_.
     usdd_internal_transfer sender recipient amount s)"

definition usdd_approve :: "address \<Rightarrow> address \<Rightarrow> nat \<Rightarrow> usdd_token \<Rightarrow> usdd_token res" where
  "usdd_approve sender spender amount s = usdd_internal_approve sender spender amount s"

definition usdd_transferFrom ::
  "address \<Rightarrow> address \<Rightarrow> address \<Rightarrow> address \<Rightarrow> nat \<Rightarrow> usdd_token \<Rightarrow> usdd_token res" where
  "usdd_transferFrom this sender from recipient amount s =
     rbind (usdd_requireValidRecipient this recipient s) (\<lambda>_.
     rbind (usdd_internal_transfer from recipient amount s) (\<lambda>s1.
     rbind (u_sub_msg (usdd_allowances s1 from sender) amount ''ERC20: transfer amount exceeds allowance'')
       (\<lambda>rest. usdd_internal_approve from sender rest s1)))"

definition usdd_increaseAllowance :: "address \<Rightarrow> address \<Rightarrow> nat \<Rightarrow> usdd_token \<Rightarrow> usdd_token res" where
  "usdd_increaseAllowance sender spender added s =
     rbind (u_add (usdd_allowances s sender spender) added) (\<lambda>n.
     usdd_internal_approve sender spender n s)"

definition usdd_decreaseAllowance :: "address \<Rightarrow> address \<Rightarrow> nat \<Rightarrow> usdd_token \<Rightarrow> usdd_token res" where
  "usdd_decreaseAllowance sender spender subtracted s =
     rbind (u_sub_msg (usdd_allowances s sender spender) subtracted ''ERC20: decreased allowance below zero'')
       (\<lambda>n. usdd_internal_approve sender spender n s)"

section \<open>Histories\<close>

datatype usdd_call =
    Mint address nat
  | Burn address nat
  | SendToPool address address nat
  | ReturnFromPool address address nat
  | Transfer address nat
  | Approve address nat
  | TransferFrom address address nat
  | IncreaseAllowance address nat
  | DecreaseAllowance address nat

fun usdd_exec :: "address \<Rightarrow> address \<Rightarrow> usdd_call \<Rightarrow> usdd_token \<Rightarrow> usdd_token res" where
  "usdd_exec this sender (Mint a n) s = usdd_mint sender a n s"
| "usdd_exec this sender (Burn a n) s = usdd_burn sender a n s"
| "usdd_exec this sender (SendToPool a p n) s = usdd_sendToPool sender a p n s"
| "usdd_exec this sender (ReturnFromPool p a n) s = usdd_returnFromPool sender p a n s"
| "usdd_exec this sender (Transfer a n) s = usdd_transfer this sender a n s"
| "usdd_exec this sender (Approve a n) s = usdd_approve sender a n s"
| "usdd_exec this sender (TransferFrom a b n) s = usdd_transferFrom this sender a b n s"
| "usdd_exec this sender (IncreaseAllowance a n) s = usdd_increaseAllowance sender a n s"
| "usdd_exec this sender (DecreaseAllowance a n) s = usdd_decreaseAllowance sender a n s"

text \<open>A call that reverts leaves the storage as it was.\<close>

fun usdd_run :: "address \<Rightarrow> (address \<times> usdd_call) list \<Rightarrow> usdd_token \<Rightarrow> usdd_token" where
  "usdd_run this [] s = s"
| "usdd_run this ((sender, c) # cs) s =
     (case usdd_exec this sender c s of Inl e \<Rightarrow> usdd_run this cs s | Inr s' \<Rightarrow> usdd_run this cs s')"

section \<open>What each operation does\<close>

lemma usdd_internal_transfer_Inr_iff:
  "usdd_internal_transfer a b n s = Inr s' \<longleftrightarrow>
     a \<noteq> 0 \<and> b \<noteq> 0 \<and> n \<le> usdd_balances s a \<and>
     ((usdd_balances s)(a := usdd_balances s a - n)) b + n < 2 ^ 256 \<and>
     s' = s\<lparr>usdd_balances := ((usdd_balances s)(a := usdd_balances s a - n))
              (b := ((usdd_balances s)(a := usdd_balances s a - n)) b + n)\<rparr>"
  by (auto simp: usdd_internal_transfer_def rbind_Inr_iff u_sub_msg_Inr_iff u_add_Inr_iff Let_def)

lemma usdd_internal_mint_Inr_iff:
  "usdd_internal_mint a n s = Inr s' \<longleftrightarrow>
     a \<noteq> 0 \<and> usdd_totalSupply s + n < 2 ^ 256 \<and> usdd_balances s a + n < 2 ^ 256 \<and>
     s' = s\<lparr>usdd_totalSupply := usdd_totalSupply s + n,
            usdd_balances := (usdd_balances s)(a := usdd_balances s a + n)\<rparr>"
  by (auto simp: usdd_internal_mint_def rbind_Inr_iff u_add_Inr_iff)

lemma usdd_internal_burn_Inr_iff:
  "usdd_internal_burn a n s = Inr s' \<longleftrightarrow>
     a \<noteq> 0 \<and> n \<le> usdd_balances s a \<and> n \<le> usdd_totalSupply s \<and>
     s' = s\<lparr>usdd_balances := (usdd_balances s)(a := usdd_balances s a - n),
            usdd_totalSupply := usdd_totalSupply s - n\<rparr>"
  by (auto simp: usdd_internal_burn_def rbind_Inr_iff u_sub_msg_Inr_iff u_sub_Inr_iff)

lemma usdd_internal_approve_Inr_iff:
  "usdd_internal_approve a b n s = Inr s' \<longleftrightarrow> a \<noteq> 0 \<and> b \<noteq> 0 \<and>
     s' = s\<lparr>usdd_allowances := (usdd_allowances s)(a := (usdd_allowances s a)(b := n))\<rparr>"
  by (auto simp: usdd_internal_approve_def rbind_Inr_iff)

lemmas usdd_internal_iffs =
  usdd_internal_transfer_Inr_iff usdd_internal_mint_Inr_iff usdd_internal_burn_Inr_iff
  usdd_internal_approve_Inr_iff

lemmas usdd_external_defs =
  usdd_mint_def usdd_burn_def usdd_sendToPool_def usdd_returnFromPool_def usdd_transfer_def
  usdd_approve_def usdd_transferFrom_def usdd_increaseAllowance_def usdd_decreaseAllowance_def

section \<open>The ledger invariant\<close>

definition usdd_inv :: "usdd_token \<Rightarrow> bool" where
  "usdd_inv s \<longleftrightarrow> finite (holders (usdd_balances s)) \<and> usdd_balances s 0 = 0 \<and>
     held (usdd_balances s) = usdd_totalSupply s \<and> usdd_totalSupply s < 2 ^ 256"

lemma usdd_inv_transfer:
  assumes "usdd_inv s" and "usdd_internal_transfer a b n s = Inr s'"
  shows "usdd_inv s'"
  using assms held_move[of "usdd_balances s" n a b]
  by (auto simp: usdd_inv_def usdd_internal_transfer_Inr_iff simp del: fun_upd_apply intro!: finite_holders_upd)
    (auto simp: fun_upd_apply)

lemma usdd_inv_mint:
  assumes "usdd_inv s" and "usdd_internal_mint a n s = Inr s'"
  shows "usdd_inv s'"
  using assms held_upd[of "usdd_balances s" a "usdd_balances s a + n"]
  by (auto simp: usdd_inv_def usdd_internal_mint_Inr_iff)

lemma usdd_inv_burn:
  assumes "usdd_inv s" and "usdd_internal_burn a n s = Inr s'"
  shows "usdd_inv s'"
  using assms held_upd[of "usdd_balances s" a "usdd_balances s a - n"]
  by (auto simp: usdd_inv_def usdd_internal_burn_Inr_iff)

lemma usdd_inv_approve:
  assumes "usdd_inv s" and "usdd_internal_approve a b n s = Inr s'"
  shows "usdd_inv s'"
  using assms by (auto simp: usdd_inv_def usdd_internal_approve_Inr_iff)

lemma usdd_exec_inv:
  assumes "usdd_inv s" and "usdd_exec this sender c s = Inr s'"
  shows "usdd_inv s'"
  using assms
  by (cases c)
    (auto simp: usdd_external_defs rbind_Inr_iff
      intro: usdd_inv_transfer usdd_inv_mint usdd_inv_burn usdd_inv_approve)

lemma usdd_run_inv: "usdd_inv s \<Longrightarrow> usdd_inv (usdd_run this cs s)"
proof (induction cs arbitrary: s)
  case (Cons x cs)
  then show ?case
    by (cases x) (auto split: sum.split dest: usdd_exec_inv)
qed simp

lemma usdd_deployed_inv: "usdd_inv (usdd_deployed tm pool bo)"
  by (simp add: usdd_inv_def usdd_deployed_def)

text \<open>
  C19. Whatever calls the token receives, from whomever and in whatever order, minting, burning,
  pool transfers, transfers and allowance changes, reverted calls included, the total supply is the
  sum of all balances, it fits 256 bits, and the zero address holds nothing.
\<close>

theorem usdd_supply_is_sum_of_balances:
  "(let s = usdd_run this calls (usdd_deployed tm pool bo) in
      held (usdd_balances s) = usdd_totalSupply s \<and> usdd_totalSupply s < 2 ^ 256 \<and> usdd_balances s 0 = 0)"
  using usdd_run_inv[OF usdd_deployed_inv, of this calls tm pool bo]
  by (simp add: Let_def usdd_inv_def)

end
