(* ===== verification/Community_Issuance.thy ===== *)
theory Community_Issuance
  imports Solidity_Math
begin

text \<open>
  \<open>contracts/DEFT/CommunityIssuance.sol\<close>: the schedule that issues the DEFT token to the Stability
  Pool, half of what remains every year.  The DEFT token is not in the repository: what the contract
  reads of it (its own balance) and its \<open>transfer\<close> are arguments.  \<open>now\<close> is \<open>block.timestamp\<close>,
  \<open>sender\<close> is \<open>msg.sender\<close>.
\<close>

section \<open>Storage\<close>

record community_issuance =
  DEFTSupplyCap :: nat
  ci_stabilityPoolAddress :: address
  totalDEFTIssued :: nat
  startTime :: nat
  ci_owner :: address

definition ISSUANCE_FACTOR :: nat where
  "ISSUANCE_FACTOR = 999998681227695000"

definition ci_SECONDS_IN_ONE_MINUTE :: nat where
  "ci_SECONDS_IN_ONE_MINUTE = 60"

section \<open>Operations\<close>

definition shouldStarted :: "community_issuance \<Rightarrow> unit res" where
  "shouldStarted s = require (startTime s > 0) ''Issuance not started''"

definition ci_requireCallerIsStabilityPool :: "address \<Rightarrow> community_issuance \<Rightarrow> unit res" where
  "ci_requireCallerIsStabilityPool sender s =
     require (sender = ci_stabilityPoolAddress s) ''CommunityIssuance: caller is not SP''"

text \<open>\<open>balance\<close> is what the DEFT token reports for this contract.\<close>

definition start_issuance ::
  "address \<Rightarrow> nat \<Rightarrow> nat \<Rightarrow> nat \<Rightarrow> community_issuance \<Rightarrow> community_issuance res" where
  "start_issuance sender now balance cap s =
     rbind (require (sender = ci_owner s) ''Ownable: caller is not the owner'') (\<lambda>_.
     rbind (sol_assert (cap > 0)) (\<lambda>_.
     rbind (sol_assert (cap \<le> balance)) (\<lambda>_.
     Inr (s\<lparr>DEFTSupplyCap := cap, startTime := now, ci_owner := 0\<rparr>))))"

definition getCumulativeIssuanceFraction :: "nat \<Rightarrow> community_issuance \<Rightarrow> nat res" where
  "getCumulativeIssuanceFraction now s =
     rbind (u_sub now (startTime s)) (\<lambda>timePassed.
     rbind (u_div timePassed ci_SECONDS_IN_ONE_MINUTE) (\<lambda>timePassedInMinutes.
     rbind (decPow ISSUANCE_FACTOR timePassedInMinutes) (\<lambda>power.
     rbind (u_sub DECIMAL_PRECISION power) (\<lambda>cumulativeIssuanceFraction.
     rbind (sol_assert (cumulativeIssuanceFraction \<le> DECIMAL_PRECISION)) (\<lambda>_.
     Inr cumulativeIssuanceFraction)))))"

definition issueDEFT :: "address \<Rightarrow> nat \<Rightarrow> community_issuance \<Rightarrow> (nat \<times> community_issuance) res" where
  "issueDEFT sender now s =
     rbind (shouldStarted s) (\<lambda>_.
     rbind (ci_requireCallerIsStabilityPool sender s) (\<lambda>_.
     rbind (getCumulativeIssuanceFraction now s) (\<lambda>fraction.
     rbind (u_mul (DEFTSupplyCap s) fraction) (\<lambda>m.
     rbind (u_div m DECIMAL_PRECISION) (\<lambda>latestTotalDEFTIssued.
     rbind (u_sub latestTotalDEFTIssued (totalDEFTIssued s)) (\<lambda>issuance.
     Inr (issuance, s\<lparr>totalDEFTIssued := latestTotalDEFTIssued\<rparr>)))))))"

definition sendDEFT ::
  "(address \<Rightarrow> nat \<Rightarrow> 'x \<Rightarrow> 'x res) \<Rightarrow> address \<Rightarrow> address \<Rightarrow> nat \<Rightarrow> community_issuance \<Rightarrow> 'x \<Rightarrow> 'x res" where
  "sendDEFT deftToken_transfer sender account amount s x =
     rbind (shouldStarted s) (\<lambda>_.
     rbind (ci_requireCallerIsStabilityPool sender s) (\<lambda>_.
     deftToken_transfer account amount x))"

text \<open>The issuances of a list of calls at the given times; a call that reverts issues nothing.\<close>

fun issue_run :: "address \<Rightarrow> nat list \<Rightarrow> community_issuance \<Rightarrow> nat list \<times> community_issuance" where
  "issue_run sender [] s = ([], s)"
| "issue_run sender (t # ts) s =
     (case issueDEFT sender t s of
        Inl e \<Rightarrow> issue_run sender ts s
      | Inr (n, s') \<Rightarrow> (case issue_run sender ts s' of (ns, s'') \<Rightarrow> (n # ns, s'')))"

section \<open>The issued amounts\<close>

text \<open>The fraction is one minus a power that is at most one: neither the subtraction nor the assertion fails.\<close>

lemma getCumulativeIssuanceFraction_ok:
  assumes "startTime s \<le> now"
  shows "\<exists>f \<le> DECIMAL_PRECISION. getCumulativeIssuanceFraction now s = Inr f"
proof -
  have "ISSUANCE_FACTOR \<le> DECIMAL_PRECISION"
    by (simp add: ISSUANCE_FACTOR_def DECIMAL_PRECISION_def)
  from decPow_le_one[OF this, of "(now - startTime s) div 60"] obtain p where
    "p \<le> DECIMAL_PRECISION" "decPow ISSUANCE_FACTOR ((now - startTime s) div 60) = Inr p" by blast
  then show ?thesis using assms
    by (simp add: getCumulativeIssuanceFraction_def ci_SECONDS_IN_ONE_MINUTE_def)
qed

lemma getCumulativeIssuanceFraction_le:
  "getCumulativeIssuanceFraction now s = Inr f \<Longrightarrow> f \<le> DECIMAL_PRECISION"
  by (auto simp: getCumulativeIssuanceFraction_def rbind_Inr_iff)

lemma issueDEFT_facts:
  assumes "issueDEFT sender now s = Inr (n, s')"
  shows "totalDEFTIssued s' = totalDEFTIssued s + n" and "totalDEFTIssued s' \<le> DEFTSupplyCap s"
    and "DEFTSupplyCap s' = DEFTSupplyCap s"
proof -
  from assms obtain f where f: "getCumulativeIssuanceFraction now s = Inr f"
    and le: "totalDEFTIssued s \<le> DEFTSupplyCap s * f div DECIMAL_PRECISION"
    and s': "s' = s\<lparr>totalDEFTIssued := DEFTSupplyCap s * f div DECIMAL_PRECISION\<rparr>"
    and n: "n = DEFTSupplyCap s * f div DECIMAL_PRECISION - totalDEFTIssued s"
    by (auto simp: issueDEFT_def rbind_Inr_iff u_Inr_iffs)
  show "totalDEFTIssued s' = totalDEFTIssued s + n" using le by (simp add: s' n)
  show "DEFTSupplyCap s' = DEFTSupplyCap s" by (simp add: s')
  have "DEFTSupplyCap s * f \<le> DEFTSupplyCap s * DECIMAL_PRECISION"
    using getCumulativeIssuanceFraction_le[OF f] by simp
  then have "DEFTSupplyCap s * f div DECIMAL_PRECISION \<le> DEFTSupplyCap s * DECIMAL_PRECISION div DECIMAL_PRECISION"
    by (rule div_le_mono)
  then show "totalDEFTIssued s' \<le> DEFTSupplyCap s" by (simp add: s' DECIMAL_PRECISION_def)
qed

lemma issue_run_facts:
  assumes "issue_run sender ts s = (ns, s')" and "totalDEFTIssued s \<le> DEFTSupplyCap s"
  shows "totalDEFTIssued s' = totalDEFTIssued s + sum_list ns \<and> totalDEFTIssued s' \<le> DEFTSupplyCap s"
  using assms
proof (induction ts arbitrary: s ns)
  case (Cons t ts)
  show ?case
  proof (cases "issueDEFT sender t s")
    case (Inl e)
    with Cons.prems have "issue_run sender ts s = (ns, s')" by simp
    from Cons.IH[OF this Cons.prems(2)] show ?thesis .
  next
    case (Inr r)
    obtain n s1 where r: "r = (n, s1)" by (cases r)
    obtain ms where ms: "issue_run sender ts s1 = (ms, s')" "ns = n # ms"
      using Cons.prems(1) Inr r by (auto split: prod.splits)
    show ?thesis
      using Cons.IH[OF ms(1)] issueDEFT_facts[OF Inr[unfolded r]] ms(2) by simp
  qed
qed simp

text \<open>
  Started with a supply cap, the issuance contract never issues more than the cap: whatever the
  times of the Stability Pool's calls, the amounts issued add up to the recorded total, which stays
  within the cap, and from the start on the issued fraction is always defined and at most one.
\<close>

theorem issuance_never_exceeds_cap:
  assumes "start_issuance owner t0 balance cap s0 = Inr s" and "totalDEFTIssued s0 = 0"
  shows "sum_list (fst (issue_run sender ts s)) = totalDEFTIssued (snd (issue_run sender ts s)) \<and>
         totalDEFTIssued (snd (issue_run sender ts s)) \<le> cap \<and>
         (\<forall>t \<ge> t0. \<exists>f \<le> DECIMAL_PRECISION. getCumulativeIssuanceFraction t s = Inr f)"
proof -
  from assms have "startTime s = t0" "totalDEFTIssued s = 0" "DEFTSupplyCap s = cap"
    by (auto simp: start_issuance_def rbind_Inr_iff)
  then show ?thesis
    using issue_run_facts[of sender ts s "fst (issue_run sender ts s)" "snd (issue_run sender ts s)"]
      getCumulativeIssuanceFraction_ok[of s] by simp
qed

theorem issuance_never_exceeds_cap_witness:
  "(let s = \<lparr>DEFTSupplyCap = 32000000, ci_stabilityPoolAddress = 7, totalDEFTIssued = 0, startTime = 1000, ci_owner = 0\<rparr> in
    sum_list (fst (issue_run 7 [1000, 4600] s)) = totalDEFTIssued (snd (issue_run 7 [1000, 4600] s)) \<and>
    totalDEFTIssued (snd (issue_run 7 [1000, 4600] s)) \<le> 32000000 \<and>
    (\<forall>t \<ge> 1000. \<exists>f \<le> DECIMAL_PRECISION. getCumulativeIssuanceFraction t s = Inr f))"
  unfolding Let_def
  by (rule issuance_never_exceeds_cap[where owner = 9 and balance = 50000000 and
      ?s0.0 = "\<lparr>DEFTSupplyCap = 0, ci_stabilityPoolAddress = 7, totalDEFTIssued = 0, startTime = 0, ci_owner = 9\<rparr>"])
    (simp_all add: start_issuance_def)

end
