(* ===== verification/Stability_Pool.thy ===== *)
theory Stability_Pool
  imports Trove_Manager Sorted_Troves Usdd_Token Community_Issuance
begin

text \<open>
  \<open>contracts/StabilityPool.sol\<close>: deposits that absorb the debt of liquidated troves, with the running
  product \<open>P\<close>, the sums \<open>S\<close> and \<open>G\<close>, scales and epochs.  The pool's storage is \<open>stability_pool\<close>; the
  contracts it calls are \<open>peers\<close>, with the models of \<open>CommunityIssuance\<close>, \<open>USDDToken\<close>,
  \<open>TroveManager\<close>, \<open>SortedTroves\<close> and the part of \<open>ActivePool\<close> that an offset uses.  The DEFT and the
  collateral token, the price oracle and \<open>BorrowerOperations.moveCollGainToTrove\<close> are arguments
  (\<open>sp_env\<close>); none of them calls back into the pool.
\<close>

section \<open>Storage\<close>

record front_end =
  kickbackRate :: nat
  registered :: bool

record deposit =
  initialValue :: nat
  frontEndTag :: address

record snapshots =
  snap_S :: nat
  snap_P :: nat
  snap_G :: nat
  snap_scale :: nat
  snap_epoch :: nat

record stability_pool =
  sp_troveManager :: address
  sp_wETHGatewayAddress :: address
  sp_COLL :: nat
  totalUSDDDeposits :: nat
  deposits :: "address \<Rightarrow> deposit"
  depositSnapshots :: "address \<Rightarrow> snapshots"
  frontEnds :: "address \<Rightarrow> front_end"
  frontEndStakes :: "address \<Rightarrow> nat"
  frontEndSnapshots :: "address \<Rightarrow> snapshots"
  product_P :: nat
  currentScale :: nat
  currentEpoch :: nat
  epochToScaleToSum :: "nat \<Rightarrow> nat \<Rightarrow> nat"
  epochToScaleToG :: "nat \<Rightarrow> nat \<Rightarrow> nat"
  lastDEFTError :: nat
  lastCollError_Offset :: nat
  lastUSDDLossError_Offset :: nat

definition zero_snapshots :: snapshots where
  "zero_snapshots = \<lparr>snap_S = 0, snap_P = 0, snap_G = 0, snap_scale = 0, snap_epoch = 0\<rparr>"

text \<open>The storage once \<open>setAddresses\<close> has run.\<close>

definition sp_deployed :: "address \<Rightarrow> address \<Rightarrow> stability_pool" where
  "sp_deployed tm gateway =
     \<lparr>sp_troveManager = tm, sp_wETHGatewayAddress = gateway, sp_COLL = 0, totalUSDDDeposits = 0,
      deposits = (\<lambda>_. \<lparr>initialValue = 0, frontEndTag = 0\<rparr>), depositSnapshots = (\<lambda>_. zero_snapshots),
      frontEnds = (\<lambda>_. \<lparr>kickbackRate = 0, registered = False\<rparr>), frontEndStakes = (\<lambda>_. 0),
      frontEndSnapshots = (\<lambda>_. zero_snapshots), product_P = DECIMAL_PRECISION, currentScale = 0,
      currentEpoch = 0, epochToScaleToSum = (\<lambda>_ _. 0), epochToScaleToG = (\<lambda>_ _. 0),
      lastDEFTError = 0, lastCollError_Offset = 0, lastUSDDLossError_Offset = 0\<rparr>"

definition SCALE_FACTOR :: nat where
  "SCALE_FACTOR = 1000000000"

text \<open>The collateral and the debt of the active pool, for the pool's collateral token.\<close>

record active_pool =
  ap_authorizedTroveManagers :: "address \<Rightarrow> bool"
  ap_authorizedBorrowerOperations :: "address \<Rightarrow> bool"
  ap_stabilityPoolAddress :: address
  ap_defaultPoolAddress :: address
  ap_balance :: nat
  ap_USDDDebt :: nat

record 'x peers =
  issuance :: community_issuance
  usdd :: usdd_token
  apool :: active_pool
  tmanager :: trove_manager
  slist :: sorted_troves
  ext :: 'x

record 'x sp_env =
  this_sp :: address
  activePool_address :: address
  communityIssuance_address :: address
  deft_transfer :: "address \<Rightarrow> address \<Rightarrow> nat \<Rightarrow> 'x \<Rightarrow> 'x res"
  coll_transfer :: "address \<Rightarrow> address \<Rightarrow> nat \<Rightarrow> 'x \<Rightarrow> 'x res"
  sp_fetchPrice :: "'x \<Rightarrow> (nat \<times> 'x) res"
  moveCollGain :: "address \<Rightarrow> nat \<Rightarrow> address \<Rightarrow> address \<Rightarrow> 'x peers \<Rightarrow> 'x peers res"

record 'x sp_world =
  pool :: stability_pool
  others :: "'x peers"

section \<open>LiquitySafeMath128\<close>

definition u128_add :: "nat \<Rightarrow> nat \<Rightarrow> nat res" where
  "u128_add a b = (if a + b < 2 ^ 128 then Inr (a + b)
                   else Inl (Revert ''LiquitySafeMath128: addition overflow''))"

definition u128_sub :: "nat \<Rightarrow> nat \<Rightarrow> nat res" where
  "u128_sub a b = (if b \<le> a then Inr (a - b)
                   else Inl (Revert ''LiquitySafeMath128: subtraction overflow''))"

section \<open>Guards\<close>

definition requireCallerIsBorrowerOrGw :: "address \<Rightarrow> address \<Rightarrow> stability_pool \<Rightarrow> unit res" where
  "requireCallerIsBorrowerOrGw sender borrower s =
     require (sender = borrower \<or> sender = sp_wETHGatewayAddress s)
       ''StabilityPool: Caller must be the borrower or gateway''"

definition requireCallerIsTroveManager :: "address \<Rightarrow> stability_pool \<Rightarrow> unit res" where
  "requireCallerIsTroveManager sender s =
     require (sender = sp_troveManager s) ''StabilityPool: Caller is not TroveManager''"

definition requireNoUnderCollateralizedTroves :: "'x sp_env \<Rightarrow> 'x peers \<Rightarrow> 'x peers res" where
  "requireNoUnderCollateralizedTroves E p =
     rbind (sp_fetchPrice E (ext p)) (\<lambda>(price, x).
     rbind (getCurrentICR (tmanager p) (tail (slist p)) price) (\<lambda>ICR.
     rbind (require (ICR \<ge> MCR)
       ''StabilityPool: Cannot withdraw while there are troves with ICR < MCR'') (\<lambda>_.
     Inr (p\<lparr>ext := x\<rparr>))))"

definition requireUserHasDeposit :: "nat \<Rightarrow> unit res" where
  "requireUserHasDeposit initial =
     require (initial > 0) ''StabilityPool: User must have a non-zero deposit''"

definition requireUserHasNoDeposit :: "address \<Rightarrow> stability_pool \<Rightarrow> unit res" where
  "requireUserHasNoDeposit a s =
     require (initialValue (deposits s a) = 0) ''StabilityPool: User must have no deposit''"

definition requireNonZeroAmount :: "nat \<Rightarrow> unit res" where
  "requireNonZeroAmount n = require (n > 0) ''StabilityPool: Amount must be non-zero''"

definition requireUserHasTrove :: "address \<Rightarrow> 'x peers \<Rightarrow> unit res" where
  "requireUserHasTrove a p =
     require (status (Troves (tmanager p) a) = active)
       ''StabilityPool: caller must have an active trove to withdraw CollGain to''"

definition requireFrontEndNotRegistered :: "address \<Rightarrow> stability_pool \<Rightarrow> unit res" where
  "requireFrontEndNotRegistered a s =
     require (\<not> registered (frontEnds s a)) ''StabilityPool: must not already be a registered front end''"

definition requireFrontEndIsRegisteredOrZero :: "address \<Rightarrow> stability_pool \<Rightarrow> unit res" where
  "requireFrontEndIsRegisteredOrZero a s =
     require (registered (frontEnds s a) \<or> a = 0)
       ''StabilityPool: Tag must be a registered front end, or the zero address''"

definition requireValidKickbackRate :: "nat \<Rightarrow> unit res" where
  "requireValidKickbackRate r =
     require (r \<le> DECIMAL_PRECISION) ''StabilityPool: Kickback rate must be in range [0,1]''"

section \<open>Gains and compounded stakes\<close>

definition getCollGainFromSnapshots :: "stability_pool \<Rightarrow> nat \<Rightarrow> snapshots \<Rightarrow> nat res" where
  "getCollGainFromSnapshots s initialDeposit sn =
     rbind (u_sub (epochToScaleToSum s (snap_epoch sn) (snap_scale sn)) (snap_S sn)) (\<lambda>firstPortion.
     rbind (u128_add (snap_scale sn) 1) (\<lambda>nextScale.
     rbind (u_div (epochToScaleToSum s (snap_epoch sn) nextScale) SCALE_FACTOR) (\<lambda>secondPortion.
     rbind (u_add firstPortion secondPortion) (\<lambda>portions.
     rbind (u_mul initialDeposit portions) (\<lambda>m.
     rbind (u_div m (snap_P sn)) (\<lambda>q. u_div q DECIMAL_PRECISION))))))"

definition getDepositorCollGain :: "stability_pool \<Rightarrow> address \<Rightarrow> nat res" where
  "getDepositorCollGain s d =
     (let initialDeposit = initialValue (deposits s d) in
      if initialDeposit = 0 then Inr 0
      else getCollGainFromSnapshots s initialDeposit (depositSnapshots s d))"

definition getDEFTGainFromSnapshots :: "stability_pool \<Rightarrow> nat \<Rightarrow> snapshots \<Rightarrow> nat res" where
  "getDEFTGainFromSnapshots s initialStake sn =
     rbind (u_sub (epochToScaleToG s (snap_epoch sn) (snap_scale sn)) (snap_G sn)) (\<lambda>firstPortion.
     rbind (u128_add (snap_scale sn) 1) (\<lambda>nextScale.
     rbind (u_div (epochToScaleToG s (snap_epoch sn) nextScale) SCALE_FACTOR) (\<lambda>secondPortion.
     rbind (u_add firstPortion secondPortion) (\<lambda>portions.
     rbind (u_mul initialStake portions) (\<lambda>m.
     rbind (u_div m (snap_P sn)) (\<lambda>q. u_div q DECIMAL_PRECISION))))))"

definition getDepositorDEFTGain :: "stability_pool \<Rightarrow> address \<Rightarrow> nat res" where
  "getDepositorDEFTGain s d =
     (let initialDeposit = initialValue (deposits s d) in
      if initialDeposit = 0 then Inr 0
      else let tag = frontEndTag (deposits s d);
               rate = (if tag = 0 then DECIMAL_PRECISION else kickbackRate (frontEnds s tag)) in
        rbind (getDEFTGainFromSnapshots s initialDeposit (depositSnapshots s d)) (\<lambda>g.
        rbind (u_mul rate g) (\<lambda>m. u_div m DECIMAL_PRECISION)))"

definition getFrontEndDEFTGain :: "stability_pool \<Rightarrow> address \<Rightarrow> nat res" where
  "getFrontEndDEFTGain s f =
     (let frontEndStake = frontEndStakes s f in
      if frontEndStake = 0 then Inr 0
      else rbind (u_sub DECIMAL_PRECISION (kickbackRate (frontEnds s f))) (\<lambda>frontEndShare.
        rbind (getDEFTGainFromSnapshots s frontEndStake (frontEndSnapshots s f)) (\<lambda>g.
        rbind (u_mul frontEndShare g) (\<lambda>m. u_div m DECIMAL_PRECISION))))"

definition getCompoundedStakeFromSnapshots :: "stability_pool \<Rightarrow> nat \<Rightarrow> snapshots \<Rightarrow> nat res" where
  "getCompoundedStakeFromSnapshots s initialStake sn =
     (if snap_epoch sn < currentEpoch s then Inr 0
      else rbind (u128_sub (currentScale s) (snap_scale sn)) (\<lambda>scaleDiff.
        rbind (if scaleDiff = 0 then
                 rbind (u_mul initialStake (product_P s)) (\<lambda>m. u_div m (snap_P sn))
               else if scaleDiff = 1 then
                 rbind (u_mul initialStake (product_P s)) (\<lambda>m.
                 rbind (u_div m (snap_P sn)) (\<lambda>q. u_div q SCALE_FACTOR))
               else Inr 0) (\<lambda>compoundedStake.
        rbind (u_div initialStake 1000000000) (\<lambda>billionth.
        Inr (if compoundedStake < billionth then 0 else compoundedStake)))))"

definition getCompoundedUSDDDeposit :: "stability_pool \<Rightarrow> address \<Rightarrow> nat res" where
  "getCompoundedUSDDDeposit s d =
     (let initialDeposit = initialValue (deposits s d) in
      if initialDeposit = 0 then Inr 0
      else getCompoundedStakeFromSnapshots s initialDeposit (depositSnapshots s d))"

definition getCompoundedFrontEndStake :: "stability_pool \<Rightarrow> address \<Rightarrow> nat res" where
  "getCompoundedFrontEndStake s f =
     (let frontEndStake = frontEndStakes s f in
      if frontEndStake = 0 then Inr 0
      else getCompoundedStakeFromSnapshots s frontEndStake (frontEndSnapshots s f))"

section \<open>DEFT issuance\<close>

definition computeDEFTPerUnitStaked :: "nat \<Rightarrow> nat \<Rightarrow> stability_pool \<Rightarrow> (nat \<times> stability_pool) res" where
  "computeDEFTPerUnitStaked DEFTIssuance totalDeposits s =
     rbind (u_mul DEFTIssuance DECIMAL_PRECISION) (\<lambda>m.
     rbind (u_add m (lastDEFTError s)) (\<lambda>DEFTNumerator.
     rbind (u_div DEFTNumerator totalDeposits) (\<lambda>DEFTPerUnitStaked.
     rbind (u_mul DEFTPerUnitStaked totalDeposits) (\<lambda>back_mul.
     rbind (u_sub DEFTNumerator back_mul) (\<lambda>err.
     Inr (DEFTPerUnitStaked, s\<lparr>lastDEFTError := err\<rparr>))))))"

definition set_sum :: "nat \<Rightarrow> nat \<Rightarrow> nat \<Rightarrow> (nat \<Rightarrow> nat \<Rightarrow> nat) \<Rightarrow> nat \<Rightarrow> nat \<Rightarrow> nat" where
  "set_sum e c v m = m(e := (m e)(c := v))"

definition updateG :: "nat \<Rightarrow> stability_pool \<Rightarrow> stability_pool res" where
  "updateG DEFTIssuance s =
     (if totalUSDDDeposits s = 0 \<or> DEFTIssuance = 0 then Inr s
      else rbind (computeDEFTPerUnitStaked DEFTIssuance (totalUSDDDeposits s) s) (\<lambda>(DEFTPerUnitStaked, s1).
        rbind (u_mul DEFTPerUnitStaked (product_P s1)) (\<lambda>marginalDEFTGain.
        rbind (u_add (epochToScaleToG s1 (currentEpoch s1) (currentScale s1)) marginalDEFTGain) (\<lambda>newG.
        Inr (s1\<lparr>epochToScaleToG := set_sum (currentEpoch s1) (currentScale s1) newG (epochToScaleToG s1)\<rparr>)))))"

definition triggerDEFTIssuance :: "'x sp_env \<Rightarrow> nat \<Rightarrow> 'x sp_world \<Rightarrow> 'x sp_world res" where
  "triggerDEFTIssuance E now w =
     rbind (issueDEFT (this_sp E) now (issuance (others w))) (\<lambda>(DEFTIssuance, ci).
     rbind (updateG DEFTIssuance (pool w)) (\<lambda>s.
     Inr (w\<lparr>pool := s, others := (others w)\<lparr>issuance := ci\<rparr>\<rparr>)))"

section \<open>Offsetting debt\<close>

text \<open>The pair is the collateral gain and the loss per unit staked.\<close>

definition computeRewardsPerUnitStaked ::
  "nat \<Rightarrow> nat \<Rightarrow> nat \<Rightarrow> stability_pool \<Rightarrow> ((nat \<times> nat) \<times> stability_pool) res" where
  "computeRewardsPerUnitStaked collToAdd debtToOffset totalDeposits s =
     rbind (u_mul collToAdd DECIMAL_PRECISION) (\<lambda>m.
     rbind (u_add m (lastCollError_Offset s)) (\<lambda>CollNumerator.
     rbind (sol_assert (debtToOffset \<le> totalDeposits)) (\<lambda>_.
     rbind (if debtToOffset = totalDeposits
            then Inr (DECIMAL_PRECISION, s\<lparr>lastUSDDLossError_Offset := 0\<rparr>)
            else rbind (u_mul debtToOffset DECIMAL_PRECISION) (\<lambda>m2.
              rbind (u_sub m2 (lastUSDDLossError_Offset s)) (\<lambda>USDDLossNumerator.
              rbind (u_div USDDLossNumerator totalDeposits) (\<lambda>q.
              rbind (u_add q 1) (\<lambda>USDDLoss.
              rbind (u_mul USDDLoss totalDeposits) (\<lambda>m3.
              rbind (u_sub m3 USDDLossNumerator) (\<lambda>err.
              Inr (USDDLoss, s\<lparr>lastUSDDLossError_Offset := err\<rparr>)))))))) (\<lambda>(USDDLossPerUnitStaked, s1).
     rbind (u_div CollNumerator totalDeposits) (\<lambda>CollGainPerUnitStaked.
     rbind (u_mul CollGainPerUnitStaked totalDeposits) (\<lambda>m4.
     rbind (u_sub CollNumerator m4) (\<lambda>cerr.
     Inr ((CollGainPerUnitStaked, USDDLossPerUnitStaked), s1\<lparr>lastCollError_Offset := cerr\<rparr>))))))))"

definition updateRewardSumAndProduct :: "nat \<Rightarrow> nat \<Rightarrow> stability_pool \<Rightarrow> stability_pool res" where
  "updateRewardSumAndProduct CollGainPerUnitStaked USDDLossPerUnitStaked s =
     rbind (sol_assert (USDDLossPerUnitStaked \<le> DECIMAL_PRECISION)) (\<lambda>_.
     rbind (u_sub DECIMAL_PRECISION USDDLossPerUnitStaked) (\<lambda>newProductFactor.
     rbind (u_mul CollGainPerUnitStaked (product_P s)) (\<lambda>marginalCollGain.
     rbind (u_add (epochToScaleToSum s (currentEpoch s) (currentScale s)) marginalCollGain) (\<lambda>newS.
     let s1 = s\<lparr>epochToScaleToSum := set_sum (currentEpoch s) (currentScale s) newS (epochToScaleToSum s)\<rparr> in
     rbind (if newProductFactor = 0 then
              rbind (u128_add (currentEpoch s) 1) (\<lambda>e.
              Inr (DECIMAL_PRECISION, s1\<lparr>currentEpoch := e, currentScale := 0\<rparr>))
            else
              rbind (u_mul (product_P s) newProductFactor) (\<lambda>m.
              rbind (u_div m DECIMAL_PRECISION) (\<lambda>q.
              if q < SCALE_FACTOR then
                rbind (u_mul m SCALE_FACTOR) (\<lambda>m2.
                rbind (u_div m2 DECIMAL_PRECISION) (\<lambda>newP.
                rbind (u128_add (currentScale s) 1) (\<lambda>c.
                Inr (newP, s1\<lparr>currentScale := c\<rparr>))))
              else Inr (q, s1)))) (\<lambda>(newP, s2).
     rbind (sol_assert (newP > 0)) (\<lambda>_. Inr (s2\<lparr>product_P := newP\<rparr>)))))))"

definition decreaseUSDD :: "nat \<Rightarrow> stability_pool \<Rightarrow> stability_pool res" where
  "decreaseUSDD amount s =
     rbind (u_sub (totalUSDDDeposits s) amount) (\<lambda>t. Inr (s\<lparr>totalUSDDDeposits := t\<rparr>))"

text \<open>The two calls on \<open>ActivePool\<close>; the caller's collateral token is the pool's.\<close>

definition ap_requireCaller :: "address \<Rightarrow> active_pool \<Rightarrow> unit res" where
  "ap_requireCaller sender a =
     require (ap_authorizedBorrowerOperations a sender \<or> ap_authorizedTroveManagers a sender \<or>
         sender = ap_stabilityPoolAddress a)
       ''ActivePool: Caller is neither BorrowerOperations nor TroveManager nor StabilityPool''"

definition ap_decreaseUSDDDebt :: "address \<Rightarrow> nat \<Rightarrow> active_pool \<Rightarrow> active_pool res" where
  "ap_decreaseUSDDDebt sender amount a =
     rbind (ap_requireCaller sender a) (\<lambda>_.
     rbind (u_sub (ap_USDDDebt a) amount) (\<lambda>d. Inr (a\<lparr>ap_USDDDebt := d\<rparr>)))"

definition ap_sendColl :: "'x sp_env \<Rightarrow> address \<Rightarrow> address \<Rightarrow> nat \<Rightarrow> 'x peers \<Rightarrow> 'x peers res" where
  "ap_sendColl E sender account amount p =
     rbind (ap_requireCaller sender (apool p)) (\<lambda>_.
     rbind (u_sub (ap_balance (apool p)) amount) (\<lambda>b.
     rbind (coll_transfer E (activePool_address E) account amount (ext p)) (\<lambda>x.
     Inr (p\<lparr>apool := (apool p)\<lparr>ap_balance := b\<rparr>, ext := x\<rparr>))))"

definition moveOffsetCollAndDebt :: "'x sp_env \<Rightarrow> nat \<Rightarrow> nat \<Rightarrow> 'x sp_world \<Rightarrow> 'x sp_world res" where
  "moveOffsetCollAndDebt E collToAdd debtToOffset w =
     rbind (ap_decreaseUSDDDebt (this_sp E) debtToOffset (apool (others w))) (\<lambda>a.
     rbind (decreaseUSDD debtToOffset (pool w)) (\<lambda>s.
     rbind (usdd_burn (this_sp E) (this_sp E) debtToOffset (usdd (others w))) (\<lambda>u.
     rbind (ap_sendColl E (this_sp E) (this_sp E) collToAdd ((others w)\<lparr>apool := a, usdd := u\<rparr>)) (\<lambda>p.
     rbind (u_add (sp_COLL s) collToAdd) (\<lambda>c.
     Inr (w\<lparr>pool := s\<lparr>sp_COLL := c\<rparr>, others := p\<rparr>))))))"

definition offset :: "'x sp_env \<Rightarrow> nat \<Rightarrow> address \<Rightarrow> nat \<Rightarrow> nat \<Rightarrow> 'x sp_world \<Rightarrow> 'x sp_world res" where
  "offset E now sender debtToOffset collToAdd w =
     rbind (requireCallerIsTroveManager sender (pool w)) (\<lambda>_.
     let totalDeposits = totalUSDDDeposits (pool w) in
     if totalDeposits = 0 \<or> debtToOffset = 0 then Inr w
     else rbind (triggerDEFTIssuance E now w) (\<lambda>w1.
       rbind (computeRewardsPerUnitStaked collToAdd debtToOffset totalDeposits (pool w1))
         (\<lambda>((CollGainPerUnitStaked, USDDLossPerUnitStaked), s2).
       rbind (updateRewardSumAndProduct CollGainPerUnitStaked USDDLossPerUnitStaked s2) (\<lambda>s3.
       moveOffsetCollAndDebt E collToAdd debtToOffset (w1\<lparr>pool := s3\<rparr>)))))"

section \<open>Snapshots and payments\<close>

definition setFrontEndTag :: "address \<Rightarrow> address \<Rightarrow> stability_pool \<Rightarrow> stability_pool" where
  "setFrontEndTag d f s = s\<lparr>deposits := (deposits s)(d := (deposits s d)\<lparr>frontEndTag := f\<rparr>)\<rparr>"

definition updateDepositAndSnapshots :: "address \<Rightarrow> nat \<Rightarrow> stability_pool \<Rightarrow> stability_pool" where
  "updateDepositAndSnapshots d v s =
     (let s1 = s\<lparr>deposits := (deposits s)(d := (deposits s d)\<lparr>initialValue := v\<rparr>)\<rparr> in
      if v = 0 then
        s1\<lparr>deposits := (deposits s1)(d := (deposits s1 d)\<lparr>frontEndTag := 0\<rparr>),
           depositSnapshots := (depositSnapshots s1)(d := zero_snapshots)\<rparr>
      else s1\<lparr>depositSnapshots := (depositSnapshots s1)(d :=
             \<lparr>snap_S = epochToScaleToSum s1 (currentEpoch s1) (currentScale s1), snap_P = product_P s1,
              snap_G = epochToScaleToG s1 (currentEpoch s1) (currentScale s1),
              snap_scale = currentScale s1, snap_epoch = currentEpoch s1\<rparr>)\<rparr>)"

text \<open>A front end's snapshot has no \<open>S\<close>: the field keeps its value.\<close>

definition updateFrontEndStakeAndSnapshots :: "address \<Rightarrow> nat \<Rightarrow> stability_pool \<Rightarrow> stability_pool" where
  "updateFrontEndStakeAndSnapshots f v s =
     (let s1 = s\<lparr>frontEndStakes := (frontEndStakes s)(f := v)\<rparr> in
      if v = 0 then s1\<lparr>frontEndSnapshots := (frontEndSnapshots s1)(f := zero_snapshots)\<rparr>
      else s1\<lparr>frontEndSnapshots := (frontEndSnapshots s1)(f :=
             (frontEndSnapshots s1 f)\<lparr>snap_P := product_P s1,
              snap_G := epochToScaleToG s1 (currentEpoch s1) (currentScale s1),
              snap_scale := currentScale s1, snap_epoch := currentEpoch s1\<rparr>)\<rparr>)"

definition pay_DEFT :: "'x sp_env \<Rightarrow> address \<Rightarrow> nat \<Rightarrow> 'x peers \<Rightarrow> 'x peers res" where
  "pay_DEFT E account amount p =
     rbind (sendDEFT (deft_transfer E (communityIssuance_address E)) (this_sp E) account amount
              (issuance p) (ext p)) (\<lambda>x. Inr (p\<lparr>ext := x\<rparr>))"

definition payOutDEFTGains :: "'x sp_env \<Rightarrow> address \<Rightarrow> address \<Rightarrow> 'x sp_world \<Rightarrow> 'x sp_world res" where
  "payOutDEFTGains E depositor frontEnd w =
     rbind (if frontEnd \<noteq> 0 then
              rbind (getFrontEndDEFTGain (pool w) frontEnd) (\<lambda>g. pay_DEFT E frontEnd g (others w))
            else Inr (others w)) (\<lambda>p.
     rbind (getDepositorDEFTGain (pool w) depositor) (\<lambda>g.
     rbind (pay_DEFT E depositor g p) (\<lambda>p'. Inr (w\<lparr>others := p'\<rparr>))))"

definition sendUSDDtoStabilityPool :: "'x sp_env \<Rightarrow> address \<Rightarrow> nat \<Rightarrow> 'x sp_world \<Rightarrow> 'x sp_world res" where
  "sendUSDDtoStabilityPool E a amount w =
     rbind (usdd_sendToPool (this_sp E) a (this_sp E) amount (usdd (others w))) (\<lambda>u.
     rbind (u_add (totalUSDDDeposits (pool w)) amount) (\<lambda>t.
     Inr (w\<lparr>pool := (pool w)\<lparr>totalUSDDDeposits := t\<rparr>, others := (others w)\<lparr>usdd := u\<rparr>\<rparr>)))"

definition sendUSDDToDepositor :: "'x sp_env \<Rightarrow> address \<Rightarrow> nat \<Rightarrow> 'x sp_world \<Rightarrow> 'x sp_world res" where
  "sendUSDDToDepositor E depositor amount w =
     (if amount = 0 then Inr w
      else rbind (usdd_returnFromPool (this_sp E) (this_sp E) depositor amount (usdd (others w))) (\<lambda>u.
        rbind (decreaseUSDD amount (pool w)) (\<lambda>s.
        Inr (w\<lparr>pool := s, others := (others w)\<lparr>usdd := u\<rparr>\<rparr>))))"

text \<open>The collateral goes to the caller, which is the gateway when the gateway calls.\<close>

definition sendCollGainToDepositor :: "'x sp_env \<Rightarrow> address \<Rightarrow> nat \<Rightarrow> 'x sp_world \<Rightarrow> 'x sp_world res" where
  "sendCollGainToDepositor E sender amount w =
     (if amount = 0 then Inr w
      else rbind (u_sub (sp_COLL (pool w)) amount) (\<lambda>c.
        rbind (coll_transfer E (this_sp E) sender amount (ext (others w))) (\<lambda>x.
        Inr (w\<lparr>pool := (pool w)\<lparr>sp_COLL := c\<rparr>, others := (others w)\<lparr>ext := x\<rparr>\<rparr>))))"

section \<open>The depositors' operations\<close>

definition provideToSP ::
  "'x sp_env \<Rightarrow> nat \<Rightarrow> address \<Rightarrow> address \<Rightarrow> nat \<Rightarrow> address \<Rightarrow> 'x sp_world \<Rightarrow> 'x sp_world res" where
  "provideToSP E now sender depositor amount tag w =
     rbind (requireCallerIsBorrowerOrGw sender depositor (pool w)) (\<lambda>_.
     rbind (requireFrontEndIsRegisteredOrZero tag (pool w)) (\<lambda>_.
     rbind (requireFrontEndNotRegistered depositor (pool w)) (\<lambda>_.
     rbind (requireNonZeroAmount amount) (\<lambda>_.
     let initialDeposit = initialValue (deposits (pool w) depositor) in
     rbind (triggerDEFTIssuance E now w) (\<lambda>w1.
     let w2 = (if initialDeposit = 0 then w1\<lparr>pool := setFrontEndTag depositor tag (pool w1)\<rparr> else w1) in
     rbind (getDepositorCollGain (pool w2) depositor) (\<lambda>depositorCollGain.
     rbind (getCompoundedUSDDDeposit (pool w2) depositor) (\<lambda>compoundedUSDDDeposit.
     rbind (u_sub initialDeposit compoundedUSDDDeposit) (\<lambda>USDDLoss.
     let frontEnd = frontEndTag (deposits (pool w2) depositor) in
     rbind (payOutDEFTGains E depositor frontEnd w2) (\<lambda>w3.
     rbind (getCompoundedFrontEndStake (pool w3) frontEnd) (\<lambda>compoundedFrontEndStake.
     rbind (u_add compoundedFrontEndStake amount) (\<lambda>newFrontEndStake.
     let w4 = w3\<lparr>pool := updateFrontEndStakeAndSnapshots frontEnd newFrontEndStake (pool w3)\<rparr> in
     rbind (sendUSDDtoStabilityPool E depositor amount w4) (\<lambda>w5.
     rbind (u_add compoundedUSDDDeposit amount) (\<lambda>newDeposit.
     let w6 = w5\<lparr>pool := updateDepositAndSnapshots depositor newDeposit (pool w5)\<rparr> in
     sendCollGainToDepositor E sender depositorCollGain w6)))))))))))))"

definition withdrawFromSP ::
  "'x sp_env \<Rightarrow> nat \<Rightarrow> address \<Rightarrow> address \<Rightarrow> nat \<Rightarrow> 'x sp_world \<Rightarrow> 'x sp_world res" where
  "withdrawFromSP E now sender depositor amount w =
     rbind (requireCallerIsBorrowerOrGw sender depositor (pool w)) (\<lambda>_.
     rbind (if amount \<noteq> 0 then requireNoUnderCollateralizedTroves E (others w) else Inr (others w)) (\<lambda>p.
     let w0 = w\<lparr>others := p\<rparr>; initialDeposit = initialValue (deposits (pool w0) depositor) in
     rbind (requireUserHasDeposit initialDeposit) (\<lambda>_.
     rbind (triggerDEFTIssuance E now w0) (\<lambda>w1.
     rbind (getDepositorCollGain (pool w1) depositor) (\<lambda>depositorCollGain.
     rbind (getCompoundedUSDDDeposit (pool w1) depositor) (\<lambda>compoundedUSDDDeposit.
     let USDDtoWithdraw = min_u amount compoundedUSDDDeposit in
     rbind (u_sub initialDeposit compoundedUSDDDeposit) (\<lambda>USDDLoss.
     let frontEnd = frontEndTag (deposits (pool w1) depositor) in
     rbind (payOutDEFTGains E depositor frontEnd w1) (\<lambda>w2.
     rbind (getCompoundedFrontEndStake (pool w2) frontEnd) (\<lambda>compoundedFrontEndStake.
     rbind (u_sub compoundedFrontEndStake USDDtoWithdraw) (\<lambda>newFrontEndStake.
     let w3 = w2\<lparr>pool := updateFrontEndStakeAndSnapshots frontEnd newFrontEndStake (pool w2)\<rparr> in
     rbind (sendUSDDToDepositor E depositor USDDtoWithdraw w3) (\<lambda>w4.
     rbind (u_sub compoundedUSDDDeposit USDDtoWithdraw) (\<lambda>newDeposit.
     let w5 = w4\<lparr>pool := updateDepositAndSnapshots depositor newDeposit (pool w4)\<rparr> in
     sendCollGainToDepositor E sender depositorCollGain w5))))))))))))"

text \<open>
  \<open>withdrawCollGainToTrove\<close> up to its last step, the call of \<open>BorrowerOperations\<close>: the result is the
  depositor's gain with the new state.
\<close>

definition sp_takeCollGain :: "'x sp_env \<Rightarrow> nat \<Rightarrow> address \<Rightarrow> 'x sp_world \<Rightarrow> (nat \<times> 'x sp_world) res" where
  "sp_takeCollGain E now sender w =
     (let initialDeposit = initialValue (deposits (pool w) sender) in
     rbind (requireUserHasDeposit initialDeposit) (\<lambda>_.
     rbind (requireUserHasTrove sender (others w)) (\<lambda>_.
     rbind (getDepositorCollGain (pool w) sender) (\<lambda>CollGain.
     rbind (require (CollGain > 0) ''StabilityPool: caller must have non-zero COLL Gain'') (\<lambda>_.
     rbind (triggerDEFTIssuance E now w) (\<lambda>w1.
     rbind (getDepositorCollGain (pool w1) sender) (\<lambda>depositorCollGain.
     rbind (getCompoundedUSDDDeposit (pool w1) sender) (\<lambda>compoundedUSDDDeposit.
     rbind (u_sub initialDeposit compoundedUSDDDeposit) (\<lambda>USDDLoss.
     let frontEnd = frontEndTag (deposits (pool w1) sender) in
     rbind (payOutDEFTGains E sender frontEnd w1) (\<lambda>w2.
     rbind (getCompoundedFrontEndStake (pool w2) frontEnd) (\<lambda>newFrontEndStake.
     let w3 = w2\<lparr>pool := updateDepositAndSnapshots sender compoundedUSDDDeposit
                  (updateFrontEndStakeAndSnapshots frontEnd newFrontEndStake (pool w2))\<rparr> in
     rbind (u_sub (sp_COLL (pool w3)) depositorCollGain) (\<lambda>c.
     Inr (depositorCollGain, w3\<lparr>pool := (pool w3)\<lparr>sp_COLL := c\<rparr>\<rparr>)))))))))))))"

definition withdrawCollGainToTrove ::
  "'x sp_env \<Rightarrow> nat \<Rightarrow> address \<Rightarrow> address \<Rightarrow> address \<Rightarrow> 'x sp_world \<Rightarrow> 'x sp_world res" where
  "withdrawCollGainToTrove E now sender upperHint lowerHint w =
     rbind (sp_takeCollGain E now sender w) (\<lambda>(depositorCollGain, w').
     rbind (moveCollGain E sender depositorCollGain upperHint lowerHint (others w')) (\<lambda>p.
     Inr (w'\<lparr>others := p\<rparr>)))"

definition registerFrontEnd :: "address \<Rightarrow> nat \<Rightarrow> stability_pool \<Rightarrow> stability_pool res" where
  "registerFrontEnd sender rate s =
     rbind (requireFrontEndNotRegistered sender s) (\<lambda>_.
     rbind (requireUserHasNoDeposit sender s) (\<lambda>_.
     rbind (requireValidKickbackRate rate) (\<lambda>_.
     Inr (s\<lparr>frontEnds := (frontEnds s)(sender := \<lparr>kickbackRate = rate, registered = True\<rparr>)\<rparr>))))"

section \<open>Calls\<close>

datatype sp_call =
    Offset nat nat
  | ProvideToSP address nat address
  | WithdrawFromSP address nat
  | WithdrawCollGainToTrove address address
  | RegisterFrontEnd nat

fun sp_exec :: "'x sp_env \<Rightarrow> nat \<Rightarrow> address \<Rightarrow> sp_call \<Rightarrow> 'x sp_world \<Rightarrow> 'x sp_world res" where
  "sp_exec E now sender (Offset d c) w = offset E now sender d c w"
| "sp_exec E now sender (ProvideToSP a n t) w = provideToSP E now sender a n t w"
| "sp_exec E now sender (WithdrawFromSP a n) w = withdrawFromSP E now sender a n w"
| "sp_exec E now sender (WithdrawCollGainToTrove u l) w = withdrawCollGainToTrove E now sender u l w"
| "sp_exec E now sender (RegisterFrontEnd r) w =
     rbind (registerFrontEnd sender r (pool w)) (\<lambda>s. Inr (w\<lparr>pool := s\<rparr>))"

end
