(* ===== verification/Deposit_Book.thy ===== *)
theory Deposit_Book
  imports Complex_Main Stability_Pool
begin

text \<open>
  An abstract account of the Stability Pool: the deposit book keeps only the amounts, the product, the
  scale, the epoch and the rounding error of the losses; rewards, front ends, tokens and the other
  contracts are gone.  First the book and its operations, then the refinement: every call of the model of
  \<open>StabilityPool.sol\<close> that succeeds acts on the book as the book's operation does.
\<close>

section \<open>The book\<close>

record book =
  bk_total :: nat
  bk_amount :: "address \<Rightarrow> nat"
  bk_snap :: "address \<Rightarrow> nat \<times> nat \<times> nat"
  bk_P :: nat
  bk_scale :: nat
  bk_epoch :: nat
  bk_err :: nat

text \<open>A snapshot is \<open>(P, scale, epoch)\<close>.\<close>

definition book_of :: "stability_pool \<Rightarrow> book" where
  "book_of s = \<lparr>bk_total = totalUSDDDeposits s, bk_amount = (\<lambda>a. initialValue (deposits s a)),
     bk_snap = (\<lambda>a. let sn = depositSnapshots s a in (snap_P sn, snap_scale sn, snap_epoch sn)),
     bk_P = product_P s, bk_scale = currentScale s, bk_epoch = currentEpoch s,
     bk_err = lastUSDDLossError_Offset s\<rparr>"

definition book_set :: "address \<Rightarrow> nat \<Rightarrow> book \<Rightarrow> book" where
  "book_set a v b = b\<lparr>bk_amount := (bk_amount b)(a := v),
     bk_snap := (bk_snap b)(a := if v = 0 then (0, 0, 0) else (bk_P b, bk_scale b, bk_epoch b))\<rparr>"

definition book_provide :: "address \<Rightarrow> nat \<Rightarrow> nat \<Rightarrow> book \<Rightarrow> book" where
  "book_provide a c n b = book_set a (c + n) (b\<lparr>bk_total := bk_total b + n\<rparr>)"

definition book_withdraw :: "address \<Rightarrow> nat \<Rightarrow> nat \<Rightarrow> book \<Rightarrow> book" where
  "book_withdraw a c n b = book_set a (c - min n c) (b\<lparr>bk_total := bk_total b - min n c\<rparr>)"

text \<open>The loss per unit of an offset with the new rounding error, and what the loss does to the product.\<close>

definition book_loss :: "nat \<Rightarrow> book \<Rightarrow> nat \<times> nat" where
  "book_loss D b =
     (if D = bk_total b then (DECIMAL_PRECISION, 0)
      else let num = D * DECIMAL_PRECISION - bk_err b; l = num div bk_total b + 1
        in (l, l * bk_total b - num))"

definition book_drain :: "nat \<Rightarrow> book \<Rightarrow> book" where
  "book_drain l b =
     (if l = DECIMAL_PRECISION then b\<lparr>bk_P := DECIMAL_PRECISION, bk_scale := 0, bk_epoch := bk_epoch b + 1\<rparr>
      else let m = bk_P b * (DECIMAL_PRECISION - l) in
        if m div DECIMAL_PRECISION < SCALE_FACTOR
        then b\<lparr>bk_P := m * SCALE_FACTOR div DECIMAL_PRECISION, bk_scale := bk_scale b + 1\<rparr>
        else b\<lparr>bk_P := m div DECIMAL_PRECISION\<rparr>)"

definition book_offset :: "nat \<Rightarrow> book \<Rightarrow> book" where
  "book_offset D b =
     (if bk_total b = 0 \<or> D = 0 then b
      else case book_loss D b of (l, e) \<Rightarrow>
        (book_drain l (b\<lparr>bk_err := e\<rparr>))\<lparr>bk_total := bk_total b - D\<rparr>)"

text \<open>What an offset requires to go through.\<close>

definition book_offset_ok :: "nat \<Rightarrow> book \<Rightarrow> bool" where
  "book_offset_ok D b \<longleftrightarrow> bk_total b = 0 \<or> D = 0 \<or>
     D \<le> bk_total b \<and> (D < bk_total b \<longrightarrow> bk_err b \<le> D * DECIMAL_PRECISION) \<and>
     fst (book_loss D b) \<le> DECIMAL_PRECISION \<and> 0 < bk_P (book_offset D b)"

definition book_compounded :: "book \<Rightarrow> address \<Rightarrow> nat res" where
  "book_compounded b a = (if bk_amount b a = 0 then Inr 0 else
     case bk_snap b a of (sP, sc, se) \<Rightarrow>
     getCompoundedStakeFromSnapshots
       ((sp_deployed 0 0)\<lparr>product_P := bk_P b, currentScale := bk_scale b, currentEpoch := bk_epoch b\<rparr>)
       (bk_amount b a) \<lparr>snap_S = 0, snap_P = sP, snap_G = 0, snap_scale = sc, snap_epoch = se\<rparr>)"

section \<open>The pool's helpers on the book\<close>

lemma book_of_simps [simp]:
  "bk_total (book_of s) = totalUSDDDeposits s"
  "bk_P (book_of s) = product_P s"
  "bk_scale (book_of s) = currentScale s"
  "bk_epoch (book_of s) = currentEpoch s"
  "bk_err (book_of s) = lastUSDDLossError_Offset s"
  "bk_amount (book_of s) a = initialValue (deposits s a)"
  by (simp_all add: book_of_def)

lemma getCompounded_book: "getCompoundedUSDDDeposit s a = book_compounded (book_of s) a"
  by (simp add: getCompoundedUSDDDeposit_def book_compounded_def getCompoundedStakeFromSnapshots_def
      book_of_def Let_def cong: if_cong)

lemma updateG_book:
  assumes "updateG n s = Inr s'"
  shows "book_of s' = book_of s"
  using assms
  by (auto simp: updateG_def computeDEFTPerUnitStaked_def rbind_Inr_iff book_of_def split: if_splits)

lemma trigger_book:
  assumes "triggerDEFTIssuance E now w = Inr w'"
  shows "book_of (pool w') = book_of (pool w)"
  using assms by (auto simp: triggerDEFTIssuance_def rbind_Inr_iff updateG_book)

lemma payOut_pool:
  assumes "payOutDEFTGains E d f w = Inr w'"
  shows "pool w' = pool w"
  using assms by (auto simp: payOutDEFTGains_def rbind_Inr_iff)

lemma updateFrontEnd_book [simp]: "book_of (updateFrontEndStakeAndSnapshots f v s) = book_of s"
  by (simp add: updateFrontEndStakeAndSnapshots_def book_of_def Let_def)

lemma updateFrontEnd_total [simp]:
  "totalUSDDDeposits (updateFrontEndStakeAndSnapshots f v s) = totalUSDDDeposits s"
  by (simp add: updateFrontEndStakeAndSnapshots_def Let_def)

lemma setFrontEndTag_book [simp]: "book_of (setFrontEndTag d f s) = book_of s"
  by (auto simp: setFrontEndTag_def book_of_def fun_eq_iff)

lemma updateDeposit_book [simp]: "book_of (updateDepositAndSnapshots d v s) = book_set d v (book_of s)"
  by (auto simp: updateDepositAndSnapshots_def book_of_def book_set_def zero_snapshots_def Let_def fun_eq_iff)

lemma sendUSDDto_book:
  assumes "sendUSDDtoStabilityPool E a n w = Inr w'"
  shows "book_of (pool w') = (book_of (pool w))\<lparr>bk_total := totalUSDDDeposits (pool w) + n\<rparr>"
  using assms by (auto simp: sendUSDDtoStabilityPool_def rbind_Inr_iff u_add_Inr_iff book_of_def)

lemma sendUSDDToDepositor_book:
  assumes "sendUSDDToDepositor E a n w = Inr w'"
  shows "n \<le> totalUSDDDeposits (pool w) \<and>
    book_of (pool w') = (book_of (pool w))\<lparr>bk_total := totalUSDDDeposits (pool w) - n\<rparr>"
  using assms
  by (auto simp: sendUSDDToDepositor_def decreaseUSDD_def rbind_Inr_iff u_sub_Inr_iff book_of_def split: if_splits)

lemma sendCollGain_book:
  assumes "sendCollGainToDepositor E a n w = Inr w'"
  shows "book_of (pool w') = book_of (pool w)"
  using assms by (auto simp: sendCollGainToDepositor_def rbind_Inr_iff book_of_def split: if_splits)

lemma registerFrontEnd_book:
  assumes "registerFrontEnd a r s = Inr s'"
  shows "book_of s' = book_of s"
  using assms by (auto simp: registerFrontEnd_def rbind_Inr_iff book_of_def)

section \<open>The refinement, call by call\<close>


text \<open>The helpers do not move the total, so the pool's own tracker is read off the book.\<close>

lemma trigger_total:
  assumes "triggerDEFTIssuance E now w = Inr w'"
  shows "totalUSDDDeposits (pool w') = totalUSDDDeposits (pool w)"
  using arg_cong[OF trigger_book[OF assms], of bk_total] by simp

lemma trigger_keeps:
  assumes "triggerDEFTIssuance E now w = Inr w'"
  shows "book_of (pool w') = book_of (pool w) \<and> totalUSDDDeposits (pool w') = totalUSDDDeposits (pool w)"
  using trigger_book[OF assms] trigger_total[OF assms] by simp

lemma book_of_COLL [simp]: "book_of (s\<lparr>sp_COLL := c\<rparr>) = book_of s"
  by (simp add: book_of_def)

lemma setFrontEndTag_total [simp]: "totalUSDDDeposits (setFrontEndTag d f s) = totalUSDDDeposits s"
  by (simp add: setFrontEndTag_def)

lemmas pool_helpers_dest =
  trigger_keeps payOut_pool sendUSDDto_book sendUSDDToDepositor_book sendCollGain_book

lemma provide_book:
  assumes "provideToSP E now sender d n t w = Inr w'"
  shows "\<exists>c. book_compounded (book_of (pool w)) d = Inr c \<and>
    book_of (pool w') = book_provide d c n (book_of (pool w))"
proof (cases "initialValue (deposits (pool w) d) = 0")
  case True
  with assms show ?thesis
    by (auto simp: provideToSP_def rbind_Inr_iff Let_def u_add_Inr_iff book_provide_def getCompounded_book
        dest!: pool_helpers_dest)
next
  case False
  with assms show ?thesis
    by (auto simp: provideToSP_def rbind_Inr_iff Let_def u_add_Inr_iff book_provide_def getCompounded_book
        dest!: pool_helpers_dest)
qed

lemma withdraw_book:
  assumes "withdrawFromSP E now sender d n w = Inr w'"
  shows "\<exists>c. book_compounded (book_of (pool w)) d = Inr c \<and> min n c \<le> totalUSDDDeposits (pool w) \<and>
    book_of (pool w') = book_withdraw d c n (book_of (pool w))"
  using assms
  by (auto simp: withdrawFromSP_def rbind_Inr_iff Let_def u_sub_Inr_iff book_withdraw_def getCompounded_book
      split: if_splits dest!: pool_helpers_dest)

lemma collGain_book:
  assumes "withdrawCollGainToTrove E now sender u l w = Inr w'"
  shows "\<exists>c. book_compounded (book_of (pool w)) sender = Inr c \<and>
    book_of (pool w') = book_set sender c (book_of (pool w))"
  using assms
  by (auto simp: withdrawCollGainToTrove_def sp_takeCollGain_def rbind_Inr_iff Let_def getCompounded_book
      split: if_splits dest!: pool_helpers_dest)

section \<open>Offsets\<close>

lemma computeRewards_book:
  assumes "computeRewardsPerUnitStaked c D (totalUSDDDeposits s) s = Inr ((g, l), s')"
    and "totalUSDDDeposits s \<noteq> 0"
  shows "D \<le> totalUSDDDeposits s \<and>
    (D < totalUSDDDeposits s \<longrightarrow> lastUSDDLossError_Offset s \<le> D * DECIMAL_PRECISION) \<and>
    (\<exists>e. book_loss D (book_of s) = (l, e) \<and> book_of s' = (book_of s)\<lparr>bk_err := e\<rparr>)"
proof (cases "D = totalUSDDDeposits s")
  case True
  with assms show ?thesis
    by (auto simp: computeRewardsPerUnitStaked_def rbind_Inr_iff u_Inr_iffs book_loss_def book_of_def)
next
  case False
  with assms show ?thesis
    by (auto simp: computeRewardsPerUnitStaked_def rbind_Inr_iff u_Inr_iffs book_loss_def book_of_def Let_def)
qed

lemma updateReward_book:
  assumes "updateRewardSumAndProduct g l s = Inr s'"
  shows "l \<le> DECIMAL_PRECISION \<and> book_of s' = book_drain l (book_of s) \<and> 0 < product_P s'"
proof (cases "l = DECIMAL_PRECISION")
  case True
  with assms show ?thesis
    by (auto simp: updateRewardSumAndProduct_def rbind_Inr_iff u_Inr_iffs u128_add_def book_drain_def book_of_def
        Let_def split: if_splits)
next
  case False
  with assms have "l < DECIMAL_PRECISION"
    by (auto simp: updateRewardSumAndProduct_def rbind_Inr_iff)
  with assms show ?thesis
    by (auto simp: updateRewardSumAndProduct_def rbind_Inr_iff u_Inr_iffs u128_add_def book_drain_def book_of_def
        Let_def split: if_splits)
qed

lemma moveOffset_book:
  assumes "moveOffsetCollAndDebt E c D w = Inr w'"
  shows "D \<le> totalUSDDDeposits (pool w) \<and>
    book_of (pool w') = (book_of (pool w))\<lparr>bk_total := totalUSDDDeposits (pool w) - D\<rparr>"
  using assms
  by (auto simp: moveOffsetCollAndDebt_def decreaseUSDD_def rbind_Inr_iff u_Inr_iffs book_of_def)

lemma book_drain_total [simp]: "bk_total (book_drain l b) = bk_total b"
  by (simp add: book_drain_def Let_def)

lemma offset_book:
  assumes "offset E now sender D c w = Inr w'"
  shows "book_offset_ok D (book_of (pool w)) \<and> book_of (pool w') = book_offset D (book_of (pool w))"
proof (cases "totalUSDDDeposits (pool w) = 0 \<or> D = 0")
  case True
  with assms show ?thesis
    by (auto simp: offset_def rbind_Inr_iff book_offset_def book_offset_ok_def)
next
  case False
  with assms obtain w1 g l s2 s3 where
    t: "triggerDEFTIssuance E now w = Inr w1" and
    r: "computeRewardsPerUnitStaked c D (totalUSDDDeposits (pool w)) (pool w1) = Inr ((g, l), s2)" and
    u: "updateRewardSumAndProduct g l s2 = Inr s3" and
    m: "moveOffsetCollAndDebt E c D (w1\<lparr>pool := s3\<rparr>) = Inr w'"
    by (auto simp: offset_def rbind_Inr_iff)
  have T: "book_of (pool w1) = book_of (pool w)" "totalUSDDDeposits (pool w1) = totalUSDDDeposits (pool w)"
    using trigger_keeps[OF t] by auto
  have E: "lastUSDDLossError_Offset (pool w1) = lastUSDDLossError_Offset (pool w)"
    using arg_cong[OF T(1), of bk_err] by simp
  obtain e where R: "D \<le> totalUSDDDeposits (pool w)"
      "D < totalUSDDDeposits (pool w) \<Longrightarrow> lastUSDDLossError_Offset (pool w) \<le> D * DECIMAL_PRECISION"
      "book_loss D (book_of (pool w)) = (l, e)" "book_of s2 = (book_of (pool w))\<lparr>bk_err := e\<rparr>"
    using computeRewards_book[of c D "pool w1" g l s2] r False T E by auto
  note U = updateReward_book[OF u]
  have s3: "totalUSDDDeposits s3 = totalUSDDDeposits (pool w)"
    using arg_cong[OF conjunct1[OF conjunct2[OF U]], of bk_total] arg_cong[OF R(4), of bk_total] by simp
  have eq: "book_of (pool w') = book_offset D (book_of (pool w))"
    using moveOffset_book[OF m] U R False s3 by (simp add: book_offset_def)
  have "bk_P (book_of (pool w')) = product_P s3" using moveOffset_book[OF m] by simp
  with U eq have "0 < bk_P (book_offset D (book_of (pool w)))" by simp
  with R U eq show ?thesis by (simp add: book_offset_ok_def)
qed

section \<open>The book as a machine\<close>

text \<open>What a successful call does to the book; \<open>c\<close> is the depositor's compounded deposit.\<close>

fun book_step :: "address \<Rightarrow> sp_call \<Rightarrow> book \<Rightarrow> book \<Rightarrow> bool" where
  "book_step sender (Offset D c) b b' \<longleftrightarrow> book_offset_ok D b \<and> b' = book_offset D b"
| "book_step sender (ProvideToSP a n t) b b' \<longleftrightarrow>
     (case book_compounded b a of Inl e \<Rightarrow> False | Inr c \<Rightarrow> b' = book_provide a c n b)"
| "book_step sender (WithdrawFromSP a n) b b' \<longleftrightarrow>
     (case book_compounded b a of Inl e \<Rightarrow> False | Inr c \<Rightarrow>
        min n c \<le> bk_total b \<and> b' = book_withdraw a c n b)"
| "book_step sender (WithdrawCollGainToTrove u l) b b' \<longleftrightarrow>
     (case book_compounded b sender of Inl e \<Rightarrow> False | Inr c \<Rightarrow> b' = book_set sender c b)"
| "book_step sender (RegisterFrontEnd r) b b' \<longleftrightarrow> b' = b"

lemma sp_exec_book:
  assumes "sp_exec E now sender c w = Inr w'"
  shows "book_step sender c (book_of (pool w)) (book_of (pool w'))"
proof (cases c)
  case (Offset D k)
  with assms show ?thesis by (simp add: offset_book)
next
  case (ProvideToSP a n t)
  with assms provide_book[of E now sender a n t w w'] show ?thesis by auto
next
  case (WithdrawFromSP a n)
  with assms withdraw_book[of E now sender a n w w'] show ?thesis by auto
next
  case (WithdrawCollGainToTrove u l)
  with assms collGain_book[of E now sender u l w w'] show ?thesis by auto
next
  case (RegisterFrontEnd r)
  with assms show ?thesis by (auto simp: rbind_Inr_iff registerFrontEnd_book)
qed

end
