(* ===== verification/Stability_Pool_Laws.thy ===== *)
theory Stability_Pool_Laws
  imports Deposit_Book
begin

text \<open>
  What the Stability Pool keeps true over every history of calls: the product stays in its range,
  snapshots never lie ahead of the pool, and the deposits that can be claimed exceed what the pool
  holds by at most one unit per whole token it ever held.  The exact worth of a deposit is a real
  number; the sum of the worths is followed through the rounding of every operation.
\<close>

section \<open>Exact worth of the deposits\<close>

definition worth :: "book \<Rightarrow> address \<Rightarrow> real" where
  "worth b a = (case bk_snap b a of (sP, sc, se) \<Rightarrow>
     if bk_amount b a = 0 \<or> se \<noteq> bk_epoch b then 0
     else real (bk_amount b a) * real (bk_P b) / (real sP * real SCALE_FACTOR ^ (bk_scale b - sc)))"

definition total_worth :: "book \<Rightarrow> real" where
  "total_worth b = sum (worth b) (holders (bk_amount b))"

definition book_inv :: "book \<Rightarrow> bool" where
  "book_inv b \<longleftrightarrow> 0 < bk_P b \<and> bk_P b \<le> DECIMAL_PRECISION \<and> finite (holders (bk_amount b)) \<and>
     (\<forall>a sP sc se. bk_amount b a \<noteq> 0 \<longrightarrow> bk_snap b a = (sP, sc, se) \<longrightarrow>
        0 < sP \<and> sP \<le> DECIMAL_PRECISION \<and> se \<le> bk_epoch b \<and> (se = bk_epoch b \<longrightarrow> sc \<le> bk_scale b))"

lemma book_inv_snap:
  assumes "book_inv b" and "bk_amount b a \<noteq> 0" and "bk_snap b a = (sP, sc, se)"
  shows "0 < sP" and "sP \<le> DECIMAL_PRECISION" and "se \<le> bk_epoch b" and "se = bk_epoch b \<Longrightarrow> sc \<le> bk_scale b"
  using assms by (auto simp: book_inv_def)

text \<open>The slack \<open>K\<close> bounds every total of the history, and with it every rounding error.\<close>

definition solvent :: "nat \<Rightarrow> book \<Rightarrow> bool" where
  "solvent K b \<longleftrightarrow> bk_err b \<le> K \<and>
     total_worth b \<le> real (bk_total b) - real (bk_err b) / real DECIMAL_PRECISION + real K / real DECIMAL_PRECISION"

lemma DP_real: "real DECIMAL_PRECISION = 10 ^ 18"
  by (simp add: DECIMAL_PRECISION_def)

lemma SF_real: "real SCALE_FACTOR = 10 ^ 9"
  by (simp add: SCALE_FACTOR_def)

lemma worth_nonneg: "0 \<le> worth b a"
  by (simp add: worth_def split: prod.split)

lemma total_worth_superset:
  assumes "finite A" and "holders (bk_amount b) \<subseteq> A"
  shows "total_worth b = sum (worth b) A"
  unfolding total_worth_def
  by (rule sum.mono_neutral_left) (use assms in \<open>auto simp: worth_def holders_def split: prod.splits\<close>)

lemma real_div_le: "real (a div b) \<le> real a / real b"
  by (simp add: of_nat_div_le_of_nat)

section \<open>Rounding down\<close>

text \<open>What a depositor can claim is at most the exact worth of the deposit.\<close>

lemma compounded_le_worth:
  assumes "book_inv b" and "book_compounded b a = Inr v"
  shows "real v \<le> worth b a"
proof (cases "bk_amount b a = 0 \<or> v = 0")
  case True
  then show ?thesis using assms(2) worth_nonneg[of b a] by (auto simp: book_compounded_def)
next
  case False
  obtain sP sc se where sn: "bk_snap b a = (sP, sc, se)" by (cases "bk_snap b a")
  let ?d = "bk_amount b a"
  from False have nz: "?d \<noteq> 0" by simp
  note le = book_inv_snap[OF assms(1) nz sn]
  from assms(2) False sn have ep: "\<not> se < bk_epoch b"
    by (auto simp: book_compounded_def getCompoundedStakeFromSnapshots_def)
  with le have se: "se = bk_epoch b" "sc \<le> bk_scale b" by auto
  have v: "v = ?d * bk_P b div sP \<and> bk_scale b - sc = 0 \<or>
           v = ?d * bk_P b div sP div SCALE_FACTOR \<and> bk_scale b - sc = 1"
    using assms(2) False sn se
    by (auto simp: book_compounded_def getCompoundedStakeFromSnapshots_def rbind_Inr_iff u_Inr_iffs
        u128_sub_def split: if_splits)
  have q: "real (?d * bk_P b div sP) \<le> real ?d * real (bk_P b) / real sP"
    using real_div_le[of "?d * bk_P b" sP] by simp
  have "real (?d * bk_P b div sP div SCALE_FACTOR) \<le> real ?d * real (bk_P b) / real sP / real SCALE_FACTOR"
    using real_div_le[of "?d * bk_P b div sP" SCALE_FACTOR] divide_right_mono[OF q, of "real SCALE_FACTOR"]
    by linarith
  with v q False sn se show ?thesis by (auto simp: worth_def)
qed

section \<open>Writing a deposit\<close>

lemma worth_set_same: "book_inv b \<Longrightarrow> worth (book_set a v b) a = real v"
  by (simp add: worth_def book_set_def book_inv_def)

lemma worth_set_other: "x \<noteq> a \<Longrightarrow> worth (book_set a v b) x = worth b x"
  by (simp add: worth_def book_set_def split: prod.split)

lemma book_inv_set: "book_inv b \<Longrightarrow> book_inv (book_set a v b)"
  by (auto simp: book_inv_def book_set_def split: prod.splits)

lemma total_worth_set:
  assumes "book_inv b"
  shows "total_worth (book_set a v b) = total_worth b - worth b a + real v"
proof -
  let ?A = "insert a (holders (bk_amount b))"
  have fin: "finite ?A" using assms by (simp add: book_inv_def)
  have "total_worth (book_set a v b) = sum (worth (book_set a v b)) ?A"
    by (rule total_worth_superset[OF fin]) (auto simp: book_set_def holders_def)
  also have "\<dots> = real v + sum (worth (book_set a v b)) (?A - {a})"
    using fin by (simp add: sum.remove[of ?A a] worth_set_same[OF assms])
  also have "sum (worth (book_set a v b)) (?A - {a}) = sum (worth b) (?A - {a})"
    by (intro sum.cong) (auto simp: worth_set_other)
  also have "\<dots> = sum (worth b) ?A - worth b a" using fin by (simp add: sum.remove[of ?A a])
  also have "sum (worth b) ?A = total_worth b" by (rule total_worth_superset[OF fin, symmetric]) auto
  finally show ?thesis by simp
qed

lemma worth_total [simp]: "worth (b\<lparr>bk_total := t\<rparr>) a = worth b a"
  by (simp add: worth_def split: prod.split)

lemma total_worth_total [simp]: "total_worth (b\<lparr>bk_total := t\<rparr>) = total_worth b"
  by (simp add: total_worth_def)

lemma book_inv_total [simp]: "book_inv (b\<lparr>bk_total := t\<rparr>) = book_inv b"
  by (simp add: book_inv_def)

lemma book_set_fields [simp]:
  "bk_total (book_set a v b) = bk_total b" "bk_err (book_set a v b) = bk_err b"
  by (simp_all add: book_set_def)

section \<open>Draining the pool\<close>

lemma book_drain_amount [simp]: "bk_amount (book_drain l b) = bk_amount b" "bk_snap (book_drain l b) = bk_snap b"
    "bk_err (book_drain l b) = bk_err b"
  by (simp_all add: book_drain_def Let_def)

lemma drain_epoch:
  "bk_epoch (book_drain l b) = (if l = DECIMAL_PRECISION then bk_epoch b + 1 else bk_epoch b)"
  by (simp add: book_drain_def Let_def)

text \<open>A factor of the product, rounded down, scaled up by \<open>SCALE_FACTOR\<close> when the scale moves.\<close>

lemma drain_P:
  assumes "l < DECIMAL_PRECISION"
  shows "bk_epoch (book_drain l b) = bk_epoch b \<and>
    (bk_scale (book_drain l b) = bk_scale b \<and>
       real (bk_P (book_drain l b)) \<le> real (bk_P b) * real (DECIMAL_PRECISION - l) / real DECIMAL_PRECISION \<or>
     bk_scale (book_drain l b) = bk_scale b + 1 \<and>
       real (bk_P (book_drain l b))
         \<le> real (bk_P b) * real (DECIMAL_PRECISION - l) / real DECIMAL_PRECISION * real SCALE_FACTOR)"
proof -
  let ?m = "bk_P b * (DECIMAL_PRECISION - l)"
  have "real (?m div DECIMAL_PRECISION) \<le> real ?m / real DECIMAL_PRECISION" by (rule real_div_le)
  moreover have "real (?m * SCALE_FACTOR div DECIMAL_PRECISION) \<le> real (?m * SCALE_FACTOR) / real DECIMAL_PRECISION"
    by (rule real_div_le)
  ultimately show ?thesis using assms by (simp add: book_drain_def Let_def)
qed

lemma worth_drain:
  assumes "book_inv b" and "l \<le> DECIMAL_PRECISION"
  shows "worth (book_drain l b) a \<le> worth b a * (real (DECIMAL_PRECISION - l) / real DECIMAL_PRECISION)"
proof -
  obtain sP sc se where sn: "bk_snap b a = (sP, sc, se)" by (cases "bk_snap b a")
  let ?f = "real (DECIMAL_PRECISION - l) / real DECIMAL_PRECISION"
  let ?d = "real (bk_amount b a)" and ?P = "real (bk_P (book_drain l b))"
  have DP: "0 < real DECIMAL_PRECISION" and SF: "0 < real SCALE_FACTOR"
    by (simp_all add: DECIMAL_PRECISION_def SCALE_FACTOR_def)
  show ?thesis
  proof (cases "bk_amount b a = 0 \<or> se \<noteq> bk_epoch b \<or> l = DECIMAL_PRECISION")
    case True
    have "worth (book_drain l b) a = 0"
    proof (cases "bk_amount b a = 0")
      case False
      with book_inv_snap(3)[OF assms(1) _ sn] have "se \<le> bk_epoch b" by simp
      with True False have "se \<noteq> bk_epoch (book_drain l b)" by (auto simp: drain_epoch)
      with sn show ?thesis by (simp add: worth_def)
    qed (simp add: worth_def split: prod.split)
    then show ?thesis using worth_nonneg[of b a] DP by simp
  next
    case False
    then have l: "l < DECIMAL_PRECISION" and se: "se = bk_epoch b" and d: "bk_amount b a \<noteq> 0"
      using assms(2) by auto
    note le = book_inv_snap[OF assms(1) d sn]
    define D where "D = real sP * real SCALE_FACTOR ^ (bk_scale b - sc)"
    have D: "0 < D" using le(1) SF by (simp add: D_def)
    have w: "worth b a = ?d * real (bk_P b) / D" using sn se d by (simp add: worth_def D_def)
    from drain_P[OF l, of b] consider
      (same) "bk_scale (book_drain l b) = bk_scale b" "?P \<le> real (bk_P b) * ?f"
      | (up) "bk_scale (book_drain l b) = bk_scale b + 1" "?P \<le> real (bk_P b) * ?f * real SCALE_FACTOR"
      by (auto simp: mult.commute)
    then show ?thesis
    proof cases
      case same
      have "worth (book_drain l b) a = ?d * ?P / D"
        using sn se d drain_P[OF l, of b] same by (simp add: worth_def D_def)
      also have "\<dots> \<le> ?d * (real (bk_P b) * ?f) / D"
        using same(2) D by (intro divide_right_mono mult_left_mono) auto
      finally show ?thesis by (simp add: w ac_simps)
    next
      case up
      have "bk_scale b + 1 - sc = Suc (bk_scale b - sc)" using le(4)[OF se] by simp
      then have "worth (book_drain l b) a = ?d * ?P / (D * real SCALE_FACTOR)"
        using sn se d drain_P[OF l, of b] up by (simp add: worth_def D_def ac_simps)
      also have "\<dots> \<le> ?d * (real (bk_P b) * ?f * real SCALE_FACTOR) / (D * real SCALE_FACTOR)"
        using up(2) D SF by (intro divide_right_mono mult_left_mono) auto
      also have "\<dots> = ?d * (real (bk_P b) * ?f) / D" using SF by simp
      finally show ?thesis by (simp add: w ac_simps)
    qed
  qed
qed

lemma total_worth_drain:
  assumes "book_inv b" and "l \<le> DECIMAL_PRECISION"
  shows "total_worth (book_drain l b) \<le> total_worth b * (real (DECIMAL_PRECISION - l) / real DECIMAL_PRECISION)"
  unfolding total_worth_def book_drain_amount sum_distrib_right
  by (rule sum_mono) (rule worth_drain[OF assms])

lemma worth_err [simp]: "worth (b\<lparr>bk_err := e\<rparr>) a = worth b a"
  by (simp add: worth_def split: prod.split)

lemma total_worth_err [simp]: "total_worth (b\<lparr>bk_err := e\<rparr>) = total_worth b"
  by (simp add: total_worth_def)

lemma book_inv_err [simp]: "book_inv (b\<lparr>bk_err := e\<rparr>) = book_inv b"
  by (simp add: book_inv_def)

text \<open>The upper bound of the product survives a drain; its positivity is what the code asserts.\<close>

lemma drain_P_le:
  assumes "bk_P b \<le> DECIMAL_PRECISION"
  shows "bk_P (book_drain l b) \<le> DECIMAL_PRECISION"
proof (cases "l = DECIMAL_PRECISION")
  case False
  let ?m = "bk_P b * (DECIMAL_PRECISION - l)"
  have m: "?m \<le> DECIMAL_PRECISION * DECIMAL_PRECISION" using assms by (intro mult_le_mono) auto
  then have q: "?m div DECIMAL_PRECISION \<le> DECIMAL_PRECISION"
    using div_le_mono[OF m, of DECIMAL_PRECISION] by (simp add: DECIMAL_PRECISION_def)
  have "?m * SCALE_FACTOR div DECIMAL_PRECISION \<le> DECIMAL_PRECISION" if "?m div DECIMAL_PRECISION < SCALE_FACTOR"
  proof -
    have "?m < SCALE_FACTOR * DECIMAL_PRECISION"
      using that by (simp add: div_less_iff_less_mult DECIMAL_PRECISION_def)
    then have "?m * SCALE_FACTOR \<le> SCALE_FACTOR * DECIMAL_PRECISION * SCALE_FACTOR" by simp
    then have "?m * SCALE_FACTOR div DECIMAL_PRECISION \<le> SCALE_FACTOR * DECIMAL_PRECISION * SCALE_FACTOR div DECIMAL_PRECISION"
      by (rule div_le_mono)
    then show ?thesis by (simp add: DECIMAL_PRECISION_def SCALE_FACTOR_def)
  qed
  with q False show ?thesis by (auto simp: book_drain_def Let_def)
qed (simp add: book_drain_def)

lemma book_inv_drain:
  assumes "book_inv b" and "0 < bk_P (book_drain l b)"
  shows "book_inv (book_drain l b)"
proof -
  have "bk_epoch b \<le> bk_epoch (book_drain l b)"
    "bk_epoch (book_drain l b) = bk_epoch b \<Longrightarrow> bk_scale b \<le> bk_scale (book_drain l b)"
    by (auto simp: book_drain_def Let_def)
  then show ?thesis
    using assms drain_P_le[of b l] unfolding book_inv_def book_drain_amount
    by (metis le_antisym le_trans)
qed

section \<open>One offset\<close>

lemma book_loss_partial:
  assumes "D < bk_total b" and "bk_err b \<le> D * DECIMAL_PRECISION" and "book_loss D b = (l, e)"
  shows "l * bk_total b + bk_err b = D * DECIMAL_PRECISION + e" and "e \<le> bk_total b"
proof -
  let ?num = "D * DECIMAL_PRECISION - bk_err b" and ?T = "bk_total b"
  from assms have l: "l = ?num div ?T + 1" and e: "e = l * ?T - ?num"
    by (auto simp: book_loss_def Let_def)
  have "?num = ?num div ?T * ?T + ?num mod ?T" by simp
  moreover have "?num mod ?T < ?T" using assms(1) by simp
  moreover have "l * ?T = ?num div ?T * ?T + ?T" using l by simp
  ultimately have "?num \<le> l * ?T \<and> l * ?T \<le> ?num + ?T" by linarith
  then show "l * ?T + bk_err b = D * DECIMAL_PRECISION + e" "e \<le> ?T" using e assms(2) by auto
qed

text \<open>
  The heart of the matter, over the reals: an old error \<open>e\<close> that was already paid for is spent once
  more, but only in proportion to the loss, so the slack never grows.
\<close>

lemma slack_never_grows:
  fixes S T D e e' l M W :: real
  assumes "S \<le> T - e / W + M / W" and "l * T + e = D * W + e'" and "e \<le> M"
    and "0 \<le> l" and "l \<le> W" and "0 < W"
  shows "S * ((W - l) / W) \<le> T - D - e' / W + M / W"
proof -
  have "S * ((W - l) / W) \<le> (T - e / W + M / W) * ((W - l) / W)"
    using assms by (intro mult_right_mono) auto
  also have "\<dots> = T - (l * T) / W + (M - e) / W - (M - e) * l / (W * W)"
    using assms(6) by (simp add: field_simps)
  also have "\<dots> \<le> T - (l * T) / W + (M - e) / W" using assms by simp
  also have "(l * T) / W = D + e' / W - e / W"
  proof -
    have lT: "l * T = D * W + e' - e" using assms(2) by simp
    show ?thesis unfolding lT using assms(6) by (simp add: add_divide_distrib diff_divide_distrib)
  qed
  finally show ?thesis using assms(6) by (simp add: diff_divide_distrib)
qed

lemma offset_solvent:
  assumes "book_inv b" and "solvent K b" and "book_offset_ok D b" and "bk_total b \<le> K"
  shows "solvent K (book_offset D b)"
proof (cases "bk_total b = 0 \<or> D = 0")
  case True
  then show ?thesis using assms(2) by (simp add: book_offset_def)
next
  case False
  obtain l e where le: "book_loss D b = (l, e)" by (cases "book_loss D b")
  from assms(3) False le have ok: "D \<le> bk_total b"
      "D < bk_total b \<Longrightarrow> bk_err b \<le> D * DECIMAL_PRECISION" "l \<le> DECIMAL_PRECISION"
    by (auto simp: book_offset_ok_def)
  let ?W = "real DECIMAL_PRECISION"
  have W: "0 < ?W" by (simp add: DECIMAL_PRECISION_def)
  have drain: "total_worth (book_offset D b) \<le> total_worth b * (real (DECIMAL_PRECISION - l) / ?W)"
    using total_worth_drain[of "b\<lparr>bk_err := e\<rparr>" l] assms(1) ok(3) False le by (simp add: book_offset_def)
  have fields: "bk_total (book_offset D b) = bk_total b - D" "bk_err (book_offset D b) = e"
    using False le by (simp_all add: book_offset_def)
  show ?thesis
  proof (cases "D = bk_total b")
    case True
    then have "l = DECIMAL_PRECISION" "e = 0" using le by (auto simp: book_loss_def)
    with drain have "total_worth (book_offset D b) \<le> 0" by simp
    also have "0 \<le> real K / ?W" by simp
    finally show ?thesis using fields True \<open>e = 0\<close> by (simp add: solvent_def)
  next
    case part: False
    with ok have lt: "D < bk_total b" by simp
    note bl = book_loss_partial[OF lt ok(2)[OF lt] le]
    from arg_cong[OF bl(1), of real]
    have eq: "real l * real (bk_total b) + real (bk_err b) = real D * ?W + real e" by simp
    have "total_worth b * ((?W - real l) / ?W)
      \<le> real (bk_total b) - real D - real e / ?W + real K / ?W"
      using slack_never_grows[OF _ eq, of "total_worth b" "real K"] assms(2) ok(3) W
      by (simp add: solvent_def)
    with drain ok(3) lt fields bl(2) assms(4) show ?thesis by (simp add: solvent_def of_nat_diff)
  qed
qed

lemma offset_inv:
  assumes "book_inv b" and "book_offset_ok D b"
  shows "book_inv (book_offset D b)"
proof (cases "bk_total b = 0 \<or> D = 0")
  case False
  then show ?thesis using assms book_inv_drain[of "b\<lparr>bk_err := snd (book_loss D b)\<rparr>" "fst (book_loss D b)"]
    by (auto simp: book_offset_def book_offset_ok_def split: prod.splits)
qed (use assms in \<open>simp add: book_offset_def\<close>)

section \<open>Every step\<close>

lemma provide_solvent:
  assumes "book_inv b" and "solvent K b" and "book_compounded b a = Inr c"
  shows "solvent K (book_provide a c n b)"
  using assms(2) compounded_le_worth[OF assms(1,3)] assms(1)
  by (simp add: solvent_def book_provide_def total_worth_set)

lemma withdraw_solvent:
  assumes "book_inv b" and "solvent K b" and "book_compounded b a = Inr c" and "min n c \<le> bk_total b"
  shows "solvent K (book_withdraw a c n b)"
proof -
  have "real (c - min n c) = real c - real (min n c)" by (simp add: of_nat_diff)
  moreover have "real (bk_total b - min n c) = real (bk_total b) - real (min n c)"
    using assms(4) by (rule of_nat_diff)
  ultimately show ?thesis
    using assms(2) compounded_le_worth[OF assms(1,3)] assms(1)
    by (simp add: solvent_def book_withdraw_def total_worth_set)
qed

lemma step_inv:
  assumes "book_inv b" and "book_step sender c b b'"
  shows "book_inv b'"
  using assms
  by (cases c) (auto simp: offset_inv book_inv_set book_provide_def book_withdraw_def split: sum.splits)

lemma step_solvent:
  assumes "book_inv b" and "solvent K b" and "bk_total b \<le> K" and "book_step sender c b b'"
  shows "solvent K b'"
proof (cases c)
  case (WithdrawCollGainToTrove u l)
  with assms obtain v where v: "book_compounded b sender = Inr v" "b' = book_set sender v b"
    by (auto split: sum.splits)
  then show ?thesis using provide_solvent[OF assms(1,2) v(1), of 0] by (simp add: book_provide_def)
qed (use assms in \<open>auto simp: offset_solvent provide_solvent withdraw_solvent split: sum.splits\<close>)

section \<open>Histories\<close>

text \<open>
  A history starts at deployment; each step is a call that succeeds, by anyone at any time, or any
  change whatever of the other contracts.  \<open>K\<close> bounds the totals of the history.
\<close>

inductive sp_reach :: "'x sp_env \<Rightarrow> nat \<Rightarrow> 'x sp_world \<Rightarrow> bool" for E K where
  deployed: "sp_reach E K \<lparr>pool = sp_deployed tm gateway, others = p\<rparr>"
| call: "sp_reach E K w \<Longrightarrow> sp_exec E now sender c w = Inr w' \<Longrightarrow>
    totalUSDDDeposits (pool w') \<le> K \<Longrightarrow> sp_reach E K w'"
| outside: "sp_reach E K w \<Longrightarrow> sp_reach E K (w\<lparr>others := p\<rparr>)"

lemma deployed_book:
  "book_inv (book_of (sp_deployed tm gateway)) \<and> solvent K (book_of (sp_deployed tm gateway))"
  by (simp add: book_inv_def solvent_def total_worth_def book_of_def sp_deployed_def DECIMAL_PRECISION_def)

lemma sp_reach_inv:
  assumes "sp_reach E K w"
  shows "book_inv (book_of (pool w)) \<and> solvent K (book_of (pool w)) \<and> totalUSDDDeposits (pool w) \<le> K"
  using assms
proof induction
  case (deployed tm gateway p)
  then show ?case using deployed_book by (simp add: sp_deployed_def)
next
  case (call w now sender c w')
  note s = sp_exec_book[OF call.hyps(2)]
  from call.IH have b: "book_inv (book_of (pool w))" "solvent K (book_of (pool w))" "bk_total (book_of (pool w)) \<le> K"
    by simp_all
  show ?case using step_inv[OF b(1) s] step_solvent[OF b s] call.hyps(3) by simp
qed simp

text \<open>What the depositors can claim; a claim whose view reverts cannot be withdrawn and counts as nothing.\<close>

definition claimable :: "stability_pool \<Rightarrow> address \<Rightarrow> nat" where
  "claimable s a = (case getCompoundedUSDDDeposit s a of Inl e \<Rightarrow> 0 | Inr v \<Rightarrow> v)"

lemma claimable_none: "initialValue (deposits s a) = 0 \<Longrightarrow> claimable s a = 0"
  by (simp add: claimable_def getCompoundedUSDDDeposit_def)

lemma claimable_le_worth:
  assumes "book_inv (book_of s)"
  shows "real (claimable s a) \<le> worth (book_of s) a"
  using compounded_le_worth[OF assms, of a] worth_nonneg[of "book_of s" a]
  by (auto simp: claimable_def getCompounded_book split: sum.split)

lemma held_claimable:
  assumes "book_inv (book_of s)"
  shows "real (held (claimable s)) \<le> total_worth (book_of s)"
proof -
  let ?A = "holders (bk_amount (book_of s))"
  have "held (claimable s) = sum (claimable s) ?A"
    using assms by (intro held_superset)
      (auto simp: book_inv_def holders_def dest: claimable_none intro!: gr0I)
  then have "real (held (claimable s)) = (\<Sum>a\<in>?A. real (claimable s a))" by simp
  also have "\<dots> \<le> total_worth (book_of s)"
    unfolding total_worth_def by (rule sum_mono) (rule claimable_le_worth[OF assms])
  finally show ?thesis .
qed

lemma solvent_claims:
  assumes "book_inv (book_of s)" and "solvent K (book_of s)"
  shows "held (claimable s) \<le> totalUSDDDeposits s + K div DECIMAL_PRECISION"
proof -
  have "0 \<le> real (lastUSDDLossError_Offset s) / real DECIMAL_PRECISION" by simp
  with held_claimable[OF assms(1)] assms(2)
  have "real (held (claimable s)) \<le> real (totalUSDDDeposits s) + real K / real DECIMAL_PRECISION"
    unfolding solvent_def by (simp only: book_of_simps) linarith
  then have "real (held (claimable s) - totalUSDDDeposits s) * real DECIMAL_PRECISION \<le> real K"
    by (simp add: DECIMAL_PRECISION_def of_nat_diff_if field_simps split: if_splits)
  then have "(held (claimable s) - totalUSDDDeposits s) * DECIMAL_PRECISION \<le> K"
    by (simp only: of_nat_mult[symmetric] of_nat_le_iff)
  then have "held (claimable s) - totalUSDDDeposits s \<le> K div DECIMAL_PRECISION"
    by (simp add: less_eq_div_iff_mult_less_eq DECIMAL_PRECISION_def)
  then show ?thesis by simp
qed

end
