(* ===== verification/Stability_Pool_Demo.thy ===== *)
theory Stability_Pool_Demo
  imports Stability_Pool_Laws
begin

text \<open>
  Concrete histories of the Stability Pool, evaluated in the logic: two ordinary offsets after which
  the only depositor cannot withdraw the whole compounded deposit, and three nearly complete offsets, the
  last of which the pool's own assertion rejects.  The environment has tokens that accept every
  transfer and an issuance that has just started.
\<close>

section \<open>A small system\<close>

definition demo_env :: "unit sp_env" where
  "demo_env = \<lparr>this_sp = 3, activePool_address = 4, communityIssuance_address = 5,
     deft_transfer = (\<lambda>_ _ _ x. Inr x), coll_transfer = (\<lambda>_ _ _ x. Inr x),
     sp_fetchPrice = (\<lambda>x. Inr (2000000000000000000000, x)), moveCollGain = (\<lambda>_ _ _ _ p. Inr p)\<rparr>"

text \<open>\<open>usdd_wei n\<close> is \<open>n\<close> whole tokens.\<close>

definition usdd_wei :: "nat \<Rightarrow> nat" where
  "usdd_wei n = n * 1000000000000000000"

definition demo_ci :: community_issuance where
  "demo_ci = \<lparr>DEFTSupplyCap = usdd_wei 32000000, ci_stabilityPoolAddress = 3, totalDEFTIssued = 0,
     startTime = 1000, ci_owner = 0\<rparr>"

definition sp_demo_world :: "unit sp_world" where
  "sp_demo_world = \<lparr>pool = sp_deployed 1 2, others =
     \<lparr>issuance = demo_ci,
      usdd = (usdd_deployed 1 3 6)\<lparr>usdd_balances := (\<lambda>_. 0)(10 := usdd_wei 7000),
                usdd_totalSupply := usdd_wei 7000\<rparr>,
      apool = \<lparr>ap_authorizedTroveManagers = (\<lambda>_. False), ap_authorizedBorrowerOperations = (\<lambda>_. False),
                ap_stabilityPoolAddress = 3, ap_defaultPoolAddress = 7, ap_balance = usdd_wei 100, ap_USDDDebt = usdd_wei 7000\<rparr>,
      tmanager = fresh_trove_manager,
      slist = \<lparr>head = 0, tail = 0, maxSize = 100, st_size = 0, nodes = (\<lambda>_. empty_node),
                st_troveManager = 1, st_borrowerOperations = 6\<rparr>,
      ext = ()\<rparr>\<rparr>"

fun sp_calls :: "'x sp_env \<Rightarrow> nat \<Rightarrow> (address \<times> sp_call) list \<Rightarrow> 'x sp_world \<Rightarrow> 'x sp_world res" where
  "sp_calls E now [] w = Inr w"
| "sp_calls E now ((sender, c) # cs) w = rbind (sp_exec E now sender c w) (sp_calls E now cs)"

section \<open>Evaluating calls\<close>

lemma set_sum_twice [simp]: "set_sum e c v (set_sum e c u m) = set_sum e c v m"
  by (simp add: set_sum_def)

lemma set_sum_apply [simp]: "set_sum e c v m e' c' = (if e' = e \<and> c' = c then v else m e' c')"
  by (simp add: set_sum_def)

text \<open>The environment and the issuance stay folded while the calls are evaluated.\<close>

lemma demo_env_simps [simp]:
  "this_sp demo_env = 3" "activePool_address demo_env = 4"
  "deft_transfer demo_env a b n x = Inr x" "coll_transfer demo_env a b n x = Inr x"
  "sp_fetchPrice demo_env x = Inr (2000000000000000000000, x)"
  by (simp_all add: demo_env_def)

lemma demo_ci_simps [simp]: "startTime demo_ci = 1000" "ci_stabilityPoolAddress demo_ci = 3"
  by (simp_all add: demo_ci_def)

lemma demo_trigger [simp]:
  assumes "issuance (others w) = demo_ci"
  shows "triggerDEFTIssuance demo_env 1000 w = Inr w"
proof -
  have "issuance (others w)\<lparr>totalDEFTIssued := 0\<rparr> = issuance (others w)"
    using assms by (simp add: demo_ci_def)
  then show ?thesis using assms
    by (simp add: triggerDEFTIssuance_def issueDEFT_def shouldStarted_def
      ci_requireCallerIsStabilityPool_def getCumulativeIssuanceFraction_def decPow_def updateG_def
      ci_SECONDS_IN_ONE_MINUTE_def DECIMAL_PRECISION_def demo_ci_def)
qed

lemmas demo_defs = sp_demo_world_def sp_deployed_def usdd_deployed_def usdd_wei_def zero_snapshots_def
  DECIMAL_PRECISION_def SCALE_FACTOR_def

lemmas guard_defs = requireCallerIsBorrowerOrGw_def requireFrontEndIsRegisteredOrZero_def
  requireFrontEndNotRegistered_def requireNonZeroAmount_def requireCallerIsTroveManager_def
  requireUserHasDeposit_def usdd_requireCallerIsStabilityPool_def usdd_requireCallerIsTroveMorSP_def
  usdd_requireCallerIsBOorTroveMorSP_def ap_requireCaller_def shouldStarted_def ci_requireCallerIsStabilityPool_def

lemmas step_defs = provideToSP_def setFrontEndTag_def getDepositorCollGain_def getCompoundedUSDDDeposit_def
  payOutDEFTGains_def getDepositorDEFTGain_def pay_DEFT_def sendDEFT_def getCompoundedFrontEndStake_def
  updateFrontEndStakeAndSnapshots_def sendUSDDtoStabilityPool_def usdd_sendToPool_def
  usdd_internal_transfer_def updateDepositAndSnapshots_def sendCollGainToDepositor_def
  offset_def computeRewardsPerUnitStaked_def updateRewardSumAndProduct_def moveOffsetCollAndDebt_def
  decreaseUSDD_def ap_decreaseUSDDDebt_def ap_sendColl_def usdd_burn_def usdd_internal_burn_def
  getCompoundedStakeFromSnapshots_def getCollGainFromSnapshots_def getDEFTGainFromSnapshots_def
  u_sub_def u_add_def u_mul_def u_div_def u128_add_def u128_sub_def u_sub_msg_def sol_assert_def require_def

lemmas withdraw_defs = withdrawFromSP_def requireNoUnderCollateralizedTroves_def getCurrentICR_def
  getCurrentTroveAmounts_def getPendingCollReward_def getPendingUSDDDebtReward_def pendingReward_def
  computeCR_def fresh_trove_manager_def empty_trove_def MCR_def sendUSDDToDepositor_def usdd_returnFromPool_def

lemmas run_defs = demo_defs guard_defs step_defs withdraw_defs

section \<open>Refinement of the deposit book\<close>

text \<open>
  C16. The Stability Pool implements the deposit book: whatever the environment, a call that succeeds
  acts on the amounts, the product, the scale, the epoch, the total and the loss error exactly as the
  abstract operation does, with its preconditions met; rewards, front ends and payments do not interfere.
\<close>

theorem pool_refines_deposit_book:
  assumes "sp_exec E now sender c w = Inr w'"
  shows "book_step sender c (book_of (pool w)) (book_of (pool w'))"
  by (rule sp_exec_book[OF assms])

theorem pool_refines_deposit_book_witness:
  "\<exists>w'. sp_exec demo_env 1000 10 (ProvideToSP 10 (usdd_wei 7000) 0) sp_demo_world = Inr w' \<and>
     book_step 10 (ProvideToSP 10 (usdd_wei 7000) 0) (book_of (pool sp_demo_world)) (book_of (pool w'))"
proof -
  have "is_ok (sp_exec demo_env 1000 10 (ProvideToSP 10 (usdd_wei 7000) 0) sp_demo_world)"
    by (simp add: run_defs cong: rbind_weak_cong)
  then obtain w' where w': "sp_exec demo_env 1000 10 (ProvideToSP 10 (usdd_wei 7000) 0) sp_demo_world = Inr w'"
    by (cases "sp_exec demo_env 1000 10 (ProvideToSP 10 (usdd_wei 7000) 0) sp_demo_world") simp_all
  from w' pool_refines_deposit_book[OF w'] show ?thesis by blast
qed

section \<open>Solvency\<close>

text \<open>The tokens that a list of calls brings in bound every total on the way.\<close>

fun provided :: "sp_call \<Rightarrow> nat" where
  "provided (ProvideToSP a n t) = n"
| "provided (Offset d c) = 0"
| "provided (WithdrawFromSP a n) = 0"
| "provided (WithdrawCollGainToTrove u l) = 0"
| "provided (RegisterFrontEnd r) = 0"

lemma step_total:
  assumes "book_step sender c b b'"
  shows "bk_total b' \<le> bk_total b + provided c"
  using assms
  by (cases c) (auto simp: book_offset_def book_provide_def book_withdraw_def split: sum.splits prod.splits)

lemma sp_calls_reach:
  assumes "sp_reach E K w" and "sp_calls E now cs w = Inr w'"
    and "totalUSDDDeposits (pool w) + (\<Sum>(a, c) \<leftarrow> cs. provided c) \<le> K"
  shows "sp_reach E K w'"
  using assms
proof (induction cs arbitrary: w)
  case (Cons x cs)
  obtain sender c where x: "x = (sender, c)" by (cases x)
  with Cons.prems(2) obtain w1 where w1: "sp_exec E now sender c w = Inr w1" "sp_calls E now cs w1 = Inr w'"
    by (auto simp: rbind_Inr_iff)
  have t: "totalUSDDDeposits (pool w1) \<le> totalUSDDDeposits (pool w) + provided c"
    using step_total[OF sp_exec_book[OF w1(1)]] by simp
  show ?case
  proof (rule Cons.IH[OF _ w1(2)])
    show "sp_reach E K w1"
      by (rule sp_reach.call[OF Cons.prems(1) w1(1)]) (use t Cons.prems(3) x in simp)
    show "totalUSDDDeposits (pool w1) + (\<Sum>(a, c) \<leftarrow> cs. provided c) \<le> K"
      using t Cons.prems(3) x by simp
  qed
qed simp

lemma demo_reach: "sp_reach demo_env K sp_demo_world"
  unfolding sp_demo_world_def by (rule sp_reach.deployed)

text \<open>
  C15. In every history of the Stability Pool, with any calls by anyone and any behaviour of the other
  contracts, what all depositors together can claim exceeds the USDD the pool holds by at most one
  unit per whole token of the largest total it ever held; and the product stays in (0, 1].
\<close>

theorem pool_solvent_up_to_dust:
  assumes "sp_reach E K w"
  shows "held (claimable (pool w)) \<le> totalUSDDDeposits (pool w) + K div DECIMAL_PRECISION \<and>
         0 < product_P (pool w) \<and> product_P (pool w) \<le> DECIMAL_PRECISION"
  using sp_reach_inv[OF assms] solvent_claims[of "pool w" K] by (simp add: book_inv_def)

definition two_offsets :: "(address \<times> sp_call) list" where
  "two_offsets = [(10, ProvideToSP 10 (usdd_wei 7000) 0), (1, Offset (usdd_wei 2436) (usdd_wei 1)),
     (1, Offset (usdd_wei 4292) (usdd_wei 2))]"

lemma two_offsets_run:
  "case sp_calls demo_env 1000 two_offsets sp_demo_world of
     Inl e \<Rightarrow> False
   | Inr w \<Rightarrow> getCompoundedUSDDDeposit (pool w) 10 = Inr 272000000000000006000 \<and>
       totalUSDDDeposits (pool w) = usdd_wei 272 \<and>
       withdrawFromSP demo_env 1000 10 10 (usdd_wei 7000) w
         = Inl (Revert ''ERC20: transfer amount exceeds balance'')"
  by (simp add: run_defs two_offsets_def cong: rbind_weak_cong)

theorem pool_solvent_up_to_dust_witness:
  "\<exists>w. sp_calls demo_env 1000 two_offsets sp_demo_world = Inr w \<and> totalUSDDDeposits (pool w) = usdd_wei 272 \<and>
     held (claimable (pool w)) \<le> usdd_wei 272 + 7000 \<and>
     0 < product_P (pool w) \<and> product_P (pool w) \<le> DECIMAL_PRECISION"
proof -
  obtain w where w: "sp_calls demo_env 1000 two_offsets sp_demo_world = Inr w" "totalUSDDDeposits (pool w) = usdd_wei 272"
    using two_offsets_run by (auto split: sum.splits)
  have "sp_reach demo_env (usdd_wei 7000) w"
    by (rule sp_calls_reach[OF demo_reach w(1)]) (simp add: sp_demo_world_def sp_deployed_def two_offsets_def)
  note pool_solvent_up_to_dust[OF this]
  with w show ?thesis by (auto simp: usdd_wei_def DECIMAL_PRECISION_def)
qed

text \<open>
  C17. The dust is not only theoretical. One deposit of 7000 USDD and two offsets, of 2436 and of 4292
  USDD, leave 272 USDD in the pool and a compounded deposit of 6000 units more; the rounding meant to
  favour the pool favours the depositor, and withdrawing the whole deposit reverts.
\<close>

theorem full_withdrawal_reverts_after_two_offsets:
  "case sp_calls demo_env 1000
      [(10, ProvideToSP 10 (usdd_wei 7000) 0), (1, Offset (usdd_wei 2436) (usdd_wei 1)),
       (1, Offset (usdd_wei 4292) (usdd_wei 2))] sp_demo_world of
     Inl e \<Rightarrow> False
   | Inr w \<Rightarrow> getCompoundedUSDDDeposit (pool w) 10 = Inr 272000000000000006000 \<and>
       totalUSDDDeposits (pool w) = usdd_wei 272 \<and>
       withdrawFromSP demo_env 1000 10 10 (usdd_wei 7000) w
         = Inl (Revert ''ERC20: transfer amount exceeds balance'')"
  using two_offsets_run unfolding two_offsets_def .

text \<open>
  Offsets that nearly empty the pool drive the product below what one more rescaling can lift: a third
  offset of two units less than the deposits fails the pool's assertion, and with it the liquidation.
\<close>

theorem offset_can_fail_assertion:
  "case sp_calls demo_env 1000
      [(10, ProvideToSP 10 (usdd_wei 1) 0), (1, Offset (usdd_wei 1 - 2) 0),
       (10, ProvideToSP 10 (usdd_wei 1 - 2) 0), (1, Offset (usdd_wei 1 - 2) 0),
       (10, ProvideToSP 10 (usdd_wei 1 - 2) 0)] sp_demo_world of
     Inl e \<Rightarrow> False
   | Inr w \<Rightarrow> totalUSDDDeposits (pool w) = usdd_wei 1 \<and> product_P (pool w) = 2 \<and>
       offset demo_env 1000 1 (usdd_wei 1 - 2) 0 w = Inl InvalidOpcode"
  by (simp add: run_defs cong: rbind_weak_cong)

section \<open>Emptying the pool\<close>

lemma drained_book:
  assumes "bk_total b = D" and "D \<noteq> 0"
  shows "book_offset D b = b\<lparr>bk_err := 0, bk_P := DECIMAL_PRECISION, bk_scale := 0, bk_epoch := bk_epoch b + 1, bk_total := 0\<rparr>"
  using assms by (simp add: book_offset_def book_loss_def book_drain_def)

lemma past_epoch_compounded:
  assumes "book_inv b" and "bk_amount b' = bk_amount b" and "bk_snap b' = bk_snap b" and "bk_epoch b < bk_epoch b'"
  shows "book_compounded b' a = Inr 0"
  using assms book_inv_snap(3)[OF assms(1), of a]
  by (fastforce simp: book_compounded_def getCompoundedStakeFromSnapshots_def split: prod.split)

text \<open>
  An offset of all the deposits empties the pool in every reachable state: the total is zero, a
  new epoch starts at scale zero with product one, and no earlier depositor has a compounded deposit left.
\<close>

theorem full_offset_empties_pool:
  assumes "sp_reach E K w" and "0 < totalUSDDDeposits (pool w)"
    and "offset E now sender (totalUSDDDeposits (pool w)) c w = Inr w'"
  shows "totalUSDDDeposits (pool w') = 0 \<and> currentEpoch (pool w') = currentEpoch (pool w) + 1 \<and>
         currentScale (pool w') = 0 \<and> product_P (pool w') = DECIMAL_PRECISION \<and>
         (\<forall>a. getCompoundedUSDDDeposit (pool w') a = Inr 0)"
proof -
  let ?b = "book_of (pool w)" and ?b' = "book_of (pool w')"
  have b': "?b' = ?b\<lparr>bk_err := 0, bk_P := DECIMAL_PRECISION, bk_scale := 0, bk_epoch := bk_epoch ?b + 1, bk_total := 0\<rparr>"
    using offset_book[OF assms(3)] drained_book[of ?b "totalUSDDDeposits (pool w)"] assms(2) by simp
  have inv: "book_inv ?b" using sp_reach_inv[OF assms(1)] by simp
  have "book_compounded ?b' a = Inr 0" for a
    by (rule past_epoch_compounded[OF inv]) (simp_all add: b')
  moreover have "bk_total ?b' = 0" "bk_epoch ?b' = bk_epoch ?b + 1" "bk_scale ?b' = 0" "bk_P ?b' = DECIMAL_PRECISION"
    using b' by (metis book.select_convs book.surjective book.update_convs)+
  ultimately show ?thesis by (simp add: getCompounded_book)
qed

theorem full_offset_empties_pool_witness:
  "\<exists>w'. sp_calls demo_env 1000
       [(10, ProvideToSP 10 (usdd_wei 7000) 0), (1, Offset (usdd_wei 7000) (usdd_wei 4))] sp_demo_world = Inr w' \<and>
     totalUSDDDeposits (pool w') = 0 \<and> currentEpoch (pool w') = 1 \<and> product_P (pool w') = DECIMAL_PRECISION \<and>
     (\<forall>a. getCompoundedUSDDDeposit (pool w') a = Inr 0)"
proof -
  have "case sp_calls demo_env 1000 [(10, ProvideToSP 10 (usdd_wei 7000) 0)] sp_demo_world of
      Inl e \<Rightarrow> False
    | Inr w \<Rightarrow> totalUSDDDeposits (pool w) = usdd_wei 7000 \<and> currentEpoch (pool w) = 0 \<and>
        is_ok (offset demo_env 1000 1 (usdd_wei 7000) (usdd_wei 4) w)"
    by (simp add: run_defs cong: rbind_weak_cong)
  then obtain w w' where w: "sp_calls demo_env 1000 [(10, ProvideToSP 10 (usdd_wei 7000) 0)] sp_demo_world = Inr w"
      "totalUSDDDeposits (pool w) = usdd_wei 7000" "currentEpoch (pool w) = 0"
      "offset demo_env 1000 1 (usdd_wei 7000) (usdd_wei 4) w = Inr w'"
    by (auto elim: is_ok.elims split: sum.splits)
  have r: "sp_reach demo_env (usdd_wei 7000) w"
    by (rule sp_calls_reach[OF demo_reach w(1)]) (simp add: sp_demo_world_def sp_deployed_def)
  from full_offset_empties_pool[OF r, of 1000 1 "usdd_wei 4" w'] w
  have "totalUSDDDeposits (pool w') = 0 \<and> currentEpoch (pool w') = 1 \<and> product_P (pool w') = DECIMAL_PRECISION \<and>
     (\<forall>a. getCompoundedUSDDDeposit (pool w') a = Inr 0)" by (simp add: usdd_wei_def)
  moreover from w have "sp_calls demo_env 1000
       [(10, ProvideToSP 10 (usdd_wei 7000) 0), (1, Offset (usdd_wei 7000) (usdd_wei 4))] sp_demo_world = Inr w'"
    by (auto simp: rbind_Inr_iff)
  ultimately show ?thesis by blast
qed

end
