(* ===== verification/Stability_Pool_Tokens.thy ===== *)
theory Stability_Pool_Tokens
  imports Stability_Pool_Demo
begin

text \<open>
  The Stability Pool and the stablecoin together: what each helper of the pool does to the pool's own
  balance of USDD and to the pool's tracker of deposits.  The balance after whole histories is in \<open>Pool_Backing\<close>.
\<close>

section \<open>The pool's tokens\<close>

definition pool_usdd :: "'x sp_env \<Rightarrow> 'x sp_world \<Rightarrow> nat" where
  "pool_usdd E w = usdd_balances (usdd (others w)) (this_sp E)"

lemma trigger_usdd:
  "triggerDEFTIssuance E now w = Inr w' \<Longrightarrow> usdd (others w') = usdd (others w)"
  by (auto simp: triggerDEFTIssuance_def rbind_Inr_iff)

lemma payOut_usdd:
  "payOutDEFTGains E d f w = Inr w' \<Longrightarrow> usdd (others w') = usdd (others w)"
  by (auto simp: payOutDEFTGains_def pay_DEFT_def rbind_Inr_iff split: if_splits)

lemma sendCollGain_usdd:
  "sendCollGainToDepositor E a n w = Inr w' \<Longrightarrow> usdd (others w') = usdd (others w)"
  by (auto simp: sendCollGainToDepositor_def rbind_Inr_iff split: if_splits)

lemma sendUSDDto_usdd:
  assumes "sendUSDDtoStabilityPool E a n w = Inr w'" and "a \<noteq> this_sp E"
  shows "usdd_balances (usdd (others w')) (this_sp E) = usdd_balances (usdd (others w)) (this_sp E) + n"
  using assms
  by (auto simp: sendUSDDtoStabilityPool_def usdd_sendToPool_def usdd_internal_transfer_Inr_iff rbind_Inr_iff)

lemma sendUSDDToDepositor_usdd:
  assumes "sendUSDDToDepositor E a n w = Inr w'" and "a \<noteq> this_sp E"
  shows "n \<le> usdd_balances (usdd (others w)) (this_sp E) \<and>
    usdd_balances (usdd (others w')) (this_sp E) = usdd_balances (usdd (others w)) (this_sp E) - n"
  using assms
  by (auto simp: sendUSDDToDepositor_def usdd_returnFromPool_def usdd_internal_transfer_Inr_iff rbind_Inr_iff
      split: if_splits)

lemma ap_sendColl_usdd: "ap_sendColl E a b n p = Inr p' \<Longrightarrow> usdd p' = usdd p"
  by (auto simp: ap_sendColl_def rbind_Inr_iff)

lemma moveOffset_usdd:
  assumes "moveOffsetCollAndDebt E c D w = Inr w'"
  shows "D \<le> usdd_balances (usdd (others w)) (this_sp E) \<and>
    usdd_balances (usdd (others w')) (this_sp E) = usdd_balances (usdd (others w)) (this_sp E) - D"
  using assms
  by (auto simp: moveOffsetCollAndDebt_def usdd_burn_def usdd_internal_burn_Inr_iff rbind_Inr_iff
      dest!: ap_sendColl_usdd)

lemmas usdd_dest = trigger_usdd payOut_usdd sendCollGain_usdd

lemma provide_usdd:
  assumes "provideToSP E now sender d n t w = Inr w'" and "d \<noteq> this_sp E"
  shows "pool_usdd E w' = pool_usdd E w + n"
proof (cases "initialValue (deposits (pool w) d) = 0")
  case True
  with assms show ?thesis
    by (auto simp: provideToSP_def rbind_Inr_iff Let_def pool_usdd_def sendUSDDto_usdd dest!: usdd_dest)
next
  case False
  with assms show ?thesis
    by (auto simp: provideToSP_def rbind_Inr_iff Let_def pool_usdd_def sendUSDDto_usdd dest!: usdd_dest)
qed

lemma trigger_all:
  assumes "triggerDEFTIssuance E now w = Inr w'"
  shows "book_of (pool w') = book_of (pool w) \<and> usdd (others w') = usdd (others w)"
  using trigger_book[OF assms] trigger_usdd[OF assms] by simp

lemma payOut_all:
  assumes "payOutDEFTGains E d f w = Inr w'"
  shows "pool w' = pool w \<and> usdd (others w') = usdd (others w)"
  using payOut_pool[OF assms] payOut_usdd[OF assms] by simp

text \<open>The tracker, read off the book.\<close>

lemma provide_total:
  assumes "provideToSP E now sender d n t w = Inr w'"
  shows "totalUSDDDeposits (pool w') = totalUSDDDeposits (pool w) + n"
proof -
  from provide_book[OF assms] obtain c where "book_of (pool w') = book_provide d c n (book_of (pool w))" by blast
  from arg_cong[OF this, of bk_total] show ?thesis by (simp add: book_provide_def)
qed

lemma withdraw_total:
  assumes "withdrawFromSP E now sender d n w = Inr w'"
  shows "\<exists>c. book_compounded (book_of (pool w)) d = Inr c \<and> min n c \<le> totalUSDDDeposits (pool w) \<and>
    totalUSDDDeposits (pool w') = totalUSDDDeposits (pool w) - min n c"
proof -
  from withdraw_book[OF assms] obtain c where c: "book_compounded (book_of (pool w)) d = Inr c"
    "min n c \<le> totalUSDDDeposits (pool w)" "book_of (pool w') = book_withdraw d c n (book_of (pool w))" by blast
  from arg_cong[OF c(3), of bk_total] have "totalUSDDDeposits (pool w') = totalUSDDDeposits (pool w) - min n c"
    by (simp add: book_withdraw_def)
  with c show ?thesis by blast
qed

lemma withdraw_usdd:
  assumes "withdrawFromSP E now sender d n w = Inr w'" and "d \<noteq> this_sp E"
  shows "\<exists>c. book_compounded (book_of (pool w)) d = Inr c \<and> min n c \<le> pool_usdd E w \<and>
    pool_usdd E w' = pool_usdd E w - min n c"
  using assms
  by (auto simp: withdrawFromSP_def requireNoUnderCollateralizedTroves_def rbind_Inr_iff Let_def pool_usdd_def
      getCompounded_book split: if_splits prod.splits
      dest!: trigger_all payOut_all sendCollGain_usdd sendUSDDToDepositor_usdd)

lemma offset_usdd:
  assumes "offset E now sender D c w = Inr w'"
  shows "w' = w \<or> D \<le> pool_usdd E w \<and> pool_usdd E w' = pool_usdd E w - D"
  using assms
  by (auto simp: offset_def rbind_Inr_iff Let_def pool_usdd_def split: if_splits dest!: moveOffset_usdd usdd_dest)

lemma offset_total:
  assumes "offset E now sender D c w = Inr w'"
  shows "w' = w \<or> D \<le> totalUSDDDeposits (pool w) \<and> totalUSDDDeposits (pool w') = totalUSDDDeposits (pool w) - D \<and>
    D \<le> pool_usdd E w \<and> pool_usdd E w' = pool_usdd E w - D"
proof (cases "totalUSDDDeposits (pool w) = 0 \<or> D = 0")
  case True
  with assms show ?thesis by (auto simp: offset_def rbind_Inr_iff)
next
  case False
  with offset_book[OF assms] have le: "D \<le> totalUSDDDeposits (pool w)"
    and b: "book_of (pool w') = book_offset D (book_of (pool w))" by (auto simp: book_offset_ok_def)
  from arg_cong[OF b, of bk_total] False have "totalUSDDDeposits (pool w') = totalUSDDDeposits (pool w) - D"
    by (simp add: book_offset_def split: prod.splits)
  with le offset_usdd[OF assms] show ?thesis by auto
qed

end
