(* ===== verification/Reward_Pot.thy ===== *)
theory Reward_Pot
  imports Ledger
begin

text \<open>
  Rewards shared in proportion to stakes, the scheme of TroveManager's redistributions and of the staking
  contract: a running term \<open>L\<close> says what one unit of stake has earned so far, every participant has a snapshot of
  it, and what it is owed is its stake times the growth since then, in units of \<open>1e-18\<close>.  \<open>pot_ok\<close> is
  the abstract account: the pot covers all claims and the error carried over.
\<close>

text \<open>The exact claim of a trove, in units of \<open>1e-18\<close>.\<close>

definition claims :: "(address \<Rightarrow> nat) \<Rightarrow> (address \<Rightarrow> nat) \<Rightarrow> nat \<Rightarrow> address \<Rightarrow> nat" where
  "claims st sn L b = st b * (L - sn b)"

definition pot_ok :: "(address \<Rightarrow> nat) \<Rightarrow> (address \<Rightarrow> nat) \<Rightarrow> nat \<Rightarrow> nat \<Rightarrow> nat \<Rightarrow> bool" where
  "pot_ok st sn L err amount \<longleftrightarrow> finite (holders st) \<and> (\<forall>b. st b \<noteq> 0 \<longrightarrow> sn b \<le> L) \<and>
     held (claims st sn L) + err \<le> amount * DECIMAL_PRECISION"

lemma finite_claims: "finite (holders st) \<Longrightarrow> finite (holders (claims st sn L))"
  by (rule finite_subset[of _ "holders st"]) (auto simp: holders_def claims_def)

lemma claims_upd: "claims (st(b := x)) (sn(b := y)) L = (claims st sn L)(b := x * (L - y))"
  by (auto simp: claims_def)

text \<open>Writing one trove's stake and snapshot while paying out what it is owed, rounded down.\<close>

lemma pot_ok_write:
  assumes ok: "pot_ok st sn L err amount" and pay: "amount = amount' + paid" "paid * DECIMAL_PRECISION \<le> claims st sn L b"
    and new: "x * (L - y) = 0" "y \<le> L \<or> x = 0"
  shows "pot_ok (st(b := x)) (sn(b := y)) L err amount'"
proof -
  have f: "finite (holders st)" and le: "held (claims st sn L) + err \<le> amount * DECIMAL_PRECISION"
    using ok by (auto simp: pot_ok_def)
  have "held ((claims st sn L)(b := 0)) + claims st sn L b = held (claims st sn L)"
    using held_upd[OF finite_claims[OF f], of sn L b 0] by simp
  then have "held (claims (st(b := x)) (sn(b := y)) L) + err \<le> amount' * DECIMAL_PRECISION"
    using le pay by (simp add: claims_upd new(1) distrib_right)
  then show ?thesis using ok new f by (auto simp: pot_ok_def)
qed

text \<open>Closing a trove, claiming its rewards, and changing the stake of a trove without pending rewards.\<close>

lemmas pot_ok_close = pot_ok_write[where x = 0, simplified]

lemma pot_ok_claim:
  assumes "pot_ok st sn L err amount" and "amount = amount' + paid" and "paid * DECIMAL_PRECISION \<le> claims st sn L b"
  shows "pot_ok st (sn(b := L)) L err amount'"
  using pot_ok_write[OF assms, of "st b" L] by simp

lemma pot_ok_restake:
  assumes "pot_ok st sn L err amount" and "sn b = L"
  shows "pot_ok (st(b := x)) sn L err amount"
  using pot_ok_write[OF assms(1), of amount 0 b x L] assms(2) fun_upd_triv[of sn b] by simp

lemma held_add:
  assumes "finite (holders f)" and "finite (holders g)"
  shows "held (\<lambda>b. f b + g b) = held f + (held g :: nat)"
proof -
  let ?A = "holders f \<union> holders g"
  have "held (\<lambda>b. f b + g b) = sum (\<lambda>b. f b + g b) ?A" "held f = sum f ?A" "held g = sum g ?A"
    using assms by (auto intro!: held_superset simp: holders_def)
  then show ?thesis by (simp add: sum.distrib)
qed

lemma held_scale: "held (\<lambda>b. f b * k) = held f * (k::nat)"
  by (cases "k = 0") (simp_all add: held_def holders_def sum_distrib_right)

text \<open>
  How a pot is fed: the amount, with the error carried over from the last time, is divided by the stakes;
  the quotient raises the running term and the remainder is carried on.
\<close>

definition fed_back :: "nat \<Rightarrow> nat \<Rightarrow> nat \<Rightarrow> nat \<Rightarrow> nat \<Rightarrow> nat \<Rightarrow> bool" where
  "fed_back stakes amount L err L' err' \<longleftrightarrow> L \<le> L' \<and>
     (L' - L) * stakes + err' = amount * DECIMAL_PRECISION + err \<and> err' < stakes"

text \<open>A redistribution raises the claims by exactly what it adds, up to the error it carries over.\<close>

lemma pot_ok_feed:
  assumes ok: "pot_ok st sn L err amount" and feed: "fed_back (held st) n L err L' err'"
  shows "pot_ok st sn L' err' (amount + n)"
proof -
  have f: "finite (holders st)" and le: "held (claims st sn L) + err \<le> amount * DECIMAL_PRECISION" and
    sn: "\<And>b. st b \<noteq> 0 \<Longrightarrow> sn b \<le> L" using ok by (auto simp: pot_ok_def)
  have L: "L \<le> L'" and eq: "(L' - L) * held st + err' = n * DECIMAL_PRECISION + err" using feed by (auto simp: fed_back_def)
  have f2: "finite (holders (\<lambda>b. st b * (L' - L)))"
    by (rule finite_subset[OF _ f]) (auto simp: holders_def)
  have "claims st sn L' = (\<lambda>b. claims st sn L b + st b * (L' - L))"
  proof
    show "claims st sn L' b = claims st sn L b + st b * (L' - L)" for b
      using sn[of b] L by (cases "st b = 0") (simp_all add: claims_def flip: distrib_left)
  qed
  then have "held (claims st sn L') = held (claims st sn L) + held st * (L' - L)"
    using held_add[OF finite_claims[OF f] f2] by (simp add: held_scale)
  then have "held (claims st sn L') + err' \<le> (amount + n) * DECIMAL_PRECISION"
    using le eq by (simp add: algebra_simps)
  then show ?thesis using f sn L by (auto simp: pot_ok_def intro: le_trans)
qed

text \<open>Whatever is paid to each trove, if rounded down, the pot covers it.\<close>

lemma pot_ok_pays:
  assumes ok: "pot_ok st sn L err amount" and fin: "finite B"
    and pay: "\<And>b. b \<in> B \<Longrightarrow> paid b * DECIMAL_PRECISION \<le> claims st sn L b"
  shows "sum paid B \<le> amount"
proof -
  have f: "finite (holders (claims st sn L))" and le: "held (claims st sn L) \<le> amount * DECIMAL_PRECISION"
    using ok finite_claims by (auto simp: pot_ok_def)
  have "sum paid B * DECIMAL_PRECISION \<le> sum (claims st sn L) B"
    using pay by (simp add: sum_distrib_right sum_mono)
  also have "\<dots> \<le> sum (claims st sn L) (B \<union> holders (claims st sn L))"
    by (rule sum_mono2) (use fin f in auto)
  also have "\<dots> = held (claims st sn L)" by (rule held_superset[symmetric]) (use fin f in auto)
  finally show ?thesis using le by (simp add: DECIMAL_PRECISION_def)
qed

lemma pot_ok_mono:
  assumes "pot_ok st sn L err n" and "err' \<le> err" and "n \<le> n'"
  shows "pot_ok st sn L err' n'"
proof -
  have "held (claims st sn L) + err' \<le> held (claims st sn L) + err" using assms(2) by simp
  also have "\<dots> \<le> n * DECIMAL_PRECISION" using assms(1) by (simp add: pot_ok_def)
  also have "\<dots> \<le> n' * DECIMAL_PRECISION" using assms(3) by simp
  finally show ?thesis using assms(1) by (simp add: pot_ok_def)
qed

end
