(* ===== verification/Deft_Staking.thy ===== *)
theory Deft_Staking
  imports Usdd_Token Reward_Pot
begin

text \<open>
  \<open>contracts/DEFT/DEFTStaking.sol\<close>: holders of DEFT stake it and share the borrowing fees (in USDD) and the
  redemption fees (in each collateral token).  The stablecoin is the model of \<open>Usdd_Token\<close>; the DEFT token and the
  collateral tokens are arguments (\<open>staking_env\<close>), whose transfers work on a state \<open>'x\<close>.
\<close>

section \<open>Storage\<close>

record deft_staking =
  stakes :: "address \<Rightarrow> nat"
  totalDEFTStaked :: nat
  F_COLLS :: "address \<Rightarrow> nat"
  F_USDD :: nat
  F_COLL_Snapshots :: "address \<Rightarrow> address \<Rightarrow> nat"
  F_USDD_Snapshots :: "address \<Rightarrow> nat"
  stk_wETHGatewayAddress :: address
  collTokens :: "address list"
  stk_authorizedTroveManagers :: "address \<Rightarrow> bool"
  stk_authorizedBorrowerOperations :: "address \<Rightarrow> bool"

definition staking_deployed ::
  "address \<Rightarrow> address list \<Rightarrow> (address \<Rightarrow> bool) \<Rightarrow> (address \<Rightarrow> bool) \<Rightarrow> deft_staking" where
  "staking_deployed gateway tokens tms bos =
     \<lparr>stakes = (\<lambda>_. 0), totalDEFTStaked = 0, F_COLLS = (\<lambda>_. 0), F_USDD = 0, F_COLL_Snapshots = (\<lambda>_ _. 0),
      F_USDD_Snapshots = (\<lambda>_. 0), stk_wETHGatewayAddress = gateway, collTokens = tokens,
      stk_authorizedTroveManagers = tms, stk_authorizedBorrowerOperations = bos\<rparr>"

record 'x staking_world =
  stk :: deft_staking
  stk_usdd :: usdd_token
  stk_ext :: 'x

text \<open>
  \<open>this_stk\<close> and \<open>usdd_address\<close> are the addresses of the staking contract and of the stablecoin;
  \<open>collToken_of\<close> is what a TroveManager answers to \<open>collToken()\<close>.
\<close>

record 'x staking_env =
  this_stk :: address
  usdd_address :: address
  collToken_of :: "address \<Rightarrow> address"
  stk_deft_transferFrom :: "address \<Rightarrow> address \<Rightarrow> address \<Rightarrow> nat \<Rightarrow> 'x \<Rightarrow> 'x res"
  stk_deft_transfer :: "address \<Rightarrow> address \<Rightarrow> nat \<Rightarrow> 'x \<Rightarrow> 'x res"
  stk_coll_transfer :: "address \<Rightarrow> address \<Rightarrow> address \<Rightarrow> nat \<Rightarrow> 'x \<Rightarrow> 'x res"

section \<open>Guards\<close>

definition requireCallerIsStakerOrGw :: "address \<Rightarrow> address \<Rightarrow> deft_staking \<Rightarrow> unit res" where
  "requireCallerIsStakerOrGw sender staker s =
     require (sender = staker \<or> sender = stk_wETHGatewayAddress s) ''DEFTStaking: Caller must be the staker or gateway''"

definition stk_requireCallerIsTroveManager :: "'x staking_env \<Rightarrow> address \<Rightarrow> address \<Rightarrow> deft_staking \<Rightarrow> unit res" where
  "stk_requireCallerIsTroveManager E sender collToken s =
     rbind (require (stk_authorizedTroveManagers s sender) ''DEFTStaking: caller is not TroveM'') (\<lambda>_.
     require (collToken_of E sender = collToken) ''DEFTStaking: TroveM coll token mismatch'')"

definition stk_requireCallerIsBorrowerOperations :: "address \<Rightarrow> deft_staking \<Rightarrow> unit res" where
  "stk_requireCallerIsBorrowerOperations sender s =
     require (stk_authorizedBorrowerOperations s sender) ''DEFTStaking: caller is not BorrowerOps''"

definition requireUserHasStake :: "nat \<Rightarrow> unit res" where
  "requireUserHasStake currentStake = require (currentStake > 0) ''DEFTStaking: User must have a non-zero stake''"

definition stk_requireNonZeroAmount :: "nat \<Rightarrow> unit res" where
  "stk_requireNonZeroAmount amount = require (amount > 0) ''DEFTStaking: Amount must be non-zero''"

section \<open>Fees\<close>

definition increaseF_COLL :: "'x staking_env \<Rightarrow> address \<Rightarrow> address \<Rightarrow> nat \<Rightarrow> deft_staking \<Rightarrow> deft_staking res" where
  "increaseF_COLL E sender collToken collFee s =
     rbind (stk_requireCallerIsTroveManager E sender collToken s) (\<lambda>_.
     rbind (if totalDEFTStaked s > 0 then
              rbind (u_mul collFee DECIMAL_PRECISION) (\<lambda>m. u_div m (totalDEFTStaked s))
            else Inr 0) (\<lambda>COLLFeePerDEFTStaked.
     rbind (u_add (F_COLLS s collToken) COLLFeePerDEFTStaked) (\<lambda>f.
     Inr (s\<lparr>F_COLLS := (F_COLLS s)(collToken := f)\<rparr>))))"

definition increaseF_USDD :: "address \<Rightarrow> nat \<Rightarrow> deft_staking \<Rightarrow> deft_staking res" where
  "increaseF_USDD sender usddFee s =
     rbind (stk_requireCallerIsBorrowerOperations sender s) (\<lambda>_.
     rbind (if totalDEFTStaked s > 0 then
              rbind (u_mul usddFee DECIMAL_PRECISION) (\<lambda>m. u_div m (totalDEFTStaked s))
            else Inr 0) (\<lambda>USDDFeePerDEFTStaked.
     rbind (u_add (F_USDD s) USDDFeePerDEFTStaked) (\<lambda>f.
     Inr (s\<lparr>F_USDD := f\<rparr>))))"

section \<open>Gains\<close>

definition getPendingCollGain :: "deft_staking \<Rightarrow> address \<Rightarrow> address \<Rightarrow> nat res" where
  "getPendingCollGain s user collToken =
     rbind (u_sub (F_COLLS s collToken) (F_COLL_Snapshots s user collToken)) (\<lambda>d.
     rbind (u_mul (stakes s user) d) (\<lambda>m. u_div m DECIMAL_PRECISION))"

definition getPendingUSDDGain :: "deft_staking \<Rightarrow> address \<Rightarrow> nat res" where
  "getPendingUSDDGain s user =
     rbind (u_sub (F_USDD s) (F_USDD_Snapshots s user)) (\<lambda>d.
     rbind (u_mul (stakes s user) d) (\<lambda>m. u_div m DECIMAL_PRECISION))"

definition updateUserSnapshots :: "address \<Rightarrow> address \<Rightarrow> deft_staking \<Rightarrow> deft_staking" where
  "updateUserSnapshots user collToken s =
     s\<lparr>F_COLL_Snapshots := (F_COLL_Snapshots s)(user := (F_COLL_Snapshots s user)(collToken := F_COLLS s collToken)),
       F_USDD_Snapshots := (F_USDD_Snapshots s)(user := F_USDD s)\<rparr>"

text \<open>The loop over the collateral tokens: the gains, and the snapshots written on the way.\<close>

fun collectGains :: "address \<Rightarrow> address list \<Rightarrow> deft_staking \<Rightarrow> (nat list \<times> deft_staking) res" where
  "collectGains staker [] s = Inr ([], s)"
| "collectGains staker (collToken # tokens) s =
     rbind (getPendingCollGain s staker collToken) (\<lambda>gain.
     rbind (collectGains staker tokens (updateUserSnapshots staker collToken s)) (\<lambda>(gains, s').
     Inr (gain # gains, s')))"

fun sendCollGainsToUser :: "'x staking_env \<Rightarrow> address \<Rightarrow> (address \<times> nat) list \<Rightarrow> 'x \<Rightarrow> 'x res" where
  "sendCollGainsToUser E sender [] x = Inr x"
| "sendCollGainsToUser E sender ((collToken, gain) # gains) x =
     rbind (stk_coll_transfer E collToken (this_stk E) sender gain x) (\<lambda>x'. sendCollGainsToUser E sender gains x')"

section \<open>Staking\<close>

definition stake_deft :: "'x staking_env \<Rightarrow> address \<Rightarrow> address \<Rightarrow> nat \<Rightarrow> 'x staking_world \<Rightarrow> 'x staking_world res" where
  "stake_deft E sender staker amount w =
     rbind (requireCallerIsStakerOrGw sender staker (stk w)) (\<lambda>_.
     rbind (stk_requireNonZeroAmount amount) (\<lambda>_.
     let currentStake = stakes (stk w) staker in
     rbind (getPendingUSDDGain (stk w) staker) (\<lambda>USDDGain.
     rbind (collectGains staker (collTokens (stk w)) (stk w)) (\<lambda>(CollGains, s1).
     rbind (u_add currentStake amount) (\<lambda>newStake.
     rbind (u_add (totalDEFTStaked s1) amount) (\<lambda>t.
     let s2 = s1\<lparr>stakes := (stakes s1)(staker := newStake), totalDEFTStaked := t\<rparr> in
     rbind (stk_deft_transferFrom E (this_stk E) staker (this_stk E) amount (stk_ext w)) (\<lambda>x1.
     rbind (usdd_transfer (usdd_address E) (this_stk E) staker USDDGain (stk_usdd w)) (\<lambda>u.
     rbind (sendCollGainsToUser E sender (zip (collTokens s2) CollGains) x1) (\<lambda>x2.
     Inr (w\<lparr>stk := s2, stk_usdd := u, stk_ext := x2\<rparr>))))))))))"

definition unstake_deft :: "'x staking_env \<Rightarrow> address \<Rightarrow> address \<Rightarrow> nat \<Rightarrow> 'x staking_world \<Rightarrow> 'x staking_world res" where
  "unstake_deft E sender staker amount w =
     rbind (requireCallerIsStakerOrGw sender staker (stk w)) (\<lambda>_.
     let currentStake = stakes (stk w) staker in
     rbind (requireUserHasStake currentStake) (\<lambda>_.
     rbind (getPendingUSDDGain (stk w) staker) (\<lambda>USDDGain.
     rbind (collectGains staker (collTokens (stk w)) (stk w)) (\<lambda>(CollGains, s1).
     rbind (if amount > 0 then
              let DEFTToWithdraw = min_u amount currentStake in
              rbind (u_sub currentStake DEFTToWithdraw) (\<lambda>newStake.
              rbind (u_sub (totalDEFTStaked s1) DEFTToWithdraw) (\<lambda>t.
              rbind (stk_deft_transfer E (this_stk E) staker DEFTToWithdraw (stk_ext w)) (\<lambda>x.
              Inr (s1\<lparr>stakes := (stakes s1)(staker := newStake), totalDEFTStaked := t\<rparr>, x))))
            else Inr (s1, stk_ext w)) (\<lambda>(s2, x1).
     rbind (usdd_transfer (usdd_address E) (this_stk E) staker USDDGain (stk_usdd w)) (\<lambda>u.
     rbind (sendCollGainsToUser E sender (zip (collTokens s2) CollGains) x1) (\<lambda>x2.
     Inr (w\<lparr>stk := s2, stk_usdd := u, stk_ext := x2\<rparr>))))))))"

text \<open>How BorrowerOperations pays a borrowing fee: the running sum first, then the tokens are minted.\<close>

definition pay_borrowing_fee ::
  "'x staking_env \<Rightarrow> address \<Rightarrow> nat \<Rightarrow> deft_staking \<Rightarrow> usdd_token \<Rightarrow> (deft_staking \<times> usdd_token) res" where
  "pay_borrowing_fee E bo fee s u =
     rbind (increaseF_USDD bo fee s) (\<lambda>s'. rbind (usdd_mint bo (this_stk E) fee u) (\<lambda>u'. Inr (s', u')))"

section \<open>Solvency\<close>

text \<open>
  The fees are a pot whose amount is the contract's own balance.  Snapshots are taken per collateral token, so
  a list without any token would let a staker claim the same fee again and again.
\<close>

definition staking_solvent :: "address \<Rightarrow> deft_staking \<Rightarrow> usdd_token \<Rightarrow> bool" where
  "staking_solvent this s u \<longleftrightarrow> collTokens s \<noteq> [] \<and> totalDEFTStaked s = held (stakes s) \<and>
     pot_ok (stakes s) (F_USDD_Snapshots s) (F_USDD s) 0 (usdd_balances u this)"

lemma collectGains_frame:
  "collectGains a ts s = Inr (gs, s') \<Longrightarrow> stakes s' = stakes s \<and> totalDEFTStaked s' = totalDEFTStaked s \<and>
     F_USDD s' = F_USDD s \<and> collTokens s' = collTokens s \<and>
     F_USDD_Snapshots s' = (if ts = [] then F_USDD_Snapshots s else (F_USDD_Snapshots s)(a := F_USDD s))"
proof (induction ts arbitrary: s gs)
  case (Cons t ts)
  from Cons.prems obtain g gs' where "collectGains a ts (updateUserSnapshots a t s) = Inr (gs', s')"
    by (auto simp: rbind_Inr_iff)
  from Cons.IH[OF this] show ?case by (auto simp: updateUserSnapshots_def)
qed simp

lemma usdd_gain_le:
  "getPendingUSDDGain s a = Inr n \<Longrightarrow> n * DECIMAL_PRECISION \<le> claims (stakes s) (F_USDD_Snapshots s) (F_USDD s) a"
  by (auto simp: getPendingUSDDGain_def claims_def rbind_Inr_iff u_Inr_iffs)

lemma transfer_balance:
  assumes "usdd_transfer t this b n u = Inr u'"
  shows "\<exists>r. usdd_balances u this = r + n \<and> r \<le> usdd_balances u' this"
  using assms by (auto simp: usdd_transfer_def usdd_internal_transfer_def rbind_Inr_iff u_sub_msg_Inr_iff u_Inr_iffs Let_def
      intro!: exI[of _ "usdd_balances u this - n"])

text \<open>Changing a stake to \<open>x\<close> and the total with it, after the gain was paid.\<close>

lemma restake_solvent:
  assumes ok: "staking_solvent this s u" and gain: "getPendingUSDDGain s a = Inr g"
    and tr: "usdd_transfer t this b g u = Inr u'"
    and st: "stakes s' = (stakes s)(a := x)" and total: "totalDEFTStaked s' + stakes s a = totalDEFTStaked s + x"
    and F: "F_USDD s' = F_USDD s" "F_USDD_Snapshots s' = (F_USDD_Snapshots s)(a := F_USDD s)" "collTokens s' = collTokens s"
  shows "staking_solvent this s' u'"
proof -
  from transfer_balance[OF tr] obtain r where r: "usdd_balances u this = r + g" "r \<le> usdd_balances u' this" by blast
  have p: "pot_ok (stakes s) (F_USDD_Snapshots s) (F_USDD s) 0 (usdd_balances u this)"
    and t: "totalDEFTStaked s = held (stakes s)" using ok by (auto simp: staking_solvent_def)
  have "pot_ok (stakes s') (F_USDD_Snapshots s') (F_USDD s') 0 r"
    using pot_ok_write[OF p r(1) usdd_gain_le[OF gain], of x "F_USDD s"] st F by simp
  moreover have "totalDEFTStaked s' = held (stakes s')"
    using held_upd[of "stakes s" a x] p t total st by (simp add: pot_ok_def)
  ultimately show ?thesis using ok r(2) F(3) pot_ok_mono by (auto simp: staking_solvent_def)
qed

lemma stake_solvent:
  assumes "stake_deft E sender a n w = Inr w'" and "staking_solvent (this_stk E) (stk w) (stk_usdd w)"
  shows "staking_solvent (this_stk E) (stk w') (stk_usdd w')"
proof -
  from assms(1) obtain g gs s1 c t u where g: "getPendingUSDDGain (stk w) a = Inr g"
    and s1: "collectGains a (collTokens (stk w)) (stk w) = Inr (gs, s1)"
    and c: "u_add (stakes (stk w) a) n = Inr c" and t: "u_add (totalDEFTStaked s1) n = Inr t"
    and u: "usdd_transfer (usdd_address E) (this_stk E) a g (stk_usdd w) = Inr u"
    and w': "stk w' = s1\<lparr>stakes := (stakes s1)(a := c), totalDEFTStaked := t\<rparr>" "stk_usdd w' = u"
    unfolding stake_deft_def Let_def by (auto simp: rbind_Inr_iff)
  note f = collectGains_frame[OF s1]
  have "collTokens (stk w) \<noteq> []" using assms(2) by (simp add: staking_solvent_def)
  with f c t show ?thesis unfolding w'
    by (intro restake_solvent[OF assms(2) g u, where x = c]) (auto simp: u_Inr_iffs)
qed

lemma unstake_solvent:
  assumes "unstake_deft E sender a n w = Inr w'" and "staking_solvent (this_stk E) (stk w) (stk_usdd w)"
  shows "staking_solvent (this_stk E) (stk w') (stk_usdd w')"
proof -
  from assms(1) obtain g gs s1 s2 x1 u where g: "getPendingUSDDGain (stk w) a = Inr g"
    and s1: "collectGains a (collTokens (stk w)) (stk w) = Inr (gs, s1)"
    and s2: "(if n > 0 then let DEFTToWithdraw = min_u n (stakes (stk w) a) in
              rbind (u_sub (stakes (stk w) a) DEFTToWithdraw) (\<lambda>newStake.
              rbind (u_sub (totalDEFTStaked s1) DEFTToWithdraw) (\<lambda>t.
              rbind (stk_deft_transfer E (this_stk E) a DEFTToWithdraw (stk_ext w)) (\<lambda>x.
              Inr (s1\<lparr>stakes := (stakes s1)(a := newStake), totalDEFTStaked := t\<rparr>, x))))
            else Inr (s1, stk_ext w)) = Inr (s2, x1)"
    and u: "usdd_transfer (usdd_address E) (this_stk E) a g (stk_usdd w) = Inr u"
    and w': "stk w' = s2" "stk_usdd w' = u"
    unfolding unstake_deft_def by (auto simp: rbind_Inr_iff Let_def)
  note f = collectGains_frame[OF s1]
  have ne: "collTokens (stk w) \<noteq> []" using assms(2) by (simp add: staking_solvent_def)
  show ?thesis unfolding w'
  proof (cases "n > 0")
    case True
    with s2 f ne show "staking_solvent (this_stk E) s2 u"
      by (intro restake_solvent[OF assms(2) g u, where x = "stakes (stk w) a - min n (stakes (stk w) a)"])
        (auto simp: rbind_Inr_iff Let_def u_Inr_iffs)
  next
    case False
    with s2 f ne show "staking_solvent (this_stk E) s2 u"
      by (intro restake_solvent[OF assms(2) g u, where x = "stakes (stk w) a"]) auto
  qed
qed

lemma pay_fee_solvent:
  assumes "pay_borrowing_fee E bo fee s u = Inr (s', u')" and ok: "staking_solvent (this_stk E) s u"
  shows "staking_solvent (this_stk E) s' u'"
proof -
  let ?f = "if totalDEFTStaked s > 0 then fee * DECIMAL_PRECISION div totalDEFTStaked s else 0"
  from assms(1) have s': "s' = s\<lparr>F_USDD := F_USDD s + ?f\<rparr>" and u': "usdd_balances u' (this_stk E) = usdd_balances u (this_stk E) + fee"
    by (auto simp: pay_borrowing_fee_def increaseF_USDD_def usdd_mint_def usdd_internal_mint_def rbind_Inr_iff u_Inr_iffs split: if_splits)
  have p: "pot_ok (stakes s) (F_USDD_Snapshots s) (F_USDD s) 0 (usdd_balances u (this_stk E))"
    and t: "totalDEFTStaked s = held (stakes s)" using ok by (auto simp: staking_solvent_def)
  have "pot_ok (stakes s) (F_USDD_Snapshots s) (F_USDD s + ?f) 0 (usdd_balances u (this_stk E) + fee)"
  proof (cases "totalDEFTStaked s > 0")
    case True
    then have "fed_back (held (stakes s)) fee (F_USDD s) 0 (F_USDD s + ?f) (fee * DECIMAL_PRECISION mod held (stakes s))"
      by (simp add: fed_back_def t)
    from pot_ok_feed[OF p this] show ?thesis by (rule pot_ok_mono) simp_all
  next
    case False
    then show ?thesis using pot_ok_mono[OF p] by simp
  qed
  then show ?thesis using ok u' by (simp add: s' staking_solvent_def)
qed

lemma coll_fee_solvent:
  "increaseF_COLL E tm c n s = Inr s' \<Longrightarrow> staking_solvent this s u \<Longrightarrow> staking_solvent this s' u"
  by (auto simp: increaseF_COLL_def rbind_Inr_iff staking_solvent_def)

section \<open>Histories\<close>

text \<open>
  What moves stakes, running sums and the contract's USDD: borrowing fees, redemption fees, staking, unstaking,
  and transfers by anybody but the contract itself.  A call that reverts changes nothing.
\<close>

datatype staking_op =
    BorrowingFee nat
  | RedemptionFee address address nat
  | Stake address address nat
  | Unstake address address nat
  | UserTransfer address address nat

fun staking_exec :: "'x staking_env \<Rightarrow> address \<Rightarrow> staking_op \<Rightarrow> 'x staking_world \<Rightarrow> 'x staking_world res" where
  "staking_exec E bo (BorrowingFee n) w =
     rbind (pay_borrowing_fee E bo n (stk w) (stk_usdd w)) (\<lambda>(s, u). Inr (w\<lparr>stk := s, stk_usdd := u\<rparr>))"
| "staking_exec E bo (RedemptionFee tm token n) w =
     rbind (increaseF_COLL E tm token n (stk w)) (\<lambda>s. Inr (w\<lparr>stk := s\<rparr>))"
| "staking_exec E bo (Stake sender a n) w = stake_deft E sender a n w"
| "staking_exec E bo (Unstake sender a n) w = unstake_deft E sender a n w"
| "staking_exec E bo (UserTransfer sender a n) w =
     rbind (require (sender \<noteq> this_stk E) '''') (\<lambda>_.
     rbind (usdd_transfer (usdd_address E) sender a n (stk_usdd w)) (\<lambda>u. Inr (w\<lparr>stk_usdd := u\<rparr>)))"

fun staking_run :: "'x staking_env \<Rightarrow> address \<Rightarrow> staking_op list \<Rightarrow> 'x staking_world \<Rightarrow> 'x staking_world" where
  "staking_run E bo [] w = w"
| "staking_run E bo (c # cs) w =
     (case staking_exec E bo c w of Inl e \<Rightarrow> staking_run E bo cs w | Inr w' \<Rightarrow> staking_run E bo cs w')"

lemma other_transfer_balance:
  "usdd_transfer t sender b n u = Inr u' \<Longrightarrow> a \<noteq> sender \<Longrightarrow> usdd_balances u a \<le> usdd_balances u' a"
  by (auto simp: usdd_transfer_def usdd_internal_transfer_def rbind_Inr_iff u_Inr_iffs Let_def)

lemma staking_exec_solvent:
  assumes "staking_exec E bo c w = Inr w'" and ok: "staking_solvent (this_stk E) (stk w) (stk_usdd w)"
  shows "staking_solvent (this_stk E) (stk w') (stk_usdd w')"
proof (cases c)
  case (UserTransfer sender a n)
  with assms(1) obtain u where u: "usdd_transfer (usdd_address E) sender a n (stk_usdd w) = Inr u" "this_stk E \<noteq> sender"
    and w': "w' = w\<lparr>stk_usdd := u\<rparr>" by (auto simp: rbind_Inr_iff)
  from other_transfer_balance[OF u] ok show ?thesis by (auto simp: w' staking_solvent_def intro: pot_ok_mono)
qed (use assms in \<open>auto simp: rbind_Inr_iff intro: stake_solvent unstake_solvent pay_fee_solvent coll_fee_solvent\<close>)

lemma staking_run_solvent:
  "staking_solvent (this_stk E) (stk w) (stk_usdd w) \<Longrightarrow>
   staking_solvent (this_stk E) (stk (staking_run E bo cs w)) (stk_usdd (staking_run E bo cs w))"
  by (induction cs arbitrary: w) (auto split: sum.splits intro: staking_exec_solvent)

lemma staking_deployed_solvent: "tokens \<noteq> [] \<Longrightarrow> staking_solvent this (staking_deployed gw tokens tms bos) u"
  by (simp add: staking_solvent_def staking_deployed_def pot_ok_def claims_def[abs_def])

text \<open>An environment whose tokens always move, for the concrete runs.\<close>

definition free_env :: "unit staking_env" where
  "free_env = \<lparr>this_stk = 90, usdd_address = 91, collToken_of = (\<lambda>_. 70), stk_deft_transferFrom = (\<lambda>_ _ _ _. Inr),
     stk_deft_transfer = (\<lambda>_ _ _. Inr), stk_coll_transfer = (\<lambda>_ _ _ _. Inr)\<rparr>"

definition staking_start :: "address list \<Rightarrow> unit staking_world" where
  "staking_start tokens = \<lparr>stk = staking_deployed 92 tokens (\<lambda>a. a = 80) (\<lambda>a. a = 81),
     stk_usdd = usdd_deployed 80 82 81, stk_ext = ()\<rparr>"

lemmas staking_defs = free_env_def staking_start_def staking_deployed_def usdd_deployed_def stake_deft_def unstake_deft_def
  requireCallerIsStakerOrGw_def stk_requireNonZeroAmount_def getPendingUSDDGain_def getPendingCollGain_def
  updateUserSnapshots_def usdd_transfer_def usdd_requireValidRecipient_def usdd_internal_transfer_def requireUserHasStake_def
  pay_borrowing_fee_def increaseF_USDD_def increaseF_COLL_def usdd_mint_def usdd_internal_mint_def
  usdd_requireCallerIsBorrowerOperations_def stk_requireCallerIsBorrowerOperations_def stk_requireCallerIsTroveManager_def
  DECIMAL_PRECISION_def u_add_def u_sub_def u_mul_def u_div_def u_sub_msg_def sol_assert_def require_def

text \<open>
  C14. The staking contract can always pay: after any sequence of fees, stakes, unstakes and transfers since deployment,
  with at least one collateral token configured, the USDD gains of any set of stakers add up to at most the
  USDD the contract holds.
\<close>

theorem staking_covers_all_gains:
  assumes "tokens \<noteq> []" and "stk w = staking_deployed gw tokens tms bos" and "finite B"
    and "\<And>a. a \<in> B \<Longrightarrow> getPendingUSDDGain (stk (staking_run E bo cs w)) a = Inr (gain a)"
  shows "sum gain B \<le> usdd_balances (stk_usdd (staking_run E bo cs w)) (this_stk E)"
proof -
  have "staking_solvent (this_stk E) (stk w) (stk_usdd w)" using assms(1,2) staking_deployed_solvent by simp
  then have "staking_solvent (this_stk E) (stk (staking_run E bo cs w)) (stk_usdd (staking_run E bo cs w))"
    by (rule staking_run_solvent)
  then show ?thesis
    by (auto simp: staking_solvent_def intro!: pot_ok_pays[OF _ assms(3)] usdd_gain_le assms(4))
qed

theorem staking_covers_all_gains_witness:
  "(let w = staking_run free_env 81 [Stake 11 11 3, Stake 12 12 4, BorrowingFee 100, Unstake 11 11 1, BorrowingFee 10]
      (staking_start [70]) in
    sum (\<lambda>a::nat. if a = 11 then 3 else 63) {11, 12} \<le> usdd_balances (stk_usdd w) (this_stk free_env))"
  unfolding Let_def
  by (rule staking_covers_all_gains[where tokens = "[70]" and gw = 92 and tms = "\<lambda>a. a = 80" and bos = "\<lambda>a. a = 81"])
    (auto simp: staking_defs min_u_def cong: rbind_weak_cong)

text \<open>
  With no collateral token configured the snapshots are never taken, so a staker is paid the same fee again with every call:
  a contract that holds 1000 USDD, with a single borrowing fee of 100 shared by two equal stakers, pays 150 to the first of them
  in three calls.
\<close>

theorem no_tokens_pays_again:
  "(let w = (staking_start []) \<lparr>stk_usdd := (usdd_deployed 80 82 81)\<lparr>usdd_balances := (\<lambda>a. if a = 90 then 900 else 0)\<rparr>\<rparr>;
        w1 = staking_run free_env 81 [Stake 11 11 10, Stake 12 12 10, BorrowingFee 100, Unstake 11 11 0, Unstake 11 11 0, Unstake 11 11 0] w
    in usdd_balances (stk_usdd w1) 11 = 150 \<and> usdd_balances (stk_usdd w1) 90 = 850)"
  by (simp add: staking_defs Let_def cong: rbind_weak_cong)

end
