(* ===== verification/Pools.thy ===== *)
theory Pools
  imports Stability_Pool Deft_Staking
begin

text \<open>
  \<open>contracts/DefaultPool.sol\<close>, \<open>contracts/CollSurplusPool.sol\<close> and the rest of \<open>contracts/ActivePool.sol\<close>,
  for one collateral token: the debt and collateral of the active and of the redistributed troves and
  the surplus that borrowers can claim.  \<open>coll_transferFrom\<close> is the token's \<open>transferFrom\<close>, with the
  spender first.  \<open>lq_world\<close> adds the two pools and the staking contract to the world of the Stability
  Pool, and \<open>lq_env\<close> the addresses and the transfer that TroveManager and BorrowerOperations use.
\<close>

section \<open>Storage\<close>

record default_pool =
  dp_authorizedTroveManagers :: "address \<Rightarrow> bool"
  dp_balance :: nat
  dp_USDDDebt :: nat

record surplus_pool =
  cs_authorizedTroveManagers :: "address \<Rightarrow> bool"
  cs_authorizedBorrowerOperations :: "address \<Rightarrow> bool"
  cs_COLL :: nat
  cs_balances :: "address \<Rightarrow> nat"

record 'x lq_world =
  sysw :: "'x sp_world"
  dpool :: default_pool
  cspool :: surplus_pool
  staking :: deft_staking

record 'x lq_env =
  spe :: "'x sp_env"
  stke :: "'x staking_env"
  this_bo :: address
  bo_wETHGatewayAddress :: address
  collToken_address :: address
  deploymentStartTime :: nat
  this_tm :: address
  defaultPool_address :: address
  collSurplusPool_address :: address
  gasPool_address :: address
  tm_wETHGatewayAddress :: address
  coll_transferFrom :: "address \<Rightarrow> address \<Rightarrow> address \<Rightarrow> nat \<Rightarrow> 'x \<Rightarrow> 'x res"

definition set_peers :: "'x peers \<Rightarrow> 'x lq_world \<Rightarrow> 'x lq_world" where
  "set_peers p w = w\<lparr>sysw := (sysw w)\<lparr>others := p\<rparr>\<rparr>"

definition tm_of :: "'x lq_world \<Rightarrow> trove_manager" where
  "tm_of w = tmanager (others (sysw w))"

definition set_tm :: "trove_manager \<Rightarrow> 'x lq_world \<Rightarrow> 'x lq_world" where
  "set_tm t w = set_peers ((others (sysw w))\<lparr>tmanager := t\<rparr>) w"

section \<open>ActivePool\<close>

definition ap_requireCallerIsBOorTroveM :: "address \<Rightarrow> active_pool \<Rightarrow> unit res" where
  "ap_requireCallerIsBOorTroveM sender a =
     require (ap_authorizedBorrowerOperations a sender \<or> ap_authorizedTroveManagers a sender)
       ''ActivePool: Caller is neither BorrowerOperations nor TroveManager''"

definition ap_requireCallerIsBorrowerOperationsOrDefaultPool :: "address \<Rightarrow> active_pool \<Rightarrow> unit res" where
  "ap_requireCallerIsBorrowerOperationsOrDefaultPool sender a =
     require (ap_authorizedBorrowerOperations a sender \<or> sender = ap_defaultPoolAddress a)
       ''ActivePool: Caller is neither BO nor Default Pool''"

definition ap_increaseUSDDDebt :: "address \<Rightarrow> nat \<Rightarrow> active_pool \<Rightarrow> active_pool res" where
  "ap_increaseUSDDDebt sender amount a =
     rbind (ap_requireCallerIsBOorTroveM sender a) (\<lambda>_.
     rbind (u_add (ap_USDDDebt a) amount) (\<lambda>d. Inr (a\<lparr>ap_USDDDebt := d\<rparr>)))"

definition ap_receiveColl :: "'x lq_env \<Rightarrow> address \<Rightarrow> nat \<Rightarrow> 'x peers \<Rightarrow> 'x peers res" where
  "ap_receiveColl E sender amount p =
     rbind (ap_requireCallerIsBorrowerOperationsOrDefaultPool sender (apool p)) (\<lambda>_.
     rbind (coll_transferFrom E (activePool_address (spe E)) sender (activePool_address (spe E)) amount (ext p)) (\<lambda>x.
     rbind (u_add (ap_balance (apool p)) amount) (\<lambda>b.
     Inr (p\<lparr>apool := (apool p)\<lparr>ap_balance := b\<rparr>, ext := x\<rparr>))))"

section \<open>DefaultPool\<close>

definition dp_requireCallerIsTroveManager :: "address \<Rightarrow> default_pool \<Rightarrow> unit res" where
  "dp_requireCallerIsTroveManager sender d =
     require (dp_authorizedTroveManagers d sender) ''DefaultPool: Caller is not the TroveManager''"

definition dp_increaseUSDDDebt :: "address \<Rightarrow> nat \<Rightarrow> default_pool \<Rightarrow> default_pool res" where
  "dp_increaseUSDDDebt sender amount d =
     rbind (dp_requireCallerIsTroveManager sender d) (\<lambda>_.
     rbind (u_add (dp_USDDDebt d) amount) (\<lambda>v. Inr (d\<lparr>dp_USDDDebt := v\<rparr>)))"

definition dp_decreaseUSDDDebt :: "address \<Rightarrow> nat \<Rightarrow> default_pool \<Rightarrow> default_pool res" where
  "dp_decreaseUSDDDebt sender amount d =
     rbind (dp_requireCallerIsTroveManager sender d) (\<lambda>_.
     rbind (u_sub (dp_USDDDebt d) amount) (\<lambda>v. Inr (d\<lparr>dp_USDDDebt := v\<rparr>)))"

definition dp_receiveColl :: "'x lq_env \<Rightarrow> address \<Rightarrow> nat \<Rightarrow> 'x lq_world \<Rightarrow> 'x lq_world res" where
  "dp_receiveColl E sender amount w =
     rbind (dp_requireCallerIsTroveManager sender (dpool w)) (\<lambda>_.
     rbind (coll_transferFrom E (defaultPool_address E) sender (defaultPool_address E) amount
              (ext (others (sysw w)))) (\<lambda>x.
     rbind (u_add (dp_balance (dpool w)) amount) (\<lambda>b.
     Inr (set_peers ((others (sysw w))\<lparr>ext := x\<rparr>) (w\<lparr>dpool := (dpool w)\<lparr>dp_balance := b\<rparr>\<rparr>)))))"

definition dp_sendToActivePool :: "'x lq_env \<Rightarrow> address \<Rightarrow> nat \<Rightarrow> 'x lq_world \<Rightarrow> 'x lq_world res" where
  "dp_sendToActivePool E sender amount w =
     rbind (dp_requireCallerIsTroveManager sender (dpool w)) (\<lambda>_.
     rbind (u_sub (dp_balance (dpool w)) amount) (\<lambda>b.
     rbind (ap_receiveColl E (defaultPool_address E) amount (others (sysw w))) (\<lambda>p.
     Inr (set_peers p (w\<lparr>dpool := (dpool w)\<lparr>dp_balance := b\<rparr>\<rparr>)))))"

section \<open>CollSurplusPool\<close>

definition cs_requireCallerIsTroveManager :: "address \<Rightarrow> surplus_pool \<Rightarrow> unit res" where
  "cs_requireCallerIsTroveManager sender c =
     require (cs_authorizedTroveManagers c sender) ''CollSurplusPool: Caller is not TroveManager''"

definition cs_accountSurplus :: "address \<Rightarrow> address \<Rightarrow> nat \<Rightarrow> surplus_pool \<Rightarrow> surplus_pool res" where
  "cs_accountSurplus sender account amount c =
     rbind (cs_requireCallerIsTroveManager sender c) (\<lambda>_.
     rbind (u_add (cs_balances c account) amount) (\<lambda>n.
     Inr (c\<lparr>cs_balances := (cs_balances c)(account := n)\<rparr>)))"

definition cs_receiveColl :: "'x lq_env \<Rightarrow> address \<Rightarrow> nat \<Rightarrow> 'x lq_world \<Rightarrow> 'x lq_world res" where
  "cs_receiveColl E sender amount w =
     rbind (cs_requireCallerIsTroveManager sender (cspool w)) (\<lambda>_.
     rbind (coll_transferFrom E (collSurplusPool_address E) sender (collSurplusPool_address E) amount
              (ext (others (sysw w)))) (\<lambda>x.
     rbind (u_add (cs_COLL (cspool w)) amount) (\<lambda>b.
     Inr (set_peers ((others (sysw w))\<lparr>ext := x\<rparr>) (w\<lparr>cspool := (cspool w)\<lparr>cs_COLL := b\<rparr>\<rparr>)))))"

definition cs_claimColl :: "'x lq_env \<Rightarrow> address \<Rightarrow> address \<Rightarrow> address \<Rightarrow> 'x lq_world \<Rightarrow> 'x lq_world res" where
  "cs_claimColl E sender account to w =
     rbind (require (cs_authorizedBorrowerOperations (cspool w) sender)
       ''CollSurplusPool: Caller is not Borrower Operations'') (\<lambda>_.
     let claimableColl = cs_balances (cspool w) account in
     rbind (require (claimableColl > 0) ''CollSurplusPool: No collateral available to claim'') (\<lambda>_.
     let c1 = (cspool w)\<lparr>cs_balances := (cs_balances (cspool w))(account := 0)\<rparr> in
     rbind (u_sub (cs_COLL c1) claimableColl) (\<lambda>b.
     rbind (coll_transfer (spe E) (collSurplusPool_address E) to claimableColl (ext (others (sysw w)))) (\<lambda>x.
     Inr (set_peers ((others (sysw w))\<lparr>ext := x\<rparr>) (w\<lparr>cspool := c1\<lparr>cs_COLL := b\<rparr>\<rparr>))))))"

section \<open>The lenses\<close>

lemma set_peers_simps [simp]:
  "others (sysw (set_peers p w)) = p" "pool (sysw (set_peers p w)) = pool (sysw w)"
  "dpool (set_peers p w) = dpool w" "cspool (set_peers p w) = cspool w" "staking (set_peers p w) = staking w"
  by (simp_all add: set_peers_def)

lemma set_tm_simps [simp]:
  "tm_of (set_tm t w) = t" "pool (sysw (set_tm t w)) = pool (sysw w)"
  "dpool (set_tm t w) = dpool w" "cspool (set_tm t w) = cspool w" "staking (set_tm t w) = staking w"
  "others (sysw (set_tm t w)) = (others (sysw w))\<lparr>tmanager := t\<rparr>"
  by (simp_all add: set_tm_def tm_of_def)

end
