(* ===== verification/Liquidation.thy ===== *)
theory Liquidation
  imports Pools
begin

text \<open>
  The liquidation functions of \<open>contracts/TroveManager.sol\<close>: closing one trove in normal and in recovery
  mode, the four sequences (\<open>liquidateTroves\<close> walks the sorted list from its tail,
  \<open>batchLiquidateTroves\<close> walks a list of addresses), the redistribution of debt and collateral and the two
  outer functions.  They work on \<open>lq_world\<close>: the storage of TroveManager, SortedTroves, StabilityPool,
  the three collateral pools and the stablecoin.  \<open>liquidator\<close> is the argument of the external
  functions, \<open>sender\<close> is \<open>msg.sender\<close>.
\<close>

section \<open>Values and totals\<close>

record LiquidationValues =
  entireTroveDebt :: nat
  entireTroveColl :: nat
  collGasCompensation :: nat
  USDDGasCompensation :: nat
  debtToOffset :: nat
  collToSendToSP :: nat
  debtToRedistribute :: nat
  collToRedistribute :: nat
  collSurplus :: nat

record LiquidationTotals =
  totalCollInSequence :: nat
  totalDebtInSequence :: nat
  totalCollGasCompensation :: nat
  totalUSDDGasCompensation :: nat
  totalDebtToOffset :: nat
  totalCollToSendToSP :: nat
  totalDebtToRedistribute :: nat
  totalCollToRedistribute :: nat
  totalCollSurplus :: nat

definition zeroVals :: LiquidationValues where
  "zeroVals = \<lparr>entireTroveDebt = 0, entireTroveColl = 0, collGasCompensation = 0,
     USDDGasCompensation = 0, debtToOffset = 0, collToSendToSP = 0, debtToRedistribute = 0,
     collToRedistribute = 0, collSurplus = 0\<rparr>"

definition zeroTotals :: LiquidationTotals where
  "zeroTotals = \<lparr>totalCollInSequence = 0, totalDebtInSequence = 0, totalCollGasCompensation = 0,
     totalUSDDGasCompensation = 0, totalDebtToOffset = 0, totalCollToSendToSP = 0,
     totalDebtToRedistribute = 0, totalCollToRedistribute = 0, totalCollSurplus = 0\<rparr>"

text \<open>The result is \<open>(debtToOffset, collToSendToSP, debtToRedistribute, collToRedistribute)\<close>.\<close>

definition getOffsetAndRedistributionVals :: "nat \<Rightarrow> nat \<Rightarrow> nat \<Rightarrow> (nat \<times> nat \<times> nat \<times> nat) res" where
  "getOffsetAndRedistributionVals d c USDDInStabPool =
     (if USDDInStabPool > 0 then
        let toOffset = min_u d USDDInStabPool in
        rbind (u_mul c toOffset) (\<lambda>m.
        rbind (u_div m d) (\<lambda>toSP.
        rbind (u_sub d toOffset) (\<lambda>debtR.
        rbind (u_sub c toSP) (\<lambda>collR. Inr (toOffset, toSP, debtR, collR)))))
      else Inr (0, 0, d, c))"

definition getCappedOffsetVals :: "nat \<Rightarrow> nat \<Rightarrow> nat \<Rightarrow> LiquidationValues res" where
  "getCappedOffsetVals d c price =
     rbind (u_mul d MCR) (\<lambda>m.
     rbind (u_div m price) (\<lambda>collToOffset.
     let gas = getCollGasCompensation collToOffset in
     rbind (u_sub collToOffset gas) (\<lambda>toSP.
     rbind (u_sub c collToOffset) (\<lambda>surplus.
     Inr (zeroVals\<lparr>entireTroveDebt := d, entireTroveColl := c, collGasCompensation := gas,
       USDDGasCompensation := USDD_GAS_COMPENSATION, debtToOffset := d, collToSendToSP := toSP,
       collSurplus := surplus\<rparr>)))))"

definition addLiquidationValuesToTotals ::
  "LiquidationTotals \<Rightarrow> LiquidationValues \<Rightarrow> LiquidationTotals res" where
  "addLiquidationValuesToTotals t v =
     rbind (u_add (totalCollGasCompensation t) (collGasCompensation v)) (\<lambda>a1.
     rbind (u_add (totalUSDDGasCompensation t) (USDDGasCompensation v)) (\<lambda>a2.
     rbind (u_add (totalDebtInSequence t) (entireTroveDebt v)) (\<lambda>a3.
     rbind (u_add (totalCollInSequence t) (entireTroveColl v)) (\<lambda>a4.
     rbind (u_add (totalDebtToOffset t) (debtToOffset v)) (\<lambda>a5.
     rbind (u_add (totalCollToSendToSP t) (collToSendToSP v)) (\<lambda>a6.
     rbind (u_add (totalDebtToRedistribute t) (debtToRedistribute v)) (\<lambda>a7.
     rbind (u_add (totalCollToRedistribute t) (collToRedistribute v)) (\<lambda>a8.
     rbind (u_add (totalCollSurplus t) (collSurplus v)) (\<lambda>a9.
     Inr \<lparr>totalCollInSequence = a4, totalDebtInSequence = a3, totalCollGasCompensation = a1,
       totalUSDDGasCompensation = a2, totalDebtToOffset = a5, totalCollToSendToSP = a6,
       totalDebtToRedistribute = a7, totalCollToRedistribute = a8, totalCollSurplus = a9\<rparr>)))))))))"

section \<open>The state of the system\<close>

definition getEntireSystemColl :: "'x lq_world \<Rightarrow> nat res" where
  "getEntireSystemColl w = u_add (ap_balance (apool (others (sysw w)))) (dp_balance (dpool w))"

definition getEntireSystemDebt :: "'x lq_world \<Rightarrow> nat res" where
  "getEntireSystemDebt w = u_add (ap_USDDDebt (apool (others (sysw w)))) (dp_USDDDebt (dpool w))"

definition getTCR_sol :: "nat \<Rightarrow> 'x lq_world \<Rightarrow> nat res" where
  "getTCR_sol price w =
     rbind (getEntireSystemColl w) (\<lambda>c. rbind (getEntireSystemDebt w) (\<lambda>d. computeCR c d price))"

definition checkRecoveryMode_sol :: "nat \<Rightarrow> 'x lq_world \<Rightarrow> bool res" where
  "checkRecoveryMode_sol price w = rbind (getTCR_sol price w) (\<lambda>TCR. Inr (TCR < CCR))"

definition checkPotentialRecoveryMode :: "nat \<Rightarrow> nat \<Rightarrow> nat \<Rightarrow> bool res" where
  "checkPotentialRecoveryMode c d price = rbind (computeCR c d price) (\<lambda>TCR. Inr (TCR < CCR))"

section \<open>Closing a trove\<close>

definition movePendingTroveRewardsToActivePool :: "'x lq_env \<Rightarrow> nat \<Rightarrow> nat \<Rightarrow> 'x lq_world \<Rightarrow> 'x lq_world res" where
  "movePendingTroveRewardsToActivePool E debtR collR w =
     rbind (dp_decreaseUSDDDebt (this_tm E) debtR (dpool w)) (\<lambda>d.
     let w1 = w\<lparr>dpool := d\<rparr> in
     rbind (ap_increaseUSDDDebt (this_tm E) debtR (apool (others (sysw w1)))) (\<lambda>a.
     dp_sendToActivePool E (this_tm E) collR (set_peers ((others (sysw w1))\<lparr>apool := a\<rparr>) w1)))"

definition requireMoreThanOneTroveInSystem :: "nat \<Rightarrow> sorted_troves \<Rightarrow> unit res" where
  "requireMoreThanOneTroveInSystem len s =
     require (len > 1 \<and> st_size s > 1) ''TroveManager: Only one trove in the system''"

definition closeTrove :: "'x lq_env \<Rightarrow> address \<Rightarrow> status \<Rightarrow> 'x lq_world \<Rightarrow> 'x lq_world res" where
  "closeTrove E b closedStatus w =
     rbind (sol_assert (closedStatus \<noteq> nonExistent \<and> closedStatus \<noteq> active)) (\<lambda>_.
     let t = tm_of w; len = length (TroveOwners t) in
     rbind (requireMoreThanOneTroveInSystem len (slist (others (sysw w)))) (\<lambda>_.
     let t1 = upd_trove b (\<lambda>tr. tr\<lparr>status := closedStatus, coll := 0, debt := 0\<rparr>) t;
         t2 = t1\<lparr>rewardSnapshots := (rewardSnapshots t1)(b := \<lparr>snap_COLL = 0, snap_USDDDebt = 0\<rparr>)\<rparr> in
     rbind (removeTroveOwner b len t2) (\<lambda>t3.
     rbind (remove_trove (this_tm E) (slist (others (sysw w))) b) (\<lambda>sl.
     Inr (set_peers ((others (sysw w))\<lparr>tmanager := t3, slist := sl\<rparr>) w)))))"

text \<open>The steps that every liquidation of a trove starts with.\<close>

definition detach_trove :: "'x lq_env \<Rightarrow> address \<Rightarrow> nat \<Rightarrow> nat \<Rightarrow> 'x lq_world \<Rightarrow> 'x lq_world res" where
  "detach_trove E b pendingDebtReward pendingCollReward w =
     rbind (movePendingTroveRewardsToActivePool E pendingDebtReward pendingCollReward w) (\<lambda>w1.
     rbind (removeStake b (tm_of w1)) (\<lambda>t. Inr (set_tm t w1)))"

definition liquidateNormalMode ::
  "'x lq_env \<Rightarrow> address \<Rightarrow> nat \<Rightarrow> 'x lq_world \<Rightarrow> (LiquidationValues \<times> 'x lq_world) res" where
  "liquidateNormalMode E b USDDInStabPool w =
     rbind (getEntireDebtAndColl (tm_of w) b) (\<lambda>(d, c, pendingDebtReward, pendingCollReward).
     rbind (detach_trove E b pendingDebtReward pendingCollReward w) (\<lambda>w1.
     let gas = getCollGasCompensation c in
     rbind (u_sub c gas) (\<lambda>collToLiquidate.
     rbind (getOffsetAndRedistributionVals d collToLiquidate USDDInStabPool) (\<lambda>(toOffset, toSP, debtR, collR).
     rbind (closeTrove E b closedByLiquidation w1) (\<lambda>w2.
     Inr (zeroVals\<lparr>entireTroveDebt := d, entireTroveColl := c, collGasCompensation := gas,
            USDDGasCompensation := USDD_GAS_COMPENSATION, debtToOffset := toOffset, collToSendToSP := toSP,
            debtToRedistribute := debtR, collToRedistribute := collR\<rparr>, w2))))))"

definition liquidateRecoveryMode ::
  "'x lq_env \<Rightarrow> address \<Rightarrow> nat \<Rightarrow> nat \<Rightarrow> nat \<Rightarrow> nat \<Rightarrow> 'x lq_world \<Rightarrow> (LiquidationValues \<times> 'x lq_world) res" where
  "liquidateRecoveryMode E b ICR USDDInStabPool TCR price w =
     (if length (TroveOwners (tm_of w)) \<le> 1 then Inr (zeroVals, w)
      else
      rbind (getEntireDebtAndColl (tm_of w) b) (\<lambda>(d, c, pendingDebtReward, pendingCollReward).
      let gas = getCollGasCompensation c in
      rbind (u_sub c gas) (\<lambda>collToLiquidate.
      let v = zeroVals\<lparr>entireTroveDebt := d, entireTroveColl := c, collGasCompensation := gas,
                USDDGasCompensation := USDD_GAS_COMPENSATION\<rparr> in
      if ICR \<le> one_hundred_pct then
        rbind (detach_trove E b pendingDebtReward pendingCollReward w) (\<lambda>w1.
        rbind (closeTrove E b closedByLiquidation w1) (\<lambda>w2.
        Inr (v\<lparr>debtToRedistribute := d, collToRedistribute := collToLiquidate\<rparr>, w2)))
      else if ICR > one_hundred_pct \<and> ICR < MCR then
        rbind (detach_trove E b pendingDebtReward pendingCollReward w) (\<lambda>w1.
        rbind (getOffsetAndRedistributionVals d collToLiquidate USDDInStabPool) (\<lambda>(toOffset, toSP, debtR, collR).
        rbind (closeTrove E b closedByLiquidation w1) (\<lambda>w2.
        Inr (v\<lparr>debtToOffset := toOffset, collToSendToSP := toSP, debtToRedistribute := debtR,
               collToRedistribute := collR\<rparr>, w2))))
      else if ICR \<ge> MCR \<and> ICR < TCR \<and> d \<le> USDDInStabPool then
        rbind (movePendingTroveRewardsToActivePool E pendingDebtReward pendingCollReward w) (\<lambda>w0.
        rbind (sol_assert (USDDInStabPool \<noteq> 0)) (\<lambda>_.
        rbind (removeStake b (tm_of w0)) (\<lambda>t.
        let w1 = set_tm t w0 in
        rbind (getCappedOffsetVals d c price) (\<lambda>v'.
        rbind (closeTrove E b closedByLiquidation w1) (\<lambda>w2.
        rbind (if collSurplus v' > 0 then cs_accountSurplus (this_tm E) b (collSurplus v') (cspool w2)
               else Inr (cspool w2)) (\<lambda>cs.
        Inr (v', w2\<lparr>cspool := cs\<rparr>)))))))
      else Inr (zeroVals, w))))"

section \<open>The sequences\<close>

text \<open>Normal mode, from the tail of the sorted list: at most \<open>n\<close> troves, until one has the minimum ratio.\<close>

fun liquidateTroves_NormalMode ::
  "'x lq_env \<Rightarrow> nat \<Rightarrow> nat \<Rightarrow> nat \<Rightarrow> LiquidationTotals \<Rightarrow> 'x lq_world \<Rightarrow> (LiquidationTotals \<times> 'x lq_world) res" where
  "liquidateTroves_NormalMode E price 0 remaining totals w = Inr (totals, w)"
| "liquidateTroves_NormalMode E price (Suc n) remaining totals w =
     (let user = tail (slist (others (sysw w))) in
      rbind (getCurrentICR (tm_of w) user price) (\<lambda>ICR.
      if ICR < MCR then
        rbind (liquidateNormalMode E user remaining w) (\<lambda>(v, w1).
        rbind (u_sub remaining (debtToOffset v)) (\<lambda>remaining'.
        rbind (addLiquidationValuesToTotals totals v) (\<lambda>totals'.
        liquidateTroves_NormalMode E price n remaining' totals' w1)))
      else Inr (totals, w)))"

text \<open>
  Recovery mode.  \<open>backToNormal\<close> records that the system has left recovery mode on the way, \<open>sysDebt\<close>
  and \<open>sysColl\<close> are the running estimates of the system's debt and collateral.
\<close>

fun liquidateTroves_RecoveryMode ::
  "'x lq_env \<Rightarrow> nat \<Rightarrow> address \<Rightarrow> nat \<Rightarrow> address \<Rightarrow> nat \<Rightarrow> bool \<Rightarrow> nat \<Rightarrow> nat \<Rightarrow> LiquidationTotals \<Rightarrow>
   'x lq_world \<Rightarrow> (LiquidationTotals \<times> 'x lq_world) res" where
  "liquidateTroves_RecoveryMode E price firstUser 0 user remaining backToNormal sysDebt sysColl totals w =
     Inr (totals, w)"
| "liquidateTroves_RecoveryMode E price firstUser (Suc n) user remaining backToNormal sysDebt sysColl totals w =
     (if user = firstUser then Inr (totals, w)
      else let nextUser = getPrev (slist (others (sysw w))) user in
      rbind (getCurrentICR (tm_of w) user price) (\<lambda>ICR.
      if \<not> backToNormal then
        if ICR \<ge> MCR \<and> remaining = 0 then Inr (totals, w)
        else
          rbind (computeCR sysColl sysDebt price) (\<lambda>TCR.
          rbind (liquidateRecoveryMode E user ICR remaining TCR price w) (\<lambda>(v, w1).
          rbind (u_sub remaining (debtToOffset v)) (\<lambda>remaining'.
          rbind (u_sub sysDebt (debtToOffset v)) (\<lambda>sysDebt'.
          rbind (u_sub sysColl (collToSendToSP v)) (\<lambda>sysColl1.
          rbind (u_sub sysColl1 (collSurplus v)) (\<lambda>sysColl'.
          rbind (addLiquidationValuesToTotals totals v) (\<lambda>totals'.
          rbind (checkPotentialRecoveryMode sysColl' sysDebt' price) (\<lambda>recovery.
          liquidateTroves_RecoveryMode E price firstUser n nextUser remaining' (\<not> recovery) sysDebt' sysColl'
            totals' w1))))))))
      else if ICR < MCR then
        rbind (liquidateNormalMode E user remaining w) (\<lambda>(v, w1).
        rbind (u_sub remaining (debtToOffset v)) (\<lambda>remaining'.
        rbind (addLiquidationValuesToTotals totals v) (\<lambda>totals'.
        liquidateTroves_RecoveryMode E price firstUser n nextUser remaining' backToNormal sysDebt sysColl
          totals' w1)))
      else Inr (totals, w)))"

text \<open>The batches walk the caller's list and skip what cannot be liquidated.\<close>

fun batchLiquidate_NormalMode ::
  "'x lq_env \<Rightarrow> nat \<Rightarrow> address list \<Rightarrow> nat \<Rightarrow> LiquidationTotals \<Rightarrow> 'x lq_world \<Rightarrow>
   (LiquidationTotals \<times> 'x lq_world) res" where
  "batchLiquidate_NormalMode E price [] remaining totals w = Inr (totals, w)"
| "batchLiquidate_NormalMode E price (user # users) remaining totals w =
     rbind (getCurrentICR (tm_of w) user price) (\<lambda>ICR.
     if ICR < MCR then
       rbind (liquidateNormalMode E user remaining w) (\<lambda>(v, w1).
       rbind (u_sub remaining (debtToOffset v)) (\<lambda>remaining'.
       rbind (addLiquidationValuesToTotals totals v) (\<lambda>totals'.
       batchLiquidate_NormalMode E price users remaining' totals' w1)))
     else batchLiquidate_NormalMode E price users remaining totals w)"

fun batchLiquidate_RecoveryMode ::
  "'x lq_env \<Rightarrow> nat \<Rightarrow> address list \<Rightarrow> nat \<Rightarrow> bool \<Rightarrow> nat \<Rightarrow> nat \<Rightarrow> LiquidationTotals \<Rightarrow> 'x lq_world \<Rightarrow>
   (LiquidationTotals \<times> 'x lq_world) res" where
  "batchLiquidate_RecoveryMode E price [] remaining backToNormal sysDebt sysColl totals w = Inr (totals, w)"
| "batchLiquidate_RecoveryMode E price (user # users) remaining backToNormal sysDebt sysColl totals w =
     (if status (Troves (tm_of w) user) \<noteq> active then
        batchLiquidate_RecoveryMode E price users remaining backToNormal sysDebt sysColl totals w
      else rbind (getCurrentICR (tm_of w) user price) (\<lambda>ICR.
      if \<not> backToNormal then
        if ICR \<ge> MCR \<and> remaining = 0 then
          batchLiquidate_RecoveryMode E price users remaining backToNormal sysDebt sysColl totals w
        else
          rbind (computeCR sysColl sysDebt price) (\<lambda>TCR.
          rbind (liquidateRecoveryMode E user ICR remaining TCR price w) (\<lambda>(v, w1).
          rbind (u_sub remaining (debtToOffset v)) (\<lambda>remaining'.
          rbind (u_sub sysDebt (debtToOffset v)) (\<lambda>sysDebt'.
          rbind (u_sub sysColl (collToSendToSP v)) (\<lambda>sysColl'.
          rbind (addLiquidationValuesToTotals totals v) (\<lambda>totals'.
          rbind (checkPotentialRecoveryMode sysColl' sysDebt' price) (\<lambda>recovery.
          batchLiquidate_RecoveryMode E price users remaining' (\<not> recovery) sysDebt' sysColl' totals' w1)))))))
      else if ICR < MCR then
        rbind (liquidateNormalMode E user remaining w) (\<lambda>(v, w1).
        rbind (u_sub remaining (debtToOffset v)) (\<lambda>remaining'.
        rbind (addLiquidationValuesToTotals totals v) (\<lambda>totals'.
        batchLiquidate_RecoveryMode E price users remaining' backToNormal sysDebt sysColl totals' w1)))
      else batchLiquidate_RecoveryMode E price users remaining backToNormal sysDebt sysColl totals w))"

section \<open>Redistribution, snapshots and compensation\<close>

definition redistributeDebtAndColl :: "'x lq_env \<Rightarrow> nat \<Rightarrow> nat \<Rightarrow> 'x lq_world \<Rightarrow> 'x lq_world res" where
  "redistributeDebtAndColl E d c w =
     (if d = 0 then Inr w
      else let t = tm_of w in
      rbind (u_mul c DECIMAL_PRECISION) (\<lambda>m1.
      rbind (u_add m1 (lastETHError_Redistribution t)) (\<lambda>ETHNumerator.
      rbind (u_mul d DECIMAL_PRECISION) (\<lambda>m2.
      rbind (u_add m2 (lastUSDDDebtError_Redistribution t)) (\<lambda>USDDDebtNumerator.
      rbind (u_div ETHNumerator (totalStakes t)) (\<lambda>ETHRewardPerUnitStaked.
      rbind (u_div USDDDebtNumerator (totalStakes t)) (\<lambda>USDDDebtRewardPerUnitStaked.
      rbind (u_mul ETHRewardPerUnitStaked (totalStakes t)) (\<lambda>m3.
      rbind (u_sub ETHNumerator m3) (\<lambda>ethError.
      rbind (u_mul USDDDebtRewardPerUnitStaked (totalStakes t)) (\<lambda>m4.
      rbind (u_sub USDDDebtNumerator m4) (\<lambda>debtError.
      rbind (u_add (L_COLL t) ETHRewardPerUnitStaked) (\<lambda>lc.
      rbind (u_add (L_USDDDebt t) USDDDebtRewardPerUnitStaked) (\<lambda>ld.
      let w1 = set_tm (t\<lparr>lastETHError_Redistribution := ethError, lastUSDDDebtError_Redistribution := debtError,
                         L_COLL := lc, L_USDDDebt := ld\<rparr>) w in
      rbind (ap_decreaseUSDDDebt (this_tm E) d (apool (others (sysw w1)))) (\<lambda>a.
      rbind (dp_increaseUSDDDebt (this_tm E) d (dpool w1)) (\<lambda>dp.
      rbind (ap_sendColl (spe E) (this_tm E) (this_tm E) c ((others (sysw w1))\<lparr>apool := a\<rparr>)) (\<lambda>p.
      dp_receiveColl E (this_tm E) c (set_peers p (w1\<lparr>dpool := dp\<rparr>))))))))))))))))))"

definition updateSystemSnapshots_excludeCollRemainder :: "nat \<Rightarrow> 'x lq_world \<Rightarrow> 'x lq_world res" where
  "updateSystemSnapshots_excludeCollRemainder collRemainder w =
     (let t = (tm_of w)\<lparr>totalStakesSnapshot := totalStakes (tm_of w)\<rparr> in
      rbind (u_sub (ap_balance (apool (others (sysw w)))) collRemainder) (\<lambda>a.
      rbind (u_add a (dp_balance (dpool w))) (\<lambda>c.
      Inr (set_tm (t\<lparr>totalCollateralSnapshot := c\<rparr>) w))))"

definition sendGasCompensation :: "'x lq_env \<Rightarrow> address \<Rightarrow> nat \<Rightarrow> nat \<Rightarrow> 'x lq_world \<Rightarrow> 'x lq_world res" where
  "sendGasCompensation E liquidator usddAmount collAmount w =
     rbind (if usddAmount > 0 then
              rbind (usdd_returnFromPool (this_tm E) (gasPool_address E) liquidator usddAmount
                       (usdd (others (sysw w)))) (\<lambda>u.
              Inr ((others (sysw w))\<lparr>usdd := u\<rparr>))
            else Inr (others (sysw w))) (\<lambda>p.
     rbind (if collAmount > 0 then ap_sendColl (spe E) (this_tm E) liquidator collAmount p else Inr p) (\<lambda>p'.
     Inr (set_peers p' w)))"

section \<open>The outer functions\<close>

definition requireCallerIsLiquidatorOrGw :: "'x lq_env \<Rightarrow> address \<Rightarrow> address \<Rightarrow> unit res" where
  "requireCallerIsLiquidatorOrGw E sender liquidator =
     require (sender = liquidator \<or> sender = tm_wETHGatewayAddress E)
       ''TroveManager: Caller must be the liquidator or gateway''"

definition requireTroveIsActive :: "address \<Rightarrow> trove_manager \<Rightarrow> unit res" where
  "requireTroveIsActive b t =
     require (status (Troves t b) = active) ''TroveManager: Trove does not exist or is closed''"

text \<open>The two outer functions share everything after the sequence.\<close>

definition finish_liquidation ::
  "'x lq_env \<Rightarrow> nat \<Rightarrow> address \<Rightarrow> LiquidationTotals \<Rightarrow> 'x lq_world \<Rightarrow> 'x lq_world res" where
  "finish_liquidation E now liquidator totals w =
     rbind (require (totalDebtInSequence totals > 0) ''TroveManager: nothing to liquidate'') (\<lambda>_.
     rbind (offset (spe E) now (this_tm E) (totalDebtToOffset totals) (totalCollToSendToSP totals) (sysw w)) (\<lambda>sw.
     rbind (redistributeDebtAndColl E (totalDebtToRedistribute totals) (totalCollToRedistribute totals)
              (w\<lparr>sysw := sw\<rparr>)) (\<lambda>w2.
     rbind (if totalCollSurplus totals > 0 then
              rbind (ap_sendColl (spe E) (this_tm E) (this_tm E) (totalCollSurplus totals) (others (sysw w2)))
                (\<lambda>p. cs_receiveColl E (this_tm E) (totalCollSurplus totals) (set_peers p w2))
            else Inr w2) (\<lambda>w3.
     rbind (updateSystemSnapshots_excludeCollRemainder (totalCollGasCompensation totals) w3) (\<lambda>w4.
     rbind (u_sub (totalCollInSequence totals) (totalCollGasCompensation totals)) (\<lambda>c1.
     rbind (u_sub c1 (totalCollSurplus totals)) (\<lambda>liquidatedColl.
     sendGasCompensation E liquidator (totalUSDDGasCompensation totals) (totalCollGasCompensation totals) w4)))))))"

definition fetch_price :: "'x lq_env \<Rightarrow> 'x lq_world \<Rightarrow> (nat \<times> 'x lq_world) res" where
  "fetch_price E w =
     rbind (sp_fetchPrice (spe E) (ext (others (sysw w)))) (\<lambda>(price, x).
     Inr (price, set_peers ((others (sysw w))\<lparr>ext := x\<rparr>) w))"

definition liquidateTroves ::
  "'x lq_env \<Rightarrow> nat \<Rightarrow> address \<Rightarrow> address \<Rightarrow> nat \<Rightarrow> 'x lq_world \<Rightarrow> 'x lq_world res" where
  "liquidateTroves E now sender liquidator n w =
     rbind (requireCallerIsLiquidatorOrGw E sender liquidator) (\<lambda>_.
     rbind (fetch_price E w) (\<lambda>(price, w0).
     let USDDInStabPool = totalUSDDDeposits (pool (sysw w0)) in
     rbind (checkRecoveryMode_sol price w0) (\<lambda>recoveryModeAtStart.
     rbind (if recoveryModeAtStart then
              rbind (getEntireSystemDebt w0) (\<lambda>d.
              rbind (getEntireSystemColl w0) (\<lambda>c.
              liquidateTroves_RecoveryMode E price (head (slist (others (sysw w0)))) n
                (tail (slist (others (sysw w0)))) USDDInStabPool False d c zeroTotals w0))
            else liquidateTroves_NormalMode E price n USDDInStabPool zeroTotals w0) (\<lambda>(totals, w1).
     finish_liquidation E now liquidator totals w1))))"

definition batchLiquidateTroves ::
  "'x lq_env \<Rightarrow> nat \<Rightarrow> address \<Rightarrow> address \<Rightarrow> address list \<Rightarrow> 'x lq_world \<Rightarrow> 'x lq_world res" where
  "batchLiquidateTroves E now sender liquidator troveArray w =
     rbind (requireCallerIsLiquidatorOrGw E sender liquidator) (\<lambda>_.
     rbind (require (length troveArray \<noteq> 0) ''TroveManager: Calldata address array must not be empty'') (\<lambda>_.
     rbind (fetch_price E w) (\<lambda>(price, w0).
     let USDDInStabPool = totalUSDDDeposits (pool (sysw w0)) in
     rbind (checkRecoveryMode_sol price w0) (\<lambda>recoveryModeAtStart.
     rbind (if recoveryModeAtStart then
              rbind (getEntireSystemDebt w0) (\<lambda>d.
              rbind (getEntireSystemColl w0) (\<lambda>c.
              batchLiquidate_RecoveryMode E price troveArray USDDInStabPool False d c zeroTotals w0))
            else batchLiquidate_NormalMode E price troveArray USDDInStabPool zeroTotals w0) (\<lambda>(totals, w1).
     finish_liquidation E now liquidator totals w1)))))"

definition liquidate ::
  "'x lq_env \<Rightarrow> nat \<Rightarrow> address \<Rightarrow> address \<Rightarrow> address \<Rightarrow> 'x lq_world \<Rightarrow> 'x lq_world res" where
  "liquidate E now sender liquidator b w =
     rbind (requireTroveIsActive b (tm_of w)) (\<lambda>_. batchLiquidateTroves E now sender liquidator [b] w)"

section \<open>Pending rewards\<close>

definition applyPendingRewards :: "'x lq_env \<Rightarrow> address \<Rightarrow> 'x lq_world \<Rightarrow> 'x lq_world res" where
  "applyPendingRewards E b w =
     (if hasPendingRewards (tm_of w) b then
        rbind (requireTroveIsActive b (tm_of w)) (\<lambda>_.
        rbind (getPendingCollReward (tm_of w) b) (\<lambda>pendingCollReward.
        rbind (getPendingUSDDDebtReward (tm_of w) b) (\<lambda>pendingUSDDDebtReward.
        rbind (u_add (coll (Troves (tm_of w) b)) pendingCollReward) (\<lambda>c.
        rbind (u_add (debt (Troves (tm_of w) b)) pendingUSDDDebtReward) (\<lambda>d.
        movePendingTroveRewardsToActivePool E pendingUSDDDebtReward pendingCollReward
          (set_tm (updateTroveRewardSnapshots b (upd_trove b (\<lambda>t. t\<lparr>coll := c, debt := d\<rparr>) (tm_of w))) w))))))
      else Inr w)"

end
