(* ===== verification/Liquidation_Laws.thy ===== *)
theory Liquidation_Laws
  imports Liquidation Deposit_Book
begin

text \<open>
  What liquidations keep true.  First the values of one liquidation and their totals: no debt and no
  collateral is lost, and never more is offset than the Stability Pool holds.  Then the effect of one
  liquidation on the storage, shared by both modes; then the accounting of whole calls, the troves that
  no liquidation touches, and the reserve of the default pool behind the redistributed rewards.
\<close>

section \<open>Values\<close>

text \<open>Every unit of a liquidated trove goes somewhere, and the offset part fits the pool.\<close>

definition vals_ok :: "nat \<Rightarrow> LiquidationValues \<Rightarrow> bool" where
  "vals_ok U v \<longleftrightarrow> debtToOffset v + debtToRedistribute v = entireTroveDebt v \<and>
     collGasCompensation v + collToSendToSP v + collToRedistribute v + collSurplus v = entireTroveColl v \<and>
     debtToOffset v \<le> U \<and> (debtToOffset v = 0 \<longrightarrow> collToSendToSP v = 0) \<and>
     (debtToRedistribute v = 0 \<longrightarrow> collToRedistribute v = 0) \<and>
     PERCENT_DIVISOR * collGasCompensation v \<le> entireTroveColl v"

definition totals_ok :: "LiquidationTotals \<Rightarrow> bool" where
  "totals_ok t \<longleftrightarrow> totalDebtToOffset t + totalDebtToRedistribute t = totalDebtInSequence t \<and>
     totalCollGasCompensation t + totalCollToSendToSP t + totalCollToRedistribute t + totalCollSurplus t
       = totalCollInSequence t \<and>
     (totalDebtToOffset t = 0 \<longrightarrow> totalCollToSendToSP t = 0) \<and>
     (totalDebtToRedistribute t = 0 \<longrightarrow> totalCollToRedistribute t = 0) \<and>
     PERCENT_DIVISOR * totalCollGasCompensation t \<le> totalCollInSequence t"

lemma zeroVals_ok [simp]: "vals_ok U zeroVals"
  by (simp add: vals_ok_def zeroVals_def)

lemma zeroTotals_ok [simp]: "totals_ok zeroTotals"
  by (simp add: totals_ok_def zeroTotals_def)

lemma collGas_le: "getCollGasCompensation c \<le> c"
  by (simp add: getCollGasCompensation_def)

lemma collGas_share: "PERCENT_DIVISOR * getCollGasCompensation c \<le> c"
  by (simp add: getCollGasCompensation_def)

lemma offsetVals_facts:
  assumes "getOffsetAndRedistributionVals d c U = Inr (a, b, e, f)"
  shows "a + e = d \<and> b + f = c \<and> a \<le> U \<and> (a = 0 \<longrightarrow> b = 0) \<and> (d \<noteq> 0 \<and> e = 0 \<longrightarrow> f = 0)"
  using assms by (auto simp: getOffsetAndRedistributionVals_def rbind_Inr_iff u_Inr_iffs Let_def split: if_splits)

lemma cappedVals_facts:
  assumes "getCappedOffsetVals d c p = Inr v"
  shows "debtToOffset v = d \<and> entireTroveDebt v = d \<and> debtToRedistribute v = 0 \<and> collToRedistribute v = 0 \<and>
    entireTroveColl v = c \<and> collGasCompensation v + collToSendToSP v = d * MCR div p \<and>
    collSurplus v + d * MCR div p = c \<and> (d = 0 \<longrightarrow> collToSendToSP v = 0) \<and>
    PERCENT_DIVISOR * collGasCompensation v \<le> c"
  using assms collGas_le[of "d * MCR div p"] collGas_share[of "d * MCR div p"]
  by (auto simp: getCappedOffsetVals_def rbind_Inr_iff u_Inr_iffs Let_def zeroVals_def)

lemma addTotals_sums:
  assumes "addLiquidationValuesToTotals t v = Inr t'"
  shows "t' = \<lparr>totalCollInSequence = totalCollInSequence t + entireTroveColl v,
     totalDebtInSequence = totalDebtInSequence t + entireTroveDebt v,
     totalCollGasCompensation = totalCollGasCompensation t + collGasCompensation v,
     totalUSDDGasCompensation = totalUSDDGasCompensation t + USDDGasCompensation v,
     totalDebtToOffset = totalDebtToOffset t + debtToOffset v, totalCollToSendToSP = totalCollToSendToSP t + collToSendToSP v,
     totalDebtToRedistribute = totalDebtToRedistribute t + debtToRedistribute v,
     totalCollToRedistribute = totalCollToRedistribute t + collToRedistribute v,
     totalCollSurplus = totalCollSurplus t + collSurplus v\<rparr>"
  using assms unfolding addLiquidationValuesToTotals_def by (elim rbindE) (simp add: u_add_Inr_iff)

lemma addTotals_facts:
  assumes "addLiquidationValuesToTotals t v = Inr t'"
  shows "totalDebtToOffset t' = totalDebtToOffset t + debtToOffset v"
    and "totalDebtInSequence t' = totalDebtInSequence t + entireTroveDebt v"
    and "totalCollInSequence t' = totalCollInSequence t + entireTroveColl v"
    and "totals_ok t \<Longrightarrow> vals_ok U v \<Longrightarrow> totals_ok t'"
proof -
  note t' = addTotals_sums[OF assms]
  show "totalDebtToOffset t' = totalDebtToOffset t + debtToOffset v"
    "totalDebtInSequence t' = totalDebtInSequence t + entireTroveDebt v"
    "totalCollInSequence t' = totalCollInSequence t + entireTroveColl v" by (simp_all add: t')
  show "totals_ok t'" if "totals_ok t" and v: "vals_ok U v"
    using that add_mono[of "PERCENT_DIVISOR * totalCollGasCompensation t" "totalCollInSequence t"
        "PERCENT_DIVISOR * collGasCompensation v" "entireTroveColl v"]
    by (simp add: t' totals_ok_def vals_ok_def distrib_left)
qed

section \<open>Storage of TroveManager\<close>

text \<open>A trove that is left alone: everything but its position in the owners array stays.\<close>

definition same_trove :: "trove_manager \<Rightarrow> trove_manager \<Rightarrow> address \<Rightarrow> bool" where
  "same_trove t t' x \<longleftrightarrow> debt (Troves t' x) = debt (Troves t x) \<and> coll (Troves t' x) = coll (Troves t x) \<and>
     stake (Troves t' x) = stake (Troves t x) \<and> status (Troves t' x) = status (Troves t x) \<and>
     rewardSnapshots t' x = rewardSnapshots t x"

definition same_terms :: "trove_manager \<Rightarrow> trove_manager \<Rightarrow> bool" where
  "same_terms t t' \<longleftrightarrow> L_COLL t' = L_COLL t \<and> L_USDDDebt t' = L_USDDDebt t \<and>
     lastETHError_Redistribution t' = lastETHError_Redistribution t \<and>
     lastUSDDDebtError_Redistribution t' = lastUSDDDebtError_Redistribution t"

lemma same_trove_refl [simp]: "same_trove t t x"
  by (simp add: same_trove_def)

lemma same_trove_trans: "same_trove t t' x \<Longrightarrow> same_trove t' t'' x \<Longrightarrow> same_trove t t'' x"
  by (simp add: same_trove_def)

lemma same_terms_refl [simp]: "same_terms t t"
  by (simp add: same_terms_def)

lemma same_terms_trans: "same_terms t t' \<Longrightarrow> same_terms t' t'' \<Longrightarrow> same_terms t t''"
  by (simp add: same_terms_def)

lemma same_trove_ICR:
  assumes "same_trove t t' x" and "same_terms t t'"
  shows "getCurrentICR t' x p = getCurrentICR t x p"
  using assms
  by (simp add: getCurrentICR_def getCurrentTroveAmounts_def getPendingCollReward_def
      getPendingUSDDDebtReward_def pendingReward_def same_trove_def same_terms_def cong: if_cong)

lemma removeTroveOwner_facts:
  assumes "removeTroveOwner b len t = Inr t'"
  shows "same_trove t t' x" and "same_terms t t'" and "totalStakes t' = totalStakes t"
  using assms
  by (auto simp: removeTroveOwner_def rbind_Inr_iff upd_trove_def same_trove_def same_terms_def Let_def)

text \<open>
  The owners array lists exactly the active troves, each once, with its position stored in the trove; \<open>n\<close> bounds
  its length.
\<close>

definition owners_ok :: "nat \<Rightarrow> trove_manager \<Rightarrow> bool" where
  "owners_ok n t \<longleftrightarrow> owners_inv t \<and> set (TroveOwners t) = {b. status (Troves t b) = active} \<and> length (TroveOwners t) \<le> n"

lemma owners_ok_same:
  assumes "TroveOwners t' = TroveOwners t"
    and "\<And>b. arrayIndex (Troves t' b) = arrayIndex (Troves t b) \<and> status (Troves t' b) = status (Troves t b)"
  shows "owners_ok n t' \<longleftrightarrow> owners_ok n t"
  using assms by (simp add: owners_ok_def owners_inv_def)

lemma removeTroveOwner_owners:
  assumes "removeTroveOwner b (length (TroveOwners t)) t = Inr t'" and "owners_inv t" and "length (TroveOwners t) \<le> n"
    and "set (TroveOwners t) = insert b {x. status (Troves t x) = active}"
    and "status (Troves t b) \<noteq> nonExistent" and "status (Troves t b) \<noteq> active"
  shows "owners_ok n t'"
proof -
  from removeTroveOwner_ok[OF assms(2) _ assms(5,6)] assms(1,4) have "owners_inv t'"
    "set (TroveOwners t') = set (TroveOwners t) - {b}" "length (TroveOwners t') = length (TroveOwners t) - 1" by auto
  moreover have "status (Troves t' x) = status (Troves t x)" for x
    using removeTroveOwner_facts(1)[OF assms(1)] by (simp add: same_trove_def)
  ultimately show ?thesis using assms(3,4,6) by (auto simp: owners_ok_def)
qed

text \<open>The reserve part of the world: what the pools and the token record.\<close>

definition same_books :: "'x lq_world \<Rightarrow> 'x lq_world \<Rightarrow> bool" where
  "same_books w w' \<longleftrightarrow> pool (sysw w') = pool (sysw w) \<and> cs_COLL (cspool w') = cs_COLL (cspool w) \<and>
     usdd (others (sysw w')) = usdd (others (sysw w)) \<and>
     ap_USDDDebt (apool (others (sysw w'))) + dp_USDDDebt (dpool w')
       = ap_USDDDebt (apool (others (sysw w))) + dp_USDDDebt (dpool w) \<and>
     ap_balance (apool (others (sysw w'))) + dp_balance (dpool w')
       = ap_balance (apool (others (sysw w))) + dp_balance (dpool w)"

lemma same_books_refl [simp]: "same_books w w"
  by (simp add: same_books_def)

lemma same_books_trans: "same_books w w' \<Longrightarrow> same_books w' w'' \<Longrightarrow> same_books w w''"
  by (simp add: same_books_def)

lemma movePending_facts:
  assumes "movePendingTroveRewardsToActivePool E pd pc w = Inr w'"
  shows "tm_of w' = tm_of w" and "same_books w w'"
    and "dp_USDDDebt (dpool w) = dp_USDDDebt (dpool w') + pd" and "dp_balance (dpool w) = dp_balance (dpool w') + pc"
    and "slist (others (sysw w')) = slist (others (sysw w))"
  using assms
  by (auto simp: movePendingTroveRewardsToActivePool_def dp_decreaseUSDDDebt_def ap_increaseUSDDDebt_def
      dp_sendToActivePool_def ap_receiveColl_def rbind_Inr_iff u_Inr_iffs Let_def tm_of_def same_books_def)

lemma detach_facts:
  assumes "detach_trove E b pd pc w = Inr w'"
  shows "same_books w w'" and "dp_USDDDebt (dpool w) = dp_USDDDebt (dpool w') + pd"
    and "dp_balance (dpool w) = dp_balance (dpool w') + pc"
    and "tm_of w' = upd_trove b (\<lambda>t. t\<lparr>stake := 0\<rparr>) ((tm_of w)\<lparr>totalStakes := totalStakes (tm_of w) - stake (Troves (tm_of w) b)\<rparr>)"
    and "stake (Troves (tm_of w) b) \<le> totalStakes (tm_of w)"
    and "slist (others (sysw w')) = slist (others (sysw w))"
proof -
  from assms obtain w1 t where m: "movePendingTroveRewardsToActivePool E pd pc w = Inr w1"
    and t: "removeStake b (tm_of w1) = Inr t" and w': "w' = set_tm t w1"
    by (auto simp: detach_trove_def rbind_Inr_iff)
  note m = movePending_facts[OF m]
  show "same_books w w'" using m(2) by (simp add: w' same_books_def)
  show "slist (others (sysw w')) = slist (others (sysw w))" using m(5) by (simp add: w')
  show "dp_USDDDebt (dpool w) = dp_USDDDebt (dpool w') + pd"
    "dp_balance (dpool w) = dp_balance (dpool w') + pc" using m by (simp_all add: w')
  show "tm_of w' = upd_trove b (\<lambda>t. t\<lparr>stake := 0\<rparr>) ((tm_of w)\<lparr>totalStakes := totalStakes (tm_of w) - stake (Troves (tm_of w) b)\<rparr>)"
    "stake (Troves (tm_of w) b) \<le> totalStakes (tm_of w)"
    using t m(1) by (auto simp: w' removeStake_def rbind_Inr_iff u_Inr_iffs upd_trove_def)
qed

lemma closeTrove_facts:
  assumes "closeTrove E b st w = Inr w'"
  shows "same_books w w'" and "dpool w' = dpool w" and "cspool w' = cspool w" and "same_terms (tm_of w) (tm_of w')"
    and "totalStakes (tm_of w') = totalStakes (tm_of w)"
    and "x \<noteq> b \<Longrightarrow> same_trove (tm_of w) (tm_of w') x"
    and "debt (Troves (tm_of w') b) = 0" and "coll (Troves (tm_of w') b) = 0" and "status (Troves (tm_of w') b) = st"
    and "stake (Troves (tm_of w') b) = stake (Troves (tm_of w) b)"
    and "remove_inner (slist (others (sysw w))) b = Inr (slist (others (sysw w')))"
    and "owners_ok n (tm_of w) \<Longrightarrow> status (Troves (tm_of w) b) = active \<Longrightarrow> owners_ok n (tm_of w')"
proof -
  let ?t1 = "upd_trove b (\<lambda>tr. tr\<lparr>status := st, coll := 0, debt := 0\<rparr>) (tm_of w)"
  let ?t2 = "?t1\<lparr>rewardSnapshots := (rewardSnapshots ?t1)(b := \<lparr>snap_COLL = 0, snap_USDDDebt = 0\<rparr>)\<rparr>"
  from assms obtain t3 sl where t3: "removeTroveOwner b (length (TroveOwners (tm_of w))) ?t2 = Inr t3"
    and w': "w' = set_peers ((others (sysw w))\<lparr>tmanager := t3, slist := sl\<rparr>) w"
    and sl: "remove_inner (slist (others (sysw w))) b = Inr sl" and st: "st \<noteq> nonExistent" "st \<noteq> active"
    by (auto simp: closeTrove_def remove_trove_def rbind_Inr_iff Let_def)
  have tm: "tm_of w' = t3" by (simp add: w' tm_of_def)
  note r = removeTroveOwner_facts[OF t3]
  show "same_books w w'" "dpool w' = dpool w" "cspool w' = cspool w" by (simp_all add: w' same_books_def)
  show "remove_inner (slist (others (sysw w))) b = Inr (slist (others (sysw w')))" using sl by (simp add: w')
  show "same_terms (tm_of w) (tm_of w')" "totalStakes (tm_of w') = totalStakes (tm_of w)"
    using r(2,3) by (simp_all add: tm same_terms_def upd_trove_def)
  show "x \<noteq> b \<Longrightarrow> same_trove (tm_of w) (tm_of w') x"
    using r(1)[of x] by (simp add: tm same_trove_def upd_trove_def)
  show "debt (Troves (tm_of w') b) = 0" "coll (Troves (tm_of w') b) = 0" "status (Troves (tm_of w') b) = st"
    "stake (Troves (tm_of w') b) = stake (Troves (tm_of w) b)"
    using r(1)[of b] by (simp_all add: tm same_trove_def upd_trove_def)
  show "owners_ok n (tm_of w')" if ok: "owners_ok n (tm_of w)" and a: "status (Troves (tm_of w) b) = active"
  proof -
    have rem: "removeTroveOwner b (length (TroveOwners ?t2)) ?t2 = Inr t3" using t3 by (simp add: upd_trove_def)
    have own: "owners_inv ?t2" "length (TroveOwners ?t2) \<le> n" "status (Troves ?t2 b) = st"
      "set (TroveOwners ?t2) = insert b {x. status (Troves ?t2 x) = active}"
      using ok a by (auto simp: owners_ok_def owners_inv_def upd_trove_def)
    show ?thesis unfolding tm by (rule removeTroveOwner_owners[OF rem own(1,2,4)]) (use own(3) st in auto)
  qed
qed

section \<open>One liquidation\<close>

text \<open>
  What one liquidation of \<open>b\<close> with values \<open>v\<close> does, in either mode: nothing at all, or it detaches the trove,
  moves its pending rewards to the active pool and closes it.
\<close>

definition closes_trove :: "address \<Rightarrow> LiquidationValues \<Rightarrow> 'x lq_world \<Rightarrow> 'x lq_world \<Rightarrow> bool" where
  "closes_trove b v w w' \<longleftrightarrow> same_books w w' \<and> same_terms (tm_of w) (tm_of w') \<and>
     (\<forall>x. x \<noteq> b \<longrightarrow> same_trove (tm_of w) (tm_of w') x) \<and>
     debt (Troves (tm_of w') b) = 0 \<and> coll (Troves (tm_of w') b) = 0 \<and> stake (Troves (tm_of w') b) = 0 \<and>
     status (Troves (tm_of w') b) = closedByLiquidation \<and>
     totalStakes (tm_of w') + stake (Troves (tm_of w) b) = totalStakes (tm_of w) \<and>
     remove_inner (slist (others (sysw w))) b = Inr (slist (others (sysw w'))) \<and>
     (\<forall>n. owners_ok n (tm_of w) \<and> status (Troves (tm_of w) b) = active \<longrightarrow> owners_ok n (tm_of w')) \<and>
     (\<exists>pd pc. getPendingUSDDDebtReward (tm_of w) b = Inr pd \<and> getPendingCollReward (tm_of w) b = Inr pc \<and>
        dp_USDDDebt (dpool w) = dp_USDDDebt (dpool w') + pd \<and> dp_balance (dpool w) = dp_balance (dpool w') + pc \<and>
        entireTroveDebt v = debt (Troves (tm_of w) b) + pd \<and> entireTroveColl v = coll (Troves (tm_of w) b) + pc)"

lemma getEntire_Inr:
  assumes "getEntireDebtAndColl t b = Inr (d, c, pd, pc)"
  shows "getPendingUSDDDebtReward t b = Inr pd" and "getPendingCollReward t b = Inr pc"
    and "d = debt (Troves t b) + pd" and "c = coll (Troves t b) + pc"
  using assms by (auto simp: getEntireDebtAndColl_def rbind_Inr_iff u_Inr_iffs)

lemma detach_close:
  assumes "getEntireDebtAndColl (tm_of w) b = Inr (d, c, pd, pc)"
    and "detach_trove E b pd pc w = Inr w1" and "closeTrove E b closedByLiquidation w1 = Inr w2"
    and "entireTroveDebt v = d" and "entireTroveColl v = c"
  shows "closes_trove b v w w2"
proof -
  note d = detach_facts[OF assms(2)] and cl = closeTrove_facts[OF assms(3)] and e = getEntire_Inr[OF assms(1)]
  have tm1: "same_terms (tm_of w) (tm_of w1)" "x \<noteq> b \<Longrightarrow> same_trove (tm_of w) (tm_of w1) x"
    "stake (Troves (tm_of w1) b) = 0"
    "totalStakes (tm_of w1) + stake (Troves (tm_of w) b) = totalStakes (tm_of w)" for x
    using d(4,5) by (simp_all add: upd_trove_def same_terms_def same_trove_def)
  have ow: "owners_ok n (tm_of w1) = owners_ok n (tm_of w)" "status (Troves (tm_of w1) b) = status (Troves (tm_of w) b)" for n
    by (intro owners_ok_same) (auto simp: d(4) upd_trove_def)
  show ?thesis
    using same_books_trans[OF d(1) cl(1)] same_terms_trans[OF tm1(1) cl(4)]
      same_trove_trans[OF tm1(2) cl(6)] tm1(3,4) cl(2,5,7-11) cl(12)[unfolded ow] d(2,3,6) e assms(4,5)
    by (simp add: closes_trove_def)
qed

lemma closes_trove_cspool:
  "cs_COLL cs = cs_COLL (cspool w') \<Longrightarrow> closes_trove b v w (w'\<lparr>cspool := cs\<rparr>) = closes_trove b v w w'"
  by (simp add: closes_trove_def same_books_def tm_of_def)

text \<open>A trove without debt has the largest ratio there is.\<close>

lemma low_ICR_has_debt:
  assumes "getCurrentICR t b p = Inr k" and "k < CCR" and "getEntireDebtAndColl t b = Inr (d, c, pd, pc)"
  shows "d \<noteq> 0"
  using assms by (auto simp: getCurrentICR_def getCurrentTroveAmounts_def getEntireDebtAndColl_def rbind_Inr_iff
      u_Inr_iffs computeCR_def CCR_def split: if_splits)

lemma liquidateNormalMode_facts:
  assumes "liquidateNormalMode E b U w = Inr (v, w')" and "getCurrentICR (tm_of w) b p = Inr k" and "k < CCR"
  shows "vals_ok U v" and "closes_trove b v w w'"
proof -
  from assms obtain d c pd pc w1 a e f g where
    ent: "getEntireDebtAndColl (tm_of w) b = Inr (d, c, pd, pc)" and
    det: "detach_trove E b pd pc w = Inr w1" and
    off: "getOffsetAndRedistributionVals d (c - getCollGasCompensation c) U = Inr (a, e, f, g)" and
    cl: "closeTrove E b closedByLiquidation w1 = Inr w'" and
    v: "v = zeroVals\<lparr>entireTroveDebt := d, entireTroveColl := c, collGasCompensation := getCollGasCompensation c,
            USDDGasCompensation := USDD_GAS_COMPENSATION, debtToOffset := a, collToSendToSP := e,
            debtToRedistribute := f, collToRedistribute := g\<rparr>"
    by (auto simp: liquidateNormalMode_def rbind_Inr_iff u_Inr_iffs Let_def)
  show "vals_ok U v" using offsetVals_facts[OF off] collGas_le[of c] collGas_share[of c] low_ICR_has_debt[OF assms(2,3) ent] by (auto simp: v vals_ok_def zeroVals_def)
  show "closes_trove b v w w'" by (rule detach_close[OF ent det cl]) (simp_all add: v zeroVals_def)
qed

text \<open>In recovery mode a trove with the minimum ratio is closed only below the system's ratio.\<close>

lemma liquidateRecoveryMode_facts:
  assumes "liquidateRecoveryMode E b ICR U TCR p w = Inr (v, w')" and "getCurrentICR (tm_of w) b p' = Inr ICR"
  shows "vals_ok U v" and "v = zeroVals \<and> w' = w \<or> closes_trove b v w w' \<and> (ICR < MCR \<or> ICR < TCR \<and> entireTroveDebt v \<le> U)"
proof -
  have "vals_ok U v \<and> (v = zeroVals \<and> w' = w \<or> closes_trove b v w w' \<and> (ICR < MCR \<or> ICR < TCR \<and> entireTroveDebt v \<le> U))"
  proof (cases "length (TroveOwners (tm_of w)) \<le> 1")
    case True
    with assms(1) show ?thesis by (simp add: liquidateRecoveryMode_def)
  next
    case False
    with assms obtain d c pd pc where
      ent: "getEntireDebtAndColl (tm_of w) b = Inr (d, c, pd, pc)"
      by (auto simp: liquidateRecoveryMode_def rbind_Inr_iff)
    have M: "one_hundred_pct < MCR" "MCR < CCR" by (simp_all add: one_hundred_pct_def MCR_def CCR_def)
    have d0: "ICR < MCR \<Longrightarrow> d \<noteq> 0" using low_ICR_has_debt[OF assms(2) _ ent] M(2) by simp
    consider (low) "ICR \<le> one_hundred_pct" | (mid) "one_hundred_pct < ICR" "ICR < MCR"
      | (high) "MCR \<le> ICR" "ICR < TCR" "d \<le> U" | (none) "MCR \<le> ICR" "\<not> (ICR < TCR \<and> d \<le> U)" by linarith
    then show ?thesis
    proof cases
      case low
      with assms(1) False ent M show ?thesis using collGas_le[of c] collGas_share[of c] d0
        by (auto simp: liquidateRecoveryMode_def rbind_Inr_iff u_Inr_iffs Let_def vals_ok_def zeroVals_def
            intro: detach_close[OF ent])
    next
      case mid
      with assms(1) False ent show ?thesis using collGas_le[of c] collGas_share[of c] d0
        by (auto simp: liquidateRecoveryMode_def rbind_Inr_iff u_Inr_iffs Let_def vals_ok_def zeroVals_def
            intro: detach_close[OF ent] dest!: offsetVals_facts)
    next
      case high
      with M have n: "\<not> ICR \<le> one_hundred_pct" by simp
      from assms(1) False ent high n obtain w0 t v' w2 cs where
        mv: "movePendingTroveRewardsToActivePool E pd pc w = Inr w0" and
        rs: "removeStake b (tm_of w0) = Inr t" and cap: "getCappedOffsetVals d c p = Inr v" and
        cl: "closeTrove E b closedByLiquidation (set_tm t w0) = Inr w2" and w': "w' = w2\<lparr>cspool := cs\<rparr>" and
        cs: "(if collSurplus v > 0 then cs_accountSurplus (this_tm E) b (collSurplus v) (cspool w2)
              else Inr (cspool w2)) = Inr cs"
        by (auto simp: liquidateRecoveryMode_def rbind_Inr_iff Let_def)
      have "cs_COLL cs = cs_COLL (cspool w2)"
        using cs by (auto simp: cs_accountSurplus_def rbind_Inr_iff split: if_splits)
      note closes_trove_cspool[OF this, simp]
      have "detach_trove E b pd pc w = Inr (set_tm t w0)" using mv rs by (simp add: detach_trove_def)
      from detach_close[OF ent this cl, of v] cappedVals_facts[OF cap] high show ?thesis
        by (auto simp: w' vals_ok_def)
    next
      case none
      with M have "\<not> ICR \<le> one_hundred_pct" by simp
      with assms(1) False ent none show ?thesis
        by (auto simp: liquidateRecoveryMode_def rbind_Inr_iff Let_def split: if_splits)
    qed
  qed
  then show "vals_ok U v" "v = zeroVals \<and> w' = w \<or> closes_trove b v w w' \<and> (ICR < MCR \<or> ICR < TCR \<and> entireTroveDebt v \<le> U)"
    by blast+
qed

section \<open>Sequences\<close>

text \<open>
  Closing troves one after the other, each with a ratio below \<open>B\<close> at the moment it is closed; \<open>D\<close> and \<open>C\<close> add
  up their debt and collateral.
\<close>

inductive closes_many :: "nat \<Rightarrow> nat \<Rightarrow> nat \<Rightarrow> nat \<Rightarrow> 'x lq_world \<Rightarrow> 'x lq_world \<Rightarrow> bool" for p B where
  none: "closes_many p B 0 0 w w"
| more: "getCurrentICR (tm_of w) b p = Inr k \<Longrightarrow> k < B \<Longrightarrow> closes_trove b v w w' \<Longrightarrow> closes_many p B D C w' w'' \<Longrightarrow>
    closes_many p B (entireTroveDebt v + D) (entireTroveColl v + C) w w''"

lemma closes_many_mono: "closes_many p B D C w w' \<Longrightarrow> B \<le> B' \<Longrightarrow> closes_many p B' D C w w'"
  by (induction rule: closes_many.induct) (auto intro: closes_many.intros)

lemma closes_many_books: "closes_many p B D C w w' \<Longrightarrow> same_books w w' \<and> same_terms (tm_of w) (tm_of w')"
proof (induction rule: closes_many.induct)
  case (more w b k v w' D C w'')
  then show ?case using same_books_trans[of w w' w''] same_terms_trans[of "tm_of w" "tm_of w'" "tm_of w''"]
    by (simp add: closes_trove_def)
qed simp

lemma closes_many_spares:
  "closes_many p B D C w w' \<Longrightarrow> getCurrentICR (tm_of w) x p = Inr k \<Longrightarrow> B \<le> k \<Longrightarrow> same_trove (tm_of w) (tm_of w') x"
proof (induction arbitrary: k rule: closes_many.induct)
  case (more w b kb v w' D C w'')
  then have "x \<noteq> b" by auto
  with more.hyps(3) have s: "same_trove (tm_of w) (tm_of w') x" "same_terms (tm_of w) (tm_of w')"
    by (auto simp: closes_trove_def)
  have "getCurrentICR (tm_of w') x p = Inr k" using same_trove_ICR[OF s] more.prems(1) by simp
  from same_trove_trans[OF s(1) more.IH[OF this more.prems(2)]] show ?case .
qed simp

text \<open>The result of a sequence: totals that add up, within the pool, and troves closed one by one.\<close>

definition seq_result ::
  "nat \<Rightarrow> nat \<Rightarrow> nat \<Rightarrow> LiquidationTotals \<Rightarrow> 'x lq_world \<Rightarrow> LiquidationTotals \<Rightarrow> 'x lq_world \<Rightarrow> bool" where
  "seq_result p B R t w t' w' \<longleftrightarrow> (\<exists>D C. closes_many p B D C w w' \<and>
       totalDebtInSequence t' = totalDebtInSequence t + D \<and> totalCollInSequence t' = totalCollInSequence t + C) \<and>
     (totals_ok t \<longrightarrow> totals_ok t') \<and>
     totalDebtToOffset t' \<le> totalDebtToOffset t + R"

lemma seq_result_none [simp]: "seq_result p B R t w t w"
  using closes_many.none[of p B w] by (force simp: seq_result_def)

lemma seq_result_skip:
  assumes "debtToOffset v \<le> R" and "vals_ok R v" and "addLiquidationValuesToTotals t v = Inr t1"
    and "seq_result p B (R - debtToOffset v) t1 w1 t' w'"
    and "v = zeroVals \<and> w1 = w \<or> (\<exists>b k. getCurrentICR (tm_of w) b p = Inr k \<and> k < B \<and> closes_trove b v w w1)"
  shows "seq_result p B R t w t' w'"
proof -
  note a = addTotals_facts[OF assms(3)]
  from assms(4) obtain D C where c: "closes_many p B D C w1 w'" "totalDebtInSequence t' = totalDebtInSequence t1 + D"
    "totalCollInSequence t' = totalCollInSequence t1 + C" and r: "totals_ok t1 \<Longrightarrow> totals_ok t'"
    "totalDebtToOffset t' \<le> totalDebtToOffset t1 + (R - debtToOffset v)" by (auto simp: seq_result_def)
  have "\<exists>D C. closes_many p B D C w w' \<and> totalDebtInSequence t' = totalDebtInSequence t + D \<and>
      totalCollInSequence t' = totalCollInSequence t + C"
  proof (cases "v = zeroVals \<and> w1 = w")
    case True
    with c a show ?thesis by (auto simp: zeroVals_def)
  next
    case False
    with assms(5) obtain b k where "getCurrentICR (tm_of w) b p = Inr k" "k < B" "closes_trove b v w w1" by blast
    from closes_many.more[OF this c(1)] c(2,3) a(2,3) show ?thesis by auto
  qed
  with r a(1) a(4)[OF _ assms(2)] assms(1) show ?thesis by (auto simp: seq_result_def)
qed

lemma seq_result_normal:
  assumes "liquidateNormalMode E b R w = Inr (v, w1)" and "u_sub R (debtToOffset v) = Inr R'"
    and "addLiquidationValuesToTotals t v = Inr t1" and "seq_result p B R' t1 w1 t' w'"
    and "getCurrentICR (tm_of w) b p = Inr k" and "k < B" and "B \<le> CCR"
  shows "seq_result p B R t w t' w'"
  using assms liquidateNormalMode_facts[OF assms(1,5)]
  by (intro seq_result_skip[of v R t t1]) (auto simp: u_sub_Inr_iff)

lemma seq_result_recovery:
  assumes "liquidateRecoveryMode E b k R TCR p w = Inr (v, w1)" and "u_sub R (debtToOffset v) = Inr R'"
    and "addLiquidationValuesToTotals t v = Inr t1" and "seq_result p CCR R' t1 w1 t' w'"
    and "getCurrentICR (tm_of w) b p = Inr k" and "TCR < CCR"
  shows "seq_result p CCR R t w t' w'"
proof -
  note f = liquidateRecoveryMode_facts[OF assms(1,5)]
  have "v = zeroVals \<and> w1 = w \<or> closes_trove b v w w1 \<and> k < CCR"
    using f(2) assms(6) by (auto simp: MCR_def CCR_def)
  with assms f(1) show ?thesis
    by (intro seq_result_skip[of v R t t1]) (auto simp: u_sub_Inr_iff)
qed

lemma MCR_le_CCR: "MCR \<le> CCR"
  by (simp add: MCR_def CCR_def)

lemma liquidateTroves_NormalMode_result:
  "liquidateTroves_NormalMode E p n R t w = Inr (t', w') \<Longrightarrow> seq_result p MCR R t w t' w'"
proof (induction n arbitrary: R t w)
  case (Suc n)
  then show ?case
    by (auto simp: Let_def rbind_Inr_iff split: if_splits intro: seq_result_normal MCR_le_CCR)
qed simp

lemma batchLiquidate_NormalMode_result:
  "batchLiquidate_NormalMode E p bs R t w = Inr (t', w') \<Longrightarrow> seq_result p MCR R t w t' w'"
proof (induction bs arbitrary: R t w)
  case (Cons b bs)
  then show ?case
    by (auto simp: rbind_Inr_iff split: if_splits intro: seq_result_normal MCR_le_CCR)
qed simp

lemma recovery_iff:
  "checkPotentialRecoveryMode c d p = Inr r \<longleftrightarrow> (\<exists>T. computeCR c d p = Inr T \<and> r = (T < CCR))"
  by (auto simp: checkPotentialRecoveryMode_def rbind_Inr_iff)

lemma MCR_less_CCR: "k < MCR \<Longrightarrow> k < CCR"
  by (simp add: MCR_def CCR_def)

lemma liquidateTroves_RecoveryMode_result:
  "liquidateTroves_RecoveryMode E p f n u R nm sd sc t w = Inr (t', w') \<Longrightarrow>
   nm \<or> (\<exists>T < CCR. computeCR sc sd p = Inr T) \<Longrightarrow> seq_result p CCR R t w t' w'"
proof (induction n arbitrary: u R nm sd sc t w)
  case (Suc n)
  show ?case
  proof (cases "u = f")
    case False
    with Suc.prems(1) obtain k where k: "getCurrentICR (tm_of w) u p = Inr k"
      by (auto simp: Let_def rbind_Inr_iff)
    show ?thesis
    proof (cases nm)
      case True
      with Suc False k show ?thesis
        by (auto simp: Let_def rbind_Inr_iff split: if_splits intro: seq_result_normal MCR_less_CCR order_refl)
    next
      case nb: False
      with Suc.prems(2) obtain T where T: "T < CCR" "computeCR sc sd p = Inr T" by auto
      show ?thesis
      proof (cases "MCR \<le> k \<and> R = 0")
        case True
        with nb Suc.prems(1) False k show ?thesis by (simp add: Let_def)
      next
        case go: False
        let ?next = "getPrev (slist (others (sysw w))) u"
        from go nb Suc.prems(1) False k T obtain v w1 R1 sd1 sc1 t1 T1 where
          lr: "liquidateRecoveryMode E u k R T p w = Inr (v, w1)" and rs: "u_sub R (debtToOffset v) = Inr R1" and
          ad: "addLiquidationValuesToTotals t v = Inr t1" and cr: "computeCR sc1 sd1 p = Inr T1" and
          rec: "liquidateTroves_RecoveryMode E p f n ?next R1 (\<not> T1 < CCR) sd1 sc1 t1 w1 = Inr (t', w')"
          by (auto simp: Let_def rbind_Inr_iff recovery_iff)
        show ?thesis
          by (rule seq_result_recovery[OF lr rs ad Suc.IH[OF rec] k T(1)]) (use cr in auto)
      qed
    qed
  qed (use Suc.prems in simp)
qed simp

lemma batchLiquidate_RecoveryMode_result:
  "batchLiquidate_RecoveryMode E p bs R nm sd sc t w = Inr (t', w') \<Longrightarrow>
   nm \<or> (\<exists>T < CCR. computeCR sc sd p = Inr T) \<Longrightarrow> seq_result p CCR R t w t' w'"
proof (induction bs arbitrary: R nm sd sc t w)
  case (Cons b bs)
  show ?case
  proof (cases "status (Troves (tm_of w) b) = active")
    case True
    with Cons.prems(1) obtain k where k: "getCurrentICR (tm_of w) b p = Inr k"
      by (auto simp: rbind_Inr_iff)
    show ?thesis
    proof (cases nm)
      case bk: True
      with Cons True k show ?thesis
        by (auto simp: rbind_Inr_iff split: if_splits intro: seq_result_normal MCR_less_CCR order_refl)
    next
      case nb: False
      with Cons.prems(2) obtain T where T: "T < CCR" "computeCR sc sd p = Inr T" by auto
      show ?thesis
      proof (cases "MCR \<le> k \<and> R = 0")
        case skip: True
        with nb Cons.prems(1) True k have
          "batchLiquidate_RecoveryMode E p bs R nm sd sc t w = Inr (t', w')" by simp
        then show ?thesis by (rule Cons.IH) (use Cons.prems(2) in simp)
      next
        case go: False
        from go nb Cons.prems(1) True k T obtain v w1 R1 sd1 sc1 t1 T1 where
          lr: "liquidateRecoveryMode E b k R T p w = Inr (v, w1)" and rs: "u_sub R (debtToOffset v) = Inr R1" and
          ad: "addLiquidationValuesToTotals t v = Inr t1" and cr: "computeCR sc1 sd1 p = Inr T1" and
          rec: "batchLiquidate_RecoveryMode E p bs R1 (\<not> T1 < CCR) sd1 sc1 t1 w1 = Inr (t', w')"
          by (auto simp: rbind_Inr_iff recovery_iff)
        show ?thesis
          by (rule seq_result_recovery[OF lr rs ad Cons.IH[OF rec] k T(1)]) (use cr in auto)
      qed
    qed
  next
    case False
    with Cons.prems show ?thesis by (auto intro: Cons.IH)
  qed
qed simp

end
