(* ===== verification/Liquidation_Calls.thy ===== *)
theory Liquidation_Calls
  imports Liquidation_Laws Reward_Pot
begin

text \<open>
  Whole liquidation calls: what happens after the sequence (the offset against the Stability Pool, the
  redistribution, the surplus, the snapshots and the compensation), and the three external functions as
  one kind of call.  On top of them: the accounting of a call, the troves it spares, and the reserve of the
  default pool.
\<close>

section \<open>The offset\<close>

definition sys_debt :: "'x lq_world \<Rightarrow> nat" where
  "sys_debt w = ap_USDDDebt (apool (others (sysw w))) + dp_USDDDebt (dpool w)"

definition sys_coll :: "'x lq_world \<Rightarrow> nat" where
  "sys_coll w = ap_balance (apool (others (sysw w))) + dp_balance (dpool w)"

definition usdd_supply :: "'x lq_world \<Rightarrow> nat" where
  "usdd_supply w = usdd_totalSupply (usdd (others (sysw w)))"

definition sp_deposits :: "'x lq_world \<Rightarrow> nat" where
  "sp_deposits w = totalUSDDDeposits (pool (sysw w))"

lemma updateG_COLL: "updateG n s = Inr s' \<Longrightarrow> sp_COLL s' = sp_COLL s"
  by (auto simp: updateG_def computeDEFTPerUnitStaked_def rbind_Inr_iff split: if_splits)

lemma trigger_frame:
  assumes "triggerDEFTIssuance E now w = Inr w'"
  shows "sp_COLL (pool w') = sp_COLL (pool w) \<and> totalUSDDDeposits (pool w') = totalUSDDDeposits (pool w) \<and>
    usdd (others w') = usdd (others w) \<and> apool (others w') = apool (others w) \<and>
    tmanager (others w') = tmanager (others w) \<and> slist (others w') = slist (others w)"
  using assms trigger_total[OF assms]
  by (auto simp: triggerDEFTIssuance_def rbind_Inr_iff updateG_COLL)

lemma computeRewards_frame:
  "computeRewardsPerUnitStaked c D T s = Inr (r, s') \<Longrightarrow> sp_COLL s' = sp_COLL s \<and> totalUSDDDeposits s' = totalUSDDDeposits s"
  by (auto simp: computeRewardsPerUnitStaked_def rbind_Inr_iff split: if_splits)

lemma updateReward_frame:
  assumes "updateRewardSumAndProduct g l s = Inr s'"
  shows "sp_COLL s' = sp_COLL s \<and> totalUSDDDeposits s' = totalUSDDDeposits s"
proof -
  let ?keeps = "\<lambda>s2. sp_COLL s2 = sp_COLL s \<and> totalUSDDDeposits s2 = totalUSDDDeposits s"
  from assms obtain f n newP s2 where
    "(let s1 = s\<lparr>epochToScaleToSum := n\<rparr> in
      if f = 0 then rbind (u128_add (currentEpoch s) 1) (\<lambda>e.
        Inr (DECIMAL_PRECISION, s1\<lparr>currentEpoch := e, currentScale := 0\<rparr>))
      else rbind (u_mul (product_P s) f) (\<lambda>m. rbind (u_div m DECIMAL_PRECISION) (\<lambda>q.
        if q < SCALE_FACTOR then rbind (u_mul m SCALE_FACTOR) (\<lambda>m2. rbind (u_div m2 DECIMAL_PRECISION) (\<lambda>newP.
          rbind (u128_add (currentScale s) 1) (\<lambda>c. Inr (newP, s1\<lparr>currentScale := c\<rparr>))))
        else Inr (q, s1)))) = Inr (newP, s2)" and s': "s' = s2\<lparr>product_P := newP\<rparr>"
    unfolding updateRewardSumAndProduct_def Let_def by (elim rbindE) (auto elim!: rbindE)
  then have "?keeps s2" unfolding Let_def by (auto elim!: rbindE split: if_split_asm)
  with s' show ?thesis by simp
qed

lemma ap_sendColl_facts:
  assumes "ap_sendColl E a b n p = Inr p'"
  shows "usdd p' = usdd p \<and> tmanager p' = tmanager p \<and> slist p' = slist p \<and>
    ap_USDDDebt (apool p') = ap_USDDDebt (apool p) \<and> ap_balance (apool p') + n = ap_balance (apool p)"
  using assms by (auto simp: ap_sendColl_def rbind_Inr_iff u_Inr_iffs)

lemma moveOffset_frame:
  assumes "moveOffsetCollAndDebt E c D w = Inr w'"
  shows "sp_COLL (pool w') = sp_COLL (pool w) + c \<and> totalUSDDDeposits (pool w') + D = totalUSDDDeposits (pool w) \<and>
    usdd_totalSupply (usdd (others w')) + D = usdd_totalSupply (usdd (others w)) \<and>
    ap_USDDDebt (apool (others w')) + D = ap_USDDDebt (apool (others w)) \<and>
    ap_balance (apool (others w')) + c = ap_balance (apool (others w)) \<and>
    tmanager (others w') = tmanager (others w) \<and> slist (others w') = slist (others w)"
proof -
  from assms obtain a s u p c' where
    a: "ap_decreaseUSDDDebt (this_sp E) D (apool (others w)) = Inr a" and
    s: "decreaseUSDD D (pool w) = Inr s" and u: "usdd_burn (this_sp E) (this_sp E) D (usdd (others w)) = Inr u" and
    p: "ap_sendColl E (this_sp E) (this_sp E) c ((others w)\<lparr>apool := a, usdd := u\<rparr>) = Inr p" and
    c': "u_add (sp_COLL s) c = Inr c'" and w': "w' = w\<lparr>pool := s\<lparr>sp_COLL := c'\<rparr>, others := p\<rparr>"
    by (auto simp: moveOffsetCollAndDebt_def rbind_Inr_iff)
  have "ap_USDDDebt a + D = ap_USDDDebt (apool (others w)) \<and> ap_balance a = ap_balance (apool (others w))"
    using a by (auto simp: ap_decreaseUSDDDebt_def rbind_Inr_iff u_Inr_iffs)
  moreover have "totalUSDDDeposits s + D = totalUSDDDeposits (pool w) \<and> sp_COLL s = sp_COLL (pool w)"
    using s by (auto simp: decreaseUSDD_def rbind_Inr_iff u_Inr_iffs)
  moreover have "usdd_totalSupply u + D = usdd_totalSupply (usdd (others w))"
    using u by (auto simp: usdd_burn_def usdd_internal_burn_Inr_iff rbind_Inr_iff u_Inr_iffs)
  moreover have "c' = sp_COLL s + c" using c' by (simp add: u_Inr_iffs)
  ultimately show ?thesis using ap_sendColl_facts[OF p] by (simp add: w')
qed

lemma offset_frame:
  assumes "offset E now sender D c w = Inr w'" and "D \<le> totalUSDDDeposits (pool w)" and "D = 0 \<longrightarrow> c = 0"
  shows "sp_COLL (pool w') = sp_COLL (pool w) + c \<and> totalUSDDDeposits (pool w') + D = totalUSDDDeposits (pool w) \<and>
    usdd_totalSupply (usdd (others w')) + D = usdd_totalSupply (usdd (others w)) \<and>
    ap_USDDDebt (apool (others w')) + D = ap_USDDDebt (apool (others w)) \<and>
    ap_balance (apool (others w')) + c = ap_balance (apool (others w)) \<and>
    tmanager (others w') = tmanager (others w) \<and> slist (others w') = slist (others w)"
proof (cases "totalUSDDDeposits (pool w) = 0 \<or> D = 0")
  case True
  with assms show ?thesis by (auto simp: offset_def rbind_Inr_iff)
next
  case False
  with assms obtain w1 r s2 s3 where t: "triggerDEFTIssuance E now w = Inr w1" and
    r: "computeRewardsPerUnitStaked c D (totalUSDDDeposits (pool w)) (pool w1) = Inr (r, s2)" and
    u: "updateRewardSumAndProduct (fst r) (snd r) s2 = Inr s3" and
    m: "moveOffsetCollAndDebt E c D (w1\<lparr>pool := s3\<rparr>) = Inr w'"
    by (auto simp: offset_def rbind_Inr_iff)
  show ?thesis
    using moveOffset_frame[OF m] trigger_frame[OF t] computeRewards_frame[OF r] updateReward_frame[OF u] by simp
qed

section \<open>The redistribution\<close>

lemma fed_backI:
  assumes "u_div n S = Inr r" and "u_mul r S = Inr m" and "u_sub n m = Inr e" and "u_add L r = Inr L'"
    and "n = amount * DECIMAL_PRECISION + err"
  shows "fed_back S amount L err L' e"
  using assms by (auto simp: fed_back_def u_Inr_iffs minus_mod_eq_div_mult[symmetric])

lemma dp_receiveColl_facts:
  assumes "dp_receiveColl E a n w = Inr w'"
  shows "\<exists>x. w' = set_peers ((others (sysw w))\<lparr>ext := x\<rparr>) (w\<lparr>dpool := (dpool w)\<lparr>dp_balance := dp_balance (dpool w) + n\<rparr>\<rparr>)"
  using assms by (auto simp: dp_receiveColl_def rbind_Inr_iff u_Inr_iffs)

text \<open>What the redistribution does to the storage: nothing when there is no debt to redistribute.\<close>

definition redistributed :: "nat \<Rightarrow> nat \<Rightarrow> 'x lq_world \<Rightarrow> 'x lq_world \<Rightarrow> bool" where
  "redistributed d c w w' \<longleftrightarrow> pool (sysw w') = pool (sysw w) \<and> usdd (others (sysw w')) = usdd (others (sysw w)) \<and>
     cspool w' = cspool w \<and> sys_debt w' = sys_debt w \<and> sys_coll w' = sys_coll w \<and>
     slist (others (sysw w')) = slist (others (sysw w)) \<and> Troves (tm_of w') = Troves (tm_of w) \<and> rewardSnapshots (tm_of w') = rewardSnapshots (tm_of w) \<and>
     TroveOwners (tm_of w') = TroveOwners (tm_of w) \<and> totalStakes (tm_of w') = totalStakes (tm_of w) \<and>
     dp_USDDDebt (dpool w') = dp_USDDDebt (dpool w) + d \<and> dp_balance (dpool w') = dp_balance (dpool w) + c \<and>
     fed_back (totalStakes (tm_of w)) d (L_USDDDebt (tm_of w)) (lastUSDDDebtError_Redistribution (tm_of w))
       (L_USDDDebt (tm_of w')) (lastUSDDDebtError_Redistribution (tm_of w')) \<and>
     fed_back (totalStakes (tm_of w)) c (L_COLL (tm_of w)) (lastETHError_Redistribution (tm_of w))
       (L_COLL (tm_of w')) (lastETHError_Redistribution (tm_of w'))"

lemma redistribute_facts:
  assumes "redistributeDebtAndColl E d c w = Inr w'"
  shows "w' = w \<and> d = 0 \<or> redistributed d c w w'"
proof (cases "d = 0")
  case True
  with assms show ?thesis by (simp add: redistributeDebtAndColl_def)
next
  case False
  let ?t = "tm_of w" and ?S = "totalStakes (tm_of w)"
  from assms False obtain n1 n2 r1 r2 m3 m4 e1 e2 lc ld a dp p where
    n1: "n1 = c * DECIMAL_PRECISION + lastETHError_Redistribution ?t" and
    n2: "n2 = d * DECIMAL_PRECISION + lastUSDDDebtError_Redistribution ?t" and
    f1: "u_div n1 ?S = Inr r1" "u_mul r1 ?S = Inr m3" "u_sub n1 m3 = Inr e1" "u_add (L_COLL ?t) r1 = Inr lc" and
    f2: "u_div n2 ?S = Inr r2" "u_mul r2 ?S = Inr m4" "u_sub n2 m4 = Inr e2" "u_add (L_USDDDebt ?t) r2 = Inr ld" and
    a: "ap_decreaseUSDDDebt (this_tm E) d (apool (others (sysw w))) = Inr a" and
    dp: "dp_increaseUSDDDebt (this_tm E) d (dpool w) = Inr dp" and
    p: "ap_sendColl (spe E) (this_tm E) (this_tm E) c ((others (sysw w))\<lparr>tmanager := ?t\<lparr>lastETHError_Redistribution := e1,
      lastUSDDDebtError_Redistribution := e2, L_COLL := lc, L_USDDDebt := ld\<rparr>, apool := a\<rparr>) = Inr p" and
    w': "dp_receiveColl E (this_tm E) c (set_peers p (set_tm (?t\<lparr>lastETHError_Redistribution := e1,
      lastUSDDDebtError_Redistribution := e2, L_COLL := lc, L_USDDDebt := ld\<rparr>) w\<lparr>dpool := dp\<rparr>)) = Inr w'"
    by (auto simp: redistributeDebtAndColl_def rbind_Inr_iff Let_def u_add_Inr_iff[of _ _ n1 for n1] u_mul_Inr_iff)
  have "ap_USDDDebt a + d = ap_USDDDebt (apool (others (sysw w))) \<and> ap_balance a = ap_balance (apool (others (sysw w)))"
    using a by (auto simp: ap_decreaseUSDDDebt_def rbind_Inr_iff u_Inr_iffs)
  moreover have "dp_USDDDebt dp = dp_USDDDebt (dpool w) + d \<and> dp_balance dp = dp_balance (dpool w)"
    using dp by (auto simp: dp_increaseUSDDDebt_def rbind_Inr_iff u_Inr_iffs)
  moreover note ap_sendColl_facts[OF p] fed_backI[OF f1 n1] fed_backI[OF f2 n2] dp_receiveColl_facts[OF w']
  ultimately show ?thesis
    by (auto simp: redistributed_def sys_debt_def sys_coll_def tm_of_def)
qed

section \<open>After the sequence\<close>

text \<open>The surplus leaves the active pool for the surplus pool.\<close>

lemma surplus_facts:
  assumes "(if n > 0 then rbind (ap_sendColl (spe E) (this_tm E) (this_tm E) n (others (sysw w)))
              (\<lambda>p. cs_receiveColl E (this_tm E) n (set_peers p w)) else Inr w) = Inr w'"
  shows "tm_of w' = tm_of w \<and> dpool w' = dpool w \<and> pool (sysw w') = pool (sysw w) \<and>
    usdd (others (sysw w')) = usdd (others (sysw w)) \<and> sys_debt w' = sys_debt w \<and>
    slist (others (sysw w')) = slist (others (sysw w)) \<and> sys_coll w' + n = sys_coll w \<and> cs_COLL (cspool w') = cs_COLL (cspool w) + n"
proof (cases "n > 0")
  case True
  with assms obtain p x where p: "ap_sendColl (spe E) (this_tm E) (this_tm E) n (others (sysw w)) = Inr p"
    and w': "w' = set_peers (p\<lparr>ext := x\<rparr>) (set_peers p w\<lparr>cspool := (cspool w)\<lparr>cs_COLL := cs_COLL (cspool w) + n\<rparr>\<rparr>)"
    by (auto simp: cs_receiveColl_def rbind_Inr_iff u_Inr_iffs)
  show ?thesis using ap_sendColl_facts[OF p] by (simp add: w' tm_of_def sys_debt_def sys_coll_def)
qed (use assms in simp)

lemma snapshots_facts:
  assumes "updateSystemSnapshots_excludeCollRemainder n w = Inr w'"
  shows "\<exists>s c. w' = set_tm ((tm_of w)\<lparr>totalStakesSnapshot := s, totalCollateralSnapshot := c\<rparr>) w"
  using assms by (auto simp: updateSystemSnapshots_excludeCollRemainder_def rbind_Inr_iff Let_def)

lemma returnFromPool_supply:
  "usdd_returnFromPool s p r n u = Inr u' \<Longrightarrow> usdd_totalSupply u' = usdd_totalSupply u"
  by (auto simp: usdd_returnFromPool_def usdd_internal_transfer_def rbind_Inr_iff)

lemma gas_facts:
  assumes "sendGasCompensation E l u c w = Inr w'"
  shows "tm_of w' = tm_of w \<and> dpool w' = dpool w \<and> pool (sysw w') = pool (sysw w) \<and> cspool w' = cspool w \<and>
    usdd_supply w' = usdd_supply w \<and> sys_debt w' = sys_debt w \<and> sys_coll w' + c = sys_coll w \<and>
    slist (others (sysw w')) = slist (others (sysw w))"
proof -
  from assms obtain p p' where
    p: "(if u > 0 then rbind (usdd_returnFromPool (this_tm E) (gasPool_address E) l u (usdd (others (sysw w))))
           (\<lambda>u. Inr ((others (sysw w))\<lparr>usdd := u\<rparr>)) else Inr (others (sysw w))) = Inr p" and
    p': "(if c > 0 then ap_sendColl (spe E) (this_tm E) l c p else Inr p) = Inr p'" and w': "w' = set_peers p' w"
    by (auto simp: sendGasCompensation_def rbind_Inr_iff)
  have "apool p = apool (others (sysw w)) \<and> tmanager p = tmanager (others (sysw w)) \<and> slist p = slist (others (sysw w)) \<and>
      usdd_totalSupply (usdd p) = usdd_totalSupply (usdd (others (sysw w)))"
    using p by (auto simp: rbind_Inr_iff returnFromPool_supply split: if_splits)
  moreover have "ap_USDDDebt (apool p') = ap_USDDDebt (apool p) \<and> ap_balance (apool p') + c = ap_balance (apool p) \<and>
      tmanager p' = tmanager p \<and> usdd p' = usdd p \<and> slist p' = slist p"
    using p' by (auto split: if_splits dest: ap_sendColl_facts)
  ultimately show ?thesis by (simp add: w' tm_of_def sys_debt_def sys_coll_def usdd_supply_def)
qed

lemma redistribute_books:
  assumes "redistributeDebtAndColl E d c w = Inr w'"
  shows "sys_debt w' = sys_debt w \<and> sys_coll w' = sys_coll w \<and> pool (sysw w') = pool (sysw w) \<and>
    usdd (others (sysw w')) = usdd (others (sysw w)) \<and> cspool w' = cspool w \<and> slist (others (sysw w')) = slist (others (sysw w)) \<and>
    Troves (tm_of w') = Troves (tm_of w) \<and> rewardSnapshots (tm_of w') = rewardSnapshots (tm_of w) \<and>
    TroveOwners (tm_of w') = TroveOwners (tm_of w)"
  using redistribute_facts[OF assms] by (auto simp: redistributed_def)

text \<open>Where debt, tokens and collateral are after the sequence.\<close>

definition settled :: "LiquidationTotals \<Rightarrow> 'x lq_world \<Rightarrow> 'x lq_world \<Rightarrow> bool" where
  "settled t w w' \<longleftrightarrow> sys_debt w' + totalDebtToOffset t = sys_debt w \<and>
     usdd_supply w' + totalDebtToOffset t = usdd_supply w \<and>
     sp_deposits w' + totalDebtToOffset t = sp_deposits w \<and>
     sys_coll w' + totalCollToSendToSP t + totalCollSurplus t + totalCollGasCompensation t = sys_coll w \<and>
     sp_COLL (pool (sysw w')) = sp_COLL (pool (sysw w)) + totalCollToSendToSP t \<and>
     cs_COLL (cspool w') = cs_COLL (cspool w) + totalCollSurplus t \<and>
     slist (others (sysw w')) = slist (others (sysw w)) \<and>
     Troves (tm_of w') = Troves (tm_of w) \<and> rewardSnapshots (tm_of w') = rewardSnapshots (tm_of w) \<and>
     TroveOwners (tm_of w') = TroveOwners (tm_of w)"

lemma finish_facts:
  fixes w w' :: "'x lq_world"
  assumes "finish_liquidation E now l t w = Inr w'" and "totals_ok t" and "totalDebtToOffset t \<le> sp_deposits w"
  obtains w1 w2 :: "'x lq_world" where "settled t w w'"
    and "w1 = w2 \<and> totalDebtToRedistribute t = 0 \<or>
         redistributed (totalDebtToRedistribute t) (totalCollToRedistribute t) w1 w2"
    and "tm_of w1 = tm_of w" and "dpool w1 = dpool w" and "dpool w' = dpool w2"
    and "\<exists>s c. tm_of w' = (tm_of w2)\<lparr>totalStakesSnapshot := s, totalCollateralSnapshot := c\<rparr>"
proof -
  let ?D = "totalDebtToOffset t" and ?C = "totalCollToSendToSP t"
  from assms(1) obtain sw w2 w3 w4 where
    o: "offset (spe E) now (this_tm E) ?D ?C (sysw w) = Inr sw" and
    r: "redistributeDebtAndColl E (totalDebtToRedistribute t) (totalCollToRedistribute t) (w\<lparr>sysw := sw\<rparr>) = Inr w2" and
    s: "(if totalCollSurplus t > 0 then rbind (ap_sendColl (spe E) (this_tm E) (this_tm E) (totalCollSurplus t)
           (others (sysw w2))) (\<lambda>p. cs_receiveColl E (this_tm E) (totalCollSurplus t) (set_peers p w2)) else Inr w2) = Inr w3" and
    u: "updateSystemSnapshots_excludeCollRemainder (totalCollGasCompensation t) w3 = Inr w4" and
    g: "sendGasCompensation E l (totalUSDDGasCompensation t) (totalCollGasCompensation t) w4 = Inr w'"
    unfolding finish_liquidation_def by (auto elim!: rbindE)
  have D: "?D \<le> totalUSDDDeposits (pool (sysw w))" "?D = 0 \<longrightarrow> ?C = 0"
    using assms(2,3) by (simp_all add: sp_deposits_def totals_ok_def)
  note of = offset_frame[OF o D] and rf = redistribute_books[OF r] and sf = surplus_facts[OF s] and gf = gas_facts[OF g]
  from snapshots_facts[OF u] obtain st c where w4: "w4 = set_tm ((tm_of w3)\<lparr>totalStakesSnapshot := st, totalCollateralSnapshot := c\<rparr>) w3"
    by blast
  have tm: "tm_of (w\<lparr>sysw := sw\<rparr>) = tm_of w" using of by (simp add: tm_of_def)
  have "settled t w w'"
    using of rf sf gf tm by (auto simp: settled_def w4 sys_debt_def sys_coll_def usdd_supply_def sp_deposits_def tm_of_def)
  moreover have "tm_of w' = (tm_of w2)\<lparr>totalStakesSnapshot := st, totalCollateralSnapshot := c\<rparr>"
    using sf gf by (simp add: w4)
  moreover have "dpool w' = dpool w2" using sf gf by (simp add: w4)
  moreover have "w\<lparr>sysw := sw\<rparr> = w2 \<and> totalDebtToRedistribute t = 0 \<or>
      redistributed (totalDebtToRedistribute t) (totalCollToRedistribute t) (w\<lparr>sysw := sw\<rparr>) w2"
    using redistribute_facts[OF r] by blast
  moreover note tm
  moreover have "dpool (w\<lparr>sysw := sw\<rparr>) = dpool w" by simp
  ultimately show thesis using that by blast
qed

section \<open>The external calls\<close>

text \<open>The three liquidation functions as one type of call; the first argument is the liquidator.\<close>

datatype liq_call = LiquidateTroves address nat | BatchLiquidate address "address list" | Liquidate address address

fun liq_exec :: "'x lq_env \<Rightarrow> nat \<Rightarrow> address \<Rightarrow> liq_call \<Rightarrow> 'x lq_world \<Rightarrow> 'x lq_world res" where
  "liq_exec E now sender (LiquidateTroves l n) w = liquidateTroves E now sender l n w"
| "liq_exec E now sender (BatchLiquidate l bs) w = batchLiquidateTroves E now sender l bs w"
| "liq_exec E now sender (Liquidate l b) w = liquidate E now sender l b w"

text \<open>The largest ratio at which a call in this mode closes a trove.\<close>

definition liq_bound :: "bool \<Rightarrow> nat" where
  "liq_bound recovery = (if recovery then CCR else MCR)"

lemma liq_bound_le [simp]: "liq_bound r \<le> CCR"
  by (simp add: liq_bound_def MCR_le_CCR)

lemma checkRecovery_TCR:
  assumes "checkRecoveryMode_sol p w = Inr True" and "getEntireSystemDebt w = Inr d" and "getEntireSystemColl w = Inr c"
  shows "\<exists>T < CCR. computeCR c d p = Inr T"
  using assms by (auto simp: checkRecoveryMode_sol_def getTCR_sol_def rbind_Inr_iff)

lemma fetch_price_facts:
  assumes "fetch_price E w = Inr (p, w0)"
  shows "tm_of w0 = tm_of w \<and> pool (sysw w0) = pool (sysw w) \<and> dpool w0 = dpool w \<and> cspool w0 = cspool w \<and>
    usdd (others (sysw w0)) = usdd (others (sysw w)) \<and> apool (others (sysw w0)) = apool (others (sysw w)) \<and>
    slist (others (sysw w0)) = slist (others (sysw w))"
  using assms by (auto simp: fetch_price_def rbind_Inr_iff tm_of_def)

text \<open>Every successful call is a price, a sequence of closings below the mode's bound, and the settlement.\<close>

lemma batch_seq:
  assumes "batchLiquidateTroves E now sender l bs w = Inr w'"
  obtains p w0 r t w1 where "fetch_price E w = Inr (p, w0)" and "checkRecoveryMode_sol p w0 = Inr r"
    and "seq_result p (liq_bound r) (sp_deposits w0) zeroTotals w0 t w1"
    and "finish_liquidation E now l t w1 = Inr w'"
proof -
  from assms obtain p w0 r t w1 where f: "fetch_price E w = Inr (p, w0)" and r: "checkRecoveryMode_sol p w0 = Inr r" and
    s: "(if r then rbind (getEntireSystemDebt w0) (\<lambda>d. rbind (getEntireSystemColl w0) (\<lambda>c.
              batchLiquidate_RecoveryMode E p bs (totalUSDDDeposits (pool (sysw w0))) False d c zeroTotals w0))
         else batchLiquidate_NormalMode E p bs (totalUSDDDeposits (pool (sysw w0))) zeroTotals w0) = Inr (t, w1)" and
    g: "finish_liquidation E now l t w1 = Inr w'"
    unfolding batchLiquidateTroves_def Let_def by (auto elim!: rbindE)
  have "seq_result p (liq_bound r) (sp_deposits w0) zeroTotals w0 t w1"
  proof (cases r)
    case True
    with s r show ?thesis
      by (auto elim!: rbindE intro!: batchLiquidate_RecoveryMode_result checkRecovery_TCR simp: sp_deposits_def liq_bound_def)
  next
    case False
    with s show ?thesis by (simp add: batchLiquidate_NormalMode_result sp_deposits_def liq_bound_def)
  qed
  with f r g show thesis using that by blast
qed

lemma walk_seq:
  assumes "liquidateTroves E now sender l n w = Inr w'"
  obtains p w0 r t w1 where "fetch_price E w = Inr (p, w0)" and "checkRecoveryMode_sol p w0 = Inr r"
    and "seq_result p (liq_bound r) (sp_deposits w0) zeroTotals w0 t w1"
    and "finish_liquidation E now l t w1 = Inr w'"
proof -
  from assms obtain p w0 r t w1 where f: "fetch_price E w = Inr (p, w0)" and r: "checkRecoveryMode_sol p w0 = Inr r" and
    s: "(if r then rbind (getEntireSystemDebt w0) (\<lambda>d. rbind (getEntireSystemColl w0) (\<lambda>c.
              liquidateTroves_RecoveryMode E p (head (slist (others (sysw w0)))) n
                (tail (slist (others (sysw w0)))) (totalUSDDDeposits (pool (sysw w0))) False d c zeroTotals w0))
         else liquidateTroves_NormalMode E p n (totalUSDDDeposits (pool (sysw w0))) zeroTotals w0) = Inr (t, w1)" and
    g: "finish_liquidation E now l t w1 = Inr w'"
    unfolding liquidateTroves_def Let_def by (auto elim!: rbindE)
  have "seq_result p (liq_bound r) (sp_deposits w0) zeroTotals w0 t w1"
  proof (cases r)
    case True
    with s r show ?thesis
      by (auto elim!: rbindE intro!: liquidateTroves_RecoveryMode_result checkRecovery_TCR simp: sp_deposits_def liq_bound_def)
  next
    case False
    with s show ?thesis by (simp add: liquidateTroves_NormalMode_result sp_deposits_def liq_bound_def)
  qed
  with f r g show thesis using that by blast
qed

fun liquidator_of :: "liq_call \<Rightarrow> address" where
  "liquidator_of (LiquidateTroves l n) = l"
| "liquidator_of (BatchLiquidate l bs) = l"
| "liquidator_of (Liquidate l b) = l"

lemma call_seq:
  assumes "liq_exec E now sender call w = Inr w'"
  obtains p w0 r t w1 where "fetch_price E w = Inr (p, w0)" and "checkRecoveryMode_sol p w0 = Inr r"
    and "seq_result p (liq_bound r) (sp_deposits w0) zeroTotals w0 t w1"
    and "finish_liquidation E now (liquidator_of call) t w1 = Inr w'"
proof (cases call)
  case (LiquidateTroves l n)
  with assms that show ?thesis by (auto elim: walk_seq)
next
  case (BatchLiquidate l bs)
  with assms that show ?thesis by (auto elim: batch_seq)
next
  case (Liquidate l b)
  with assms that show ?thesis by (auto simp: liquidate_def elim!: rbindE elim: batch_seq)
qed

text \<open>
  What a successful call did, in one place: after the price \<open>p\<close> was read (\<open>w0\<close>) in the mode \<open>r\<close>, troves with the
  totals \<open>t\<close> are closed (\<open>w1\<close>), the offset leaves TroveManager and the default pool alone (\<open>w2\<close>), then debt is
  redistributed (\<open>w3\<close>).
\<close>

definition call_result ::
  "'x lq_env \<Rightarrow> 'x lq_world \<Rightarrow> 'x lq_world \<Rightarrow> nat \<Rightarrow> bool \<Rightarrow> LiquidationTotals \<Rightarrow>
   'x lq_world \<Rightarrow> 'x lq_world \<Rightarrow> 'x lq_world \<Rightarrow> 'x lq_world \<Rightarrow> bool" where
  "call_result E w w' p r t w0 w1 w2 w3 \<longleftrightarrow> fetch_price E w = Inr (p, w0) \<and> checkRecoveryMode_sol p w0 = Inr r \<and>
     closes_many p (liq_bound r) (totalDebtInSequence t) (totalCollInSequence t) w0 w1 \<and> totals_ok t \<and> settled t w1 w' \<and>
     tm_of w2 = tm_of w1 \<and> dpool w2 = dpool w1 \<and>
     (w3 = w2 \<and> totalDebtToRedistribute t = 0 \<or>
      redistributed (totalDebtToRedistribute t) (totalCollToRedistribute t) w2 w3) \<and>
     dpool w' = dpool w3 \<and>
     (\<exists>s c. tm_of w' = (tm_of w3)\<lparr>totalStakesSnapshot := s, totalCollateralSnapshot := c\<rparr>)"

lemma call_facts:
  fixes w w' :: "'x lq_world"
  assumes "liq_exec E now sender call w = Inr w'"
  obtains p r t w0 w1 w2 w3 where "call_result E w w' p r t w0 w1 w2 w3"
proof -
  from call_seq[OF assms] obtain p w0 r t w1 where f: "fetch_price E w = Inr (p, w0)" and r: "checkRecoveryMode_sol p w0 = Inr r"
    and s: "seq_result p (liq_bound r) (sp_deposits w0) zeroTotals w0 t w1"
    and g: "finish_liquidation E now (liquidator_of call) t w1 = Inr w'" by metis
  have z: "totalDebtInSequence zeroTotals = 0" "totalCollInSequence zeroTotals = 0" "totalDebtToOffset zeroTotals = 0"
    by (simp_all add: zeroTotals_def)
  have c: "closes_many p (liq_bound r) (totalDebtInSequence t) (totalCollInSequence t) w0 w1" and t: "totals_ok t"
    and d: "totalDebtToOffset t \<le> sp_deposits w0" using s z by (auto simp: seq_result_def)
  have "totalDebtToOffset t \<le> sp_deposits w1"
    using closes_many_books[OF c] d by (simp add: same_books_def sp_deposits_def)
  from finish_facts[OF g t this] obtain w2 w3 :: "'x lq_world" where "settled t w1 w'"
    and "w2 = w3 \<and> totalDebtToRedistribute t = 0 \<or> redistributed (totalDebtToRedistribute t) (totalCollToRedistribute t) w2 w3"
    and "tm_of w2 = tm_of w1" and "dpool w2 = dpool w1" and "dpool w' = dpool w3"
    and "\<exists>s c. tm_of w' = (tm_of w3)\<lparr>totalStakesSnapshot := s, totalCollateralSnapshot := c\<rparr>" by metis
  with f r c t have "call_result E w w' p r t w0 w1 w2 w3" unfolding call_result_def by blast
  then show thesis by (rule that)
qed

section \<open>Accounting and safety of a call\<close>

text \<open>The debt and the collateral of the system and where they go.\<close>

definition all_coll :: "'x lq_world \<Rightarrow> nat" where
  "all_coll w = sys_coll w + sp_COLL (pool (sysw w)) + cs_COLL (cspool w)"

lemma call_accounts:
  assumes "liq_exec E now sender call w = Inr w'"
  shows "\<exists>cancelled compensation. sys_debt w' + cancelled = sys_debt w \<and> usdd_supply w' + cancelled = usdd_supply w \<and>
    sp_deposits w' + cancelled = sp_deposits w \<and> all_coll w' + compensation = all_coll w \<and>
    PERCENT_DIVISOR * compensation \<le> sys_coll w"
proof -
  obtain p r t w0 w1 w2 w3 where "call_result E w w' p r t w0 w1 w2 w3" by (rule call_facts[OF assms])
  then have f: "fetch_price E w = Inr (p, w0)"
    and c: "closes_many p (liq_bound r) (totalDebtInSequence t) (totalCollInSequence t) w0 w1" and t: "totals_ok t" and s: "settled t w1 w'"
    and rd: "w3 = w2 \<and> totalDebtToRedistribute t = 0 \<or> redistributed (totalDebtToRedistribute t) (totalCollToRedistribute t) w2 w3"
    and d: "dpool w' = dpool w3" by (simp_all add: call_result_def)
  have b: "sys_debt w1 = sys_debt w" "sys_coll w1 = sys_coll w" "usdd_supply w1 = usdd_supply w" "sp_deposits w1 = sp_deposits w"
    "sp_COLL (pool (sysw w1)) = sp_COLL (pool (sysw w))" "cs_COLL (cspool w1) = cs_COLL (cspool w)"
    using closes_many_books[OF c] fetch_price_facts[OF f]
    by (auto simp: same_books_def sys_debt_def sys_coll_def usdd_supply_def sp_deposits_def)
  have "totalCollToRedistribute t \<le> dp_balance (dpool w')"
    using rd t d by (auto simp: redistributed_def totals_ok_def)
  then have "totalCollToRedistribute t \<le> sys_coll w'" by (simp add: sys_coll_def)
  then have "totalCollInSequence t \<le> sys_coll w" using s t b by (simp add: settled_def totals_ok_def)
  moreover have "PERCENT_DIVISOR * totalCollGasCompensation t \<le> totalCollInSequence t" using t by (simp add: totals_ok_def)
  ultimately show ?thesis using s b
    by (intro exI[of _ "totalDebtToOffset t"] exI[of _ "totalCollGasCompensation t"]) (simp add: settled_def all_coll_def)
qed

lemma call_spares:
  assumes "liq_exec E now sender call w = Inr w'" and "fetch_price E w = Inr (p, w0)" and "checkRecoveryMode_sol p w0 = Inr r"
    and "getCurrentICR (tm_of w) b p = Inr k" and "liq_bound r \<le> k"
  shows "same_trove (tm_of w) (tm_of w') b"
proof -
  obtain p' r' t w0' w1 w2 w3 where "call_result E w w' p' r' t w0' w1 w2 w3" by (rule call_facts[OF assms(1)])
  then have f: "fetch_price E w = Inr (p', w0')" "checkRecoveryMode_sol p' w0' = Inr r'"
    and c: "closes_many p' (liq_bound r') (totalDebtInSequence t) (totalCollInSequence t) w0' w1" and s: "settled t w1 w'" by (simp_all add: call_result_def)
  have eq: "p' = p" "w0' = w0" "r' = r" using f assms(2,3) by auto
  have tm: "tm_of w0 = tm_of w" using fetch_price_facts[OF assms(2)] by simp
  have "same_trove (tm_of w0) (tm_of w1) b"
    using closes_many_spares[OF c[unfolded eq]] assms(4,5) tm by simp
  with s tm show ?thesis by (simp add: settled_def same_trove_def)
qed

end
