(* ===== verification/Liquidation_Reserve.thy ===== *)
theory Liquidation_Reserve
  imports Liquidation_Calls Reward_Pot
begin

text \<open>
  The reserve behind redistributed debt and collateral.  A redistribution credits every staked trove by
  raising the running terms \<open>L_USDDDebt\<close> and \<open>L_COLL\<close>, and puts the amounts into the default pool.  Each of the two
  is a pot in the sense of \<open>Reward_Pot\<close>: the default pool covers what all troves are owed.
\<close>

section \<open>The reserve of the default pool\<close>

definition stakes_of :: "trove_manager \<Rightarrow> address \<Rightarrow> nat" where
  "stakes_of t b = stake (Troves t b)"

definition debt_snaps :: "trove_manager \<Rightarrow> address \<Rightarrow> nat" where
  "debt_snaps t b = snap_USDDDebt (rewardSnapshots t b)"

definition coll_snaps :: "trove_manager \<Rightarrow> address \<Rightarrow> nat" where
  "coll_snaps t b = snap_COLL (rewardSnapshots t b)"

text \<open>
  The collateral side, the stakes and, when \<open>f\<close> is set, the debt side.  (The two sides are kept apart because
  \<open>hasPendingRewards\<close> looks at the collateral only.)
\<close>

definition reserve_of :: "bool \<Rightarrow> trove_manager \<Rightarrow> default_pool \<Rightarrow> bool" where
  "reserve_of f t d \<longleftrightarrow>
     (f \<longrightarrow> pot_ok (stakes_of t) (debt_snaps t) (L_USDDDebt t) (lastUSDDDebtError_Redistribution t) (dp_USDDDebt d)) \<and>
     pot_ok (stakes_of t) (coll_snaps t) (L_COLL t) (lastETHError_Redistribution t) (dp_balance d) \<and>
     totalStakes t = held (stakes_of t) \<and>
     (\<forall>b. (stake (Troves t b) \<noteq> 0 \<longrightarrow> status (Troves t b) = active) \<and>
          (status (Troves t b) = active \<longrightarrow> coll_snaps t b \<le> L_COLL t))"

definition reserve_ok :: "bool \<Rightarrow> 'x lq_world \<Rightarrow> bool" where
  "reserve_ok f w \<longleftrightarrow> reserve_of f (tm_of w) (dpool w)"

lemma pendingReward_rounds_down:
  "pendingReward L s tr = Inr n \<Longrightarrow> n * DECIMAL_PRECISION \<le> stake tr * (L - s)"
  by (auto simp: pendingReward_def rbind_Inr_iff u_Inr_iffs split: if_splits)

lemma debt_reward_le:
  "getPendingUSDDDebtReward t b = Inr n \<Longrightarrow> n * DECIMAL_PRECISION \<le> claims (stakes_of t) (debt_snaps t) (L_USDDDebt t) b"
  by (auto simp: getPendingUSDDDebtReward_def claims_def stakes_of_def debt_snaps_def dest: pendingReward_rounds_down)

lemma coll_reward_le:
  "getPendingCollReward t b = Inr n \<Longrightarrow> n * DECIMAL_PRECISION \<le> claims (stakes_of t) (coll_snaps t) (L_COLL t) b"
  by (auto simp: getPendingCollReward_def claims_def stakes_of_def coll_snaps_def dest: pendingReward_rounds_down)

lemma others_upd: "(\<And>x. x \<noteq> b \<Longrightarrow> g x = f x) \<Longrightarrow> g = f(b := g b)"
  by auto

lemma closes_trove_reserve:
  assumes "closes_trove b v w w'" and "reserve_ok f w"
  shows "reserve_ok f w'"
proof -
  let ?t = "tm_of w" and ?t' = "tm_of w'"
  have same: "\<And>x. x \<noteq> b \<Longrightarrow> same_trove ?t ?t' x" and z: "stake (Troves ?t' b) = 0" and terms: "same_terms ?t ?t'"
    and st': "status (Troves ?t' b) = closedByLiquidation"
    and ts: "totalStakes ?t' + stake (Troves ?t b) = totalStakes ?t" using assms(1) by (auto simp: closes_trove_def)
  from assms(1) obtain pd pc where p: "getPendingUSDDDebtReward ?t b = Inr pd" "getPendingCollReward ?t b = Inr pc"
    "dp_USDDDebt (dpool w) = dp_USDDDebt (dpool w') + pd" "dp_balance (dpool w) = dp_balance (dpool w') + pc"
    by (auto simp: closes_trove_def)
  have st: "stakes_of ?t' = (stakes_of ?t)(b := 0)"
    using others_upd[of b "stakes_of ?t'" "stakes_of ?t"] same z by (auto simp: same_trove_def stakes_of_def)
  have sn: "debt_snaps ?t' = (debt_snaps ?t)(b := debt_snaps ?t' b)" "coll_snaps ?t' = (coll_snaps ?t)(b := coll_snaps ?t' b)"
    by (rule others_upd; use same in \<open>simp add: same_trove_def debt_snaps_def coll_snaps_def\<close>)+
  have r: "reserve_of f ?t (dpool w)" using assms(2) by (simp add: reserve_ok_def)
  then have fin: "finite (holders (stakes_of ?t))" by (simp add: reserve_of_def pot_ok_def)
  have "totalStakes ?t' = held (stakes_of ?t')"
    using held_upd[OF fin, of b 0] ts r by (simp add: st reserve_of_def stakes_of_def)
  moreover have "(stake (Troves ?t' x) \<noteq> 0 \<longrightarrow> status (Troves ?t' x) = active) \<and>
      (status (Troves ?t' x) = active \<longrightarrow> coll_snaps ?t' x \<le> L_COLL ?t')" for x
    using r same[of x] z st' terms by (cases "x = b") (auto simp: reserve_of_def same_trove_def same_terms_def coll_snaps_def)
  moreover have "f \<longrightarrow> pot_ok (stakes_of ?t') (debt_snaps ?t') (L_USDDDebt ?t') (lastUSDDDebtError_Redistribution ?t') (dp_USDDDebt (dpool w'))"
    using pot_ok_close[OF _ p(3) debt_reward_le[OF p(1)]] r terms by (subst sn(1)) (simp add: st same_terms_def reserve_of_def)
  moreover have "pot_ok (stakes_of ?t') (coll_snaps ?t') (L_COLL ?t') (lastETHError_Redistribution ?t') (dp_balance (dpool w'))"
    using pot_ok_close[OF _ p(4) coll_reward_le[OF p(2)]] r terms by (subst sn(2)) (simp add: st same_terms_def reserve_of_def)
  ultimately show ?thesis by (simp add: reserve_ok_def reserve_of_def)
qed

lemma closes_many_reserve: "closes_many p B D C w w' \<Longrightarrow> reserve_ok f w \<Longrightarrow> reserve_ok f w'"
  by (induction rule: closes_many.induct) (auto intro: closes_trove_reserve)

lemma redistributed_reserve:
  assumes "redistributed d c w w'" and "reserve_ok f w"
  shows "reserve_ok f w'"
proof -
  have eq: "stakes_of (tm_of w') = stakes_of (tm_of w)" "debt_snaps (tm_of w') = debt_snaps (tm_of w)"
    "coll_snaps (tm_of w') = coll_snaps (tm_of w)"
    using assms(1) by (auto simp: redistributed_def stakes_of_def debt_snaps_def coll_snaps_def)
  have r: "reserve_of f (tm_of w) (dpool w)" using assms(2) by (simp add: reserve_ok_def)
  then have S: "totalStakes (tm_of w) = held (stakes_of (tm_of w))" by (simp add: reserve_of_def)
  have fb: "fed_back (held (stakes_of (tm_of w))) d (L_USDDDebt (tm_of w)) (lastUSDDDebtError_Redistribution (tm_of w))
      (L_USDDDebt (tm_of w')) (lastUSDDDebtError_Redistribution (tm_of w'))"
    "fed_back (held (stakes_of (tm_of w))) c (L_COLL (tm_of w)) (lastETHError_Redistribution (tm_of w))
      (L_COLL (tm_of w')) (lastETHError_Redistribution (tm_of w'))"
    using assms(1) by (simp_all add: redistributed_def S)
  have "L_COLL (tm_of w) \<le> L_COLL (tm_of w')" using fb(2) by (simp add: fed_back_def)
  then have "status (Troves (tm_of w') b) = active \<longrightarrow> coll_snaps (tm_of w') b \<le> L_COLL (tm_of w')"
    "stake (Troves (tm_of w') b) \<noteq> 0 \<longrightarrow> status (Troves (tm_of w') b) = active" for b
    using r assms(1) eq(3) by (auto simp: reserve_of_def redistributed_def intro: order_trans)
  moreover have "dp_USDDDebt (dpool w') = dp_USDDDebt (dpool w) + d" "dp_balance (dpool w') = dp_balance (dpool w) + c"
    "totalStakes (tm_of w') = totalStakes (tm_of w)" using assms(1) by (simp_all add: redistributed_def)
  ultimately show ?thesis using r pot_ok_feed[OF _ fb(1)] pot_ok_feed[OF _ fb(2)]
    by (simp add: reserve_ok_def reserve_of_def eq)
qed

lemma reserve_of_cong:
  assumes "Troves t' = Troves t" and "rewardSnapshots t' = rewardSnapshots t" and "totalStakes t' = totalStakes t"
    and "same_terms t t'"
  shows "reserve_of f t' d = reserve_of f t d"
  using assms by (simp add: reserve_of_def same_terms_def stakes_of_def[abs_def] debt_snaps_def[abs_def] coll_snaps_def[abs_def])

lemma call_reserve:
  assumes "liq_exec E now sender call w = Inr w'" and "reserve_ok f w"
  shows "reserve_ok f w'"
proof -
  obtain p r t w0 w1 w2 w3 where res: "call_result E w w' p r t w0 w1 w2 w3" by (rule call_facts[OF assms(1)])
  then have f: "fetch_price E w = Inr (p, w0)"
    and c: "closes_many p (liq_bound r) (totalDebtInSequence t) (totalCollInSequence t) w0 w1"
    and e: "tm_of w2 = tm_of w1" "dpool w2 = dpool w1" and d: "dpool w' = dpool w3" by (simp_all add: call_result_def)
  from res have rd: "w3 = w2 \<or> redistributed (totalDebtToRedistribute t) (totalCollToRedistribute t) w2 w3"
    and tm: "\<exists>s c. tm_of w' = (tm_of w3)\<lparr>totalStakesSnapshot := s, totalCollateralSnapshot := c\<rparr>"
    by (auto simp: call_result_def)
  have "reserve_ok f w0" using assms(2) fetch_price_facts[OF f] by (simp add: reserve_ok_def)
  then have "reserve_ok f w2" using closes_many_reserve[OF c] e by (simp add: reserve_ok_def)
  then have "reserve_ok f w3" using rd redistributed_reserve by blast
  moreover obtain s c where "tm_of w' = (tm_of w3)\<lparr>totalStakesSnapshot := s, totalCollateralSnapshot := c\<rparr>" using tm by blast
  ultimately show ?thesis using d reserve_of_cong[of "tm_of w'" "tm_of w3" f "dpool w3"] by (simp add: reserve_ok_def same_terms_def)
qed

text \<open>Moving a trove's pending rewards out of the default pool.\<close>

lemma claim_reserve:
  assumes "reserve_of f t d" and "getPendingUSDDDebtReward t b = Inr pd" and "getPendingCollReward t b = Inr pc"
    and "dp_USDDDebt d = dp_USDDDebt d' + pd" and "dp_balance d = dp_balance d' + pc"
    and "same_terms t t'" and "totalStakes t' = totalStakes t" and "stakes_of t' = stakes_of t"
    and "debt_snaps t' = (debt_snaps t)(b := L_USDDDebt t)" and "coll_snaps t' = (coll_snaps t)(b := L_COLL t)"
    and "\<And>x. status (Troves t' x) = status (Troves t x)"
  shows "reserve_of f t' d'"
  using assms(1,6-8,11) pot_ok_claim[OF _ assms(4) debt_reward_le[OF assms(2)]]
    pot_ok_claim[OF _ assms(5) coll_reward_le[OF assms(3)]] fun_cong[OF assms(8)]
  by (simp add: reserve_of_def same_terms_def assms(9,10)) (metis stakes_of_def)

lemma applyPendingRewards_reserve:
  assumes "applyPendingRewards E b w = Inr w'" and "reserve_ok f w"
  shows "reserve_ok f w'"
proof (cases "hasPendingRewards (tm_of w) b")
  case True
  let ?t = "\<lambda>c d. updateTroveRewardSnapshots b (upd_trove b (\<lambda>t. t\<lparr>coll := c, debt := d\<rparr>) (tm_of w))"
  from True assms(1) obtain pd pc c d where p: "getPendingUSDDDebtReward (tm_of w) b = Inr pd" "getPendingCollReward (tm_of w) b = Inr pc"
    and m: "movePendingTroveRewardsToActivePool E pd pc (set_tm (?t c d) w) = Inr w'"
    unfolding applyPendingRewards_def by (auto elim!: rbindE)
  note mf = movePending_facts[OF m]
  have "reserve_of f (?t c d) (dpool w')"
    by (rule claim_reserve[OF _ p]) (use assms(2) mf(3,4) in \<open>auto simp: reserve_ok_def same_terms_def updateTroveRewardSnapshots_def
      upd_trove_def stakes_of_def debt_snaps_def coll_snaps_def\<close>)
  then show ?thesis using mf(1) by (simp add: reserve_ok_def)
qed (use assms in \<open>simp add: applyPendingRewards_def\<close>)

end
