(* ===== verification/Borrower_Operations.thy ===== *)
theory Borrower_Operations
  imports Liquidation
begin

text \<open>
  \<open>contracts/BorrowerOperations.sol\<close> and the functions of \<open>TroveManager.sol\<close> reserved to it: opening, adjusting and
  closing a trove and claiming surplus collateral.  \<open>sender\<close> is \<open>msg.sender\<close>, \<open>onBehalfOf\<close> the trove's owner.
  The insertion into the sorted list follows stored links and may not return on a broken list, so the
  operations that insert have type \<open>'x lq_world res option\<close>.
\<close>

section \<open>What TroveManager offers to BorrowerOperations\<close>

definition tm_setTroveStatus :: "address \<Rightarrow> address \<Rightarrow> status \<Rightarrow> trove_manager \<Rightarrow> trove_manager res" where
  "tm_setTroveStatus sender b st t =
     rbind (requireCallerIsBorrowerOperations sender t) (\<lambda>_. Inr (upd_trove b (\<lambda>tr. tr\<lparr>status := st\<rparr>) t))"

definition tm_increaseTroveColl :: "address \<Rightarrow> address \<Rightarrow> nat \<Rightarrow> trove_manager \<Rightarrow> (nat \<times> trove_manager) res" where
  "tm_increaseTroveColl sender b collIncrease t =
     rbind (requireCallerIsBorrowerOperations sender t) (\<lambda>_.
     rbind (u_add (coll (Troves t b)) collIncrease) (\<lambda>newColl.
     Inr (newColl, upd_trove b (\<lambda>tr. tr\<lparr>coll := newColl\<rparr>) t)))"

definition tm_decreaseTroveColl :: "address \<Rightarrow> address \<Rightarrow> nat \<Rightarrow> trove_manager \<Rightarrow> (nat \<times> trove_manager) res" where
  "tm_decreaseTroveColl sender b collDecrease t =
     rbind (requireCallerIsBorrowerOperations sender t) (\<lambda>_.
     rbind (u_sub (coll (Troves t b)) collDecrease) (\<lambda>newColl.
     Inr (newColl, upd_trove b (\<lambda>tr. tr\<lparr>coll := newColl\<rparr>) t)))"

definition tm_increaseTroveDebt :: "address \<Rightarrow> address \<Rightarrow> nat \<Rightarrow> trove_manager \<Rightarrow> (nat \<times> trove_manager) res" where
  "tm_increaseTroveDebt sender b debtIncrease t =
     rbind (requireCallerIsBorrowerOperations sender t) (\<lambda>_.
     rbind (u_add (debt (Troves t b)) debtIncrease) (\<lambda>newDebt.
     Inr (newDebt, upd_trove b (\<lambda>tr. tr\<lparr>debt := newDebt\<rparr>) t)))"

definition tm_decreaseTroveDebt :: "address \<Rightarrow> address \<Rightarrow> nat \<Rightarrow> trove_manager \<Rightarrow> (nat \<times> trove_manager) res" where
  "tm_decreaseTroveDebt sender b debtDecrease t =
     rbind (requireCallerIsBorrowerOperations sender t) (\<lambda>_.
     rbind (u_sub (debt (Troves t b)) debtDecrease) (\<lambda>newDebt.
     Inr (newDebt, upd_trove b (\<lambda>tr. tr\<lparr>debt := newDebt\<rparr>) t)))"

definition tm_updateTroveRewardSnapshots :: "address \<Rightarrow> address \<Rightarrow> trove_manager \<Rightarrow> trove_manager res" where
  "tm_updateTroveRewardSnapshots sender b t =
     rbind (requireCallerIsBorrowerOperations sender t) (\<lambda>_. Inr (updateTroveRewardSnapshots b t))"

definition tm_updateStakeAndTotalStakes :: "address \<Rightarrow> address \<Rightarrow> trove_manager \<Rightarrow> (nat \<times> trove_manager) res" where
  "tm_updateStakeAndTotalStakes sender b t =
     rbind (requireCallerIsBorrowerOperations sender t) (\<lambda>_. updateStakeAndTotalStakes b t)"

definition tm_removeStake :: "address \<Rightarrow> address \<Rightarrow> trove_manager \<Rightarrow> trove_manager res" where
  "tm_removeStake sender b t = rbind (requireCallerIsBorrowerOperations sender t) (\<lambda>_. removeStake b t)"

definition tm_addTroveOwnerToArray :: "address \<Rightarrow> address \<Rightarrow> trove_manager \<Rightarrow> (nat \<times> trove_manager) res" where
  "tm_addTroveOwnerToArray sender b t =
     rbind (requireCallerIsBorrowerOperations sender t) (\<lambda>_. addTroveOwnerToArray b t)"

definition tm_applyPendingRewards :: "'x lq_env \<Rightarrow> address \<Rightarrow> address \<Rightarrow> 'x lq_world \<Rightarrow> 'x lq_world res" where
  "tm_applyPendingRewards E sender b w =
     rbind (requireCallerIsBorrowerOperations sender (tm_of w)) (\<lambda>_. applyPendingRewards E b w)"

definition tm_closeTrove :: "'x lq_env \<Rightarrow> address \<Rightarrow> address \<Rightarrow> 'x lq_world \<Rightarrow> 'x lq_world res" where
  "tm_closeTrove E sender b w =
     rbind (requireCallerIsBorrowerOperations sender (tm_of w)) (\<lambda>_. closeTrove E b closedByOwner w)"

section \<open>Guards\<close>

definition bo_requireSingularCollChange :: "nat \<Rightarrow> nat \<Rightarrow> unit res" where
  "bo_requireSingularCollChange collDeposited collWithdrawal =
     require (collDeposited = 0 \<or> collWithdrawal = 0) ''BorrowerOperations: Cannot withdraw and add coll''"

definition bo_requireCallerIsBorrowerOrGw :: "'x lq_env \<Rightarrow> address \<Rightarrow> address \<Rightarrow> unit res" where
  "bo_requireCallerIsBorrowerOrGw E sender borrower =
     require (sender = borrower \<or> sender = bo_wETHGatewayAddress E)
       ''BorrowerOps: Caller must be the borrower or gateway''"

definition bo_requireCallerIsBorrowerOrGwOrSP :: "'x lq_env \<Rightarrow> address \<Rightarrow> address \<Rightarrow> unit res" where
  "bo_requireCallerIsBorrowerOrGwOrSP E sender borrower =
     require (sender = borrower \<or> sender = bo_wETHGatewayAddress E \<or> sender = this_sp (spe E))
       ''BorrowerOps: Caller must be the borrower or gateway or stabilityPool''"

definition bo_requireNonZeroAdjustment :: "nat \<Rightarrow> nat \<Rightarrow> nat \<Rightarrow> unit res" where
  "bo_requireNonZeroAdjustment collDeposited collWithdrawal usddChange =
     require (collDeposited \<noteq> 0 \<or> collWithdrawal \<noteq> 0 \<or> usddChange \<noteq> 0)
       ''BorrowerOps: There must be either a collateral change or a debt change''"

definition bo_requireTroveisActive :: "trove_manager \<Rightarrow> address \<Rightarrow> unit res" where
  "bo_requireTroveisActive t b =
     require (status (Troves t b) = active) ''BorrowerOps: Trove does not exist or is closed''"

definition bo_requireTroveisNotActive :: "trove_manager \<Rightarrow> address \<Rightarrow> unit res" where
  "bo_requireTroveisNotActive t b = require (status (Troves t b) \<noteq> active) ''BorrowerOps: Trove is active''"

definition bo_requireNonZeroDebtChange :: "nat \<Rightarrow> unit res" where
  "bo_requireNonZeroDebtChange usddChange =
     require (usddChange > 0) ''BorrowerOps: Debt increase requires non-zero debtChange''"

definition bo_requireNotInRecoveryMode :: "nat \<Rightarrow> 'x lq_world \<Rightarrow> unit res" where
  "bo_requireNotInRecoveryMode price w =
     rbind (checkRecoveryMode_sol price w) (\<lambda>r.
     require (\<not> r) ''BorrowerOps: Operation not permitted during Recovery Mode'')"

definition bo_requireNoCollWithdrawal :: "nat \<Rightarrow> unit res" where
  "bo_requireNoCollWithdrawal collWithdrawal =
     require (collWithdrawal = 0) ''BorrowerOps: Collateral withdrawal not permitted Recovery Mode''"

definition bo_requireICRisAboveMCR :: "nat \<Rightarrow> unit res" where
  "bo_requireICRisAboveMCR newICR =
     require (newICR \<ge> MCR) ''BorrowerOps: An operation that would result in ICR < MCR is not permitted''"

definition bo_requireICRisAboveCCR :: "nat \<Rightarrow> unit res" where
  "bo_requireICRisAboveCCR newICR =
     require (newICR \<ge> CCR) ''BorrowerOps: Operation must leave trove with ICR >= CCR''"

definition bo_requireNewICRisAboveOldICR :: "nat \<Rightarrow> nat \<Rightarrow> unit res" where
  "bo_requireNewICRisAboveOldICR newICR oldICR =
     require (newICR \<ge> oldICR) ''BorrowerOps: Cannot decrease your Trove's ICR in Recovery Mode''"

definition bo_requireNewTCRisAboveCCR :: "nat \<Rightarrow> unit res" where
  "bo_requireNewTCRisAboveCCR newTCR =
     require (newTCR \<ge> CCR) ''BorrowerOps: An operation that would result in TCR < CCR is not permitted''"

definition bo_requireAtLeastMinNetDebt :: "nat \<Rightarrow> unit res" where
  "bo_requireAtLeastMinNetDebt netDebt =
     require (netDebt \<ge> MIN_NET_DEBT) ''BorrowerOps: Trove's net debt must be greater than minimum''"

definition bo_requireValidUSDDRepayment :: "nat \<Rightarrow> nat \<Rightarrow> unit res" where
  "bo_requireValidUSDDRepayment currentDebt debtRepayment =
     rbind (u_sub currentDebt USDD_GAS_COMPENSATION) (\<lambda>d.
     require (debtRepayment \<le> d) ''BorrowerOps: Amount repaid must not be larger than the Trove's debt'')"

definition bo_requireCallerIsStabilityPool :: "'x lq_env \<Rightarrow> address \<Rightarrow> unit res" where
  "bo_requireCallerIsStabilityPool E sender =
     require (sender = this_sp (spe E)) ''BorrowerOps: Caller is not Stability Pool''"

definition bo_requireSufficientUSDDBalance :: "usdd_token \<Rightarrow> address \<Rightarrow> nat \<Rightarrow> unit res" where
  "bo_requireSufficientUSDDBalance u borrower debtRepayment =
     require (usdd_balances u borrower \<ge> debtRepayment)
       ''BorrowerOps: Caller doesnt have enough USDD to make repayment''"

definition bo_requireValidMaxFeePercentage :: "nat \<Rightarrow> bool \<Rightarrow> unit res" where
  "bo_requireValidMaxFeePercentage maxFeePercentage isRecoveryMode =
     (if isRecoveryMode then
        require (maxFeePercentage \<le> DECIMAL_PRECISION) ''Max fee percentage must less than or equal to 100%''
      else require (maxFeePercentage \<ge> BORROWING_FEE_FLOOR \<and> maxFeePercentage \<le> DECIMAL_PRECISION)
        ''Max fee percentage must be between 0.5% and 100%'')"

section \<open>Ratios after a change\<close>

definition bo_getNewTroveAmounts :: "nat \<Rightarrow> nat \<Rightarrow> nat \<Rightarrow> bool \<Rightarrow> nat \<Rightarrow> bool \<Rightarrow> (nat \<times> nat) res" where
  "bo_getNewTroveAmounts c d collChange isCollIncrease debtChange isDebtIncrease =
     rbind (if isCollIncrease then u_add c collChange else u_sub c collChange) (\<lambda>newColl.
     rbind (if isDebtIncrease then u_add d debtChange else u_sub d debtChange) (\<lambda>newDebt.
     Inr (newColl, newDebt)))"

definition bo_getNewNominalICRFromTroveChange :: "nat \<Rightarrow> nat \<Rightarrow> nat \<Rightarrow> bool \<Rightarrow> nat \<Rightarrow> bool \<Rightarrow> nat res" where
  "bo_getNewNominalICRFromTroveChange c d collChange isCollIncrease debtChange isDebtIncrease =
     rbind (bo_getNewTroveAmounts c d collChange isCollIncrease debtChange isDebtIncrease) (\<lambda>(newColl, newDebt).
     computeNominalCR newColl newDebt)"

definition bo_getNewICRFromTroveChange :: "nat \<Rightarrow> nat \<Rightarrow> nat \<Rightarrow> bool \<Rightarrow> nat \<Rightarrow> bool \<Rightarrow> nat \<Rightarrow> nat res" where
  "bo_getNewICRFromTroveChange c d collChange isCollIncrease debtChange isDebtIncrease price =
     rbind (bo_getNewTroveAmounts c d collChange isCollIncrease debtChange isDebtIncrease) (\<lambda>(newColl, newDebt).
     computeCR newColl newDebt price)"

definition bo_getNewTCRFromTroveChange ::
  "nat \<Rightarrow> bool \<Rightarrow> nat \<Rightarrow> bool \<Rightarrow> nat \<Rightarrow> 'x lq_world \<Rightarrow> nat res" where
  "bo_getNewTCRFromTroveChange collChange isCollIncrease debtChange isDebtIncrease price w =
     rbind (getEntireSystemColl w) (\<lambda>totalColl.
     rbind (getEntireSystemDebt w) (\<lambda>totalDebt.
     rbind (if isCollIncrease then u_add totalColl collChange else u_sub totalColl collChange) (\<lambda>c.
     rbind (if isDebtIncrease then u_add totalDebt debtChange else u_sub totalDebt debtChange) (\<lambda>d.
     computeCR c d price))))"

section \<open>Moving tokens\<close>

definition set_usdd :: "usdd_token \<Rightarrow> 'x lq_world \<Rightarrow> 'x lq_world" where
  "set_usdd u w = set_peers ((others (sysw w))\<lparr>usdd := u\<rparr>) w"

definition set_slist :: "sorted_troves \<Rightarrow> 'x lq_world \<Rightarrow> 'x lq_world" where
  "set_slist s w = set_peers ((others (sysw w))\<lparr>slist := s\<rparr>) w"

definition bo_triggerBorrowingFee :: "'x lq_env \<Rightarrow> nat \<Rightarrow> nat \<Rightarrow> nat \<Rightarrow> 'x lq_world \<Rightarrow> (nat \<times> 'x lq_world) res" where
  "bo_triggerBorrowingFee E now usddAmount maxFeePercentage w =
     rbind (decayBaseRateFromBorrowing (this_bo E) now (tm_of w)) (\<lambda>t.
     let w1 = set_tm t w in
     rbind (getBorrowingFee (tm_of w1) usddAmount) (\<lambda>fee.
     rbind (requireUserAcceptsFee fee usddAmount maxFeePercentage) (\<lambda>_.
     rbind (pay_borrowing_fee (stke E) (this_bo E) fee (staking w1) (usdd (others (sysw w1)))) (\<lambda>(s, u).
     Inr (fee, set_usdd u (w1\<lparr>staking := s\<rparr>))))))"

definition bo_activePoolAddColl :: "'x lq_env \<Rightarrow> address \<Rightarrow> nat \<Rightarrow> 'x lq_world \<Rightarrow> 'x lq_world res" where
  "bo_activePoolAddColl E sender amount w =
     rbind (coll_transferFrom E (this_bo E) sender (this_bo E) amount (ext (others (sysw w)))) (\<lambda>x.
     rbind (ap_receiveColl E (this_bo E) amount ((others (sysw w))\<lparr>ext := x\<rparr>)) (\<lambda>p.
     Inr (set_peers p w)))"

definition bo_withdrawUSDD :: "'x lq_env \<Rightarrow> address \<Rightarrow> nat \<Rightarrow> nat \<Rightarrow> 'x lq_world \<Rightarrow> 'x lq_world res" where
  "bo_withdrawUSDD E account usddAmount netDebtIncrease w =
     rbind (ap_increaseUSDDDebt (this_bo E) netDebtIncrease (apool (others (sysw w)))) (\<lambda>a.
     rbind (usdd_mint (this_bo E) account usddAmount (usdd (others (sysw w)))) (\<lambda>u.
     Inr (set_peers ((others (sysw w))\<lparr>apool := a, usdd := u\<rparr>) w)))"

definition bo_repayUSDD :: "'x lq_env \<Rightarrow> address \<Rightarrow> nat \<Rightarrow> 'x lq_world \<Rightarrow> 'x lq_world res" where
  "bo_repayUSDD E account amount w =
     rbind (ap_decreaseUSDDDebt (this_bo E) amount (apool (others (sysw w)))) (\<lambda>a.
     rbind (usdd_burn (this_bo E) account amount (usdd (others (sysw w)))) (\<lambda>u.
     Inr (set_peers ((others (sysw w))\<lparr>apool := a, usdd := u\<rparr>) w)))"

definition bo_sendColl :: "'x lq_env \<Rightarrow> address \<Rightarrow> nat \<Rightarrow> 'x lq_world \<Rightarrow> 'x lq_world res" where
  "bo_sendColl E account amount w =
     rbind (ap_sendColl (spe E) (this_bo E) account amount (others (sysw w))) (\<lambda>p. Inr (set_peers p w))"

definition bo_moveTokensAndCollfromAdjustment ::
  "'x lq_env \<Rightarrow> address \<Rightarrow> nat \<Rightarrow> bool \<Rightarrow> nat \<Rightarrow> bool \<Rightarrow> nat \<Rightarrow> 'x lq_world \<Rightarrow> 'x lq_world res" where
  "bo_moveTokensAndCollfromAdjustment E sender collChange isCollIncrease usddChange isDebtIncrease netDebtChange w =
     rbind (if isDebtIncrease then bo_withdrawUSDD E sender usddChange netDebtChange w
            else bo_repayUSDD E sender usddChange w) (\<lambda>w1.
     if isCollIncrease then bo_activePoolAddColl E sender collChange w1
     else bo_sendColl E sender collChange w1)"

text \<open>The list operations of SortedTroves read the nominal ratios from TroveManager.\<close>

definition bo_list_then ::
  "sorted_troves res option \<Rightarrow> 'x lq_world \<Rightarrow> ('x lq_world \<Rightarrow> 'x lq_world res) \<Rightarrow> 'x lq_world res option" where
  "bo_list_then r w f = map_option (\<lambda>r. rbind r (\<lambda>s. f (set_slist s w))) r"

section \<open>Opening a trove\<close>

text \<open>The price, the fee and the checks; the result is \<open>(netDebt, compositeDebt, NICR)\<close> and the state after the fee.\<close>

definition bo_open_check ::
  "'x lq_env \<Rightarrow> nat \<Rightarrow> address \<Rightarrow> nat \<Rightarrow> nat \<Rightarrow> nat \<Rightarrow> 'x lq_world \<Rightarrow> (nat \<times> nat \<times> nat \<times> 'x lq_world) res" where
  "bo_open_check E now onBehalfOf maxFeePercentage collAmount usddAmount w =
     rbind (fetch_price E w) (\<lambda>(price, w0).
     rbind (checkRecoveryMode_sol price w0) (\<lambda>isRecoveryMode.
     rbind (bo_requireValidMaxFeePercentage maxFeePercentage isRecoveryMode) (\<lambda>_.
     rbind (bo_requireTroveisNotActive (tm_of w0) onBehalfOf) (\<lambda>_.
     rbind (if \<not> isRecoveryMode then
              rbind (bo_triggerBorrowingFee E now usddAmount maxFeePercentage w0) (\<lambda>(fee, w1).
              rbind (u_add usddAmount fee) (\<lambda>net. Inr (net, w1)))
            else Inr (usddAmount, w0)) (\<lambda>(netDebt, w1).
     rbind (bo_requireAtLeastMinNetDebt netDebt) (\<lambda>_.
     rbind (getCompositeDebt_sol netDebt) (\<lambda>compositeDebt.
     rbind (sol_assert (compositeDebt > 0)) (\<lambda>_.
     rbind (computeCR collAmount compositeDebt price) (\<lambda>ICR.
     rbind (computeNominalCR collAmount compositeDebt) (\<lambda>NICR.
     rbind (if isRecoveryMode then bo_requireICRisAboveCCR ICR
            else rbind (bo_requireICRisAboveMCR ICR) (\<lambda>_.
              rbind (bo_getNewTCRFromTroveChange collAmount True compositeDebt True price w1)
                bo_requireNewTCRisAboveCCR)) (\<lambda>_.
     Inr (netDebt, compositeDebt, NICR, w1))))))))))))"

definition bo_open_record :: "'x lq_env \<Rightarrow> address \<Rightarrow> nat \<Rightarrow> nat \<Rightarrow> 'x lq_world \<Rightarrow> 'x lq_world res" where
  "bo_open_record E onBehalfOf collAmount compositeDebt w =
     rbind (tm_setTroveStatus (this_bo E) onBehalfOf active (tm_of w)) (\<lambda>t1.
     rbind (tm_increaseTroveColl (this_bo E) onBehalfOf collAmount t1) (\<lambda>(_, t2).
     rbind (tm_increaseTroveDebt (this_bo E) onBehalfOf compositeDebt t2) (\<lambda>(_, t3).
     rbind (tm_updateTroveRewardSnapshots (this_bo E) onBehalfOf t3) (\<lambda>t4.
     rbind (tm_updateStakeAndTotalStakes (this_bo E) onBehalfOf t4) (\<lambda>(stake, t5).
     Inr (set_tm t5 w))))))"

definition bo_open_pay ::
  "'x lq_env \<Rightarrow> address \<Rightarrow> address \<Rightarrow> nat \<Rightarrow> nat \<Rightarrow> nat \<Rightarrow> 'x lq_world \<Rightarrow> 'x lq_world res" where
  "bo_open_pay E sender onBehalfOf collAmount usddAmount netDebt w =
     rbind (tm_addTroveOwnerToArray (this_bo E) onBehalfOf (tm_of w)) (\<lambda>(arrayIndex, t).
     rbind (bo_activePoolAddColl E sender collAmount (set_tm t w)) (\<lambda>w1.
     rbind (bo_withdrawUSDD E onBehalfOf usddAmount netDebt w1) (\<lambda>w2.
     bo_withdrawUSDD E (gasPool_address E) USDD_GAS_COMPENSATION USDD_GAS_COMPENSATION w2)))"

definition bo_openTrove ::
  "'x lq_env \<Rightarrow> nat \<Rightarrow> address \<Rightarrow> address \<Rightarrow> nat \<Rightarrow> nat \<Rightarrow> nat \<Rightarrow> address \<Rightarrow> address \<Rightarrow> 'x lq_world \<Rightarrow>
   'x lq_world res option" where
  "bo_openTrove E now sender onBehalfOf maxFeePercentage collAmount usddAmount upperHint lowerHint w =
     (case rbind (bo_open_check E now onBehalfOf maxFeePercentage collAmount usddAmount w)
             (\<lambda>(netDebt, compositeDebt, NICR, w1).
           rbind (bo_open_record E onBehalfOf collAmount compositeDebt w1) (\<lambda>w2. Inr (netDebt, NICR, w2))) of
        Inl e \<Rightarrow> Some (Inl e)
      | Inr (netDebt, NICR, w2) \<Rightarrow>
          bo_list_then (insert_trove (this_bo E) (getNominalICR (tm_of w2)) (slist (others (sysw w2)))
              onBehalfOf NICR upperHint lowerHint) w2
            (bo_open_pay E sender onBehalfOf collAmount usddAmount netDebt))"

section \<open>Adjusting a trove\<close>

definition bo_getCollChange :: "nat \<Rightarrow> nat \<Rightarrow> nat \<times> bool" where
  "bo_getCollChange collReceived requestedCollWithdrawal =
     (if collReceived \<noteq> 0 then (collReceived, True) else (requestedCollWithdrawal, False))"

definition bo_requireValidAdjustmentInCurrentMode ::
  "bool \<Rightarrow> nat \<Rightarrow> bool \<Rightarrow> nat \<Rightarrow> nat \<Rightarrow> nat \<Rightarrow> bool \<Rightarrow> nat \<Rightarrow> nat \<Rightarrow> 'x lq_world \<Rightarrow> unit res" where
  "bo_requireValidAdjustmentInCurrentMode isRecoveryMode collWithdrawal isDebtIncrease oldICR newICR
     collChange isCollIncrease netDebtChange price w =
     (if isRecoveryMode then
        rbind (bo_requireNoCollWithdrawal collWithdrawal) (\<lambda>_.
        if isDebtIncrease then
          rbind (bo_requireICRisAboveCCR newICR) (\<lambda>_. bo_requireNewICRisAboveOldICR newICR oldICR)
        else Inr ())
      else
        rbind (bo_requireICRisAboveMCR newICR) (\<lambda>_.
        rbind (bo_getNewTCRFromTroveChange collChange isCollIncrease netDebtChange isDebtIncrease price w)
          bo_requireNewTCRisAboveCCR))"

definition bo_updateTroveFromAdjustment ::
  "'x lq_env \<Rightarrow> address \<Rightarrow> nat \<Rightarrow> bool \<Rightarrow> nat \<Rightarrow> bool \<Rightarrow> trove_manager \<Rightarrow> trove_manager res" where
  "bo_updateTroveFromAdjustment E b collChange isCollIncrease debtChange isDebtIncrease t =
     rbind (if isCollIncrease then tm_increaseTroveColl (this_bo E) b collChange t
            else tm_decreaseTroveColl (this_bo E) b collChange t) (\<lambda>(newColl, t1).
     rbind (if isDebtIncrease then tm_increaseTroveDebt (this_bo E) b debtChange t1
            else tm_decreaseTroveDebt (this_bo E) b debtChange t1) (\<lambda>(newDebt, t2).
     Inr t2))"

text \<open>The guards before anything is read.\<close>

definition bo_adjust_guards ::
  "'x lq_env \<Rightarrow> address \<Rightarrow> address \<Rightarrow> nat \<Rightarrow> nat \<Rightarrow> unit res" where
  "bo_adjust_guards E sender onBehalfOf collDeposited usddChange =
     rbind (bo_requireCallerIsBorrowerOrGwOrSP E sender onBehalfOf) (\<lambda>_.
     if sender = this_sp (spe E) then sol_assert (collDeposited > 0 \<and> usddChange = 0) else Inr ())"

text \<open>From the price to the trove's old amounts; the result is \<open>(isRecoveryMode, price, netDebtChange)\<close>.\<close>

definition bo_adjust_prepare ::
  "'x lq_env \<Rightarrow> nat \<Rightarrow> address \<Rightarrow> nat \<Rightarrow> nat \<Rightarrow> nat \<Rightarrow> bool \<Rightarrow> nat \<Rightarrow> 'x lq_world \<Rightarrow>
   (bool \<times> nat \<times> nat \<times> 'x lq_world) res" where
  "bo_adjust_prepare E now onBehalfOf collDeposited collWithdrawal usddChange isDebtIncrease maxFeePercentage w =
     rbind (fetch_price E w) (\<lambda>(price, w0).
     rbind (checkRecoveryMode_sol price w0) (\<lambda>isRecoveryMode.
     rbind (if isDebtIncrease then
              rbind (bo_requireValidMaxFeePercentage maxFeePercentage isRecoveryMode) (\<lambda>_.
              bo_requireNonZeroDebtChange usddChange)
            else Inr ()) (\<lambda>_.
     rbind (bo_requireSingularCollChange collDeposited collWithdrawal) (\<lambda>_.
     rbind (bo_requireNonZeroAdjustment collDeposited collWithdrawal usddChange) (\<lambda>_.
     rbind (bo_requireTroveisActive (tm_of w0) onBehalfOf) (\<lambda>_.
     rbind (tm_applyPendingRewards E (this_bo E) onBehalfOf w0) (\<lambda>w1.
     rbind (if isDebtIncrease \<and> \<not> isRecoveryMode then
              rbind (bo_triggerBorrowingFee E now usddChange maxFeePercentage w1) (\<lambda>(fee, w2).
              rbind (u_add usddChange fee) (\<lambda>net. Inr (net, w2)))
            else Inr (usddChange, w1)) (\<lambda>(netDebtChange, w2).
     Inr (isRecoveryMode, price, netDebtChange, w2)))))))))"

text \<open>The checks on the new ratios and the new amounts of the trove; the result has the new nominal ratio.\<close>

definition bo_adjust_record ::
  "'x lq_env \<Rightarrow> address \<Rightarrow> nat \<Rightarrow> nat \<Rightarrow> nat \<Rightarrow> bool \<Rightarrow> bool \<Rightarrow> nat \<Rightarrow> nat \<Rightarrow> 'x lq_world \<Rightarrow> (nat \<times> 'x lq_world) res" where
  "bo_adjust_record E onBehalfOf collDeposited collWithdrawal usddChange isDebtIncrease isRecoveryMode price
     netDebtChange w =
     (let (collChange, isCollIncrease) = bo_getCollChange collDeposited collWithdrawal;
          d = debt (Troves (tm_of w) onBehalfOf); c = coll (Troves (tm_of w) onBehalfOf) in
      rbind (computeCR c d price) (\<lambda>oldICR.
      rbind (bo_getNewICRFromTroveChange c d collChange isCollIncrease netDebtChange isDebtIncrease price) (\<lambda>newICR.
      rbind (sol_assert (collWithdrawal \<le> c)) (\<lambda>_.
      rbind (bo_requireValidAdjustmentInCurrentMode isRecoveryMode collWithdrawal isDebtIncrease oldICR newICR
               collChange isCollIncrease netDebtChange price w) (\<lambda>_.
      rbind (if \<not> isDebtIncrease \<and> usddChange > 0 then
               rbind (getNetDebt_sol d) (\<lambda>nd.
               rbind (u_sub nd netDebtChange) (\<lambda>rest.
               rbind (bo_requireAtLeastMinNetDebt rest) (\<lambda>_.
               rbind (bo_requireValidUSDDRepayment d netDebtChange) (\<lambda>_.
               bo_requireSufficientUSDDBalance (usdd (others (sysw w))) onBehalfOf netDebtChange))))
             else Inr ()) (\<lambda>_.
      rbind (bo_updateTroveFromAdjustment E onBehalfOf collChange isCollIncrease netDebtChange isDebtIncrease (tm_of w)) (\<lambda>t1.
      rbind (tm_updateStakeAndTotalStakes (this_bo E) onBehalfOf t1) (\<lambda>(stake, t2).
      rbind (bo_getNewNominalICRFromTroveChange c d collChange isCollIncrease netDebtChange isDebtIncrease) (\<lambda>newNICR.
      Inr (newNICR, set_tm t2 w))))))))))"

definition bo_adjustTrove ::
  "'x lq_env \<Rightarrow> nat \<Rightarrow> address \<Rightarrow> address \<Rightarrow> nat \<Rightarrow> nat \<Rightarrow> nat \<Rightarrow> bool \<Rightarrow> address \<Rightarrow> address \<Rightarrow> nat \<Rightarrow> 'x lq_world \<Rightarrow>
   'x lq_world res option" where
  "bo_adjustTrove E now sender onBehalfOf collDeposited collWithdrawal usddChange isDebtIncrease upperHint lowerHint
     maxFeePercentage w =
     (case rbind (bo_adjust_guards E sender onBehalfOf collDeposited usddChange) (\<lambda>_.
           rbind (bo_adjust_prepare E now onBehalfOf collDeposited collWithdrawal usddChange isDebtIncrease
                    maxFeePercentage w) (\<lambda>(isRecoveryMode, price, netDebtChange, w1).
           rbind (bo_adjust_record E onBehalfOf collDeposited collWithdrawal usddChange isDebtIncrease isRecoveryMode
                    price netDebtChange w1) (\<lambda>(newNICR, w2). Inr (netDebtChange, newNICR, w2)))) of
        Inl e \<Rightarrow> Some (Inl e)
      | Inr (netDebtChange, newNICR, w2) \<Rightarrow>
          bo_list_then (reInsert (this_bo E) (getNominalICR (tm_of w2)) (slist (others (sysw w2))) onBehalfOf newNICR
              upperHint lowerHint) w2
            (bo_moveTokensAndCollfromAdjustment E sender (fst (bo_getCollChange collDeposited collWithdrawal))
              (snd (bo_getCollChange collDeposited collWithdrawal)) usddChange isDebtIncrease netDebtChange))"

text \<open>The functions that adjust one thing.\<close>

definition bo_addColl :: "'x lq_env \<Rightarrow> nat \<Rightarrow> address \<Rightarrow> nat \<Rightarrow> address \<Rightarrow> address \<Rightarrow> 'x lq_world \<Rightarrow> 'x lq_world res option" where
  "bo_addColl E now sender collAmount upperHint lowerHint w =
     bo_adjustTrove E now sender sender collAmount 0 0 False upperHint lowerHint 0 w"

definition bo_moveCollGainToTrove ::
  "'x lq_env \<Rightarrow> nat \<Rightarrow> address \<Rightarrow> address \<Rightarrow> nat \<Rightarrow> address \<Rightarrow> address \<Rightarrow> 'x lq_world \<Rightarrow> 'x lq_world res option" where
  "bo_moveCollGainToTrove E now sender borrower collAmount upperHint lowerHint w =
     (case bo_requireCallerIsStabilityPool E sender of
        Inl e \<Rightarrow> Some (Inl e)
      | Inr _ \<Rightarrow> bo_adjustTrove E now sender borrower collAmount 0 0 False upperHint lowerHint 0 w)"

definition bo_withdrawColl :: "'x lq_env \<Rightarrow> nat \<Rightarrow> address \<Rightarrow> nat \<Rightarrow> address \<Rightarrow> address \<Rightarrow> 'x lq_world \<Rightarrow> 'x lq_world res option" where
  "bo_withdrawColl E now sender collWithdrawal upperHint lowerHint w =
     bo_adjustTrove E now sender sender 0 collWithdrawal 0 False upperHint lowerHint 0 w"

definition bo_withdrawUSDD_external ::
  "'x lq_env \<Rightarrow> nat \<Rightarrow> address \<Rightarrow> nat \<Rightarrow> nat \<Rightarrow> address \<Rightarrow> address \<Rightarrow> 'x lq_world \<Rightarrow> 'x lq_world res option" where
  "bo_withdrawUSDD_external E now sender maxFeePercentage usddAmount upperHint lowerHint w =
     bo_adjustTrove E now sender sender 0 0 usddAmount True upperHint lowerHint maxFeePercentage w"

definition bo_repayUSDD_external ::
  "'x lq_env \<Rightarrow> nat \<Rightarrow> address \<Rightarrow> nat \<Rightarrow> address \<Rightarrow> address \<Rightarrow> 'x lq_world \<Rightarrow> 'x lq_world res option" where
  "bo_repayUSDD_external E now sender usddAmount upperHint lowerHint w =
     bo_adjustTrove E now sender sender 0 0 usddAmount False upperHint lowerHint 0 w"

section \<open>Closing a trove and claiming a surplus\<close>

text \<open>The owner is only used by the first guard; everything else acts on \<open>msg.sender\<close>, as in the source.\<close>

definition bo_closeTrove :: "'x lq_env \<Rightarrow> address \<Rightarrow> address \<Rightarrow> 'x lq_world \<Rightarrow> 'x lq_world res" where
  "bo_closeTrove E sender onBehalfOf w =
     rbind (bo_requireCallerIsBorrowerOrGw E sender onBehalfOf) (\<lambda>_.
     rbind (bo_requireTroveisActive (tm_of w) sender) (\<lambda>_.
     rbind (fetch_price E w) (\<lambda>(price, w0).
     rbind (bo_requireNotInRecoveryMode price w0) (\<lambda>_.
     rbind (tm_applyPendingRewards E (this_bo E) sender w0) (\<lambda>w1.
     let c = coll (Troves (tm_of w1) sender); d = debt (Troves (tm_of w1) sender) in
     rbind (u_sub d USDD_GAS_COMPENSATION) (\<lambda>own.
     rbind (bo_requireSufficientUSDDBalance (usdd (others (sysw w1))) sender own) (\<lambda>_.
     rbind (bo_getNewTCRFromTroveChange c False d False price w1) (\<lambda>newTCR.
     rbind (bo_requireNewTCRisAboveCCR newTCR) (\<lambda>_.
     rbind (tm_removeStake (this_bo E) sender (tm_of w1)) (\<lambda>t.
     rbind (tm_closeTrove E (this_bo E) sender (set_tm t w1)) (\<lambda>w2.
     rbind (bo_repayUSDD E sender own w2) (\<lambda>w3.
     rbind (bo_repayUSDD E (gasPool_address E) USDD_GAS_COMPENSATION w3) (\<lambda>w4.
     bo_sendColl E sender c w4)))))))))))))"

definition bo_claimCollateral :: "'x lq_env \<Rightarrow> address \<Rightarrow> address \<Rightarrow> 'x lq_world \<Rightarrow> 'x lq_world res" where
  "bo_claimCollateral E sender onBehalfOf w =
     rbind (bo_requireCallerIsBorrowerOrGw E sender onBehalfOf) (\<lambda>_.
     cs_claimColl E (this_bo E) onBehalfOf sender w)"

end
