(* ===== verification/Redemption.thy ===== *)
theory Redemption
  imports Liquidation
begin

text \<open>
  Redemption in \<open>contracts/TroveManager.sol\<close>: exchanging USDD for the collateral of the troves with the lowest ratio.
  The search for the first trove and the loop over the troves follow the links of the sorted list, so both are
  partial functions: \<open>None\<close> means that they do not return.
\<close>

section \<open>Guards\<close>

definition BOOTSTRAP_PERIOD :: nat where
  "BOOTSTRAP_PERIOD = 14 * 86400"

definition requireCallerIsDepositorOrGw :: "'x lq_env \<Rightarrow> address \<Rightarrow> address \<Rightarrow> unit res" where
  "requireCallerIsDepositorOrGw E sender depositor =
     require (sender = depositor \<or> sender = tm_wETHGatewayAddress E)
       ''TroveManager: Caller must be the depositor or gateway''"

definition requireUSDDBalanceCoversRedemption :: "usdd_token \<Rightarrow> address \<Rightarrow> nat \<Rightarrow> unit res" where
  "requireUSDDBalanceCoversRedemption u redeemer amount =
     require (usdd_balances u redeemer \<ge> amount)
       ''TroveManager: Requested redemption amount must be <= user's USDD token balance''"

definition requireAmountGreaterThanZero :: "nat \<Rightarrow> unit res" where
  "requireAmountGreaterThanZero amount = require (amount > 0) ''TroveManager: Amount must be greater than zero''"

definition requireTCRoverMCR :: "nat \<Rightarrow> 'x lq_world \<Rightarrow> unit res" where
  "requireTCRoverMCR price w =
     rbind (getTCR_sol price w) (\<lambda>TCR. require (TCR \<ge> MCR) ''TroveManager: Cannot redeem when TCR < MCR'')"

definition requireAfterBootstrapPeriod :: "'x lq_env \<Rightarrow> nat \<Rightarrow> unit res" where
  "requireAfterBootstrapPeriod E now =
     rbind (u_add (deploymentStartTime E) BOOTSTRAP_PERIOD) (\<lambda>t.
     require (now \<ge> t) ''TroveManager: Redemptions are not allowed during bootstrap phase'')"

definition requireValidMaxFeePercentage :: "nat \<Rightarrow> unit res" where
  "requireValidMaxFeePercentage maxFeePercentage =
     require (maxFeePercentage \<ge> REDEMPTION_FEE_FLOOR \<and> maxFeePercentage \<le> DECIMAL_PRECISION)
       ''Max fee percentage must be between 0.5% and 100%''"

section \<open>One trove\<close>

text \<open>\<open>_redeemCloseTrove\<close>: the reserve is burned and the remaining collateral waits in the surplus pool.\<close>

definition redeemCloseTrove :: "'x lq_env \<Rightarrow> address \<Rightarrow> nat \<Rightarrow> nat \<Rightarrow> 'x lq_world \<Rightarrow> 'x lq_world res" where
  "redeemCloseTrove E b usddAmount collAmount w =
     rbind (usdd_burn (this_tm E) (gasPool_address E) usddAmount (usdd (others (sysw w)))) (\<lambda>u.
     rbind (ap_decreaseUSDDDebt (this_tm E) usddAmount (apool (others (sysw w)))) (\<lambda>a.
     rbind (cs_accountSurplus (this_tm E) b collAmount (cspool w)) (\<lambda>c.
     rbind (ap_sendColl (spe E) (this_tm E) (this_tm E) collAmount ((others (sysw w))\<lparr>usdd := u, apool := a\<rparr>)) (\<lambda>p.
     cs_receiveColl E (this_tm E) collAmount (set_peers p (w\<lparr>cspool := c\<rparr>))))))"

text \<open>The lot, its worth in collateral, and what the trove is left with.\<close>

definition redemption_lot :: "nat \<Rightarrow> nat \<Rightarrow> trove \<Rightarrow> (nat \<times> nat \<times> nat \<times> nat) res" where
  "redemption_lot maxUSDDamount price t =
     rbind (u_sub (debt t) USDD_GAS_COMPENSATION) (\<lambda>net.
     let USDDLot = min_u maxUSDDamount net in
     rbind (u_mul USDDLot DECIMAL_PRECISION) (\<lambda>m.
     rbind (u_div m price) (\<lambda>CollLot.
     rbind (u_sub (debt t) USDDLot) (\<lambda>newDebt.
     rbind (u_sub (coll t) CollLot) (\<lambda>newColl. Inr (USDDLot, CollLot, newDebt, newColl))))))"

definition redeem_whole_trove :: "'x lq_env \<Rightarrow> address \<Rightarrow> nat \<Rightarrow> 'x lq_world \<Rightarrow> 'x lq_world res" where
  "redeem_whole_trove E b newColl w =
     rbind (removeStake b (tm_of w)) (\<lambda>t.
     rbind (closeTrove E b closedByRedemption (set_tm t w)) (\<lambda>w1.
     redeemCloseTrove E b USDD_GAS_COMPENSATION newColl w1))"

definition redeem_part_of_trove :: "address \<Rightarrow> nat \<Rightarrow> nat \<Rightarrow> sorted_troves \<Rightarrow> 'x lq_world \<Rightarrow> 'x lq_world res" where
  "redeem_part_of_trove b newDebt newColl s w =
     rbind (updateStakeAndTotalStakes b (upd_trove b (\<lambda>t. t\<lparr>debt := newDebt, coll := newColl\<rparr>) (tm_of w))) (\<lambda>(stake, t).
     Inr (set_peers ((others (sysw w))\<lparr>tmanager := t, slist := s\<rparr>) w))"

text \<open>The result is \<open>(USDDLot, CollLot, cancelledPartial)\<close> with the new state.\<close>

definition redeemCollateralFromTrove ::
  "'x lq_env \<Rightarrow> address \<Rightarrow> nat \<Rightarrow> nat \<Rightarrow> address \<Rightarrow> address \<Rightarrow> nat \<Rightarrow> 'x lq_world \<Rightarrow>
   (nat \<times> nat \<times> bool \<times> 'x lq_world) res option" where
  "redeemCollateralFromTrove E b maxUSDDamount price upperHint lowerHint hintNICR w =
     (case redemption_lot maxUSDDamount price (Troves (tm_of w) b) of
        Inl e \<Rightarrow> Some (Inl e)
      | Inr (USDDLot, CollLot, newDebt, newColl) \<Rightarrow>
          if newDebt = USDD_GAS_COMPENSATION then
            Some (rbind (redeem_whole_trove E b newColl w) (\<lambda>w'. Inr (USDDLot, CollLot, False, w')))
          else
            (case rbind (computeNominalCR newColl newDebt) (\<lambda>newNICR.
                  if newNICR \<noteq> hintNICR then Inr (newNICR, True)
                  else rbind (getNetDebt_sol newDebt) (\<lambda>nd. Inr (newNICR, nd < MIN_NET_DEBT))) of
               Inl e \<Rightarrow> Some (Inl e)
             | Inr (newNICR, cancelled) \<Rightarrow>
                 if cancelled then Some (Inr (USDDLot, CollLot, True, w))
                 else map_option (\<lambda>r. rbind r (\<lambda>s.
                        rbind (redeem_part_of_trove b newDebt newColl s w) (\<lambda>w'. Inr (USDDLot, CollLot, False, w'))))
                      (reInsert (this_tm E) (getNominalICR (tm_of w)) (slist (others (sysw w))) b newNICR
                         upperHint lowerHint)))"

section \<open>Where a redemption starts\<close>

definition isValidFirstRedemptionHint :: "address \<Rightarrow> nat \<Rightarrow> 'x lq_world \<Rightarrow> bool res" where
  "isValidFirstRedemptionHint hint price w =
     (let s = slist (others (sysw w)) in
      if hint = 0 \<or> \<not> containsNode s hint then Inr False
      else rbind (getCurrentICR (tm_of w) hint price) (\<lambda>ICR.
        if ICR < MCR then Inr False
        else let nextTrove = getNext s hint in
          if nextTrove = 0 then Inr True
          else rbind (getCurrentICR (tm_of w) nextTrove price) (\<lambda>ICR'. Inr (ICR' < MCR))))"

text \<open>From the tail of the list to the first trove with the minimum ratio.\<close>

partial_function (option) first_redeemable :: "nat \<Rightarrow> address \<Rightarrow> 'x lq_world \<Rightarrow> address res option" where
  "first_redeemable price b w =
     (if b = 0 then Some (Inr b)
      else case getCurrentICR (tm_of w) b price of
        Inl e \<Rightarrow> Some (Inl e)
      | Inr ICR \<Rightarrow>
          if ICR < MCR then first_redeemable price (getPrev (slist (others (sysw w))) b) w else Some (Inr b))"

definition redemption_start :: "address \<Rightarrow> nat \<Rightarrow> 'x lq_world \<Rightarrow> address res option" where
  "redemption_start hint price w =
     (case isValidFirstRedemptionHint hint price w of
        Inl e \<Rightarrow> Some (Inl e)
      | Inr valid \<Rightarrow> if valid then Some (Inr hint) else first_redeemable price (tail (slist (others (sysw w)))) w)"

section \<open>The loop\<close>

text \<open>
  \<open>b\<close> is the current borrower, \<open>n\<close> the iterations left; the result is
  \<open>(totalUSDDToRedeem, totalETHDrawn)\<close> with the state.
\<close>

partial_function (option) redeem_loop ::
  "'x lq_env \<Rightarrow> nat \<Rightarrow> address \<Rightarrow> address \<Rightarrow> nat \<Rightarrow> address \<Rightarrow> nat \<Rightarrow> nat \<Rightarrow> nat \<Rightarrow> nat \<Rightarrow> 'x lq_world \<Rightarrow>
   (nat \<times> nat \<times> 'x lq_world) res option" where
  "redeem_loop E price upperHint lowerHint hintNICR b n remaining redeemed drawn w =
     (if b = 0 \<or> remaining = 0 \<or> n = 0 then Some (Inr (redeemed, drawn, w))
      else let nextUser = getPrev (slist (others (sysw w))) b in
      case applyPendingRewards E b w of
        Inl e \<Rightarrow> Some (Inl e)
      | Inr w1 \<Rightarrow>
          (case redeemCollateralFromTrove E b remaining price upperHint lowerHint hintNICR w1 of
             None \<Rightarrow> None
           | Some (Inl e) \<Rightarrow> Some (Inl e)
           | Some (Inr (USDDLot, CollLot, cancelledPartial, w2)) \<Rightarrow>
               if cancelledPartial then Some (Inr (redeemed, drawn, w2))
               else
                 (case rbind (u_add redeemed USDDLot) (\<lambda>r. rbind (u_add drawn CollLot) (\<lambda>d.
                       rbind (u_sub remaining USDDLot) (\<lambda>m. Inr (r, d, m)))) of
                    Inl e \<Rightarrow> Some (Inl e)
                  | Inr (r, d, m) \<Rightarrow>
                      redeem_loop E price upperHint lowerHint hintNICR nextUser (n - 1) m r d w2)))"

section \<open>The redemption\<close>

text \<open>The guards and the price; the result is \<open>(price, totalUSDDSupplyAtStart)\<close>.\<close>

definition redeem_check ::
  "'x lq_env \<Rightarrow> nat \<Rightarrow> address \<Rightarrow> address \<Rightarrow> nat \<Rightarrow> nat \<Rightarrow> 'x lq_world \<Rightarrow> (nat \<times> nat \<times> 'x lq_world) res" where
  "redeem_check E now sender depositor usddAmount maxFeePercentage w =
     rbind (requireCallerIsDepositorOrGw E sender depositor) (\<lambda>_.
     rbind (requireValidMaxFeePercentage maxFeePercentage) (\<lambda>_.
     rbind (requireAfterBootstrapPeriod E now) (\<lambda>_.
     rbind (fetch_price E w) (\<lambda>(price, w0).
     rbind (requireTCRoverMCR price w0) (\<lambda>_.
     rbind (requireAmountGreaterThanZero usddAmount) (\<lambda>_.
     rbind (requireUSDDBalanceCoversRedemption (usdd (others (sysw w0))) depositor usddAmount) (\<lambda>_.
     rbind (getEntireSystemDebt w0) (\<lambda>totalUSDDSupplyAtStart.
     rbind (sol_assert (usdd_balances (usdd (others (sysw w0))) depositor \<le> totalUSDDSupplyAtStart)) (\<lambda>_.
     Inr (price, totalUSDDSupplyAtStart, w0))))))))))"

text \<open>The base rate, the fee for the stakers, the burned USDD and the collateral for the redeemer.\<close>

definition redeem_finish ::
  "'x lq_env \<Rightarrow> nat \<Rightarrow> address \<Rightarrow> address \<Rightarrow> nat \<Rightarrow> nat \<Rightarrow> nat \<Rightarrow> nat \<Rightarrow> nat \<Rightarrow> 'x lq_world \<Rightarrow> 'x lq_world res" where
  "redeem_finish E now sender depositor maxFeePercentage price totalUSDDSupplyAtStart redeemed drawn w =
     rbind (require (drawn > 0) ''TroveManager: Unable to redeem any amount'') (\<lambda>_.
     rbind (updateBaseRateFromRedemption now drawn price totalUSDDSupplyAtStart (tm_of w)) (\<lambda>(_, t).
     rbind (getRedemptionRate_sol t) (\<lambda>rate.
     rbind (calcRedemptionFee rate drawn) (\<lambda>CollFee.
     rbind (requireUserAcceptsFee CollFee drawn maxFeePercentage) (\<lambda>_.
     rbind (ap_sendColl (spe E) (this_tm E) (this_stk (stke E)) CollFee (others (sysw (set_tm t w)))) (\<lambda>p1.
     rbind (increaseF_COLL (stke E) (this_tm E) (collToken_address E) CollFee (staking w)) (\<lambda>s.
     rbind (u_sub drawn CollFee) (\<lambda>CollToSendToRedeemer.
     rbind (usdd_burn (this_tm E) depositor redeemed (usdd p1)) (\<lambda>u.
     rbind (ap_decreaseUSDDDebt (this_tm E) redeemed (apool p1)) (\<lambda>a.
     rbind (ap_sendColl (spe E) (this_tm E) sender CollToSendToRedeemer (p1\<lparr>usdd := u, apool := a\<rparr>)) (\<lambda>p2.
     Inr (set_peers p2 (w\<lparr>staking := s\<rparr>)))))))))))))"

definition tm_redeemCollateral ::
  "'x lq_env \<Rightarrow> nat \<Rightarrow> address \<Rightarrow> address \<Rightarrow> nat \<Rightarrow> address \<Rightarrow> address \<Rightarrow> address \<Rightarrow> nat \<Rightarrow> nat \<Rightarrow> nat \<Rightarrow> 'x lq_world \<Rightarrow>
   'x lq_world res option" where
  "tm_redeemCollateral E now sender depositor usddAmount firstHint upperHint lowerHint hintNICR maxIterations
     maxFeePercentage w =
     (case redeem_check E now sender depositor usddAmount maxFeePercentage w of
        Inl e \<Rightarrow> Some (Inl e)
      | Inr (price, totalUSDDSupplyAtStart, w0) \<Rightarrow>
          (case redemption_start firstHint price w0 of
             None \<Rightarrow> None
           | Some (Inl e) \<Rightarrow> Some (Inl e)
           | Some (Inr b) \<Rightarrow>
               map_option (\<lambda>r. rbind r (\<lambda>(redeemed, drawn, w1).
                 redeem_finish E now sender depositor maxFeePercentage price totalUSDDSupplyAtStart redeemed drawn w1))
                 (redeem_loop E price upperHint lowerHint hintNICR b
                    (if maxIterations = 0 then 2 ^ 256 - 1 else maxIterations) usddAmount 0 0 w0)))"

end
