(* ===== verification/System_Books.thy ===== *)
theory System_Books
  imports Liquidation_Reserve Borrower_Operations Redemption
begin

text \<open>
  The books of the whole system: the active pool records what the troves owe and hold, the default pool covers
  the rewards that troves have not collected yet, and every USDD in circulation is somebody's recorded debt.
  This file has the invariant and its preservation by the operations of TroveManager and BorrowerOperations; almost every
  operation rewrites one trove and the pools, which one lemma covers.
\<close>

section \<open>The invariant\<close>

definition debts_of :: "trove_manager \<Rightarrow> address \<Rightarrow> nat" where
  "debts_of t b = debt (Troves t b)"

definition colls_of :: "trove_manager \<Rightarrow> address \<Rightarrow> nat" where
  "colls_of t b = coll (Troves t b)"

definition active_debt :: "'x lq_world \<Rightarrow> nat" where
  "active_debt w = ap_USDDDebt (apool (others (sysw w)))"

definition active_coll :: "'x lq_world \<Rightarrow> nat" where
  "active_coll w = ap_balance (apool (others (sysw w)))"

text \<open>
  \<open>D\<close> and \<open>C\<close> are debt and collateral that have left the troves and not yet the active pool: both are zero
  between calls, and they grow along the loops of a liquidation and a redemption.
\<close>

definition sys_inv :: "nat \<Rightarrow> nat \<Rightarrow> 'x lq_world \<Rightarrow> bool" where
  "sys_inv D C w \<longleftrightarrow>
     finite (holders (debts_of (tm_of w))) \<and> finite (holders (colls_of (tm_of w))) \<and>
     active_debt w = held (debts_of (tm_of w)) + D \<and> active_coll w = held (colls_of (tm_of w)) + C \<and>
     usdd_supply w = sys_debt w \<and> reserve_ok False w \<and>
     (\<forall>b. status (Troves (tm_of w) b) \<noteq> active \<longrightarrow> debt (Troves (tm_of w) b) = 0 \<and> coll (Troves (tm_of w) b) = 0)"

section \<open>Rewriting one trove\<close>

definition trove_write :: "address \<Rightarrow> nat \<Rightarrow> nat \<Rightarrow> nat \<Rightarrow> trove_manager \<Rightarrow> trove_manager \<Rightarrow> bool" where
  "trove_write b d c k t t' \<longleftrightarrow> (\<forall>x. x \<noteq> b \<longrightarrow> same_trove t t' x) \<and> same_terms t t' \<and>
     debt (Troves t' b) = d \<and> coll (Troves t' b) = c \<and> stake (Troves t' b) = k \<and>
     totalStakes t' + stake (Troves t b) = totalStakes t + k \<and>
     (k = 0 \<or> status (Troves t' b) = active \<and> coll_snaps t' b = L_COLL t \<or> k = stake (Troves t b) \<and>
        status (Troves t' b) = status (Troves t b) \<and> coll_snaps t' b = coll_snaps t b) \<and>
     (status (Troves t' b) = active \<longrightarrow> coll_snaps t' b \<le> L_COLL t \<or>
        status (Troves t b) = active \<and> coll_snaps t' b = coll_snaps t b) \<and>
     (status (Troves t' b) = active \<or> d = 0 \<and> c = 0 \<or> status (Troves t b) \<noteq> active \<and> d = debt (Troves t b) \<and> c = coll (Troves t b))"

lemma sys_write:
  assumes inv: "sys_inv D C w" and wr: "trove_write b d c k (tm_of w) (tm_of w')"
    and pay: "dp_balance (dpool w) = dp_balance (dpool w') + paid"
      "paid * DECIMAL_PRECISION \<le> claims (stakes_of (tm_of w)) (coll_snaps (tm_of w)) (L_COLL (tm_of w)) b"
      "paid = 0 \<or> coll_snaps (tm_of w') b = L_COLL (tm_of w) \<or> k = 0"
    and ap: "active_debt w' + debt (Troves (tm_of w) b) + D = active_debt w + d + D'"
      "active_coll w' + coll (Troves (tm_of w) b) + C = active_coll w + c + C'"
    and circ: "usdd_supply w' = sys_debt w'"
  shows "sys_inv D' C' w'"
proof -
  let ?t = "tm_of w" and ?t' = "tm_of w'"
  have same: "\<And>x. x \<noteq> b \<Longrightarrow> same_trove ?t ?t' x" and terms: "same_terms ?t ?t'"
    and new: "debt (Troves ?t' b) = d" "coll (Troves ?t' b) = c" "stake (Troves ?t' b) = k"
    and ts: "totalStakes ?t' + stake (Troves ?t b) = totalStakes ?t + k" using wr by (auto simp: trove_write_def)
  have ds: "debts_of ?t' = (debts_of ?t)(b := d)" and cs: "colls_of ?t' = (colls_of ?t)(b := c)"
    and ss: "stakes_of ?t' = (stakes_of ?t)(b := k)" and sn: "coll_snaps ?t' = (coll_snaps ?t)(b := coll_snaps ?t' b)"
    using same new by (auto simp: fun_eq_iff debts_of_def colls_of_def stakes_of_def coll_snaps_def same_trove_def)
  have fin: "finite (holders (debts_of ?t))" "finite (holders (colls_of ?t))" and r: "reserve_of False ?t (dpool w)"
    using inv by (auto simp: sys_inv_def reserve_ok_def)
  have pot: "pot_ok (stakes_of ?t) (coll_snaps ?t) (L_COLL ?t) (lastETHError_Redistribution ?t) (dp_balance (dpool w))"
    using r by (simp add: reserve_of_def)
  then have fs: "finite (holders (stakes_of ?t))" by (simp add: pot_ok_def)
  have "active_debt w' = held (debts_of ?t') + D'" "active_coll w' = held (colls_of ?t') + C'"
    using held_upd[OF fin(1), of b d] held_upd[OF fin(2), of b c] ap inv
    by (simp_all add: ds cs sys_inv_def debts_of_def colls_of_def)
  moreover have "totalStakes ?t' = held (stakes_of ?t')"
    using held_upd[OF fs, of b k] ts r by (simp add: ss reserve_of_def stakes_of_def)
  moreover have "(stake (Troves ?t' x) \<noteq> 0 \<longrightarrow> status (Troves ?t' x) = active) \<and>
      (status (Troves ?t' x) = active \<longrightarrow> coll_snaps ?t' x \<le> L_COLL ?t')" for x
    using r same[of x] terms wr new(3) by (cases "x = b")
      (auto simp: reserve_of_def same_trove_def same_terms_def trove_write_def coll_snaps_def)
  moreover have "status (Troves ?t' x) \<noteq> active \<longrightarrow> debt (Troves ?t' x) = 0 \<and> coll (Troves ?t' x) = 0" for x
    using inv same[of x] wr new by (cases "x = b") (auto simp: sys_inv_def same_trove_def trove_write_def)
  moreover have "pot_ok (stakes_of ?t') (coll_snaps ?t') (L_COLL ?t) (lastETHError_Redistribution ?t) (dp_balance (dpool w'))"
  proof (cases "k = 0 \<or> coll_snaps ?t' b = L_COLL ?t")
    case True
    then show ?thesis using pot_ok_write[OF pot pay(1,2), of k "coll_snaps ?t' b"] by (subst sn) (auto simp: ss)
  next
    case False
    with wr pay(3) have "k = stakes_of ?t b" "coll_snaps ?t' b = coll_snaps ?t b" "paid = 0"
      by (auto simp: trove_write_def stakes_of_def)
    then have "stakes_of ?t' = stakes_of ?t" "coll_snaps ?t' = coll_snaps ?t" using ss sn by simp_all
    then show ?thesis using pot pay(1) \<open>paid = 0\<close> by simp
  qed
  ultimately show ?thesis using fin terms circ
    by (simp add: sys_inv_def ds cs reserve_ok_def reserve_of_def same_terms_def)
qed

text \<open>Operations that leave the books alone.\<close>

definition same_ledger :: "'x lq_world \<Rightarrow> 'x lq_world \<Rightarrow> bool" where
  "same_ledger w w' \<longleftrightarrow> (\<forall>x. same_trove (tm_of w) (tm_of w') x) \<and> same_terms (tm_of w) (tm_of w') \<and>
     totalStakes (tm_of w') = totalStakes (tm_of w) \<and> active_debt w' = active_debt w \<and> active_coll w' = active_coll w \<and>
     dp_USDDDebt (dpool w') = dp_USDDDebt (dpool w) \<and> dp_balance (dpool w') = dp_balance (dpool w) \<and>
     usdd_supply w' = usdd_supply w"

lemma same_ledger_refl [simp]: "same_ledger w w"
  by (simp add: same_ledger_def)

lemma same_ledger_inv:
  assumes "same_ledger w w'" and "sys_inv D C w"
  shows "sys_inv D C w'"
proof -
  have "sys_debt w = active_debt w + dp_USDDDebt (dpool w)" for w :: "'x lq_world"
    by (simp add: sys_debt_def active_debt_def)
  with assms show ?thesis
    by (intro sys_write[OF assms(2), of 0 "debt (Troves (tm_of w) 0)" "coll (Troves (tm_of w) 0)" "stake (Troves (tm_of w) 0)" _ 0])
      (auto simp: same_ledger_def trove_write_def same_trove_def sys_inv_def coll_snaps_def sys_debt_def active_debt_def)
qed

section \<open>Liquidations\<close>

lemma sys_debt_active: "sys_debt w = active_debt w + dp_USDDDebt (dpool w)"
  by (simp add: sys_debt_def active_debt_def)

lemma sys_coll_active: "sys_coll w = active_coll w + dp_balance (dpool w)"
  by (simp add: sys_coll_def active_coll_def)

lemma closes_trove_inv:
  assumes "closes_trove b v w w'" and "sys_inv D C w"
  shows "sys_inv (D + entireTroveDebt v) (C + entireTroveColl v) w'"
proof -
  from assms(1) obtain pd pc where p: "getPendingCollReward (tm_of w) b = Inr pc"
    "dp_USDDDebt (dpool w) = dp_USDDDebt (dpool w') + pd" "dp_balance (dpool w) = dp_balance (dpool w') + pc"
    "entireTroveDebt v = debt (Troves (tm_of w) b) + pd" "entireTroveColl v = coll (Troves (tm_of w) b) + pc"
    by (auto simp: closes_trove_def)
  have bk: "sys_debt w' = sys_debt w" "sys_coll w' = sys_coll w" "usdd_supply w' = usdd_supply w"
    using assms(1) by (auto simp: closes_trove_def same_books_def sys_debt_def sys_coll_def usdd_supply_def)
  have "trove_write b 0 0 0 (tm_of w) (tm_of w')" using assms(1) by (auto simp: closes_trove_def trove_write_def)
  then show ?thesis
    by (rule sys_write[OF assms(2) _ p(3) coll_reward_le[OF p(1)]])
      (use bk p assms(2) in \<open>simp_all add: sys_debt_active sys_coll_active sys_inv_def\<close>)
qed

lemma closes_many_inv: "closes_many p B T S w w' \<Longrightarrow> sys_inv D C w \<Longrightarrow> sys_inv (D + T) (C + S) w'"
proof (induction arbitrary: D C rule: closes_many.induct)
  case (more w b k v w' T S w'')
  from more.IH[OF closes_trove_inv[OF more.hyps(3) more.prems]] show ?case by (simp add: ac_simps)
qed simp

lemma fetch_price_ledger: "fetch_price E w = Inr (p, w0) \<Longrightarrow> same_ledger w w0"
  using fetch_price_facts[of E w p w0] by (simp add: same_ledger_def active_debt_def active_coll_def usdd_supply_def)

lemma call_inv:
  assumes "liq_exec E now sender call w = Inr w'" and "sys_inv 0 0 w"
  shows "sys_inv 0 0 w'"
proof -
  obtain p r t w0 w1 w2 w3 where res: "call_result E w w' p r t w0 w1 w2 w3" by (rule call_facts[OF assms(1)])
  then have f: "fetch_price E w = Inr (p, w0)"
    and c: "closes_many p (liq_bound r) (totalDebtInSequence t) (totalCollInSequence t) w0 w1"
    and t: "totals_ok t" and s: "settled t w1 w'" and d: "dpool w2 = dpool w1" "dpool w' = dpool w3" by (auto simp: call_result_def)
  have i: "sys_inv (totalDebtInSequence t) (totalCollInSequence t) w1"
    using closes_many_inv[OF c same_ledger_inv[OF fetch_price_ledger[OF f] assms(2)]] by simp
  have "dp_USDDDebt (dpool w') = dp_USDDDebt (dpool w1) + totalDebtToRedistribute t \<and>
      dp_balance (dpool w') = dp_balance (dpool w1) + totalCollToRedistribute t"
    using res t d by (auto simp: call_result_def redistributed_def totals_ok_def)
  moreover have "debts_of (tm_of w') = debts_of (tm_of w1)" "colls_of (tm_of w') = colls_of (tm_of w1)"
    using s by (simp_all add: settled_def debts_of_def[abs_def] colls_of_def[abs_def])
  moreover have "reserve_ok False w'" by (rule call_reserve[OF assms(1)]) (use assms(2) in \<open>simp add: sys_inv_def\<close>)
  moreover have "Troves (tm_of w') = Troves (tm_of w1)" using s by (simp add: settled_def)
  ultimately show ?thesis using i s t by (simp add: sys_inv_def settled_def totals_ok_def sys_debt_active sys_coll_active)
qed

section \<open>Pending rewards\<close>

lemma apply_inv:
  assumes "applyPendingRewards E b w = Inr w'" and "sys_inv D C w"
  shows "sys_inv D C w'"
proof (cases "hasPendingRewards (tm_of w) b")
  case True
  let ?t = "\<lambda>c d. updateTroveRewardSnapshots b (upd_trove b (\<lambda>t. t\<lparr>coll := c, debt := d\<rparr>) (tm_of w))"
  from True assms(1) obtain pd pc c d where p: "getPendingCollReward (tm_of w) b = Inr pc"
    and c: "u_add (coll (Troves (tm_of w) b)) pc = Inr c" and d: "u_add (debt (Troves (tm_of w) b)) pd = Inr d"
    and m: "movePendingTroveRewardsToActivePool E pd pc (set_tm (?t c d) w) = Inr w'"
    unfolding applyPendingRewards_def by (auto elim!: rbindE)
  note mf = movePending_facts[OF m]
  have act: "status (Troves (tm_of w) b) = active" using True by (simp add: hasPendingRewards_def split: if_splits)
  have wr: "trove_write b d c (stake (Troves (tm_of w) b)) (tm_of w) (tm_of w')"
    using mf(1) act by (auto simp: trove_write_def same_trove_def same_terms_def updateTroveRewardSnapshots_def upd_trove_def coll_snaps_def)
  have sn: "coll_snaps (tm_of w') b = L_COLL (tm_of w)"
    using mf(1) by (simp add: updateTroveRewardSnapshots_def upd_trove_def coll_snaps_def)
  have bk: "sys_debt w' = sys_debt w" "sys_coll w' = sys_coll w" "usdd_supply w' = usdd_supply w"
    using mf(2) by (auto simp: same_books_def sys_debt_def sys_coll_def usdd_supply_def)
  have dp: "dp_USDDDebt (dpool w) = dp_USDDDebt (dpool w') + pd" "dp_balance (dpool w) = dp_balance (dpool w') + pc"
    using mf(3,4) by simp_all
  show ?thesis
    by (rule sys_write[OF assms(2) wr dp(2) coll_reward_le[OF p]])
      (use sn bk dp c d assms(2) in \<open>simp_all add: sys_debt_active sys_coll_active sys_inv_def u_Inr_iffs\<close>)
qed (use assms in \<open>simp add: applyPendingRewards_def\<close>)

text \<open>Afterwards an active trove has an up-to-date collateral snapshot.\<close>

lemma apply_snap:
  assumes "applyPendingRewards E b w = Inr w'" and "reserve_ok f w" and "status (Troves (tm_of w) b) = active"
  shows "coll_snaps (tm_of w') b = L_COLL (tm_of w') \<and> status (Troves (tm_of w') b) = active"
proof (cases "hasPendingRewards (tm_of w) b")
  case True
  with assms(1) obtain pd pc t where "movePendingTroveRewardsToActivePool E pd pc (set_tm (updateTroveRewardSnapshots b t) w) = Inr w'"
    "status (Troves t b) = active"
    unfolding applyPendingRewards_def using assms(3) by (auto simp: upd_trove_def elim!: rbindE)
  with movePending_facts(1)[OF this(1)] show ?thesis by (simp add: updateTroveRewardSnapshots_def coll_snaps_def)
next
  case False
  then have "w' = w" using assms(1) by (simp add: applyPendingRewards_def)
  moreover have "coll_snaps (tm_of w) b \<le> L_COLL (tm_of w)" using assms(2,3) by (simp add: reserve_ok_def reserve_of_def)
  ultimately show ?thesis using False assms(3) by (simp add: hasPendingRewards_def coll_snaps_def)
qed

section \<open>Moving tokens\<close>

text \<open>A change of the fee part of TroveManager only.\<close>

definition tm_same :: "trove_manager \<Rightarrow> trove_manager \<Rightarrow> bool" where
  "tm_same t t' \<longleftrightarrow> Troves t' = Troves t \<and> rewardSnapshots t' = rewardSnapshots t \<and> totalStakes t' = totalStakes t \<and>
     same_terms t t' \<and> TroveOwners t' = TroveOwners t"

lemma tm_same_refl [simp]: "tm_same t t"
  by (simp add: tm_same_def)

lemma updateLastFeeOpTime_same: "updateLastFeeOpTime now t = Inr t' \<Longrightarrow> tm_same t t' \<and> baseRate t' = baseRate t"
  by (auto simp: updateLastFeeOpTime_def rbind_Inr_iff tm_same_def same_terms_def)

lemma decay_same: "decayBaseRateFromBorrowing s now t = Inr t' \<Longrightarrow> tm_same t t'"
  by (auto simp: decayBaseRateFromBorrowing_def rbind_Inr_iff tm_same_def same_terms_def dest!: updateLastFeeOpTime_same)

lemma pay_fee_supply: "pay_borrowing_fee E bo n s u = Inr (s', u') \<Longrightarrow> usdd_totalSupply u' = usdd_totalSupply u + n"
  by (auto simp: pay_borrowing_fee_def usdd_mint_def usdd_internal_mint_def rbind_Inr_iff u_Inr_iffs)

text \<open>What a token movement of BorrowerOperations leaves alone.\<close>

definition bo_frame :: "'x lq_world \<Rightarrow> 'x lq_world \<Rightarrow> bool" where
  "bo_frame w w' \<longleftrightarrow> tm_same (tm_of w) (tm_of w') \<and> dpool w' = dpool w \<and> cspool w' = cspool w \<and> pool (sysw w') = pool (sysw w) \<and>
     slist (others (sysw w')) = slist (others (sysw w))"

lemma bo_frame_trans: "bo_frame w w' \<Longrightarrow> bo_frame w' w'' \<Longrightarrow> bo_frame w w''"
  by (auto simp: bo_frame_def tm_same_def same_terms_def)

lemma trigger_fee_facts:
  assumes "bo_triggerBorrowingFee E now n maxFee w = Inr (fee, w')"
  shows "bo_frame w w' \<and> active_debt w' = active_debt w \<and> active_coll w' = active_coll w \<and> usdd_supply w' = usdd_supply w + fee"
proof -
  from assms obtain t s u where t: "decayBaseRateFromBorrowing (this_bo E) now (tm_of w) = Inr t"
    and p: "pay_borrowing_fee (stke E) (this_bo E) fee (staking w) (usdd (others (sysw w))) = Inr (s, u)"
    and w': "w' = set_usdd u (set_tm t w\<lparr>staking := s\<rparr>)"
    by (auto simp: bo_triggerBorrowingFee_def rbind_Inr_iff Let_def)
  show ?thesis using decay_same[OF t] pay_fee_supply[OF p]
    by (simp add: w' bo_frame_def set_usdd_def tm_of_def active_debt_def active_coll_def usdd_supply_def)
qed

lemma addColl_facts:
  assumes "bo_activePoolAddColl E sender n w = Inr w'"
  shows "bo_frame w w' \<and> active_debt w' = active_debt w \<and> active_coll w' = active_coll w + n \<and> usdd_supply w' = usdd_supply w"
  using assms by (auto simp: bo_activePoolAddColl_def ap_receiveColl_def rbind_Inr_iff u_Inr_iffs bo_frame_def tm_of_def
      active_debt_def active_coll_def usdd_supply_def)

lemma withdrawUSDD_facts:
  assumes "bo_withdrawUSDD E a n net w = Inr w'"
  shows "bo_frame w w' \<and> active_debt w' = active_debt w + net \<and> active_coll w' = active_coll w \<and> usdd_supply w' = usdd_supply w + n"
  using assms by (auto simp: bo_withdrawUSDD_def ap_increaseUSDDDebt_def usdd_mint_def usdd_internal_mint_def rbind_Inr_iff u_Inr_iffs
      bo_frame_def tm_of_def active_debt_def active_coll_def usdd_supply_def)

lemma repayUSDD_facts:
  assumes "bo_repayUSDD E a n w = Inr w'"
  shows "bo_frame w w' \<and> active_debt w' + n = active_debt w \<and> active_coll w' = active_coll w \<and> usdd_supply w' + n = usdd_supply w"
  using assms by (auto simp: bo_repayUSDD_def ap_decreaseUSDDDebt_def usdd_burn_def usdd_internal_burn_Inr_iff rbind_Inr_iff u_Inr_iffs
      bo_frame_def tm_of_def active_debt_def active_coll_def usdd_supply_def)

lemma sendColl_facts:
  assumes "bo_sendColl E a n w = Inr w'"
  shows "bo_frame w w' \<and> active_debt w' = active_debt w \<and> active_coll w' + n = active_coll w \<and> usdd_supply w' = usdd_supply w"
proof -
  from assms obtain p where p: "ap_sendColl (spe E) (this_bo E) a n (others (sysw w)) = Inr p" and w': "w' = set_peers p w"
    by (auto simp: bo_sendColl_def rbind_Inr_iff)
  show ?thesis using ap_sendColl_facts[OF p]
    by (simp add: w' bo_frame_def tm_of_def active_debt_def active_coll_def usdd_supply_def)
qed

lemma adjust_moves_facts:
  assumes "bo_moveTokensAndCollfromAdjustment E a cc up n inc net w = Inr w'"
  shows "bo_frame w w' \<and> (if inc then active_debt w' = active_debt w + net else active_debt w' + n = active_debt w) \<and>
    (if up then active_coll w' = active_coll w + cc else active_coll w' + cc = active_coll w) \<and>
    (if inc then usdd_supply w' = usdd_supply w + n else usdd_supply w' + n = usdd_supply w)"
proof -
  from assms obtain w1 where 1: "(if inc then bo_withdrawUSDD E a n net w else bo_repayUSDD E a n w) = Inr w1"
    and 2: "(if up then bo_activePoolAddColl E a cc w1 else bo_sendColl E a cc w1) = Inr w'"
    by (auto simp: bo_moveTokensAndCollfromAdjustment_def rbind_Inr_iff)
  have "bo_frame w w1 \<and> (if inc then active_debt w1 = active_debt w + net else active_debt w1 + n = active_debt w) \<and>
      active_coll w1 = active_coll w \<and> (if inc then usdd_supply w1 = usdd_supply w + n else usdd_supply w1 + n = usdd_supply w)"
    using 1 withdrawUSDD_facts[of E a n net w w1] repayUSDD_facts[of E a n w w1] by (cases inc) auto
  moreover have "bo_frame w1 w' \<and> active_debt w' = active_debt w1 \<and> usdd_supply w' = usdd_supply w1 \<and>
      (if up then active_coll w' = active_coll w1 + cc else active_coll w' + cc = active_coll w1)"
    using 2 addColl_facts[of E a cc w1 w'] sendColl_facts[of E a cc w1 w'] by (cases up) auto
  ultimately show ?thesis using bo_frame_trans[of w w1 w'] by auto
qed

section \<open>Opening a trove\<close>

lemma updateStake_facts:
  assumes "updateStakeAndTotalStakes b t = Inr (k, t')"
  shows "t' = (upd_trove b (\<lambda>tr. tr\<lparr>stake := k\<rparr>) t)\<lparr>totalStakes := totalStakes t - stake (Troves t b) + k\<rparr> \<and>
    stake (Troves t b) \<le> totalStakes t"
  using assms by (auto simp: updateStakeAndTotalStakes_def rbind_Inr_iff Let_def u_Inr_iffs upd_trove_def)

lemma open_record_facts:
  assumes "bo_open_record E b c d w = Inr w'"
  obtains k where "trove_write b (debt (Troves (tm_of w) b) + d) (coll (Troves (tm_of w) b) + c) k (tm_of w) (tm_of w')"
    and "w' = set_tm (tm_of w') w"
proof -
  let ?b = "\<lambda>d' c'. upd_trove b (\<lambda>tr. tr\<lparr>debt := d'\<rparr>) (upd_trove b (\<lambda>tr. tr\<lparr>coll := c'\<rparr>) (upd_trove b (\<lambda>tr. tr\<lparr>status := active\<rparr>) (tm_of w)))"
  from assms obtain k t5 c' d' where st: "updateStakeAndTotalStakes b (updateTroveRewardSnapshots b (?b d' c')) = Inr (k, t5)"
    and c': "c' = coll (Troves (tm_of w) b) + c" and d': "d' = debt (Troves (tm_of w) b) + d" and w': "w' = set_tm t5 w"
    by (auto simp: bo_open_record_def tm_setTroveStatus_def tm_increaseTroveColl_def tm_increaseTroveDebt_def upd_trove_def
        tm_updateTroveRewardSnapshots_def tm_updateStakeAndTotalStakes_def rbind_Inr_iff u_add_Inr_iff)
  from updateStake_facts[OF st]
  have "trove_write b (debt (Troves (tm_of w) b) + d) (coll (Troves (tm_of w) b) + c) k (tm_of w) (tm_of w')"
    by (auto simp: w' c' d' trove_write_def upd_trove_def updateTroveRewardSnapshots_def same_trove_def same_terms_def coll_snaps_def)
  then show thesis using that w' by simp
qed

text \<open>Entering the owners array only touches the index.\<close>

lemma addOwner_facts:
  assumes "addTroveOwnerToArray b t = Inr (i, t')"
  shows "(\<forall>x. same_trove t t' x) \<and> same_terms t t' \<and> totalStakes t' = totalStakes t"
  using assms by (auto simp: addTroveOwnerToArray_def rbind_Inr_iff Let_def upd_trove_def same_trove_def same_terms_def)

lemma trove_write_same:
  assumes "trove_write b d c k t t'" and "\<forall>x. same_trove t' t'' x" and "same_terms t' t''" and "totalStakes t'' = totalStakes t'"
  shows "trove_write b d c k t t''"
  using assms by (auto simp: trove_write_def same_trove_def same_terms_def coll_snaps_def)

lemma same_trove_write:
  assumes "\<forall>x. same_trove t t' x" and "same_terms t t'" and "totalStakes t' = totalStakes t" and "trove_write b d c k t' t''"
  shows "trove_write b d c k t t''"
  using assms by (simp add: trove_write_def same_trove_def same_terms_def coll_snaps_def)

lemma tm_same_troves: "tm_same t t' \<Longrightarrow> (\<forall>x. same_trove t t' x) \<and> same_terms t t' \<and> totalStakes t' = totalStakes t"
  by (simp add: tm_same_def same_trove_def)

lemma fetch_price_frame:
  assumes "fetch_price E w = Inr (p, w0)"
  shows "bo_frame w w0 \<and> active_debt w0 = active_debt w \<and> active_coll w0 = active_coll w \<and> usdd_supply w0 = usdd_supply w"
  using fetch_price_facts[OF assms] by (simp add: bo_frame_def active_debt_def active_coll_def usdd_supply_def)

lemma bo_open_check_facts:
  assumes "bo_open_check E now b maxFee c n w = Inr (net, cdebt, NICR, w1)"
  obtains fee where "net = n + fee" and "cdebt = net + USDD_GAS_COMPENSATION" and "bo_frame w w1"
    and "active_debt w1 = active_debt w" and "active_coll w1 = active_coll w" and "usdd_supply w1 = usdd_supply w + fee"
    and "status (Troves (tm_of w) b) \<noteq> active"
proof -
  from assms obtain p w0 r where f: "fetch_price E w = Inr (p, w0)"
    and na: "bo_requireTroveisNotActive (tm_of w0) b = Inr ()"
    and t: "(if \<not> r then rbind (bo_triggerBorrowingFee E now n maxFee w0) (\<lambda>(fee, w1). rbind (u_add n fee) (\<lambda>net. Inr (net, w1)))
            else Inr (n, w0)) = Inr (net, w1)"
    and cdebt: "getCompositeDebt_sol net = Inr cdebt"
    unfolding bo_open_check_def by (elim rbindE) (auto elim!: rbindE)
  note ff = fetch_price_frame[OF f]
  have na': "status (Troves (tm_of w) b) \<noteq> active"
    using na ff by (auto simp: bo_requireTroveisNotActive_def bo_frame_def tm_same_def)
  have "\<exists>fee. net = n + fee \<and> bo_frame w0 w1 \<and> active_debt w1 = active_debt w0 \<and> active_coll w1 = active_coll w0 \<and>
      usdd_supply w1 = usdd_supply w0 + fee"
  proof (cases r)
    case True
    with t show ?thesis by (auto simp: bo_frame_def)
  next
    case False
    with t obtain fee where "bo_triggerBorrowingFee E now n maxFee w0 = Inr (fee, w1)" and "net = n + fee"
      by (auto simp: rbind_Inr_iff u_Inr_iffs)
    with trigger_fee_facts[OF this(1)] show ?thesis by auto
  qed
  with ff cdebt na' show thesis
    using that bo_frame_trans[of w w0 w1] by (auto simp: getCompositeDebt_sol_def u_Inr_iffs)
qed

text \<open>The operations that insert into the list: what they did when they returned.\<close>

lemma list_then_Some:
  "bo_list_then r w f = Some (Inr w') \<longleftrightarrow> (\<exists>s. r = Some (Inr s) \<and> f (set_slist s w) = Inr w')"
  by (cases r) (auto simp: bo_list_then_def rbind_Inr_iff)

lemma openTrove_split:
  assumes "bo_openTrove E now sender b maxFee c n up lo w = Some (Inr w')"
  obtains net cdebt NICR w1 w2 s where "bo_open_check E now b maxFee c n w = Inr (net, cdebt, NICR, w1)"
    and "bo_open_record E b c cdebt w1 = Inr w2"
    and "insert_trove (this_bo E) (getNominalICR (tm_of w2)) (slist (others (sysw w2))) b NICR up lo = Some (Inr s)"
    and "bo_open_pay E sender b c n net (set_slist s w2) = Inr w'"
  using assms by (auto simp: bo_openTrove_def list_then_Some split: sum.splits prod.splits elim!: rbindE)

lemma set_slist_simps [simp]:
  "tm_of (set_slist s w) = tm_of w" "dpool (set_slist s w) = dpool w" "cspool (set_slist s w) = cspool w"
  "active_debt (set_slist s w) = active_debt w" "active_coll (set_slist s w) = active_coll w"
  "usdd_supply (set_slist s w) = usdd_supply w" "pool (sysw (set_slist s w)) = pool (sysw w)"
  "slist (others (sysw (set_slist s w))) = s"
  by (simp_all add: set_slist_def tm_of_def active_debt_def active_coll_def usdd_supply_def)

lemma set_tm_pools [simp]:
  "active_debt (set_tm t w) = active_debt w" "active_coll (set_tm t w) = active_coll w" "usdd_supply (set_tm t w) = usdd_supply w"
  by (simp_all add: active_debt_def active_coll_def usdd_supply_def)

lemma open_pay_facts:
  assumes "bo_open_pay E sender b c n net w = Inr w'"
  shows "(\<forall>x. same_trove (tm_of w) (tm_of w') x) \<and> same_terms (tm_of w) (tm_of w') \<and>
    totalStakes (tm_of w') = totalStakes (tm_of w) \<and> dpool w' = dpool w \<and>
    active_debt w' = active_debt w + net + USDD_GAS_COMPENSATION \<and> active_coll w' = active_coll w + c \<and>
    usdd_supply w' = usdd_supply w + n + USDD_GAS_COMPENSATION"
proof -
  from assms obtain i t w1 w2 where t: "addTroveOwnerToArray b (tm_of w) = Inr (i, t)"
    and 1: "bo_activePoolAddColl E sender c (set_tm t w) = Inr w1" and 2: "bo_withdrawUSDD E b n net w1 = Inr w2"
    and 3: "bo_withdrawUSDD E (gasPool_address E) USDD_GAS_COMPENSATION USDD_GAS_COMPENSATION w2 = Inr w'"
    by (auto simp: bo_open_pay_def tm_addTroveOwnerToArray_def rbind_Inr_iff)
  note f = addColl_facts[OF 1] withdrawUSDD_facts[OF 2] withdrawUSDD_facts[OF 3]
  then have "bo_frame (set_tm t w) w'" using bo_frame_trans by blast
  then have fr: "tm_same t (tm_of w')" "dpool w' = dpool w" by (simp_all add: bo_frame_def)
  show ?thesis using f addOwner_facts[OF t] tm_same_troves[OF fr(1)] fr(2)
    by (auto simp: same_trove_def same_terms_def)
qed

lemma open_inv:
  assumes "bo_openTrove E now sender b maxFee c n up lo w = Some (Inr w')" and "sys_inv 0 0 w"
  shows "sys_inv 0 0 w'"
proof -
  from assms(1) obtain net cdebt NICR w1 w2 s where ch: "bo_open_check E now b maxFee c n w = Inr (net, cdebt, NICR, w1)"
    and rc: "bo_open_record E b c cdebt w1 = Inr w2" and pay: "bo_open_pay E sender b c n net (set_slist s w2) = Inr w'"
    by (rule openTrove_split)
  from ch obtain fee where net: "net = n + fee" "cdebt = net + USDD_GAS_COMPENSATION" and fr: "bo_frame w w1"
    and v1: "active_debt w1 = active_debt w" "active_coll w1 = active_coll w" "usdd_supply w1 = usdd_supply w + fee"
    by (rule bo_open_check_facts)
  from rc obtain k where wr: "trove_write b (debt (Troves (tm_of w1) b) + cdebt) (coll (Troves (tm_of w1) b) + c) k (tm_of w1) (tm_of w2)"
    and w2: "w2 = set_tm (tm_of w2) w1" by (rule open_record_facts)
  have v2: "active_debt w2 = active_debt w1" "active_coll w2 = active_coll w1" "usdd_supply w2 = usdd_supply w1" "dpool w2 = dpool w1"
    by (subst w2, simp)+
  note pf = open_pay_facts[OF pay]
  have same: "Troves (tm_of w1) = Troves (tm_of w)" "dpool w1 = dpool w" using fr by (auto simp: bo_frame_def tm_same_def)
  have "trove_write b (debt (Troves (tm_of w) b) + cdebt) (coll (Troves (tm_of w) b) + c) k (tm_of w) (tm_of w')"
    using trove_write_same[OF same_trove_write[OF _ _ _ wr]] tm_same_troves[of "tm_of w" "tm_of w1"] pf fr same
    by (simp add: bo_frame_def)
  then show ?thesis
    by (rule sys_write[OF assms(2), where paid = 0])
      (use pf v1 v2 same net assms(2) in \<open>simp_all add: sys_inv_def sys_debt_active\<close>)
qed

section \<open>Adjusting a trove\<close>

lemma adjust_prepare_facts:
  assumes "bo_adjust_prepare E now b cd cw n inc maxFee w = Inr (r, p, net, w2)" and inv: "sys_inv 0 0 w"
  obtains fee w1 where "sys_inv 0 0 w1" and "coll_snaps (tm_of w1) b = L_COLL (tm_of w1)" and "status (Troves (tm_of w1) b) = active"
    and "bo_frame w1 w2" and "net = n + fee" and "\<not> inc \<longrightarrow> fee = 0"
    and "active_debt w2 = active_debt w1" and "active_coll w2 = active_coll w1" and "usdd_supply w2 = usdd_supply w1 + fee"
proof -
  from assms(1) obtain w0 w1 where f: "fetch_price E w = Inr (p, w0)"
    and ac: "bo_requireTroveisActive (tm_of w0) b = Inr ()" and ap: "applyPendingRewards E b w0 = Inr w1"
    and t: "(if inc \<and> \<not> r then rbind (bo_triggerBorrowingFee E now n maxFee w1) (\<lambda>(fee, w2). rbind (u_add n fee) (\<lambda>net. Inr (net, w2)))
            else Inr (n, w1)) = Inr (net, w2)"
    unfolding bo_adjust_prepare_def tm_applyPendingRewards_def by (elim rbindE) (auto elim!: rbindE)
  have i0: "sys_inv 0 0 w0" by (rule same_ledger_inv[OF fetch_price_ledger[OF f] inv])
  note i1 = apply_inv[OF ap i0]
  have sn: "coll_snaps (tm_of w1) b = L_COLL (tm_of w1)" "status (Troves (tm_of w1) b) = active"
    using apply_snap[OF ap, of False] i0 ac by (auto simp: sys_inv_def bo_requireTroveisActive_def)
  show thesis
  proof (cases "inc \<and> \<not> r")
    case True
    with t obtain fee where "bo_triggerBorrowingFee E now n maxFee w1 = Inr (fee, w2)" and "net = n + fee"
      by (auto simp: rbind_Inr_iff u_Inr_iffs)
    with trigger_fee_facts[OF this(1)] True show thesis by (intro that[OF i1 sn]) auto
  next
    case False
    with t have "w2 = w1" "net = n" by auto
    then show thesis by (intro that[OF i1 sn, of 0]) (auto simp: bo_frame_def)
  qed
qed

lemma adjust_record_facts:
  assumes "bo_adjust_record E b cd cw n inc r p net w = Inr (newNICR, w')"
    and "status (Troves (tm_of w) b) = active" and "coll_snaps (tm_of w) b = L_COLL (tm_of w)"
  obtains d' c' k where "trove_write b d' c' k (tm_of w) (tm_of w')" and "w' = set_tm (tm_of w') w"
    and "if inc then d' = debt (Troves (tm_of w) b) + net else d' + net = debt (Troves (tm_of w) b)"
    and "if snd (bo_getCollChange cd cw) then c' = coll (Troves (tm_of w) b) + fst (bo_getCollChange cd cw)
         else c' + fst (bo_getCollChange cd cw) = coll (Troves (tm_of w) b)"
proof -
  obtain cc up' where cc: "bo_getCollChange cd cw = (cc, up')" by force
  from assms(1) obtain t1 k t2 where 1: "bo_updateTroveFromAdjustment E b cc up' net inc (tm_of w) = Inr t1"
    and 2: "updateStakeAndTotalStakes b t1 = Inr (k, t2)" and w': "w' = set_tm t2 w"
    unfolding bo_adjust_record_def tm_updateStakeAndTotalStakes_def Let_def cc by (auto elim!: rbindE)
  from 1 obtain d' c' where t1: "t1 = upd_trove b (\<lambda>tr. tr\<lparr>coll := c', debt := d'\<rparr>) (tm_of w)"
    and d': "if inc then d' = debt (Troves (tm_of w) b) + net else d' + net = debt (Troves (tm_of w) b)"
    and c': "if up' then c' = coll (Troves (tm_of w) b) + cc else c' + cc = coll (Troves (tm_of w) b)"
    by (auto simp: bo_updateTroveFromAdjustment_def tm_increaseTroveColl_def tm_decreaseTroveColl_def tm_increaseTroveDebt_def
        tm_decreaseTroveDebt_def rbind_Inr_iff u_Inr_iffs upd_trove_def split: if_splits)
  have "trove_write b d' c' k (tm_of w) (tm_of w')"
    using updateStake_facts[OF 2] assms(2,3)
    by (auto simp: w' t1 trove_write_def upd_trove_def same_trove_def same_terms_def coll_snaps_def)
  then show thesis using that d' c' by (simp add: w' cc)
qed

lemma adjustTrove_split:
  assumes "bo_adjustTrove E now sender b cd cw n inc up lo maxFee w = Some (Inr w')"
  obtains r p net w1 newNICR w2 s where "bo_adjust_guards E sender b cd n = Inr ()"
    and "bo_adjust_prepare E now b cd cw n inc maxFee w = Inr (r, p, net, w1)"
    and "bo_adjust_record E b cd cw n inc r p net w1 = Inr (newNICR, w2)"
    and "bo_moveTokensAndCollfromAdjustment E sender (fst (bo_getCollChange cd cw)) (snd (bo_getCollChange cd cw)) n inc net
           (set_slist s w2) = Inr w'"
  using assms by (auto simp: bo_adjustTrove_def list_then_Some split: sum.splits prod.splits elim!: rbindE)

lemma adjust_inv:
  assumes "bo_adjustTrove E now sender b cd cw n inc up lo maxFee w = Some (Inr w')" and "sys_inv 0 0 w"
  shows "sys_inv 0 0 w'"
proof -
  let ?cc = "fst (bo_getCollChange cd cw)" and ?up = "snd (bo_getCollChange cd cw)"
  from assms(1) obtain r p net w2 newNICR w3 s where pr: "bo_adjust_prepare E now b cd cw n inc maxFee w = Inr (r, p, net, w2)"
    and rc: "bo_adjust_record E b cd cw n inc r p net w2 = Inr (newNICR, w3)"
    and mv: "bo_moveTokensAndCollfromAdjustment E sender ?cc ?up n inc net (set_slist s w3) = Inr w'" by (rule adjustTrove_split)
  from pr assms(2) obtain fee w1 where i1: "sys_inv 0 0 w1" and sn: "coll_snaps (tm_of w1) b = L_COLL (tm_of w1)"
    "status (Troves (tm_of w1) b) = active" and fr: "bo_frame w1 w2" and net: "net = n + fee" "\<not> inc \<longrightarrow> fee = 0"
    and v2: "active_debt w2 = active_debt w1" "active_coll w2 = active_coll w1" "usdd_supply w2 = usdd_supply w1 + fee"
    by (rule adjust_prepare_facts)
  have t2: "Troves (tm_of w2) = Troves (tm_of w1)" "dpool w2 = dpool w1" "coll_snaps (tm_of w2) b = L_COLL (tm_of w2)"
    using fr sn by (auto simp: bo_frame_def tm_same_def same_terms_def coll_snaps_def)
  have "status (Troves (tm_of w2) b) = active" using sn t2 by simp
  from adjust_record_facts[OF rc this t2(3)] obtain d' c' k where wr: "trove_write b d' c' k (tm_of w2) (tm_of w3)"
    and w3: "w3 = set_tm (tm_of w3) w2"
    and d': "if inc then d' = debt (Troves (tm_of w1) b) + net else d' + net = debt (Troves (tm_of w1) b)"
    and c': "if ?up then c' = coll (Troves (tm_of w1) b) + ?cc else c' + ?cc = coll (Troves (tm_of w1) b)" unfolding t2 by blast
  have v3: "active_debt w3 = active_debt w2" "active_coll w3 = active_coll w2" "usdd_supply w3 = usdd_supply w2" "dpool w3 = dpool w2"
    by (subst w3, simp)+
  note mf = adjust_moves_facts[OF mv]
  have fr3: "tm_same (tm_of w3) (tm_of w')" "dpool w' = dpool w1" using mf v3 t2 by (simp_all add: bo_frame_def)
  have "trove_write b d' c' k (tm_of w1) (tm_of w')"
    using trove_write_same[OF same_trove_write[OF _ _ _ wr]] tm_same_troves[OF fr3(1)] tm_same_troves[of "tm_of w1" "tm_of w2"] fr
    by (simp add: bo_frame_def)
  then show ?thesis
    by (rule sys_write[OF i1, where paid = 0])
      (use mf v3 v2 t2 fr3(2) net d' c' i1 in \<open>auto simp: sys_inv_def sys_debt_active split: if_splits\<close>)
qed

section \<open>Closing a trove\<close>

lemma close_write:
  assumes "removeStake b (tm_of w) = Inr t" and "closeTrove E b st (set_tm t w) = Inr w'" and "st \<noteq> active"
  shows "trove_write b 0 0 0 (tm_of w) (tm_of w')"
    and "dpool w' = dpool w" and "cspool w' = cspool w" and "usdd_supply w' = usdd_supply w" and "active_debt w' = active_debt w"
    and "active_coll w' = active_coll w" and "status (Troves (tm_of w') b) = st"
proof -
  note c = closeTrove_facts[OF assms(2)]
  have t: "t = upd_trove b (\<lambda>t. t\<lparr>stake := 0\<rparr>) ((tm_of w)\<lparr>totalStakes := totalStakes (tm_of w) - stake (Troves (tm_of w) b)\<rparr>)"
    "stake (Troves (tm_of w) b) \<le> totalStakes (tm_of w)"
    using assms(1) by (auto simp: removeStake_def rbind_Inr_iff u_Inr_iffs)
  have "same_trove (tm_of w) (tm_of w') x" if "x \<noteq> b" for x
    using c(6)[OF that] that by (simp add: same_trove_def t upd_trove_def)
  then show "trove_write b 0 0 0 (tm_of w) (tm_of w')"
    using c(4,5,7-10) assms(3) t(2) by (simp add: trove_write_def t(1) upd_trove_def same_terms_def)
  show "dpool w' = dpool w" "cspool w' = cspool w" "status (Troves (tm_of w') b) = st" using c(2,3,9) by simp_all
  show "usdd_supply w' = usdd_supply w" "active_debt w' = active_debt w" "active_coll w' = active_coll w"
    using c(1,2) by (simp_all add: same_books_def usdd_supply_def active_debt_def active_coll_def)
qed

text \<open>The sender's trove is closed, whatever \<open>onBehalfOf\<close> says.\<close>

lemma closeTrove_split:
  assumes "bo_closeTrove E sender b w = Inr w'"
  obtains p w0 w1 t w2 w3 w4 where "fetch_price E w = Inr (p, w0)" and "tm_applyPendingRewards E (this_bo E) sender w0 = Inr w1"
    and "bo_requireTroveisActive (tm_of w) sender = Inr ()"
    and "USDD_GAS_COMPENSATION \<le> debt (Troves (tm_of w1) sender)"
    and "removeStake sender (tm_of w1) = Inr t" and "closeTrove E sender closedByOwner (set_tm t w1) = Inr w2"
    and "bo_repayUSDD E sender (debt (Troves (tm_of w1) sender) - USDD_GAS_COMPENSATION) w2 = Inr w3"
    and "bo_repayUSDD E (gasPool_address E) USDD_GAS_COMPENSATION w3 = Inr w4"
    and "bo_sendColl E sender (coll (Troves (tm_of w1) sender)) w4 = Inr w'"
  using assms unfolding bo_closeTrove_def Let_def tm_removeStake_def tm_closeTrove_def
  by (elim rbindE) (auto simp: u_Inr_iffs elim!: rbindE)

lemma close_inv:
  assumes "bo_closeTrove E sender b w = Inr w'" and "sys_inv 0 0 w"
  shows "sys_inv 0 0 w'"
proof -
  from assms(1) obtain p w0 w1 t w2 w3 w4 where f: "fetch_price E w = Inr (p, w0)"
    and ap: "tm_applyPendingRewards E (this_bo E) sender w0 = Inr w1"
    and g: "USDD_GAS_COMPENSATION \<le> debt (Troves (tm_of w1) sender)"
    and rs: "removeStake sender (tm_of w1) = Inr t" and cl: "closeTrove E sender closedByOwner (set_tm t w1) = Inr w2"
    and r1: "bo_repayUSDD E sender (debt (Troves (tm_of w1) sender) - USDD_GAS_COMPENSATION) w2 = Inr w3"
    and r2: "bo_repayUSDD E (gasPool_address E) USDD_GAS_COMPENSATION w3 = Inr w4"
    and sc: "bo_sendColl E sender (coll (Troves (tm_of w1) sender)) w4 = Inr w'" by (rule closeTrove_split)
  have i1: "sys_inv 0 0 w1"
    using apply_inv[OF _ same_ledger_inv[OF fetch_price_ledger[OF f] assms(2)]] ap
    by (auto simp: tm_applyPendingRewards_def rbind_Inr_iff)
  note cw = close_write[OF rs cl] and f3 = repayUSDD_facts[OF r1] and f4 = repayUSDD_facts[OF r2] and f5 = sendColl_facts[OF sc]
  have "bo_frame w2 w'" using f3 f4 f5 bo_frame_trans by blast
  then have fr: "tm_same (tm_of w2) (tm_of w')" "dpool w' = dpool w1" using cw(2) by (simp_all add: bo_frame_def)
  have "trove_write sender 0 0 0 (tm_of w1) (tm_of w')"
    using tm_same_troves[OF fr(1)] by (intro trove_write_same[OF cw(1)]) auto
  then show ?thesis
    by (rule sys_write[OF i1, where paid = 0]) (use cw(4-6) f3 f4 f5 fr(2) g i1 in \<open>auto simp: sys_inv_def sys_debt_active\<close>)
qed

lemma claim_ledger: "bo_claimCollateral E sender b w = Inr w' \<Longrightarrow> same_ledger w w'"
  by (auto simp: bo_claimCollateral_def cs_claimColl_def rbind_Inr_iff Let_def same_ledger_def tm_of_def active_debt_def
      active_coll_def usdd_supply_def)

section \<open>Redemptions\<close>

lemma redeemClose_facts:
  assumes "redeemCloseTrove E b u c w = Inr w'"
  shows "tm_of w' = tm_of w \<and> dpool w' = dpool w \<and> active_debt w' + u = active_debt w \<and> active_coll w' + c = active_coll w \<and>
    usdd_supply w' + u = usdd_supply w"
proof -
  from assms obtain us a cs p where us: "usdd_burn (this_tm E) (gasPool_address E) u (usdd (others (sysw w))) = Inr us"
    and a: "ap_decreaseUSDDDebt (this_tm E) u (apool (others (sysw w))) = Inr a"
    and p: "ap_sendColl (spe E) (this_tm E) (this_tm E) c ((others (sysw w))\<lparr>usdd := us, apool := a\<rparr>) = Inr p"
    and r: "cs_receiveColl E (this_tm E) c (set_peers p (w\<lparr>cspool := cs\<rparr>)) = Inr w'"
    by (auto simp: redeemCloseTrove_def rbind_Inr_iff)
  have "usdd_totalSupply us + u = usdd_supply w" using us
    by (auto simp: usdd_burn_def usdd_internal_burn_Inr_iff rbind_Inr_iff u_Inr_iffs usdd_supply_def)
  moreover have "ap_USDDDebt a + u = active_debt w" "ap_balance a = active_coll w" using a
    by (auto simp: ap_decreaseUSDDDebt_def rbind_Inr_iff u_Inr_iffs active_debt_def active_coll_def)
  moreover obtain x cs' where "w' = set_peers (p\<lparr>ext := x\<rparr>) (set_peers p (w\<lparr>cspool := cs\<rparr>)\<lparr>cspool := cs'\<rparr>)"
    using r by (auto simp: cs_receiveColl_def rbind_Inr_iff)
  ultimately show ?thesis using ap_sendColl_facts[OF p]
    by (simp add: tm_of_def active_debt_def active_coll_def usdd_supply_def)
qed

lemma redemption_lot_facts:
  assumes "redemption_lot m p t = Inr (l, c, d', c')"
  shows "debt t = l + d' \<and> coll t = c + c' \<and> USDD_GAS_COMPENSATION \<le> d' \<and> l \<le> m \<and> c = l * DECIMAL_PRECISION div p"
proof -
  from assms have l: "l = min m (debt t - USDD_GAS_COMPENSATION)" and g: "USDD_GAS_COMPENSATION \<le> debt t"
    and c: "c = l * DECIMAL_PRECISION div p" and d': "d' = debt t - l" "l \<le> debt t" and c': "c' = coll t - c" "c \<le> coll t"
    unfolding redemption_lot_def Let_def by (elim rbindE, simp add: u_Inr_iffs)+
  have "l \<le> m" "l \<le> debt t - USDD_GAS_COMPENSATION" by (simp_all add: l)
  with c d' c' g show ?thesis by linarith
qed

lemma redeem_whole_inv:
  assumes "redeem_whole_trove E b c' w = Inr w'" and "sys_inv D C w"
    and "debt (Troves (tm_of w) b) = l + USDD_GAS_COMPENSATION" and "coll (Troves (tm_of w) b) = c + c'"
  shows "sys_inv (D + l) (C + c) w'"
proof -
  from assms(1) obtain t w1 where rs: "removeStake b (tm_of w) = Inr t" and cl: "closeTrove E b closedByRedemption (set_tm t w) = Inr w1"
    and rc: "redeemCloseTrove E b USDD_GAS_COMPENSATION c' w1 = Inr w'" by (auto simp: redeem_whole_trove_def rbind_Inr_iff)
  note cw = close_write[OF rs cl] and rf = redeemClose_facts[OF rc]
  have "trove_write b 0 0 0 (tm_of w) (tm_of w')" using cw(1) rf by simp
  then show ?thesis
    by (rule sys_write[OF assms(2), where paid = 0])
      (use cw(2,4-6) rf assms(2-4) in \<open>auto simp: sys_inv_def sys_debt_active\<close>)
qed

lemma redeem_part_inv:
  assumes "redeem_part_of_trove b d' c' s w = Inr w'" and "sys_inv D C w"
    and "debt (Troves (tm_of w) b) = l + d'" and "coll (Troves (tm_of w) b) = c + c'"
    and "status (Troves (tm_of w) b) = active" and "coll_snaps (tm_of w) b = L_COLL (tm_of w)"
  shows "sys_inv (D + l) (C + c) w'"
proof -
  from assms(1) obtain k t where t: "updateStakeAndTotalStakes b (upd_trove b (\<lambda>t. t\<lparr>debt := d', coll := c'\<rparr>) (tm_of w)) = Inr (k, t)"
    and w': "w' = set_peers ((others (sysw w))\<lparr>tmanager := t, slist := s\<rparr>) w" by (auto simp: redeem_part_of_trove_def rbind_Inr_iff)
  have tm: "tm_of w' = t" by (simp add: w' tm_of_def)
  have "trove_write b d' c' k (tm_of w) (tm_of w')"
    using updateStake_facts[OF t] assms(5,6) unfolding tm
    by (auto simp: trove_write_def upd_trove_def same_trove_def same_terms_def coll_snaps_def)
  then show ?thesis
    by (rule sys_write[OF assms(2), where paid = 0])
      (use assms in \<open>simp_all add: w' sys_inv_def sys_debt_active active_debt_def active_coll_def usdd_supply_def\<close>)
qed

lemma redeem_trove_cases:
  assumes "redeemCollateralFromTrove E b m p up lo h w = Some (Inr (l, c, cancelled, w'))"
  obtains (stop) "cancelled" "w' = w"
  | (whole) c' where "\<not> cancelled" "redemption_lot m p (Troves (tm_of w) b) = Inr (l, c, USDD_GAS_COMPENSATION, c')"
      "redeem_whole_trove E b c' w = Inr w'"
  | (part) d' c' s where "\<not> cancelled" "redemption_lot m p (Troves (tm_of w) b) = Inr (l, c, d', c')"
      "redeem_part_of_trove b d' c' s w = Inr w'"
  using assms unfolding redeemCollateralFromTrove_def
  by (auto simp: rbind_Inr_iff split: sum.splits prod.splits if_splits)

lemma redeem_trove_inv:
  assumes "redeemCollateralFromTrove E b m p up lo h w = Some (Inr (l, c, False, w'))" and inv: "sys_inv D C w"
    and sn: "status (Troves (tm_of w) b) = active \<longrightarrow> coll_snaps (tm_of w) b = L_COLL (tm_of w)"
  shows "sys_inv (D + l) (C + c) w'"
proof -
  have act: "status (Troves (tm_of w) b) = active" if "redemption_lot m p (Troves (tm_of w) b) = Inr (l, c, d', c')" for d' c'
    using redemption_lot_facts[OF that] inv by (auto simp: sys_inv_def USDD_GAS_COMPENSATION_def)
  from assms(1) show ?thesis
  proof (cases rule: redeem_trove_cases)
    case (whole c')
    show ?thesis by (rule redeem_whole_inv[OF whole(3) inv]) (use redemption_lot_facts[OF whole(2)] in auto)
  next
    case (part d' c' s)
    show ?thesis
      by (rule redeem_part_inv[OF part(3) inv]) (use redemption_lot_facts[OF part(2)] act[OF part(2)] sn in auto)
  qed simp
qed

lemma apply_snap':
  assumes "applyPendingRewards E b w = Inr w'" and "reserve_ok f w"
  shows "status (Troves (tm_of w') b) = active \<longrightarrow> coll_snaps (tm_of w') b = L_COLL (tm_of w')"
proof (cases "status (Troves (tm_of w) b) = active")
  case True
  with apply_snap[OF assms] show ?thesis by simp
next
  case False
  then have "w' = w" using assms(1) by (simp add: applyPendingRewards_def hasPendingRewards_def)
  with False show ?thesis by simp
qed

text \<open>One round of the loop, and the rule for properties that every round keeps.\<close>

lemma redeem_loop_round:
  assumes "redeem_loop E p up lo h b n m r d w = Some (Inr (r', d', w'))"
  shows "(b = 0 \<or> m = 0 \<or> n = 0) \<and> r' = r \<and> d' = d \<and> w' = w \<or>
    (\<exists>w1 l c x w2. b \<noteq> 0 \<and> m \<noteq> 0 \<and> n \<noteq> 0 \<and> applyPendingRewards E b w = Inr w1 \<and>
       redeemCollateralFromTrove E b m p up lo h w1 = Some (Inr (l, c, x, w2)) \<and>
       (if x then r' = r \<and> d' = d \<and> w' = w2
        else redeem_loop E p up lo h (getPrev (slist (others (sysw w))) b) (n - 1) (m - l) (r + l) (d + c) w2 = Some (Inr (r', d', w'))))"
  using assms
  by (subst (asm) redeem_loop.simps)
    (auto simp: Let_def rbind_Inr_iff u_Inr_iffs split: sum.splits option.splits prod.splits if_splits)

lemma redeem_loop_keeps:
  assumes round: "\<And>b n m r d w w1 l c x w2. I b n m r d w \<Longrightarrow> b \<noteq> 0 \<Longrightarrow> m \<noteq> 0 \<Longrightarrow> applyPendingRewards E b w = Inr w1 \<Longrightarrow>
      redeemCollateralFromTrove E b m p up lo h w1 = Some (Inr (l, c, x, w2)) \<Longrightarrow>
      (if x then Q r d w2 else I (getPrev (slist (others (sysw w))) b) (n - 1) (m - l) (r + l) (d + c) w2)"
    and stop: "\<And>b n m r d w. I b n m r d w \<Longrightarrow> Q r d w"
  shows "redeem_loop E p up lo h b n m r d w = Some (Inr (r', d', w')) \<Longrightarrow> I b n m r d w \<Longrightarrow> Q r' d' w'"
proof (induction n arbitrary: b m r d w)
  case 0
  then show ?case using redeem_loop_round[OF 0(1)] stop by auto
next
  case (Suc n)
  from redeem_loop_round[OF Suc.prems(1)] consider (stop) "r' = r" "d' = d" "w' = w"
    | (go) w1 l c x w2 where "b \<noteq> 0" "m \<noteq> 0" "applyPendingRewards E b w = Inr w1"
        "redeemCollateralFromTrove E b m p up lo h w1 = Some (Inr (l, c, x, w2))"
        "if x then r' = r \<and> d' = d \<and> w' = w2
         else redeem_loop E p up lo h (getPrev (slist (others (sysw w))) b) (Suc n - 1) (m - l) (r + l) (d + c) w2 = Some (Inr (r', d', w'))"
    by blast
  then show ?case
  proof cases
    case stop
    then show ?thesis using Suc.prems(2) assms(2) by simp
  next
    case go
    note R = round[OF Suc.prems(2) go(1-4)]
    show ?thesis
    proof (cases x)
      case True
      with R go(5) show ?thesis by simp
    next
      case False
      with R go(5) show ?thesis using Suc.IH by simp
    qed
  qed
qed

lemma redeem_loop_inv:
  assumes "redeem_loop E p up lo h b n m r d w = Some (Inr (r', d', w'))" and "sys_inv r d w"
  shows "sys_inv r' d' w'"
proof (rule redeem_loop_keeps[where I = "\<lambda>b n m. sys_inv" and Q = sys_inv, OF _ _ assms])
  fix b m r d w w1 l c x w2
  assume inv: "sys_inv r d w" and ap: "applyPendingRewards E b w = Inr w1"
    and rd: "redeemCollateralFromTrove E b m p up lo h w1 = Some (Inr (l, c, x, w2))"
  have i1: "sys_inv r d w1" by (rule apply_inv[OF ap inv])
  show "if x then sys_inv r d w2 else sys_inv (r + l) (d + c) w2"
  proof (cases x)
    case True
    with rd i1 show ?thesis by (auto elim: redeem_trove_cases)
  next
    case False
    with redeem_trove_inv[OF _ i1] rd apply_snap'[OF ap, of False] inv show ?thesis by (auto simp: sys_inv_def)
  qed
qed

lemma updateBaseRate_same: "updateBaseRateFromRedemption now c p s t = Inr (x, t') \<Longrightarrow> tm_same t t'"
  by (auto simp: updateBaseRateFromRedemption_def rbind_Inr_iff Let_def tm_same_def same_terms_def dest!: updateLastFeeOpTime_same)

lemma redeem_finish_facts:
  assumes "redeem_finish E now sender dep maxFee p tot r d w = Inr w'"
  shows "tm_same (tm_of w) (tm_of w') \<and> dpool w' = dpool w \<and> active_debt w' + r = active_debt w \<and>
    active_coll w' + d = active_coll w \<and> usdd_supply w' + r = usdd_supply w \<and> 0 < d"
proof -
  from assms obtain x t fee p1 st u a p2 where d: "d > 0" and t: "updateBaseRateFromRedemption now d p tot (tm_of w) = Inr (x, t)"
    and p1: "ap_sendColl (spe E) (this_tm E) (this_stk (stke E)) fee (others (sysw (set_tm t w))) = Inr p1"
    and fee: "fee \<le> d" and u: "usdd_burn (this_tm E) dep r (usdd p1) = Inr u" and a: "ap_decreaseUSDDDebt (this_tm E) r (apool p1) = Inr a"
    and p2: "ap_sendColl (spe E) (this_tm E) sender (d - fee) (p1\<lparr>usdd := u, apool := a\<rparr>) = Inr p2"
    and w': "w' = set_peers p2 (w\<lparr>staking := st\<rparr>)"
    unfolding redeem_finish_def by (auto simp: u_Inr_iffs elim!: rbindE)
  have "usdd_totalSupply u + r = usdd_totalSupply (usdd p1)" using u
    by (auto simp: usdd_burn_def usdd_internal_burn_Inr_iff rbind_Inr_iff u_Inr_iffs)
  moreover have "ap_USDDDebt a + r = ap_USDDDebt (apool p1)" "ap_balance a = ap_balance (apool p1)" using a
    by (auto simp: ap_decreaseUSDDDebt_def rbind_Inr_iff u_Inr_iffs)
  moreover note updateBaseRate_same[OF t]
  ultimately show ?thesis using ap_sendColl_facts[OF p1] ap_sendColl_facts[OF p2] d fee
    by (auto simp: w' tm_of_def active_debt_def active_coll_def usdd_supply_def)
qed

lemma redeem_check_facts:
  "redeem_check E now sender dep n maxFee w = Inr (p, tot, w0) \<Longrightarrow>
   fetch_price E w = Inr (p, w0) \<and> n \<le> usdd_balances (usdd (others (sysw w0))) dep \<and> 0 < n"
  by (auto simp: redeem_check_def requireUSDDBalanceCoversRedemption_def requireAmountGreaterThanZero_def rbind_Inr_iff)

lemma redeem_split:
  assumes "tm_redeemCollateral E now sender dep n hint up lo h iters maxFee w = Some (Inr w')"
  obtains p tot w0 b r d w1 where "redeem_check E now sender dep n maxFee w = Inr (p, tot, w0)"
    and "redemption_start hint p w0 = Some (Inr b)"
    and "redeem_loop E p up lo h b (if iters = 0 then 2 ^ 256 - 1 else iters) n 0 0 w0 = Some (Inr (r, d, w1))"
    and "redeem_finish E now sender dep maxFee p tot r d w1 = Inr w'"
  using assms unfolding tm_redeemCollateral_def
  by (auto simp: rbind_Inr_iff split: sum.splits option.splits prod.splits)

lemma redeem_inv:
  assumes "tm_redeemCollateral E now sender dep n hint up lo h iters maxFee w = Some (Inr w')" and "sys_inv 0 0 w"
  shows "sys_inv 0 0 w'"
proof -
  from assms(1) obtain p tot w0 b r d w1 where ch: "redeem_check E now sender dep n maxFee w = Inr (p, tot, w0)"
    and lp: "redeem_loop E p up lo h b (if iters = 0 then 2 ^ 256 - 1 else iters) n 0 0 w0 = Some (Inr (r, d, w1))"
    and fin: "redeem_finish E now sender dep maxFee p tot r d w1 = Inr w'" by (rule redeem_split)
  have "sys_inv 0 0 w0" using redeem_check_facts[OF ch] same_ledger_inv[OF fetch_price_ledger] assms(2) by blast
  then have i: "sys_inv r d w1" using redeem_loop_inv[OF lp] by blast
  note ff = redeem_finish_facts[OF fin]
  let ?t = "Troves (tm_of w1) 0"
  have "trove_write 0 (debt ?t) (coll ?t) (stake ?t) (tm_of w1) (tm_of w')"
    using tm_same_troves[of "tm_of w1" "tm_of w'"] ff by (auto simp: trove_write_def same_trove_def coll_snaps_def)
  then show ?thesis
    by (rule sys_write[OF i, where paid = 0]) (use ff i in \<open>auto simp: sys_inv_def sys_debt_active\<close>)
qed

end
