(* ===== verification/System_Safety.thy ===== *)
theory System_Safety
  imports System_Books
begin

text \<open>
  What a single successful operation guarantees: the ratios after opening and adjusting a trove, which trove a closing
  removes and what it pays, and the exchange made by a redemption.  Each is stated for any state that satisfies
  the invariant of the books.
\<close>

section \<open>Ratios\<close>

lemma entire_iffs:
  "getEntireSystemColl w = Inr c \<longleftrightarrow> c = sys_coll w \<and> sys_coll w < 2 ^ 256"
  "getEntireSystemDebt w = Inr d \<longleftrightarrow> d = sys_debt w \<and> sys_debt w < 2 ^ 256"
  by (auto simp: getEntireSystemColl_def getEntireSystemDebt_def sys_coll_def sys_debt_def u_add_Inr_iff)

text \<open>The system ratio checked in advance is the one in force afterwards.\<close>

lemma checked_TCR:
  assumes "bo_getNewTCRFromTroveChange cc up dd inc p w = Inr T" and "dpool w' = dpool w"
    and "if up then active_coll w' = active_coll w + cc else active_coll w' + cc = active_coll w"
    and "if inc then active_debt w' = active_debt w + dd else active_debt w' + dd = active_debt w"
  shows "getTCR_sol p w' = Inr T"
proof -
  from assms(1) obtain c d where c: "(if up then u_add (sys_coll w) cc else u_sub (sys_coll w) cc) = Inr c"
    and d: "(if inc then u_add (sys_debt w) dd else u_sub (sys_debt w) dd) = Inr d" and T: "computeCR c d p = Inr T"
    and b: "sys_coll w < 2 ^ 256" "sys_debt w < 2 ^ 256"
    unfolding bo_getNewTCRFromTroveChange_def by (elim rbindE) (auto simp: entire_iffs)
  have "c = sys_coll w'" "c < 2 ^ 256" using c b assms(2,3) by (auto simp: sys_coll_active u_Inr_iffs split: if_splits)
  moreover have "d = sys_debt w'" "d < 2 ^ 256" using d b assms(2,4) by (auto simp: sys_debt_active u_Inr_iffs split: if_splits)
  ultimately show ?thesis using T
    by (simp add: getTCR_sol_def getEntireSystemColl_def getEntireSystemDebt_def u_add_def sys_coll_def sys_debt_def)
qed

text \<open>A trove with current snapshots has the ratio of its recorded amounts.\<close>

lemma current_ICR:
  assumes "rewardSnapshots t b = \<lparr>snap_COLL = L_COLL t, snap_USDDDebt = L_USDDDebt t\<rparr>"
    and "coll (Troves t b) < 2 ^ 256" and "debt (Troves t b) < 2 ^ 256"
  shows "getCurrentICR t b p = computeCR (coll (Troves t b)) (debt (Troves t b)) p"
  using assms by (simp add: getCurrentICR_def getCurrentTroveAmounts_def getPendingCollReward_def getPendingUSDDDebtReward_def
      pendingReward_def u_add_def u_sub_def)

section \<open>Opening\<close>

lemma open_check_ratios:
  assumes "bo_open_check E now b maxFee c n w = Inr (net, cdebt, NICR, w1)"
  obtains p w0 r k where "fetch_price E w = Inr (p, w0)" and "checkRecoveryMode_sol p w0 = Inr r"
    and "computeCR c cdebt p = Inr k" and "liq_bound r \<le> k" and "MIN_NET_DEBT \<le> net"
    and "\<not> r \<longrightarrow> (\<exists>T. bo_getNewTCRFromTroveChange c True cdebt True p w1 = Inr T \<and> CCR \<le> T)"
proof -
  from assms obtain p w0 r k where f: "fetch_price E w = Inr (p, w0)" "checkRecoveryMode_sol p w0 = Inr r"
    and m: "bo_requireAtLeastMinNetDebt net = Inr ()" and k: "computeCR c cdebt p = Inr k"
    and g: "(if r then bo_requireICRisAboveCCR k
             else rbind (bo_requireICRisAboveMCR k) (\<lambda>_.
               rbind (bo_getNewTCRFromTroveChange c True cdebt True p w1) bo_requireNewTCRisAboveCCR)) = Inr ()"
    unfolding bo_open_check_def by (elim rbindE) (auto elim!: rbindE)
  from g have "liq_bound r \<le> k \<and> (\<not> r \<longrightarrow> (\<exists>T. bo_getNewTCRFromTroveChange c True cdebt True p w1 = Inr T \<and> CCR \<le> T))"
    by (cases r) (auto simp: liq_bound_def bo_requireICRisAboveCCR_def bo_requireICRisAboveMCR_def bo_requireNewTCRisAboveCCR_def
      elim!: rbindE)
  with f m k show thesis using that by (auto simp: bo_requireAtLeastMinNetDebt_def)
qed

lemma open_record_snaps:
  assumes "bo_open_record E b c d w = Inr w'"
  shows "rewardSnapshots (tm_of w') b = \<lparr>snap_COLL = L_COLL (tm_of w'), snap_USDDDebt = L_USDDDebt (tm_of w')\<rparr> \<and>
    status (Troves (tm_of w') b) = active \<and> coll (Troves (tm_of w') b) < 2 ^ 256 \<and> debt (Troves (tm_of w') b) < 2 ^ 256"
proof -
  let ?b = "\<lambda>d' c'. upd_trove b (\<lambda>tr. tr\<lparr>debt := d'\<rparr>) (upd_trove b (\<lambda>tr. tr\<lparr>coll := c'\<rparr>) (upd_trove b (\<lambda>tr. tr\<lparr>status := active\<rparr>) (tm_of w)))"
  from assms obtain k t5 c' d' where st: "updateStakeAndTotalStakes b (updateTroveRewardSnapshots b (?b d' c')) = Inr (k, t5)"
    and b: "c' < 2 ^ 256" "d' < 2 ^ 256" and w': "w' = set_tm t5 w"
    by (auto simp: bo_open_record_def tm_setTroveStatus_def tm_increaseTroveColl_def tm_increaseTroveDebt_def upd_trove_def
        tm_updateTroveRewardSnapshots_def tm_updateStakeAndTotalStakes_def rbind_Inr_iff u_add_Inr_iff)
  from updateStake_facts[OF st] b show ?thesis by (simp add: w' upd_trove_def updateTroveRewardSnapshots_def)
qed

definition trove_opened :: "address \<Rightarrow> nat \<Rightarrow> nat \<Rightarrow> nat \<Rightarrow> bool \<Rightarrow> 'x lq_world \<Rightarrow> 'x lq_world \<Rightarrow> bool" where
  "trove_opened b c n p r w w' \<longleftrightarrow> status (Troves (tm_of w) b) \<noteq> active \<and> status (Troves (tm_of w') b) = active \<and>
     coll (Troves (tm_of w') b) = c \<and> n + USDD_GAS_COMPENSATION \<le> debt (Troves (tm_of w') b) \<and>
     MIN_NET_DEBT + USDD_GAS_COMPENSATION \<le> debt (Troves (tm_of w') b) \<and>
     sys_debt w' = sys_debt w + debt (Troves (tm_of w') b) \<and> sys_coll w' = sys_coll w + c \<and>
     (\<forall>x. x \<noteq> b \<longrightarrow> same_trove (tm_of w) (tm_of w') x) \<and>
     (\<exists>k. getCurrentICR (tm_of w') b p = Inr k \<and> liq_bound r \<le> k) \<and>
     (\<not> r \<longrightarrow> (\<exists>T. getTCR_sol p w' = Inr T \<and> CCR \<le> T))"

lemma open_facts:
  assumes "bo_openTrove E now sender b maxFee c n up lo w = Some (Inr w')" and inv: "sys_inv 0 0 w"
  obtains p w0 r where "fetch_price E w = Inr (p, w0)" and "checkRecoveryMode_sol p w0 = Inr r" and "trove_opened b c n p r w w'"
proof -
  from assms(1) obtain net cdebt NICR w1 w2 s where ch: "bo_open_check E now b maxFee c n w = Inr (net, cdebt, NICR, w1)"
    and rc: "bo_open_record E b c cdebt w1 = Inr w2" and pay: "bo_open_pay E sender b c n net (set_slist s w2) = Inr w'"
    by (rule openTrove_split)
  from ch obtain fee where net: "net = n + fee" "cdebt = net + USDD_GAS_COMPENSATION" and fr: "bo_frame w w1"
    and v1: "active_debt w1 = active_debt w" "active_coll w1 = active_coll w" and na: "status (Troves (tm_of w) b) \<noteq> active"
    by (rule bo_open_check_facts)
  from ch obtain p w0 r k where f: "fetch_price E w = Inr (p, w0)" "checkRecoveryMode_sol p w0 = Inr r"
    and k: "computeCR c cdebt p = Inr k" "liq_bound r \<le> k" and m: "MIN_NET_DEBT \<le> net"
    and T: "\<not> r \<longrightarrow> (\<exists>T. bo_getNewTCRFromTroveChange c True cdebt True p w1 = Inr T \<and> CCR \<le> T)" by (rule open_check_ratios)
  from rc obtain st where wr: "trove_write b (debt (Troves (tm_of w1) b) + cdebt) (coll (Troves (tm_of w1) b) + c) st (tm_of w1) (tm_of w2)"
    and w2: "w2 = set_tm (tm_of w2) w1" by (rule open_record_facts)
  have v2: "active_debt w2 = active_debt w1" "active_coll w2 = active_coll w1" "dpool w2 = dpool w1" by (subst w2, simp)+
  note pf = open_pay_facts[OF pay] and sn = open_record_snaps[OF rc]
  have same: "Troves (tm_of w1) = Troves (tm_of w)" "rewardSnapshots (tm_of w1) = rewardSnapshots (tm_of w)" "dpool w1 = dpool w"
    using fr by (auto simp: bo_frame_def tm_same_def)
  have z: "debt (Troves (tm_of w1) b) = 0" "coll (Troves (tm_of w1) b) = 0" using inv na same by (auto simp: sys_inv_def)
  have tr: "debt (Troves (tm_of w') b) = cdebt" "coll (Troves (tm_of w') b) = c" "status (Troves (tm_of w') b) = active"
    "rewardSnapshots (tm_of w') b = \<lparr>snap_COLL = L_COLL (tm_of w'), snap_USDDDebt = L_USDDDebt (tm_of w')\<rparr>"
    using pf wr sn z by (auto simp: trove_write_def same_trove_def same_terms_def)
  have "getCurrentICR (tm_of w') b p = Inr k" using current_ICR[OF tr(4)] sn wr z tr k(1) by (simp add: trove_write_def)
  moreover have "\<forall>x. x \<noteq> b \<longrightarrow> same_trove (tm_of w) (tm_of w') x"
    using pf wr same by (auto simp: trove_write_def same_trove_def)
  moreover have "getTCR_sol p w' = Inr T" if "bo_getNewTCRFromTroveChange c True cdebt True p w1 = Inr T" for T
    by (rule checked_TCR[OF that]) (use pf v2 net in auto)
  ultimately have "trove_opened b c n p r w w'" using k(2) na net m T pf v1 v2 same tr
    by (auto simp: trove_opened_def sys_debt_active sys_coll_active)
  with f show thesis by (rule that)
qed

section \<open>Adjusting\<close>

lemma apply_same:
  assumes "applyPendingRewards E b w = Inr w'"
  shows "(x \<noteq> b \<longrightarrow> same_trove (tm_of w) (tm_of w') x) \<and> same_books w w'"
proof (cases "hasPendingRewards (tm_of w) b")
  case True
  with assms obtain pd pc c d where
    m: "movePendingTroveRewardsToActivePool E pd pc
          (set_tm (updateTroveRewardSnapshots b (upd_trove b (\<lambda>t. t\<lparr>coll := c, debt := d\<rparr>) (tm_of w))) w) = Inr w'"
    unfolding applyPendingRewards_def by (auto elim!: rbindE)
  then show ?thesis using movePending_facts[OF m]
    by (auto simp: same_trove_def updateTroveRewardSnapshots_def upd_trove_def same_books_def)
qed (use assms in \<open>simp add: applyPendingRewards_def same_books_def\<close>)

text \<open>The ratio of the recorded amounts of a trove.\<close>

definition recorded_ICR :: "nat \<Rightarrow> address \<Rightarrow> 'x lq_world \<Rightarrow> nat res" where
  "recorded_ICR p b w = computeCR (coll (Troves (tm_of w) b)) (debt (Troves (tm_of w) b)) p"

definition trove_adjusted :: "address \<Rightarrow> nat \<Rightarrow> nat \<Rightarrow> bool \<Rightarrow> nat \<Rightarrow> bool \<Rightarrow> 'x lq_world \<Rightarrow> 'x lq_world \<Rightarrow> bool" where
  "trove_adjusted b cw n inc p r w w' \<longleftrightarrow> status (Troves (tm_of w) b) = active \<and>
     (\<forall>x. x \<noteq> b \<longrightarrow> same_trove (tm_of w) (tm_of w') x) \<and>
     (\<exists>k. recorded_ICR p b w' = Inr k \<and> (r \<longrightarrow> cw = 0) \<and> (\<not> r \<or> inc \<longrightarrow> liq_bound r \<le> k)) \<and>
     (\<not> r \<longrightarrow> (\<exists>T. getTCR_sol p w' = Inr T \<and> CCR \<le> T)) \<and>
     (\<not> inc \<and> n > 0 \<longrightarrow> MIN_NET_DEBT + USDD_GAS_COMPENSATION \<le> debt (Troves (tm_of w') b))"

lemma adjust_prepare_mode:
  assumes "bo_adjust_prepare E now b cd cw n inc maxFee w = Inr (r, p, net, w2)"
  obtains w0 w1 where "fetch_price E w = Inr (p, w0)" and "checkRecoveryMode_sol p w0 = Inr r"
    and "status (Troves (tm_of w) b) = active" and "applyPendingRewards E b w0 = Inr w1" and "bo_frame w1 w2"
    and "\<not> inc \<longrightarrow> net = n"
proof -
  from assms obtain w0 w1 where f: "fetch_price E w = Inr (p, w0)" "checkRecoveryMode_sol p w0 = Inr r"
    and ac: "bo_requireTroveisActive (tm_of w0) b = Inr ()" and ap: "applyPendingRewards E b w0 = Inr w1"
    and t: "(if inc \<and> \<not> r then rbind (bo_triggerBorrowingFee E now n maxFee w1) (\<lambda>(fee, w2). rbind (u_add n fee) (\<lambda>net. Inr (net, w2)))
            else Inr (n, w1)) = Inr (net, w2)"
    unfolding bo_adjust_prepare_def tm_applyPendingRewards_def by (elim rbindE) (auto elim!: rbindE)
  have "bo_frame w1 w2" using t trigger_fee_facts
    by (auto simp: bo_frame_def split: if_splits elim!: rbindE) blast+
  moreover have "\<not> inc \<longrightarrow> net = n" using t by auto
  ultimately show thesis using that[OF f _ ap] ac fetch_price_frame[OF f(1)]
    by (auto simp: bo_requireTroveisActive_def bo_frame_def tm_same_def)
qed

lemma adjust_record_ratios:
  assumes "bo_adjust_record E b cd cw n inc r p net w = Inr (newNICR, w')"
  obtains k where "recorded_ICR p b w' = Inr k" and "r \<longrightarrow> cw = 0" and "\<not> r \<or> inc \<longrightarrow> liq_bound r \<le> k"
    and "\<not> r \<longrightarrow> (\<exists>T. bo_getNewTCRFromTroveChange (fst (bo_getCollChange cd cw)) (snd (bo_getCollChange cd cw)) net inc p w = Inr T \<and> CCR \<le> T)"
    and "\<not> inc \<and> n > 0 \<longrightarrow> MIN_NET_DEBT + USDD_GAS_COMPENSATION + net \<le> debt (Troves (tm_of w) b)"
proof -
  obtain cc up where cc: "bo_getCollChange cd cw = (cc, up)" by force
  let ?d = "debt (Troves (tm_of w) b)" and ?c = "coll (Troves (tm_of w) b)"
  from assms obtain k0 k t1 j t2 where k: "bo_getNewICRFromTroveChange ?c ?d cc up net inc p = Inr k"
    and v: "bo_requireValidAdjustmentInCurrentMode r cw inc k0 k cc up net p w = Inr ()"
    and m: "(if \<not> inc \<and> n > 0 then rbind (getNetDebt_sol ?d) (\<lambda>nd. rbind (u_sub nd net) (\<lambda>rest.
               rbind (bo_requireAtLeastMinNetDebt rest) (\<lambda>_. rbind (bo_requireValidUSDDRepayment ?d net) (\<lambda>_.
               bo_requireSufficientUSDDBalance (usdd (others (sysw w))) b net)))) else Inr ()) = Inr ()"
    and 1: "bo_updateTroveFromAdjustment E b cc up net inc (tm_of w) = Inr t1"
    and 2: "updateStakeAndTotalStakes b t1 = Inr (j, t2)" and w': "w' = set_tm t2 w"
    unfolding bo_adjust_record_def tm_updateStakeAndTotalStakes_def Let_def cc by (auto elim!: rbindE)
  from 1 k updateStake_facts[OF 2] have "recorded_ICR p b w' = Inr k"
    by (auto simp: w' recorded_ICR_def bo_updateTroveFromAdjustment_def tm_increaseTroveColl_def tm_decreaseTroveColl_def
        tm_increaseTroveDebt_def tm_decreaseTroveDebt_def bo_getNewICRFromTroveChange_def bo_getNewTroveAmounts_def
        upd_trove_def rbind_Inr_iff split: if_splits)
  moreover have "r \<longrightarrow> cw = 0" "\<not> r \<or> inc \<longrightarrow> liq_bound r \<le> k"
    "\<not> r \<longrightarrow> (\<exists>T. bo_getNewTCRFromTroveChange cc up net inc p w = Inr T \<and> CCR \<le> T)"
    using v by (auto simp: bo_requireValidAdjustmentInCurrentMode_def bo_requireNoCollWithdrawal_def bo_requireICRisAboveCCR_def
        bo_requireICRisAboveMCR_def bo_requireNewTCRisAboveCCR_def liq_bound_def elim!: rbindE split: if_splits)
  moreover have "\<not> inc \<and> n > 0 \<longrightarrow> MIN_NET_DEBT + USDD_GAS_COMPENSATION + net \<le> ?d"
    using m by (auto simp: getNetDebt_sol_def bo_requireAtLeastMinNetDebt_def u_Inr_iffs elim!: rbindE)
  ultimately show thesis using that cc by simp
qed

lemma adjust_facts:
  assumes "bo_adjustTrove E now sender b cd cw n inc up lo maxFee w = Some (Inr w')" and inv: "sys_inv 0 0 w"
  obtains p w0 r where "fetch_price E w = Inr (p, w0)" and "checkRecoveryMode_sol p w0 = Inr r" and "trove_adjusted b cw n inc p r w w'"
proof -
  let ?cc = "fst (bo_getCollChange cd cw)" and ?up = "snd (bo_getCollChange cd cw)"
  from assms(1) obtain r p net w2 newNICR w3 s where pr: "bo_adjust_prepare E now b cd cw n inc maxFee w = Inr (r, p, net, w2)"
    and rc: "bo_adjust_record E b cd cw n inc r p net w2 = Inr (newNICR, w3)"
    and mv: "bo_moveTokensAndCollfromAdjustment E sender ?cc ?up n inc net (set_slist s w3) = Inr w'" by (rule adjustTrove_split)
  from pr obtain w0 w1 where f: "fetch_price E w = Inr (p, w0)" "checkRecoveryMode_sol p w0 = Inr r"
    and act: "status (Troves (tm_of w) b) = active" and ap: "applyPendingRewards E b w0 = Inr w1" and fr: "bo_frame w1 w2"
    and net: "\<not> inc \<longrightarrow> net = n" by (rule adjust_prepare_mode)
  from pr inv obtain fee v1 where sn: "coll_snaps (tm_of v1) b = L_COLL (tm_of v1)" "status (Troves (tm_of v1) b) = active"
    and frv: "bo_frame v1 w2" by (rule adjust_prepare_facts)
  have t2: "status (Troves (tm_of w2) b) = active" "coll_snaps (tm_of w2) b = L_COLL (tm_of w2)"
    using frv sn by (auto simp: bo_frame_def tm_same_def same_terms_def coll_snaps_def)
  from adjust_record_facts[OF rc t2] obtain d' c' k where wr: "trove_write b d' c' k (tm_of w2) (tm_of w3)"
    and w3: "w3 = set_tm (tm_of w3) w2" and d': "if inc then d' = debt (Troves (tm_of w2) b) + net else d' + net = debt (Troves (tm_of w2) b)"
    by blast
  from rc obtain k where k: "recorded_ICR p b w3 = Inr k" and m: "r \<longrightarrow> cw = 0" "\<not> r \<or> inc \<longrightarrow> liq_bound r \<le> k"
    and T: "\<not> r \<longrightarrow> (\<exists>T. bo_getNewTCRFromTroveChange ?cc ?up net inc p w2 = Inr T \<and> CCR \<le> T)"
    and low: "\<not> inc \<and> n > 0 \<longrightarrow> MIN_NET_DEBT + USDD_GAS_COMPENSATION + net \<le> debt (Troves (tm_of w2) b)"
    by (rule adjust_record_ratios)
  note mf = adjust_moves_facts[OF mv]
  have v3: "active_debt w3 = active_debt w2" "active_coll w3 = active_coll w2" "dpool w3 = dpool w2" by (subst w3, simp)+
  have tr: "Troves (tm_of w') = Troves (tm_of w3)" "dpool w' = dpool w3" "rewardSnapshots (tm_of w') = rewardSnapshots (tm_of w3)"
    using mf by (auto simp: bo_frame_def tm_same_def)
  have "same_trove (tm_of w) (tm_of w') x" if "x \<noteq> b" for x
    using fetch_price_frame[OF f(1)] apply_same[OF ap, of x] fr wr tr that
    by (auto simp: bo_frame_def tm_same_def same_trove_def trove_write_def)
  moreover have "getTCR_sol p w' = Inr T" if "bo_getNewTCRFromTroveChange ?cc ?up net inc p w2 = Inr T" for T
    by (rule checked_TCR[OF that]) (use mf v3 tr net in \<open>auto split: if_splits\<close>)
  moreover have "recorded_ICR p b w' = Inr k" using k tr by (simp add: recorded_ICR_def)
  ultimately have "trove_adjusted b cw n inc p r w w'" using act m T low wr d' tr net
    by (auto simp: trove_adjusted_def trove_write_def)
  with f show thesis by (rule that)
qed

section \<open>Closing\<close>

text \<open>
  The caller's trove disappears.  \<open>closing_amounts\<close> are its entire debt and collateral: with the pending rewards when
  \<open>hasPendingRewards\<close> sees them, as recorded otherwise.  The debt without the reserve is burned from the caller and the
  reserve from the gas pool, no other balance changes, and the last token transfer pays the collateral to the caller.
\<close>

definition closing_amounts :: "trove_manager \<Rightarrow> address \<Rightarrow> (nat \<times> nat) res" where
  "closing_amounts t b =
     (if hasPendingRewards t b then rbind (getEntireDebtAndColl t b) (\<lambda>(d, c, _, _). Inr (d, c))
      else Inr (debt (Troves t b), coll (Troves t b)))"

definition trove_closed :: "'x lq_env \<Rightarrow> address \<Rightarrow> nat \<Rightarrow> 'x lq_world \<Rightarrow> 'x lq_world \<Rightarrow> bool" where
  "trove_closed E b p w w' \<longleftrightarrow> status (Troves (tm_of w) b) = active \<and> status (Troves (tm_of w') b) = closedByOwner \<and>
     debt (Troves (tm_of w') b) = 0 \<and> coll (Troves (tm_of w') b) = 0 \<and> stake (Troves (tm_of w') b) = 0 \<and>
     (\<forall>x. x \<noteq> b \<longrightarrow> same_trove (tm_of w) (tm_of w') x) \<and>
     (\<exists>T. getTCR_sol p w' = Inr T \<and> CCR \<le> T) \<and>
     (\<exists>d c. closing_amounts (tm_of w) b = Inr (d, c) \<and> USDD_GAS_COMPENSATION \<le> d \<and>
        sys_debt w' + d = sys_debt w \<and> usdd_supply w' + d = usdd_supply w \<and> sys_coll w' + c = sys_coll w \<and>
        (\<forall>x. usdd_balances (usdd (others (sysw w'))) x + (if x = b then d - USDD_GAS_COMPENSATION else 0) +
             (if x = gasPool_address E then USDD_GAS_COMPENSATION else 0) = usdd_balances (usdd (others (sysw w))) x) \<and>
        (\<exists>w0 w1. fetch_price E w = Inr (p, w0) \<and> applyPendingRewards E b w0 = Inr w1 \<and>
           coll_transfer (spe E) (activePool_address (spe E)) b c (ext (others (sysw w1))) = Inr (ext (others (sysw w')))))"

lemma repay_balances:
  assumes "bo_repayUSDD E a n w = Inr w'"
  shows "usdd_balances (usdd (others (sysw w'))) a + n = usdd_balances (usdd (others (sysw w))) a \<and>
    (\<forall>x. x \<noteq> a \<longrightarrow> usdd_balances (usdd (others (sysw w'))) x = usdd_balances (usdd (others (sysw w))) x)"
  using assms by (auto simp: bo_repayUSDD_def usdd_burn_def usdd_internal_burn_Inr_iff rbind_Inr_iff)

lemma sendColl_usdd: "bo_sendColl E a n w = Inr w' \<Longrightarrow> usdd (others (sysw w')) = usdd (others (sysw w))"
  by (auto simp: bo_sendColl_def ap_sendColl_def rbind_Inr_iff)

lemma apply_amounts:
  assumes "applyPendingRewards E b w = Inr w'"
  shows "closing_amounts (tm_of w) b = Inr (debt (Troves (tm_of w') b), coll (Troves (tm_of w') b))"
proof (cases "hasPendingRewards (tm_of w) b")
  case True
  with assms obtain pd pc c d where g: "getPendingUSDDDebtReward (tm_of w) b = Inr pd" "getPendingCollReward (tm_of w) b = Inr pc"
    and c: "u_add (coll (Troves (tm_of w) b)) pc = Inr c" "u_add (debt (Troves (tm_of w) b)) pd = Inr d"
    and m: "movePendingTroveRewardsToActivePool E pd pc
          (set_tm (updateTroveRewardSnapshots b (upd_trove b (\<lambda>t. t\<lparr>coll := c, debt := d\<rparr>) (tm_of w))) w) = Inr w'"
    unfolding applyPendingRewards_def by (auto elim!: rbindE)
  with True movePending_facts[OF m] show ?thesis
    by (simp add: closing_amounts_def getEntireDebtAndColl_def updateTroveRewardSnapshots_def upd_trove_def)
qed (use assms in \<open>simp add: applyPendingRewards_def closing_amounts_def\<close>)

lemma closeTrove_ext: "closeTrove E b st w = Inr w' \<Longrightarrow> ext (others (sysw w')) = ext (others (sysw w))"
  unfolding closeTrove_def Let_def by (elim rbindE) auto

lemma repay_ext: "bo_repayUSDD E a n w = Inr w' \<Longrightarrow> ext (others (sysw w')) = ext (others (sysw w))"
  by (auto simp: bo_repayUSDD_def rbind_Inr_iff)

lemma sendColl_transfer:
  "bo_sendColl E a n w = Inr w' \<Longrightarrow>
    coll_transfer (spe E) (activePool_address (spe E)) a n (ext (others (sysw w))) = Inr (ext (others (sysw w')))"
  by (auto simp: bo_sendColl_def ap_sendColl_def rbind_Inr_iff)

text \<open>The two burns of a closing: the caller's own debt and the reserve in the gas pool.\<close>

lemma close_balances:
  assumes "bo_repayUSDD E a n w2 = Inr w3" and "bo_repayUSDD E g m w3 = Inr w4" and "bo_sendColl E a c w4 = Inr w'"
  shows "usdd_balances (usdd (others (sysw w'))) x + (if x = a then n else 0) + (if x = g then m else 0) =
    usdd_balances (usdd (others (sysw w2))) x"
  using repay_balances[OF assms(1)] repay_balances[OF assms(2)] sendColl_usdd[OF assms(3)] by (cases "x = a"; cases "x = g") force+

lemma closeTrove_checks:
  assumes "bo_closeTrove E sender b w = Inr w'"
  obtains p w0 w1 T where "fetch_price E w = Inr (p, w0)" and "checkRecoveryMode_sol p w0 = Inr False"
    and "applyPendingRewards E sender w0 = Inr w1" and "CCR \<le> T"
    and "bo_getNewTCRFromTroveChange (coll (Troves (tm_of w1) sender)) False (debt (Troves (tm_of w1) sender)) False p w1 = Inr T"
    and "status (Troves (tm_of w) sender) = active"
  using assms unfolding bo_closeTrove_def Let_def
  by (elim rbindE) (auto simp: bo_requireNotInRecoveryMode_def bo_requireNewTCRisAboveCCR_def bo_requireTroveisActive_def
      tm_applyPendingRewards_def elim!: rbindE)

lemma close_facts:
  assumes "bo_closeTrove E sender b w = Inr w'"
  obtains p w0 where "fetch_price E w = Inr (p, w0)" and "checkRecoveryMode_sol p w0 = Inr False" and "trove_closed E sender p w w'"
proof -
  from assms obtain p w0 w1 T where f: "fetch_price E w = Inr (p, w0)" and r: "checkRecoveryMode_sol p w0 = Inr False"
    and ap: "applyPendingRewards E sender w0 = Inr w1" and T: "CCR \<le> T"
      "bo_getNewTCRFromTroveChange (coll (Troves (tm_of w1) sender)) False (debt (Troves (tm_of w1) sender)) False p w1 = Inr T"
    and act: "status (Troves (tm_of w) sender) = active" by (rule closeTrove_checks)
  let ?d = "debt (Troves (tm_of w1) sender)" and ?c = "coll (Troves (tm_of w1) sender)"
  from assms obtain t w2 w3 w4 where g: "USDD_GAS_COMPENSATION \<le> ?d"
    and rs: "removeStake sender (tm_of w1) = Inr t" and cl: "closeTrove E sender closedByOwner (set_tm t w1) = Inr w2"
    and r1: "bo_repayUSDD E sender (?d - USDD_GAS_COMPENSATION) w2 = Inr w3"
    and r2: "bo_repayUSDD E (gasPool_address E) USDD_GAS_COMPENSATION w3 = Inr w4"
    and sc: "bo_sendColl E sender ?c w4 = Inr w'"
    by (rule closeTrove_split) (use f ap in \<open>auto simp: tm_applyPendingRewards_def rbind_Inr_iff\<close>)
  note cw = close_write[OF rs cl] and f3 = repayUSDD_facts[OF r1] and f4 = repayUSDD_facts[OF r2] and f5 = sendColl_facts[OF sc]
  note ff = fetch_price_frame[OF f] and aps = apply_same[OF ap]
  have "bo_frame w2 w'" using f3 f4 f5 bo_frame_trans by blast
  then have fr: "tm_same (tm_of w2) (tm_of w')" "dpool w' = dpool w1" using cw(2) by (simp_all add: bo_frame_def)
  have bk: "sys_debt w1 = sys_debt w" "sys_coll w1 = sys_coll w" "usdd_supply w1 = usdd_supply w" "usdd (others (sysw w1)) = usdd (others (sysw w))"
    using aps ff fetch_price_facts[OF f] by (auto simp: same_books_def sys_debt_def sys_coll_def usdd_supply_def)
  have ub: "usdd (others (sysw w2)) = usdd (others (sysw w1))" using closeTrove_facts(1)[OF cl] by (simp add: same_books_def)
  have "active_debt w' + ?d = active_debt w1" "active_coll w' + ?c = active_coll w1" "usdd_supply w' + ?d = usdd_supply w1"
    using f3 f4 f5 cw g by auto
  then have paid: "sys_debt w' + ?d = sys_debt w" "sys_coll w' + ?c = sys_coll w" "usdd_supply w' + ?d = usdd_supply w"
    using bk fr(2) by (simp_all add: sys_debt_active sys_coll_active)
  have am: "closing_amounts (tm_of w) sender = Inr (?d, ?c)" using apply_amounts[OF ap] fetch_price_facts[OF f] by simp
  have tr: "coll_transfer (spe E) (activePool_address (spe E)) sender ?c (ext (others (sysw w1))) = Inr (ext (others (sysw w')))"
    using sendColl_transfer[OF sc] repay_ext[OF r1] repay_ext[OF r2] closeTrove_ext[OF cl] by simp
  note bal = close_balances[OF r1 r2 sc, unfolded ub bk(4)]
  have "getTCR_sol p w' = Inr T" by (rule checked_TCR[OF T(2)]) (use f3 f4 f5 cw fr g in auto)
  moreover have "same_trove (tm_of w) (tm_of w') x" if "x \<noteq> sender" for x
    using ff aps cw(1) fr(1) that by (auto simp: bo_frame_def tm_same_def same_trove_def trove_write_def)
  moreover have "status (Troves (tm_of w') sender) = closedByOwner" "debt (Troves (tm_of w') sender) = 0"
    "coll (Troves (tm_of w') sender) = 0" "stake (Troves (tm_of w') sender) = 0"
    using cw fr(1) by (auto simp: trove_write_def tm_same_def)
  ultimately have "trove_closed E sender p w w'" using act T(1) paid bal am tr g f ap unfolding trove_closed_def by blast
  with f r show thesis by (rule that)
qed

section \<open>Redemptions\<close>

text \<open>
  Between the state \<open>w\<close> and a state \<open>w'\<close> of the loop, \<open>k\<close> troves were closed: their reserves are burned, and
  the collateral that left the pools is in the surplus pool.
\<close>

definition redeeming :: "'x lq_env \<Rightarrow> address \<Rightarrow> nat \<Rightarrow> 'x lq_world \<Rightarrow> 'x lq_world \<Rightarrow> bool" where
  "redeeming E dep k w w' \<longleftrightarrow> sys_debt w' + k * USDD_GAS_COMPENSATION = sys_debt w \<and>
     usdd_supply w' + k * USDD_GAS_COMPENSATION = usdd_supply w \<and> all_coll w' = all_coll w \<and>
     (dep \<noteq> gasPool_address E \<longrightarrow> usdd_balances (usdd (others (sysw w'))) dep = usdd_balances (usdd (others (sysw w))) dep)"

lemma redeeming_refl: "redeeming E dep 0 w w"
  by (simp add: redeeming_def)

lemma redeeming_trans: "redeeming E dep k w w' \<Longrightarrow> redeeming E dep j w' w'' \<Longrightarrow> redeeming E dep (k + j) w w''"
  by (auto simp: redeeming_def algebra_simps)

lemma same_books_redeeming: "same_books w w' \<Longrightarrow> redeeming E dep 0 w w'"
  by (auto simp: same_books_def redeeming_def sys_debt_def sys_coll_def usdd_supply_def all_coll_def)

lemma redeemClose_redeeming:
  assumes "redeemCloseTrove E b USDD_GAS_COMPENSATION c w = Inr w'"
  shows "redeeming E dep 1 w w'"
proof -
  from assms obtain us a cs p x where us: "usdd_burn (this_tm E) (gasPool_address E) USDD_GAS_COMPENSATION (usdd (others (sysw w))) = Inr us"
    and a: "ap_decreaseUSDDDebt (this_tm E) USDD_GAS_COMPENSATION (apool (others (sysw w))) = Inr a"
    and cs: "cs_accountSurplus (this_tm E) b c (cspool w) = Inr cs"
    and p: "ap_sendColl (spe E) (this_tm E) (this_tm E) c ((others (sysw w))\<lparr>usdd := us, apool := a\<rparr>) = Inr p"
    and w': "w' = set_peers (p\<lparr>ext := x\<rparr>) (set_peers p (w\<lparr>cspool := cs\<rparr>)\<lparr>cspool := cs\<lparr>cs_COLL := cs_COLL cs + c\<rparr>\<rparr>)"
    by (auto simp: redeemCloseTrove_def cs_receiveColl_def rbind_Inr_iff u_Inr_iffs)
  have "cs_COLL cs = cs_COLL (cspool w)" using cs by (auto simp: cs_accountSurplus_def rbind_Inr_iff)
  moreover have "usdd_totalSupply us + USDD_GAS_COMPENSATION = usdd_supply w"
    "dep \<noteq> gasPool_address E \<longrightarrow> usdd_balances us dep = usdd_balances (usdd (others (sysw w))) dep"
    using us by (auto simp: usdd_burn_def usdd_internal_burn_Inr_iff rbind_Inr_iff usdd_supply_def)
  moreover have "ap_USDDDebt a + USDD_GAS_COMPENSATION = active_debt w" "ap_balance a = active_coll w" using a
    by (auto simp: ap_decreaseUSDDDebt_def rbind_Inr_iff u_Inr_iffs active_debt_def active_coll_def)
  ultimately show ?thesis using ap_sendColl_facts[OF p]
    by (simp add: w' redeeming_def all_coll_def sys_debt_def sys_coll_def usdd_supply_def active_debt_def active_coll_def)
qed

lemma redeem_whole_redeeming:
  assumes "redeem_whole_trove E b c w = Inr w'"
  shows "redeeming E dep 1 w w'"
proof -
  from assms obtain t w1 where rs: "removeStake b (tm_of w) = Inr t" and cl: "closeTrove E b closedByRedemption (set_tm t w) = Inr w1"
    and rc: "redeemCloseTrove E b USDD_GAS_COMPENSATION c w1 = Inr w'" by (auto simp: redeem_whole_trove_def rbind_Inr_iff)
  have "same_books w w1" using closeTrove_facts(1)[OF cl] by (simp add: same_books_def)
  from redeeming_trans[OF same_books_redeeming[OF this] redeemClose_redeeming[OF rc]] show ?thesis by simp
qed

lemma redeem_part_books:
  "redeem_part_of_trove b d' c' s w = Inr w' \<Longrightarrow> same_books w w'"
  by (auto simp: redeem_part_of_trove_def rbind_Inr_iff same_books_def)

text \<open>The lot and its worth: at most the wanted amount, at most its value at the price.\<close>

lemma redeem_trove_redeeming:
  assumes "redeemCollateralFromTrove E b m p up lo h w = Some (Inr (l, c, False, w'))"
  shows "(\<exists>k. redeeming E dep k w w') \<and> l \<le> m \<and> c * p \<le> l * DECIMAL_PRECISION"
  using assms
proof (cases rule: redeem_trove_cases)
  case (whole c')
  with redeem_whole_redeeming[OF whole(3)] redemption_lot_facts[OF whole(2)] show ?thesis by auto
next
  case (part d' c' s)
  with same_books_redeeming[OF redeem_part_books[OF part(3)]] redemption_lot_facts[OF part(2)] show ?thesis by auto
qed simp

definition redeemed_so_far :: "'x lq_env \<Rightarrow> address \<Rightarrow> nat \<Rightarrow> nat \<Rightarrow> nat \<Rightarrow> nat \<Rightarrow> 'x lq_world \<Rightarrow> 'x lq_world \<Rightarrow> bool" where
  "redeemed_so_far E dep p n r d w w' \<longleftrightarrow> (\<exists>k. redeeming E dep k w w') \<and> r \<le> n \<and> d * p \<le> r * DECIMAL_PRECISION"

lemma redeem_loop_redeeming:
  assumes "redeem_loop E p up lo h b i n 0 0 w = Some (Inr (r', d', w'))"
  shows "redeemed_so_far E dep p n r' d' w w'"
proof (rule redeem_loop_keeps[where I = "\<lambda>b i m r d w'. redeemed_so_far E dep p n r d w w' \<and> r + m = n"
      and Q = "\<lambda>r d w'. redeemed_so_far E dep p n r d w w'", OF _ _ assms])
  fix b i m r d v v1 l c x v2
  assume I: "redeemed_so_far E dep p n r d w v \<and> r + m = n" and ap: "applyPendingRewards E b v = Inr v1"
    and rd: "redeemCollateralFromTrove E b m p up lo h v1 = Some (Inr (l, c, x, v2))"
  have 1: "\<exists>k. redeeming E dep k w v1"
    using I redeeming_trans[OF _ same_books_redeeming] apply_same[OF ap] by (auto simp: redeemed_so_far_def) blast
  show "if x then redeemed_so_far E dep p n r d w v2
        else redeemed_so_far E dep p n (r + l) (d + c) w v2 \<and> (r + l) + (m - l) = n"
  proof (cases x)
    case True
    with rd 1 I show ?thesis by (auto simp: redeemed_so_far_def elim: redeem_trove_cases)
  next
    case False
    with redeem_trove_redeeming[of E b m p up lo h v1 l c v2 dep] rd
    have 2: "\<exists>k. redeeming E dep k v1 v2" "l \<le> m" "c * p \<le> l * DECIMAL_PRECISION" by auto
    with 1 have "\<exists>k. redeeming E dep k w v2" using redeeming_trans by blast
    with 2 False I show ?thesis by (auto simp: redeemed_so_far_def add_mult_distrib)
  qed
qed (auto simp: redeemed_so_far_def intro: redeeming_refl)

lemma redeem_finish_payment:
  assumes "redeem_finish E now sender dep maxFee p tot r d w = Inr w'"
  shows "usdd_balances (usdd (others (sysw w'))) dep + r = usdd_balances (usdd (others (sysw w))) dep \<and>
    all_coll w' + d = all_coll w"
proof -
  from assms obtain x t fee p1 st u a p2 where
    p1: "ap_sendColl (spe E) (this_tm E) (this_stk (stke E)) fee (others (sysw (set_tm t w))) = Inr p1"
    and fee: "fee \<le> d" and u: "usdd_burn (this_tm E) dep r (usdd p1) = Inr u" and a: "ap_decreaseUSDDDebt (this_tm E) r (apool p1) = Inr a"
    and p2: "ap_sendColl (spe E) (this_tm E) sender (d - fee) (p1\<lparr>usdd := u, apool := a\<rparr>) = Inr p2"
    and w': "w' = set_peers p2 (w\<lparr>staking := st\<rparr>)"
    unfolding redeem_finish_def by (auto simp: u_Inr_iffs elim!: rbindE)
  have "usdd_balances u dep + r = usdd_balances (usdd p1) dep" using u
    by (auto simp: usdd_burn_def usdd_internal_burn_Inr_iff rbind_Inr_iff)
  moreover have "ap_balance a = ap_balance (apool p1)" using a by (auto simp: ap_decreaseUSDDDebt_def rbind_Inr_iff)
  ultimately show ?thesis using ap_sendColl_facts[OF p1] ap_sendColl_facts[OF p2] fee
    by (auto simp: w' all_coll_def sys_coll_def)
qed

text \<open>
  An exchange: \<open>redeemed\<close> USDD of the depositor are burned against the same amount of debt and \<open>drawn\<close> collateral leaves
  the system, worth no more than the USDD at the price; \<open>k\<close> troves were closed with their reserves.
\<close>

definition exchanged :: "'x lq_env \<Rightarrow> address \<Rightarrow> nat \<Rightarrow> nat \<Rightarrow> 'x lq_world \<Rightarrow> 'x lq_world \<Rightarrow> bool" where
  "exchanged E dep n p w w' \<longleftrightarrow> (\<exists>redeemed drawn k. redeemed \<le> n \<and> 0 < drawn \<and> drawn * p \<le> redeemed * DECIMAL_PRECISION \<and>
     sys_debt w' + redeemed + k * USDD_GAS_COMPENSATION = sys_debt w \<and>
     usdd_supply w' + redeemed + k * USDD_GAS_COMPENSATION = usdd_supply w \<and> all_coll w' + drawn = all_coll w \<and>
     (dep \<noteq> gasPool_address E \<longrightarrow>
        usdd_balances (usdd (others (sysw w'))) dep + redeemed = usdd_balances (usdd (others (sysw w))) dep))"

lemma redeem_facts:
  assumes "tm_redeemCollateral E now sender dep n hint up lo h iters maxFee w = Some (Inr w')"
  obtains p w0 T where "fetch_price E w = Inr (p, w0)" and "getTCR_sol p w0 = Inr T" and "MCR \<le> T" and "exchanged E dep n p w w'"
proof -
  from assms obtain p tot w0 b r d w1 where ch: "redeem_check E now sender dep n maxFee w = Inr (p, tot, w0)"
    and lp: "redeem_loop E p up lo h b (if iters = 0 then 2 ^ 256 - 1 else iters) n 0 0 w0 = Some (Inr (r, d, w1))"
    and fin: "redeem_finish E now sender dep maxFee p tot r d w1 = Inr w'" by (rule redeem_split)
  from ch obtain T where T: "getTCR_sol p w0 = Inr T" "MCR \<le> T"
    unfolding redeem_check_def by (elim rbindE) (auto simp: requireTCRoverMCR_def elim!: rbindE)
  have f: "fetch_price E w = Inr (p, w0)" using redeem_check_facts[OF ch] by simp
  have "redeeming E dep 0 w w0" using fetch_price_facts[OF f] by (intro same_books_redeeming) (simp add: same_books_def)
  from redeem_loop_redeeming[OF lp, of dep] obtain k where k: "redeeming E dep k w0 w1" "r \<le> n" "d * p \<le> r * DECIMAL_PRECISION"
    by (auto simp: redeemed_so_far_def)
  have "redeeming E dep k w w1" using redeeming_trans[OF \<open>redeeming E dep 0 w w0\<close> k(1)] by simp
  then have "exchanged E dep n p w w'" unfolding exchanged_def
    by (intro exI[of _ r] exI[of _ d] exI[of _ k])
      (use k redeem_finish_facts[OF fin] redeem_finish_payment[OF fin] in \<open>auto simp: redeeming_def sys_debt_active\<close>)
  with f T show thesis by (rule that)
qed

end
