(* ===== verification/System_History.thy ===== *)
theory System_History
  imports System_Books
begin

text \<open>
  Histories of the whole system for one collateral token: any sequence of calls by users on TroveManager,
  BorrowerOperations, the Stability Pool, the stablecoin and the staking contract, in any order, starting right
  after deployment.  Functions reserved to other contracts are reached through them.  A call that reverts (or
  does not return) changes nothing.
\<close>

section \<open>Deployment\<close>

text \<open>Storage after all contracts are created and wired; \<open>ci\<close> and \<open>x\<close> are the issuance contract and the outside world.\<close>

definition sys_deployed :: "'x lq_env \<Rightarrow> nat \<Rightarrow> address list \<Rightarrow> community_issuance \<Rightarrow> 'x \<Rightarrow> 'x lq_world" where
  "sys_deployed E maxTroves tokens ci x =
     \<lparr>sysw = \<lparr>pool = sp_deployed (this_tm E) (tm_wETHGatewayAddress E),
        others = \<lparr>issuance = ci, usdd = usdd_deployed (this_tm E) (this_sp (spe E)) (this_bo E),
          apool = \<lparr>ap_authorizedTroveManagers = (\<lambda>a. a = this_tm E), ap_authorizedBorrowerOperations = (\<lambda>a. a = this_bo E),
            ap_stabilityPoolAddress = this_sp (spe E), ap_defaultPoolAddress = defaultPool_address E,
            ap_balance = 0, ap_USDDDebt = 0\<rparr>,
          tmanager = fresh_trove_manager\<lparr>borrowerOperationsAddress := this_bo E\<rparr>,
          slist = initial_list (this_tm E) (this_bo E) maxTroves, ext = x\<rparr>\<rparr>,
      dpool = \<lparr>dp_authorizedTroveManagers = (\<lambda>a. a = this_tm E), dp_balance = 0, dp_USDDDebt = 0\<rparr>,
      cspool = \<lparr>cs_authorizedTroveManagers = (\<lambda>a. a = this_tm E), cs_authorizedBorrowerOperations = (\<lambda>a. a = this_bo E),
        cs_COLL = 0, cs_balances = (\<lambda>_. 0)\<rparr>,
      staking = staking_deployed (tm_wETHGatewayAddress E) tokens (\<lambda>a. a = this_tm E) (\<lambda>a. a = this_bo E)\<rparr>"

section \<open>Calls\<close>

datatype sys_call =
    Liquidation liq_call
  | RedeemCollateral address nat address address address nat nat nat
  | OpenTrove address nat nat nat address address
  | AdjustTrove address nat nat nat bool address address nat
  | CloseTrove address
  | ClaimCollateral address
  | DepositUSDD address nat address
  | WithdrawUSDD address nat
  | GainToTrove address address
  | RegisterAsFrontEnd nat
  | TransferUSDD address nat
  | TransferUSDDFrom address address nat
  | ApproveUSDD address nat
  | StakeDEFT address nat
  | UnstakeDEFT address nat

definition on_pool :: "('x sp_world \<Rightarrow> 'x sp_world res) \<Rightarrow> 'x lq_world \<Rightarrow> 'x lq_world res" where
  "on_pool f w = rbind (f (sysw w)) (\<lambda>s. Inr (w\<lparr>sysw := s\<rparr>))"

text \<open>\<open>StabilityPool.withdrawCollGainToTrove\<close> with its last step, the call of \<open>BorrowerOperations\<close>.\<close>

definition sys_withdrawCollGainToTrove ::
  "'x lq_env \<Rightarrow> nat \<Rightarrow> address \<Rightarrow> address \<Rightarrow> address \<Rightarrow> 'x lq_world \<Rightarrow> 'x lq_world res option" where
  "sys_withdrawCollGainToTrove E now sender upperHint lowerHint w =
     (case sp_takeCollGain (spe E) now sender (sysw w) of
        Inl e \<Rightarrow> Some (Inl e)
      | Inr (gain, s) \<Rightarrow>
          bo_moveCollGainToTrove E now (this_sp (spe E)) sender gain upperHint lowerHint (w\<lparr>sysw := s\<rparr>))"

definition on_usdd :: "(usdd_token \<Rightarrow> usdd_token res) \<Rightarrow> 'x lq_world \<Rightarrow> 'x lq_world res" where
  "on_usdd f w = rbind (f (usdd (others (sysw w)))) (\<lambda>u. Inr (set_usdd u w))"

definition on_staking :: "('x staking_world \<Rightarrow> 'x staking_world res) \<Rightarrow> 'x lq_world \<Rightarrow> 'x lq_world res" where
  "on_staking f w =
     rbind (f \<lparr>stk = staking w, stk_usdd = usdd (others (sysw w)), stk_ext = ext (others (sysw w))\<rparr>) (\<lambda>s.
     Inr (set_peers ((others (sysw w))\<lparr>usdd := stk_usdd s, ext := stk_ext s\<rparr>) (w\<lparr>staking := stk s\<rparr>)))"

fun sys_exec :: "'x lq_env \<Rightarrow> nat \<Rightarrow> address \<Rightarrow> sys_call \<Rightarrow> 'x lq_world \<Rightarrow> 'x lq_world res option" where
  "sys_exec E now sender (Liquidation c) w = Some (liq_exec E now sender c w)"
| "sys_exec E now sender (RedeemCollateral dep n hint up lo h iters maxFee) w =
     tm_redeemCollateral E now sender dep n hint up lo h iters maxFee w"
| "sys_exec E now sender (OpenTrove b maxFee c n up lo) w = bo_openTrove E now sender b maxFee c n up lo w"
| "sys_exec E now sender (AdjustTrove b cd cw n inc up lo maxFee) w =
     bo_adjustTrove E now sender b cd cw n inc up lo maxFee w"
| "sys_exec E now sender (CloseTrove b) w = Some (bo_closeTrove E sender b w)"
| "sys_exec E now sender (ClaimCollateral b) w = Some (bo_claimCollateral E sender b w)"
| "sys_exec E now sender (DepositUSDD a n t) w = Some (on_pool (sp_exec (spe E) now sender (ProvideToSP a n t)) w)"
| "sys_exec E now sender (WithdrawUSDD a n) w = Some (on_pool (sp_exec (spe E) now sender (WithdrawFromSP a n)) w)"
| "sys_exec E now sender (GainToTrove up lo) w = sys_withdrawCollGainToTrove E now sender up lo w"
| "sys_exec E now sender (RegisterAsFrontEnd r) w = Some (on_pool (sp_exec (spe E) now sender (RegisterFrontEnd r)) w)"
| "sys_exec E now sender (TransferUSDD a n) w =
     Some (on_usdd (usdd_exec (usdd_address (stke E)) sender (Transfer a n)) w)"
| "sys_exec E now sender (TransferUSDDFrom a b n) w =
     Some (on_usdd (usdd_exec (usdd_address (stke E)) sender (TransferFrom a b n)) w)"
| "sys_exec E now sender (ApproveUSDD a n) w =
     Some (on_usdd (usdd_exec (usdd_address (stke E)) sender (Approve a n)) w)"
| "sys_exec E now sender (StakeDEFT a n) w = Some (on_staking (stake_deft (stke E) sender a n) w)"
| "sys_exec E now sender (UnstakeDEFT a n) w = Some (on_staking (unstake_deft (stke E) sender a n) w)"

text \<open>A history: the time and the sender of every call.\<close>

fun sys_run :: "'x lq_env \<Rightarrow> (nat \<times> address \<times> sys_call) list \<Rightarrow> 'x lq_world \<Rightarrow> 'x lq_world" where
  "sys_run E [] w = w"
| "sys_run E ((now, sender, c) # cs) w =
     (case sys_exec E now sender c w of Some (Inr w') \<Rightarrow> sys_run E cs w' | _ \<Rightarrow> sys_run E cs w)"

lemma sys_run_keeps:
  assumes "\<And>now sender c w w'. sys_exec E now sender c w = Some (Inr w') \<Longrightarrow> I w \<Longrightarrow> I w'"
  shows "I w \<Longrightarrow> I (sys_run E cs w)"
proof (induction cs arbitrary: w)
  case (Cons x cs)
  then show ?case by (cases x) (auto split: option.splits sum.splits dest: assms)
qed simp

section \<open>The calls that leave the books alone\<close>

definition peers_frame :: "'x peers \<Rightarrow> 'x peers \<Rightarrow> bool" where
  "peers_frame p p' \<longleftrightarrow> tmanager p' = tmanager p \<and> apool p' = apool p \<and> slist p' = slist p \<and>
     usdd_totalSupply (usdd p') = usdd_totalSupply (usdd p)"

lemma peers_frame_refl [simp]: "peers_frame p p"
  by (simp add: peers_frame_def)

lemma peers_frame_trans: "peers_frame p p' \<Longrightarrow> peers_frame p' p'' \<Longrightarrow> peers_frame p p''"
  by (simp add: peers_frame_def)

lemma pay_DEFT_frame: "pay_DEFT E a n p = Inr p' \<Longrightarrow> peers_frame p p'"
  by (auto simp: pay_DEFT_def rbind_Inr_iff peers_frame_def)

lemma payOut_frame: "payOutDEFTGains E d f w = Inr w' \<Longrightarrow> peers_frame (others w) (others w')"
  unfolding payOutDEFTGains_def
  by (auto elim!: rbindE split: if_splits dest!: pay_DEFT_frame intro: peers_frame_trans)

lemma internal_transfer_supply: "usdd_internal_transfer a b n u = Inr u' \<Longrightarrow> usdd_totalSupply u' = usdd_totalSupply u"
  by (auto simp: usdd_internal_transfer_Inr_iff)

lemma sendUSDDto_frame: "sendUSDDtoStabilityPool E a n w = Inr w' \<Longrightarrow> peers_frame (others w) (others w')"
  by (auto simp: sendUSDDtoStabilityPool_def usdd_sendToPool_def rbind_Inr_iff peers_frame_def dest: internal_transfer_supply)

lemma sendUSDDToDepositor_frame: "sendUSDDToDepositor E a n w = Inr w' \<Longrightarrow> peers_frame (others w) (others w')"
  by (auto simp: sendUSDDToDepositor_def rbind_Inr_iff peers_frame_def returnFromPool_supply split: if_splits)

lemma sendCollGain_frame: "sendCollGainToDepositor E s n w = Inr w' \<Longrightarrow> peers_frame (others w) (others w')"
  by (auto simp: sendCollGainToDepositor_def rbind_Inr_iff peers_frame_def split: if_splits)

lemma trigger_peers: "triggerDEFTIssuance E now w = Inr w' \<Longrightarrow> peers_frame (others w) (others w')"
  using trigger_frame[of E now w w'] by (simp add: peers_frame_def)

lemmas frame_dest = trigger_peers payOut_frame sendUSDDto_frame sendUSDDToDepositor_frame sendCollGain_frame

lemma provide_frame:
  assumes "provideToSP E now sender d n t w = Inr w'"
  shows "peers_frame (others w) (others w')"
proof (cases "initialValue (deposits (pool w) d) = 0")
  case True
  with assms show ?thesis unfolding provideToSP_def Let_def
    by (elim rbindE) (auto simp: peers_frame_def dest!: frame_dest)
next
  case False
  with assms show ?thesis unfolding provideToSP_def Let_def
    by (elim rbindE) (auto simp: peers_frame_def dest!: frame_dest)
qed

lemma noUnderColl_frame: "requireNoUnderCollateralizedTroves E p = Inr p' \<Longrightarrow> peers_frame p p'"
  by (auto simp: requireNoUnderCollateralizedTroves_def rbind_Inr_iff peers_frame_def)

lemma withdraw_frame:
  assumes "withdrawFromSP E now sender d n w = Inr w'"
  shows "peers_frame (others w) (others w')"
proof (cases "n = 0")
  case True
  with assms show ?thesis unfolding withdrawFromSP_def Let_def
    by (elim rbindE) (auto simp: peers_frame_def dest!: frame_dest)
next
  case False
  with assms show ?thesis unfolding withdrawFromSP_def Let_def
    by (elim rbindE) (auto simp: peers_frame_def dest!: frame_dest noUnderColl_frame)
qed

lemma takeCollGain_frame:
  assumes "sp_takeCollGain E now sender w = Inr (gain, w')"
  shows "peers_frame (others w) (others w')"
  using assms unfolding sp_takeCollGain_def Let_def
  by (elim rbindE) (auto simp: peers_frame_def dest!: frame_dest)

lemma gainToTrove_split:
  assumes "sys_withdrawCollGainToTrove E now sender up lo w = Some (Inr w')"
  obtains gain s where "sp_takeCollGain (spe E) now sender (sysw w) = Inr (gain, s)"
    and "bo_adjustTrove E now (this_sp (spe E)) sender gain 0 0 False up lo 0 (w\<lparr>sysw := s\<rparr>) = Some (Inr w')"
  using assms by (auto simp: sys_withdrawCollGainToTrove_def bo_moveCollGainToTrove_def split: sum.splits)

lemma peers_ledger: "peers_frame (others (sysw w)) (others s) \<Longrightarrow> same_ledger w (w\<lparr>sysw := s\<rparr>)"
  by (simp add: same_ledger_def peers_frame_def tm_of_def active_debt_def active_coll_def usdd_supply_def)

lemma on_pool_ledger:
  assumes "on_pool f w = Inr w'" and "\<And>s. f (sysw w) = Inr s \<Longrightarrow> peers_frame (others (sysw w)) (others s)"
  shows "same_ledger w w'"
  using assms by (auto simp: on_pool_def rbind_Inr_iff intro: peers_ledger)

lemma on_usdd_ledger:
  assumes "on_usdd f w = Inr w'" and "\<And>u u'. f u = Inr u' \<Longrightarrow> usdd_totalSupply u' = usdd_totalSupply u"
  shows "same_ledger w w'"
  using assms by (auto simp: on_usdd_def rbind_Inr_iff same_ledger_def set_usdd_def tm_of_def active_debt_def active_coll_def usdd_supply_def)

lemma user_usdd_supply:
  "usdd_exec t s (Transfer a n) u = Inr u' \<Longrightarrow> usdd_totalSupply u' = usdd_totalSupply u"
  "usdd_exec t s (TransferFrom a b n) u = Inr u' \<Longrightarrow> usdd_totalSupply u' = usdd_totalSupply u"
  "usdd_exec t s (Approve a n) u = Inr u' \<Longrightarrow> usdd_totalSupply u' = usdd_totalSupply u"
  by (auto simp: usdd_external_defs usdd_internal_iffs rbind_Inr_iff)

lemma on_staking_ledger:
  assumes "on_staking f w = Inr w'" and "\<And>s s'. f s = Inr s' \<Longrightarrow> usdd_totalSupply (stk_usdd s') = usdd_totalSupply (stk_usdd s)"
  shows "same_ledger w w'"
proof -
  from assms(1) obtain s where s: "f \<lparr>stk = staking w, stk_usdd = usdd (others (sysw w)), stk_ext = ext (others (sysw w))\<rparr> = Inr s"
    and w': "w' = set_peers ((others (sysw w))\<lparr>usdd := stk_usdd s, ext := stk_ext s\<rparr>) (w\<lparr>staking := stk s\<rparr>)"
    by (auto simp: on_staking_def rbind_Inr_iff)
  show ?thesis using assms(2)[OF s]
    by (simp add: w' same_ledger_def tm_of_def active_debt_def active_coll_def usdd_supply_def)
qed

lemma transfer_supply: "usdd_transfer t a b n u = Inr u' \<Longrightarrow> usdd_totalSupply u' = usdd_totalSupply u"
  by (auto simp: usdd_transfer_def rbind_Inr_iff dest: internal_transfer_supply)

lemma stake_supply: "stake_deft E sender a n w = Inr w' \<Longrightarrow> usdd_totalSupply (stk_usdd w') = usdd_totalSupply (stk_usdd w)"
  unfolding stake_deft_def Let_def by (elim rbindE) (auto dest: transfer_supply elim!: rbindE)

lemma unstake_supply: "unstake_deft E sender a n w = Inr w' \<Longrightarrow> usdd_totalSupply (stk_usdd w') = usdd_totalSupply (stk_usdd w)"
  unfolding unstake_deft_def Let_def by (elim rbindE) (auto dest: transfer_supply elim!: rbindE)

section \<open>The books balance\<close>

lemma sys_exec_inv:
  assumes "sys_exec E now sender c w = Some (Inr w')" and "sys_inv 0 0 w"
  shows "sys_inv 0 0 w'"
proof (cases c)
  case (DepositUSDD a n t)
  with assms(1) have "same_ledger w w'" by (intro on_pool_ledger) (auto dest: provide_frame)
  then show ?thesis by (rule same_ledger_inv[OF _ assms(2)])
next
  case (WithdrawUSDD a n)
  with assms(1) have "same_ledger w w'" by (intro on_pool_ledger) (auto dest: withdraw_frame)
  then show ?thesis by (rule same_ledger_inv[OF _ assms(2)])
next
  case (GainToTrove up lo)
  with assms(1) obtain gain s where t: "sp_takeCollGain (spe E) now sender (sysw w) = Inr (gain, s)"
    and a: "bo_adjustTrove E now (this_sp (spe E)) sender gain 0 0 False up lo 0 (w\<lparr>sysw := s\<rparr>) = Some (Inr w')"
    by (auto elim: gainToTrove_split)
  show ?thesis by (rule adjust_inv[OF a same_ledger_inv[OF peers_ledger[OF takeCollGain_frame[OF t]] assms(2)]])
next
  case (RegisterAsFrontEnd r)
  with assms(1) have "same_ledger w w'" by (intro on_pool_ledger) (auto simp: rbind_Inr_iff)
  then show ?thesis by (rule same_ledger_inv[OF _ assms(2)])
next
  case (StakeDEFT a n)
  with assms(1) have "same_ledger w w'" by (auto elim: on_staking_ledger dest: stake_supply)
  then show ?thesis by (rule same_ledger_inv[OF _ assms(2)])
next
  case (UnstakeDEFT a n)
  with assms(1) have "same_ledger w w'" by (auto elim: on_staking_ledger dest: unstake_supply)
  then show ?thesis by (rule same_ledger_inv[OF _ assms(2)])
next
  case (ClaimCollateral b)
  with assms show ?thesis by (auto intro: same_ledger_inv claim_ledger)
next
  case (TransferUSDD a n)
  with assms(1) have "same_ledger w w'" by (auto elim: on_usdd_ledger dest: user_usdd_supply simp del: usdd_exec.simps)
  then show ?thesis by (rule same_ledger_inv[OF _ assms(2)])
next
  case (TransferUSDDFrom a b n)
  with assms(1) have "same_ledger w w'" by (auto elim: on_usdd_ledger dest: user_usdd_supply simp del: usdd_exec.simps)
  then show ?thesis by (rule same_ledger_inv[OF _ assms(2)])
next
  case (ApproveUSDD a n)
  with assms(1) have "same_ledger w w'" by (auto elim: on_usdd_ledger dest: user_usdd_supply simp del: usdd_exec.simps)
  then show ?thesis by (rule same_ledger_inv[OF _ assms(2)])
qed (use assms in \<open>auto intro: call_inv redeem_inv open_inv adjust_inv close_inv\<close>)

lemma sys_deployed_inv: "sys_inv 0 0 (sys_deployed E n tokens ci x)"
proof -
  have "debts_of (fresh_trove_manager\<lparr>borrowerOperationsAddress := a\<rparr>) = (\<lambda>_. 0)"
    "colls_of (fresh_trove_manager\<lparr>borrowerOperationsAddress := a\<rparr>) = (\<lambda>_. 0)"
    "stakes_of (fresh_trove_manager\<lparr>borrowerOperationsAddress := a\<rparr>) = (\<lambda>_. 0)"
    "coll_snaps (fresh_trove_manager\<lparr>borrowerOperationsAddress := a\<rparr>) = (\<lambda>_. 0)" for a
    by (auto simp: fun_eq_iff debts_of_def colls_of_def stakes_of_def coll_snaps_def fresh_trove_manager_def empty_trove_def)
  then show ?thesis
    by (simp add: sys_inv_def sys_deployed_def tm_of_def active_debt_def active_coll_def usdd_supply_def sys_debt_def
        reserve_ok_def reserve_of_def pot_ok_def claims_def[abs_def] usdd_deployed_def)
      (simp add: fresh_trove_manager_def empty_trove_def)
qed

lemma sys_run_inv: "sys_inv 0 0 (sys_run E cs (sys_deployed E n tokens ci x))"
  by (rule sys_run_keeps[of E "sys_inv 0 0", OF sys_exec_inv sys_deployed_inv])

end
