(* ===== verification/System_Demo.thy ===== *)
theory System_Demo
  imports System_History Stability_Pool_Demo
begin

text \<open>
  A small system reached by calls from deployment, evaluated in the logic: three troves (11, 13 and 12, from the highest
  to the lowest ratio) opened at a price of 2000, and a deposit of 6000 USDD.  The tokens accept every transfer,
  and the outside world is the list of the prices that the oracle reports next.
\<close>

section \<open>The environment\<close>

definition demo_lq :: "(nat list) lq_env" where
  "demo_lq =
     \<lparr>spe = \<lparr>this_sp = 3, activePool_address = 4, communityIssuance_address = 5, deft_transfer = (\<lambda>_ _ _. Inr),
        coll_transfer = (\<lambda>_ _ _. Inr), sp_fetchPrice = (\<lambda>x. Inr (hd x, tl x)), moveCollGain = (\<lambda>_ _ _ _. Inr)\<rparr>,
      stke = \<lparr>this_stk = 6, usdd_address = 9, collToken_of = (\<lambda>_. 70), stk_deft_transferFrom = (\<lambda>_ _ _ _. Inr),
        stk_deft_transfer = (\<lambda>_ _ _. Inr), stk_coll_transfer = (\<lambda>_ _ _ _. Inr)\<rparr>,
      this_bo = 2, bo_wETHGatewayAddress = 0, collToken_address = 70, deploymentStartTime = 0,
      this_tm = 1, defaultPool_address = 7, collSurplusPool_address = 8, gasPool_address = 10,
      tm_wETHGatewayAddress = 12, coll_transferFrom = (\<lambda>_ _ _ _. Inr)\<rparr>"

definition demo_start :: community_issuance where
  "demo_start = demo_ci\<lparr>startTime := 1\<rparr>"

lemma demo_start_simps [simp]:
  "startTime demo_start = 1" "ci_stabilityPoolAddress demo_start = 3" "totalDEFTIssued demo_start = 0"
  "demo_start\<lparr>totalDEFTIssued := 0\<rparr> = demo_start"
  by (simp_all add: demo_start_def demo_ci_def)

lemma decPow_0:
  "decPow ISSUANCE_FACTOR 0 = Inr 1000000000000000000" "decPow 999037758833783000 0 = Inr 1000000000000000000"
  by (simp_all add: decPow_def DECIMAL_PRECISION_def)

section \<open>Evaluating calls\<close>

lemmas borrower_defs =
  tm_setTroveStatus_def tm_increaseTroveColl_def tm_decreaseTroveColl_def tm_increaseTroveDebt_def
  tm_decreaseTroveDebt_def tm_updateTroveRewardSnapshots_def tm_updateStakeAndTotalStakes_def tm_removeStake_def
  tm_addTroveOwnerToArray_def tm_applyPendingRewards_def tm_closeTrove_def bo_requireSingularCollChange_def
  bo_requireCallerIsBorrowerOrGw_def bo_requireCallerIsBorrowerOrGwOrSP_def bo_requireNonZeroAdjustment_def
  bo_requireTroveisActive_def bo_requireTroveisNotActive_def bo_requireNonZeroDebtChange_def
  bo_requireNotInRecoveryMode_def bo_requireNoCollWithdrawal_def bo_requireICRisAboveMCR_def
  bo_requireICRisAboveCCR_def bo_requireNewICRisAboveOldICR_def bo_requireNewTCRisAboveCCR_def
  bo_requireAtLeastMinNetDebt_def bo_requireValidUSDDRepayment_def bo_requireCallerIsStabilityPool_def
  bo_requireSufficientUSDDBalance_def bo_requireValidMaxFeePercentage_def bo_getNewTroveAmounts_def
  bo_getNewNominalICRFromTroveChange_def bo_getNewICRFromTroveChange_def bo_getNewTCRFromTroveChange_def
  set_usdd_def set_slist_def bo_triggerBorrowingFee_def bo_activePoolAddColl_def bo_withdrawUSDD_def
  bo_repayUSDD_def bo_sendColl_def bo_moveTokensAndCollfromAdjustment_def bo_list_then_def bo_open_check_def
  bo_open_record_def bo_open_pay_def bo_openTrove_def bo_getCollChange_def
  bo_requireValidAdjustmentInCurrentMode_def bo_updateTroveFromAdjustment_def bo_adjust_guards_def
  bo_adjust_prepare_def bo_adjust_record_def bo_adjustTrove_def bo_addColl_def bo_moveCollGainToTrove_def
  bo_withdrawColl_def bo_withdrawUSDD_external_def bo_repayUSDD_external_def bo_closeTrove_def
  bo_claimCollateral_def

lemmas liquidation_defs =
  zeroVals_def zeroTotals_def getOffsetAndRedistributionVals_def getCappedOffsetVals_def
  addLiquidationValuesToTotals_def getEntireSystemColl_def getEntireSystemDebt_def getTCR_sol_def
  checkRecoveryMode_sol_def checkPotentialRecoveryMode_def movePendingTroveRewardsToActivePool_def
  requireMoreThanOneTroveInSystem_def closeTrove_def detach_trove_def liquidateNormalMode_def
  liquidateRecoveryMode_def redistributeDebtAndColl_def updateSystemSnapshots_excludeCollRemainder_def
  sendGasCompensation_def requireCallerIsLiquidatorOrGw_def requireTroveIsActive_def finish_liquidation_def
  fetch_price_def liquidateTroves_def batchLiquidateTroves_def liquidate_def applyPendingRewards_def

lemmas pool_defs =
  tm_of_def set_tm_def ap_requireCallerIsBOorTroveM_def ap_requireCallerIsBorrowerOperationsOrDefaultPool_def
  ap_increaseUSDDDebt_def ap_receiveColl_def dp_requireCallerIsTroveManager_def dp_increaseUSDDDebt_def
  dp_decreaseUSDDDebt_def dp_receiveColl_def dp_sendToActivePool_def cs_requireCallerIsTroveManager_def
  cs_accountSurplus_def cs_receiveColl_def cs_claimColl_def set_peers_def

lemmas trove_defs =
  empty_trove_def fresh_trove_manager_def SECONDS_IN_ONE_MINUTE_def MINUTE_DECAY_FACTOR_def
  REDEMPTION_FEE_FLOOR_def MAX_BORROWING_FEE_def BETA_def requireCallerIsBorrowerOperations_def
  minutesPassedSinceLastFeeOp_def calcDecayedBaseRate_def calcBorrowingRate_def getBorrowingRate_def
  getBorrowingRateWithDecay_def calcBorrowingFee_def getBorrowingFee_def getBorrowingFeeWithDecay_def
  calcRedemptionRate_def getRedemptionRate_sol_def getRedemptionRateWithDecay_def calcRedemptionFee_def
  getRedemptionFeeWithDecay_def updateLastFeeOpTime_def decayBaseRateFromBorrowing_def
  updateBaseRateFromRedemption_def pendingReward_def getPendingCollReward_def getPendingUSDDDebtReward_def
  hasPendingRewards_def getEntireDebtAndColl_def getCurrentTroveAmounts_def getNominalICR_def getCurrentICR_def
  updateTroveRewardSnapshots_def upd_trove_def computeNewStake_def updateStakeAndTotalStakes_def removeStake_def
  addTroveOwnerToArray_def removeTroveOwner_def

lemmas math_defs =
  u_add_def u_sub_def u_mul_def u_div_def DECIMAL_PRECISION_def NICR_PRECISION_def min_u_def max_u_def decMul_def
  getAbsoluteDifference_def computeNominalCR_def computeCR_def one_hundred_pct_def MCR_def CCR_def
  USDD_GAS_COMPENSATION_def MIN_NET_DEBT_def PERCENT_DIVISOR_def BORROWING_FEE_FLOOR_def getCompositeDebt_sol_def
  getNetDebt_sol_def getCollGasCompensation_def requireUserAcceptsFee_def

lemmas usdd_defs =
  usdd_deployed_def usdd_requireValidRecipient_def usdd_requireCallerIsBorrowerOperations_def
  usdd_requireCallerIsBOorTroveMorSP_def usdd_requireCallerIsStabilityPool_def usdd_requireCallerIsTroveMorSP_def
  usdd_internal_transfer_def usdd_internal_mint_def usdd_internal_burn_def usdd_internal_approve_def usdd_mint_def
  usdd_burn_def usdd_sendToPool_def usdd_returnFromPool_def usdd_transfer_def usdd_approve_def
  usdd_transferFrom_def usdd_increaseAllowance_def usdd_decreaseAllowance_def

lemmas staking_defs =
  staking_deployed_def requireCallerIsStakerOrGw_def stk_requireCallerIsTroveManager_def
  stk_requireCallerIsBorrowerOperations_def requireUserHasStake_def stk_requireNonZeroAmount_def
  increaseF_COLL_def increaseF_USDD_def getPendingCollGain_def getPendingUSDDGain_def updateUserSnapshots_def
  stake_deft_def unstake_deft_def pay_borrowing_fee_def

lemmas list_defs =
  empty_node_def set_next_def set_prev_def set_exists_def delete_node_def containsNode_def isFull_def isEmpty_def
  getNext_def getPrev_def validInsertPosition_def descendList_def ascendList_def keep_hint_def
  findInsertPosition_def link_node_def insert_inner_def requireCallerIsBOorTroveM_def insert_trove_def
  remove_inner_def remove_trove_def reInsert_def initial_list_def

lemmas history_defs =
  sys_deployed_def on_pool_def on_usdd_def on_staking_def

lemmas issuance_defs =
  triggerDEFTIssuance_def issueDEFT_def getCumulativeIssuanceFraction_def updateG_def ci_SECONDS_IN_ONE_MINUTE_def

lemmas sys_eval =
  borrower_defs liquidation_defs pool_defs trove_defs math_defs usdd_defs staking_defs list_defs history_defs
  issuance_defs run_defs offset_def ap_sendColl_def ap_decreaseUSDDDebt_def ap_requireCaller_def
  requireCallerIsTroveManager_def require_def sol_assert_def min_def u_sub_msg_def
  demo_lq_def decPow_0

section \<open>The system\<close>

definition demo_calls :: "(nat \<times> address \<times> sys_call) list" where
  "demo_calls =
     [(1, 11, OpenTrove 11 1000000000000000000 33470000000000000000 21781000000000000000000 0 0),
      (1, 13, OpenTrove 13 1000000000000000000 2873000000000000000 2000000000000000000000 11 0),
      (1, 12, OpenTrove 12 1000000000000000000 2652000000000000000 2000000000000000000000 13 0),
      (1, 11, DepositUSDD 11 6000000000000000000000 0)]"

definition demo_system :: "nat list \<Rightarrow> (nat list) lq_world" where
  "demo_system xs =
  \<lparr>sysw =
     \<lparr>pool =
        \<lparr>sp_troveManager = 1, sp_wETHGatewayAddress = 12, sp_COLL = 0,
           totalUSDDDeposits = 6000000000000000000000,
           deposits =
             (\<lambda>_. \<lparr>initialValue = 0, frontEndTag = 0\<rparr>)
             (11 := \<lparr>initialValue = 6000000000000000000000, frontEndTag = 0\<rparr>),
           depositSnapshots =
             (\<lambda>_. \<lparr>snap_S = 0, snap_P = 0, snap_G = 0, snap_scale = 0,
                     snap_epoch = 0\<rparr>)
             (11 :=
                \<lparr>snap_S = 0, snap_P = 1000000000000000000, snap_G = 0,
                   snap_scale = 0, snap_epoch = 0\<rparr>),
           frontEnds = \<lambda>_. \<lparr>kickbackRate = 0, registered = False\<rparr>,
           frontEndStakes = (\<lambda>_. 0)(0 := 6000000000000000000000),
           frontEndSnapshots =
             (\<lambda>_. \<lparr>snap_S = 0, snap_P = 0, snap_G = 0, snap_scale = 0,
                     snap_epoch = 0\<rparr>)
             (0 := \<lparr>snap_S = 0, snap_P = 1000000000000000000, snap_G = 0,
                      snap_scale = 0, snap_epoch = 0\<rparr>),
           product_P = 1000000000000000000, currentScale = 0,
           currentEpoch = 0, epochToScaleToSum = \<lambda>_ _. 0,
           epochToScaleToG = \<lambda>_ _. 0, lastDEFTError = 0,
           lastCollError_Offset = 0, lastUSDDLossError_Offset = 0\<rparr>,
        others =
          \<lparr>issuance = demo_start,
             usdd =
               \<lparr>usdd_balances =
                  (\<lambda>_. 0)
                  (13 := 2000000000000000000000, 6 := 128905000000000000000,
                     12 := 2000000000000000000000,
                     10 := 600000000000000000000,
                     11 := 15781000000000000000000,
                     3 := 6000000000000000000000),
                  usdd_allowances = \<lambda>_ _. 0,
                  usdd_totalSupply = 26509905000000000000000,
                  usdd_troveManagerAddress = 1,
                  usdd_stabilityPoolAddress = 3,
                  usdd_borrowerOperationsAddress = 2\<rparr>,
             apool =
               \<lparr>ap_authorizedTroveManagers = \<lambda>a. a = 1,
                  ap_authorizedBorrowerOperations = \<lambda>a. a = 2,
                  ap_stabilityPoolAddress = 3, ap_defaultPoolAddress = 7,
                  ap_balance = 38995000000000000000,
                  ap_USDDDebt = 26509905000000000000000\<rparr>,
             tmanager =
               \<lparr>borrowerOperationsAddress = 2, baseRate = 0,
                  lastFeeOperationTime = 0,
                  Troves =
                    (\<lambda>_. \<lparr>debt = 0, coll = 0, stake = 0, status = nonExistent,
                            arrayIndex = 0\<rparr>)
                    (11 :=
                       \<lparr>debt = 22089905000000000000000,
                          coll = 33470000000000000000,
                          stake = 33470000000000000000, status = active,
                          arrayIndex = 0\<rparr>,
                       13 :=
                         \<lparr>debt = 2210000000000000000000,
                            coll = 2873000000000000000,
                            stake = 2873000000000000000, status = active,
                            arrayIndex = 1\<rparr>,
                       12 :=
                         \<lparr>debt = 2210000000000000000000,
                            coll = 2652000000000000000,
                            stake = 2652000000000000000, status = active,
                            arrayIndex = 2\<rparr>),
                  totalStakes = 38995000000000000000, totalStakesSnapshot = 0,
                  totalCollateralSnapshot = 0, L_COLL = 0, L_USDDDebt = 0,
                  rewardSnapshots =
                    (\<lambda>_. \<lparr>snap_COLL = 0, snap_USDDDebt = 0\<rparr>)
                    (11 := \<lparr>snap_COLL = 0, snap_USDDDebt = 0\<rparr>,
                       13 := \<lparr>snap_COLL = 0, snap_USDDDebt = 0\<rparr>,
                       12 := \<lparr>snap_COLL = 0, snap_USDDDebt = 0\<rparr>),
                  TroveOwners = [11, 13, 12], lastETHError_Redistribution = 0,
                  lastUSDDDebtError_Redistribution = 0\<rparr>,
             slist =
               \<lparr>head = 11, tail = 12, maxSize = 10,
                  st_size = 3,
                  nodes =
                    (\<lambda>_. \<lparr>node_exists = False, nextId = 0, prevId = 0\<rparr>)
                    (11 := \<lparr>node_exists = True, nextId = 13, prevId = 0\<rparr>,
                       12 := \<lparr>node_exists = True, nextId = 0, prevId = 13\<rparr>,
                       13 := \<lparr>node_exists = True, nextId = 12, prevId = 11\<rparr>),
                  st_troveManager = 1, st_borrowerOperations = 2\<rparr>,
             ext = xs\<rparr>\<rparr>,
     dpool =
       \<lparr>dp_authorizedTroveManagers = \<lambda>a. a = 1, dp_balance = 0,
          dp_USDDDebt = 0\<rparr>,
     cspool =
       \<lparr>cs_authorizedTroveManagers = \<lambda>a. a = 1,
          cs_authorizedBorrowerOperations = \<lambda>a. a = 2, cs_COLL = 0,
          cs_balances = \<lambda>_. 0\<rparr>,
     staking =
       \<lparr>stakes = \<lambda>_. 0, totalDEFTStaked = 0, F_COLLS = \<lambda>_. 0, F_USDD = 0,
          F_COLL_Snapshots = \<lambda>_ _. 0, F_USDD_Snapshots = \<lambda>_. 0,
          stk_wETHGatewayAddress = 12, collTokens = [70],
          stk_authorizedTroveManagers = \<lambda>a. a = 1,
          stk_authorizedBorrowerOperations = \<lambda>a. a = 2\<rparr>\<rparr>"

lemma demo_system_reached:
  "demo_system xs = sys_run demo_lq demo_calls (sys_deployed demo_lq 10 [70] demo_start
     (2000000000000000000000 # 2000000000000000000000 # 2000000000000000000000 # xs))"
  by (simp add: demo_system_def demo_calls_def sys_eval cong: rbind_weak_cong)
    (simp add: numeral_2_eq_2)

text \<open>Any history that begins with these calls, at the prices \<open>xs\<close>.\<close>

definition demo_run :: "nat list \<Rightarrow> (nat \<times> address \<times> sys_call) list \<Rightarrow> (nat list) lq_world" where
  "demo_run xs cs = sys_run demo_lq (demo_calls @ cs) (sys_deployed demo_lq 10 [70] demo_start
     (2000000000000000000000 # 2000000000000000000000 # 2000000000000000000000 # xs))"

lemma sys_run_append: "sys_run E (cs @ ds) w = sys_run E ds (sys_run E cs w)"
  by (induction cs arbitrary: w) (auto split: option.splits sum.splits)

lemma demo_run_system: "demo_run xs cs = sys_run demo_lq cs (demo_system xs)"
  by (simp add: demo_run_def sys_run_append demo_system_reached)

section \<open>Calls on the system\<close>

text \<open>At a price of 500 the largest trove is below 100% and is redistributed to the other two.\<close>

lemma demo_redistribution:
  "let w = demo_run [500000000000000000000] [(1, 9, Liquidation (Liquidate 9 11))] in
     getPendingCollReward (tm_of w) 12 = Inr 15985271999999999998 \<and>
     getPendingCollReward (tm_of w) 13 = Inr 17317377999999999998"
  by (simp add: demo_run_system demo_system_def sys_eval cong: rbind_weak_cong)

text \<open>At a price of 1000 the system is in recovery mode; the troves 13 and 12 have ratios of 130% and 120%.\<close>

lemma demo_batch:
  "case liq_exec demo_lq 1 9 (BatchLiquidate 9 [12, 13]) (demo_system [1000000000000000000000]) of
     Inl e \<Rightarrow> False
   | Inr w \<Rightarrow> status (Troves (tm_of w) 12) = closedByLiquidation \<and> status (Troves (tm_of w) 13) = active \<and>
       checkRecoveryMode_sol 1000000000000000000000 w = Inr True \<and>
       getCurrentICR (tm_of w) 13 1000000000000000000000 = Inr 1300000000000000000"
  by (simp add: demo_system_def sys_eval cong: rbind_weak_cong)

lemma demo_walk:
  "case liq_exec demo_lq 1 9 (LiquidateTroves 9 2) (demo_system [1000000000000000000000]) of
     Inl e \<Rightarrow> False
   | Inr w \<Rightarrow> status (Troves (tm_of w) 12) = closedByLiquidation \<and> status (Troves (tm_of w) 13) = closedByLiquidation"
  unfolding numeral_2_eq_2 by (simp add: demo_system_def sys_eval cong: rbind_weak_cong)

lemma demo_open:
  "case bo_openTrove demo_lq 1 14 14 1000000000000000000 3000000000000000000 2500000000000000000000 12 0
     (demo_system [2000000000000000000000]) of Some r \<Rightarrow> is_ok r | None \<Rightarrow> False"
  by (simp add: demo_system_def sys_eval cong: rbind_weak_cong)

lemma demo_adjust:
  "case bo_adjustTrove demo_lq 1 11 11 1000000000000000000 0 1000000000000000000000 True 0 13 1000000000000000000
     (demo_system [2000000000000000000000]) of Some r \<Rightarrow> is_ok r | None \<Rightarrow> False"
  by (simp add: demo_system_def sys_eval cong: rbind_weak_cong)

text \<open>The owner of trove 12 needs some USDD of another to close it.\<close>

lemma demo_close:
  "is_ok (bo_closeTrove demo_lq 12 12 (demo_run [2000000000000000000000] [(1, 11, TransferUSDD 12 100000000000000000000)]))"
  by (simp add: demo_run_system demo_system_def sys_eval cong: rbind_weak_cong)

lemmas redemption_defs = tm_redeemCollateral_def redeem_check_def requireCallerIsDepositorOrGw_def
  requireUSDDBalanceCoversRedemption_def requireAmountGreaterThanZero_def requireTCRoverMCR_def requireAfterBootstrapPeriod_def
  requireValidMaxFeePercentage_def BOOTSTRAP_PERIOD_def redemption_start_def isValidFirstRedemptionHint_def redeem_loop.simps
  redeemCollateralFromTrove_def redemption_lot_def redeem_whole_trove_def redeemCloseTrove_def redeem_finish_def

lemma demo_redemption:
  "case tm_redeemCollateral demo_lq 1209600 11 11 2010000000000000000000 12 0 0 0 0 1000000000000000000
      (demo_system [2000000000000000000000]) of Some r \<Rightarrow> is_ok r | None \<Rightarrow> False"
proof -
  obtain r where r: "decPow 999037758833783000 20160 = Inr r"
    using decPow_loop_le_one[of 999037758833783000 DECIMAL_PRECISION 20160] by (auto simp: decPow_def DECIMAL_PRECISION_def)
  show ?thesis by (simp add: demo_system_def sys_eval r redemption_defs cong: rbind_weak_cong)
qed

text \<open>What a returned result says.\<close>

lemma returned: "(case r of Some x \<Rightarrow> is_ok x | None \<Rightarrow> False) \<Longrightarrow> \<exists>w. r = Some (Inr w)"
  by (auto split: option.splits elim!: is_ok.elims(2))

end
