(* ===== verification/Pool_Backing.thy ===== *)
theory Pool_Backing
  imports Stability_Pool_Tokens System_Safety System_Demo
begin

text \<open>
  The USDD that the Stability Pool holds and its tracker of deposits, over every history of the system.  Each step of
  a call either leaves the pool's tokens and its tracker alone or changes both by the same amount; the call of
  \<open>BorrowerOperations\<close> at the end of \<open>withdrawCollGainToTrove\<close> is the modelled function, not an argument.
\<close>

section \<open>Steps that keep tokens and tracker together\<close>

abbreviation usdd_of :: "'x lq_world \<Rightarrow> usdd_token" where
  "usdd_of w \<equiv> usdd (others (sysw w))"

text \<open>The pool's registered address and its allowances, which stay zero: the pool approves nobody.\<close>

definition row_kept :: "address \<Rightarrow> usdd_token \<Rightarrow> usdd_token \<Rightarrow> bool" where
  "row_kept P u u' \<longleftrightarrow> usdd_stabilityPoolAddress u' = usdd_stabilityPoolAddress u \<and>
     ((\<forall>a. usdd_allowances u P a = 0) \<longrightarrow> (\<forall>a. usdd_allowances u' P a = 0))"

text \<open>
  A step follows when the tracker gains no more than the pool's balance, and in the strict case exactly as much.
\<close>

definition follows :: "address \<Rightarrow> bool \<Rightarrow> 'x lq_world \<Rightarrow> 'x lq_world \<Rightarrow> bool" where
  "follows P strict w w' \<longleftrightarrow> row_kept P (usdd_of w) (usdd_of w') \<and>
     sp_deposits w' + usdd_balances (usdd_of w) P \<le> sp_deposits w + usdd_balances (usdd_of w') P \<and>
     (strict \<longrightarrow> sp_deposits w' + usdd_balances (usdd_of w) P = sp_deposits w + usdd_balances (usdd_of w') P)"

text \<open>The token leaves the pool's row and balance alone.\<close>

definition token_kept :: "address \<Rightarrow> usdd_token \<Rightarrow> usdd_token \<Rightarrow> bool" where
  "token_kept P u u' \<longleftrightarrow> row_kept P u u' \<and> usdd_balances u' P = usdd_balances u P"

lemma row_kept_refl [simp]: "row_kept P u u"
  by (simp add: row_kept_def)

lemma row_kept_trans: "row_kept P u u' \<Longrightarrow> row_kept P u' u'' \<Longrightarrow> row_kept P u u''"
  by (simp add: row_kept_def)

lemma token_kept_refl [simp]: "token_kept P u u"
  by (simp add: token_kept_def)

lemma token_kept_trans: "token_kept P u u' \<Longrightarrow> token_kept P u' u'' \<Longrightarrow> token_kept P u u''"
  by (auto simp: token_kept_def intro: row_kept_trans)

lemma follows_trans: "follows P s w w' \<Longrightarrow> follows P s w' w'' \<Longrightarrow> follows P s w w''"
  by (auto simp: follows_def intro: row_kept_trans)

lemma follows_token: "token_kept P (usdd_of w) (usdd_of w') \<Longrightarrow> sp_deposits w' = sp_deposits w \<Longrightarrow> follows P s w w'"
  by (simp add: follows_def token_kept_def)

lemma follows_same: "usdd_of w' = usdd_of w \<Longrightarrow> sp_deposits w' = sp_deposits w \<Longrightarrow> follows P s w w'"
  by (simp add: follows_token)

lemma same_books_follows: "same_books w w' \<Longrightarrow> follows P s w w'"
  by (auto simp: same_books_def sp_deposits_def intro: follows_same)

section \<open>The stablecoin's functions\<close>

lemma mint_kept: "usdd_mint s a n u = Inr u' \<Longrightarrow> a \<noteq> P \<Longrightarrow> token_kept P u u'"
  by (auto simp: usdd_external_defs usdd_internal_iffs rbind_Inr_iff token_kept_def row_kept_def)

lemma mint_row: "usdd_mint s a n u = Inr u' \<Longrightarrow> row_kept P u u' \<and> usdd_balances u P \<le> usdd_balances u' P"
  by (auto simp: usdd_external_defs usdd_internal_iffs rbind_Inr_iff row_kept_def)

lemma burn_kept: "usdd_burn s a n u = Inr u' \<Longrightarrow> a \<noteq> P \<or> n = 0 \<Longrightarrow> token_kept P u u'"
  by (auto simp: usdd_external_defs usdd_internal_iffs rbind_Inr_iff token_kept_def row_kept_def)

lemma burn_row: "usdd_burn s a n u = Inr u' \<Longrightarrow> row_kept P u u'"
  by (auto simp: usdd_external_defs usdd_internal_iffs rbind_Inr_iff row_kept_def)

lemma return_kept: "usdd_returnFromPool s p r n u = Inr u' \<Longrightarrow> p \<noteq> P \<Longrightarrow> r \<noteq> P \<Longrightarrow> token_kept P u u'"
  by (auto simp: usdd_external_defs usdd_internal_iffs rbind_Inr_iff token_kept_def row_kept_def)

lemma internal_transfer_row: "usdd_internal_transfer a b n u = Inr u' \<Longrightarrow> row_kept P u u'"
  by (auto simp: usdd_internal_iffs row_kept_def)

text \<open>No transfer can reach the pool: the recipient is checked.\<close>

lemma transfer_kept:
  "usdd_transfer this s r n u = Inr u' \<Longrightarrow> s \<noteq> P \<Longrightarrow> usdd_stabilityPoolAddress u = P \<Longrightarrow> token_kept P u u'"
  by (auto simp: usdd_external_defs usdd_internal_iffs rbind_Inr_iff token_kept_def row_kept_def usdd_requireValidRecipient_def)

lemma user_token_kept:
  assumes "usdd_exec this s c u = Inr u'" and "c = Transfer a n \<or> c = TransferFrom b a n \<or> c = Approve a n"
    and "s \<noteq> P" and "usdd_stabilityPoolAddress u = P" and "\<forall>a. usdd_allowances u P a = 0"
  shows "token_kept P u u'"
  using assms
  by (auto simp: usdd_external_defs usdd_internal_iffs rbind_Inr_iff token_kept_def row_kept_def
      usdd_requireValidRecipient_def u_sub_msg_Inr_iff)

section \<open>The functions of BorrowerOperations\<close>

lemma fetch_follows: "fetch_price E w = Inr (p, w') \<Longrightarrow> follows P s w w'"
  using fetch_price_facts[of E w p w'] by (auto simp: sp_deposits_def intro: follows_same)

lemma fee_follows:
  assumes "bo_triggerBorrowingFee E now n m w = Inr (fee, w')" and "this_stk (stke E) \<noteq> P"
  shows "follows P s w w'"
proof -
  from assms(1) obtain t st u where u: "usdd_mint (this_bo E) (this_stk (stke E)) fee (usdd_of w) = Inr u"
    and w': "w' = set_usdd u (set_tm t w\<lparr>staking := st\<rparr>)"
    by (auto simp: bo_triggerBorrowingFee_def pay_borrowing_fee_def Let_def rbind_Inr_iff)
  show ?thesis using mint_kept[OF u assms(2)] by (intro follows_token) (simp_all add: w' set_usdd_def sp_deposits_def)
qed

lemma withdrawUSDD_follows:
  assumes "bo_withdrawUSDD E a n net w = Inr w'" and "strict \<longrightarrow> a \<noteq> P"
  shows "follows P strict w w'"
proof -
  from assms(1) obtain ap u where u: "usdd_mint (this_bo E) a n (usdd_of w) = Inr u"
    and w': "w' = set_peers ((others (sysw w))\<lparr>apool := ap, usdd := u\<rparr>) w"
    by (auto simp: bo_withdrawUSDD_def rbind_Inr_iff)
  show ?thesis using mint_row[OF u, of P] mint_kept[OF u, of P] assms(2)
    by (auto simp: follows_def w' sp_deposits_def token_kept_def)
qed

lemma repayUSDD_follows:
  assumes "bo_repayUSDD E a n w = Inr w'" and "a \<noteq> P \<or> n = 0"
  shows "follows P s w w'"
  using assms
  by (auto simp: bo_repayUSDD_def rbind_Inr_iff sp_deposits_def intro!: follows_token dest!: burn_kept[where P = P])

lemma sendColl_follows: "bo_sendColl E a n w = Inr w' \<Longrightarrow> follows P s w w'"
  by (auto simp: bo_sendColl_def ap_sendColl_def rbind_Inr_iff sp_deposits_def intro!: follows_same)

lemma addColl_follows: "bo_activePoolAddColl E a n w = Inr w' \<Longrightarrow> follows P s w w'"
  by (auto simp: bo_activePoolAddColl_def ap_receiveColl_def rbind_Inr_iff sp_deposits_def intro!: follows_same)

lemma moves_follows:
  assumes "bo_moveTokensAndCollfromAdjustment E a cc up n inc net w = Inr w'" and "a \<noteq> P \<or> \<not> inc \<and> n = 0"
  shows "follows P s w w'"
proof -
  from assms(1) obtain w1 where 1: "(if inc then bo_withdrawUSDD E a n net w else bo_repayUSDD E a n w) = Inr w1"
    and 2: "(if up then bo_activePoolAddColl E a cc w1 else bo_sendColl E a cc w1) = Inr w'"
    by (auto simp: bo_moveTokensAndCollfromAdjustment_def rbind_Inr_iff)
  have "follows P s w w1" using 1 assms(2) by (auto split: if_splits intro: withdrawUSDD_follows repayUSDD_follows)
  moreover have "follows P s w1 w'" using 2 by (auto split: if_splits intro: sendColl_follows addColl_follows)
  ultimately show ?thesis by (rule follows_trans)
qed

lemma apply_follows: "applyPendingRewards E b w = Inr w' \<Longrightarrow> follows P s w w'"
  using apply_same[of E b w w'] by (auto intro: same_books_follows)

lemma set_tm_follows [simp]: "follows P s w (set_tm t w)"
  by (simp add: follows_same sp_deposits_def)

lemma set_slist_follows [simp]: "follows P s w (set_slist l w)"
  by (simp add: follows_same sp_deposits_def set_slist_def)

lemma open_follows:
  assumes "bo_openTrove E now sender b maxFee c n up lo w = Some (Inr w')" and "strict \<longrightarrow> b \<noteq> P"
    and "P \<noteq> this_stk (stke E)" and "P \<noteq> gasPool_address E"
  shows "follows P strict w w'"
proof -
  from assms(1) obtain net cd NICR w1 w2 l where ch: "bo_open_check E now b maxFee c n w = Inr (net, cd, NICR, w1)"
    and rc: "bo_open_record E b c cd w1 = Inr w2" and py: "bo_open_pay E sender b c n net (set_slist l w2) = Inr w'"
    by (rule openTrove_split)
  from ch obtain p w0 r where f: "fetch_price E w = Inr (p, w0)"
    and t: "(if \<not> r then rbind (bo_triggerBorrowingFee E now n maxFee w0) (\<lambda>(fee, w1). rbind (u_add n fee) (\<lambda>net. Inr (net, w1)))
            else Inr (n, w0)) = Inr (net, w1)"
    unfolding bo_open_check_def by (auto elim!: rbindE)
  have "follows P strict w0 w1" using t assms(3) by (auto split: if_splits simp: rbind_Inr_iff follows_same intro: fee_follows)
  moreover have "\<exists>t. w2 = set_tm t w1" using rc by (auto simp: bo_open_record_def rbind_Inr_iff)
  moreover from py obtain t w3 w4 where 1: "bo_activePoolAddColl E sender c (set_tm t (set_slist l w2)) = Inr w3"
    and 2: "bo_withdrawUSDD E b n net w3 = Inr w4" and 3: "bo_withdrawUSDD E (gasPool_address E) USDD_GAS_COMPENSATION USDD_GAS_COMPENSATION w4 = Inr w'"
    by (auto simp: bo_open_pay_def rbind_Inr_iff)
  ultimately show ?thesis
    using fetch_follows[OF f] addColl_follows[OF 1] withdrawUSDD_follows[OF 2 assms(2)] withdrawUSDD_follows[OF 3] assms(4)
      set_tm_follows set_slist_follows follows_trans by metis
qed

lemma adjust_follows:
  assumes "bo_adjustTrove E now sender b cd cw n inc up lo maxFee w = Some (Inr w')" and "P \<noteq> this_stk (stke E)"
    and "sender \<noteq> P \<or> \<not> inc \<and> n = 0"
  shows "follows P strict w w'"
proof -
  from assms(1) obtain r p net w2 newNICR w3 l where pr: "bo_adjust_prepare E now b cd cw n inc maxFee w = Inr (r, p, net, w2)"
    and rc: "bo_adjust_record E b cd cw n inc r p net w2 = Inr (newNICR, w3)"
    and mv: "bo_moveTokensAndCollfromAdjustment E sender (fst (bo_getCollChange cd cw)) (snd (bo_getCollChange cd cw)) n inc net
      (set_slist l w3) = Inr w'" by (rule adjustTrove_split)
  from pr obtain w0 w1 where f: "fetch_price E w = Inr (p, w0)" and ap: "applyPendingRewards E b w0 = Inr w1"
    and t: "(if inc \<and> \<not> r then rbind (bo_triggerBorrowingFee E now n maxFee w1) (\<lambda>(fee, w2). rbind (u_add n fee) (\<lambda>net. Inr (net, w2)))
            else Inr (n, w1)) = Inr (net, w2)"
    unfolding bo_adjust_prepare_def tm_applyPendingRewards_def by (elim rbindE) (auto elim!: rbindE)
  have "follows P strict w1 w2" using t assms(2) by (auto split: if_splits simp: rbind_Inr_iff follows_same intro: fee_follows)
  moreover have "\<exists>t. w3 = set_tm t w2"
    using rc unfolding bo_adjust_record_def by (auto simp: Let_def elim!: rbindE split: prod.splits)
  ultimately show ?thesis
    using fetch_follows[OF f] apply_follows[OF ap] moves_follows[OF mv assms(3)] set_tm_follows set_slist_follows follows_trans by metis
qed

lemma closeTrove_follows: "closeTrove E b st w = Inr w' \<Longrightarrow> follows P s w w'"
  using closeTrove_facts(1) by (rule same_books_follows)

lemma close_follows:
  assumes "bo_closeTrove E sender b w = Inr w'" and "sender \<noteq> P" and "P \<noteq> gasPool_address E"
  shows "follows P strict w w'"
proof -
  from assms(1) obtain p w0 w1 t w2 w3 w4 where f: "fetch_price E w = Inr (p, w0)"
    and ap: "tm_applyPendingRewards E (this_bo E) sender w0 = Inr w1" and cl: "closeTrove E sender closedByOwner (set_tm t w1) = Inr w2"
    and r1: "bo_repayUSDD E sender (debt (Troves (tm_of w1) sender) - USDD_GAS_COMPENSATION) w2 = Inr w3"
    and r2: "bo_repayUSDD E (gasPool_address E) USDD_GAS_COMPENSATION w3 = Inr w4"
    and sc: "bo_sendColl E sender (coll (Troves (tm_of w1) sender)) w4 = Inr w'" by (rule closeTrove_split)
  have ap': "applyPendingRewards E sender w0 = Inr w1" using ap by (auto simp: tm_applyPendingRewards_def rbind_Inr_iff)
  have "follows P strict w2 w3" by (rule repayUSDD_follows[OF r1]) (use assms in simp)
  moreover have "follows P strict w3 w4" by (rule repayUSDD_follows[OF r2]) (use assms in simp)
  ultimately show ?thesis
    using fetch_follows[OF f] apply_follows[OF ap'] set_tm_follows closeTrove_follows[OF cl] sendColl_follows[OF sc] follows_trans by metis
qed


section \<open>Redemptions\<close>

lemma redeemClose_follows:
  assumes "redeemCloseTrove E b n c w = Inr w'" and "P \<noteq> gasPool_address E"
  shows "follows P s w w'"
proof -
  from assms obtain us a cs p x where us: "usdd_burn (this_tm E) (gasPool_address E) n (usdd_of w) = Inr us"
    and p: "ap_sendColl (spe E) (this_tm E) (this_tm E) c ((others (sysw w))\<lparr>usdd := us, apool := a\<rparr>) = Inr p"
    and w': "w' = set_peers (p\<lparr>ext := x\<rparr>) (set_peers p (w\<lparr>cspool := cs\<rparr>)\<lparr>cspool := cs\<lparr>cs_COLL := cs_COLL cs + c\<rparr>\<rparr>)"
    by (auto simp: redeemCloseTrove_def cs_receiveColl_def rbind_Inr_iff u_Inr_iffs)
  show ?thesis using burn_kept[OF us, of P] ap_sendColl_facts[OF p] assms(2)
    by (intro follows_token) (simp_all add: w' sp_deposits_def)
qed

lemma redeem_trove_follows:
  assumes "redeemCollateralFromTrove E b m p up lo h w = Some (Inr (l, c, x, w'))" and "P \<noteq> gasPool_address E"
  shows "follows P s w w'"
  using assms(1)
proof (cases rule: redeem_trove_cases)
  case (whole c')
  from whole(3) obtain t w1 where "closeTrove E b closedByRedemption (set_tm t w) = Inr w1"
    and "redeemCloseTrove E b USDD_GAS_COMPENSATION c' w1 = Inr w'" by (auto simp: redeem_whole_trove_def rbind_Inr_iff)
  with closeTrove_follows redeemClose_follows[OF _ assms(2)] set_tm_follows follows_trans show ?thesis by metis
next
  case (part d' c' l')
  with same_books_follows[OF redeem_part_books[OF part(3)]] show ?thesis by simp
qed (simp add: follows_same)

lemma redeem_finish_follows:
  assumes "redeem_finish E now sender dep m p tot r d w = Inr w'" and "dep \<noteq> P"
  shows "follows P s w w'"
proof -
  from assms obtain x t fee p1 st u a p2 where
    p1: "ap_sendColl (spe E) (this_tm E) (this_stk (stke E)) fee (others (sysw (set_tm t w))) = Inr p1"
    and u: "usdd_burn (this_tm E) dep r (usdd p1) = Inr u"
    and p2: "ap_sendColl (spe E) (this_tm E) sender (d - fee) (p1\<lparr>usdd := u, apool := a\<rparr>) = Inr p2"
    and w': "w' = set_peers p2 (w\<lparr>staking := st\<rparr>)"
    unfolding redeem_finish_def by (auto simp: u_Inr_iffs elim!: rbindE)
  show ?thesis using burn_kept[OF u, of P] ap_sendColl_facts[OF p1] ap_sendColl_facts[OF p2] assms(2)
    by (intro follows_token) (simp_all add: w' sp_deposits_def)
qed

lemma redeem_follows:
  assumes "tm_redeemCollateral E now sender dep n hint up lo h iters maxFee w = Some (Inr w')" and "P \<noteq> gasPool_address E" and "dep \<noteq> P"
  shows "follows P s w w'"
proof -
  from assms(1) obtain p tot w0 b r d w1 where ch: "redeem_check E now sender dep n maxFee w = Inr (p, tot, w0)"
    and lp: "redeem_loop E p up lo h b (if iters = 0 then 2 ^ 256 - 1 else iters) n 0 0 w0 = Some (Inr (r, d, w1))"
    and fin: "redeem_finish E now sender dep maxFee p tot r d w1 = Inr w'" by (rule redeem_split)
  have f: "fetch_price E w = Inr (p, w0)" using redeem_check_facts[OF ch] by simp
  have "follows P s w0 w1"
    by (rule redeem_loop_keeps[where I = "\<lambda>b i m r d w'. follows P s w0 w'" and Q = "\<lambda>r d w'. follows P s w0 w'", OF _ _ lp])
      (auto simp: follows_same intro: follows_trans[OF follows_trans[OF _ apply_follows] redeem_trove_follows[OF _ assms(2)]])
  with fetch_follows[OF f] redeem_finish_follows[OF fin assms(3)] follows_trans show ?thesis by metis
qed

section \<open>The Stability Pool\<close>

lemma sendUSDDto_row: "sendUSDDtoStabilityPool E a n w = Inr w' \<Longrightarrow> row_kept P (usdd (others w)) (usdd (others w'))"
  by (auto simp: sendUSDDtoStabilityPool_def usdd_sendToPool_def rbind_Inr_iff dest: internal_transfer_row)

lemma sendUSDDToDepositor_row: "sendUSDDToDepositor E a n w = Inr w' \<Longrightarrow> row_kept P (usdd (others w)) (usdd (others w'))"
  by (auto simp: sendUSDDToDepositor_def usdd_returnFromPool_def rbind_Inr_iff split: if_splits dest: internal_transfer_row)

lemma provide_row:
  assumes "provideToSP E now sender d n t w = Inr w'"
  shows "row_kept P (usdd (others w)) (usdd (others w'))"
  using assms unfolding provideToSP_def Let_def
  by (elim rbindE) (cases "initialValue (deposits (pool w) d) = 0"; auto dest!: usdd_dest dest: sendUSDDto_row)

lemma noUnderColl_usdd: "requireNoUnderCollateralizedTroves E p = Inr p' \<Longrightarrow> usdd p' = usdd p"
  by (auto simp: requireNoUnderCollateralizedTroves_def rbind_Inr_iff)

lemma withdraw_row:
  assumes "withdrawFromSP E now sender d n w = Inr w'"
  shows "row_kept P (usdd (others w)) (usdd (others w'))"
  using assms unfolding withdrawFromSP_def Let_def
  by (elim rbindE) (cases "n = 0"; auto dest!: usdd_dest noUnderColl_usdd dest: sendUSDDToDepositor_row)

lemma offset_row:
  assumes "offset E now sender D c w = Inr w'"
  shows "row_kept P (usdd (others w)) (usdd (others w'))"
  using assms unfolding offset_def Let_def
  by (auto simp: moveOffsetCollAndDebt_def elim!: rbindE split: if_splits dest!: trigger_usdd ap_sendColl_usdd dest: burn_row)

lemma takeCollGain_keeps:
  assumes "sp_takeCollGain E now sender w = Inr (gain, w')"
  shows "usdd (others w') = usdd (others w) \<and> totalUSDDDeposits (pool w') = totalUSDDDeposits (pool w)"
  using assms unfolding sp_takeCollGain_def Let_def
  by (elim rbindE) (auto simp: updateDepositAndSnapshots_def updateFrontEndStakeAndSnapshots_def Let_def dest!: trigger_frame payOut_all)

lemma on_pool_follows:
  assumes "on_pool f w = Inr w'" and "\<And>s. f (sysw w) = Inr s \<Longrightarrow> row_kept P (usdd (others (sysw w))) (usdd (others s)) \<and>
      totalUSDDDeposits (pool s) + usdd_balances (usdd (others (sysw w))) P
        = totalUSDDDeposits (pool (sysw w)) + usdd_balances (usdd (others s)) P"
  shows "follows P strict w w'"
  using assms by (auto simp: on_pool_def rbind_Inr_iff follows_def sp_deposits_def)

lemma provide_follows:
  assumes "on_pool (sp_exec (spe E) now sender (ProvideToSP a n t)) w = Inr w'" and "a \<noteq> this_sp (spe E)"
  shows "follows (this_sp (spe E)) strict w w'"
  by (rule on_pool_follows[OF assms(1)])
    (use assms(2) provide_row provide_usdd[of "spe E"] provide_total[of "spe E"] in \<open>fastforce simp: pool_usdd_def\<close>)

lemma withdraw_follows:
  assumes "on_pool (sp_exec (spe E) now sender (WithdrawFromSP a n)) w = Inr w'" and "a \<noteq> this_sp (spe E)"
  shows "follows (this_sp (spe E)) strict w w'"
  by (rule on_pool_follows[OF assms(1)])
    (use assms(2) withdraw_row withdraw_usdd[of "spe E"] withdraw_total[of "spe E"] in \<open>fastforce simp: pool_usdd_def\<close>)

lemma registerFrontEnd_total: "registerFrontEnd s r p = Inr p' \<Longrightarrow> totalUSDDDeposits p' = totalUSDDDeposits p"
  by (auto simp: registerFrontEnd_def rbind_Inr_iff)

lemma register_follows:
  "on_pool (sp_exec (spe E) now sender (RegisterFrontEnd r)) w = Inr w' \<Longrightarrow> follows P strict w w'"
  by (erule on_pool_follows) (auto simp: rbind_Inr_iff registerFrontEnd_total)

lemma gainToTrove_follows:
  assumes "sys_withdrawCollGainToTrove E now sender up lo w = Some (Inr w')" and "this_sp (spe E) \<noteq> this_stk (stke E)"
  shows "follows (this_sp (spe E)) strict w w'"
proof -
  from assms(1) obtain gain s where t: "sp_takeCollGain (spe E) now sender (sysw w) = Inr (gain, s)"
    and a: "bo_adjustTrove E now (this_sp (spe E)) sender gain 0 0 False up lo 0 (w\<lparr>sysw := s\<rparr>) = Some (Inr w')"
    by (rule gainToTrove_split)
  have "follows (this_sp (spe E)) strict w (w\<lparr>sysw := s\<rparr>)"
    using takeCollGain_keeps[OF t] by (intro follows_same) (simp_all add: sp_deposits_def)
  moreover have "follows (this_sp (spe E)) strict (w\<lparr>sysw := s\<rparr>) w'" by (rule adjust_follows[OF a assms(2)]) simp
  ultimately show ?thesis by (rule follows_trans)
qed

section \<open>Liquidations\<close>

lemma offset_follows:
  assumes "offset (spe E) now sender D c (sysw w) = Inr s"
  shows "follows (this_sp (spe E)) strict w (w\<lparr>sysw := s\<rparr>)"
  using offset_total[OF assms] offset_row[OF assms] by (auto simp: follows_def sp_deposits_def pool_usdd_def)

lemma gas_follows:
  assumes "sendGasCompensation E l u c w = Inr w'" and "P \<noteq> gasPool_address E" and "l \<noteq> P"
  shows "follows P strict w w'"
proof -
  from assms(1) obtain p p' where
    p: "(if u > 0 then rbind (usdd_returnFromPool (this_tm E) (gasPool_address E) l u (usdd_of w))
           (\<lambda>u. Inr ((others (sysw w))\<lparr>usdd := u\<rparr>)) else Inr (others (sysw w))) = Inr p" and
    p': "(if c > 0 then ap_sendColl (spe E) (this_tm E) l c p else Inr p) = Inr p'" and w': "w' = set_peers p' w"
    by (auto simp: sendGasCompensation_def rbind_Inr_iff)
  have "token_kept P (usdd_of w) (usdd p)"
    using p assms(2,3) by (auto simp: rbind_Inr_iff split: if_splits intro: return_kept)
  moreover have "usdd p' = usdd p" using p' by (auto split: if_splits dest: ap_sendColl_facts)
  ultimately show ?thesis by (intro follows_token) (simp_all add: w' sp_deposits_def)
qed

lemma liq_follows:
  assumes "liq_exec E now sender call w = Inr w'" and "this_sp (spe E) \<noteq> gasPool_address E" and "liquidator_of call \<noteq> this_sp (spe E)"
  shows "follows (this_sp (spe E)) strict w w'"
proof -
  let ?P = "this_sp (spe E)"
  from call_seq[OF assms(1)] obtain p w0 r t w1 where f: "fetch_price E w = Inr (p, w0)"
    and sq: "seq_result p (liq_bound r) (sp_deposits w0) zeroTotals w0 t w1"
    and g: "finish_liquidation E now (liquidator_of call) t w1 = Inr w'" by metis
  have "totalDebtInSequence zeroTotals = 0" "totalCollInSequence zeroTotals = 0" by (simp_all add: zeroTotals_def)
  with sq have "same_books w0 w1" by (auto simp: seq_result_def dest: closes_many_books)
  from g obtain s w2 w3 w4 where o: "offset (spe E) now (this_tm E) (totalDebtToOffset t) (totalCollToSendToSP t) (sysw w1) = Inr s"
    and rd: "redistributeDebtAndColl E (totalDebtToRedistribute t) (totalCollToRedistribute t) (w1\<lparr>sysw := s\<rparr>) = Inr w2"
    and su: "(if totalCollSurplus t > 0 then rbind (ap_sendColl (spe E) (this_tm E) (this_tm E) (totalCollSurplus t)
           (others (sysw w2))) (\<lambda>p. cs_receiveColl E (this_tm E) (totalCollSurplus t) (set_peers p w2)) else Inr w2) = Inr w3"
    and sn: "updateSystemSnapshots_excludeCollRemainder (totalCollGasCompensation t) w3 = Inr w4"
    and gs: "sendGasCompensation E (liquidator_of call) (totalUSDDGasCompensation t) (totalCollGasCompensation t) w4 = Inr w'"
    unfolding finish_liquidation_def by (auto elim!: rbindE)
  have "follows ?P strict (w1\<lparr>sysw := s\<rparr>) w2" "follows ?P strict w2 w3" "follows ?P strict w3 w4"
    using redistribute_books[OF rd] surplus_facts[OF su] snapshots_facts[OF sn] by (auto simp: sp_deposits_def intro!: follows_same)
  with fetch_follows[OF f] same_books_follows[OF \<open>same_books w0 w1\<close>] offset_follows[OF o] gas_follows[OF gs assms(2,3)]
  show ?thesis using follows_trans by metis
qed

section \<open>Stakers and holders\<close>

text \<open>What is kept while the pool owns its address, allows nobody to spend, and has the tokens of its tracker.\<close>

definition backed :: "address \<Rightarrow> bool \<Rightarrow> 'x lq_world \<Rightarrow> bool" where
  "backed P strict w \<longleftrightarrow> usdd_stabilityPoolAddress (usdd_of w) = P \<and> (\<forall>a. usdd_allowances (usdd_of w) P a = 0) \<and>
     sp_deposits w \<le> usdd_balances (usdd_of w) P \<and> (strict \<longrightarrow> usdd_balances (usdd_of w) P = sp_deposits w)"

lemma follows_backed: "follows P s w w' \<Longrightarrow> backed P s w \<Longrightarrow> backed P s w'"
  by (auto simp: follows_def backed_def row_kept_def)

lemma on_usdd_follows:
  assumes "on_usdd (usdd_exec t sender c) w = Inr w'" and "c = Transfer a n \<or> c = TransferFrom b a n \<or> c = Approve a n"
    and "sender \<noteq> P" and "backed P strict w"
  shows "follows P strict w w'"
proof -
  from assms(1) obtain u where u: "usdd_exec t sender c (usdd_of w) = Inr u" and w': "w' = set_usdd u w"
    by (auto simp: on_usdd_def rbind_Inr_iff)
  have "token_kept P (usdd_of w) u" using user_token_kept[OF u assms(2,3)] assms(4) by (simp add: backed_def)
  then show ?thesis by (intro follows_token) (simp_all add: w' set_usdd_def sp_deposits_def)
qed

lemma stake_transfer:
  assumes "stake_deft E sender a n w = Inr w' \<or> unstake_deft E sender a n w = Inr w'"
  shows "\<exists>g. usdd_transfer (usdd_address E) (this_stk E) a g (stk_usdd w) = Inr (stk_usdd w')"
  using assms unfolding stake_deft_def unstake_deft_def Let_def by (auto elim!: rbindE)

lemma on_staking_follows:
  assumes "on_staking f w = Inr w'" and "f = stake_deft (stke E) sender a n \<or> f = unstake_deft (stke E) sender a n"
    and "backed P strict w" and "P \<noteq> this_stk (stke E)"
  shows "follows P strict w w'"
proof -
  let ?s = "\<lparr>stk = staking w, stk_usdd = usdd_of w, stk_ext = ext (others (sysw w))\<rparr>"
  from assms(1) obtain s where s: "f ?s = Inr s"
    and w': "w' = set_peers ((others (sysw w))\<lparr>usdd := stk_usdd s, ext := stk_ext s\<rparr>) (w\<lparr>staking := stk s\<rparr>)"
    by (auto simp: on_staking_def rbind_Inr_iff)
  from s assms(2) stake_transfer[of "stke E" sender a n ?s s]
  obtain g where "usdd_transfer (usdd_address (stke E)) (this_stk (stke E)) a g (usdd_of w) = Inr (stk_usdd s)" by auto
  then have "token_kept P (usdd_of w) (stk_usdd s)" by (rule transfer_kept) (use assms(3,4) in \<open>simp_all add: backed_def\<close>)
  then show ?thesis by (intro follows_token) (simp_all add: w' sp_deposits_def)
qed

lemma claim_follows: "bo_claimCollateral E sender b w = Inr w' \<Longrightarrow> follows P s w w'"
  by (auto simp: bo_claimCollateral_def cs_claimColl_def rbind_Inr_iff Let_def sp_deposits_def intro!: follows_same)

section \<open>Every call\<close>

text \<open>The account a call acts for, where the contracts let the gateway name another one than the caller.\<close>

fun acts_for :: "sys_call \<Rightarrow> address option" where
  "acts_for (Liquidation c) = Some (liquidator_of c)"
| "acts_for (RedeemCollateral dep n hint up lo h iters maxFee) = Some dep"
| "acts_for (DepositUSDD a n t) = Some a"
| "acts_for (WithdrawUSDD a n) = Some a"
| "acts_for _ = None"

fun opens_for :: "sys_call \<Rightarrow> address option" where
  "opens_for (OpenTrove b maxFee c n up lo) = Some b"
| "opens_for _ = None"

lemma sys_exec_follows:
  assumes "sys_exec E now sender c w = Some (Inr w')" and "backed (this_sp (spe E)) strict w"
    and "this_sp (spe E) \<noteq> gasPool_address E" and "this_sp (spe E) \<noteq> this_stk (stke E)"
    and "sender \<noteq> this_sp (spe E)" and "acts_for c \<noteq> Some (this_sp (spe E))" and "strict \<longrightarrow> opens_for c \<noteq> Some (this_sp (spe E))"
  shows "follows (this_sp (spe E)) strict w w'"
proof (cases c)
  case (Liquidation c')
  with assms show ?thesis by (auto intro: liq_follows)
next
  case (RedeemCollateral dep n hint up lo h iters maxFee)
  with assms show ?thesis by (auto intro: redeem_follows)
next
  case (OpenTrove b maxFee c' n up lo)
  with assms show ?thesis by (auto intro: open_follows)
next
  case (AdjustTrove b cd cw n inc up lo maxFee)
  with assms show ?thesis by (auto intro: adjust_follows)
next
  case (DepositUSDD a n t)
  with assms show ?thesis by (auto simp del: sp_exec.simps intro: provide_follows)
next
  case (WithdrawUSDD a n)
  with assms show ?thesis by (auto simp del: sp_exec.simps intro: withdraw_follows)
next
  case (RegisterAsFrontEnd r)
  with assms show ?thesis by (auto simp del: sp_exec.simps intro: register_follows)
next
  case (TransferUSDD a n)
  with assms show ?thesis by (intro on_usdd_follows[of _ sender "Transfer a n" w w' a n 0]) (simp_all del: usdd_exec.simps)
next
  case (TransferUSDDFrom b a n)
  with assms show ?thesis by (intro on_usdd_follows[of _ sender "TransferFrom b a n" w w' a n b]) (simp_all del: usdd_exec.simps)
next
  case (ApproveUSDD a n)
  with assms show ?thesis by (intro on_usdd_follows[of _ sender "Approve a n" w w' a n 0]) (simp_all del: usdd_exec.simps)
next
  case (StakeDEFT a n)
  with assms show ?thesis by (intro on_staking_follows[where f = "stake_deft (stke E) sender a n" and sender = sender and a = a and n = n]) simp_all
next
  case (UnstakeDEFT a n)
  with assms show ?thesis by (intro on_staking_follows[where f = "unstake_deft (stke E) sender a n" and sender = sender and a = a and n = n]) simp_all
qed (use assms in \<open>auto intro: close_follows claim_follows gainToTrove_follows\<close>)

lemma sys_run_backed:
  assumes "this_sp (spe E) \<noteq> gasPool_address E" and "this_sp (spe E) \<noteq> this_stk (stke E)"
  shows "\<forall>(now, sender, c) \<in> set cs. sender \<noteq> this_sp (spe E) \<and> acts_for c \<noteq> Some (this_sp (spe E)) \<and>
      (strict \<longrightarrow> opens_for c \<noteq> Some (this_sp (spe E))) \<Longrightarrow>
    backed (this_sp (spe E)) strict w \<Longrightarrow> backed (this_sp (spe E)) strict (sys_run E cs w)"
proof (induction cs arbitrary: w)
  case (Cons x cs)
  obtain now sender c where x: "x = (now, sender, c)" by (cases x)
  have "backed (this_sp (spe E)) strict w'" if "sys_exec E now sender c w = Some (Inr w')" for w'
    using follows_backed[OF sys_exec_follows[OF that Cons.prems(2) assms]] Cons.prems x by auto
  with Cons x show ?case by (auto split: option.splits sum.splits)
qed simp

lemma deployed_backed: "backed (this_sp (spe E)) strict (sys_deployed E n tokens ci x)"
  by (simp add: backed_def sys_deployed_def usdd_deployed_def sp_deployed_def sp_deposits_def)

section \<open>The pool owns its deposits\<close>

text \<open>
  C18. After every history of calls on the deployed system the Stability Pool holds at least the USDD of
  its tracker \<open>totalUSDDDeposits\<close>, and exactly these USDD unless somebody opened a trove in the pool's name, which
  \<open>openTrove\<close> allows to anyone and which mints USDD to the pool.  The history is any in which no call is sent by the pool's
  own address, whose code makes none of them, and none acts for the pool's address, which the contracts accept from the
  gateway only, whose code names its own caller; the pool's address is neither the gas pool's nor the staking contract's.
\<close>

theorem pool_tokens_back_deposits:
  assumes "this_sp (spe E) \<noteq> gasPool_address E" and "this_sp (spe E) \<noteq> this_stk (stke E)"
    and "\<forall>(now, sender, c) \<in> set cs. sender \<noteq> this_sp (spe E) \<and> acts_for c \<noteq> Some (this_sp (spe E))"
    and "w = sys_run E cs (sys_deployed E n tokens ci x)"
  shows "totalUSDDDeposits (pool (sysw w)) \<le> usdd_balances (usdd (others (sysw w))) (this_sp (spe E)) \<and>
    ((\<forall>(now, sender, c) \<in> set cs. opens_for c \<noteq> Some (this_sp (spe E))) \<longrightarrow>
       usdd_balances (usdd (others (sysw w))) (this_sp (spe E)) = totalUSDDDeposits (pool (sysw w)))"
proof -
  have "backed (this_sp (spe E)) False w"
    unfolding assms(4) by (rule sys_run_backed[OF assms(1,2) _ deployed_backed]) (use assms(3) in auto)
  moreover have "backed (this_sp (spe E)) True w" if "\<forall>(now, sender, c) \<in> set cs. opens_for c \<noteq> Some (this_sp (spe E))"
    unfolding assms(4) by (rule sys_run_backed[OF assms(1,2) _ deployed_backed]) (use assms(3) that in auto)
  ultimately show ?thesis by (simp add: backed_def sp_deposits_def)
qed

theorem pool_tokens_back_deposits_witness:
  "usdd_balances (usdd (others (sysw (demo_run [] [])))) 3 = totalUSDDDeposits (pool (sysw (demo_run [] []))) \<and>
    totalUSDDDeposits (pool (sysw (demo_run [] []))) = 6000000000000000000000"
proof -
  have a: "this_sp (spe demo_lq) = 3" "gasPool_address demo_lq \<noteq> 3" "this_stk (stke demo_lq) \<noteq> 3" by (simp_all add: demo_lq_def)
  have c: "\<forall>(now, sender, c) \<in> set demo_calls. sender \<noteq> 3 \<and> acts_for c \<noteq> Some 3"
    "\<forall>(now, sender, c) \<in> set demo_calls. opens_for c \<noteq> Some 3" by (simp_all add: demo_calls_def)
  have w: "demo_run [] [] = sys_run demo_lq demo_calls (sys_deployed demo_lq 10 [70] demo_start
      (2000000000000000000000 # 2000000000000000000000 # 2000000000000000000000 # []))" by (simp add: demo_run_def)
  have "totalUSDDDeposits (pool (sysw (demo_run [] []))) = 6000000000000000000000" by (simp add: demo_run_system demo_system_def)
  with pool_tokens_back_deposits[OF _ _ _ w] a c show ?thesis by auto
qed

text \<open>The exception: a stranger opens a trove in the pool's name, and the pool gets USDD that its tracker does not count.\<close>

theorem open_for_pool_is_untracked:
  "case sys_exec demo_lq 1 14 (OpenTrove 3 1000000000000000000 3000000000000000000 2500000000000000000000 12 0)
      (demo_system [2000000000000000000000]) of
     Some (Inr w) \<Rightarrow> usdd_balances (usdd (others (sysw w))) 3 = 8500000000000000000000 \<and>
       totalUSDDDeposits (pool (sysw w)) = 6000000000000000000000
   | _ \<Rightarrow> False"
  by (simp add: demo_system_def sys_eval cong: rbind_weak_cong)

end
