(* ===== verification/Sorted_Troves_Total.thy ===== *)
theory Sorted_Troves_Total
  imports Sorted_Troves
begin

text \<open>
  The list operations when reading a ratio may revert.  \<open>TroveManager.getNominalICR\<close> fails on an overflow, and then the search
  stops with that error.  Otherwise it takes the same steps as with ratios that can always be read, so insertion and
  re-insertion come back on every well-linked list, and succeed only with a well-linked result.
\<close>

section \<open>Failing reads\<close>

text \<open>\<open>settles r r'\<close>: the second computation reverts or has the result of the first.\<close>

definition settles :: "'a res option \<Rightarrow> 'a res option \<Rightarrow> bool" where
  "settles r r' \<longleftrightarrow> r' = r \<or> (\<exists>e. r' = Some (Inl e))"

lemma settles_refl [simp]: "settles r r"
  by (simp add: settles_def)

lemma settles_revert [simp]: "settles r (Some (Inl e))"
  by (simp add: settles_def)

lemma settles_Inr: "settles r (Some (Inr x)) \<longleftrightarrow> r = Some (Inr x)"
  by (auto simp: settles_def)

lemma settles_returns: "settles r r' \<Longrightarrow> r \<noteq> None \<Longrightarrow> r' \<noteq> None"
  by (auto simp: settles_def)

text \<open>The ratios of a view that may fail, with an arbitrary value for a failing read.\<close>

definition ratio_of :: "(address \<Rightarrow> nat res) \<Rightarrow> address \<Rightarrow> nat" where
  "ratio_of nicr a = (case nicr a of Inl e \<Rightarrow> 0 | Inr k \<Rightarrow> k)"

abbreviation readable :: "(address \<Rightarrow> nat res) \<Rightarrow> address \<Rightarrow> nat res" where
  "readable nicr \<equiv> \<lambda>a. Inr (ratio_of nicr a)"

lemma reads_readable: "reads (readable nicr) (ratio_of nicr)"
  by (simp add: reads_def)

lemma nicr_cases: "nicr a = Inr (ratio_of nicr a) \<or> (\<exists>e. nicr a = Inl e)"
  by (cases "nicr a") (simp_all add: ratio_of_def)

lemma valid_settles:
  "validInsertPosition nicr s N p n = validInsertPosition (readable nicr) s N p n \<or>
   (\<exists>e. validInsertPosition nicr s N p n = Inl e)"
  using nicr_cases[of nicr p] nicr_cases[of nicr n] by (auto simp: validInsertPosition_def)

lemma descend_loop_settles:
  assumes "descend_loop (readable nicr) s N p n = Some r"
  shows "settles (Some r) (descend_loop nicr s N p n)"
proof -
  have "readable nicr = readable nicr \<longrightarrow> settles (Some r) (descend_loop nicr s N p n)"
  proof (rule descend_loop.raw_induct[where P = "\<lambda>nicr' s N p n r. nicr' = readable nicr \<longrightarrow> settles (Some r) (descend_loop nicr s N p n)", OF _ assms])
    fix f nicr' s N p n r
    assume IH: "\<And>nicr' s N p n r. f nicr' s N p n = Some r \<Longrightarrow> nicr' = readable nicr \<longrightarrow> settles (Some r) (descend_loop nicr s N p n)"
      and body: "(if p = 0 then Some (Inr (p, n)) else case validInsertPosition nicr' s N p n of Inl e \<Rightarrow> Some (Inl e)
         | Inr valid \<Rightarrow> if valid then Some (Inr (p, n)) else f nicr' s N (nextId (nodes s p)) (nextId (nodes s (nextId (nodes s p))))) = Some r"
    show "nicr' = readable nicr \<longrightarrow> settles (Some r) (descend_loop nicr s N p n)"
      using body valid_settles[of nicr s N p n] IH
      by (subst descend_loop.simps) (auto split: sum.splits if_splits)
  qed
  then show ?thesis by simp
qed

lemma ascend_loop_settles:
  assumes "ascend_loop (readable nicr) s N p n = Some r"
  shows "settles (Some r) (ascend_loop nicr s N p n)"
proof -
  have "readable nicr = readable nicr \<longrightarrow> settles (Some r) (ascend_loop nicr s N p n)"
  proof (rule ascend_loop.raw_induct[where P = "\<lambda>nicr' s N p n r. nicr' = readable nicr \<longrightarrow> settles (Some r) (ascend_loop nicr s N p n)", OF _ assms])
    fix f nicr' s N p n r
    assume IH: "\<And>nicr' s N p n r. f nicr' s N p n = Some r \<Longrightarrow> nicr' = readable nicr \<longrightarrow> settles (Some r) (ascend_loop nicr s N p n)"
      and body: "(if n = 0 then Some (Inr (p, n)) else case validInsertPosition nicr' s N p n of Inl e \<Rightarrow> Some (Inl e)
         | Inr valid \<Rightarrow> if valid then Some (Inr (p, n)) else f nicr' s N (prevId (nodes s (prevId (nodes s n)))) (prevId (nodes s n))) = Some r"
    show "nicr' = readable nicr \<longrightarrow> settles (Some r) (ascend_loop nicr s N p n)"
      using body valid_settles[of nicr s N p n] IH
      by (subst ascend_loop.simps) (auto split: sum.splits if_splits)
  qed
  then show ?thesis by simp
qed

lemma descendList_settles:
  assumes "descendList (readable nicr) s N a = Some r"
  shows "settles (Some r) (descendList nicr s N a)"
  using assms nicr_cases[of nicr a]
  by (auto simp: descendList_def split: if_splits intro: descend_loop_settles)

lemma ascendList_settles:
  assumes "ascendList (readable nicr) s N a = Some r"
  shows "settles (Some r) (ascendList nicr s N a)"
  using assms nicr_cases[of nicr a]
  by (auto simp: ascendList_def split: if_splits intro: ascend_loop_settles)

lemma keep_hint_cases:
  "keep_hint nicr s wrong a = keep_hint (readable nicr) s wrong a \<or> (\<exists>e. keep_hint nicr s wrong a = Inl e)"
  using nicr_cases[of nicr a] by (auto simp: keep_hint_def)

lemma keep_hint_readable: "\<exists>a'. keep_hint (readable nicr) s wrong a = Inr a'"
  by (simp add: keep_hint_def)

lemma find_settles:
  assumes "findInsertPosition (readable nicr) s N p n = Some r"
  shows "settles (Some r) (findInsertPosition nicr s N p n)"
proof -
  obtain p' n' where h: "keep_hint (readable nicr) s (\<lambda>k. N > k) p = Inr p'" "keep_hint (readable nicr) s (\<lambda>k. N < k) n = Inr n'"
    using keep_hint_readable by blast
  from keep_hint_cases[of nicr s "\<lambda>k. N > k" p] keep_hint_cases[of nicr s "\<lambda>k. N < k" n]
  show ?thesis
    using assms h by (auto simp: findInsertPosition_def split: if_splits intro: descendList_settles ascendList_settles)
qed

section \<open>Insertion\<close>

text \<open>The position that an insertion uses, when it uses one.\<close>

lemma insert_position:
  assumes "list_inv s xs"
  obtains as bs where "xs = as @ bs"
    and "settles (Some (Inr (final as, first bs)))
           (case validInsertPosition nicr s N p n of Inl e \<Rightarrow> Some (Inl e)
            | Inr b \<Rightarrow> if b then Some (Inr (p, n)) else findInsertPosition nicr s N p n)"
proof (cases "validInsertPosition nicr s N p n")
  case (Inl e)
  with that[of "[]" xs] show thesis by simp
next
  case (Inr b)
  show thesis
  proof (cases b)
    case True
    with Inr valid_settles[of nicr s N p n] have "validInsertPosition (readable nicr) s N p n = Inr True" by auto
    from validInsertPosition_split[OF assms reads_readable this] obtain as bs
      where "xs = as @ bs" "p = final as" "n = first bs" by metis
    with that Inr True show thesis by simp
  next
    case False
    from findInsertPosition_finds[OF assms reads_readable] obtain as bs where
      "xs = as @ bs" "findInsertPosition (readable nicr) s N p n = Some (Inr (final as, first bs))" by metis
    with that find_settles Inr False show thesis by auto
  qed
qed

lemma insert_inner_returns:
  assumes "list_inv s xs"
  shows "insert_inner nicr s a N p n \<noteq> None"
proof -
  obtain as bs where "settles (Some (Inr (final as, first bs)))
      (case validInsertPosition nicr s N p n of Inl e \<Rightarrow> Some (Inl e)
       | Inr b \<Rightarrow> if b then Some (Inr (p, n)) else findInsertPosition nicr s N p n)"
    using insert_position[OF assms, where nicr = nicr and N = N and p = p and n = n] by metis
  then show ?thesis
    by (auto simp: insert_inner_def settles_def require_def split: sum.splits option.splits if_splits)
qed

lemma insert_inner_inv:
  assumes "list_inv s xs" and "insert_inner nicr s a N p n = Some (Inr s')"
  obtains as bs where "xs = as @ bs" and "list_inv s' (as @ a # bs)"
proof -
  note g = insert_inner_guards[OF assms(2)]
  have a: "a \<notin> set xs" using g(2) list_inv_contains[OF assms(1)] by simp
  obtain as bs where xs: "xs = as @ bs" and st: "settles (Some (Inr (final as, first bs)))
      (case validInsertPosition nicr s N p n of Inl e \<Rightarrow> Some (Inl e)
       | Inr b \<Rightarrow> if b then Some (Inr (p, n)) else findInsertPosition nicr s N p n)"
    using insert_position[OF assms(1), where nicr = nicr and N = N and p = p and n = n] by metis
  from assms(2) obtain v p' n' where "validInsertPosition nicr s N p n = Inr v"
    and pos: "(if v then Some (Inr (p, n)) else findInsertPosition nicr s N p n) = Some (Inr (p', n'))"
    and s': "rbind (u_add (st_size (link_node a p' n' s)) 1) (\<lambda>k. Inr (link_node a p' n' s\<lparr>st_size := k\<rparr>)) = Inr s'"
    by (auto simp: insert_inner_def rbind_Inr_iff Let_def split: sum.splits option.splits)
  with st have p': "p' = final as" "n' = first bs" by (auto simp: settles_def)
  have "st_size (link_node a (final as) (first bs) s) = st_size s"
    using link_node_nodes(4) assms(1) g(3) a xs by blast
  then have "s' = link_node a (final as) (first bs) s\<lparr>st_size := Suc (st_size s)\<rparr>"
    using s' by (auto simp: p' rbind_Inr_iff u_add_Inr_iff)
  then show thesis using that[OF xs] link_node_inv[of s as bs a] assms(1) xs g(3) a by simp
qed

section \<open>The operations\<close>

lemma remove_inner_inv:
  assumes "list_inv s xs" and "remove_inner s a = Inr s'"
  shows "a \<in> set xs" and "list_inv s' (remove1 a xs)"
proof -
  have "containsNode s a" using assms(2) by (auto simp: remove_inner_def rbind_Inr_iff)
  then show a: "a \<in> set xs" using list_inv_contains[OF assms(1)] by simp
  from remove_inner_ok[OF assms(1) a] assms(2) show "list_inv s' (remove1 a xs)" by auto
qed

lemma list_inv_distinct: "list_inv s xs \<Longrightarrow> distinct xs \<and> 0 \<notin> set xs"
  by (simp add: list_inv_def)

text \<open>What a successful operation does to the set of nodes.\<close>

lemma insert_trove_inv:
  assumes "list_inv s xs" and "insert_trove sender nicr s a N p n = Some (Inr s')"
  shows "\<exists>ys. list_inv s' ys \<and> set ys = insert a (set xs)"
proof -
  have "insert_inner nicr s a N p n = Some (Inr s')" using assms(2) by (auto simp: insert_trove_def split: sum.splits)
  from insert_inner_inv[OF assms(1) this] show ?thesis by (metis Un_insert_right list.simps(15) set_append)
qed

lemma remove_trove_inv:
  assumes "list_inv s xs" and "remove_trove sender s a = Inr s'"
  shows "\<exists>ys. list_inv s' ys \<and> set ys = set xs - {a}"
proof -
  have "remove_inner s a = Inr s'" using assms(2) by (auto simp: remove_trove_def rbind_Inr_iff)
  from remove_inner_inv[OF assms(1) this] list_inv_distinct[OF assms(1)] show ?thesis
    by (intro exI[of _ "remove1 a xs"]) simp
qed

lemma reInsert_inv:
  assumes "list_inv s xs" and "reInsert sender nicr s a N p n = Some (Inr s')"
  shows "\<exists>ys. list_inv s' ys \<and> set ys = set xs"
proof -
  from assms(2) obtain s1 where r: "remove_inner s a = Inr s1" and i: "insert_inner nicr s1 a N p n = Some (Inr s')"
    by (auto simp: reInsert_def rbind_Inr_iff split: sum.splits)
  note rem = remove_inner_inv[OF assms(1) r]
  from insert_inner_inv[OF rem(2) i] obtain as bs where "remove1 a xs = as @ bs" "list_inv s' (as @ a # bs)" by metis
  moreover have "set (remove1 a xs) = set xs - {a}" using list_inv_distinct[OF assms(1)] by simp
  ultimately have "set (as @ a # bs) = set xs" using rem(1) by auto
  then show ?thesis using \<open>list_inv s' (as @ a # bs)\<close> by blast
qed

lemma insert_trove_returns: "list_inv s xs \<Longrightarrow> insert_trove sender nicr s a N p n \<noteq> None"
  using insert_inner_returns by (auto simp: insert_trove_def split: sum.splits)

lemma reInsert_returns:
  assumes "list_inv s xs"
  shows "reInsert sender nicr s a N p n \<noteq> None"
proof (cases "rbind (requireCallerIsBOorTroveM sender s) (\<lambda>_.
           rbind (require (containsNode s a) ''SortedTroves: List does not contain the id'') (\<lambda>_.
           rbind (require (N > 0) ''SortedTroves: NICR must be positive'') (\<lambda>_. remove_inner s a)))")
  case (Inr s1)
  then have "remove_inner s a = Inr s1" by (auto simp: rbind_Inr_iff)
  with Inr insert_inner_returns[OF remove_inner_inv(2)[OF assms]] show ?thesis by (simp add: reInsert_def)
qed (simp add: reInsert_def)

end
