(* ===== verification/System_List.thy ===== *)
theory System_List
  imports System_History System_Safety Sorted_Troves_Total
begin

text \<open>
  The sorted list through the histories of the system: it is well linked and holds exactly the active troves, so that every
  search in it ends and every call returns.
\<close>

section \<open>The list of active troves\<close>

definition active_troves :: "trove_manager \<Rightarrow> address set" where
  "active_troves t = {b. status (Troves t b) = active}"

definition lists_active :: "'x lq_world \<Rightarrow> bool" where
  "lists_active w \<longleftrightarrow> (\<exists>xs. list_inv (slist (others (sysw w))) xs \<and> set xs = active_troves (tm_of w))"

text \<open>Operations that leave the list, the owners array and the status of every trove alone.\<close>

definition list_frame :: "'x lq_world \<Rightarrow> 'x lq_world \<Rightarrow> bool" where
  "list_frame w w' \<longleftrightarrow> slist (others (sysw w')) = slist (others (sysw w)) \<and>
     TroveOwners (tm_of w') = TroveOwners (tm_of w) \<and>
     (\<forall>b. status (Troves (tm_of w') b) = status (Troves (tm_of w) b) \<and> arrayIndex (Troves (tm_of w') b) = arrayIndex (Troves (tm_of w) b))"

lemma list_frame_refl [simp]: "list_frame w w"
  by (simp add: list_frame_def)

lemma list_frame_trans: "list_frame w w' \<Longrightarrow> list_frame w' w'' \<Longrightarrow> list_frame w w''"
  by (simp add: list_frame_def)

lemma list_frame_lists: "list_frame w w' \<Longrightarrow> lists_active w \<Longrightarrow> lists_active w'"
  by (simp add: list_frame_def lists_active_def active_troves_def)

lemma list_frame_owners: "list_frame w w' \<Longrightarrow> owners_ok n (tm_of w') = owners_ok n (tm_of w)"
  by (intro owners_ok_same) (simp_all add: list_frame_def)

lemma bo_frame_list: "bo_frame w w' \<Longrightarrow> list_frame w w'"
  by (simp add: bo_frame_def tm_same_def list_frame_def)

lemma fetch_list: "fetch_price E w = Inr (p, w0) \<Longrightarrow> list_frame w w0"
  using fetch_price_facts[of E w p w0] by (simp add: list_frame_def)

text \<open>A trove leaves the list when it stops being active.\<close>

lemma leaves_list:
  assumes "lists_active w" and "remove_inner (slist (others (sysw w))) b = Inr (slist (others (sysw w')))"
    and "status (Troves (tm_of w') b) \<noteq> active"
    and "\<And>x. x \<noteq> b \<Longrightarrow> status (Troves (tm_of w') x) = status (Troves (tm_of w) x)"
  shows "lists_active w'"
proof -
  from assms(1) obtain xs where xs: "list_inv (slist (others (sysw w))) xs" "set xs = active_troves (tm_of w)"
    by (auto simp: lists_active_def)
  have "set (remove1 b xs) = set xs - {b}" using list_inv_distinct[OF xs(1)] by simp
  also have "\<dots> = active_troves (tm_of w')" using assms(3,4) by (auto simp: xs(2) active_troves_def) metis+
  finally show ?thesis using remove_inner_inv(2)[OF xs(1) assms(2)] by (auto simp: lists_active_def)
qed

lemma close_leaves_list:
  assumes "closeTrove E b st w = Inr w'" and "st \<noteq> active" and "lists_active w"
  shows "lists_active w'"
  by (rule leaves_list[OF assms(3) closeTrove_facts(11)[OF assms(1)]])
    (use closeTrove_facts(6,9)[OF assms(1)] assms(2) in \<open>auto simp: same_trove_def\<close>)

section \<open>Liquidations\<close>

lemma closes_trove_list:
  assumes "closes_trove b v w w'" and "lists_active w"
  shows "lists_active w'"
  by (rule leaves_list[OF assms(2), of b]) (use assms(1) in \<open>auto simp: closes_trove_def same_trove_def\<close>)

lemma closes_many_list: "closes_many p B D C w w' \<Longrightarrow> lists_active w \<Longrightarrow> lists_active w'"
  by (induction rule: closes_many.induct) (auto intro: closes_trove_list)

lemma call_list:
  assumes "liq_exec E now sender call w = Inr w'" and "lists_active w"
  shows "lists_active w'"
proof -
  obtain p r t w0 w1 w2 w3 where "call_result E w w' p r t w0 w1 w2 w3" by (rule call_facts[OF assms(1)])
  then have f: "fetch_price E w = Inr (p, w0)"
    and c: "closes_many p (liq_bound r) (totalDebtInSequence t) (totalCollInSequence t) w0 w1" and s: "settled t w1 w'"
    by (simp_all add: call_result_def)
  have "lists_active w1" by (rule closes_many_list[OF c list_frame_lists[OF fetch_list[OF f] assms(2)]])
  moreover have "list_frame w1 w'" using s by (simp add: settled_def list_frame_def)
  ultimately show ?thesis using list_frame_lists by blast
qed

section \<open>Pending rewards\<close>

lemma apply_list:
  assumes "applyPendingRewards E b w = Inr w'"
  shows "list_frame w w'"
proof (cases "hasPendingRewards (tm_of w) b")
  case True
  with assms obtain pd pc c d where
    m: "movePendingTroveRewardsToActivePool E pd pc
          (set_tm (updateTroveRewardSnapshots b (upd_trove b (\<lambda>t. t\<lparr>coll := c, debt := d\<rparr>) (tm_of w))) w) = Inr w'"
    unfolding applyPendingRewards_def by (auto elim!: rbindE)
  then show ?thesis using movePending_facts[OF m]
    by (auto simp: list_frame_def updateTroveRewardSnapshots_def upd_trove_def)
qed (use assms in \<open>simp add: applyPendingRewards_def\<close>)

section \<open>The operations of borrowers\<close>

lemma set_slist_lists:
  assumes "list_inv s ys" and "set ys = active_troves (tm_of w)"
  shows "lists_active (set_slist s w)"
  using assms by (auto simp: lists_active_def)

lemma open_record_status:
  assumes "bo_open_record E b c d w = Inr w'"
  shows "active_troves (tm_of w') = insert b (active_troves (tm_of w)) \<and> slist (others (sysw w')) = slist (others (sysw w))"
proof -
  from open_record_facts[OF assms] obtain k where
    wr: "trove_write b (debt (Troves (tm_of w) b) + d) (coll (Troves (tm_of w) b) + c) k (tm_of w) (tm_of w')"
    and w': "w' = set_tm (tm_of w') w" by blast
  have "slist (others (sysw w')) = slist (others (sysw w))" by (subst w') simp
  then show ?thesis using open_record_snaps[OF assms] wr by (auto simp: active_troves_def trove_write_def same_trove_def)
qed

text \<open>
  An opening is checked, recorded, inserted into the list and into the owners array, and paid; only the steps in between
  touch the list and the array.
\<close>

lemma open_steps:
  assumes "bo_openTrove E now sender b maxFee c n up lo w = Some (Inr w')"
  obtains net cdebt NICR w1 w2 s i t where "bo_open_check E now b maxFee c n w = Inr (net, cdebt, NICR, w1)"
    and "list_frame w w1" and "bo_open_record E b c cdebt w1 = Inr w2"
    and "insert_trove (this_bo E) (getNominalICR (tm_of w2)) (slist (others (sysw w2))) b NICR up lo = Some (Inr s)"
    and "addTroveOwnerToArray b (tm_of w2) = Inr (i, t)" and "list_frame (set_tm t (set_slist s w2)) w'"
    and "Troves (tm_of w') = Troves t"
proof -
  from assms obtain net cdebt NICR w1 w2 s where ch: "bo_open_check E now b maxFee c n w = Inr (net, cdebt, NICR, w1)"
    and rc: "bo_open_record E b c cdebt w1 = Inr w2"
    and ins: "insert_trove (this_bo E) (getNominalICR (tm_of w2)) (slist (others (sysw w2))) b NICR up lo = Some (Inr s)"
    and pay: "bo_open_pay E sender b c n net (set_slist s w2) = Inr w'" by (rule openTrove_split)
  from ch have "bo_frame w w1" by (rule bo_open_check_facts)
  from pay obtain i t v1 v2 where t: "addTroveOwnerToArray b (tm_of w2) = Inr (i, t)"
    and 1: "bo_activePoolAddColl E sender c (set_tm t (set_slist s w2)) = Inr v1" and 2: "bo_withdrawUSDD E b n net v1 = Inr v2"
    and 3: "bo_withdrawUSDD E (gasPool_address E) USDD_GAS_COMPENSATION USDD_GAS_COMPENSATION v2 = Inr w'"
    by (auto simp: bo_open_pay_def tm_addTroveOwnerToArray_def rbind_Inr_iff)
  have "bo_frame (set_tm t (set_slist s w2)) w'"
    using addColl_facts[OF 1] withdrawUSDD_facts[OF 2] withdrawUSDD_facts[OF 3] bo_frame_trans by blast
  then show thesis
    using that[OF ch bo_frame_list[OF \<open>bo_frame w w1\<close>] rc ins t bo_frame_list] by (simp add: bo_frame_def tm_same_def)
qed

lemma open_list:
  assumes "bo_openTrove E now sender b maxFee c n up lo w = Some (Inr w')" and "lists_active w"
  shows "lists_active w'"
proof -
  from assms(1) obtain net cdebt NICR w1 w2 s i t where f: "list_frame w w1" and rc: "bo_open_record E b c cdebt w1 = Inr w2"
    and ins: "insert_trove (this_bo E) (getNominalICR (tm_of w2)) (slist (others (sysw w2))) b NICR up lo = Some (Inr s)"
    and t: "addTroveOwnerToArray b (tm_of w2) = Inr (i, t)" and f': "list_frame (set_tm t (set_slist s w2)) w'"
    by (rule open_steps)
  from list_frame_lists[OF f assms(2)] obtain xs where xs: "list_inv (slist (others (sysw w1))) xs" "set xs = active_troves (tm_of w1)"
    by (auto simp: lists_active_def)
  note os = open_record_status[OF rc]
  from insert_trove_inv[OF _ ins] os xs obtain ys where ys: "list_inv s ys" "set ys = active_troves (tm_of w2)" by metis
  have "active_troves t = active_troves (tm_of w2)" using addOwner_facts[OF t] by (simp add: active_troves_def same_trove_def)
  with ys have "lists_active (set_tm t (set_slist s w2))" by (auto simp: lists_active_def)
  with f' show ?thesis by (rule list_frame_lists)
qed

lemma adjust_prepare_list:
  assumes "bo_adjust_prepare E now b cd cw n inc maxFee w = Inr (r, p, net, w2)"
  shows "list_frame w w2"
proof -
  from assms obtain w0 w1 where f: "fetch_price E w = Inr (p, w0)" and ap: "applyPendingRewards E b w0 = Inr w1"
    and bf: "bo_frame w1 w2" by (rule adjust_prepare_mode)
  show ?thesis
    by (rule list_frame_trans[OF list_frame_trans[OF fetch_list[OF f] apply_list[OF ap]] bo_frame_list[OF bf]])
qed

lemma adjust_record_list:
  assumes "bo_adjust_record E b cd cw n inc r p net w = Inr (newNICR, w')"
  shows "list_frame w w'"
proof -
  obtain cc up' where cc: "bo_getCollChange cd cw = (cc, up')" by force
  from assms obtain t1 k t2 where 1: "bo_updateTroveFromAdjustment E b cc up' net inc (tm_of w) = Inr t1"
    and 2: "updateStakeAndTotalStakes b t1 = Inr (k, t2)" and w': "w' = set_tm t2 w"
    unfolding bo_adjust_record_def tm_updateStakeAndTotalStakes_def Let_def cc by (auto elim!: rbindE)
  have "status (Troves t1 x) = status (Troves (tm_of w) x) \<and> arrayIndex (Troves t1 x) = arrayIndex (Troves (tm_of w) x) \<and>
      TroveOwners t1 = TroveOwners (tm_of w)" for x
    using 1 by (auto simp: bo_updateTroveFromAdjustment_def tm_increaseTroveColl_def tm_decreaseTroveColl_def
        tm_increaseTroveDebt_def tm_decreaseTroveDebt_def upd_trove_def rbind_Inr_iff split: if_splits)
  then show ?thesis using updateStake_facts[OF 2] by (auto simp: w' list_frame_def upd_trove_def)
qed

text \<open>An adjustment splits into the part before the list is touched, the re-insertion and the payments.\<close>

lemma adjustTrove_reInsert:
  assumes "bo_adjustTrove E now sender b cd cw n inc up lo maxFee w = Some (Inr w')"
  obtains net newNICR w2 s where "list_frame w w2"
    and "reInsert (this_bo E) (getNominalICR (tm_of w2)) (slist (others (sysw w2))) b newNICR up lo = Some (Inr s)"
    and "bo_moveTokensAndCollfromAdjustment E sender (fst (bo_getCollChange cd cw)) (snd (bo_getCollChange cd cw)) n inc net
           (set_slist s w2) = Inr w'"
proof -
  from assms obtain r p net w1 newNICR w2 s where a: "bo_adjust_prepare E now b cd cw n inc maxFee w = Inr (r, p, net, w1)"
    and c: "bo_adjust_record E b cd cw n inc r p net w1 = Inr (newNICR, w2)"
    and i: "reInsert (this_bo E) (getNominalICR (tm_of w2)) (slist (others (sysw w2))) b newNICR up lo = Some (Inr s)"
    and m: "bo_moveTokensAndCollfromAdjustment E sender (fst (bo_getCollChange cd cw)) (snd (bo_getCollChange cd cw)) n inc net
             (set_slist s w2) = Inr w'"
    by (auto simp: bo_adjustTrove_def list_then_Some split: sum.splits prod.splits elim!: rbindE)
  show thesis by (rule that[OF list_frame_trans[OF adjust_prepare_list[OF a] adjust_record_list[OF c]] i m])
qed

lemma reInsert_lists:
  assumes "lists_active w" and "reInsert sender nicr (slist (others (sysw w))) a N p n = Some (Inr s)"
  shows "lists_active (set_slist s w)"
  using assms reInsert_inv set_slist_lists unfolding lists_active_def by metis

lemma adjust_list:
  assumes "bo_adjustTrove E now sender b cd cw n inc up lo maxFee w = Some (Inr w')" and "lists_active w"
  shows "lists_active w'"
proof -
  from assms(1) obtain net newNICR w2 s where f: "list_frame w w2"
    and r: "reInsert (this_bo E) (getNominalICR (tm_of w2)) (slist (others (sysw w2))) b newNICR up lo = Some (Inr s)"
    and m: "bo_moveTokensAndCollfromAdjustment E sender (fst (bo_getCollChange cd cw)) (snd (bo_getCollChange cd cw)) n inc net
           (set_slist s w2) = Inr w'" by (rule adjustTrove_reInsert)
  have "lists_active (set_slist s w2)" using reInsert_lists[OF list_frame_lists[OF f assms(2)] r] .
  moreover have "list_frame (set_slist s w2) w'" using adjust_moves_facts[OF m] bo_frame_list by blast
  ultimately show ?thesis using list_frame_lists by blast
qed

lemma removeStake_list: "removeStake b (tm_of w) = Inr t \<Longrightarrow> list_frame w (set_tm t w)"
  by (auto simp: removeStake_def rbind_Inr_iff list_frame_def upd_trove_def)

lemma close_list:
  assumes "bo_closeTrove E sender b w = Inr w'" and "lists_active w"
  shows "lists_active w'"
proof -
  from assms(1) obtain p w0 w1 t w2 w3 w4 where f: "fetch_price E w = Inr (p, w0)"
    and ap: "tm_applyPendingRewards E (this_bo E) sender w0 = Inr w1"
    and rs: "removeStake sender (tm_of w1) = Inr t" and cl: "closeTrove E sender closedByOwner (set_tm t w1) = Inr w2"
    and r1: "bo_repayUSDD E sender (debt (Troves (tm_of w1) sender) - USDD_GAS_COMPENSATION) w2 = Inr w3"
    and r2: "bo_repayUSDD E (gasPool_address E) USDD_GAS_COMPENSATION w3 = Inr w4"
    and sc: "bo_sendColl E sender (coll (Troves (tm_of w1) sender)) w4 = Inr w'" by (rule closeTrove_split)
  have "applyPendingRewards E sender w0 = Inr w1" using ap by (auto simp: tm_applyPendingRewards_def rbind_Inr_iff)
  then have "list_frame w (set_tm t w1)" using fetch_list[OF f] apply_list removeStake_list[OF rs] list_frame_trans by blast
  from close_leaves_list[OF cl _ list_frame_lists[OF this assms(2)]] have "lists_active w2" by simp
  moreover have "list_frame w2 w'" using repayUSDD_facts[OF r1] repayUSDD_facts[OF r2] sendColl_facts[OF sc]
      bo_frame_list list_frame_trans by blast
  ultimately show ?thesis using list_frame_lists by blast
qed

section \<open>Redemptions\<close>

lemma redeemClose_list: "redeemCloseTrove E b u c w = Inr w' \<Longrightarrow> list_frame w w'"
  by (auto simp: redeemCloseTrove_def cs_receiveColl_def rbind_Inr_iff list_frame_def tm_of_def dest!: ap_sendColl_facts)

lemma redeem_whole_list:
  assumes "redeem_whole_trove E b c w = Inr w'" and "lists_active w"
  shows "lists_active w'"
proof -
  from assms(1) obtain t w1 where rs: "removeStake b (tm_of w) = Inr t" and cl: "closeTrove E b closedByRedemption (set_tm t w) = Inr w1"
    and rc: "redeemCloseTrove E b USDD_GAS_COMPENSATION c w1 = Inr w'" by (auto simp: redeem_whole_trove_def rbind_Inr_iff)
  have "lists_active w1"
    using close_leaves_list[OF cl _ list_frame_lists[OF removeStake_list[OF rs] assms(2)]] by simp
  then show ?thesis using redeemClose_list[OF rc] list_frame_lists by blast
qed

lemma redeem_part_list:
  assumes "redeem_part_of_trove b d' c' s w = Inr w'" and "lists_active (set_slist s w)"
  shows "lists_active w'"
proof -
  from assms(1) obtain k t where t: "updateStakeAndTotalStakes b (upd_trove b (\<lambda>t. t\<lparr>debt := d', coll := c'\<rparr>) (tm_of w)) = Inr (k, t)"
    and w': "w' = set_peers ((others (sysw w))\<lparr>tmanager := t, slist := s\<rparr>) w" by (auto simp: redeem_part_of_trove_def rbind_Inr_iff)
  have "list_frame (set_slist s w) w'"
    using updateStake_facts[OF t] by (auto simp: w' list_frame_def tm_of_def upd_trove_def set_slist_def)
  then show ?thesis using assms(2) list_frame_lists by blast
qed

lemma redeem_trove_list:
  assumes "redeemCollateralFromTrove E b m p up lo h w = Some (Inr (l, c, x, w'))" and "lists_active w"
  shows "lists_active w'"
proof -
  have "w' = w \<or> (\<exists>c'. redeem_whole_trove E b c' w = Inr w') \<or>
      (\<exists>d' c' s. redeem_part_of_trove b d' c' s w = Inr w' \<and>
         reInsert (this_tm E) (getNominalICR (tm_of w)) (slist (others (sysw w))) b h up lo = Some (Inr s))"
    using assms(1) unfolding redeemCollateralFromTrove_def
    by (auto simp: rbind_Inr_iff split: sum.splits prod.splits if_splits)
  then show ?thesis using assms(2) redeem_whole_list redeem_part_list reInsert_lists by blast
qed

lemma redeem_loop_list:
  assumes "redeem_loop E p up lo h b n m r d w = Some (Inr (r', d', w'))" and "lists_active w"
  shows "lists_active w'"
proof (rule redeem_loop_keeps[where I = "\<lambda>b n m r d. lists_active" and Q = "\<lambda>r d. lists_active", OF _ _ assms])
  fix b m w w1 l c x w2
  assume "lists_active w" and "applyPendingRewards E b w = Inr w1"
    and "redeemCollateralFromTrove E b m p up lo h w1 = Some (Inr (l, c, x, w2))"
  then have "lists_active w2" using apply_list list_frame_lists redeem_trove_list by blast
  then show "if x then lists_active w2 else lists_active w2" by simp
qed

lemma redeem_finish_list:
  assumes "redeem_finish E now sender dep maxFee p tot r d w = Inr w'"
  shows "list_frame w w'"
proof -
  from assms obtain x t fee p1 st u a p2 where t: "updateBaseRateFromRedemption now d p tot (tm_of w) = Inr (x, t)"
    and p1: "ap_sendColl (spe E) (this_tm E) (this_stk (stke E)) fee (others (sysw (set_tm t w))) = Inr p1"
    and p2: "ap_sendColl (spe E) (this_tm E) sender (d - fee) (p1\<lparr>usdd := u, apool := a\<rparr>) = Inr p2"
    and w': "w' = set_peers p2 (w\<lparr>staking := st\<rparr>)"
    unfolding redeem_finish_def by (auto simp: u_Inr_iffs elim!: rbindE)
  show ?thesis using updateBaseRate_same[OF t] ap_sendColl_facts[OF p1] ap_sendColl_facts[OF p2]
    by (auto simp: w' list_frame_def tm_of_def tm_same_def)
qed

lemma redeem_list:
  assumes "tm_redeemCollateral E now sender dep n hint up lo h iters maxFee w = Some (Inr w')" and "lists_active w"
  shows "lists_active w'"
proof -
  from assms(1) obtain p tot w0 b r d w1 where ch: "redeem_check E now sender dep n maxFee w = Inr (p, tot, w0)"
    and lp: "redeem_loop E p up lo h b (if iters = 0 then 2 ^ 256 - 1 else iters) n 0 0 w0 = Some (Inr (r, d, w1))"
    and fin: "redeem_finish E now sender dep maxFee p tot r d w1 = Inr w'" by (rule redeem_split)
  have "lists_active w0" using redeem_check_facts[OF ch] fetch_list list_frame_lists assms(2) by blast
  from redeem_loop_list[OF lp this] redeem_finish_list[OF fin] show ?thesis using list_frame_lists by blast
qed

section \<open>Every history\<close>

lemma peers_list: "peers_frame (others (sysw w)) (others s) \<Longrightarrow> list_frame w (w\<lparr>sysw := s\<rparr>)"
  by (simp add: list_frame_def peers_frame_def tm_of_def)

lemma on_pool_list:
  assumes "on_pool f w = Inr w'" and "\<And>s. f (sysw w) = Inr s \<Longrightarrow> peers_frame (others (sysw w)) (others s)"
  shows "list_frame w w'"
  using assms by (auto simp: on_pool_def rbind_Inr_iff intro: peers_list)

lemma on_usdd_list: "on_usdd f w = Inr w' \<Longrightarrow> list_frame w w'"
  by (auto simp: on_usdd_def rbind_Inr_iff list_frame_def set_usdd_def tm_of_def)

lemma on_staking_list: "on_staking f w = Inr w' \<Longrightarrow> list_frame w w'"
  by (auto simp: on_staking_def rbind_Inr_iff list_frame_def tm_of_def)

lemma claim_list: "bo_claimCollateral E sender b w = Inr w' \<Longrightarrow> list_frame w w'"
  by (auto simp: bo_claimCollateral_def cs_claimColl_def rbind_Inr_iff Let_def list_frame_def tm_of_def)

lemma sys_exec_list:
  assumes "sys_exec E now sender c w = Some (Inr w')" and "lists_active w"
  shows "lists_active w'"
proof (cases c)
  case (DepositUSDD a n t)
  with assms(1) have "list_frame w w'" by (intro on_pool_list) (auto dest: provide_frame)
  then show ?thesis using assms(2) list_frame_lists by blast
next
  case (WithdrawUSDD a n)
  with assms(1) have "list_frame w w'" by (intro on_pool_list) (auto dest: withdraw_frame)
  then show ?thesis using assms(2) list_frame_lists by blast
next
  case (GainToTrove up lo)
  with assms(1) obtain gain s where t: "sp_takeCollGain (spe E) now sender (sysw w) = Inr (gain, s)"
    and a: "bo_adjustTrove E now (this_sp (spe E)) sender gain 0 0 False up lo 0 (w\<lparr>sysw := s\<rparr>) = Some (Inr w')"
    by (auto elim: gainToTrove_split)
  show ?thesis by (rule adjust_list[OF a list_frame_lists[OF peers_list[OF takeCollGain_frame[OF t]] assms(2)]])
next
  case (RegisterAsFrontEnd r)
  with assms(1) have "list_frame w w'" by (intro on_pool_list) (auto simp: rbind_Inr_iff)
  then show ?thesis using assms(2) list_frame_lists by blast
qed (use assms in \<open>auto intro: call_list redeem_list open_list adjust_list close_list
       intro: list_frame_lists[OF on_usdd_list] list_frame_lists[OF on_staking_list] list_frame_lists[OF claim_list]\<close>)

lemma deployed_list: "lists_active (sys_deployed E n tokens ci x)"
  by (auto simp: lists_active_def sys_deployed_def list_inv_def initial_list_def active_troves_def tm_of_def
      fresh_trove_manager_def empty_trove_def)

lemma sys_run_list: "lists_active (sys_run E cs (sys_deployed E n tokens ci x))"
  by (rule sys_run_keeps[of E lists_active, OF sys_exec_list deployed_list])

section \<open>Every call returns\<close>

lemma list_then_returns: "r \<noteq> None \<Longrightarrow> bo_list_then r w f \<noteq> None"
  by (auto simp: bo_list_then_def)

lemma lists_insert_returns:
  assumes "lists_active w" and "slist (others (sysw w')) = slist (others (sysw w))"
  shows "insert_trove sender nicr (slist (others (sysw w'))) a N p n \<noteq> None"
  using assms insert_trove_returns unfolding lists_active_def by metis

lemma lists_reInsert_returns: "lists_active w \<Longrightarrow> reInsert sender nicr (slist (others (sysw w))) a N p n \<noteq> None"
  using reInsert_returns unfolding lists_active_def by metis

lemma open_returns:
  assumes "lists_active w"
  shows "bo_openTrove E now sender b maxFee c n up lo w \<noteq> None"
proof (cases "rbind (bo_open_check E now b maxFee c n w) (\<lambda>(net, cdebt, NICR, w1).
    rbind (bo_open_record E b c cdebt w1) (\<lambda>w2. Inr (net, NICR, w2)))")
  case (Inr r)
  then obtain net cdebt NICR w1 w2 where r: "r = (net, NICR, w2)"
    and ch: "bo_open_check E now b maxFee c n w = Inr (net, cdebt, NICR, w1)" and rc: "bo_open_record E b c cdebt w1 = Inr w2"
    by (auto elim!: rbindE)
  from ch have "bo_frame w w1" by (rule bo_open_check_facts)
  then have "lists_active w1" using bo_frame_list list_frame_lists assms by blast
  have "slist (others (sysw w2)) = slist (others (sysw w1))" using open_record_status[OF rc] ..
  from list_then_returns[OF lists_insert_returns[OF \<open>lists_active w1\<close> this]] show ?thesis
    by (simp add: bo_openTrove_def Inr r)
qed (simp add: bo_openTrove_def)

lemma adjust_returns:
  assumes "lists_active w"
  shows "bo_adjustTrove E now sender b cd cw n inc up lo maxFee w \<noteq> None"
proof (cases "rbind (bo_adjust_guards E sender b cd n) (\<lambda>_.
    rbind (bo_adjust_prepare E now b cd cw n inc maxFee w) (\<lambda>(r, p, net, w1).
    rbind (bo_adjust_record E b cd cw n inc r p net w1) (\<lambda>(newNICR, w2). Inr (net, newNICR, w2))))")
  case (Inr q)
  then obtain r p net w1 newNICR w2 where q: "q = (net, newNICR, w2)"
    and a: "bo_adjust_prepare E now b cd cw n inc maxFee w = Inr (r, p, net, w1)"
    and c: "bo_adjust_record E b cd cw n inc r p net w1 = Inr (newNICR, w2)" by (auto elim!: rbindE)
  have "lists_active w2"
    by (rule list_frame_lists[OF list_frame_trans[OF adjust_prepare_list[OF a] adjust_record_list[OF c]] assms])
  with Inr q list_then_returns[OF lists_reInsert_returns] show ?thesis by (simp add: bo_adjustTrove_def)
qed (simp add: bo_adjustTrove_def)

lemma redeem_trove_returns:
  assumes "lists_active w"
  shows "redeemCollateralFromTrove E b m p up lo h w \<noteq> None"
  using lists_reInsert_returns[OF assms]
  by (auto simp: redeemCollateralFromTrove_def split: sum.splits prod.splits if_splits)

text \<open>The search for the first trove of a redemption walks up a finite list.\<close>

lemma first_redeemable_walks:
  assumes "list_inv (slist (others (sysw w))) (as @ bs)"
  shows "first_redeemable price (final as) w \<noteq> None"
  using assms
proof (induction as arbitrary: bs rule: rev_induct)
  case Nil
  then show ?case by (subst first_redeemable.simps) (simp add: final_def)
next
  case (snoc a as)
  have inv: "list_inv (slist (others (sysw w))) (as @ a # bs)" using snoc.prems by simp
  have "first_redeemable price (final as) w \<noteq> None" by (rule snoc.IH[OF inv])
  then show ?case using list_inv_links(2)[OF inv]
    by (subst first_redeemable.simps) (auto simp: getPrev_def split: sum.splits)
qed

lemma redemption_start_returns:
  assumes "lists_active w"
  shows "redemption_start hint price w \<noteq> None"
proof -
  from assms obtain xs where xs: "list_inv (slist (others (sysw w))) xs" by (auto simp: lists_active_def)
  from first_redeemable_walks[of w xs "[]"] list_inv_head_tail[OF xs] xs show ?thesis
    by (auto simp: redemption_start_def split: sum.splits)
qed

lemma redeem_loop_returns: "lists_active w \<Longrightarrow> redeem_loop E p up lo h b n m r d w \<noteq> None"
proof (induction n arbitrary: b m r d w)
  case 0
  then show ?case by (subst redeem_loop.simps) simp
next
  case (Suc n)
  have one: "redeemCollateralFromTrove E b m p up lo h w1 \<noteq> None" and
    "\<And>l c x w2. redeemCollateralFromTrove E b m p up lo h w1 = Some (Inr (l, c, x, w2)) \<Longrightarrow> lists_active w2"
    if "applyPendingRewards E b w = Inr w1" for w1
    using list_frame_lists[OF apply_list[OF that] Suc.prems] redeem_trove_returns redeem_trove_list by blast+
  then show ?case using Suc.IH
    by (subst redeem_loop.simps) (auto simp: Let_def split: sum.splits option.splits)
qed

lemma redeem_returns:
  assumes "lists_active w"
  shows "tm_redeemCollateral E now sender dep n hint up lo h iters maxFee w \<noteq> None"
proof (cases "redeem_check E now sender dep n maxFee w")
  case (Inr r)
  then obtain p tot w0 where ch: "redeem_check E now sender dep n maxFee w = Inr (p, tot, w0)" by (cases r) auto
  then have "lists_active w0" using redeem_check_facts[OF ch] fetch_list list_frame_lists assms by blast
  from redemption_start_returns[OF this, of hint p] redeem_loop_returns[OF this] show ?thesis
    by (auto simp: tm_redeemCollateral_def ch split: sum.splits)
qed (simp add: tm_redeemCollateral_def)

lemma gainToTrove_returns:
  assumes "lists_active w"
  shows "sys_withdrawCollGainToTrove E now sender up lo w \<noteq> None"
proof (cases "sp_takeCollGain (spe E) now sender (sysw w)")
  case (Inr r)
  then obtain gain s where t: "sp_takeCollGain (spe E) now sender (sysw w) = Inr (gain, s)" by (cases r) auto
  from adjust_returns[OF list_frame_lists[OF peers_list[OF takeCollGain_frame[OF t]] assms]] show ?thesis
    by (auto simp: sys_withdrawCollGainToTrove_def bo_moveCollGainToTrove_def t split: sum.splits)
qed (simp add: sys_withdrawCollGainToTrove_def)

lemma sys_exec_returns: "lists_active w \<Longrightarrow> sys_exec E now sender c w \<noteq> None"
  by (cases c) (use redeem_returns open_returns adjust_returns gainToTrove_returns in \<open>simp_all del: not_None_eq\<close>)

end
