(* ===== verification/System_Troves.thy ===== *)
theory System_Troves
  imports System_List
begin

text \<open>
  The table of troves through the histories of the system: the owners array holds exactly the active troves, as the
  sorted list does, and every active trove has at least the minimal debt.
\<close>

section \<open>The table\<close>

definition min_debts :: "trove_manager \<Rightarrow> bool" where
  "min_debts t \<longleftrightarrow> (\<forall>b. status (Troves t b) = active \<longrightarrow> MIN_NET_DEBT + USDD_GAS_COMPENSATION \<le> debt (Troves t b))"

definition table_ok :: "nat \<Rightarrow> 'x lq_world \<Rightarrow> bool" where
  "table_ok n w \<longleftrightarrow> lists_active w \<and> owners_ok n (tm_of w) \<and> min_debts (tm_of w)"

text \<open>No trove is opened and no active trove loses debt.\<close>

definition debts_kept :: "'x lq_world \<Rightarrow> 'x lq_world \<Rightarrow> bool" where
  "debts_kept w w' \<longleftrightarrow> (\<forall>b. status (Troves (tm_of w') b) = active \<longrightarrow>
     status (Troves (tm_of w) b) = active \<and> debt (Troves (tm_of w) b) \<le> debt (Troves (tm_of w') b))"

lemma debts_kept_refl [simp]: "debts_kept w w"
  by (simp add: debts_kept_def)

lemma debts_kept_trans: "debts_kept w w' \<Longrightarrow> debts_kept w' w'' \<Longrightarrow> debts_kept w w''"
  by (meson debts_kept_def le_trans)

lemma debts_kept_min: "debts_kept w w' \<Longrightarrow> min_debts (tm_of w) \<Longrightarrow> min_debts (tm_of w')"
  by (meson debts_kept_def min_debts_def le_trans)

lemma same_debts_kept: "(\<And>x. same_trove (tm_of w) (tm_of w') x) \<Longrightarrow> debts_kept w w'"
  by (simp add: debts_kept_def same_trove_def)

lemma closed_debts_kept:
  assumes "\<And>x. x \<noteq> b \<Longrightarrow> same_trove (tm_of w) (tm_of w') x" and "status (Troves (tm_of w') b) \<noteq> active"
  shows "debts_kept w w'"
  unfolding debts_kept_def
proof (intro allI impI)
  fix x assume a: "status (Troves (tm_of w') x) = active"
  with assms(2) have "x \<noteq> b" by auto
  from assms(1)[OF this] a show "status (Troves (tm_of w) x) = active \<and> debt (Troves (tm_of w) x) \<le> debt (Troves (tm_of w') x)"
    by (simp add: same_trove_def)
qed

lemma bo_frame_debts: "bo_frame w w' \<Longrightarrow> debts_kept w w'"
  by (simp add: bo_frame_def tm_same_def debts_kept_def)

lemma fetch_debts: "fetch_price E w = Inr (p, w0) \<Longrightarrow> debts_kept w w0"
  using fetch_price_facts[of E w p w0] by (simp add: debts_kept_def)

lemma frame_table: "list_frame w w' \<Longrightarrow> debts_kept w w' \<Longrightarrow> table_ok n w \<Longrightarrow> table_ok n w'"
  using list_frame_lists debts_kept_min list_frame_owners unfolding table_ok_def by metis

lemma bo_frame_table: "bo_frame w w' \<Longrightarrow> table_ok n w \<Longrightarrow> table_ok n w'"
  by (rule frame_table[OF bo_frame_list bo_frame_debts])

lemma fetch_table: "fetch_price E w = Inr (p, w0) \<Longrightarrow> table_ok n w \<Longrightarrow> table_ok n w0"
  by (rule frame_table[OF fetch_list fetch_debts])

section \<open>Closing\<close>

lemma removed_active:
  assumes "lists_active w" and "remove_inner (slist (others (sysw w))) b = Inr s"
  shows "status (Troves (tm_of w) b) = active"
proof -
  from assms(1) obtain xs where xs: "list_inv (slist (others (sysw w))) xs" "set xs = active_troves (tm_of w)"
    by (auto simp: lists_active_def)
  from remove_inner_inv(1)[OF xs(1) assms(2)] xs(2) show ?thesis by (simp add: active_troves_def)
qed

lemma close_table:
  assumes "closeTrove E b st w = Inr w'" and "st \<noteq> active" and "table_ok n w"
  shows "table_ok n w'"
proof -
  from assms(3) have l: "lists_active w" by (simp add: table_ok_def)
  note f = closeTrove_facts[OF assms(1)]
  have "debts_kept w w'" using closed_debts_kept[OF f(6)] f(9) assms(2) by blast
  then show ?thesis
    using close_leaves_list[OF assms(1,2) l] f(12)[OF _ removed_active[OF l f(11)], of n] debts_kept_min[of w w'] assms(3)
    by (simp add: table_ok_def)
qed

lemma closes_trove_table:
  assumes "closes_trove b v w w'" and "table_ok n w"
  shows "table_ok n w'"
proof -
  from assms(2) have l: "lists_active w" by (simp add: table_ok_def)
  have "debts_kept w w'" by (rule closed_debts_kept[of b]) (use assms(1) in \<open>simp_all add: closes_trove_def\<close>)
  moreover have "remove_inner (slist (others (sysw w))) b = Inr (slist (others (sysw w')))"
    using assms(1) by (simp add: closes_trove_def)
  ultimately show ?thesis
    using closes_trove_list[OF assms(1) l] removed_active[OF l] debts_kept_min[of w w'] assms
    by (simp add: table_ok_def closes_trove_def)
qed

lemma closes_many_table: "closes_many p B D C w w' \<Longrightarrow> table_ok n w \<Longrightarrow> table_ok n w'"
  by (induction rule: closes_many.induct) (auto intro: closes_trove_table)

lemma call_table:
  assumes "liq_exec E now sender call w = Inr w'" and "table_ok n w"
  shows "table_ok n w'"
proof -
  obtain p r t w0 w1 w2 w3 where "call_result E w w' p r t w0 w1 w2 w3" by (rule call_facts[OF assms(1)])
  then have f: "fetch_price E w = Inr (p, w0)"
    and c: "closes_many p (liq_bound r) (totalDebtInSequence t) (totalCollInSequence t) w0 w1" and s: "settled t w1 w'"
    by (simp_all add: call_result_def)
  have "table_ok n w1" by (rule closes_many_table[OF c fetch_table[OF f assms(2)]])
  then show ?thesis by (rule frame_table[rotated 2]) (use s in \<open>simp_all add: settled_def list_frame_def debts_kept_def\<close>)
qed

section \<open>The operations of borrowers\<close>

lemma apply_debts:
  assumes "applyPendingRewards E b w = Inr w'"
  shows "debts_kept w w'"
proof (cases "hasPendingRewards (tm_of w) b")
  case True
  with assms obtain pd pc c d where d: "u_add (debt (Troves (tm_of w) b)) pd = Inr d" and
    m: "movePendingTroveRewardsToActivePool E pd pc
          (set_tm (updateTroveRewardSnapshots b (upd_trove b (\<lambda>t. t\<lparr>coll := c, debt := d\<rparr>) (tm_of w))) w) = Inr w'"
    unfolding applyPendingRewards_def by (auto elim!: rbindE)
  then show ?thesis using movePending_facts(1)[OF m]
    by (auto simp: debts_kept_def updateTroveRewardSnapshots_def upd_trove_def u_add_Inr_iff)
qed (use assms in \<open>simp add: applyPendingRewards_def\<close>)

lemma apply_table: "applyPendingRewards E b w = Inr w' \<Longrightarrow> table_ok n w \<Longrightarrow> table_ok n w'"
  by (rule frame_table[OF apply_list apply_debts])

lemma open_owners:
  assumes "addTroveOwnerToArray b t = Inr (i, t')" and "owners_ok n t0" and "Suc n < 2 ^ 128"
    and "TroveOwners t = TroveOwners t0" and "\<And>x. arrayIndex (Troves t x) = arrayIndex (Troves t0 x)"
    and "active_troves t = insert b (active_troves t0)" and "b \<notin> active_troves t0"
  shows "owners_ok (Suc n) t'"
proof -
  have "owners_inv t" "b \<notin> set (TroveOwners t)" "Suc (length (TroveOwners t)) < 2 ^ 128"
    using assms(2-7) by (auto simp: owners_ok_def owners_inv_def active_troves_def)
  from addTroveOwnerToArray_inv[OF this] assms(1) have "owners_inv t'" "TroveOwners t' = TroveOwners t @ [b]" by auto
  moreover have "status (Troves t' x) = status (Troves t x)" for x
    using addOwner_facts[OF assms(1)] by (simp add: same_trove_def)
  ultimately show ?thesis using assms(2,4,6) by (auto simp: owners_ok_def active_troves_def)
qed

lemma open_record_owners:
  assumes "bo_open_record E b c d w = Inr w'"
  shows "TroveOwners (tm_of w') = TroveOwners (tm_of w) \<and> (\<forall>x. arrayIndex (Troves (tm_of w') x) = arrayIndex (Troves (tm_of w) x))"
proof -
  let ?b = "\<lambda>d' c'. upd_trove b (\<lambda>tr. tr\<lparr>debt := d'\<rparr>) (upd_trove b (\<lambda>tr. tr\<lparr>coll := c'\<rparr>) (upd_trove b (\<lambda>tr. tr\<lparr>status := active\<rparr>) (tm_of w)))"
  from assms obtain k t5 c' d' where st: "updateStakeAndTotalStakes b (updateTroveRewardSnapshots b (?b d' c')) = Inr (k, t5)"
    and w': "w' = set_tm t5 w"
    by (auto simp: bo_open_record_def tm_setTroveStatus_def tm_increaseTroveColl_def tm_increaseTroveDebt_def upd_trove_def
        tm_updateTroveRewardSnapshots_def tm_updateStakeAndTotalStakes_def rbind_Inr_iff)
  from updateStake_facts[OF st] show ?thesis by (simp add: w' upd_trove_def updateTroveRewardSnapshots_def)
qed

lemma open_table:
  assumes "bo_openTrove E now sender b maxFee c n up lo w = Some (Inr w')" and "table_ok k w" and "Suc k < 2 ^ 128"
  shows "table_ok (Suc k) w'"
proof -
  from assms(2) have ok: "lists_active w" "owners_ok k (tm_of w)" "min_debts (tm_of w)" by (simp_all add: table_ok_def)
  from assms(1) obtain net cdebt NICR w1 w2 s i t where ch: "bo_open_check E now b maxFee c n w = Inr (net, cdebt, NICR, w1)"
    and f: "list_frame w w1" and rc: "bo_open_record E b c cdebt w1 = Inr w2" and t: "addTroveOwnerToArray b (tm_of w2) = Inr (i, t)"
    and f': "list_frame (set_tm t (set_slist s w2)) w'" and tr: "Troves (tm_of w') = Troves t" by (rule open_steps)
  from ch obtain fee where cd: "cdebt = net + USDD_GAS_COMPENSATION" and fr: "bo_frame w w1"
    and na: "status (Troves (tm_of w) b) \<noteq> active" by (rule bo_open_check_facts)
  from ch have net: "MIN_NET_DEBT \<le> net" by (rule open_check_ratios)
  note os = open_record_status[OF rc] and oo = open_record_owners[OF rc]
  have b1: "b \<notin> active_troves (tm_of w1)" using f na by (simp add: list_frame_def active_troves_def)
  have o1: "owners_ok k (tm_of w1)" using ok(2) list_frame_owners[OF f] by simp
  have "owners_ok (Suc k) t" by (rule open_owners[OF t o1 assms(3)]) (use os oo b1 in simp_all)
  then have "owners_ok (Suc k) (tm_of w')" using list_frame_owners[OF f'] by simp
  moreover have "min_debts (tm_of w')" unfolding min_debts_def
  proof (intro allI impI)
    fix x assume a: "status (Troves (tm_of w') x) = active"
    from rc obtain st where wr: "trove_write b (debt (Troves (tm_of w1) b) + cdebt) (coll (Troves (tm_of w1) b) + c) st (tm_of w1) (tm_of w2)"
      by (rule open_record_facts)
    have same: "same_trove (tm_of w2) t x" using addOwner_facts[OF t] by blast
    have m1: "min_debts (tm_of w1)" using debts_kept_min[OF bo_frame_debts[OF fr] ok(3)] .
    show "MIN_NET_DEBT + USDD_GAS_COMPENSATION \<le> debt (Troves (tm_of w') x)"
    proof (cases "x = b")
      case True
      with wr same cd net show ?thesis by (simp add: tr trove_write_def same_trove_def)
    next
      case False
      with wr have "same_trove (tm_of w1) (tm_of w2) x" by (simp add: trove_write_def)
      with m1 same a show ?thesis by (simp add: tr min_debts_def same_trove_def)
    qed
  qed
  ultimately show ?thesis using open_list[OF assms(1) ok(1)] by (simp add: table_ok_def)
qed

lemma adjust_record_debts:
  assumes "bo_adjust_record E b cd cw n inc r p net w = Inr (newNICR, w')" and "\<not> inc \<longrightarrow> net = n" and "min_debts (tm_of w)"
  shows "min_debts (tm_of w')"
proof -
  obtain cc up' where cc: "bo_getCollChange cd cw = (cc, up')" by force
  from assms(1) obtain t1 k t2 where 1: "bo_updateTroveFromAdjustment E b cc up' net inc (tm_of w) = Inr t1"
    and 2: "updateStakeAndTotalStakes b t1 = Inr (k, t2)" and w': "w' = set_tm t2 w"
    unfolding bo_adjust_record_def tm_updateStakeAndTotalStakes_def Let_def cc by (auto elim!: rbindE)
  from assms(1) have m: "\<not> inc \<and> n > 0 \<longrightarrow> MIN_NET_DEBT + USDD_GAS_COMPENSATION + net \<le> debt (Troves (tm_of w) b)"
    by (rule adjust_record_ratios)
  have "status (Troves t1 x) = status (Troves (tm_of w) x) \<and> debt (Troves t1 x) =
      (if x = b then if inc then debt (Troves (tm_of w) b) + net else debt (Troves (tm_of w) b) - net else debt (Troves (tm_of w) x))" for x
    using 1 by (auto simp: bo_updateTroveFromAdjustment_def tm_increaseTroveColl_def tm_decreaseTroveColl_def
        tm_increaseTroveDebt_def tm_decreaseTroveDebt_def upd_trove_def rbind_Inr_iff u_Inr_iffs split: if_splits)
  moreover have "debt (Troves t2 x) = debt (Troves t1 x) \<and> status (Troves t2 x) = status (Troves t1 x)" for x
    using updateStake_facts[OF 2] by (simp add: upd_trove_def)
  ultimately show ?thesis using assms(2,3) m by (cases "n = 0") (auto simp: w' min_debts_def)
qed

lemma adjust_table:
  assumes "bo_adjustTrove E now sender b cd cw n inc up lo maxFee w = Some (Inr w')" and "table_ok k w"
  shows "table_ok k w'"
proof -
  from assms(1) obtain r p net w1 newNICR w2 s where pr: "bo_adjust_prepare E now b cd cw n inc maxFee w = Inr (r, p, net, w1)"
    and rc: "bo_adjust_record E b cd cw n inc r p net w1 = Inr (newNICR, w2)"
    and mv: "bo_moveTokensAndCollfromAdjustment E sender (fst (bo_getCollChange cd cw)) (snd (bo_getCollChange cd cw)) n inc net
           (set_slist s w2) = Inr w'" by (rule adjustTrove_split)
  from pr obtain v0 v1 where f: "fetch_price E w = Inr (p, v0)" and ap: "applyPendingRewards E b v0 = Inr v1"
    and fr: "bo_frame v1 w1" and net: "\<not> inc \<longrightarrow> net = n" by (rule adjust_prepare_mode)
  have 1: "table_ok k w1" by (rule bo_frame_table[OF fr apply_table[OF ap fetch_table[OF f assms(2)]]])
  have fr': "bo_frame (set_slist s w2) w'" using adjust_moves_facts[OF mv] by blast
  have "owners_ok k (tm_of w')" using 1 list_frame_owners[OF adjust_record_list[OF rc], of k]
      list_frame_owners[OF bo_frame_list[OF fr'], of k] by (simp add: table_ok_def)
  moreover have "min_debts (tm_of w')"
    using adjust_record_debts[OF rc net] 1 debts_kept_min[OF bo_frame_debts[OF fr']] by (simp add: table_ok_def)
  moreover have "lists_active w'" using adjust_list[OF assms(1)] assms(2) by (simp add: table_ok_def)
  ultimately show ?thesis by (simp add: table_ok_def)
qed

lemma removeStake_table: "removeStake b (tm_of w) = Inr t \<Longrightarrow> table_ok k w \<Longrightarrow> table_ok k (set_tm t w)"
  by (rule frame_table[OF removeStake_list]) (auto simp: removeStake_def rbind_Inr_iff debts_kept_def upd_trove_def split: if_splits)

lemma closing_table:
  assumes "bo_closeTrove E sender b w = Inr w'" and "table_ok k w"
  shows "table_ok k w'"
proof -
  from assms(1) obtain p w0 w1 t w2 w3 w4 where f: "fetch_price E w = Inr (p, w0)"
    and ap: "tm_applyPendingRewards E (this_bo E) sender w0 = Inr w1"
    and rs: "removeStake sender (tm_of w1) = Inr t" and cl: "closeTrove E sender closedByOwner (set_tm t w1) = Inr w2"
    and r1: "bo_repayUSDD E sender (debt (Troves (tm_of w1) sender) - USDD_GAS_COMPENSATION) w2 = Inr w3"
    and r2: "bo_repayUSDD E (gasPool_address E) USDD_GAS_COMPENSATION w3 = Inr w4"
    and sc: "bo_sendColl E sender (coll (Troves (tm_of w1) sender)) w4 = Inr w'" by (rule closeTrove_split)
  have "applyPendingRewards E sender w0 = Inr w1" using ap by (auto simp: tm_applyPendingRewards_def rbind_Inr_iff)
  from close_table[OF cl _ removeStake_table[OF rs apply_table[OF this fetch_table[OF f assms(2)]]]] have "table_ok k w2" by simp
  then show ?thesis using repayUSDD_facts[OF r1] repayUSDD_facts[OF r2] sendColl_facts[OF sc] bo_frame_table by blast
qed

section \<open>Redemptions\<close>

lemma redeemClose_table: "redeemCloseTrove E b u c w = Inr w' \<Longrightarrow> table_ok k w \<Longrightarrow> table_ok k w'"
  by (rule frame_table[OF redeemClose_list])
    (auto simp: redeemCloseTrove_def cs_receiveColl_def rbind_Inr_iff debts_kept_def tm_of_def dest!: ap_sendColl_facts)

lemma redeem_whole_table:
  assumes "redeem_whole_trove E b c w = Inr w'" and "table_ok k w"
  shows "table_ok k w'"
proof -
  from assms(1) obtain t w1 where rs: "removeStake b (tm_of w) = Inr t" and cl: "closeTrove E b closedByRedemption (set_tm t w) = Inr w1"
    and rc: "redeemCloseTrove E b USDD_GAS_COMPENSATION c w1 = Inr w'" by (auto simp: redeem_whole_trove_def rbind_Inr_iff)
  show ?thesis by (rule redeemClose_table[OF rc close_table[OF cl _ removeStake_table[OF rs assms(2)]]]) simp
qed

lemma redeem_part_table:
  assumes "redeem_part_of_trove b d' c' s w = Inr w'" and "lists_active (set_slist s w)" and "table_ok k w"
    and "MIN_NET_DEBT + USDD_GAS_COMPENSATION \<le> d'"
  shows "table_ok k w'"
proof -
  from assms(1) obtain j t where t: "updateStakeAndTotalStakes b (upd_trove b (\<lambda>t. t\<lparr>debt := d', coll := c'\<rparr>) (tm_of w)) = Inr (j, t)"
    and w': "w' = set_peers ((others (sysw w))\<lparr>tmanager := t, slist := s\<rparr>) w" by (auto simp: redeem_part_of_trove_def rbind_Inr_iff)
  note u = updateStake_facts[OF t]
  have "list_frame (set_slist s w) w'" using u by (auto simp: w' list_frame_def tm_of_def upd_trove_def set_slist_def)
  then have "owners_ok k (tm_of w')" using list_frame_owners assms(3) by (fastforce simp: table_ok_def)
  moreover have "min_debts (tm_of w')"
    using u assms(3,4) by (auto simp: w' table_ok_def min_debts_def tm_of_def upd_trove_def)
  ultimately show ?thesis using redeem_part_list[OF assms(1,2)] by (simp add: table_ok_def)
qed

text \<open>A partial redemption that is not cancelled leaves the trove at least the minimal debt.\<close>

lemma redeem_trove_table:
  assumes "redeemCollateralFromTrove E b m p up lo h w = Some (Inr (l, c, x, w'))" and "table_ok k w"
  shows "table_ok k w'"
proof -
  have "w' = w \<or> (\<exists>c'. redeem_whole_trove E b c' w = Inr w') \<or>
      (\<exists>d' c' s. redeem_part_of_trove b d' c' s w = Inr w' \<and> USDD_GAS_COMPENSATION \<le> d' \<and>
         \<not> d' - USDD_GAS_COMPENSATION < MIN_NET_DEBT \<and>
         reInsert (this_tm E) (getNominalICR (tm_of w)) (slist (others (sysw w))) b h up lo = Some (Inr s))"
    using assms(1) unfolding redeemCollateralFromTrove_def
    by (auto simp: rbind_Inr_iff getNetDebt_sol_def u_Inr_iffs split: sum.splits prod.splits if_splits)
  then show ?thesis
  proof (elim disjE exE conjE)
    fix d' c' s assume part: "redeem_part_of_trove b d' c' s w = Inr w'" and "USDD_GAS_COMPENSATION \<le> d'"
      and "\<not> d' - USDD_GAS_COMPENSATION < MIN_NET_DEBT"
      and r: "reInsert (this_tm E) (getNominalICR (tm_of w)) (slist (others (sysw w))) b h up lo = Some (Inr s)"
    then have "MIN_NET_DEBT + USDD_GAS_COMPENSATION \<le> d'" by simp
    from redeem_part_table[OF part reInsert_lists[OF _ r] assms(2) this] assms(2) show ?thesis by (simp add: table_ok_def)
  qed (use assms(2) redeem_whole_table in auto)
qed

lemma redeem_loop_table:
  assumes "redeem_loop E p up lo h b n m r d w = Some (Inr (r', d', w'))" and "table_ok k w"
  shows "table_ok k w'"
proof (rule redeem_loop_keeps[where I = "\<lambda>b n m r d. table_ok k" and Q = "\<lambda>r d. table_ok k", OF _ _ assms])
  fix b m w w1 l c x w2
  assume "table_ok k w" and "applyPendingRewards E b w = Inr w1"
    and "redeemCollateralFromTrove E b m p up lo h w1 = Some (Inr (l, c, x, w2))"
  then have "table_ok k w2" using apply_table redeem_trove_table by blast
  then show "if x then table_ok k w2 else table_ok k w2" by simp
qed

lemma redeem_finish_table:
  assumes "redeem_finish E now sender dep maxFee p tot r d w = Inr w'" and "table_ok k w"
  shows "table_ok k w'"
proof -
  have "tm_same (tm_of w) (tm_of w')" using redeem_finish_facts[OF assms(1)] by blast
  then have "debts_kept w w'" by (simp add: debts_kept_def tm_same_def)
  from frame_table[OF redeem_finish_list[OF assms(1)] this assms(2)] show ?thesis .
qed

lemma redeem_table:
  assumes "tm_redeemCollateral E now sender dep n hint up lo h iters maxFee w = Some (Inr w')" and "table_ok k w"
  shows "table_ok k w'"
proof -
  from assms(1) obtain p tot w0 b r d w1 where ch: "redeem_check E now sender dep n maxFee w = Inr (p, tot, w0)"
    and lp: "redeem_loop E p up lo h b (if iters = 0 then 2 ^ 256 - 1 else iters) n 0 0 w0 = Some (Inr (r, d, w1))"
    and fin: "redeem_finish E now sender dep maxFee p tot r d w1 = Inr w'" by (rule redeem_split)
  have "table_ok k w0" using redeem_check_facts[OF ch] fetch_table assms(2) by blast
  from redeem_finish_table[OF fin redeem_loop_table[OF lp this]] show ?thesis .
qed

section \<open>Every history\<close>

lemma peers_table: "peers_frame (others (sysw w)) (others s) \<Longrightarrow> table_ok k w \<Longrightarrow> table_ok k (w\<lparr>sysw := s\<rparr>)"
  by (rule frame_table[OF peers_list]) (simp_all add: debts_kept_def peers_frame_def tm_of_def)

lemma on_pool_table:
  assumes "on_pool f w = Inr w'" and "\<And>s. f (sysw w) = Inr s \<Longrightarrow> peers_frame (others (sysw w)) (others s)" and "table_ok k w"
  shows "table_ok k w'"
  using assms by (auto simp: on_pool_def rbind_Inr_iff intro: peers_table)

lemma same_tm_table: "list_frame w w' \<Longrightarrow> tm_of w' = tm_of w \<Longrightarrow> table_ok k w \<Longrightarrow> table_ok k w'"
  by (erule frame_table) (simp_all add: debts_kept_def)

lemma on_usdd_table: "on_usdd f w = Inr w' \<Longrightarrow> table_ok k w \<Longrightarrow> table_ok k w'"
  by (rule same_tm_table[OF on_usdd_list]) (auto simp: on_usdd_def rbind_Inr_iff set_usdd_def tm_of_def)

lemma on_staking_table: "on_staking f w = Inr w' \<Longrightarrow> table_ok k w \<Longrightarrow> table_ok k w'"
  by (rule same_tm_table[OF on_staking_list]) (auto simp: on_staking_def rbind_Inr_iff tm_of_def)

lemma claim_table: "bo_claimCollateral E sender b w = Inr w' \<Longrightarrow> table_ok k w \<Longrightarrow> table_ok k w'"
  by (rule same_tm_table[OF claim_list]) (auto simp: bo_claimCollateral_def cs_claimColl_def rbind_Inr_iff Let_def tm_of_def)

lemma gainToTrove_table:
  assumes "sys_withdrawCollGainToTrove E now sender up lo w = Some (Inr w')" and "table_ok k w"
  shows "table_ok k w'"
proof -
  from assms(1) obtain gain s where t: "sp_takeCollGain (spe E) now sender (sysw w) = Inr (gain, s)"
    and a: "bo_adjustTrove E now (this_sp (spe E)) sender gain 0 0 False up lo 0 (w\<lparr>sysw := s\<rparr>) = Some (Inr w')"
    by (rule gainToTrove_split)
  show ?thesis by (rule adjust_table[OF a peers_table[OF takeCollGain_frame[OF t] assms(2)]])
qed

lemma table_ok_Suc: "table_ok k w \<Longrightarrow> table_ok (Suc k) w"
  by (simp add: table_ok_def owners_ok_def)

lemma sys_exec_table:
  assumes "sys_exec E now sender c w = Some (Inr w')" and "table_ok k w" and "Suc k < 2 ^ 128"
  shows "table_ok (Suc k) w'"
proof (cases c)
  case (OpenTrove b maxFee ca n up lo)
  with assms(1) have "bo_openTrove E now sender b maxFee ca n up lo w = Some (Inr w')" by simp
  from open_table[OF this assms(2,3)] show ?thesis .
next
  case (Liquidation x)
  with assms(1) show ?thesis by (auto intro!: table_ok_Suc[OF call_table[OF _ assms(2)]])
next
  case (RedeemCollateral dep n hint up lo h iters maxFee)
  with assms(1) show ?thesis by (auto intro!: table_ok_Suc[OF redeem_table[OF _ assms(2)]])
next
  case (AdjustTrove b cd cw n inc up lo maxFee)
  with assms(1) show ?thesis by (auto intro!: table_ok_Suc[OF adjust_table[OF _ assms(2)]])
next
  case (CloseTrove b)
  with assms(1) show ?thesis by (auto intro!: table_ok_Suc[OF closing_table[OF _ assms(2)]])
next
  case (ClaimCollateral b)
  with assms(1) show ?thesis by (auto intro!: table_ok_Suc[OF claim_table[OF _ assms(2)]])
next
  case (GainToTrove up lo)
  with assms(1) show ?thesis by (auto intro!: table_ok_Suc[OF gainToTrove_table[OF _ assms(2)]])
next
  case (TransferUSDD a n)
  with assms(1) show ?thesis by (auto intro!: table_ok_Suc[OF on_usdd_table[OF _ assms(2)]])
next
  case (TransferUSDDFrom a b n)
  with assms(1) show ?thesis by (auto intro!: table_ok_Suc[OF on_usdd_table[OF _ assms(2)]])
next
  case (ApproveUSDD a n)
  with assms(1) show ?thesis by (auto intro!: table_ok_Suc[OF on_usdd_table[OF _ assms(2)]])
next
  case (StakeDEFT a n)
  with assms(1) show ?thesis by (auto intro!: table_ok_Suc[OF on_staking_table[OF _ assms(2)]])
next
  case (UnstakeDEFT a n)
  with assms(1) show ?thesis by (auto intro!: table_ok_Suc[OF on_staking_table[OF _ assms(2)]])
next
  case (DepositUSDD a n t)
  with assms(1) show ?thesis by (intro table_ok_Suc[OF on_pool_table[OF _ _ assms(2)]]) (auto dest: provide_frame)
next
  case (WithdrawUSDD a n)
  with assms(1) show ?thesis by (intro table_ok_Suc[OF on_pool_table[OF _ _ assms(2)]]) (auto dest: withdraw_frame)
next
  case (RegisterAsFrontEnd r)
  with assms(1) show ?thesis by (intro table_ok_Suc[OF on_pool_table[OF _ _ assms(2)]]) (auto simp: rbind_Inr_iff)
qed

lemma deployed_table: "table_ok 0 (sys_deployed E n tokens ci x)"
  using deployed_list[of E n tokens ci x]
  by (simp add: table_ok_def owners_ok_def owners_inv_def min_debts_def sys_deployed_def tm_of_def fresh_trove_manager_def
      empty_trove_def)

lemma sys_run_table_from: "table_ok k w \<Longrightarrow> k + length cs < 2 ^ 128 \<Longrightarrow> table_ok (k + length cs) (sys_run E cs w)"
proof (induction cs arbitrary: k w)
  case (Cons x cs)
  obtain now sender c where x: "x = (now, sender, c)" by (cases x)
  have ih: "table_ok (Suc k) w' \<Longrightarrow> table_ok (k + length (x # cs)) (sys_run E cs w')" for w'
    using Cons.IH[of "Suc k" w'] Cons.prems(2) by simp
  have "table_ok (Suc k) w'" if "sys_exec E now sender c w = Some (Inr w')" for w'
    by (rule sys_exec_table[OF that Cons.prems(1)]) (use Cons.prems(2) in simp)
  then show ?case using ih table_ok_Suc[OF Cons.prems(1)] by (auto simp: x split: option.splits sum.splits)
qed simp

lemma sys_run_table: "length cs < 2 ^ 128 \<Longrightarrow> table_ok (length cs) (sys_run E cs (sys_deployed E n tokens ci x))"
  using sys_run_table_from[OF deployed_table, of cs] by simp

end
