(* ===== verification/System_Properties.thy ===== *)
theory System_Properties
  imports System_Safety System_Demo System_Troves
begin

text \<open>
  The properties of the whole system of one collateral token: its books and reserves after any history of calls,
  what a liquidation, an opening, an adjustment, a closing and a redemption guarantee, and a case where the two ways
  of liquidating in recovery mode differ.
\<close>

section \<open>Every history\<close>

text \<open>
  C1. The books balance after every history of calls, reverted ones included: the active pool records exactly the debt and the
  collateral of all troves, and the USDD in circulation are exactly the debt recorded by the active and the default pool.
\<close>

theorem system_books_balance:
  "(let w = sys_run E calls (sys_deployed E maxTroves tokens ci x); a = apool (others (sysw w)) in
    ap_USDDDebt a = held (\<lambda>b. debt (Troves (tm_of w) b)) \<and> ap_balance a = held (\<lambda>b. coll (Troves (tm_of w) b)) \<and>
    usdd_totalSupply (usdd (others (sysw w))) = ap_USDDDebt a + dp_USDDDebt (dpool w))"
  using sys_run_inv[of E calls maxTroves tokens ci x]
  by (simp add: Let_def sys_inv_def active_debt_def active_coll_def usdd_supply_def sys_debt_def debts_of_def[abs_def] colls_of_def[abs_def])

text \<open>
  C2. After every history of calls the default pool can pay the redistributed collateral: the pending collateral rewards of any set of
  troves add up to at most what the default pool holds.
\<close>

theorem default_pool_pays_all_rewards:
  assumes "finite B" and "\<And>b. b \<in> B \<Longrightarrow>
      getPendingCollReward (tm_of (sys_run E calls (sys_deployed E maxTroves tokens ci x))) b = Inr (reward b)"
  shows "sum reward B \<le> dp_balance (dpool (sys_run E calls (sys_deployed E maxTroves tokens ci x)))"
  using sys_run_inv[of E calls maxTroves tokens ci x]
  by (auto simp: sys_inv_def reserve_ok_def reserve_of_def intro!: pot_ok_pays[OF _ assms(1)] coll_reward_le assms(2))

text \<open>After a redistribution both remaining troves wait for rewards.\<close>

theorem default_pool_pays_all_rewards_witness:
  "(\<Sum>b\<in>{12, 13}. if b = (12::nat) then 15985271999999999998 else 17317377999999999998) \<le>
     dp_balance (dpool (sys_run demo_lq (demo_calls @ [(1, 9, Liquidation (Liquidate 9 11))]) (sys_deployed demo_lq 10 [70] demo_start
       [2000000000000000000000, 2000000000000000000000, 2000000000000000000000, 500000000000000000000])))"
  by (rule default_pool_pays_all_rewards) (use demo_redistribution in \<open>auto simp: Let_def demo_run_def\<close>)

text \<open>
  C3. After every history of calls the sorted list is well linked and holds exactly the active troves, each once.
\<close>

theorem list_holds_active_troves:
  "(let w = sys_run E calls (sys_deployed E maxTroves tokens ci x) in
    \<exists>troves. list_inv (slist (others (sysw w))) troves \<and> distinct troves \<and>
      set troves = {b. status (Troves (tm_of w) b) = active})"
  using sys_run_list[of E calls maxTroves tokens ci x] list_inv_distinct
  by (auto simp: Let_def lists_active_def active_troves_def)

text \<open>
  C4. Every call returns in every state that the system reaches, with a new state or an error: no insertion into the
  sorted list and no redemption walks along it forever, whatever hints, amounts and prices it gets.
\<close>

theorem every_call_returns:
  "sys_exec E now sender call (sys_run E calls (sys_deployed E maxTroves tokens ci x)) \<noteq> None"
  by (rule sys_exec_returns[OF sys_run_list])

text \<open>
  C5. After every history of calls, of any length that a chain can have, the owners array lists exactly the active troves,
  each once and at the index stored in the trove, and is as long as the sorted list.
\<close>

theorem owners_array_lists_active_troves:
  assumes "length calls < 2 ^ 128"
  shows "(let w = sys_run E calls (sys_deployed E maxTroves tokens ci x); t = tm_of w; owners = TroveOwners t in
    set owners = {b. status (Troves t b) = active} \<and> distinct owners \<and>
    (\<forall>i < length owners. arrayIndex (Troves t (owners ! i)) = i) \<and> length owners = st_size (slist (others (sysw w))))"
proof -
  let ?w = "sys_run E calls (sys_deployed E maxTroves tokens ci x)"
  from sys_run_table[OF assms, of E maxTroves tokens ci x] have ow: "owners_ok (length calls) (tm_of ?w)" and "lists_active ?w"
    by (simp_all add: table_ok_def)
  then obtain xs where xs: "list_inv (slist (others (sysw ?w))) xs" "set xs = active_troves (tm_of ?w)"
    by (auto simp: lists_active_def)
  have "length (TroveOwners (tm_of ?w)) = length xs"
    using ow xs list_inv_distinct[OF xs(1)] distinct_card[of xs] distinct_card[of "TroveOwners (tm_of ?w)"]
    by (simp add: owners_ok_def owners_inv_def active_troves_def)
  then show ?thesis using ow list_inv_head_tail[OF xs(1)] by (simp add: Let_def owners_ok_def owners_inv_def)
qed

theorem owners_array_lists_active_troves_witness:
  "set (TroveOwners (tm_of (demo_system []))) = {b. status (Troves (tm_of (demo_system [])) b) = active}"
  using owners_array_lists_active_troves[of demo_calls demo_lq 10 "[70]" demo_start]
  by (simp add: demo_system_reached Let_def demo_calls_def)

text \<open>
  C6. In every state that the system reaches, an active trove has at least the minimal debt of 1800 USDD and the reserve of 200:
  no repayment and no redemption leaves less.
\<close>

theorem active_troves_keep_minimal_debt:
  assumes "length calls < 2 ^ 128"
    and "status (Troves (tm_of (sys_run E calls (sys_deployed E maxTroves tokens ci x))) b) = active"
  shows "MIN_NET_DEBT + USDD_GAS_COMPENSATION \<le> debt (Troves (tm_of (sys_run E calls (sys_deployed E maxTroves tokens ci x))) b)"
  using sys_run_table[OF assms(1), of E maxTroves tokens ci x] assms(2) by (simp add: table_ok_def min_debts_def)

theorem active_troves_keep_minimal_debt_witness:
  "MIN_NET_DEBT + USDD_GAS_COMPENSATION \<le> debt (Troves (tm_of (demo_system [])) 11)"
proof -
  have "status (Troves (tm_of (demo_system [])) 11) = active" by (simp add: demo_system_def sys_eval)
  moreover have "length demo_calls < 2 ^ 128" by (simp add: demo_calls_def)
  ultimately show ?thesis unfolding demo_system_reached by (intro active_troves_keep_minimal_debt)
qed

section \<open>Liquidations\<close>

text \<open>
  C7. A successful liquidation conserves: the debt that leaves the system is exactly the USDD burned from the Stability Pool, and of the
  collateral only the compensation, at most a 200th of the system's, leaves the active, default, stability and surplus pools.
\<close>

theorem liquidation_accounts:
  assumes "liq_exec E now sender call w = Inr w'"
  shows "\<exists>cancelled compensation. sys_debt w' + cancelled = sys_debt w \<and> usdd_supply w' + cancelled = usdd_supply w \<and>
    sp_deposits w' + cancelled = sp_deposits w \<and> all_coll w' + compensation = all_coll w \<and>
    PERCENT_DIVISOR * compensation \<le> sys_coll w"
  by (rule call_accounts[OF assms])

lemma demo_liquidation: "\<exists>w'. liq_exec demo_lq 1 9 (BatchLiquidate 9 [12, 13]) (demo_system [1000000000000000000000]) = Inr w'"
  using demo_batch by (auto split: sum.splits)

theorem liquidation_accounts_witness:
  "\<exists>w' cancelled compensation. liq_exec demo_lq 1 9 (BatchLiquidate 9 [12, 13]) (demo_system [1000000000000000000000]) = Inr w' \<and>
    sys_debt w' + cancelled = sys_debt (demo_system [1000000000000000000000]) \<and>
    all_coll w' + compensation = all_coll (demo_system [1000000000000000000000])"
  using demo_liquidation by (metis liquidation_accounts)

text \<open>
  C8. A liquidation, of one trove, of a list or along the sorted list, leaves every healthy trove as it was: in normal mode those
  with a ratio of at least 110%, in recovery mode those with at least 150%.
\<close>

theorem liquidation_spares_healthy_troves:
  assumes "liq_exec E now sender call w = Inr w'" and "fetch_price E w = Inr (price, w0)"
    and "checkRecoveryMode_sol price w0 = Inr recovery" and "getCurrentICR (tm_of w) b price = Inr ICR"
    and "(if recovery then CCR else MCR) \<le> ICR"
  shows "same_trove (tm_of w) (tm_of w') b"
  using call_spares[OF assms(1-4)] assms(5) by (simp add: liq_bound_def)

lemma demo_mode:
  "fetch_price demo_lq (demo_system [1000000000000000000000]) = Inr (1000000000000000000000, demo_system [])"
  "checkRecoveryMode_sol 1000000000000000000000 (demo_system []) = Inr True"
  "getCurrentICR (tm_of (demo_system [1000000000000000000000])) 11 1000000000000000000000 = Inr 1515171749267368963"
  by (simp_all add: fetch_price_def demo_system_def sys_eval cong: rbind_weak_cong)

theorem liquidation_spares_healthy_troves_witness:
  "\<exists>w'. liq_exec demo_lq 1 9 (BatchLiquidate 9 [12, 13]) (demo_system [1000000000000000000000]) = Inr w' \<and>
    same_trove (tm_of (demo_system [1000000000000000000000])) (tm_of w') 11"
proof -
  obtain w' where w': "liq_exec demo_lq 1 9 (BatchLiquidate 9 [12, 13]) (demo_system [1000000000000000000000]) = Inr w'"
    using demo_liquidation by blast
  have "same_trove (tm_of (demo_system [1000000000000000000000])) (tm_of w') 11"
    by (rule liquidation_spares_healthy_troves[OF w' demo_mode]) (simp add: CCR_def)
  with w' show ?thesis by blast
qed

text \<open>
  C13. In recovery mode the two ways of liquidating differ: \<open>batchLiquidateTroves\<close> forgets to take the surplus of a closed trove
  off its running total of collateral, believes that the system has left recovery mode and passes over a trove that
  \<open>liquidateTroves\<close> closes, although the system is still in recovery mode.
\<close>

theorem batch_liquidation_misses_troves:
  "(let w = demo_run [1000000000000000000000] [] in
    (case liq_exec demo_lq 1 9 (BatchLiquidate 9 [12, 13]) w of
       Inl e \<Rightarrow> False
     | Inr w' \<Rightarrow> status (Troves (tm_of w') 12) = closedByLiquidation \<and> status (Troves (tm_of w') 13) = active \<and>
         checkRecoveryMode_sol 1000000000000000000000 w' = Inr True \<and>
         getCurrentICR (tm_of w') 13 1000000000000000000000 = Inr 1300000000000000000) \<and>
    (case liq_exec demo_lq 1 9 (LiquidateTroves 9 2) w of
       Inl e \<Rightarrow> False
     | Inr w' \<Rightarrow> status (Troves (tm_of w') 12) = closedByLiquidation \<and> status (Troves (tm_of w') 13) = closedByLiquidation))"
  using demo_batch demo_walk by (simp only: Let_def demo_run_system sys_run.simps)

section \<open>The operations of borrowers\<close>

text \<open>
  C9. A trove opened in a reachable state has the collateral sent, at least the minimal debt, a ratio of at least 110% (150% in
  recovery mode), leaves the system at 150% or more outside recovery mode, and touches no other trove.
\<close>

theorem opened_trove_is_safe:
  assumes "bo_openTrove E now sender b maxFee c n up lo (sys_run E calls (sys_deployed E maxTroves tokens ci x)) = Some (Inr w')"
  shows "\<exists>price w0 recovery. fetch_price E (sys_run E calls (sys_deployed E maxTroves tokens ci x)) = Inr (price, w0) \<and>
    checkRecoveryMode_sol price w0 = Inr recovery \<and>
    trove_opened b c n price recovery (sys_run E calls (sys_deployed E maxTroves tokens ci x)) w'"
  using open_facts[OF assms sys_run_inv] by blast

theorem opened_trove_is_safe_witness:
  "\<exists>w' price recovery. bo_openTrove demo_lq 1 14 14 1000000000000000000 3000000000000000000 2500000000000000000000 12 0
      (demo_system [2000000000000000000000]) = Some (Inr w') \<and>
    trove_opened 14 3000000000000000000 2500000000000000000000 price recovery (demo_system [2000000000000000000000]) w'"
proof -
  obtain w' where w': "bo_openTrove demo_lq 1 14 14 1000000000000000000 3000000000000000000 2500000000000000000000 12 0
      (demo_system [2000000000000000000000]) = Some (Inr w')" using returned[OF demo_open] by blast
  with opened_trove_is_safe[OF w'[unfolded demo_system_reached]] show ?thesis unfolding demo_system_reached by blast
qed

text \<open>
  C10. An adjustment in a reachable state, whoever sends it, touches one active trove.  Outside recovery mode that trove keeps 110%
  and the system 150%; in recovery mode no collateral is withdrawn and new debt needs 150%.  A repayment leaves the minimal debt.
\<close>

theorem adjusted_trove_is_safe:
  assumes "bo_adjustTrove E now sender b cd cw n inc up lo maxFee (sys_run E calls (sys_deployed E maxTroves tokens ci x)) = Some (Inr w')"
  shows "\<exists>price w0 recovery. fetch_price E (sys_run E calls (sys_deployed E maxTroves tokens ci x)) = Inr (price, w0) \<and>
    checkRecoveryMode_sol price w0 = Inr recovery \<and>
    trove_adjusted b cw n inc price recovery (sys_run E calls (sys_deployed E maxTroves tokens ci x)) w'"
  using adjust_facts[OF assms sys_run_inv] by blast

theorem adjusted_trove_is_safe_witness:
  "\<exists>w' price recovery. bo_adjustTrove demo_lq 1 11 11 1000000000000000000 0 1000000000000000000000 True 0 13 1000000000000000000
      (demo_system [2000000000000000000000]) = Some (Inr w') \<and>
    trove_adjusted 11 0 1000000000000000000000 True price recovery (demo_system [2000000000000000000000]) w'"
proof -
  obtain w' where w': "bo_adjustTrove demo_lq 1 11 11 1000000000000000000 0 1000000000000000000000 True 0 13 1000000000000000000
      (demo_system [2000000000000000000000]) = Some (Inr w')" using returned[OF demo_adjust] by blast
  with adjusted_trove_is_safe[OF w'[unfolded demo_system_reached]] show ?thesis unfolding demo_system_reached by blast
qed

text \<open>
  C12. \<open>closeTrove\<close> closes the trove of its caller, whatever owner it is called for, and no other trove changes.  It succeeds only
  outside recovery mode and leaves the system at 150% or more.  The debt that disappears from the pools and from the supply is
  exactly the trove's debt with the pending rewards it has; all of it but the reserve is burned from the caller, the reserve is
  burned from the gas pool, and no other USDD balance changes.  The collateral that leaves the active pool is exactly the
  trove's with its pending rewards, and the active pool transfers it to the caller.
\<close>

theorem closing_acts_on_the_caller:
  assumes "bo_closeTrove E sender onBehalfOf w = Inr w'"
  shows "\<exists>price w0. fetch_price E w = Inr (price, w0) \<and> checkRecoveryMode_sol price w0 = Inr False \<and> trove_closed E sender price w w'"
  using close_facts[OF assms] by blast

theorem closing_acts_on_the_caller_witness:
  "\<exists>w' price. bo_closeTrove demo_lq 12 12 (demo_run [2000000000000000000000] [(1, 11, TransferUSDD 12 100000000000000000000)]) = Inr w' \<and>
    trove_closed demo_lq 12 price (demo_run [2000000000000000000000] [(1, 11, TransferUSDD 12 100000000000000000000)]) w'"
  using demo_close closing_acts_on_the_caller by (metis is_ok.elims(2))

section \<open>Redemptions\<close>

text \<open>
  C11. A redemption is a fair exchange: at most the requested USDD of the depositor are burned against the same amount of debt, the
  collateral that leaves the system is worth no more than these USDD at the oracle's price, every trove closed on the way
  burns its reserve, and the system's ratio was at least 110%.
\<close>

theorem redemption_is_fair_exchange:
  assumes "tm_redeemCollateral E now sender depositor amount hint up lo h iterations maxFee w = Some (Inr w')"
  shows "\<exists>price w0 TCR. fetch_price E w = Inr (price, w0) \<and> getTCR_sol price w0 = Inr TCR \<and> MCR \<le> TCR \<and>
    exchanged E depositor amount price w w'"
  using redeem_facts[OF assms] by metis

theorem redemption_is_fair_exchange_witness:
  "\<exists>w' price. tm_redeemCollateral demo_lq 1209600 11 11 2010000000000000000000 12 0 0 0 0 1000000000000000000
      (demo_system [2000000000000000000000]) = Some (Inr w') \<and>
    exchanged demo_lq 11 2010000000000000000000 price (demo_system [2000000000000000000000]) w'"
  using returned[OF demo_redemption] redemption_is_fair_exchange by blast

end
