(* ===== verification/Spec2Isabelle.thy ===== *)
theory Spec2Isabelle
  imports Helper_Loops Old_Deployment Fuzz_Test Trove_Manager Fee_Client Deployment_Wiring Proxy_Helpers Mainnet Mutation_Tool
    Gas_Scripts Trove_Listing Decimal_Rounding Lib_Trove Liqbot Pool_Backing System_Properties
begin

text \<open>
  A model of the USDD stablecoin repository: the JavaScript that deploys, drives, measures and tests
  the contracts (\<open>packages/contracts\<close>), the liquidation bot (\<open>packages/examples\<close>) with the part of
  the SDK it computes with (\<open>packages/lib-base\<close>, and the readers of \<open>packages/lib-ethers\<close>), and the
  parts of the Solidity contracts these programs rely on.

  \<^bold>\<open>How the parts interact.\<close>  The deployment scripts create the contracts and wire their addresses;
  the test helpers call the wired contracts through web3 objects, directly or through DSProxy
  wrappers, and read back transaction logs; the bot asks a node for the troves and decides by the
  SDK's arithmetic whether to liquidate them.  All of them depend on a few contract functions: SafeMath,
  the fee schedule and the reward accounting of TroveManager, and the sorted list of troves.  The
  contracts themselves form a system: BorrowerOperations opens, adjusts and closes troves, TroveManager liquidates
  and redeems them, the active, default, surplus and stability pools hold what is moved, the stablecoin is
  minted and burned on the way, and fees go to the stakers.  The model therefore has a Solidity layer, with the histories of the
  whole system for one collateral token, and the JavaScript layers are proved against it.

  \<^bold>\<open>Shared vocabulary.\<close>
  \<^item> \<open>Prelude\<close>: results (\<open>'a res\<close>: an error or a value), the monad of asynchronous JavaScript with a
    world that survives exceptions, the \<open>for ... of\<close> loop and its invariant and refinement rules.
  \<^item> \<open>Js_String\<close>: the string methods of JavaScript on ASCII strings, decimal printing and reading.

  \<^bold>\<open>Contracts.\<close>
  \<^item> \<open>Solidity_Math\<close>: \<open>SafeMath.sol\<close> on 256-bit words and as checked arithmetic on numbers below
    \<open>2^256\<close> (C23: the first refines the second), \<open>LiquityMath.sol\<close> with the power loop (C24), the
    constants of \<open>LiquityBase.sol\<close>.
  \<^item> \<open>Trove_Manager\<close>: the storage of \<open>TroveManager.sol\<close>, its fees and decaying base rate, pending
    rewards, collateral ratios, stakes and the owners array.
  \<^item> \<open>Sorted_Troves\<close>: \<open>SortedTroves.sol\<close>, the doubly linked list in storage.  \<open>list_inv s xs\<close> says that
    the storage \<open>s\<close> represents the list \<open>xs\<close>; insertion refines insertion into a descending list (C20),
    every history keeps the list sorted (C21), the search returns for any hints (C22), removal undoes
    insertion, and the operations revert in exactly the documented cases.  \<open>Sorted_Troves_Total\<close>: the operations return and
    keep the list well linked also when reading a ratio may revert.
  \<^item> \<open>Multi_Trove_Getter\<close>: \<open>MultiTroveGetter.sol\<close>, windows of the sorted list.
  \<^item> \<open>Usdd_Token\<close>: \<open>USDDToken.sol\<close>, balances, allowances and supply (C19); \<open>Ledger\<close> has the
    lemmas on sums over the entries of a mapping.
  \<^item> \<open>Community_Issuance\<close>: \<open>DEFT/CommunityIssuance.sol\<close>; the issued total stays within the cap.
  \<^item> \<open>Stability_Pool\<close>: \<open>StabilityPool.sol\<close>, every operation and view.  \<open>Deposit_Book\<close> is the abstract
    specification (amounts, product, scale, epoch, rounding error) that the contract refines
    (C16); \<open>Stability_Pool_Laws\<close> follows the exact worth of the deposits, a real number, through
    every operation, so that claims exceed the pool by dust only (C15); \<open>Stability_Pool_Demo\<close> evaluates
    histories, among them one where the dust makes a withdrawal revert (C17), and describes the offset
    that empties the pool; \<open>Stability_Pool_Tokens\<close> says what each helper of the
    pool does to its tokens and its tracker of deposits.
  \<^item> \<open>Reward_Pot\<close>: the abstract reserve behind rewards per unit of stake, a pot that covers all claims and gets back
    its rounding errors.  It serves the stakers and the redistributed collateral alike.
  \<^item> \<open>Deft_Staking\<close>: \<open>DEFT/DEFTStaking.sol\<close>; the USDD gains of all stakers are covered (C14).
  \<^item> \<open>Pools\<close>: \<open>ActivePool.sol\<close>, \<open>DefaultPool.sol\<close>, \<open>CollSurplusPool.sol\<close>, and the world \<open>lq_world\<close> of all contracts:
    the world of the Stability Pool (with the token, TroveManager, the list and the active pool), the two other pools and the
    staking contract.
  \<^item> \<open>Liquidation\<close>: the liquidation functions of \<open>TroveManager.sol\<close> in both modes.  \<open>Liquidation_Laws\<close> describes a
    sequence of closings, \<open>Liquidation_Calls\<close> a whole call: what it conserves (C7) and whom it spares
    (C8); \<open>Liquidation_Reserve\<close> the rewards of a redistribution.
  \<^item> \<open>Borrower_Operations\<close>: \<open>BorrowerOperations.sol\<close> with the functions of TroveManager reserved to it; \<open>Redemption\<close>:
    \<open>redeemCollateral\<close>.
  \<^item> \<open>System_Books\<close>: the invariant \<open>sys_inv\<close> of the books and its preservation by every operation; \<open>System_History\<close>: the
    storage after deployment, the calls open to users and any sequence of them; \<open>System_Safety\<close>: what one
    operation guarantees; \<open>System_Demo\<close>: a system of three troves reached from deployment and evaluated.
    \<open>Pool_Backing\<close> follows the tokens of the Stability Pool through every call: they back its deposits
    (C18).  \<open>System_List\<close> follows the sorted list through every operation, \<open>System_Troves\<close> the owners array and the debts.
    \<open>System_Properties\<close> has the results: the books balance (C1), the default pool pays all
    rewards (C2), the sorted list holds the active troves (C3), every call returns
    (C4), the owners array agrees with it (C5), no active trove is below the minimal
    debt (C6), opening and adjusting keep the ratios (C9, C10), redemptions are fair
    exchanges (C11), closing acts on the caller (C12), and the batch liquidation in recovery
    mode misses troves (C13).
  \<^item> \<open>Deployment\<close>: a chain (code, classes, owners, slots, allowances), and on it the constructors and
    address setters of all contracts.

  \<^bold>\<open>JavaScript of packages/contracts.\<close>
  \<^item> \<open>BN_Converter\<close>: \<open>utils/BNConverter.js\<close>, scaling decimal strings (C25) and back.
  \<^item> \<open>Test_Helper\<close>, \<open>Helper_Events\<close>, \<open>Contracts_Api\<close>, \<open>Helper_Chain\<close>, \<open>Helper_Loops\<close>:
    \<open>utils/testHelpers.js\<close>, namely its constants, arithmetic, statistics and ABI encoding; the
    readers of transaction logs; the interface of the contracts object; single operations and
    readers; and the loops over accounts, of which those that open or adjust troves cannot work on these contracts
    (C34).
  \<^item> \<open>Fee_Client\<close>: the helpers over the TroveManager model.  The locale \<open>borrowing_fees\<close> states what
    they use of the fee functions and is interpreted on the model (C35: what opening a trove
    without amounts asks for, C36).
  \<^item> \<open>Trove_Listing\<close>: the locale \<open>trove_list\<close> states what the helper \<open>logActiveAccounts\<close> uses of the
    list and is interpreted on the SortedTroves storage.
  \<^item> \<open>Deployment\<close>, \<open>Deployment_Wiring\<close>: \<open>utils/deploymentHelpers.js\<close>; the Hardhat path wires the
    system but for ten variables (C37), no sequence of setter calls rewires it (C38), the
    Truffle path is broken.
  \<^item> \<open>Proxy_Helpers\<close>: \<open>utils/proxyHelpers.js\<close>, calls routed through the proxy of the sender.
  \<^item> \<open>Mainnet\<close>: \<open>utils/mainnetDeploymentHelpers.js\<close> and \<open>mainnetDeployment/\<close>; deploying, waiting for a transaction
    and saving the file are steps that may fail; the state file makes the core deployment crash safe (C39) and resumable, the script as a whole never completes.
  \<^item> \<open>Mutation_Tool\<close>: \<open>eth-mutants-custom/\<close>, mutators, baseline and restoration (C40).
  \<^item> \<open>Gas_Scripts\<close>: \<open>utils/processGasOutput.js\<close> and \<open>utils/makeAccounts.js\<close>.
  \<^item> \<open>Old_Deployment\<close>: \<open>utils/truffleDeploymentHelpers.js\<close> and \<open>migrations/\<close>, which never wire the system.
  \<^item> \<open>Fuzz_Test\<close>: \<open>fuzzTests/PoolManager_AllDepositorsCanWithdrawTest.js\<close>, the books of a random run, and that no case
    gets past its first line.

  \<^bold>\<open>SDK and bot.\<close>
  \<^item> \<open>Lib_Decimal\<close>: \<open>lib-base/src/Decimal.ts\<close>.  A Decimal is a non-negative integer scaled by 1e18:
    printing and reading round trip (C27), and printing with a precision rounds half up.
    \<open>Decimal_Rounding\<close>: the operations on the rationals that Decimals stand for, exact or rounded within one unit of the last
    place (C26).
  \<^item> \<open>Lib_Base\<close>: \<open>constants.ts\<close> and \<open>Fees.ts\<close>; the rates equal the contract's (C28).
  \<^item> \<open>Lib_Trove\<close>: \<open>Trove.ts\<close>; differences of troves can be applied (C29), and a stored trove with the
    contract's totals applied is the one the contract computes with (C30).  The getters the SDK asks for
    these totals are those of the original contracts: \<open>getTotalRedistributed\<close> fails on this one.
  \<^item> \<open>Liqbot\<close>: \<open>examples/src/liqbot.js\<close>; which troves it selects from a list (C31), that it never sends a
    transaction because of a misnamed constant (C32), and that against these contracts it does not even get a list
    (C33).

  \<^bold>\<open>Conventions.\<close>  JavaScript BN values and Decimals are integers, Solidity \<open>uint256\<close> values are naturals
  whose operations fail at \<open>2^256\<close>.  An exception, an EVM revert or an undefined function is a value of
  \<open>js_error\<close>.  A call of a contract that reverts leaves the chain unchanged; what a JavaScript function
  did before an exception remains.  Addresses are naturals, 0 is the zero address.

  \<^bold>\<open>Loops and bounds.\<close>  Loops over lists are structural recursion; the power loops and the decimal parser
  have termination measures.  The two searches of \<open>SortedTroves\<close> and the loop of \<open>logActiveAccounts\<close>
  follow stored links and may not end on an arbitrary storage: they are partial functions or take the
  number of steps from the code; C22 and \<open>logActiveAccounts_lists_contract\<close> prove that
  they return on a well-linked storage.  The operations that insert into the list, and the two loops of a
  redemption, have an optional result for the same reason; in every history they return (C4).  The
  agreement with the contract's decay (C28) holds for 525600000 minutes after the last fee operation,
  where the contract caps the exponent, and up to the last date JavaScript can represent.

  \<^bold>\<open>Parameters.\<close>  Code outside the repository is an argument of the definitions that use it: decimal.js and
  the BN constructor, the web3 contracts object, DSProxy and its factory, Uniswap, Chainlink,
  Etherscan, the Solidity parser, sha1, jsdiff and the npm process of the mutation tester, and the node
  and wallet of the bot, the DEFT and collateral tokens.  The price feed, which polls oracles, is an
  argument of the contracts too, and so is \<open>BorrowerOperations.moveCollGainToTrove\<close> in the theories of the Stability Pool
  alone (the histories of the system make the call); none of these calls back.
  Where a theorem assumes something of them, it is a named hypothesis.

  \<^bold>\<open>Not modelled.\<close>  The histories of the system have one collateral token and leave out the gateway.  The event entries of the contracts are left
  out, and so are \<open>HintHelpers.sol\<close>, \<open>WETHGateway.sol\<close>, \<open>PriceFeed.sol\<close> and the liquidity rewards.  Of TypeScript, the transaction building of lib-ethers, the React
  front end and the subgraph are left out, and so are the formatting classes \<open>Difference\<close> and
  \<open>Percent\<close>.  The gas and error-accumulation scripts (\<open>gasTest\<close>, \<open>errorAccumulationTest\<close>,
  \<open>fuzzTests/echidna_debug.js\<close>, \<open>utils/mathPlayground.js\<close>) are sequences of measurements that call the helpers, and
  \<open>deploymentGasAndBytecode.js\<close> logs the gas of the Hardhat deployment.  \<open>hardhatAccountsList*.js\<close>, \<open>oracleABIs.js\<close> and the ABI files are data.
\<close>

end
